(* ===== verification/Prelude.thy ===== *)
theory Prelude
  imports Main "HOL-Library.Word"
begin

unbundle bit_operations_syntax

text \<open>
  Vocabulary and automation shared by every component: the machine integers of the code,
  bit flags (the \<^verbatim>\<open>QFlags\<close> of the C++ classes), C strings, and a few facts on
  lists.  Collections:
  \<^item> \<open>flag_simps\<close>: rewriting membership in a flag word to single bits;
  \<^item> \<open>effect_simps\<close>: what the X requests of an operation are.
\<close>

named_theorems flag_simps "flag words as sets of bits"
named_theorems effect_simps "the effects an operation records"

section \<open>Machine integers\<close>

text \<open>
  \<^verbatim>\<open>uint32_t\<close>, \<^verbatim>\<open>int\<close>, X atoms, windows and timestamps are 32 bits wide.  A C++
  \<^verbatim>\<open>int\<close> is the word read by \<open>sint\<close>; conversions between \<^verbatim>\<open>int\<close> and
  \<^verbatim>\<open>uint32_t\<close> keep the bits, so they are the identity here.
\<close>

type_synonym u32 = "32 word"
type_synonym i32 = "32 word"

text \<open>The number of iterations of \<^verbatim>\<open>for (int i = 0; i < n; ++i)\<close>.\<close>

definition loop_count :: "i32 \<Rightarrow> nat" where
  "loop_count n = nat (sint n)"

lemma sint_minus_1: "1 \<le> sint (d :: i32) \<Longrightarrow> sint (d - 1) = sint d - 1"
  using sint_lt [of d] sint_ge [of d]
  by (simp add: sint_word_ariths signed_take_bit_int_eq_self)

lemma loop_count_pred: "1 \<le> sint d \<Longrightarrow> loop_count (d - 1) = loop_count d - 1"
  by (simp add: loop_count_def sint_minus_1 nat_diff_distrib')

section \<open>Flags\<close>

definition bitflag :: "nat \<Rightarrow> u32" where
  "bitflag k = push_bit k 1"

definition hasf :: "u32 \<Rightarrow> u32 \<Rightarrow> bool" where
  "hasf w m \<longleftrightarrow> w AND m \<noteq> 0"

lemma bit_bitflag [flag_simps]: "bit (bitflag k) n \<longleftrightarrow> n = k \<and> k < 32"
  unfolding bitflag_def bit_push_bit_iff by (auto simp: bit_1_iff)

lemma hasf_bitflag [flag_simps]: "hasf w (bitflag k) \<longleftrightarrow> bit w k"
proof
  assume "hasf w (bitflag k)"
  then obtain n where "bit (w AND bitflag k) n"
    unfolding hasf_def by (metis bit_eq_iff bit_0_eq bot_apply bot_bool_def)
  then show "bit w k" by (auto simp: bit_and_iff bit_bitflag)
next
  assume k: "bit w k"
  then have "k < 32" using bit_imp_le_length by fastforce
  with k have "bit (w AND bitflag k) k" by (simp add: bit_and_iff bit_bitflag)
  then show "hasf w (bitflag k)" unfolding hasf_def by (metis bit_0_eq bot_apply bot_bool_def)
qed

lemma hasf_or: "hasf w (a OR b) \<longleftrightarrow> hasf w a \<or> hasf w b"
  by (simp add: hasf_def bit.conj_disj_distrib or_eq_0_iff)

lemma hasf_zero [simp]: "\<not> hasf 0 m" "\<not> hasf w 0"
  by (simp_all add: hasf_def)

text \<open>The union of a list of flag words, as repeated \<^verbatim>\<open>|=\<close> builds it.\<close>

definition or_all :: "u32 list \<Rightarrow> u32" where
  "or_all ws = fold (\<lambda>w acc. acc OR w) ws 0"

lemma fold_or: "fold (\<lambda>w acc. acc OR w) ws (a :: u32) = a OR or_all ws"
proof (induction ws arbitrary: a)
  case Nil
  then show ?case by (simp add: or_all_def)
next
  case (Cons w ws)
  have w: "or_all (w # ws) = w OR or_all ws"
    using Cons.IH [of w] by (simp add: or_all_def)
  have "fold (\<lambda>w acc. acc OR w) (w # ws) a = (a OR w) OR or_all ws"
    using Cons.IH [of "a OR w"] by simp
  then show ?case unfolding w by (simp only: or.assoc)
qed

lemma or_all_Nil [simp]: "or_all [] = 0"
  by (simp add: or_all_def)

lemma or_all_Cons [simp]: "or_all (w # ws) = w OR or_all ws"
  by (simp add: or_all_def [of "w # ws"] fold_or)

lemma or_all_append [simp]: "or_all (xs @ ys) = or_all xs OR or_all ys"
  by (induction xs) (auto intro!: bit_word_eqI simp: bit_or_iff)

lemma bit_or_all: "bit (or_all ws) n \<longleftrightarrow> (\<exists>w \<in> set ws. bit w n)"
  by (induction ws) (auto simp: bit_or_iff)

section \<open>C strings\<close>

text \<open>
  A \<^verbatim>\<open>char *\<close> is \<^verbatim>\<open>nullptr\<close> or the bytes before the terminating NUL.
\<close>

type_synonym cstr = "string option"

definition NUL :: char where
  "NUL = CHR 0x00"

definition no_nul :: "string \<Rightarrow> bool" where
  "no_nul s \<longleftrightarrow> NUL \<notin> set s"

definition c_string :: "string \<Rightarrow> string" where
  "c_string s = takeWhile (\<lambda>c. c \<noteq> NUL) s"

lemma c_string_id [simp]: "no_nul s \<Longrightarrow> c_string s = s"
  by (auto simp: c_string_def no_nul_def takeWhile_eq_all_conv)

lemma no_nul_c_string [simp]: "no_nul (c_string s)"
  by (auto simp: c_string_def no_nul_def dest: set_takeWhileD)

lemma no_nul_simps [simp]:
  "no_nul []" "no_nul (c # s) \<longleftrightarrow> c \<noteq> NUL \<and> no_nul s"
  "no_nul (s @ t) \<longleftrightarrow> no_nul s \<and> no_nul t"
  by (auto simp: no_nul_def)

section \<open>Lists\<close>

text \<open>Writing past the end of a zero-filled block of memory.\<close>

definition pad_to :: "'a \<Rightarrow> nat \<Rightarrow> 'a list \<Rightarrow> 'a list" where
  "pad_to z n xs = xs @ replicate (n - length xs) z"

lemma length_pad_to [simp]: "length (pad_to z n xs) = max (length xs) n"
  by (simp add: pad_to_def)

lemma pad_to_id [simp]: "n \<le> length xs \<Longrightarrow> pad_to z n xs = xs"
  by (simp add: pad_to_def)

lemma nth_pad_to: "i < max (length xs) n \<Longrightarrow> pad_to z n xs ! i = (if i < length xs then xs ! i else z)"
  by (auto simp: pad_to_def nth_append)

lemma pad_to_Suc_update:
  "length xs = i \<Longrightarrow> (pad_to z (Suc i) xs)[i := v] = xs @ [v]"
  by (simp add: pad_to_def list_update_append)

lemma drop_eq_Cons_iff: "drop c xs = y # ys \<Longrightarrow> c < length xs \<and> xs ! c = y \<and> drop (Suc c) xs = ys"
  by (metis Cons_nth_drop_Suc drop_all list.inject list.simps(3) not_le)

end
