(* ===== verification/NetDefs.thy ===== *)
theory NetDefs
  imports Prelude
begin

text \<open>
  The data types of \<^verbatim>\<open>src/src/netwm_def.h\<close>: the plain structs of the NET classes and
  the enumerations of class \<^verbatim>\<open>NET\<close>.  An enumeration whose values are or'ed together
  is a datatype of its constants with a function to the bits each constant stands for; a set of
  flags is the 32-bit word the code keeps.  \<^verbatim>\<open>NET::Max\<close> is called \<open>MaxBoth\<close>.
\<close>

section \<open>Structs\<close>

record net_point =
  pt_x :: i32
  pt_y :: i32

record net_size =
  sz_width :: i32
  sz_height :: i32

record net_rect =
  rect_pos :: net_point
  rect_size :: net_size

record net_icon =
  icon_size :: net_size
  icon_data :: "u32 list option"

record net_extended_strut =
  left_width :: i32
  left_start :: i32
  left_end :: i32
  right_width :: i32
  right_start :: i32
  right_end :: i32
  top_width :: i32
  top_start :: i32
  top_end :: i32
  bottom_width :: i32
  bottom_start :: i32
  bottom_end :: i32

record net_strut =
  strut_left :: i32
  strut_right :: i32
  strut_top :: i32
  strut_bottom :: i32

record net_fullscreen_monitors =
  mon_top :: i32
  mon_bottom :: i32
  mon_left :: i32
  mon_right :: i32

text \<open>The default constructors.\<close>

definition point0 :: net_point where
  "point0 = \<lparr>pt_x = 0, pt_y = 0\<rparr>"

definition size0 :: net_size where
  "size0 = \<lparr>sz_width = 0, sz_height = 0\<rparr>"

definition rect0 :: net_rect where
  "rect0 = \<lparr>rect_pos = point0, rect_size = size0\<rparr>"

definition icon0 :: net_icon where
  "icon0 = \<lparr>icon_size = size0, icon_data = None\<rparr>"

definition extended_strut0 :: net_extended_strut where
  "extended_strut0 = \<lparr>left_width = 0, left_start = 0, left_end = 0,
     right_width = 0, right_start = 0, right_end = 0,
     top_width = 0, top_start = 0, top_end = 0,
     bottom_width = 0, bottom_start = 0, bottom_end = 0\<rparr>"

definition strut0 :: net_strut where
  "strut0 = \<lparr>strut_left = 0, strut_right = 0, strut_top = 0, strut_bottom = 0\<rparr>"

definition fullscreen_monitors0 :: net_fullscreen_monitors where
  "fullscreen_monitors0 = \<lparr>mon_top = - 1, mon_bottom = 0, mon_left = 0, mon_right = 0\<rparr>"

definition isSet :: "net_fullscreen_monitors \<Rightarrow> bool" where
  "isSet m \<longleftrightarrow> mon_top m \<noteq> - 1"

section \<open>Enumerations\<close>

datatype net_role = Client | WindowManager

datatype window_type =
    Unknown
  | Normal
  | Desktop
  | Dock
  | Toolbar
  | Menu
  | Dialog
  | Override
  | TopMenu
  | Utility
  | Splash
  | DropdownMenu
  | PopupMenu
  | Tooltip
  | Notification
  | ComboBox
  | DNDIcon
  | OnScreenDisplay
  | CriticalNotification
  | AppletPopup

text \<open>\<^verbatim>\<open>NET::WindowTypeMask\<close>\<close>

datatype window_type_mask =
    NormalMask
  | DesktopMask
  | DockMask
  | ToolbarMask
  | MenuMask
  | DialogMask
  | OverrideMask
  | TopMenuMask
  | UtilityMask
  | SplashMask
  | DropdownMenuMask
  | PopupMenuMask
  | TooltipMask
  | NotificationMask
  | ComboBoxMask
  | DNDIconMask
  | OnScreenDisplayMask
  | CriticalNotificationMask
  | AppletPopupMask
  | AllTypesMask

primrec type_flag :: "window_type_mask \<Rightarrow> u32" where
  "type_flag NormalMask = bitflag 0"
| "type_flag DesktopMask = bitflag 1"
| "type_flag DockMask = bitflag 2"
| "type_flag ToolbarMask = bitflag 3"
| "type_flag MenuMask = bitflag 4"
| "type_flag DialogMask = bitflag 5"
| "type_flag OverrideMask = bitflag 6"
| "type_flag TopMenuMask = bitflag 7"
| "type_flag UtilityMask = bitflag 8"
| "type_flag SplashMask = bitflag 9"
| "type_flag DropdownMenuMask = bitflag 10"
| "type_flag PopupMenuMask = bitflag 11"
| "type_flag TooltipMask = bitflag 12"
| "type_flag NotificationMask = bitflag 13"
| "type_flag ComboBoxMask = bitflag 14"
| "type_flag DNDIconMask = bitflag 15"
| "type_flag OnScreenDisplayMask = bitflag 16"
| "type_flag CriticalNotificationMask = bitflag 17"
| "type_flag AppletPopupMask = bitflag 18"
| "type_flag AllTypesMask = - 1"

text \<open>\<^verbatim>\<open>NET::State\<close>\<close>

datatype net_state =
    Modal
  | Sticky
  | MaxVert
  | MaxHoriz
  | MaxBoth
  | Shaded
  | SkipTaskbar
  | KeepAbove
  | SkipPager
  | Hidden
  | FullScreen
  | KeepBelow
  | DemandsAttention
  | SkipSwitcher
  | Focused

primrec state_flag :: "net_state \<Rightarrow> u32" where
  "state_flag Modal = bitflag 0"
| "state_flag Sticky = bitflag 1"
| "state_flag MaxVert = bitflag 2"
| "state_flag MaxHoriz = bitflag 3"
| "state_flag MaxBoth = bitflag 2 OR bitflag 3"
| "state_flag Shaded = bitflag 4"
| "state_flag SkipTaskbar = bitflag 5"
| "state_flag KeepAbove = bitflag 6"
| "state_flag SkipPager = bitflag 7"
| "state_flag Hidden = bitflag 8"
| "state_flag FullScreen = bitflag 9"
| "state_flag KeepBelow = bitflag 10"
| "state_flag DemandsAttention = bitflag 11"
| "state_flag SkipSwitcher = bitflag 12"
| "state_flag Focused = bitflag 13"

text \<open>Values of \<^verbatim>\<open>_NET_WM_MOVERESIZE\<close> messages.\<close>

datatype net_direction =
    TopLeft | Top | TopRight | Right | BottomRight | Bottom | BottomLeft | Left
  | Move | KeyboardSize | KeyboardMove | MoveResizeCancel

primrec direction_value :: "net_direction \<Rightarrow> u32" where
  "direction_value TopLeft = 0"
| "direction_value Top = 1"
| "direction_value TopRight = 2"
| "direction_value Right = 3"
| "direction_value BottomRight = 4"
| "direction_value Bottom = 5"
| "direction_value BottomLeft = 6"
| "direction_value Left = 7"
| "direction_value Move = 8"
| "direction_value KeyboardSize = 9"
| "direction_value KeyboardMove = 10"
| "direction_value MoveResizeCancel = 11"

datatype mapping_state = Visible | Withdrawn | Iconic

text \<open>\<^verbatim>\<open>NET::Action\<close>\<close>

datatype net_action =
    ActionMove
  | ActionResize
  | ActionMinimize
  | ActionShade
  | ActionStick
  | ActionMaxVert
  | ActionMaxHoriz
  | ActionMax
  | ActionFullScreen
  | ActionChangeDesktop
  | ActionClose

primrec action_flag :: "net_action \<Rightarrow> u32" where
  "action_flag ActionMove = bitflag 0"
| "action_flag ActionResize = bitflag 1"
| "action_flag ActionMinimize = bitflag 2"
| "action_flag ActionShade = bitflag 3"
| "action_flag ActionStick = bitflag 4"
| "action_flag ActionMaxVert = bitflag 5"
| "action_flag ActionMaxHoriz = bitflag 6"
| "action_flag ActionMax = bitflag 5 OR bitflag 6"
| "action_flag ActionFullScreen = bitflag 7"
| "action_flag ActionChangeDesktop = bitflag 8"
| "action_flag ActionClose = bitflag 9"

text \<open>\<^verbatim>\<open>NET::Property\<close>\<close>

datatype net_property =
    Supported
  | ClientList
  | ClientListStacking
  | NumberOfDesktops
  | DesktopGeometry
  | DesktopViewport
  | CurrentDesktop
  | DesktopNames
  | ActiveWindow
  | WorkArea
  | SupportingWMCheck
  | VirtualRoots
  | CloseWindow
  | WMMoveResize
  | WMName
  | WMVisibleName
  | WMDesktop
  | WMWindowType
  | WMState
  | WMStrut
  | WMIconGeometry
  | WMIcon
  | WMPid
  | WMHandledIcons
  | WMPing
  | XAWMState
  | WMFrameExtents
  | WMIconName
  | WMVisibleIconName
  | WMGeometry
  | WMAllProperties

primrec prop_flag :: "net_property \<Rightarrow> u32" where
  "prop_flag Supported = bitflag 0"
| "prop_flag ClientList = bitflag 1"
| "prop_flag ClientListStacking = bitflag 2"
| "prop_flag NumberOfDesktops = bitflag 3"
| "prop_flag DesktopGeometry = bitflag 4"
| "prop_flag DesktopViewport = bitflag 5"
| "prop_flag CurrentDesktop = bitflag 6"
| "prop_flag DesktopNames = bitflag 7"
| "prop_flag ActiveWindow = bitflag 8"
| "prop_flag WorkArea = bitflag 9"
| "prop_flag SupportingWMCheck = bitflag 10"
| "prop_flag VirtualRoots = bitflag 11"
| "prop_flag CloseWindow = bitflag 13"
| "prop_flag WMMoveResize = bitflag 14"
| "prop_flag WMName = bitflag 15"
| "prop_flag WMVisibleName = bitflag 16"
| "prop_flag WMDesktop = bitflag 17"
| "prop_flag WMWindowType = bitflag 18"
| "prop_flag WMState = bitflag 19"
| "prop_flag WMStrut = bitflag 20"
| "prop_flag WMIconGeometry = bitflag 21"
| "prop_flag WMIcon = bitflag 22"
| "prop_flag WMPid = bitflag 23"
| "prop_flag WMHandledIcons = bitflag 24"
| "prop_flag WMPing = bitflag 25"
| "prop_flag XAWMState = bitflag 27"
| "prop_flag WMFrameExtents = bitflag 28"
| "prop_flag WMIconName = bitflag 29"
| "prop_flag WMVisibleIconName = bitflag 30"
| "prop_flag WMGeometry = bitflag 31"
| "prop_flag WMAllProperties = - 1"

text \<open>\<^verbatim>\<open>NET::Property2\<close>\<close>

datatype net_property2 =
    WM2UserTime
  | WM2StartupId
  | WM2TransientFor
  | WM2GroupLeader
  | WM2AllowedActions
  | WM2RestackWindow
  | WM2MoveResizeWindow
  | WM2ExtendedStrut
  | WM2KDETemporaryRules
  | WM2WindowClass
  | WM2WindowRole
  | WM2ClientMachine
  | WM2ShowingDesktop
  | WM2Opacity
  | WM2DesktopLayout
  | WM2FullPlacement
  | WM2FullscreenMonitors
  | WM2FrameOverlap
  | WM2Activities
  | WM2BlockCompositing
  | WM2KDEShadow
  | WM2Urgency
  | WM2Input
  | WM2Protocols
  | WM2InitialMappingState
  | WM2IconPixmap
  | WM2OpaqueRegion
  | WM2DesktopFileName
  | WM2GTKFrameExtents
  | WM2AppMenuServiceName
  | WM2AppMenuObjectPath
  | WM2GTKApplicationId
  | WM2GTKShowWindowMenu
  | WM2AllProperties

primrec prop2_flag :: "net_property2 \<Rightarrow> u32" where
  "prop2_flag WM2UserTime = bitflag 0"
| "prop2_flag WM2StartupId = bitflag 1"
| "prop2_flag WM2TransientFor = bitflag 2"
| "prop2_flag WM2GroupLeader = bitflag 3"
| "prop2_flag WM2AllowedActions = bitflag 4"
| "prop2_flag WM2RestackWindow = bitflag 5"
| "prop2_flag WM2MoveResizeWindow = bitflag 6"
| "prop2_flag WM2ExtendedStrut = bitflag 7"
| "prop2_flag WM2KDETemporaryRules = bitflag 8"
| "prop2_flag WM2WindowClass = bitflag 9"
| "prop2_flag WM2WindowRole = bitflag 10"
| "prop2_flag WM2ClientMachine = bitflag 11"
| "prop2_flag WM2ShowingDesktop = bitflag 12"
| "prop2_flag WM2Opacity = bitflag 13"
| "prop2_flag WM2DesktopLayout = bitflag 14"
| "prop2_flag WM2FullPlacement = bitflag 15"
| "prop2_flag WM2FullscreenMonitors = bitflag 16"
| "prop2_flag WM2FrameOverlap = bitflag 17"
| "prop2_flag WM2Activities = bitflag 18"
| "prop2_flag WM2BlockCompositing = bitflag 19"
| "prop2_flag WM2KDEShadow = bitflag 20"
| "prop2_flag WM2Urgency = bitflag 21"
| "prop2_flag WM2Input = bitflag 22"
| "prop2_flag WM2Protocols = bitflag 23"
| "prop2_flag WM2InitialMappingState = bitflag 24"
| "prop2_flag WM2IconPixmap = bitflag 25"
| "prop2_flag WM2OpaqueRegion = bitflag 25"
| "prop2_flag WM2DesktopFileName = bitflag 26"
| "prop2_flag WM2GTKFrameExtents = bitflag 27"
| "prop2_flag WM2AppMenuServiceName = bitflag 28"
| "prop2_flag WM2AppMenuObjectPath = bitflag 29"
| "prop2_flag WM2GTKApplicationId = bitflag 30"
| "prop2_flag WM2GTKShowWindowMenu = bitflag 31"
| "prop2_flag WM2AllProperties = - 1"

text \<open>The sentinel desktop number, an \<^verbatim>\<open>int\<close> of value -1.\<close>

definition OnAllDesktops :: i32 where
  "OnAllDesktops = - 1"

datatype request_source = FromUnknown | FromApplication | FromTool

primrec source_value :: "request_source \<Rightarrow> u32" where
  "source_value FromUnknown = 0"
| "source_value FromApplication = 1"
| "source_value FromTool = 2"

datatype orientation = OrientationHorizontal | OrientationVertical

primrec orientation_value :: "orientation \<Rightarrow> u32" where
  "orientation_value OrientationHorizontal = 0"
| "orientation_value OrientationVertical = 1"

datatype desktop_layout_corner =
    DesktopLayoutCornerTopLeft
  | DesktopLayoutCornerTopRight
  | DesktopLayoutCornerBottomLeft
  | DesktopLayoutCornerBottomRight

primrec corner_value :: "desktop_layout_corner \<Rightarrow> u32" where
  "corner_value DesktopLayoutCornerTopLeft = 0"
| "corner_value DesktopLayoutCornerTopRight = 1"
| "corner_value DesktopLayoutCornerBottomLeft = 2"
| "corner_value DesktopLayoutCornerBottomRight = 3"

text \<open>\<^verbatim>\<open>NET::Protocol\<close>\<close>

datatype net_protocol =
    NoProtocol
  | TakeFocusProtocol
  | DeleteWindowProtocol
  | PingProtocol
  | SyncRequestProtocol
  | ContextHelpProtocol

primrec protocol_flag :: "net_protocol \<Rightarrow> u32" where
  "protocol_flag NoProtocol = 0"
| "protocol_flag TakeFocusProtocol = bitflag 0"
| "protocol_flag DeleteWindowProtocol = bitflag 1"
| "protocol_flag PingProtocol = bitflag 2"
| "protocol_flag SyncRequestProtocol = bitflag 3"
| "protocol_flag ContextHelpProtocol = bitflag 4"

section \<open>Matching a window type against a mask\<close>

text \<open>\<^verbatim>\<open>NET::typeMatchesMask\<close> of \<^verbatim>\<open>netwm.cpp\<close>: one case per window type.\<close>

fun typeMatchesMask :: "window_type \<Rightarrow> u32 \<Rightarrow> bool" where
  "typeMatchesMask Normal m = hasf m (type_flag NormalMask)"
| "typeMatchesMask Desktop m = hasf m (type_flag DesktopMask)"
| "typeMatchesMask Dock m = hasf m (type_flag DockMask)"
| "typeMatchesMask Toolbar m = hasf m (type_flag ToolbarMask)"
| "typeMatchesMask Menu m = hasf m (type_flag MenuMask)"
| "typeMatchesMask Dialog m = hasf m (type_flag DialogMask)"
| "typeMatchesMask Override m = hasf m (type_flag OverrideMask)"
| "typeMatchesMask TopMenu m = hasf m (type_flag TopMenuMask)"
| "typeMatchesMask Utility m = hasf m (type_flag UtilityMask)"
| "typeMatchesMask Splash m = hasf m (type_flag SplashMask)"
| "typeMatchesMask DropdownMenu m = hasf m (type_flag DropdownMenuMask)"
| "typeMatchesMask PopupMenu m = hasf m (type_flag PopupMenuMask)"
| "typeMatchesMask Tooltip m = hasf m (type_flag TooltipMask)"
| "typeMatchesMask Notification m = hasf m (type_flag NotificationMask)"
| "typeMatchesMask ComboBox m = hasf m (type_flag ComboBoxMask)"
| "typeMatchesMask DNDIcon m = hasf m (type_flag DNDIconMask)"
| "typeMatchesMask OnScreenDisplay m = hasf m (type_flag OnScreenDisplayMask)"
| "typeMatchesMask CriticalNotification m = hasf m (type_flag CriticalNotificationMask)"
| "typeMatchesMask AppletPopup m = hasf m (type_flag AppletPopupMask)"
| "typeMatchesMask Unknown m = False"

text \<open>The bit of a window type: \<^verbatim>\<open>1 << type\<close>, with none for \<open>Unknown\<close>.\<close>

lemma typeMatchesMask_all: "typeMatchesMask t (type_flag AllTypesMask) \<longleftrightarrow> t \<noteq> Unknown"
  by (cases t) (simp_all add: flag_simps bit_minus_1_iff)

lemma typeMatchesMask_zero [simp]: "\<not> typeMatchesMask t 0"
  by (cases t) simp_all

end
