(* ===== verification/Atoms.thy ===== *)
theory Atoms
  imports Prelude
begin

text \<open>
  The atoms of \<^verbatim>\<open>atoms_p.h\<close> and the table of their X server ids that class
  \<^verbatim>\<open>Atoms\<close> of \<^verbatim>\<open>netwm.cpp\<close> fills.  The enumerators keep their names
  without the leading underscore, which Isabelle does not allow.
\<close>

section \<open>The enumeration and its names\<close>

datatype (plugins only: size) kws_atom =
    UTF8_STRING
  | NET_SUPPORTED
  | NET_SUPPORTING_WM_CHECK
  | NET_CLIENT_LIST
  | NET_CLIENT_LIST_STACKING
  | NET_NUMBER_OF_DESKTOPS
  | NET_DESKTOP_GEOMETRY
  | NET_DESKTOP_VIEWPORT
  | NET_CURRENT_DESKTOP
  | NET_DESKTOP_NAMES
  | NET_ACTIVE_WINDOW
  | NET_WORKAREA
  | NET_VIRTUAL_ROOTS
  | NET_DESKTOP_LAYOUT
  | NET_SHOWING_DESKTOP
  | NET_CLOSE_WINDOW
  | NET_RESTACK_WINDOW
  | NET_WM_MOVERESIZE
  | NET_MOVERESIZE_WINDOW
  | NET_WM_NAME
  | NET_WM_VISIBLE_NAME
  | NET_WM_ICON_NAME
  | NET_WM_VISIBLE_ICON_NAME
  | NET_WM_DESKTOP
  | NET_WM_WINDOW_TYPE
  | NET_WM_STATE
  | NET_WM_STRUT
  | NET_WM_STRUT_PARTIAL
  | NET_WM_ICON_GEOMETRY
  | NET_WM_ICON
  | NET_WM_PID
  | NET_WM_USER_TIME
  | NET_WM_HANDLED_ICONS
  | NET_STARTUP_ID
  | NET_WM_ALLOWED_ACTIONS
  | WM_WINDOW_ROLE
  | NET_FRAME_EXTENTS
  | NET_WM_WINDOW_OPACITY
  | NET_WM_FULLSCREEN_MONITORS
  | NET_WM_OPAQUE_REGION
  | KDE_NET_WM_DESKTOP_FILE
  | WM_STATE
  | NET_WM_WINDOW_TYPE_NORMAL
  | NET_WM_WINDOW_TYPE_DESKTOP
  | NET_WM_WINDOW_TYPE_DOCK
  | NET_WM_WINDOW_TYPE_TOOLBAR
  | NET_WM_WINDOW_TYPE_MENU
  | NET_WM_WINDOW_TYPE_DIALOG
  | NET_WM_WINDOW_TYPE_UTILITY
  | NET_WM_WINDOW_TYPE_SPLASH
  | NET_WM_WINDOW_TYPE_DROPDOWN_MENU
  | NET_WM_WINDOW_TYPE_POPUP_MENU
  | NET_WM_WINDOW_TYPE_TOOLTIP
  | NET_WM_WINDOW_TYPE_NOTIFICATION
  | NET_WM_WINDOW_TYPE_COMBO
  | NET_WM_WINDOW_TYPE_DND
  | NET_WM_STATE_MODAL
  | NET_WM_STATE_STICKY
  | NET_WM_STATE_MAXIMIZED_VERT
  | NET_WM_STATE_MAXIMIZED_HORZ
  | NET_WM_STATE_SHADED
  | NET_WM_STATE_SKIP_TASKBAR
  | NET_WM_STATE_SKIP_PAGER
  | NET_WM_STATE_HIDDEN
  | NET_WM_STATE_FULLSCREEN
  | NET_WM_STATE_ABOVE
  | NET_WM_STATE_BELOW
  | NET_WM_STATE_DEMANDS_ATTENTION
  | NET_WM_STATE_FOCUSED
  | KDE_NET_WM_STATE_SKIP_SWITCHER
  | NET_WM_ACTION_MOVE
  | NET_WM_ACTION_RESIZE
  | NET_WM_ACTION_MINIMIZE
  | NET_WM_ACTION_SHADE
  | NET_WM_ACTION_STICK
  | NET_WM_ACTION_MAXIMIZE_VERT
  | NET_WM_ACTION_MAXIMIZE_HORZ
  | NET_WM_ACTION_FULLSCREEN
  | NET_WM_ACTION_CHANGE_DESKTOP
  | NET_WM_ACTION_CLOSE
  | KDE_NET_WM_FRAME_STRUT
  | KDE_NET_WM_WINDOW_TYPE_OVERRIDE
  | KDE_NET_WM_WINDOW_TYPE_TOPMENU
  | KDE_NET_WM_WINDOW_TYPE_ON_SCREEN_DISPLAY
  | KDE_NET_WM_WINDOW_TYPE_CRITICAL_NOTIFICATION
  | KDE_NET_WM_WINDOW_TYPE_APPLET_POPUP
  | KDE_NET_WM_TEMPORARY_RULES
  | NET_WM_FRAME_OVERLAP
  | KDE_NET_WM_APPMENU_SERVICE_NAME
  | KDE_NET_WM_APPMENU_OBJECT_PATH
  | NET_WM_STATE_STAYS_ON_TOP
  | GTK_FRAME_EXTENTS
  | GTK_APPLICATION_ID
  | GTK_SHOW_WINDOW_MENU
  | WM_PROTOCOLS
  | WM_TAKE_FOCUS
  | WM_DELETE_WINDOW
  | NET_WM_PING
  | NET_WM_SYNC_REQUEST
  | NET_WM_CONTEXT_HELP
  | NET_WM_FULL_PLACEMENT
  | NET_WM_BYPASS_COMPOSITOR
  | KDE_NET_WM_ACTIVITIES
  | KDE_NET_WM_BLOCK_COMPOSITING
  | KDE_NET_WM_SHADOW

text \<open>The enumerators in order: the value of an enumerator is its position.\<close>

definition kws_atoms :: "kws_atom list" where
  "kws_atoms = [
     UTF8_STRING,
     NET_SUPPORTED,
     NET_SUPPORTING_WM_CHECK,
     NET_CLIENT_LIST,
     NET_CLIENT_LIST_STACKING,
     NET_NUMBER_OF_DESKTOPS,
     NET_DESKTOP_GEOMETRY,
     NET_DESKTOP_VIEWPORT,
     NET_CURRENT_DESKTOP,
     NET_DESKTOP_NAMES,
     NET_ACTIVE_WINDOW,
     NET_WORKAREA,
     NET_VIRTUAL_ROOTS,
     NET_DESKTOP_LAYOUT,
     NET_SHOWING_DESKTOP,
     NET_CLOSE_WINDOW,
     NET_RESTACK_WINDOW,
     NET_WM_MOVERESIZE,
     NET_MOVERESIZE_WINDOW,
     NET_WM_NAME,
     NET_WM_VISIBLE_NAME,
     NET_WM_ICON_NAME,
     NET_WM_VISIBLE_ICON_NAME,
     NET_WM_DESKTOP,
     NET_WM_WINDOW_TYPE,
     NET_WM_STATE,
     NET_WM_STRUT,
     NET_WM_STRUT_PARTIAL,
     NET_WM_ICON_GEOMETRY,
     NET_WM_ICON,
     NET_WM_PID,
     NET_WM_USER_TIME,
     NET_WM_HANDLED_ICONS,
     NET_STARTUP_ID,
     NET_WM_ALLOWED_ACTIONS,
     WM_WINDOW_ROLE,
     NET_FRAME_EXTENTS,
     NET_WM_WINDOW_OPACITY,
     NET_WM_FULLSCREEN_MONITORS,
     NET_WM_OPAQUE_REGION,
     KDE_NET_WM_DESKTOP_FILE,
     WM_STATE,
     NET_WM_WINDOW_TYPE_NORMAL,
     NET_WM_WINDOW_TYPE_DESKTOP,
     NET_WM_WINDOW_TYPE_DOCK,
     NET_WM_WINDOW_TYPE_TOOLBAR,
     NET_WM_WINDOW_TYPE_MENU,
     NET_WM_WINDOW_TYPE_DIALOG,
     NET_WM_WINDOW_TYPE_UTILITY,
     NET_WM_WINDOW_TYPE_SPLASH,
     NET_WM_WINDOW_TYPE_DROPDOWN_MENU,
     NET_WM_WINDOW_TYPE_POPUP_MENU,
     NET_WM_WINDOW_TYPE_TOOLTIP,
     NET_WM_WINDOW_TYPE_NOTIFICATION,
     NET_WM_WINDOW_TYPE_COMBO,
     NET_WM_WINDOW_TYPE_DND,
     NET_WM_STATE_MODAL,
     NET_WM_STATE_STICKY,
     NET_WM_STATE_MAXIMIZED_VERT,
     NET_WM_STATE_MAXIMIZED_HORZ,
     NET_WM_STATE_SHADED,
     NET_WM_STATE_SKIP_TASKBAR,
     NET_WM_STATE_SKIP_PAGER,
     NET_WM_STATE_HIDDEN,
     NET_WM_STATE_FULLSCREEN,
     NET_WM_STATE_ABOVE,
     NET_WM_STATE_BELOW,
     NET_WM_STATE_DEMANDS_ATTENTION,
     NET_WM_STATE_FOCUSED,
     KDE_NET_WM_STATE_SKIP_SWITCHER,
     NET_WM_ACTION_MOVE,
     NET_WM_ACTION_RESIZE,
     NET_WM_ACTION_MINIMIZE,
     NET_WM_ACTION_SHADE,
     NET_WM_ACTION_STICK,
     NET_WM_ACTION_MAXIMIZE_VERT,
     NET_WM_ACTION_MAXIMIZE_HORZ,
     NET_WM_ACTION_FULLSCREEN,
     NET_WM_ACTION_CHANGE_DESKTOP,
     NET_WM_ACTION_CLOSE,
     KDE_NET_WM_FRAME_STRUT,
     KDE_NET_WM_WINDOW_TYPE_OVERRIDE,
     KDE_NET_WM_WINDOW_TYPE_TOPMENU,
     KDE_NET_WM_WINDOW_TYPE_ON_SCREEN_DISPLAY,
     KDE_NET_WM_WINDOW_TYPE_CRITICAL_NOTIFICATION,
     KDE_NET_WM_WINDOW_TYPE_APPLET_POPUP,
     KDE_NET_WM_TEMPORARY_RULES,
     NET_WM_FRAME_OVERLAP,
     KDE_NET_WM_APPMENU_SERVICE_NAME,
     KDE_NET_WM_APPMENU_OBJECT_PATH,
     NET_WM_STATE_STAYS_ON_TOP,
     GTK_FRAME_EXTENTS,
     GTK_APPLICATION_ID,
     GTK_SHOW_WINDOW_MENU,
     WM_PROTOCOLS,
     WM_TAKE_FOCUS,
     WM_DELETE_WINDOW,
     NET_WM_PING,
     NET_WM_SYNC_REQUEST,
     NET_WM_CONTEXT_HELP,
     NET_WM_FULL_PLACEMENT,
     NET_WM_BYPASS_COMPOSITOR,
     KDE_NET_WM_ACTIVITIES,
     KDE_NET_WM_BLOCK_COMPOSITING,
     KDE_NET_WM_SHADOW]"

text \<open>\<^verbatim>\<open>KwsAtomStrings\<close>, the same list as C strings.\<close>

definition kws_atom_strings :: "string list" where
  "kws_atom_strings = [
     ''UTF8_STRING'',
     ''_NET_SUPPORTED'',
     ''_NET_SUPPORTING_WM_CHECK'',
     ''_NET_CLIENT_LIST'',
     ''_NET_CLIENT_LIST_STACKING'',
     ''_NET_NUMBER_OF_DESKTOPS'',
     ''_NET_DESKTOP_GEOMETRY'',
     ''_NET_DESKTOP_VIEWPORT'',
     ''_NET_CURRENT_DESKTOP'',
     ''_NET_DESKTOP_NAMES'',
     ''_NET_ACTIVE_WINDOW'',
     ''_NET_WORKAREA'',
     ''_NET_VIRTUAL_ROOTS'',
     ''_NET_DESKTOP_LAYOUT'',
     ''_NET_SHOWING_DESKTOP'',
     ''_NET_CLOSE_WINDOW'',
     ''_NET_RESTACK_WINDOW'',
     ''_NET_WM_MOVERESIZE'',
     ''_NET_MOVERESIZE_WINDOW'',
     ''_NET_WM_NAME'',
     ''_NET_WM_VISIBLE_NAME'',
     ''_NET_WM_ICON_NAME'',
     ''_NET_WM_VISIBLE_ICON_NAME'',
     ''_NET_WM_DESKTOP'',
     ''_NET_WM_WINDOW_TYPE'',
     ''_NET_WM_STATE'',
     ''_NET_WM_STRUT'',
     ''_NET_WM_STRUT_PARTIAL'',
     ''_NET_WM_ICON_GEOMETRY'',
     ''_NET_WM_ICON'',
     ''_NET_WM_PID'',
     ''_NET_WM_USER_TIME'',
     ''_NET_WM_HANDLED_ICONS'',
     ''_NET_STARTUP_ID'',
     ''_NET_WM_ALLOWED_ACTIONS'',
     ''WM_WINDOW_ROLE'',
     ''_NET_FRAME_EXTENTS'',
     ''_NET_WM_WINDOW_OPACITY'',
     ''_NET_WM_FULLSCREEN_MONITORS'',
     ''_NET_WM_OPAQUE_REGION'',
     ''_KDE_NET_WM_DESKTOP_FILE'',
     ''WM_STATE'',
     ''_NET_WM_WINDOW_TYPE_NORMAL'',
     ''_NET_WM_WINDOW_TYPE_DESKTOP'',
     ''_NET_WM_WINDOW_TYPE_DOCK'',
     ''_NET_WM_WINDOW_TYPE_TOOLBAR'',
     ''_NET_WM_WINDOW_TYPE_MENU'',
     ''_NET_WM_WINDOW_TYPE_DIALOG'',
     ''_NET_WM_WINDOW_TYPE_UTILITY'',
     ''_NET_WM_WINDOW_TYPE_SPLASH'',
     ''_NET_WM_WINDOW_TYPE_DROPDOWN_MENU'',
     ''_NET_WM_WINDOW_TYPE_POPUP_MENU'',
     ''_NET_WM_WINDOW_TYPE_TOOLTIP'',
     ''_NET_WM_WINDOW_TYPE_NOTIFICATION'',
     ''_NET_WM_WINDOW_TYPE_COMBO'',
     ''_NET_WM_WINDOW_TYPE_DND'',
     ''_NET_WM_STATE_MODAL'',
     ''_NET_WM_STATE_STICKY'',
     ''_NET_WM_STATE_MAXIMIZED_VERT'',
     ''_NET_WM_STATE_MAXIMIZED_HORZ'',
     ''_NET_WM_STATE_SHADED'',
     ''_NET_WM_STATE_SKIP_TASKBAR'',
     ''_NET_WM_STATE_SKIP_PAGER'',
     ''_NET_WM_STATE_HIDDEN'',
     ''_NET_WM_STATE_FULLSCREEN'',
     ''_NET_WM_STATE_ABOVE'',
     ''_NET_WM_STATE_BELOW'',
     ''_NET_WM_STATE_DEMANDS_ATTENTION'',
     ''_NET_WM_STATE_FOCUSED'',
     ''_KDE_NET_WM_STATE_SKIP_SWITCHER'',
     ''_NET_WM_ACTION_MOVE'',
     ''_NET_WM_ACTION_RESIZE'',
     ''_NET_WM_ACTION_MINIMIZE'',
     ''_NET_WM_ACTION_SHADE'',
     ''_NET_WM_ACTION_STICK'',
     ''_NET_WM_ACTION_MAXIMIZE_VERT'',
     ''_NET_WM_ACTION_MAXIMIZE_HORZ'',
     ''_NET_WM_ACTION_FULLSCREEN'',
     ''_NET_WM_ACTION_CHANGE_DESKTOP'',
     ''_NET_WM_ACTION_CLOSE'',
     ''_KDE_NET_WM_FRAME_STRUT'',
     ''_KDE_NET_WM_WINDOW_TYPE_OVERRIDE'',
     ''_KDE_NET_WM_WINDOW_TYPE_TOPMENU'',
     ''_KDE_NET_WM_WINDOW_TYPE_ON_SCREEN_DISPLAY'',
     ''_KDE_NET_WM_WINDOW_TYPE_CRITICAL_NOTIFICATION'',
     ''_KDE_NET_WM_WINDOW_TYPE_APPLET_POPUP'',
     ''_KDE_NET_WM_TEMPORARY_RULES'',
     ''_NET_WM_FRAME_OVERLAP'',
     ''_KDE_NET_WM_APPMENU_SERVICE_NAME'',
     ''_KDE_NET_WM_APPMENU_OBJECT_PATH'',
     ''_NET_WM_STATE_STAYS_ON_TOP'',
     ''_GTK_FRAME_EXTENTS'',
     ''_GTK_APPLICATION_ID'',
     ''_GTK_SHOW_WINDOW_MENU'',
     ''WM_PROTOCOLS'',
     ''WM_TAKE_FOCUS'',
     ''WM_DELETE_WINDOW'',
     ''_NET_WM_PING'',
     ''_NET_WM_SYNC_REQUEST'',
     ''_NET_WM_CONTEXT_HELP'',
     ''_NET_WM_FULL_PLACEMENT'',
     ''_NET_WM_BYPASS_COMPOSITOR'',
     ''_KDE_NET_WM_ACTIVITIES'',
     ''_KDE_NET_WM_BLOCK_COMPOSITING'',
     ''_KDE_NET_WM_SHADOW'']"

definition kws_atom_count :: nat where
  "kws_atom_count = length kws_atoms"

definition kws_index :: "kws_atom \<Rightarrow> nat" where
  "kws_index a = length (takeWhile (\<lambda>x. x \<noteq> a) kws_atoms)"

definition kws_atom_string :: "kws_atom \<Rightarrow> string" where
  "kws_atom_string a = kws_atom_strings ! kws_index a"

lemma kws_atoms_complete: "a \<in> set kws_atoms"
  by (cases a) (simp_all add: kws_atoms_def)

lemma distinct_kws_atoms: "distinct kws_atoms"
  by (simp add: kws_atoms_def)

lemma kws_atom_count_105: "kws_atom_count = 105"
  by (simp add: kws_atom_count_def kws_atoms_def)

lemma length_kws_atom_strings: "length kws_atom_strings = length kws_atoms"
  by (simp add: kws_atom_strings_def kws_atoms_def)

lemma kws_index_less: "kws_index a < length kws_atoms"
proof -
  have "takeWhile (\<lambda>x. x \<noteq> a) kws_atoms \<noteq> kws_atoms"
    using kws_atoms_complete [of a] by (simp add: takeWhile_eq_all_conv)
  then show ?thesis
    unfolding kws_index_def
    by (metis length_takeWhile_le le_neq_implies_less takeWhile_eq_take take_all order_refl)
qed

lemma nth_kws_index: "kws_atoms ! kws_index a = a"
  using nth_length_takeWhile [of "\<lambda>x. x \<noteq> a" kws_atoms] kws_index_less [of a]
  by (simp add: kws_index_def)

lemma kws_index_inj: "kws_index a = kws_index b \<longleftrightarrow> a = b"
  by (metis nth_kws_index)

lemma distinct_kws_atom_strings: "distinct kws_atom_strings"
  by code_simp

lemma kws_atom_string_inj: "kws_atom_string a = kws_atom_string b \<longleftrightarrow> a = b"
  using nth_eq_iff_index_eq [OF distinct_kws_atom_strings, of "kws_index a" "kws_index b"]
  by (simp add: kws_atom_string_def length_kws_atom_strings kws_index_less kws_index_inj)

section \<open>Atoms known to the X protocol and interned atoms\<close>

text \<open>
  An atom the code uses is one of its own table (\<open>Kws\<close>) or one the X protocol predefines
  (\<^verbatim>\<open>XCB_ATOM_ATOM\<close> and the like).  The ids are the X server's, so they are a parameter
  \<open>at\<close> of every definition that uses atoms.
\<close>

datatype xatom =
    Kws kws_atom
  | XaAtom | XaCardinal | XaWindow | XaString
  | XaWmHints | XaWmTransientFor | XaWmClass | XaWmClientMachine

type_synonym atom_env = "xatom \<Rightarrow> u32"

text \<open>
  What the X protocol promises of atoms: distinct names have distinct ids and no atom is
  \<^verbatim>\<open>XCB_ATOM_NONE\<close>.
\<close>

definition atoms_ok :: "atom_env \<Rightarrow> bool" where
  "atoms_ok at \<longleftrightarrow> inj at \<and> 0 \<notin> range at"

lemma atoms_ok_eq [simp]: "atoms_ok at \<Longrightarrow> at x = at y \<longleftrightarrow> x = y"
  by (auto simp: atoms_ok_def dest: injD)

lemma atoms_ok_none [simp]: "atoms_ok at \<Longrightarrow> at x \<noteq> 0" "atoms_ok at \<Longrightarrow> 0 \<noteq> at x"
proof -
  assume "atoms_ok at"
  then have "at x \<in> range at" "0 \<notin> range at" by (simp_all add: atoms_ok_def)
  then show "at x \<noteq> 0" "0 \<noteq> at x" by auto
qed

text \<open>
  \<^verbatim>\<open>Atoms::Atoms\<close> and \<^verbatim>\<open>Atoms::init\<close>: every entry starts as
  \<^verbatim>\<open>XCB_ATOM_NONE\<close> and is replaced when the server answers the intern request of its
  name.
\<close>

definition atoms_init :: "(string \<Rightarrow> u32 option) \<Rightarrow> kws_atom \<Rightarrow> u32" where
  "atoms_init intern_reply a =
     (case intern_reply (kws_atom_string a) of
        None \<Rightarrow> 0
      | Some reply \<Rightarrow> reply)"

definition atom_table :: "(string \<Rightarrow> u32 option) \<Rightarrow> (xatom \<Rightarrow> u32) \<Rightarrow> atom_env" where
  "atom_table intern_reply predefined x =
     (case x of Kws a \<Rightarrow> atoms_init intern_reply a | _ \<Rightarrow> predefined x)"

section \<open>A concrete assignment of ids\<close>

definition sample_index :: "xatom \<Rightarrow> nat" where
  "sample_index x = (case x of
     Kws a \<Rightarrow> kws_index a + 100
   | XaAtom \<Rightarrow> 4 | XaCardinal \<Rightarrow> 6 | XaString \<Rightarrow> 31 | XaWindow \<Rightarrow> 33
   | XaWmHints \<Rightarrow> 35 | XaWmClientMachine \<Rightarrow> 36 | XaWmClass \<Rightarrow> 67 | XaWmTransientFor \<Rightarrow> 68)"

definition sample_atoms :: atom_env where
  "sample_atoms x = of_nat (sample_index x)"

lemma sample_index_inj: "sample_index x = sample_index y \<longleftrightarrow> x = y"
  by (cases x; cases y) (simp_all add: sample_index_def kws_index_inj)

lemma sample_index_bound: "0 < sample_index x \<and> sample_index x < 300"
proof (cases x)
  case (Kws a)
  have "kws_index a < 105"
    using kws_index_less [of a] kws_atom_count_105 by (simp add: kws_atom_count_def)
  with Kws show ?thesis by (simp add: sample_index_def)
qed (simp_all add: sample_index_def)

lemma unat_sample_atoms: "unat (sample_atoms x) = sample_index x"
  using sample_index_bound [of x] by (simp add: sample_atoms_def unat_of_nat)

lemma atoms_ok_sample: "atoms_ok sample_atoms"
proof -
  have inj: "inj sample_atoms"
    by (rule injI) (metis unat_sample_atoms sample_index_inj)
  have nonzero: "sample_atoms x \<noteq> 0" for x
  proof
    assume "sample_atoms x = 0"
    then have "unat (sample_atoms x) = 0" by (simp only: unat_0)
    then have "sample_index x = 0" by (simp only: unat_sample_atoms)
    then show False using sample_index_bound [of x] by simp
  qed
  then have "0 \<notin> range sample_atoms" by (metis rangeE)
  with inj show ?thesis unfolding atoms_ok_def by (rule conjI)
qed

end
