(* ===== verification/Xcb.thy ===== *)
theory Xcb
  imports Prelude Atoms
begin

text \<open>
  The traffic with the X server as the NET classes see it: the requests an operation sends, in
  order, and the readers of property replies at the top of \<^verbatim>\<open>netwm.cpp\<close>
  (\<^verbatim>\<open>nstrdup\<close>, \<^verbatim>\<open>nstrndup\<close>, \<^verbatim>\<open>nwindup\<close>,
  \<^verbatim>\<open>get_value_reply\<close>, \<^verbatim>\<open>get_array_reply\<close>, \<^verbatim>\<open>get_string_reply\<close>,
  \<^verbatim>\<open>get_stringlist_reply\<close>, \<^verbatim>\<open>send_client_message\<close>).  libxcb and the
  server are outside the repository: requests are values, and what the server answers to a
  property request is a parameter.
\<close>

section \<open>Requests and replies\<close>

text \<open>The content of a property: 8, 16 or 32-bit items, or nothing (format 0).\<close>

datatype xvalue = NoValue | V8 string | V16 "16 word list" | V32 "u32 list"

primrec xformat :: "xvalue \<Rightarrow> nat" where
  "xformat NoValue = 0"
| "xformat (V8 s) = 8"
| "xformat (V16 ws) = 16"
| "xformat (V32 ws) = 32"

primrec value_len :: "xvalue \<Rightarrow> nat" where
  "value_len NoValue = 0"
| "value_len (V8 s) = length s"
| "value_len (V16 ws) = length ws"
| "value_len (V32 ws) = length ws"

datatype event_mask = NoEventMask | SubstructureRedirectNotify | PropertyChangeMask

text \<open>
  \<open>ChangeProperty window property type value\<close> is \<^verbatim>\<open>xcb_change_property\<close> with
  \<^verbatim>\<open>XCB_PROP_MODE_REPLACE\<close>; \<open>SendClientMessage destination mask window type data\<close>
  is \<^verbatim>\<open>xcb_send_event\<close> of a 32-bit client message.
\<close>

datatype xreq =
    ChangeProperty u32 u32 u32 xvalue
  | DeleteProperty u32 u32
  | SendClientMessage u32 event_mask u32 u32 "u32 list"

text \<open>
  A request of \<^verbatim>\<open>xcb_get_property\<close>: window, property, type, offset and length in
  32-bit units.  Its cookie stands for the request.
\<close>

datatype get_property = GetProperty u32 u32 u32 nat nat

record xreply =
  reply_type :: u32
  reply_value :: xvalue

type_synonym server = "get_property \<Rightarrow> xreply option"

definition MAX_PROP_SIZE :: nat where
  "MAX_PROP_SIZE = 100000"

text \<open>
  The reply that carries back what a \<open>ChangeProperty\<close> stored; the X protocol gives it to a
  later request for the same property and type whose length covers the value.
\<close>

fun stored_reply :: "xreq \<Rightarrow> xreply option" where
  "stored_reply (ChangeProperty w p t v) = Some \<lparr>reply_type = t, reply_value = v\<rparr>"
| "stored_reply _ = None"

section \<open>Copies of C data\<close>

definition nstrdup :: "cstr \<Rightarrow> cstr" where
  "nstrdup s1 = (case s1 of None \<Rightarrow> None | Some s \<Rightarrow> Some s)"

definition nstrndup :: "string \<Rightarrow> nat \<Rightarrow> cstr" where
  "nstrndup s1 l = (if l = 0 then None else Some (c_string (take l s1)))"

definition nwindup :: "u32 list \<Rightarrow> nat \<Rightarrow> u32 list option" where
  "nwindup w1 n = (if n = 0 then None else Some (take n w1))"

section \<open>Readers of property replies\<close>

text \<open>\<^verbatim>\<open>get_value_reply\<close> for a 32-bit type: the value and the success flag.\<close>

definition get_value_reply :: "xreply option \<Rightarrow> u32 \<Rightarrow> u32 \<Rightarrow> u32 \<times> bool" where
  "get_value_reply reply type def =
     (case reply of
        None \<Rightarrow> (def, False)
      | Some r \<Rightarrow>
          (case reply_value r of
             V32 ws \<Rightarrow>
               (if reply_type r = type \<and> length ws = 1 then (hd ws, True) else (def, False))
           | _ \<Rightarrow> (def, False)))"

definition get_array_reply :: "xreply option \<Rightarrow> u32 \<Rightarrow> u32 list" where
  "get_array_reply reply type =
     (case reply of
        None \<Rightarrow> []
      | Some r \<Rightarrow>
          (case reply_value r of
             V32 ws \<Rightarrow> (if reply_type r = type \<and> 0 < length ws then ws else [])
           | _ \<Rightarrow> []))"

text \<open>\<^verbatim>\<open>QByteArray(data, data[len - 1] ? len : len - 1)\<close>.\<close>

definition chop_nul :: "string \<Rightarrow> string" where
  "chop_nul data = (if last data \<noteq> NUL then data else butlast data)"

definition get_string_reply :: "xreply option \<Rightarrow> u32 \<Rightarrow> string" where
  "get_string_reply reply type =
     (case reply of
        None \<Rightarrow> []
      | Some r \<Rightarrow>
          (case reply_value r of
             V8 data \<Rightarrow> (if reply_type r = type \<and> 0 < length data then chop_nul data else [])
           | _ \<Rightarrow> []))"

text \<open>\<^verbatim>\<open>QByteArray::split\<close>: the parts between the separators, one more than there are.\<close>

fun split_at :: "char \<Rightarrow> string \<Rightarrow> string list" where
  "split_at sep [] = [[]]"
| "split_at sep (c # cs) =
     (if c = sep then [] # split_at sep cs
      else (case split_at sep cs of [] \<Rightarrow> [[c]] | w # ws \<Rightarrow> (c # w) # ws))"

definition get_stringlist_reply :: "xreply option \<Rightarrow> u32 \<Rightarrow> string list" where
  "get_stringlist_reply reply type =
     (case reply of
        None \<Rightarrow> []
      | Some r \<Rightarrow>
          (case reply_value r of
             V8 data \<Rightarrow>
               (if reply_type r = type \<and> 0 < length data then split_at NUL (chop_nul data) else [])
           | _ \<Rightarrow> []))"

section \<open>Client messages\<close>

definition send_client_message ::
  "event_mask \<Rightarrow> u32 \<Rightarrow> u32 \<Rightarrow> u32 \<Rightarrow> u32 list \<Rightarrow> xreq" where
  "send_client_message m destination window message data =
     SendClientMessage destination m window message (take 5 data)"

section \<open>Facts\<close>

lemma nstrdup_id [simp]: "nstrdup s = s"
  by (cases s) (simp_all add: nstrdup_def)

lemma get_value_reply_stored [simp]:
  "get_value_reply (stored_reply (ChangeProperty w p t (V32 [x]))) t def = (x, True)"
  by (simp add: get_value_reply_def)

lemma get_array_reply_stored [simp]:
  "get_array_reply (stored_reply (ChangeProperty w p t (V32 ws))) t = ws"
  by (simp add: get_array_reply_def)

lemma get_array_reply_other_type:
  "t \<noteq> t' \<Longrightarrow> get_array_reply (stored_reply (ChangeProperty w p t v)) t' = []"
  by (cases v) (simp_all add: get_array_reply_def)

lemma get_replies_None [simp]:
  "get_value_reply None t def = (def, False)" "get_array_reply None t = []"
  "get_string_reply None t = []" "get_stringlist_reply None t = []"
  by (simp_all add: get_value_reply_def get_array_reply_def get_string_reply_def
      get_stringlist_reply_def)

lemma chop_nul_no_nul: "no_nul s \<Longrightarrow> s \<noteq> [] \<Longrightarrow> chop_nul s = s"
  by (auto simp: chop_nul_def no_nul_def dest: last_in_set)

lemma chop_nul_snoc [simp]: "chop_nul (s @ [NUL]) = s"
  by (simp add: chop_nul_def)

lemma get_string_reply_stored:
  "no_nul s \<Longrightarrow> get_string_reply (stored_reply (ChangeProperty w p t (V8 s))) t = s"
  by (simp add: get_string_reply_def chop_nul_no_nul)

lemma nstrndup_whole: "no_nul s \<Longrightarrow> s \<noteq> [] \<Longrightarrow> nstrndup s (length s) = Some s"
  by (simp add: nstrndup_def)

lemma split_at_no_sep: "sep \<notin> set s \<Longrightarrow> split_at sep s = [s]"
  by (induction s) auto

lemma split_at_append_sep:
  "sep \<notin> set s \<Longrightarrow> split_at sep (s @ sep # rest) = s # split_at sep rest"
  by (induction s) auto

text \<open>A list of C strings written one after the other, each with its terminating NUL.\<close>

definition nul_terminated :: "string list \<Rightarrow> string" where
  "nul_terminated ss = concat (map (\<lambda>s. s @ [NUL]) ss)"

lemma split_nul_terminated:
  "ss \<noteq> [] \<Longrightarrow> \<forall>s \<in> set ss. no_nul s \<Longrightarrow> split_at NUL (chop_nul (nul_terminated ss)) = ss"
proof (induction ss rule: rev_induct)
  case Nil
  then show ?case by simp
next
  case (snoc s ss)
  have chop: "chop_nul (nul_terminated (ss @ [s])) = nul_terminated ss @ s"
    by (simp add: nul_terminated_def chop_nul_snoc [of "concat (map (\<lambda>s. s @ [NUL]) ss) @ s", simplified])
  have "split_at NUL (nul_terminated ts @ s) = ts @ [s]" if "\<forall>t \<in> set ts. no_nul t" for ts
    using that snoc.prems(2)
  proof (induction ts)
    case Nil
    then show ?case by (simp add: nul_terminated_def split_at_no_sep no_nul_def)
  next
    case (Cons t ts)
    then have "split_at NUL (t @ NUL # (nul_terminated ts @ s)) = t # split_at NUL (nul_terminated ts @ s)"
      by (intro split_at_append_sep) (simp add: no_nul_def)
    with Cons show ?case by (simp add: nul_terminated_def)
  qed
  with chop snoc.prems(2) show ?case by simp
qed

lemma get_stringlist_reply_stored:
  assumes "ss \<noteq> []" "\<forall>s \<in> set ss. no_nul s"
  shows "get_stringlist_reply
           (stored_reply (ChangeProperty w p t (V8 (nul_terminated ss)))) t = ss"
  using assms split_nul_terminated [OF assms]
  by (cases ss) (simp_all add: get_stringlist_reply_def nul_terminated_def)

end
