(* ===== verification/RArray.thy ===== *)
theory RArray
  imports Prelude
begin

text \<open>
  \<^verbatim>\<open>NETRArray\<close> of \<^verbatim>\<open>netwm_p.h\<close> and \<^verbatim>\<open>netwm.cpp\<close>: a
  zero-filled array that grows when it is indexed.  Indexing is what grows the array, also when
  the element is only read, so \<open>rarr_index\<close> is separate from the read and the write.
  The abstract array is the list of its first \<^verbatim>\<open>size()\<close> elements; locale
  \<open>resizable_array\<close> states what clients rely on and proves the loops over arrays once.
  Indices are the code's non-negative \<^verbatim>\<open>int\<close>s below \<open>2^30\<close>, where doubling the
  capacity does not overflow.
\<close>

section \<open>The array\<close>

record 'a rarr =
  r_sz :: nat
  r_capacity :: nat
  r_data :: "'a list"

text \<open>
  \<open>z\<close> is the element whose bytes are all zero: memory comes from \<^verbatim>\<open>calloc\<close> and
  \<^verbatim>\<open>memset\<close>.
\<close>

definition rarr_new :: "'a \<Rightarrow> 'a rarr" where
  "rarr_new z = \<lparr>r_sz = 0, r_capacity = 2, r_data = replicate 2 z\<rparr>"

definition rarr_reset :: "'a \<Rightarrow> 'a rarr \<Rightarrow> 'a rarr" where
  "rarr_reset z a = a\<lparr>r_sz := 0, r_capacity := 2, r_data := replicate 2 z\<rparr>"

definition rarr_grow :: "'a \<Rightarrow> 'a rarr \<Rightarrow> nat \<Rightarrow> 'a rarr" where
  "rarr_grow z a index =
     (let newcapacity = (if 2 * r_capacity a > index + 1 then 2 * r_capacity a else index + 1)
      in a\<lparr>r_data := r_data a @ replicate (newcapacity - r_capacity a) z,
           r_capacity := newcapacity\<rparr>)"

definition rarr_index :: "'a \<Rightarrow> 'a rarr \<Rightarrow> nat \<Rightarrow> 'a rarr" where
  "rarr_index z a index =
     (let a1 = (if index \<ge> r_capacity a then rarr_grow z a index else a)
      in if index \<ge> r_sz a1 then a1\<lparr>r_sz := index + 1\<rparr> else a1)"

definition rarr_read :: "'a \<Rightarrow> 'a rarr \<Rightarrow> nat \<Rightarrow> 'a" where
  "rarr_read z a index = r_data (rarr_index z a index) ! index"

definition rarr_write :: "'a \<Rightarrow> 'a rarr \<Rightarrow> nat \<Rightarrow> 'a \<Rightarrow> 'a rarr" where
  "rarr_write z a index v =
     (let a1 = rarr_index z a index in a1\<lparr>r_data := (r_data a1)[index := v]\<rparr>)"

definition rarr_size :: "'a rarr \<Rightarrow> nat" where
  "rarr_size a = r_sz a"

text \<open>A loop that indexes the elements \<open>0, \<dots>, n - 1\<close> and one that writes \<open>vs\<close> from \<open>k\<close> on.\<close>

definition rarr_touch :: "'a \<Rightarrow> nat \<Rightarrow> 'a rarr \<Rightarrow> 'a rarr" where
  "rarr_touch z n a = fold (\<lambda>i a. rarr_index z a i) [0..<n] a"

definition rarr_fill :: "'a \<Rightarrow> nat \<Rightarrow> 'a list \<Rightarrow> 'a rarr \<Rightarrow> 'a rarr" where
  "rarr_fill z k vs a = fold (\<lambda>(i, v) a. rarr_write z a i v) (enumerate k vs) a"

section \<open>The list an array stands for\<close>

definition rarr_list :: "'a rarr \<Rightarrow> 'a list" where
  "rarr_list a = take (r_sz a) (r_data a)"

text \<open>
  The memory invariant: the capacity is the allocated length, the elements past the size are
  still zero, and the capacity is at most twice the size unless it is the initial one.
\<close>

definition rarr_ok :: "'a \<Rightarrow> 'a rarr \<Rightarrow> bool" where
  "rarr_ok z a \<longleftrightarrow>
     length (r_data a) = r_capacity a \<and> 2 \<le> r_capacity a \<and> r_sz a \<le> r_capacity a \<and>
     drop (r_sz a) (r_data a) = replicate (r_capacity a - r_sz a) z \<and>
     (r_capacity a = 2 \<or> r_capacity a \<le> 2 * r_sz a)"

lemma rarr_list_data:
  "rarr_ok z a \<Longrightarrow> r_data a = rarr_list a @ replicate (r_capacity a - r_sz a) z"
  by (metis append_take_drop_id rarr_list_def rarr_ok_def)

lemma length_rarr_list: "rarr_ok z a \<Longrightarrow> length (rarr_list a) = r_sz a"
  by (simp add: rarr_list_def rarr_ok_def)

lemma rarr_ok_new [simp]: "rarr_ok z (rarr_new z)" "rarr_list (rarr_new z) = []"
  by (simp_all add: rarr_ok_def rarr_new_def rarr_list_def)

lemma rarr_ok_reset [simp]: "rarr_ok z (rarr_reset z a)" "rarr_list (rarr_reset z a) = []"
  by (simp_all add: rarr_ok_def rarr_reset_def rarr_list_def)

lemma rarr_grow_shape:
  assumes "rarr_ok z a" "r_capacity a \<le> i"
  shows "r_sz (rarr_grow z a i) = r_sz a"
    and "i < r_capacity (rarr_grow z a i)"
    and "r_capacity (rarr_grow z a i) \<le> 2 * (i + 1)"
    and "r_data (rarr_grow z a i) =
           rarr_list a @ replicate (r_capacity (rarr_grow z a i) - r_sz a) z"
proof -
  have len: "r_sz a \<le> r_capacity a" using assms(1) by (simp add: rarr_ok_def)
  show "r_sz (rarr_grow z a i) = r_sz a" "i < r_capacity (rarr_grow z a i)"
    "r_capacity (rarr_grow z a i) \<le> 2 * (i + 1)"
    using assms by (auto simp: rarr_grow_def rarr_ok_def Let_def)
  show "r_data (rarr_grow z a i) =
          rarr_list a @ replicate (r_capacity (rarr_grow z a i) - r_sz a) z"
    using rarr_list_data [OF assms(1)] len assms(2)
    by (auto simp: rarr_grow_def Let_def replicate_add [symmetric])
qed

lemma rarr_index_correct:
  assumes ok: "rarr_ok z a"
  shows "rarr_ok z (rarr_index z a i)"
    and "rarr_list (rarr_index z a i) = pad_to z (Suc i) (rarr_list a)"
proof -
  define a1 where "a1 = (if i \<ge> r_capacity a then rarr_grow z a i else a)"
  have sz: "r_sz a1 = r_sz a" and cap: "i < r_capacity a1" "r_sz a \<le> r_capacity a1" "2 \<le> r_capacity a1"
    and data: "r_data a1 = rarr_list a @ replicate (r_capacity a1 - r_sz a) z"
    and small: "r_capacity a1 = 2 \<or> r_capacity a1 \<le> 2 * max (r_sz a) (i + 1)"
  proof -
    have "r_sz a1 = r_sz a \<and> i < r_capacity a1 \<and> r_sz a \<le> r_capacity a1 \<and> 2 \<le> r_capacity a1 \<and>
        r_data a1 = rarr_list a @ replicate (r_capacity a1 - r_sz a) z \<and>
        (r_capacity a1 = 2 \<or> r_capacity a1 \<le> 2 * max (r_sz a) (i + 1))"
    proof (cases "i \<ge> r_capacity a")
      case True
      with rarr_grow_shape [OF ok True] ok show ?thesis by (simp add: a1_def rarr_ok_def)
    next
      case False
      with rarr_list_data [OF ok] ok show ?thesis
        by (auto simp: a1_def rarr_ok_def max_def)
    qed
    then show "r_sz a1 = r_sz a" "i < r_capacity a1" "r_sz a \<le> r_capacity a1" "2 \<le> r_capacity a1"
      "r_data a1 = rarr_list a @ replicate (r_capacity a1 - r_sz a) z"
      "r_capacity a1 = 2 \<or> r_capacity a1 \<le> 2 * max (r_sz a) (i + 1)" by blast+
  qed
  have len: "length (rarr_list a) = r_sz a" using ok by (rule length_rarr_list)
  have idx: "rarr_index z a i = (if r_sz a \<le> i then a1\<lparr>r_sz := i + 1\<rparr> else a1)"
    by (simp add: rarr_index_def a1_def [symmetric] sz)
  show "rarr_ok z (rarr_index z a i)"
    using cap small by (auto simp: idx rarr_ok_def data sz len)
  show "rarr_list (rarr_index z a i) = pad_to z (Suc i) (rarr_list a)"
    using cap by (auto simp: idx rarr_list_def [of "a1\<lparr>r_sz := _\<rparr>"] rarr_list_def [of a1]
        data sz len pad_to_def)
qed

lemma rarr_write_correct:
  assumes ok: "rarr_ok z a"
  shows "rarr_ok z (rarr_write z a i v)"
    and "rarr_list (rarr_write z a i v) = (pad_to z (Suc i) (rarr_list a))[i := v]"
proof -
  define b where "b = rarr_index z a i"
  have b: "rarr_ok z b" "rarr_list b = pad_to z (Suc i) (rarr_list a)"
    unfolding b_def by (rule rarr_index_correct [OF ok])+
  have less: "i < r_sz b"
    using length_rarr_list [OF b(1)] by (simp add: b(2))
  show "rarr_ok z (rarr_write z a i v)"
    using b(1) less by (auto simp: rarr_write_def b_def [symmetric] rarr_ok_def Let_def)
  show "rarr_list (rarr_write z a i v) = (pad_to z (Suc i) (rarr_list a))[i := v]"
    using b(2) by (simp add: rarr_write_def b_def [symmetric] rarr_list_def Let_def take_update_swap)
qed

lemma rarr_read_correct:
  assumes ok: "rarr_ok z a"
  shows "rarr_read z a i = (if i < length (rarr_list a) then rarr_list a ! i else z)"
proof -
  have ok': "rarr_ok z (rarr_index z a i)" by (rule rarr_index_correct(1) [OF ok])
  have "length (rarr_list (rarr_index z a i)) > i"
    by (simp add: rarr_index_correct(2) [OF ok])
  then have "rarr_read z a i = rarr_list (rarr_index z a i) ! i"
    by (simp add: rarr_read_def rarr_list_def)
  then show ?thesis by (simp add: rarr_index_correct(2) [OF ok] nth_pad_to)
qed

section \<open>The interface and its clients\<close>

locale resizable_array =
  fixes zero :: 'a
    and ok :: "'arr \<Rightarrow> bool"
    and contents :: "'arr \<Rightarrow> 'a list"
    and index :: "'arr \<Rightarrow> nat \<Rightarrow> 'arr"
    and store :: "'arr \<Rightarrow> nat \<Rightarrow> 'a \<Rightarrow> 'arr"
  assumes ok_index: "ok a \<Longrightarrow> ok (index a i)"
    and contents_index: "ok a \<Longrightarrow> contents (index a i) = pad_to zero (Suc i) (contents a)"
    and ok_store: "ok a \<Longrightarrow> ok (store a i v)"
    and contents_store: "ok a \<Longrightarrow> contents (store a i v) = (pad_to zero (Suc i) (contents a))[i := v]"
begin

lemma touch_loop:
  "ok a \<Longrightarrow> ok (fold (\<lambda>i a. index a i) [0..<n] a) \<and>
     contents (fold (\<lambda>i a. index a i) [0..<n] a) = pad_to zero n (contents a)"
proof (induction n)
  case 0
  then show ?case by simp
next
  case (Suc n)
  then show ?case
    by (auto simp: ok_index contents_index pad_to_def replicate_append_same [symmetric]
        simp flip: replicate_add)
qed

lemma fill_loop:
  "ok a \<Longrightarrow> k \<le> length (contents a) \<Longrightarrow>
     ok (fold (\<lambda>(i, v) a. store a i v) (enumerate k vs) a) \<and>
     contents (fold (\<lambda>(i, v) a. store a i v) (enumerate k vs) a) =
       take k (contents a) @ vs @ drop (k + length vs) (contents a)"
proof (induction vs arbitrary: a k)
  case Nil
  then show ?case by simp
next
  case (Cons v vs)
  let ?b = "store a k v" and ?c = "contents a"
  have ok: "ok ?b" using Cons.prems(1) by (rule ok_store)
  have cont: "contents ?b = take k ?c @ v # drop (Suc k) ?c"
  proof (cases "k < length ?c")
    case True
    then show ?thesis
      by (simp add: contents_store Cons.prems(1) upd_conv_take_nth_drop)
  next
    case False
    with Cons.prems(2) have "length ?c = k" by simp
    then show ?thesis by (simp add: contents_store Cons.prems(1) pad_to_Suc_update)
  qed
  have k: "Suc k \<le> length (contents ?b)" using Cons.prems(2) by (simp add: cont)
  have "take (Suc k) (contents ?b) = take k ?c @ [v]"
    "drop (Suc k + length vs) (contents ?b) = drop (k + length (v # vs)) ?c"
    using Cons.prems(2) by (simp_all add: cont min_def add.commute)
  with Cons.IH [OF ok k] show ?case by simp
qed

end

interpretation rarr: resizable_array z "rarr_ok z" rarr_list "rarr_index z" "rarr_write z" for z
  by unfold_locales (simp_all add: rarr_index_correct rarr_write_correct)

lemma rarr_touch_correct:
  "rarr_ok z a \<Longrightarrow> rarr_ok z (rarr_touch z n a)"
  "rarr_ok z a \<Longrightarrow> rarr_list (rarr_touch z n a) = pad_to z n (rarr_list a)"
  using rarr.touch_loop [of z a n] by (simp_all add: rarr_touch_def)

lemma rarr_fill_correct:
  "rarr_ok z a \<Longrightarrow> k \<le> length (rarr_list a) \<Longrightarrow> rarr_ok z (rarr_fill z k vs a)"
  "rarr_ok z a \<Longrightarrow> k \<le> length (rarr_list a) \<Longrightarrow>
     rarr_list (rarr_fill z k vs a) =
       take k (rarr_list a) @ vs @ drop (k + length vs) (rarr_list a)"
  using rarr.fill_loop [of z a k vs] by (simp_all add: rarr_fill_def)

lemmas rarr_specs =
  rarr_index_correct rarr_write_correct rarr_read_correct rarr_touch_correct rarr_fill_correct

end
