(* ===== verification/RootInfo.thy ===== *)
theory RootInfo
  imports NetDefs Xcb RArray
begin

text \<open>
  Class \<^verbatim>\<open>NETRootInfo\<close> of \<^verbatim>\<open>netwm.cpp\<close>: its private data, the
  setters and requests, and the accessors.  An operation takes the private data and returns the
  new data with the effects it has, in order.  The window-manager side and the client side of an
  operation are the two branches on the role.  Theories \<open>RootSupported\<close>, \<open>RootUpdate\<close> and
  \<open>RootEvent\<close> hold the supported-properties protocol, the property reader and the event handler.
\<close>

section \<open>State and effects\<close>

record root_info =
  ri_role :: net_role
  ri_rootSize :: net_size
  ri_root :: u32
  ri_supportwindow :: u32
  ri_name :: cstr
  ri_viewport :: "net_point rarr"
  ri_workarea :: "net_rect rarr"
  ri_geometry :: net_size
  ri_active :: u32
  ri_clients :: "u32 list option"
  ri_stacking :: "u32 list option"
  ri_virtual_roots :: "u32 list option"
  ri_desktop_names :: "cstr rarr"
  ri_number_of_desktops :: i32
  ri_current_desktop :: i32
  ri_clients_count :: nat
  ri_stacking_count :: nat
  ri_virtual_roots_count :: nat
  ri_showing_desktop :: bool
  ri_layout_orientation :: orientation
  ri_layout_corner :: desktop_layout_corner
  ri_layout_columns :: i32
  ri_layout_rows :: i32
  ri_properties :: u32
  ri_properties2 :: u32
  ri_windowTypes :: u32
  ri_states :: u32
  ri_actions :: u32
  ri_clientProperties :: u32
  ri_clientProperties2 :: u32

text \<open>The virtual functions a subclass overrides, as the calls the class makes.\<close>

datatype root_hook =
    AddClient u32
  | RemoveClient u32
  | ChangeNumberOfDesktops i32
  | ChangeDesktopGeometry i32 net_size
  | ChangeDesktopViewport i32 net_point
  | ChangeCurrentDesktop i32
  | ChangeActiveWindow u32 request_source u32 u32
  | MoveResizeHook u32 i32 i32 u32 "8 word" u32
  | MoveResizeWindowHook u32 i32 i32 i32 i32 i32
  | CloseWindowHook u32
  | RestackWindowHook u32 request_source u32 i32 u32
  | GotPing u32 u32
  | ChangeShowingDesktop bool
  | ShowWindowMenu u32 i32 i32 i32

text \<open>
  \<open>ForwardCurrentDesktop\<close> is the call of \<^verbatim>\<open>KX11Extras::setCurrentDesktop\<close> when the
  desktop is a viewport; \<open>RootUndefined\<close> is undefined behaviour of C++ (\<^verbatim>\<open>strlen\<close> of a null
  pointer).
\<close>

datatype root_effect =
    RootReq xreq
  | RootHook root_hook
  | ForwardCurrentDesktop i32
  | RootUndefined

type_synonym root_step = "root_info \<times> root_effect list"

section \<open>Construction\<close>

record x_screen =
  screen_root :: u32
  screen_width :: i32
  screen_height :: i32

definition pick_screen :: "x_screen list \<Rightarrow> i32 \<Rightarrow> x_screen" where
  "pick_screen screens screen =
     (if screen \<noteq> - 1 \<and> sint screen < int (length screens)
      then screens ! loop_count screen else screens ! 0)"

text \<open>\<^verbatim>\<open>NETRootInfo::setDefaultProperties\<close>.\<close>

definition setDefaultProperties :: "root_info \<Rightarrow> root_info" where
  "setDefaultProperties p = p\<lparr>
     ri_properties := or_all (map prop_flag [Supported, SupportingWMCheck]),
     ri_windowTypes := or_all (map type_flag
       [NormalMask, DesktopMask, DockMask, ToolbarMask, MenuMask, DialogMask]),
     ri_states := or_all (map state_flag
       [Modal, Sticky, MaxVert, MaxHoriz, Shaded, SkipTaskbar, KeepAbove]),
     ri_properties2 := 0,
     ri_actions := 0,
     ri_clientProperties := 0,
     ri_clientProperties2 := 0\<rparr>"

definition root_blank :: "net_role \<Rightarrow> u32 \<Rightarrow> net_size \<Rightarrow> u32 \<Rightarrow> cstr \<Rightarrow> root_info" where
  "root_blank role root rootSize support name = \<lparr>
     ri_role = role, ri_rootSize = rootSize, ri_root = root, ri_supportwindow = support,
     ri_name = name,
     ri_viewport = rarr_new point0, ri_workarea = rarr_new rect0, ri_geometry = size0,
     ri_active = 0, ri_clients = None, ri_stacking = None, ri_virtual_roots = None,
     ri_desktop_names = rarr_new None, ri_number_of_desktops = 0, ri_current_desktop = 0,
     ri_clients_count = 0, ri_stacking_count = 0, ri_virtual_roots_count = 0,
     ri_showing_desktop = False, ri_layout_orientation = OrientationHorizontal,
     ri_layout_corner = DesktopLayoutCornerTopLeft, ri_layout_columns = 0, ri_layout_rows = 0,
     ri_properties = 0, ri_properties2 = 0, ri_windowTypes = 0, ri_states = 0, ri_actions = 0,
     ri_clientProperties = 0, ri_clientProperties2 = 0\<rparr>"

text \<open>The window manager constructor, up to \<^verbatim>\<open>activate()\<close>.\<close>

definition NETRootInfo_wm ::
  "x_screen list \<Rightarrow> u32 \<Rightarrow> cstr \<Rightarrow> u32 \<Rightarrow> u32 \<Rightarrow> u32 \<Rightarrow> u32 \<Rightarrow> u32 \<Rightarrow> i32 \<Rightarrow> root_info" where
  "NETRootInfo_wm screens supportWindow wmName props windowTypes states props2 actions screen =
     (setDefaultProperties (root_blank WindowManager (screen_root (pick_screen screens screen))
        size0 supportWindow (nstrdup wmName)))\<lparr>
       ri_properties := props OR or_all (map prop_flag [Supported, SupportingWMCheck]),
       ri_properties2 := props2,
       ri_windowTypes := windowTypes,
       ri_states := states,
       ri_actions := actions,
       ri_clientProperties := or_all (map prop_flag [DesktopNames, WMPing]),
       ri_clientProperties2 := prop2_flag WM2DesktopLayout\<rparr>"

text \<open>The client constructor, up to \<^verbatim>\<open>activate()\<close>.\<close>

definition NETRootInfo_client :: "x_screen list \<Rightarrow> u32 \<Rightarrow> u32 \<Rightarrow> i32 \<Rightarrow> root_info" where
  "NETRootInfo_client screens props props2 screen =
     (let s = pick_screen screens screen in
      (setDefaultProperties (root_blank Client (screen_root s)
         \<lparr>sz_width = screen_width s, sz_height = screen_height s\<rparr> 0 None))\<lparr>
        ri_clientProperties := props,
        ri_clientProperties2 := props2,
        ri_properties := 0,
        ri_properties2 := 0,
        ri_windowTypes := 0,
        ri_states := 0,
        ri_actions := 0\<rparr>)"

section \<open>Setters of the window manager and their client requests\<close>

definition root_change :: "root_info \<Rightarrow> u32 \<Rightarrow> u32 \<Rightarrow> xvalue \<Rightarrow> root_effect" where
  "root_change p property type v = RootReq (ChangeProperty (ri_root p) property type v)"

definition root_message :: "atom_env \<Rightarrow> root_info \<Rightarrow> u32 \<Rightarrow> kws_atom \<Rightarrow> u32 list \<Rightarrow> root_effect" where
  "root_message at p window message data =
     RootReq (send_client_message SubstructureRedirectNotify (ri_root p) window
       (at (Kws message)) data)"

definition setClientList :: "atom_env \<Rightarrow> root_info \<Rightarrow> u32 list \<Rightarrow> root_step" where
  "setClientList at p windows =
     (if ri_role p \<noteq> WindowManager then (p, [])
      else (p\<lparr>ri_clients_count := length windows,
              ri_clients := nwindup windows (length windows)\<rparr>,
            [root_change p (at (Kws NET_CLIENT_LIST)) (at XaWindow) (V32 windows)]))"

definition setClientListStacking :: "atom_env \<Rightarrow> root_info \<Rightarrow> u32 list \<Rightarrow> root_step" where
  "setClientListStacking at p windows =
     (if ri_role p \<noteq> WindowManager then (p, [])
      else (p\<lparr>ri_stacking_count := length windows,
              ri_stacking := nwindup windows (length windows)\<rparr>,
            [root_change p (at (Kws NET_CLIENT_LIST_STACKING)) (at XaWindow) (V32 windows)]))"

definition setNumberOfDesktops :: "atom_env \<Rightarrow> root_info \<Rightarrow> i32 \<Rightarrow> root_step" where
  "setNumberOfDesktops at p numberOfDesktops =
     (if ri_role p = WindowManager
      then (p\<lparr>ri_number_of_desktops := numberOfDesktops\<rparr>,
            [root_change p (at (Kws NET_NUMBER_OF_DESKTOPS)) (at XaCardinal)
               (V32 [numberOfDesktops])])
      else (p, [root_message at p (ri_root p) NET_NUMBER_OF_DESKTOPS
                  [numberOfDesktops, 0, 0, 0, 0]]))"

text \<open>\<open>mapViewport\<close> is the answer of \<^verbatim>\<open>KX11Extras::mapViewport()\<close>.\<close>

definition setCurrentDesktop ::
  "atom_env \<Rightarrow> bool \<Rightarrow> root_info \<Rightarrow> i32 \<Rightarrow> bool \<Rightarrow> root_step" where
  "setCurrentDesktop at mapViewport p desktop ignore_viewport =
     (if ri_role p = WindowManager
      then (p\<lparr>ri_current_desktop := desktop\<rparr>,
            [root_change p (at (Kws NET_CURRENT_DESKTOP)) (at XaCardinal) (V32 [desktop - 1])])
      else if \<not> ignore_viewport \<and> mapViewport then (p, [ForwardCurrentDesktop desktop])
      else (p, [root_message at p (ri_root p) NET_CURRENT_DESKTOP [desktop - 1, 0, 0, 0, 0]]))"

text \<open>
  The property is every name up to \<^verbatim>\<open>num\<close>, each with its NUL; a null name counts as
  empty.  Reading a name grows the array.
\<close>

definition name_bytes :: "cstr \<Rightarrow> string" where
  "name_bytes n = (case n of Some s \<Rightarrow> s @ [NUL] | None \<Rightarrow> [NUL])"

definition setDesktopName :: "atom_env \<Rightarrow> root_info \<Rightarrow> i32 \<Rightarrow> cstr \<Rightarrow> root_step" where
  "setDesktopName at p desktop desktopName =
     (if sint desktop < 1 then (p, [])
      else
        (let names = rarr_write None (ri_desktop_names p) (loop_count (desktop - 1))
               (nstrdup desktopName);
             num = (if sint (ri_number_of_desktops p) > int (rarr_size names)
                    then loop_count (ri_number_of_desktops p) else rarr_size names);
             names' = rarr_touch None num names;
             prop = concat (map (\<lambda>i. name_bytes (rarr_read None names' i)) [0..<num])
         in (p\<lparr>ri_desktop_names := names'\<rparr>,
             [root_change p (at (Kws NET_DESKTOP_NAMES)) (at (Kws UTF8_STRING)) (V8 prop)])))"

definition setDesktopGeometry :: "atom_env \<Rightarrow> root_info \<Rightarrow> net_size \<Rightarrow> root_step" where
  "setDesktopGeometry at p geometry =
     (if ri_role p = WindowManager
      then (p\<lparr>ri_geometry := geometry\<rparr>,
            [root_change p (at (Kws NET_DESKTOP_GEOMETRY)) (at XaCardinal)
               (V32 [sz_width geometry, sz_height geometry])])
      else (p, [root_message at p (ri_root p) NET_DESKTOP_GEOMETRY
                  [sz_width geometry, sz_height geometry, 0, 0, 0]]))"

definition setDesktopViewport :: "atom_env \<Rightarrow> root_info \<Rightarrow> i32 \<Rightarrow> net_point \<Rightarrow> root_step" where
  "setDesktopViewport at p desktop viewport =
     (if sint desktop < 1 then (p, [])
      else if ri_role p = WindowManager then
        (let n = loop_count (ri_number_of_desktops p);
             vp = rarr_touch point0 n
               (rarr_write point0 (ri_viewport p) (loop_count (desktop - 1)) viewport);
             data = concat (map (\<lambda>d. [pt_x (rarr_read point0 vp d),
                                      pt_y (rarr_read point0 vp d)]) [0..<n])
         in (p\<lparr>ri_viewport := vp\<rparr>,
             [root_change p (at (Kws NET_DESKTOP_VIEWPORT)) (at XaCardinal) (V32 data)]))
      else (p, [root_message at p (ri_root p) NET_DESKTOP_VIEWPORT
                  [pt_x viewport, pt_y viewport, 0, 0, 0]]))"

definition setActiveWindow ::
  "atom_env \<Rightarrow> root_info \<Rightarrow> u32 \<Rightarrow> request_source \<Rightarrow> u32 \<Rightarrow> u32 \<Rightarrow> root_step" where
  "setActiveWindow at p window src timestamp active_window =
     (if ri_role p = WindowManager
      then (p\<lparr>ri_active := window\<rparr>,
            [root_change p (at (Kws NET_ACTIVE_WINDOW)) (at XaWindow) (V32 [window])])
      else (p, [root_message at p window NET_ACTIVE_WINDOW
                  [source_value src, timestamp, active_window, 0, 0]]))"

text \<open>The overload with one argument; \<open>appUserTime\<close> is \<^verbatim>\<open>QX11Info::appUserTime()\<close>.\<close>

definition setActiveWindow1 :: "atom_env \<Rightarrow> u32 \<Rightarrow> root_info \<Rightarrow> u32 \<Rightarrow> root_step" where
  "setActiveWindow1 at appUserTime p window =
     setActiveWindow at p window FromUnknown appUserTime 0"

definition rect_words :: "net_rect \<Rightarrow> u32 list" where
  "rect_words r = [pt_x (rect_pos r), pt_y (rect_pos r),
                   sz_width (rect_size r), sz_height (rect_size r)]"

definition setWorkArea :: "atom_env \<Rightarrow> root_info \<Rightarrow> i32 \<Rightarrow> net_rect \<Rightarrow> root_step" where
  "setWorkArea at p desktop workarea =
     (if ri_role p \<noteq> WindowManager \<or> sint desktop < 1 then (p, [])
      else
        (let n = loop_count (ri_number_of_desktops p);
             wa = rarr_touch rect0 n
               (rarr_write rect0 (ri_workarea p) (loop_count (desktop - 1)) workarea);
             data = concat (map (\<lambda>i. rect_words (rarr_read rect0 wa i)) [0..<n])
         in (p\<lparr>ri_workarea := wa\<rparr>,
             [root_change p (at (Kws NET_WORKAREA)) (at XaCardinal) (V32 data)])))"

definition setVirtualRoots :: "atom_env \<Rightarrow> root_info \<Rightarrow> u32 list \<Rightarrow> root_step" where
  "setVirtualRoots at p windows =
     (if ri_role p \<noteq> WindowManager then (p, [])
      else (p\<lparr>ri_virtual_roots_count := length windows,
              ri_virtual_roots := nwindup windows (length windows)\<rparr>,
            [root_change p (at (Kws NET_VIRTUAL_ROOTS)) (at XaWindow) (V32 windows)]))"

definition setDesktopLayout ::
  "atom_env \<Rightarrow> root_info \<Rightarrow> orientation \<Rightarrow> i32 \<Rightarrow> i32 \<Rightarrow> desktop_layout_corner \<Rightarrow> root_step" where
  "setDesktopLayout at p orient columns rows corner =
     (p\<lparr>ri_layout_orientation := orient, ri_layout_columns := columns,
        ri_layout_rows := rows, ri_layout_corner := corner\<rparr>,
      [root_change p (at (Kws NET_DESKTOP_LAYOUT)) (at XaCardinal)
         (V32 [orientation_value orient, columns, rows, corner_value corner])])"

definition setShowingDesktop :: "atom_env \<Rightarrow> root_info \<Rightarrow> bool \<Rightarrow> root_step" where
  "setShowingDesktop at p showing =
     (if ri_role p = WindowManager
      then (p\<lparr>ri_showing_desktop := showing\<rparr>,
            [root_change p (at (Kws NET_SHOWING_DESKTOP)) (at XaCardinal)
               (V32 [if showing then 1 else 0])])
      else (p, [root_message at p (ri_root p) NET_SHOWING_DESKTOP
                  [if showing then 1 else 0, 0, 0, 0, 0]]))"

section \<open>Requests any client may send\<close>

definition closeWindowRequest :: "atom_env \<Rightarrow> root_info \<Rightarrow> u32 \<Rightarrow> root_step" where
  "closeWindowRequest at p window =
     (p, [root_message at p window NET_CLOSE_WINDOW [0, 0, 0, 0, 0]])"

text \<open>\<^verbatim>\<open>xcb_button_t\<close> is 8 bits wide.\<close>

definition moveResizeRequest ::
  "atom_env \<Rightarrow> root_info \<Rightarrow> u32 \<Rightarrow> i32 \<Rightarrow> i32 \<Rightarrow> net_direction \<Rightarrow> 8 word \<Rightarrow> request_source \<Rightarrow> root_step" where
  "moveResizeRequest at p window x_root y_root direction button source =
     (p, [root_message at p window NET_WM_MOVERESIZE
            [x_root, y_root, direction_value direction, ucast button, source_value source]])"

definition moveResizeWindowRequest ::
  "atom_env \<Rightarrow> root_info \<Rightarrow> u32 \<Rightarrow> i32 \<Rightarrow> i32 \<Rightarrow> i32 \<Rightarrow> i32 \<Rightarrow> i32 \<Rightarrow> root_step" where
  "moveResizeWindowRequest at p window flags x y width height =
     (p, [root_message at p window NET_MOVERESIZE_WINDOW [flags, x, y, width, height]])"

definition showWindowMenuRequest ::
  "atom_env \<Rightarrow> root_info \<Rightarrow> u32 \<Rightarrow> i32 \<Rightarrow> i32 \<Rightarrow> i32 \<Rightarrow> root_step" where
  "showWindowMenuRequest at p window device_id x_root y_root =
     (p, [root_message at p window GTK_SHOW_WINDOW_MENU [device_id, x_root, y_root, 0, 0]])"

definition restackRequest ::
  "atom_env \<Rightarrow> root_info \<Rightarrow> u32 \<Rightarrow> request_source \<Rightarrow> u32 \<Rightarrow> i32 \<Rightarrow> u32 \<Rightarrow> root_step" where
  "restackRequest at p window src sibling detail timestamp =
     (p, [root_message at p window NET_RESTACK_WINDOW
            [source_value src, sibling, detail, timestamp, 0]])"

definition sendPing :: "atom_env \<Rightarrow> root_info \<Rightarrow> u32 \<Rightarrow> u32 \<Rightarrow> root_step" where
  "sendPing at p window timestamp =
     (if ri_role p \<noteq> WindowManager then (p, [])
      else (p, [RootReq (send_client_message NoEventMask window window (at (Kws WM_PROTOCOLS))
                  [at (Kws NET_WM_PING), timestamp, window, 0, 0])]))"

section \<open>Accessors that compute\<close>

definition clientListCount :: "root_info \<Rightarrow> nat" where
  "clientListCount p = ri_clients_count p"

definition clientList :: "root_info \<Rightarrow> u32 list option" where
  "clientList p = ri_clients p"

definition desktopGeometry :: "root_info \<Rightarrow> net_size" where
  "desktopGeometry p = (if sz_width (ri_geometry p) \<noteq> 0 then ri_geometry p else ri_rootSize p)"

definition desktopViewport :: "root_info \<Rightarrow> i32 \<Rightarrow> net_point" where
  "desktopViewport p desktop =
     (if sint desktop < 1 then point0
      else rarr_read point0 (ri_viewport p) (loop_count (desktop - 1)))"

definition workArea :: "root_info \<Rightarrow> i32 \<Rightarrow> net_rect" where
  "workArea p desktop =
     (if sint desktop < 1 then rect0
      else rarr_read rect0 (ri_workarea p) (loop_count (desktop - 1)))"

definition desktopName :: "root_info \<Rightarrow> i32 \<Rightarrow> cstr" where
  "desktopName p desktop =
     (if sint desktop < 1 then None
      else rarr_read None (ri_desktop_names p) (loop_count (desktop - 1)))"

text \<open>\<open>ext\<close> is the answer of the viewport-aware function of \<^verbatim>\<open>KX11Extras\<close>.\<close>

definition numberOfDesktops :: "bool \<Rightarrow> i32 \<Rightarrow> root_info \<Rightarrow> bool \<Rightarrow> i32" where
  "numberOfDesktops mapViewport ext p ignore_viewport =
     (if \<not> ignore_viewport \<and> mapViewport then ext
      else if ri_number_of_desktops p = 0 then 1 else ri_number_of_desktops p)"

definition currentDesktop :: "bool \<Rightarrow> i32 \<Rightarrow> root_info \<Rightarrow> bool \<Rightarrow> i32" where
  "currentDesktop mapViewport ext p ignore_viewport =
     (if \<not> ignore_viewport \<and> mapViewport then ext
      else if ri_current_desktop p = 0 then 1 else ri_current_desktop p)"

section \<open>Well-formed private data\<close>

definition root_ok :: "root_info \<Rightarrow> bool" where
  "root_ok p \<longleftrightarrow>
     rarr_ok point0 (ri_viewport p) \<and> rarr_ok rect0 (ri_workarea p) \<and>
     rarr_ok None (ri_desktop_names p) \<and>
     (\<forall>n \<in> set (rarr_list (ri_desktop_names p)). \<forall>s. n = Some s \<longrightarrow> no_nul s)"

lemmas root_setter_defs =
  setClientList_def setClientListStacking_def setNumberOfDesktops_def setCurrentDesktop_def
  setDesktopGeometry_def setDesktopViewport_def setActiveWindow_def setActiveWindow1_def
  setWorkArea_def setVirtualRoots_def setDesktopLayout_def setShowingDesktop_def

lemmas root_request_defs =
  closeWindowRequest_def moveResizeRequest_def moveResizeWindowRequest_def
  showWindowMenuRequest_def restackRequest_def sendPing_def

end
