(* ===== verification/RootSupported.thy ===== *)
theory RootSupported
  imports RootInfo
begin

text \<open>
  The \<^verbatim>\<open>_NET_SUPPORTED\<close> protocol of \<^verbatim>\<open>NETRootInfo\<close>: a window manager
  announces what it supports as a list of atoms (\<^verbatim>\<open>setSupported()\<close>), a client reads the
  list back into flags (\<^verbatim>\<open>updateSupportedProperties\<close>).  The long sequences of
  \<^verbatim>\<open>if\<close>s are tables in the order of the code: the announcer walks its table and emits the
  atoms of every set flag; the reader takes the first entry whose atom matches.  Locale
  \<open>announcement\<close> states when two such tables belong together and proves what the reader learns.
\<close>

section \<open>Flags of the five kinds\<close>

datatype support =
    SupProp net_property
  | SupProp2 net_property2
  | SupType window_type_mask
  | SupState net_state
  | SupAction net_action

text \<open>\<^verbatim>\<open>NETRootInfo::isSupported\<close>, one case per overload.\<close>

fun isSupported :: "root_info \<Rightarrow> support \<Rightarrow> bool" where
  "isSupported p (SupProp property) = hasf (ri_properties p) (prop_flag property)"
| "isSupported p (SupProp2 property) = hasf (ri_properties2 p) (prop2_flag property)"
| "isSupported p (SupType type) = hasf (ri_windowTypes p) (type_flag type)"
| "isSupported p (SupState state) = hasf (ri_states p) (state_flag state)"
| "isSupported p (SupAction action) = hasf (ri_actions p) (action_flag action)"

fun addSupported :: "support \<Rightarrow> root_info \<Rightarrow> root_info" where
  "addSupported (SupProp f) p = p\<lparr>ri_properties := ri_properties p OR prop_flag f\<rparr>"
| "addSupported (SupProp2 f) p = p\<lparr>ri_properties2 := ri_properties2 p OR prop2_flag f\<rparr>"
| "addSupported (SupType f) p = p\<lparr>ri_windowTypes := ri_windowTypes p OR type_flag f\<rparr>"
| "addSupported (SupState f) p = p\<lparr>ri_states := ri_states p OR state_flag f\<rparr>"
| "addSupported (SupAction f) p = p\<lparr>ri_actions := ri_actions p OR action_flag f\<rparr>"

fun removeSupported :: "support \<Rightarrow> root_info \<Rightarrow> root_info" where
  "removeSupported (SupProp f) p = p\<lparr>ri_properties := ri_properties p AND NOT (prop_flag f)\<rparr>"
| "removeSupported (SupProp2 f) p = p\<lparr>ri_properties2 := ri_properties2 p AND NOT (prop2_flag f)\<rparr>"
| "removeSupported (SupType f) p = p\<lparr>ri_windowTypes := ri_windowTypes p AND NOT (type_flag f)\<rparr>"
| "removeSupported (SupState f) p = p\<lparr>ri_states := ri_states p AND NOT (state_flag f)\<rparr>"
| "removeSupported (SupAction f) p = p\<lparr>ri_actions := ri_actions p AND NOT (action_flag f)\<rparr>"

section \<open>What the window manager announces\<close>

definition supported_root_table :: "(support \<times> kws_atom list) list" where
  "supported_root_table = [
     (SupProp ClientList, [NET_CLIENT_LIST]),
     (SupProp ClientListStacking, [NET_CLIENT_LIST_STACKING]),
     (SupProp NumberOfDesktops, [NET_NUMBER_OF_DESKTOPS]),
     (SupProp DesktopGeometry, [NET_DESKTOP_GEOMETRY]),
     (SupProp DesktopViewport, [NET_DESKTOP_VIEWPORT]),
     (SupProp CurrentDesktop, [NET_CURRENT_DESKTOP]),
     (SupProp DesktopNames, [NET_DESKTOP_NAMES]),
     (SupProp ActiveWindow, [NET_ACTIVE_WINDOW]),
     (SupProp WorkArea, [NET_WORKAREA]),
     (SupProp VirtualRoots, [NET_VIRTUAL_ROOTS]),
     (SupProp2 WM2DesktopLayout, [NET_DESKTOP_LAYOUT]),
     (SupProp CloseWindow, [NET_CLOSE_WINDOW]),
     (SupProp2 WM2RestackWindow, [NET_RESTACK_WINDOW]),
     (SupProp2 WM2ShowingDesktop, [NET_SHOWING_DESKTOP]),
     (SupProp WMMoveResize, [NET_WM_MOVERESIZE]),
     (SupProp2 WM2MoveResizeWindow, [NET_MOVERESIZE_WINDOW]),
     (SupProp WMName, [NET_WM_NAME]),
     (SupProp WMVisibleName, [NET_WM_VISIBLE_NAME]),
     (SupProp WMIconName, [NET_WM_ICON_NAME]),
     (SupProp WMVisibleIconName, [NET_WM_VISIBLE_ICON_NAME]),
     (SupProp WMDesktop, [NET_WM_DESKTOP])]"

definition supported_type_table :: "(support \<times> kws_atom list) list" where
  "supported_type_table = [
     (SupType NormalMask, [NET_WM_WINDOW_TYPE_NORMAL]),
     (SupType DesktopMask, [NET_WM_WINDOW_TYPE_DESKTOP]),
     (SupType DockMask, [NET_WM_WINDOW_TYPE_DOCK]),
     (SupType ToolbarMask, [NET_WM_WINDOW_TYPE_TOOLBAR]),
     (SupType MenuMask, [NET_WM_WINDOW_TYPE_MENU]),
     (SupType DialogMask, [NET_WM_WINDOW_TYPE_DIALOG]),
     (SupType UtilityMask, [NET_WM_WINDOW_TYPE_UTILITY]),
     (SupType SplashMask, [NET_WM_WINDOW_TYPE_SPLASH]),
     (SupType DropdownMenuMask, [NET_WM_WINDOW_TYPE_DROPDOWN_MENU]),
     (SupType PopupMenuMask, [NET_WM_WINDOW_TYPE_POPUP_MENU]),
     (SupType TooltipMask, [NET_WM_WINDOW_TYPE_TOOLTIP]),
     (SupType NotificationMask, [NET_WM_WINDOW_TYPE_NOTIFICATION]),
     (SupType ComboBoxMask, [NET_WM_WINDOW_TYPE_COMBO]),
     (SupType DNDIconMask, [NET_WM_WINDOW_TYPE_DND]),
     (SupType OverrideMask, [KDE_NET_WM_WINDOW_TYPE_OVERRIDE]),
     (SupType TopMenuMask, [KDE_NET_WM_WINDOW_TYPE_TOPMENU]),
     (SupType OnScreenDisplayMask, [KDE_NET_WM_WINDOW_TYPE_ON_SCREEN_DISPLAY]),
     (SupType CriticalNotificationMask, [KDE_NET_WM_WINDOW_TYPE_CRITICAL_NOTIFICATION]),
     (SupType AppletPopupMask, [KDE_NET_WM_WINDOW_TYPE_APPLET_POPUP])]"

definition supported_state_table :: "(support \<times> kws_atom list) list" where
  "supported_state_table = [
     (SupState Modal, [NET_WM_STATE_MODAL]),
     (SupState Sticky, [NET_WM_STATE_STICKY]),
     (SupState MaxVert, [NET_WM_STATE_MAXIMIZED_VERT]),
     (SupState MaxHoriz, [NET_WM_STATE_MAXIMIZED_HORZ]),
     (SupState Shaded, [NET_WM_STATE_SHADED]),
     (SupState SkipTaskbar, [NET_WM_STATE_SKIP_TASKBAR]),
     (SupState SkipPager, [NET_WM_STATE_SKIP_PAGER]),
     (SupState SkipSwitcher, [KDE_NET_WM_STATE_SKIP_SWITCHER]),
     (SupState Hidden, [NET_WM_STATE_HIDDEN]),
     (SupState FullScreen, [NET_WM_STATE_FULLSCREEN]),
     (SupState KeepAbove, [NET_WM_STATE_ABOVE, NET_WM_STATE_STAYS_ON_TOP]),
     (SupState KeepBelow, [NET_WM_STATE_BELOW]),
     (SupState DemandsAttention, [NET_WM_STATE_DEMANDS_ATTENTION]),
     (SupState Focused, [NET_WM_STATE_FOCUSED])]"

definition supported_window_table :: "(support \<times> kws_atom list) list" where
  "supported_window_table = [
     (SupProp WMStrut, [NET_WM_STRUT]),
     (SupProp2 WM2ExtendedStrut, [NET_WM_STRUT_PARTIAL]),
     (SupProp WMIconGeometry, [NET_WM_ICON_GEOMETRY]),
     (SupProp WMIcon, [NET_WM_ICON]),
     (SupProp WMPid, [NET_WM_PID]),
     (SupProp WMHandledIcons, [NET_WM_HANDLED_ICONS]),
     (SupProp WMPing, [NET_WM_PING]),
     (SupProp2 WM2UserTime, [NET_WM_USER_TIME]),
     (SupProp2 WM2StartupId, [NET_STARTUP_ID]),
     (SupProp2 WM2Opacity, [NET_WM_WINDOW_OPACITY]),
     (SupProp2 WM2FullscreenMonitors, [NET_WM_FULLSCREEN_MONITORS])]"

definition supported_action_table :: "(support \<times> kws_atom list) list" where
  "supported_action_table = [
     (SupAction ActionMove, [NET_WM_ACTION_MOVE]),
     (SupAction ActionResize, [NET_WM_ACTION_RESIZE]),
     (SupAction ActionMinimize, [NET_WM_ACTION_MINIMIZE]),
     (SupAction ActionShade, [NET_WM_ACTION_SHADE]),
     (SupAction ActionStick, [NET_WM_ACTION_STICK]),
     (SupAction ActionMaxVert, [NET_WM_ACTION_MAXIMIZE_VERT]),
     (SupAction ActionMaxHoriz, [NET_WM_ACTION_MAXIMIZE_HORZ]),
     (SupAction ActionFullScreen, [NET_WM_ACTION_FULLSCREEN]),
     (SupAction ActionChangeDesktop, [NET_WM_ACTION_CHANGE_DESKTOP]),
     (SupAction ActionClose, [NET_WM_ACTION_CLOSE])]"

definition supported_extension_table :: "(support \<times> kws_atom list) list" where
  "supported_extension_table = [
     (SupProp WMFrameExtents, [NET_FRAME_EXTENTS, KDE_NET_WM_FRAME_STRUT]),
     (SupProp2 WM2FrameOverlap, [NET_WM_FRAME_OVERLAP]),
     (SupProp2 WM2KDETemporaryRules, [KDE_NET_WM_TEMPORARY_RULES]),
     (SupProp2 WM2FullPlacement, [NET_WM_FULL_PLACEMENT]),
     (SupProp2 WM2Activities, [KDE_NET_WM_ACTIVITIES]),
     (SupProp2 WM2BlockCompositing, [KDE_NET_WM_BLOCK_COMPOSITING, NET_WM_BYPASS_COMPOSITOR]),
     (SupProp2 WM2KDEShadow, [KDE_NET_WM_SHADOW]),
     (SupProp2 WM2OpaqueRegion, [NET_WM_OPAQUE_REGION]),
     (SupProp2 WM2GTKFrameExtents, [GTK_FRAME_EXTENTS]),
     (SupProp2 WM2GTKShowWindowMenu, [GTK_SHOW_WINDOW_MENU])]"

text \<open>A sequence of \<^verbatim>\<open>if (flags & X) { atoms[pnum++] = ...; }\<close>.\<close>

definition announce :: "('f \<Rightarrow> bool) \<Rightarrow> ('f \<times> 'a list) list \<Rightarrow> 'a list" where
  "announce sel table = concat (map (\<lambda>(f, as). if sel f then as else []) table)"

definition supported_atoms :: "root_info \<Rightarrow> kws_atom list" where
  "supported_atoms p =
     [NET_SUPPORTED, NET_SUPPORTING_WM_CHECK] @
     announce (isSupported p) supported_root_table @
     (if isSupported p (SupProp WMWindowType)
      then NET_WM_WINDOW_TYPE # announce (isSupported p) supported_type_table else []) @
     (if isSupported p (SupProp WMState)
      then NET_WM_STATE # announce (isSupported p) supported_state_table else []) @
     announce (isSupported p) supported_window_table @
     (if isSupported p (SupProp2 WM2AllowedActions)
      then NET_WM_ALLOWED_ACTIONS # announce (isSupported p) supported_action_table else []) @
     announce (isSupported p) supported_extension_table"

text \<open>
  \<^verbatim>\<open>NETRootInfo::setSupported()\<close>: the list and the check window go to the root window,
  the check and the name to the check window.
\<close>

definition setSupported :: "atom_env \<Rightarrow> root_info \<Rightarrow> root_step" where
  "setSupported at p =
     (if ri_role p \<noteq> WindowManager then (p, [])
      else (p,
        [root_change p (at (Kws NET_SUPPORTED)) (at XaAtom)
           (V32 (map (\<lambda>a. at (Kws a)) (supported_atoms p))),
         root_change p (at (Kws NET_SUPPORTING_WM_CHECK)) (at XaWindow)
           (V32 [ri_supportwindow p]),
         RootReq (ChangeProperty (ri_supportwindow p) (at (Kws NET_SUPPORTING_WM_CHECK))
           (at XaWindow) (V32 [ri_supportwindow p])),
         (case ri_name p of
            None \<Rightarrow> RootUndefined
          | Some name \<Rightarrow> RootReq (ChangeProperty (ri_supportwindow p) (at (Kws NET_WM_NAME))
              (at (Kws UTF8_STRING)) (V8 name)))]))"

text \<open>The public overloads \<^verbatim>\<open>setSupported(flag, on)\<close>.\<close>

definition setSupported_flag :: "atom_env \<Rightarrow> root_info \<Rightarrow> support \<Rightarrow> bool \<Rightarrow> root_step" where
  "setSupported_flag at p f on =
     (if ri_role p \<noteq> WindowManager then (p, [])
      else if on \<and> \<not> isSupported p f then setSupported at (addSupported f p)
      else if \<not> on \<and> isSupported p f then setSupported at (removeSupported f p)
      else (p, []))"

section \<open>What a client learns\<close>

definition received_table_root :: "(kws_atom \<times> support) list" where
  "received_table_root = [
     (NET_SUPPORTED, SupProp Supported),
     (NET_SUPPORTING_WM_CHECK, SupProp SupportingWMCheck),
     (NET_CLIENT_LIST, SupProp ClientList),
     (NET_CLIENT_LIST_STACKING, SupProp ClientListStacking),
     (NET_NUMBER_OF_DESKTOPS, SupProp NumberOfDesktops),
     (NET_DESKTOP_GEOMETRY, SupProp DesktopGeometry),
     (NET_DESKTOP_VIEWPORT, SupProp DesktopViewport),
     (NET_CURRENT_DESKTOP, SupProp CurrentDesktop),
     (NET_DESKTOP_NAMES, SupProp DesktopNames),
     (NET_ACTIVE_WINDOW, SupProp ActiveWindow),
     (NET_WORKAREA, SupProp WorkArea),
     (NET_VIRTUAL_ROOTS, SupProp VirtualRoots),
     (NET_DESKTOP_LAYOUT, SupProp2 WM2DesktopLayout),
     (NET_CLOSE_WINDOW, SupProp CloseWindow),
     (NET_RESTACK_WINDOW, SupProp2 WM2RestackWindow),
     (NET_SHOWING_DESKTOP, SupProp2 WM2ShowingDesktop),
     (NET_WM_MOVERESIZE, SupProp WMMoveResize),
     (NET_MOVERESIZE_WINDOW, SupProp2 WM2MoveResizeWindow),
     (NET_WM_NAME, SupProp WMName),
     (NET_WM_VISIBLE_NAME, SupProp WMVisibleName),
     (NET_WM_ICON_NAME, SupProp WMIconName),
     (NET_WM_VISIBLE_ICON_NAME, SupProp WMVisibleIconName),
     (NET_WM_DESKTOP, SupProp WMDesktop),
     (NET_WM_WINDOW_TYPE, SupProp WMWindowType),
     (NET_WM_WINDOW_TYPE_NORMAL, SupType NormalMask),
     (NET_WM_WINDOW_TYPE_DESKTOP, SupType DesktopMask),
     (NET_WM_WINDOW_TYPE_DOCK, SupType DockMask),
     (NET_WM_WINDOW_TYPE_TOOLBAR, SupType ToolbarMask),
     (NET_WM_WINDOW_TYPE_MENU, SupType MenuMask),
     (NET_WM_WINDOW_TYPE_DIALOG, SupType DialogMask),
     (NET_WM_WINDOW_TYPE_UTILITY, SupType UtilityMask),
     (NET_WM_WINDOW_TYPE_SPLASH, SupType SplashMask),
     (NET_WM_WINDOW_TYPE_DROPDOWN_MENU, SupType DropdownMenuMask),
     (NET_WM_WINDOW_TYPE_POPUP_MENU, SupType PopupMenuMask),
     (NET_WM_WINDOW_TYPE_TOOLTIP, SupType TooltipMask),
     (NET_WM_WINDOW_TYPE_NOTIFICATION, SupType NotificationMask),
     (NET_WM_WINDOW_TYPE_COMBO, SupType ComboBoxMask),
     (NET_WM_WINDOW_TYPE_DND, SupType DNDIconMask),
     (KDE_NET_WM_WINDOW_TYPE_OVERRIDE, SupType OverrideMask),
     (KDE_NET_WM_WINDOW_TYPE_TOPMENU, SupType TopMenuMask),
     (KDE_NET_WM_WINDOW_TYPE_ON_SCREEN_DISPLAY, SupType OnScreenDisplayMask),
     (KDE_NET_WM_WINDOW_TYPE_CRITICAL_NOTIFICATION, SupType CriticalNotificationMask),
     (KDE_NET_WM_WINDOW_TYPE_APPLET_POPUP, SupType AppletPopupMask)]"

definition received_table_window :: "(kws_atom \<times> support) list" where
  "received_table_window = [
     (NET_WM_STATE, SupProp WMState),
     (NET_WM_STATE_MODAL, SupState Modal),
     (NET_WM_STATE_STICKY, SupState Sticky),
     (NET_WM_STATE_MAXIMIZED_VERT, SupState MaxVert),
     (NET_WM_STATE_MAXIMIZED_HORZ, SupState MaxHoriz),
     (NET_WM_STATE_SHADED, SupState Shaded),
     (NET_WM_STATE_SKIP_TASKBAR, SupState SkipTaskbar),
     (NET_WM_STATE_SKIP_PAGER, SupState SkipPager),
     (KDE_NET_WM_STATE_SKIP_SWITCHER, SupState SkipSwitcher),
     (NET_WM_STATE_HIDDEN, SupState Hidden),
     (NET_WM_STATE_FULLSCREEN, SupState FullScreen),
     (NET_WM_STATE_ABOVE, SupState KeepAbove),
     (NET_WM_STATE_BELOW, SupState KeepBelow),
     (NET_WM_STATE_DEMANDS_ATTENTION, SupState DemandsAttention),
     (NET_WM_STATE_STAYS_ON_TOP, SupState KeepAbove),
     (NET_WM_STATE_FOCUSED, SupState Focused),
     (NET_WM_STRUT, SupProp WMStrut),
     (NET_WM_STRUT_PARTIAL, SupProp2 WM2ExtendedStrut),
     (NET_WM_ICON_GEOMETRY, SupProp WMIconGeometry),
     (NET_WM_ICON, SupProp WMIcon),
     (NET_WM_PID, SupProp WMPid),
     (NET_WM_HANDLED_ICONS, SupProp WMHandledIcons),
     (NET_WM_PING, SupProp WMPing),
     (NET_WM_USER_TIME, SupProp2 WM2UserTime),
     (NET_STARTUP_ID, SupProp2 WM2StartupId),
     (NET_WM_WINDOW_OPACITY, SupProp2 WM2Opacity),
     (NET_WM_FULLSCREEN_MONITORS, SupProp2 WM2FullscreenMonitors),
     (NET_WM_ALLOWED_ACTIONS, SupProp2 WM2AllowedActions),
     (NET_WM_ACTION_MOVE, SupAction ActionMove),
     (NET_WM_ACTION_RESIZE, SupAction ActionResize),
     (NET_WM_ACTION_MINIMIZE, SupAction ActionMinimize),
     (NET_WM_ACTION_SHADE, SupAction ActionShade),
     (NET_WM_ACTION_STICK, SupAction ActionStick),
     (NET_WM_ACTION_MAXIMIZE_VERT, SupAction ActionMaxVert),
     (NET_WM_ACTION_MAXIMIZE_HORZ, SupAction ActionMaxHoriz),
     (NET_WM_ACTION_FULLSCREEN, SupAction ActionFullScreen),
     (NET_WM_ACTION_CHANGE_DESKTOP, SupAction ActionChangeDesktop),
     (NET_WM_ACTION_CLOSE, SupAction ActionClose),
     (NET_FRAME_EXTENTS, SupProp WMFrameExtents),
     (KDE_NET_WM_FRAME_STRUT, SupProp WMFrameExtents),
     (NET_WM_FRAME_OVERLAP, SupProp2 WM2FrameOverlap),
     (KDE_NET_WM_TEMPORARY_RULES, SupProp2 WM2KDETemporaryRules),
     (NET_WM_FULL_PLACEMENT, SupProp2 WM2FullPlacement),
     (KDE_NET_WM_ACTIVITIES, SupProp2 WM2Activities),
     (KDE_NET_WM_BLOCK_COMPOSITING, SupProp2 WM2BlockCompositing),
     (NET_WM_BYPASS_COMPOSITOR, SupProp2 WM2BlockCompositing),
     (KDE_NET_WM_SHADOW, SupProp2 WM2KDEShadow),
     (NET_WM_OPAQUE_REGION, SupProp2 WM2OpaqueRegion),
     (GTK_FRAME_EXTENTS, SupProp2 WM2GTKFrameExtents),
     (GTK_SHOW_WINDOW_MENU, SupProp2 WM2GTKShowWindowMenu),
     (KDE_NET_WM_APPMENU_OBJECT_PATH, SupProp2 WM2AppMenuObjectPath),
     (KDE_NET_WM_APPMENU_SERVICE_NAME, SupProp2 WM2AppMenuServiceName)]"

definition received_table :: "(kws_atom \<times> support) list" where
  "received_table = received_table_root @ received_table_window"

text \<open>The chain of \<^verbatim>\<open>else if (atom == p->atom(X))\<close>: the first match decides.\<close>

fun first_match :: "atom_env \<Rightarrow> (kws_atom \<times> 'f) list \<Rightarrow> u32 \<Rightarrow> 'f option" where
  "first_match at [] x = None"
| "first_match at ((a, f) # table) x = (if x = at (Kws a) then Some f else first_match at table x)"

definition updateSupportedProperties :: "atom_env \<Rightarrow> u32 \<Rightarrow> root_info \<Rightarrow> root_info" where
  "updateSupportedProperties at atom p =
     (case first_match at received_table atom of None \<Rightarrow> p | Some f \<Rightarrow> addSupported f p)"

section \<open>Accessors that depend on the role\<close>

definition passedProperties :: "root_info \<Rightarrow> u32" where
  "passedProperties p = (if ri_role p = WindowManager then ri_properties p else ri_clientProperties p)"

definition passedProperties2 :: "root_info \<Rightarrow> u32" where
  "passedProperties2 p =
     (if ri_role p = WindowManager then ri_properties2 p else ri_clientProperties2 p)"

definition passedStates :: "root_info \<Rightarrow> u32" where
  "passedStates p = (if ri_role p = WindowManager then ri_states p else 0)"

definition passedWindowTypes :: "root_info \<Rightarrow> u32" where
  "passedWindowTypes p = (if ri_role p = WindowManager then ri_windowTypes p else 0)"

definition passedActions :: "root_info \<Rightarrow> u32" where
  "passedActions p = (if ri_role p = WindowManager then ri_actions p else 0)"

section \<open>Announcing and reading match\<close>

text \<open>The flags a reader learns from a list of atoms.\<close>

definition heard :: "(kws_atom \<times> 'f) list \<Rightarrow> kws_atom list \<Rightarrow> 'f set" where
  "heard table atoms = {f. \<exists>a \<in> set atoms. map_of table a = Some f}"

lemma first_match_map_of [simp]:
  "atoms_ok at \<Longrightarrow> first_match at table (at (Kws a)) = map_of table a"
  by (induction table) auto

lemma set_announce: "set (announce sel table) = (\<Union>(f, as) \<in> set table. if sel f then set as else {})"
  by (induction table) (auto simp: announce_def split: if_splits)

lemma announce_append [simp]: "announce sel (xs @ ys) = announce sel xs @ announce sel ys"
  by (simp add: announce_def)

lemma length_announce: "length (announce sel table) \<le> sum_list (map (\<lambda>(f, as). length as) table)"
  by (induction table) (auto simp: announce_def split: if_splits)

locale announcement =
  fixes emitted :: "('f \<times> kws_atom list) list"
    and read :: "(kws_atom \<times> 'f) list"
  assumes understood: "(f, as) \<in> set emitted \<Longrightarrow> a \<in> set as \<Longrightarrow> map_of read a = Some f"
    and spoken: "(f, as) \<in> set emitted \<Longrightarrow> as \<noteq> []"
begin

lemma heard_announce: "heard read (announce sel emitted) = {f \<in> fst ` set emitted. sel f}"
proof (intro equalityI subsetI)
  fix f
  assume "f \<in> heard read (announce sel emitted)"
  then obtain a g as where "map_of read a = Some f" "(g, as) \<in> set emitted" "sel g" "a \<in> set as"
    by (auto simp: heard_def set_announce split: if_splits)
  moreover from this have "map_of read a = Some g" by (intro understood)
  ultimately show "f \<in> {f \<in> fst ` set emitted. sel f}" by force
next
  fix f
  assume "f \<in> {f \<in> fst ` set emitted. sel f}"
  then obtain as where as: "(f, as) \<in> set emitted" "sel f" by auto
  then have "hd as \<in> set as" using spoken by simp
  moreover from as this have "map_of read (hd as) = Some f" by (intro understood)
  ultimately show "f \<in> heard read (announce sel emitted)"
    using as unfolding heard_def set_announce by force
qed

end

text \<open>
  A flag word is rebuilt from the set of its flags: among flags that are single bits, the union
  of those set in \<open>w\<close> is \<open>w\<close> restricted to all of them.
\<close>

definition single_bit :: "u32 \<Rightarrow> bool" where
  "single_bit w \<longleftrightarrow> (\<exists>k. w = bitflag k)"

lemma single_bit_bitflag [simp]: "single_bit (bitflag k)"
  by (auto simp: single_bit_def)

lemma bits_of_selected:
  assumes "\<And>x. x \<in> X \<Longrightarrow> single_bit (fl x)"
  shows "(\<exists>x \<in> X. hasf w (fl x) \<and> bit (fl x) n) \<longleftrightarrow> bit w n \<and> (\<exists>x \<in> X. bit (fl x) n)"
proof -
  have "hasf w (fl x) \<and> bit (fl x) n \<longleftrightarrow> bit w n \<and> bit (fl x) n" if "x \<in> X" for x
    using assms [OF that] by (auto simp: single_bit_def flag_simps)
  then show ?thesis by blast
qed

section \<open>The whole announcement as one table\<close>

definition announced_table :: "(support \<times> kws_atom list) list" where
  "announced_table =
     [(SupProp Supported, [NET_SUPPORTED]), (SupProp SupportingWMCheck, [NET_SUPPORTING_WM_CHECK])] @
     supported_root_table @
     (SupProp WMWindowType, [NET_WM_WINDOW_TYPE]) # supported_type_table @
     (SupProp WMState, [NET_WM_STATE]) # supported_state_table @
     supported_window_table @
     (SupProp2 WM2AllowedActions, [NET_WM_ALLOWED_ACTIONS]) # supported_action_table @
     supported_extension_table"

fun announced :: "root_info \<Rightarrow> support \<Rightarrow> bool" where
  "announced p (SupProp f) = (f = Supported \<or> f = SupportingWMCheck \<or> isSupported p (SupProp f))"
| "announced p (SupProp2 f) = isSupported p (SupProp2 f)"
| "announced p (SupType f) = (isSupported p (SupProp WMWindowType) \<and> isSupported p (SupType f))"
| "announced p (SupState f) = (isSupported p (SupProp WMState) \<and> isSupported p (SupState f))"
| "announced p (SupAction f) = (isSupported p (SupProp2 WM2AllowedActions) \<and> isSupported p (SupAction f))"

lemmas supported_tables =
  supported_root_table_def supported_type_table_def supported_state_table_def
  supported_window_table_def supported_action_table_def supported_extension_table_def

lemma announce_cong_sel:
  "(\<And>f as. (f, as) \<in> set table \<Longrightarrow> sel f = sel' f) \<Longrightarrow> announce sel table = announce sel' table"
  unfolding announce_def by (rule arg_cong [where f = concat], rule map_cong) auto

lemma announce_none: "(\<And>f as. (f, as) \<in> set table \<Longrightarrow> \<not> sel f) \<Longrightarrow> announce sel table = []"
  by (fastforce simp: announce_def)

lemma announce_plain:
  "announce (isSupported p) supported_root_table = announce (announced p) supported_root_table"
  "announce (isSupported p) supported_window_table = announce (announced p) supported_window_table"
  "announce (isSupported p) supported_extension_table = announce (announced p) supported_extension_table"
  by (rule announce_cong_sel; auto simp: supported_tables)+

lemma announce_nested:
  "announce (announced p) supported_type_table =
     (if isSupported p (SupProp WMWindowType)
      then announce (isSupported p) supported_type_table else [])"
  "announce (announced p) supported_state_table =
     (if isSupported p (SupProp WMState)
      then announce (isSupported p) supported_state_table else [])"
  "announce (announced p) supported_action_table =
     (if isSupported p (SupProp2 WM2AllowedActions)
      then announce (isSupported p) supported_action_table else [])"
  by (auto simp: supported_tables intro!: announce_cong_sel announce_none)

lemma supported_atoms_announce: "supported_atoms p = announce (announced p) announced_table"
proof -
  have step: "announce sel ((f, as) # t) = (if sel f then as else []) @ announce sel t"
    for sel :: "support \<Rightarrow> bool" and f as t by (simp add: announce_def)
  show ?thesis
    by (simp add: supported_atoms_def announced_table_def step announce_plain announce_nested)
qed

interpretation supported: announcement announced_table received_table
proof
  have "\<forall>(f, as) \<in> set announced_table. as \<noteq> [] \<and> (\<forall>a \<in> set as. map_of received_table a = Some f)"
    by (simp add: announced_table_def supported_tables received_table_def
        received_table_root_def received_table_window_def)
  then show "(f, as) \<in> set announced_table \<Longrightarrow> a \<in> set as \<Longrightarrow> map_of received_table a = Some f"
    "(f, as) \<in> set announced_table \<Longrightarrow> as \<noteq> []" for f as a
    by fast+
qed

section \<open>The flags a client ends up with\<close>

text \<open>The five flag words of the private data, by kind of flag.\<close>

datatype support_kind = KProp | KProp2 | KType | KState | KAction

fun kind_of :: "support \<Rightarrow> support_kind" where
  "kind_of (SupProp f) = KProp"
| "kind_of (SupProp2 f) = KProp2"
| "kind_of (SupType f) = KType"
| "kind_of (SupState f) = KState"
| "kind_of (SupAction f) = KAction"

fun bits_of :: "support \<Rightarrow> u32" where
  "bits_of (SupProp f) = prop_flag f"
| "bits_of (SupProp2 f) = prop2_flag f"
| "bits_of (SupType f) = type_flag f"
| "bits_of (SupState f) = state_flag f"
| "bits_of (SupAction f) = action_flag f"

fun word_of :: "root_info \<Rightarrow> support_kind \<Rightarrow> u32" where
  "word_of p KProp = ri_properties p"
| "word_of p KProp2 = ri_properties2 p"
| "word_of p KType = ri_windowTypes p"
| "word_of p KState = ri_states p"
| "word_of p KAction = ri_actions p"

lemma word_of_addSupported:
  "word_of (addSupported f p) k = (if k = kind_of f then word_of p k OR bits_of f else word_of p k)"
  by (cases f; cases k) simp_all

lemma word_of_removeSupported:
  "word_of (removeSupported f p) k =
     (if k = kind_of f then word_of p k AND NOT (bits_of f) else word_of p k)"
  by (cases f; cases k) simp_all

lemma isSupported_word: "isSupported p f \<longleftrightarrow> hasf (word_of p (kind_of f)) (bits_of f)"
  by (cases f) simp_all

lemma read_supported_bits:
  assumes at: "atoms_ok at"
  shows "bit (word_of (fold (updateSupportedProperties at) (map (\<lambda>a. at (Kws a)) atoms) p) k) n \<longleftrightarrow>
           bit (word_of p k) n \<or>
           (\<exists>f \<in> heard received_table atoms. kind_of f = k \<and> bit (bits_of f) n)"
proof (induction atoms arbitrary: p)
  case Nil
  then show ?case by (simp add: heard_def)
next
  case (Cons a as)
  have heard: "heard received_table (a # as) =
      (case map_of received_table a of None \<Rightarrow> {} | Some f \<Rightarrow> {f}) \<union> heard received_table as"
    by (auto simp: heard_def split: option.splits)
  have upd: "updateSupportedProperties at (at (Kws a)) p =
      (case map_of received_table a of None \<Rightarrow> p | Some f \<Rightarrow> addSupported f p)"
    using at by (simp add: updateSupportedProperties_def)
  have "fold (updateSupportedProperties at) (map (\<lambda>a. at (Kws a)) (a # as)) p =
      fold (updateSupportedProperties at) (map (\<lambda>a. at (Kws a)) as)
        (updateSupportedProperties at (at (Kws a)) p)" by simp
  then show ?case
    by (simp only: Cons.IH heard upd)
      (auto simp: word_of_addSupported bit_or_iff split: option.splits)
qed

text \<open>What the window manager has to say of a kind, and what the tables can say of it.\<close>

fun announced_word :: "root_info \<Rightarrow> support_kind \<Rightarrow> u32" where
  "announced_word p KProp = ri_properties p OR or_all (map prop_flag [Supported, SupportingWMCheck])"
| "announced_word p KProp2 = ri_properties2 p"
| "announced_word p KType = (if isSupported p (SupProp WMWindowType) then ri_windowTypes p else 0)"
| "announced_word p KState = (if isSupported p (SupProp WMState) then ri_states p else 0)"
| "announced_word p KAction =
     (if isSupported p (SupProp2 WM2AllowedActions) then ri_actions p else 0)"

definition sayable :: "support_kind \<Rightarrow> u32" where
  "sayable k = or_all (map bits_of (filter (\<lambda>f. kind_of f = k) (map fst announced_table)))"

lemma announced_table_bits:
  assumes "f \<in> fst ` set announced_table"
  shows "single_bit (bits_of f)"
    and "announced p f \<longleftrightarrow> hasf (announced_word p (kind_of f)) (bits_of f)"
proof -
  have "\<forall>f \<in> fst ` set announced_table. single_bit (bits_of f) \<and>
      (announced p f \<longleftrightarrow> hasf (announced_word p (kind_of f)) (bits_of f))"
    by (simp add: announced_table_def supported_tables flag_simps bit_or_iff)
  with assms show "single_bit (bits_of f)"
    "announced p f \<longleftrightarrow> hasf (announced_word p (kind_of f)) (bits_of f)" by blast+
qed

lemma supported_word_roundtrip:
  assumes at: "atoms_ok at" and blank: "word_of c k = 0"
  shows "word_of (fold (updateSupportedProperties at)
           (map (\<lambda>a. at (Kws a)) (supported_atoms p)) c) k = announced_word p k AND sayable k"
proof (rule bit_word_eqI)
  fix n
  let ?F = "{f \<in> fst ` set announced_table. kind_of f = k}"
  have "bit (word_of (fold (updateSupportedProperties at)
           (map (\<lambda>a. at (Kws a)) (supported_atoms p)) c) k) n \<longleftrightarrow>
      (\<exists>f \<in> {f \<in> fst ` set announced_table. announced p f}. kind_of f = k \<and> bit (bits_of f) n)"
    by (simp only: read_supported_bits [OF at] blank supported_atoms_announce
        supported.heard_announce bit_0_eq bot_apply bot_bool_def simp_thms)
  also have "\<dots> \<longleftrightarrow> (\<exists>f \<in> ?F. hasf (announced_word p k) (bits_of f) \<and> bit (bits_of f) n)"
    using announced_table_bits(2) by fast
  also have "\<dots> \<longleftrightarrow> bit (announced_word p k) n \<and> (\<exists>f \<in> ?F. bit (bits_of f) n)"
    by (rule bits_of_selected) (use announced_table_bits(1) in blast)
  also have "(\<exists>f \<in> ?F. bit (bits_of f) n) \<longleftrightarrow> bit (sayable k) n"
    by (auto simp: sayable_def bit_or_all)
  finally show "bit (word_of (fold (updateSupportedProperties at)
      (map (\<lambda>a. at (Kws a)) (supported_atoms p)) c) k) n = bit (announced_word p k AND sayable k) n"
    by (simp add: bit_and_iff)
qed

text \<open>
  What cannot be said: \<^verbatim>\<open>XAWMState\<close> and \<^verbatim>\<open>WMGeometry\<close> of the properties (bits 12
  and 26 stand for nothing), and of the second word the flags that describe properties no atom of
  the list is for, among them the two application menu flags the reader knows.
\<close>

definition unsaid_properties :: u32 where
  "unsaid_properties = or_all ([bitflag 12, bitflag 26] @ map prop_flag [XAWMState, WMGeometry])"

definition unsaid_properties2 :: u32 where
  "unsaid_properties2 = or_all (map prop2_flag
     [WM2TransientFor, WM2GroupLeader, WM2WindowClass, WM2WindowRole, WM2ClientMachine, WM2Urgency,
      WM2Input, WM2Protocols, WM2InitialMappingState, WM2DesktopFileName, WM2AppMenuServiceName,
      WM2AppMenuObjectPath, WM2GTKApplicationId])"

lemma sayable_values:
  "sayable KProp = NOT unsaid_properties"
  "sayable KProp2 = NOT unsaid_properties2"
  "sayable KType = or_all (map bitflag [0..<19])"
  "sayable KState = or_all (map bitflag [0..<14])"
  "sayable KAction = or_all (map bitflag [0..<10])"
  by (simp_all add: sayable_def announced_table_def supported_tables unsaid_properties_def
      unsaid_properties2_def bitflag_def upt_rec)

lemma length_supported_atoms: "length (supported_atoms p) \<le> kws_atom_count"
  using length_announce [of "announced p" announced_table]
  by (simp add: supported_atoms_announce announced_table_def supported_tables kws_atom_count_105)

end
