(* ===== verification/Pipeline.thy ===== *)
theory Pipeline
  imports Xcb
begin

text \<open>
  \<^verbatim>\<open>NETRootInfo::update\<close> and \<^verbatim>\<open>NETWinInfo::update\<close> have the same
  shape: a first sequence of \<^verbatim>\<open>if\<close>s sends the property requests and keeps their
  cookies in an array, a second sequence, with a counter that starts again at zero, takes the
  replies.  Which reply a block reads is decided by how often the counter was advanced before it.
  This theory has the reading of one cookie, blocks that read one or two, and the criterion that
  a sequence of blocks reads the replies of its own requests.
\<close>

section \<open>Blocks\<close>

text \<open>\<^verbatim>\<open>xcb_get_property_reply(cookies[c])\<close>; entries past the sent requests are not set.\<close>

definition get_property_reply :: "server \<Rightarrow> get_property list \<Rightarrow> nat \<Rightarrow> xreply option" where
  "get_property_reply srv cookies c = (if c < length cookies then srv (cookies ! c) else None)"

type_synonym 's block = "server \<Rightarrow> get_property list \<Rightarrow> nat \<times> 's \<Rightarrow> nat \<times> 's"

definition read_if :: "bool \<Rightarrow> (xreply option \<Rightarrow> 's \<Rightarrow> 's) \<Rightarrow> 's block" where
  "read_if b f srv cookies =
     (\<lambda>(c, s). if b then (c + 1, f (get_property_reply srv cookies c) s) else (c, s))"

definition read_two_if ::
  "bool \<Rightarrow> (xreply option \<Rightarrow> xreply option \<Rightarrow> 's \<Rightarrow> 's) \<Rightarrow> 's block" where
  "read_two_if b f srv cookies =
     (\<lambda>(c, s). if b then (c + 2, f (get_property_reply srv cookies c)
                                   (get_property_reply srv cookies (c + 1)) s)
              else (c, s))"

definition run_blocks :: "'s block list \<Rightarrow> server \<Rightarrow> get_property list \<Rightarrow> 's \<Rightarrow> 's" where
  "run_blocks blocks srv cookies s = snd (fold (\<lambda>b. b srv cookies) blocks (0, s))"

section \<open>Reading without cookies\<close>

text \<open>The specification of a block: it reads the reply of the property it is for.\<close>

datatype 's direct =
    ReadOne bool get_property "xreply option \<Rightarrow> 's \<Rightarrow> 's"
  | ReadTwo bool get_property get_property "xreply option \<Rightarrow> xreply option \<Rightarrow> 's \<Rightarrow> 's"

fun run_direct :: "server \<Rightarrow> 's direct \<Rightarrow> 's \<Rightarrow> 's" where
  "run_direct srv (ReadOne b r f) s = (if b then f (srv r) s else s)"
| "run_direct srv (ReadTwo b r r' f) s = (if b then f (srv r) (srv r') s else s)"

fun requests_of :: "'s direct \<Rightarrow> get_property list" where
  "requests_of (ReadOne b r f) = (if b then [r] else [])"
| "requests_of (ReadTwo b r r' f) = (if b then [r, r'] else [])"

fun block_of :: "'s direct \<Rightarrow> 's block" where
  "block_of (ReadOne b r f) = read_if b f"
| "block_of (ReadTwo b r r' f) = read_two_if b f"

section \<open>Alignment\<close>

lemma block_of_aligned:
  assumes "drop c cookies = requests_of d @ rest"
  shows "block_of d srv cookies (c, s) =
           (c + length (requests_of d), run_direct srv d s)"
    and "drop (c + length (requests_of d)) cookies = rest"
proof -
  show "drop (c + length (requests_of d)) cookies = rest"
    using assms by (metis append_eq_conv_conj add.commute drop_drop)
  show "block_of d srv cookies (c, s) =
          (c + length (requests_of d), run_direct srv d s)"
  proof (cases d)
    case (ReadOne b r f)
    with assms show ?thesis
      by (auto simp: read_if_def get_property_reply_def dest!: drop_eq_Cons_iff)
  next
    case (ReadTwo b r r' f)
    with assms show ?thesis
      by (auto simp: read_two_if_def get_property_reply_def dest!: drop_eq_Cons_iff)
  qed
qed

lemma fold_blocks_aligned:
  "drop c cookies = concat (map requests_of ds) @ rest \<Longrightarrow>
     fold (\<lambda>b. b srv cookies) (map block_of ds) (c, s) =
       (c + length (concat (map requests_of ds)), fold (run_direct srv) ds s)"
proof (induction ds arbitrary: c s)
  case Nil
  then show ?case by simp
next
  case (Cons d ds)
  from Cons.prems have "drop c cookies = requests_of d @ concat (map requests_of ds) @ rest" by simp
  note step = block_of_aligned [OF this]
  from Cons.IH [OF step(2)] show ?case by (simp add: step(1))
qed

text \<open>
  If the requests are those of the blocks in the order of the blocks, the pipelined reading is the
  direct one.
\<close>

lemma run_blocks_direct:
  assumes "cookies = concat (map requests_of ds)" and "blocks = map block_of ds"
  shows "run_blocks blocks srv cookies s = fold (run_direct srv) ds s"
  using fold_blocks_aligned [of 0 cookies ds "[]" srv s] assms by (simp add: run_blocks_def)

end
