(* ===== verification/RootUpdate.thy ===== *)
theory RootUpdate
  imports RootSupported Pipeline "HOL-Library.Multiset"
begin

text \<open>
  \<^verbatim>\<open>NETRootInfo::update\<close>: the requests it sends for the dirty properties, what each
  block does with its reply, and the two passes composed the way the code composes them.  At the
  end, \<^verbatim>\<open>activate\<close> and the two complete constructors.
\<close>

section \<open>First pass: the requests\<close>

definition root_get :: "atom_env \<Rightarrow> root_info \<Rightarrow> kws_atom \<Rightarrow> xatom \<Rightarrow> nat \<Rightarrow> get_property" where
  "root_get at p property type len =
     GetProperty (ri_root p) (at (Kws property)) (at type) 0 len"

definition root_requests :: "atom_env \<Rightarrow> root_info \<Rightarrow> u32 \<Rightarrow> u32 \<Rightarrow> get_property list" where
  "root_requests at p dirty dirty2 =
     (if hasf dirty (prop_flag Supported)
      then [root_get at p NET_SUPPORTED XaAtom MAX_PROP_SIZE] else []) @
     (if hasf dirty (prop_flag ClientList)
      then [root_get at p NET_CLIENT_LIST XaWindow MAX_PROP_SIZE] else []) @
     (if hasf dirty (prop_flag ClientListStacking)
      then [root_get at p NET_CLIENT_LIST_STACKING XaWindow MAX_PROP_SIZE] else []) @
     (if hasf dirty (prop_flag NumberOfDesktops)
      then [root_get at p NET_NUMBER_OF_DESKTOPS XaCardinal 1] else []) @
     (if hasf dirty (prop_flag DesktopGeometry)
      then [root_get at p NET_DESKTOP_GEOMETRY XaCardinal 2] else []) @
     (if hasf dirty (prop_flag DesktopViewport)
      then [root_get at p NET_DESKTOP_VIEWPORT XaCardinal MAX_PROP_SIZE] else []) @
     (if hasf dirty (prop_flag CurrentDesktop)
      then [root_get at p NET_CURRENT_DESKTOP XaCardinal 1] else []) @
     (if hasf dirty (prop_flag DesktopNames)
      then [root_get at p NET_DESKTOP_NAMES (Kws UTF8_STRING) MAX_PROP_SIZE] else []) @
     (if hasf dirty (prop_flag ActiveWindow)
      then [root_get at p NET_ACTIVE_WINDOW XaWindow 1] else []) @
     (if hasf dirty (prop_flag WorkArea)
      then [root_get at p NET_WORKAREA XaCardinal MAX_PROP_SIZE] else []) @
     (if hasf dirty (prop_flag SupportingWMCheck)
      then [root_get at p NET_SUPPORTING_WM_CHECK XaWindow 1] else []) @
     (if hasf dirty (prop_flag VirtualRoots)
      then [root_get at p NET_VIRTUAL_ROOTS XaWindow 1] else []) @
     (if hasf dirty2 (prop2_flag WM2DesktopLayout)
      then [root_get at p NET_DESKTOP_LAYOUT XaCardinal MAX_PROP_SIZE] else []) @
     (if hasf dirty2 (prop2_flag WM2ShowingDesktop)
      then [root_get at p NET_SHOWING_DESKTOP XaCardinal 1] else [])"

section \<open>Second pass: what a block does with its reply\<close>

definition read_supported :: "atom_env \<Rightarrow> xreply option \<Rightarrow> root_info \<Rightarrow> root_info" where
  "read_supported at reply p =
     fold (updateSupportedProperties at) (get_array_reply reply (at XaAtom))
       (p\<lparr>ri_properties := 0, ri_properties2 := 0, ri_windowTypes := 0, ri_states := 0,
          ri_actions := 0\<rparr>)"

text \<open>
  The comparison loop over the old and the new sorted client list: (to remove, to add).
\<close>

fun client_diff :: "u32 list \<Rightarrow> u32 list \<Rightarrow> u32 list \<times> u32 list" where
  "client_diff [] [] = ([], [])"
| "client_diff [] (n # ns) = (let (r, a) = client_diff [] ns in (r, n # a))"
| "client_diff (x # xs) [] = (let (r, a) = client_diff xs [] in (x # r, a))"
| "client_diff (x # xs) (n # ns) =
     (if x < n then (let (r, a) = client_diff xs (n # ns) in (x # r, a))
      else if n < x then (let (r, a) = client_diff (x # xs) ns in (r, n # a))
      else client_diff xs ns)"

definition read_client_list :: "atom_env \<Rightarrow> xreply option \<Rightarrow> root_step \<Rightarrow> root_step" where
  "read_client_list at reply = (\<lambda>(p, es).
     let clients = sort (get_array_reply reply (at XaWindow));
         (clientsToRemove, clientsToAdd) =
           (case ri_clients p of
              Some old \<Rightarrow>
                (if ri_role p = Client then client_diff (take (ri_clients_count p) old) clients
                 else ([], []))
            | None \<Rightarrow> ([], clients));
         p1 = p\<lparr>ri_clients := None\<rparr>;
         p2 = (if clients \<noteq> []
               then p1\<lparr>ri_clients_count := length clients, ri_clients := Some clients\<rparr> else p1)
     in (p2, es @ map (RootHook \<circ> RemoveClient) clientsToRemove
                @ map (RootHook \<circ> AddClient) clientsToAdd))"

definition read_stacking :: "atom_env \<Rightarrow> xreply option \<Rightarrow> root_info \<Rightarrow> root_info" where
  "read_stacking at reply p =
     (let p1 = p\<lparr>ri_stacking_count := 0, ri_stacking := None\<rparr>;
          wins = get_array_reply reply (at XaWindow)
      in if wins \<noteq> []
         then p1\<lparr>ri_stacking_count := length wins, ri_stacking := Some wins\<rparr> else p1)"

definition read_number_of_desktops :: "atom_env \<Rightarrow> xreply option \<Rightarrow> root_info \<Rightarrow> root_info" where
  "read_number_of_desktops at reply p =
     p\<lparr>ri_number_of_desktops := fst (get_value_reply reply (at XaCardinal) 0)\<rparr>"

definition read_geometry :: "atom_env \<Rightarrow> xreply option \<Rightarrow> root_info \<Rightarrow> root_info" where
  "read_geometry at reply p =
     (let p1 = p\<lparr>ri_geometry := ri_rootSize p\<rparr>;
          data = get_array_reply reply (at XaCardinal)
      in if length data = 2
         then p1\<lparr>ri_geometry := \<lparr>sz_width = data ! 0, sz_height = data ! 1\<rparr>\<rparr> else p1)"

text \<open>Two words a point, four words a rectangle; left-over words are dropped.\<close>

fun points_of :: "u32 list \<Rightarrow> net_point list" where
  "points_of (x # y # rest) = \<lparr>pt_x = x, pt_y = y\<rparr> # points_of rest"
| "points_of _ = []"

fun rects_of :: "u32 list \<Rightarrow> net_rect list" where
  "rects_of (x # y # w # h # rest) =
     \<lparr>rect_pos = \<lparr>pt_x = x, pt_y = y\<rparr>, rect_size = \<lparr>sz_width = w, sz_height = h\<rparr>\<rparr> # rects_of rest"
| "rects_of _ = []"

definition read_viewport :: "atom_env \<Rightarrow> xreply option \<Rightarrow> root_info \<Rightarrow> root_info" where
  "read_viewport at reply p =
     (let vp = rarr_fill point0 0 (replicate (rarr_size (ri_viewport p)) point0) (ri_viewport p);
          data = get_array_reply reply (at XaCardinal)
      in p\<lparr>ri_viewport :=
             (if length data \<ge> 2 then rarr_fill point0 0 (points_of data) vp else vp)\<rparr>)"

definition read_current_desktop :: "atom_env \<Rightarrow> xreply option \<Rightarrow> root_info \<Rightarrow> root_info" where
  "read_current_desktop at reply p =
     p\<lparr>ri_current_desktop := fst (get_value_reply reply (at XaCardinal) 0) + 1\<rparr>"

definition read_desktop_names :: "atom_env \<Rightarrow> xreply option \<Rightarrow> root_info \<Rightarrow> root_info" where
  "read_desktop_names at reply p =
     (let names = get_stringlist_reply reply (at (Kws UTF8_STRING))
      in p\<lparr>ri_desktop_names :=
             rarr_fill None 0 (map (\<lambda>n. nstrndup n (length n)) names)
               (rarr_reset None (ri_desktop_names p))\<rparr>)"

definition read_active :: "atom_env \<Rightarrow> xreply option \<Rightarrow> root_info \<Rightarrow> root_info" where
  "read_active at reply p = p\<lparr>ri_active := fst (get_value_reply reply (at XaWindow) 0)\<rparr>"

definition read_workarea :: "atom_env \<Rightarrow> xreply option \<Rightarrow> root_info \<Rightarrow> root_info" where
  "read_workarea at reply p =
     (let wa = rarr_reset rect0 (ri_workarea p);
          data = get_array_reply reply (at XaCardinal)
      in p\<lparr>ri_workarea :=
             (if int (length data) = sint (ri_number_of_desktops p) * 4
              then rarr_fill rect0 0 (rects_of data) wa else wa)\<rparr>)"

definition read_supporting_check :: "atom_env \<Rightarrow> xreply option \<Rightarrow> root_info \<Rightarrow> root_info" where
  "read_supporting_check at reply p =
     p\<lparr>ri_name := None, ri_supportwindow := fst (get_value_reply reply (at XaWindow) 0)\<rparr>"

text \<open>The reply is read as \<^verbatim>\<open>XCB_ATOM_CARDINAL\<close> here, the request above asks for windows.\<close>

definition read_virtual_roots :: "atom_env \<Rightarrow> xreply option \<Rightarrow> root_info \<Rightarrow> root_info" where
  "read_virtual_roots at reply p =
     (let p1 = p\<lparr>ri_virtual_roots_count := 0, ri_virtual_roots := None\<rparr>;
          wins = get_array_reply reply (at XaCardinal)
      in if wins \<noteq> []
         then p1\<lparr>ri_virtual_roots_count := length wins, ri_virtual_roots := Some wins\<rparr> else p1)"

definition corner_of :: "u32 \<Rightarrow> desktop_layout_corner" where
  "corner_of w = (if w = 0 then DesktopLayoutCornerTopLeft
     else if w = 1 then DesktopLayoutCornerTopRight
     else if w = 2 then DesktopLayoutCornerBottomLeft else DesktopLayoutCornerBottomRight)"

definition read_layout :: "atom_env \<Rightarrow> xreply option \<Rightarrow> root_info \<Rightarrow> root_info" where
  "read_layout at reply p =
     (let p1 = p\<lparr>ri_layout_orientation := OrientationHorizontal,
                 ri_layout_corner := DesktopLayoutCornerTopLeft,
                 ri_layout_columns := 0, ri_layout_rows := 0\<rparr>;
          data = get_array_reply reply (at XaCardinal);
          p2 = (if length data \<ge> 4 \<and> data ! 3 \<le> 3
                then p1\<lparr>ri_layout_corner := corner_of (data ! 3)\<rparr> else p1)
      in if length data \<ge> 3
         then (if data ! 0 \<le> 1
               then p2\<lparr>ri_layout_orientation :=
                        (if data ! 0 = 0 then OrientationHorizontal else OrientationVertical)\<rparr>
               else p2)\<lparr>ri_layout_columns := data ! 1, ri_layout_rows := data ! 2\<rparr>
         else p2)"

definition read_showing :: "atom_env \<Rightarrow> xreply option \<Rightarrow> root_info \<Rightarrow> root_info" where
  "read_showing at reply p =
     p\<lparr>ri_showing_desktop := (fst (get_value_reply reply (at XaCardinal) 0) \<noteq> 0)\<rparr>"

text \<open>A block that has no effect but on the private data.\<close>

definition quiet :: "(xreply option \<Rightarrow> root_info \<Rightarrow> root_info) \<Rightarrow> xreply option \<Rightarrow> root_step \<Rightarrow> root_step" where
  "quiet f reply = (\<lambda>(p, es). (f reply p, es))"

definition root_blocks :: "atom_env \<Rightarrow> u32 \<Rightarrow> u32 \<Rightarrow> root_step block list" where
  "root_blocks at dirty dirty2 =
     [read_if (hasf dirty (prop_flag Supported)) (quiet (read_supported at)),
      read_if (hasf dirty (prop_flag ClientList)) (read_client_list at),
      read_if (hasf dirty (prop_flag ClientListStacking)) (quiet (read_stacking at)),
      read_if (hasf dirty (prop_flag NumberOfDesktops)) (quiet (read_number_of_desktops at)),
      read_if (hasf dirty (prop_flag DesktopGeometry)) (quiet (read_geometry at)),
      read_if (hasf dirty (prop_flag DesktopViewport)) (quiet (read_viewport at)),
      read_if (hasf dirty (prop_flag CurrentDesktop)) (quiet (read_current_desktop at)),
      read_if (hasf dirty (prop_flag DesktopNames)) (quiet (read_desktop_names at)),
      read_if (hasf dirty (prop_flag ActiveWindow)) (quiet (read_active at)),
      read_if (hasf dirty (prop_flag WorkArea)) (quiet (read_workarea at)),
      read_if (hasf dirty (prop_flag SupportingWMCheck)) (quiet (read_supporting_check at)),
      read_if (hasf dirty (prop_flag VirtualRoots)) (quiet (read_virtual_roots at)),
      read_if (hasf dirty2 (prop2_flag WM2DesktopLayout)) (quiet (read_layout at)),
      read_if (hasf dirty2 (prop2_flag WM2ShowingDesktop)) (quiet (read_showing at))]"

text \<open>
  The name of the window manager is asked for once the check window is known, and its reply is
  taken after all others.
\<close>

definition wm_name_request :: "atom_env \<Rightarrow> root_info \<Rightarrow> get_property" where
  "wm_name_request at p =
     GetProperty (ri_supportwindow p) (at (Kws NET_WM_NAME)) (at (Kws UTF8_STRING)) 0 MAX_PROP_SIZE"

definition read_wm_name :: "atom_env \<Rightarrow> server \<Rightarrow> u32 \<Rightarrow> root_info \<Rightarrow> root_info" where
  "read_wm_name at srv dirty p =
     (if hasf dirty (prop_flag SupportingWMCheck) \<and> ri_supportwindow p \<noteq> 0 then
        (let ba = get_string_reply (srv (wm_name_request at p)) (at (Kws UTF8_STRING))
         in if length ba > 0 then p\<lparr>ri_name := nstrndup ba (length ba)\<rparr> else p)
      else p)"

definition root_update :: "atom_env \<Rightarrow> server \<Rightarrow> root_info \<Rightarrow> u32 \<Rightarrow> u32 \<Rightarrow> root_step" where
  "root_update at srv p properties properties2 =
     (let dirty = properties AND ri_clientProperties p;
          dirty2 = properties2 AND ri_clientProperties2 p;
          cookies = root_requests at p dirty dirty2;
          (p1, es) = run_blocks (root_blocks at dirty dirty2) srv cookies (p, [])
      in (read_wm_name at srv dirty p1, es))"

section \<open>Activation and the complete constructors\<close>

definition activate :: "atom_env \<Rightarrow> server \<Rightarrow> root_info \<Rightarrow> root_step" where
  "activate at srv p =
     (if ri_role p = WindowManager then
        (let (p1, es1) = setSupported at p;
             (p2, es2) = root_update at srv p1 (ri_clientProperties p1) (ri_clientProperties2 p1)
         in (p2, es1 @ es2))
      else root_update at srv p (ri_clientProperties p) (ri_clientProperties2 p))"

definition new_root_wm ::
  "atom_env \<Rightarrow> server \<Rightarrow> x_screen list \<Rightarrow> u32 \<Rightarrow> cstr \<Rightarrow> u32 \<Rightarrow> u32 \<Rightarrow> u32 \<Rightarrow> u32 \<Rightarrow> u32 \<Rightarrow> i32 \<Rightarrow> bool
     \<Rightarrow> root_step" where
  "new_root_wm at srv screens supportWindow wmName props windowTypes states props2 actions screen
     doActivate =
     (let p = NETRootInfo_wm screens supportWindow wmName props windowTypes states props2 actions
                screen
      in if doActivate then activate at srv p else (p, []))"

definition new_root_client ::
  "atom_env \<Rightarrow> server \<Rightarrow> x_screen list \<Rightarrow> u32 \<Rightarrow> u32 \<Rightarrow> i32 \<Rightarrow> bool \<Rightarrow> root_step" where
  "new_root_client at srv screens props props2 screen doActivate =
     (let p = NETRootInfo_client screens props props2 screen
      in if doActivate then activate at srv p else (p, []))"

section \<open>The two passes read the right replies\<close>

text \<open>
  The specification of \<^verbatim>\<open>update\<close> without cookies: every dirty property is read from the
  server's answer to the request for that property.
\<close>

definition root_directs :: "atom_env \<Rightarrow> root_info \<Rightarrow> u32 \<Rightarrow> u32 \<Rightarrow> root_step direct list" where
  "root_directs at p dirty dirty2 =
     [ReadOne (hasf dirty (prop_flag Supported))
        (root_get at p NET_SUPPORTED XaAtom MAX_PROP_SIZE) (quiet (read_supported at)),
      ReadOne (hasf dirty (prop_flag ClientList))
        (root_get at p NET_CLIENT_LIST XaWindow MAX_PROP_SIZE) (read_client_list at),
      ReadOne (hasf dirty (prop_flag ClientListStacking))
        (root_get at p NET_CLIENT_LIST_STACKING XaWindow MAX_PROP_SIZE) (quiet (read_stacking at)),
      ReadOne (hasf dirty (prop_flag NumberOfDesktops))
        (root_get at p NET_NUMBER_OF_DESKTOPS XaCardinal 1) (quiet (read_number_of_desktops at)),
      ReadOne (hasf dirty (prop_flag DesktopGeometry))
        (root_get at p NET_DESKTOP_GEOMETRY XaCardinal 2) (quiet (read_geometry at)),
      ReadOne (hasf dirty (prop_flag DesktopViewport))
        (root_get at p NET_DESKTOP_VIEWPORT XaCardinal MAX_PROP_SIZE) (quiet (read_viewport at)),
      ReadOne (hasf dirty (prop_flag CurrentDesktop))
        (root_get at p NET_CURRENT_DESKTOP XaCardinal 1) (quiet (read_current_desktop at)),
      ReadOne (hasf dirty (prop_flag DesktopNames))
        (root_get at p NET_DESKTOP_NAMES (Kws UTF8_STRING) MAX_PROP_SIZE)
        (quiet (read_desktop_names at)),
      ReadOne (hasf dirty (prop_flag ActiveWindow))
        (root_get at p NET_ACTIVE_WINDOW XaWindow 1) (quiet (read_active at)),
      ReadOne (hasf dirty (prop_flag WorkArea))
        (root_get at p NET_WORKAREA XaCardinal MAX_PROP_SIZE) (quiet (read_workarea at)),
      ReadOne (hasf dirty (prop_flag SupportingWMCheck))
        (root_get at p NET_SUPPORTING_WM_CHECK XaWindow 1) (quiet (read_supporting_check at)),
      ReadOne (hasf dirty (prop_flag VirtualRoots))
        (root_get at p NET_VIRTUAL_ROOTS XaWindow 1) (quiet (read_virtual_roots at)),
      ReadOne (hasf dirty2 (prop2_flag WM2DesktopLayout))
        (root_get at p NET_DESKTOP_LAYOUT XaCardinal MAX_PROP_SIZE) (quiet (read_layout at)),
      ReadOne (hasf dirty2 (prop2_flag WM2ShowingDesktop))
        (root_get at p NET_SHOWING_DESKTOP XaCardinal 1) (quiet (read_showing at))]"

definition root_update_direct :: "atom_env \<Rightarrow> server \<Rightarrow> root_info \<Rightarrow> u32 \<Rightarrow> u32 \<Rightarrow> root_step" where
  "root_update_direct at srv p properties properties2 =
     (let dirty = properties AND ri_clientProperties p;
          dirty2 = properties2 AND ri_clientProperties2 p;
          (p1, es) = fold (run_direct srv) (root_directs at p dirty dirty2) (p, [])
      in (read_wm_name at srv dirty p1, es))"

lemma root_update_is_direct:
  "root_update at srv p properties properties2 = root_update_direct at srv p properties properties2"
proof -
  define dirty where "dirty = properties AND ri_clientProperties p"
  define dirty2 where "dirty2 = properties2 AND ri_clientProperties2 p"
  have requests: "root_requests at p dirty dirty2 =
      concat (map requests_of (root_directs at p dirty dirty2))"
    by (simp only: root_requests_def root_directs_def list.map concat.simps requests_of.simps
        append_Nil2)
  have blocks: "root_blocks at dirty dirty2 = map block_of (root_directs at p dirty dirty2)"
    by (simp only: root_blocks_def root_directs_def list.map block_of.simps)
  show ?thesis
    unfolding root_update_def root_update_direct_def Let_def dirty_def [symmetric] dirty2_def [symmetric]
    by (simp only: run_blocks_direct [OF requests blocks])
qed

section \<open>The client list\<close>

lemma client_diff_Nil2 [simp]: "client_diff xs [] = (xs, [])"
  by (induction xs) simp_all

lemma client_diff_Nil1 [simp]: "client_diff [] ns = ([], ns)"
  by (induction ns) simp_all

lemma mset_diff_sorted_Cons:
  fixes x n :: "'a :: linorder"
  assumes "sorted (n # ns)" "x < n"
  shows "add_mset x M - mset (n # ns) = add_mset x (M - mset (n # ns))"
proof -
  have "x \<notin> set (n # ns)" using assms by auto
  then have "x \<notin># mset (n # ns)" by simp
  then show ?thesis by (simp add: diff_add_mset_swap)
qed

text \<open>The loop computes the two multiset differences.\<close>

lemma client_diff_mset:
  "sorted old \<Longrightarrow> sorted new \<Longrightarrow>
     mset (fst (client_diff old new)) = mset old - mset new \<and>
     mset (snd (client_diff old new)) = mset new - mset old"
proof (induction old new rule: client_diff.induct)
  case (4 x xs n ns)
  consider "x < n" | "n < x" | "x = n" by fastforce
  then show ?case
  proof cases
    case 1
    have out: "x \<notin># mset (n # ns)" using 1 "4.prems"(2) by auto
    have "mset (n # ns) - mset (x # xs) = mset (n # ns) - mset xs"
      using out by (metis diff_union_single_conv minus_add_mset_if_not_in_lhs mset.simps(2))
    moreover have "mset (x # xs) - mset (n # ns) = add_mset x (mset xs - mset (n # ns))"
      using mset_diff_sorted_Cons [OF "4.prems"(2) 1, of "mset xs"] by simp
    ultimately show ?thesis using 1 "4.IH"(1) "4.prems" by (simp add: case_prod_beta)
  next
    case 2
    have out: "n \<notin># mset (x # xs)" using 2 "4.prems"(1) by auto
    have "mset (x # xs) - mset (n # ns) = mset (x # xs) - mset ns"
      using out by (metis minus_add_mset_if_not_in_lhs mset.simps(2))
    moreover have "mset (n # ns) - mset (x # xs) = add_mset n (mset ns - mset (x # xs))"
      using mset_diff_sorted_Cons [OF "4.prems"(1) 2, of "mset ns"] by simp
    moreover have "\<not> x < n" using 2 by simp
    ultimately show ?thesis using 2 "4.IH"(2) "4.prems" by (simp add: case_prod_beta)
  next
    case 3
    then show ?thesis using "4.IH"(3) "4.prems" by simp
  qed
qed simp_all

section \<open>Invariants of the private data\<close>

text \<open>
  A client list that is there is not empty and has the length the count says; a client keeps it
  sorted.  The names hold no NUL and the arrays are well-formed (\<open>root_ok\<close>).
\<close>

definition clients_ok :: "root_info \<Rightarrow> bool" where
  "clients_ok p \<longleftrightarrow>
     (\<forall>ws. ri_clients p = Some ws \<longrightarrow>
        ws \<noteq> [] \<and> ri_clients_count p = length ws \<and> (ri_role p = Client \<longrightarrow> sorted ws))"

definition root_inv :: "root_info \<Rightarrow> bool" where
  "root_inv p \<longleftrightarrow> root_ok p \<and> clients_ok p"

lemma addSupported_frame [simp]:
  "ri_viewport (addSupported f p) = ri_viewport p" "ri_workarea (addSupported f p) = ri_workarea p"
  "ri_desktop_names (addSupported f p) = ri_desktop_names p"
  "ri_clients (addSupported f p) = ri_clients p"
  "ri_clients_count (addSupported f p) = ri_clients_count p" "ri_role (addSupported f p) = ri_role p"
  "ri_root (addSupported f p) = ri_root p"
  by (cases f; simp)+

lemma root_inv_addSupported [simp]: "root_inv (addSupported f p) \<longleftrightarrow> root_inv p"
  by (simp add: root_inv_def root_ok_def clients_ok_def)

lemma root_inv_removeSupported [simp]: "root_inv (removeSupported f p) \<longleftrightarrow> root_inv p"
  by (cases f) (simp_all add: root_inv_def root_ok_def clients_ok_def)

lemma root_inv_flags [simp]:
  "root_inv (p\<lparr>ri_properties := a\<rparr>) \<longleftrightarrow> root_inv p" "root_inv (p\<lparr>ri_properties2 := a\<rparr>) \<longleftrightarrow> root_inv p"
  "root_inv (p\<lparr>ri_windowTypes := a\<rparr>) \<longleftrightarrow> root_inv p" "root_inv (p\<lparr>ri_states := a\<rparr>) \<longleftrightarrow> root_inv p"
  "root_inv (p\<lparr>ri_actions := a\<rparr>) \<longleftrightarrow> root_inv p" "root_inv (p\<lparr>ri_active := a\<rparr>) \<longleftrightarrow> root_inv p"
  "root_inv (p\<lparr>ri_stacking := b\<rparr>) \<longleftrightarrow> root_inv p" "root_inv (p\<lparr>ri_stacking_count := n\<rparr>) \<longleftrightarrow> root_inv p"
  "root_inv (p\<lparr>ri_number_of_desktops := a\<rparr>) \<longleftrightarrow> root_inv p"
  "root_inv (p\<lparr>ri_current_desktop := a\<rparr>) \<longleftrightarrow> root_inv p" "root_inv (p\<lparr>ri_geometry := g\<rparr>) \<longleftrightarrow> root_inv p"
  "root_inv (p\<lparr>ri_virtual_roots := b\<rparr>) \<longleftrightarrow> root_inv p"
  "root_inv (p\<lparr>ri_virtual_roots_count := n\<rparr>) \<longleftrightarrow> root_inv p"
  "root_inv (p\<lparr>ri_layout_orientation := orient\<rparr>) \<longleftrightarrow> root_inv p"
  "root_inv (p\<lparr>ri_layout_corner := corner\<rparr>) \<longleftrightarrow> root_inv p"
  "root_inv (p\<lparr>ri_layout_columns := a\<rparr>) \<longleftrightarrow> root_inv p" "root_inv (p\<lparr>ri_layout_rows := a\<rparr>) \<longleftrightarrow> root_inv p"
  "root_inv (p\<lparr>ri_showing_desktop := sd\<rparr>) \<longleftrightarrow> root_inv p" "root_inv (p\<lparr>ri_name := nm\<rparr>) \<longleftrightarrow> root_inv p"
  "root_inv (p\<lparr>ri_supportwindow := a\<rparr>) \<longleftrightarrow> root_inv p"
  by (simp_all add: root_inv_def root_ok_def clients_ok_def)

lemma root_inv_viewport: "rarr_ok point0 a \<Longrightarrow> root_inv p \<Longrightarrow> root_inv (p\<lparr>ri_viewport := a\<rparr>)"
  by (simp add: root_inv_def root_ok_def clients_ok_def)

lemma root_inv_workarea: "rarr_ok rect0 a \<Longrightarrow> root_inv p \<Longrightarrow> root_inv (p\<lparr>ri_workarea := a\<rparr>)"
  by (simp add: root_inv_def root_ok_def clients_ok_def)

lemma root_inv_names:
  "rarr_ok None a \<Longrightarrow> \<forall>n \<in> set (rarr_list a). \<forall>s. n = Some s \<longrightarrow> no_nul s \<Longrightarrow> root_inv p \<Longrightarrow>
     root_inv (p\<lparr>ri_desktop_names := a\<rparr>)"
  by (simp add: root_inv_def root_ok_def clients_ok_def)

lemma root_inv_arrays:
  "root_inv p \<Longrightarrow> rarr_ok point0 (ri_viewport p)" "root_inv p \<Longrightarrow> rarr_ok rect0 (ri_workarea p)"
  "root_inv p \<Longrightarrow> rarr_ok None (ri_desktop_names p)"
  by (simp_all add: root_inv_def root_ok_def)

lemma root_inv_quiet:
  assumes "root_inv p"
  shows "root_inv (read_supported at r p)" "root_inv (read_stacking at r p)"
    "root_inv (read_number_of_desktops at r p)" "root_inv (read_geometry at r p)"
    "root_inv (read_viewport at r p)" "root_inv (read_current_desktop at r p)"
    "root_inv (read_desktop_names at r p)" "root_inv (read_active at r p)"
    "root_inv (read_workarea at r p)" "root_inv (read_supporting_check at r p)"
    "root_inv (read_virtual_roots at r p)" "root_inv (read_layout at r p)"
    "root_inv (read_showing at r p)" "root_inv (read_wm_name at srv d p)"
proof -
  have fold: "root_inv (fold (updateSupportedProperties at) ws q) \<longleftrightarrow> root_inv q" for ws q
    by (induction ws arbitrary: q) (simp_all add: updateSupportedProperties_def split: option.split)
  show "root_inv (read_supported at r p)" using assms by (simp add: read_supported_def fold)
  show "root_inv (read_stacking at r p)" "root_inv (read_number_of_desktops at r p)"
    "root_inv (read_geometry at r p)" "root_inv (read_current_desktop at r p)"
    "root_inv (read_active at r p)" "root_inv (read_supporting_check at r p)"
    "root_inv (read_virtual_roots at r p)" "root_inv (read_layout at r p)"
    "root_inv (read_showing at r p)" "root_inv (read_wm_name at srv d p)"
    using assms by (simp_all add: read_stacking_def read_number_of_desktops_def read_geometry_def
        read_current_desktop_def read_active_def read_supporting_check_def read_virtual_roots_def
        read_layout_def read_showing_def read_wm_name_def Let_def)
  show "root_inv (read_viewport at r p)"
    using assms by (auto simp: read_viewport_def Let_def root_inv_arrays rarr_fill_correct
        intro!: root_inv_viewport)
  show "root_inv (read_workarea at r p)"
    using assms by (auto simp: read_workarea_def Let_def rarr_fill_correct intro!: root_inv_workarea)
  show "root_inv (read_desktop_names at r p)"
    using assms by (auto simp: read_desktop_names_def Let_def rarr_fill_correct nstrndup_def
        intro!: root_inv_names split: if_splits)
qed

lemma root_inv_read_client_list:
  "root_inv (fst s) \<Longrightarrow> root_inv (fst (read_client_list at r s))"
  by (cases s) (auto simp: read_client_list_def Let_def root_inv_def root_ok_def clients_ok_def
      split: prod.split)

lemma root_inv_run_direct:
  "d \<in> set (root_directs at p d1 d2) \<Longrightarrow> root_inv (fst s) \<Longrightarrow> root_inv (fst (run_direct srv d s))"
  by (cases s) (auto simp: root_directs_def quiet_def root_inv_quiet root_inv_read_client_list)

lemma fold_invariant_in:
  "(\<And>x s. x \<in> set xs \<Longrightarrow> I s \<Longrightarrow> I (f x s)) \<Longrightarrow> I s \<Longrightarrow> I (fold f xs s)"
  by (induction xs arbitrary: s) auto

lemma root_update_inv: "root_inv p \<Longrightarrow> root_inv (fst (root_update at srv p props props2))"
proof -
  assume p: "root_inv p"
  have "root_inv (fst (fold (run_direct srv) (root_directs at p d1 d2) (p, [])))" for d1 d2
    by (rule fold_invariant_in [where I = "\<lambda>s. root_inv (fst s)"])
      (use p root_inv_run_direct in \<open>auto\<close>)
  then show ?thesis
    by (simp add: root_update_is_direct root_update_direct_def Let_def case_prod_beta root_inv_quiet)
qed

end
