(* ===== verification/XServer.thy ===== *)
theory XServer
  imports Xcb
begin

text \<open>
  What the protocol theorems assume of the X server, which is outside the repository: after a
  property was replaced, a request for it with the stored type and a length that covers the value
  is answered with the value; after it was deleted, the answer carries no value.  A small server
  that answers a list of requests shows that the assumption can hold.
\<close>

section \<open>Answers\<close>

text \<open>A length is in units of 32 bits.\<close>

definition xfits :: "xvalue \<Rightarrow> nat \<Rightarrow> bool" where
  "xfits v len \<longleftrightarrow> value_len v * xformat v \<le> 32 * len"

definition no_value :: "xreply option \<Rightarrow> bool" where
  "no_value reply \<longleftrightarrow> (case reply of None \<Rightarrow> True | Some r \<Rightarrow> reply_value r = NoValue)"

fun answers :: "server \<Rightarrow> xreq \<Rightarrow> bool" where
  "answers srv (ChangeProperty w p t v) \<longleftrightarrow>
     (\<forall>len. xfits v len \<longrightarrow> srv (GetProperty w p t 0 len) = stored_reply (ChangeProperty w p t v))"
| "answers srv (DeleteProperty w p) \<longleftrightarrow> (\<forall>t off len. no_value (srv (GetProperty w p t off len)))"
| "answers srv (SendClientMessage dest m w t d) \<longleftrightarrow> True"

text \<open>A server that holds what the first request of the list for a property says.\<close>

fun serve :: "xreq list \<Rightarrow> server" where
  "serve [] (GetProperty w' p' t' off len) = None"
| "serve (ChangeProperty w p t v # rs) (GetProperty w' p' t' off len) =
     (if w' = w \<and> p' = p
      then (if t' = t \<and> off = 0 \<and> xfits v len then stored_reply (ChangeProperty w p t v) else None)
      else serve rs (GetProperty w' p' t' off len))"
| "serve (DeleteProperty w p # rs) (GetProperty w' p' t' off len) =
     (if w' = w \<and> p' = p then None else serve rs (GetProperty w' p' t' off len))"
| "serve (SendClientMessage dest m w t d # rs) (GetProperty w' p' t' off len) =
     serve rs (GetProperty w' p' t' off len)"

fun about :: "xreq \<Rightarrow> (u32 \<times> u32) option" where
  "about (ChangeProperty w p t v) = Some (w, p)"
| "about (DeleteProperty w p) = Some (w, p)"
| "about (SendClientMessage dest m w t d) = None"

lemma answers_serve_head [simp]: "answers (serve (r # rs)) r"
  by (cases r) (simp_all add: no_value_def)

lemma answers_serve_tail:
  "about r' \<noteq> about r \<Longrightarrow> answers (serve rs) r' \<Longrightarrow> answers (serve (r # rs)) r'"
  by (cases r; cases r') auto

section \<open>Reading what is not there\<close>

lemma read_no_value [simp]:
  "no_value r \<Longrightarrow> get_value_reply r t d = (d, False)"
  "no_value r \<Longrightarrow> get_array_reply r t = []"
  "no_value r \<Longrightarrow> get_string_reply r t = []"
  "no_value r \<Longrightarrow> get_stringlist_reply r t = []"
  by (auto simp: no_value_def get_value_reply_def get_array_reply_def get_string_reply_def
      get_stringlist_reply_def split: option.splits)

section \<open>Reading what is there\<close>

lemma get_value_reply_plain [simp]:
  "get_value_reply (Some \<lparr>reply_type = t, reply_value = V32 [x]\<rparr>) t def = (x, True)"
  by (simp add: get_value_reply_def)

lemma get_array_reply_plain [simp]:
  "get_array_reply (Some \<lparr>reply_type = t, reply_value = V32 ws\<rparr>) t = ws"
  by (simp add: get_array_reply_def)

lemma get_string_reply_plain [simp]:
  "no_nul s \<Longrightarrow> get_string_reply (Some \<lparr>reply_type = t, reply_value = V8 s\<rparr>) t = s"
  by (simp add: get_string_reply_def chop_nul_no_nul)

end
