(* ===== verification/RootProtocol.thy ===== *)
theory RootProtocol
  imports RootEvent XServer
begin

text \<open>
  The two sides of the root window's properties together: what a window manager writes is what a
  client that is notified of the change reads.  The X server's part is the predicate
  \<open>answers\<close>.
\<close>

section \<open>A client that watches everything\<close>

definition watches_all :: "root_info \<Rightarrow> bool" where
  "watches_all c \<longleftrightarrow> ri_role c = Client \<and>
     ri_clientProperties c = prop_flag WMAllProperties \<and>
     ri_clientProperties2 c = prop2_flag WM2AllProperties"

lemma notify_updates_direct:
  assumes "watches_all c"
  shows "root_event at srv c (PropertyNotify atom) =
    (let (dirty, dirty2) = root_notify at atom;
         (p1, es) = fold (run_direct srv) (root_directs at c dirty dirty2) (c, [])
     in ((read_wm_name at srv dirty p1, es), dirty, dirty2))"
  using assms
  by (simp add: root_update_is_direct root_update_direct_def watches_all_def case_prod_beta)

text \<open>The writes of one word or a few words.\<close>

datatype root_write =
    WrNumberOfDesktops i32
  | WrCurrentDesktop i32
  | WrGeometry net_size
  | WrActiveWindow u32
  | WrShowingDesktop bool
  | WrLayout orientation i32 i32 desktop_layout_corner
  | WrClientList "u32 list"
  | WrStacking "u32 list"

fun publish :: "atom_env \<Rightarrow> root_info \<Rightarrow> root_write \<Rightarrow> root_step" where
  "publish at p (WrNumberOfDesktops n) = setNumberOfDesktops at p n"
| "publish at p (WrCurrentDesktop d) = setCurrentDesktop at False p d False"
| "publish at p (WrGeometry g) = setDesktopGeometry at p g"
| "publish at p (WrActiveWindow w) = setActiveWindow at p w FromUnknown 0 0"
| "publish at p (WrShowingDesktop b) = setShowingDesktop at p b"
| "publish at p (WrLayout orient cols rows corner) = setDesktopLayout at p orient cols rows corner"
| "publish at p (WrClientList ws) = setClientList at p ws"
| "publish at p (WrStacking ws) = setClientListStacking at p ws"

fun written_atom :: "root_write \<Rightarrow> kws_atom" where
  "written_atom (WrNumberOfDesktops n) = NET_NUMBER_OF_DESKTOPS"
| "written_atom (WrCurrentDesktop d) = NET_CURRENT_DESKTOP"
| "written_atom (WrGeometry g) = NET_DESKTOP_GEOMETRY"
| "written_atom (WrActiveWindow w) = NET_ACTIVE_WINDOW"
| "written_atom (WrShowingDesktop b) = NET_SHOWING_DESKTOP"
| "written_atom (WrLayout orient cols rows corner) = NET_DESKTOP_LAYOUT"
| "written_atom (WrClientList ws) = NET_CLIENT_LIST"
| "written_atom (WrStacking ws) = NET_CLIENT_LIST_STACKING"

text \<open>What a reader then holds: the value written, and the client list in ascending order.\<close>

fun holds :: "root_info \<Rightarrow> root_write \<Rightarrow> bool" where
  "holds p (WrNumberOfDesktops n) \<longleftrightarrow> ri_number_of_desktops p = n"
| "holds p (WrCurrentDesktop d) \<longleftrightarrow> ri_current_desktop p = d"
| "holds p (WrGeometry g) \<longleftrightarrow> ri_geometry p = g"
| "holds p (WrActiveWindow w) \<longleftrightarrow> ri_active p = w"
| "holds p (WrShowingDesktop b) \<longleftrightarrow> ri_showing_desktop p = b"
| "holds p (WrLayout orient cols rows corner) \<longleftrightarrow>
     ri_layout_orientation p = orient \<and> ri_layout_columns p = cols \<and> ri_layout_rows p = rows \<and>
     ri_layout_corner p = corner"
| "holds p (WrClientList ws) \<longleftrightarrow> clientList p = (if ws = [] then None else Some (sort ws))"
| "holds p (WrStacking ws) \<longleftrightarrow> ri_stacking p = (if ws = [] then None else Some ws)"

fun write_fits :: "root_write \<Rightarrow> bool" where
  "write_fits (WrClientList ws) \<longleftrightarrow> length ws \<le> MAX_PROP_SIZE"
| "write_fits (WrStacking ws) \<longleftrightarrow> length ws \<le> MAX_PROP_SIZE"
| "write_fits _ \<longleftrightarrow> True"

lemma corner_roundtrip [simp]: "corner_of (corner_value c) = c" "corner_value c \<le> 3"
  by (cases c; simp add: corner_of_def)+

lemma orientation_roundtrip [simp]:
  "orientation_value orient \<le> 1"
  "(orientation_value orient = 0) = (orient = OrientationHorizontal)"
  by (cases orient; simp)+

lemma orientation_other [simp]: "(orient \<noteq> OrientationHorizontal) = (orient = OrientationVertical)"
  by (cases orient) simp_all

lemma sort_Nil_iff [simp]: "(sort xs = []) = (xs = [])"
  by (metis length_0_conv length_sort)

lemma publish_single:
  "ri_role w = WindowManager \<Longrightarrow> \<exists>req. snd (publish at w wr) = [RootReq req]"
  by (cases wr) (simp_all add: root_setter_defs root_change_def)

lemmas read_defs =
  read_supported_def read_client_list_def read_stacking_def read_number_of_desktops_def
  read_geometry_def read_viewport_def read_current_desktop_def read_desktop_names_def
  read_active_def read_workarea_def read_supporting_check_def read_virtual_roots_def
  read_layout_def read_showing_def

end
