(* ===== verification/RootReach.thy ===== *)
theory RootReach
  imports RootProtocol
begin

text \<open>
  The objects a program can have: everything that comes out of the two constructors by any
  sequence of operations and events is reachable, and every reachable object satisfies the
  invariant \<open>root_inv\<close>.  Then the three array properties, names, work areas and viewports, from the
  writer to the reader.
\<close>

section \<open>Reachable objects\<close>

text \<open>
  Strings that come from the caller are C strings; \<open>mv\<close> is the viewport question of
  \<^verbatim>\<open>setCurrentDesktop\<close>.
\<close>

inductive root_reachable :: "atom_env \<Rightarrow> root_info \<Rightarrow> bool" for at :: atom_env where
  window_manager:
    "root_reachable at (NETRootInfo_wm screens support wmName props types states props2 actions screen)"
| client: "root_reachable at (NETRootInfo_client screens props props2 screen)"
| activated: "root_reachable at p \<Longrightarrow> root_reachable at (fst (activate at srv p))"
| event: "root_reachable at p \<Longrightarrow> root_reachable at (fst (fst (root_event at srv p ev)))"
| published: "root_reachable at p \<Longrightarrow> root_reachable at (fst (publish at p wr))"
| named: "root_reachable at p \<Longrightarrow> (\<And>s. n = Some s \<Longrightarrow> no_nul s) \<Longrightarrow>
     root_reachable at (fst (setDesktopName at p d n))"
| viewport: "root_reachable at p \<Longrightarrow> root_reachable at (fst (setDesktopViewport at p d v))"
| workarea: "root_reachable at p \<Longrightarrow> root_reachable at (fst (setWorkArea at p d r))"
| virtual_roots: "root_reachable at p \<Longrightarrow> root_reachable at (fst (setVirtualRoots at p ws))"
| supported: "root_reachable at p \<Longrightarrow> root_reachable at (fst (setSupported_flag at p f on))"

lemma root_inv_wm:
  "root_inv (NETRootInfo_wm screens support wmName props types states props2 actions screen)"
  by (simp add: NETRootInfo_wm_def setDefaultProperties_def root_blank_def root_inv_def root_ok_def
      clients_ok_def)

lemma root_inv_client: "root_inv (NETRootInfo_client screens props props2 screen)"
  by (simp add: NETRootInfo_client_def setDefaultProperties_def root_blank_def root_inv_def
      root_ok_def clients_ok_def Let_def)

lemma setSupported_same [simp]: "fst (setSupported at p) = p"
  by (simp add: setSupported_def)

lemma root_inv_activate: "root_inv p \<Longrightarrow> root_inv (fst (activate at srv p))"
  by (simp add: activate_def case_prod_beta root_update_inv)

lemma root_inv_event: "root_inv p \<Longrightarrow> root_inv (fst (fst (root_event at srv p ev)))"
  by (cases ev) (simp_all add: case_prod_beta root_update_inv)

lemma root_inv_publish: "root_inv p \<Longrightarrow> root_inv (fst (publish at p wr))"
  by (cases wr)
    (auto simp: root_setter_defs root_inv_def root_ok_def clients_ok_def nwindup_def)

lemma root_inv_setDesktopName:
  assumes "root_inv p" "\<And>s. n = Some s \<Longrightarrow> no_nul s"
  shows "root_inv (fst (setDesktopName at p d n))"
proof (cases "sint d < 1")
  case True
  with assms show ?thesis by (simp add: setDesktopName_def)
next
  case False
  let ?a = "rarr_write None (ri_desktop_names p) (loop_count (d - 1)) n"
  let ?l = "rarr_list (ri_desktop_names p)" and ?i = "loop_count (d - 1)"
  have ok: "rarr_ok None ?a" using assms(1) by (simp add: root_inv_arrays rarr_write_correct)
  have "x = n \<or> x = None \<or> x \<in> set ?l" if "x \<in> set (rarr_list ?a)" for x
    using that set_update_subset_insert [of "pad_to None (Suc ?i) ?l" ?i n] assms(1)
    by (auto simp: rarr_write_correct root_inv_arrays pad_to_def)
  moreover have "\<forall>x \<in> set ?l. \<forall>s. x = Some s \<longrightarrow> no_nul s"
    using assms(1) by (simp add: root_inv_def root_ok_def)
  ultimately have texts: "\<forall>x \<in> set (rarr_list ?a). \<forall>s. x = Some s \<longrightarrow> no_nul s"
    using assms(2) by blast
  show ?thesis
    using False assms(1) texts ok
    by (auto simp: setDesktopName_def Let_def rarr_touch_correct pad_to_def intro!: root_inv_names)
qed

lemma root_inv_arrays_set:
  "root_inv p \<Longrightarrow> root_inv (fst (setDesktopViewport at p d v))"
  "root_inv p \<Longrightarrow> root_inv (fst (setWorkArea at p d r))"
  "root_inv p \<Longrightarrow> root_inv (fst (setVirtualRoots at p ws))"
  by (simp_all add: root_setter_defs Let_def root_inv_viewport root_inv_workarea root_inv_arrays
      rarr_touch_correct rarr_write_correct)

lemma reachable_inv: "root_reachable at p \<Longrightarrow> root_inv p"
  by (induction rule: root_reachable.induct)
    (simp_all add: root_inv_wm root_inv_client root_inv_activate root_inv_event root_inv_publish
      root_inv_setDesktopName root_inv_arrays_set setSupported_flag_def)

section \<open>Desktop names\<close>

definition name_text :: "cstr \<Rightarrow> string" where
  "name_text n = (case n of None \<Rightarrow> [] | Some s \<Rightarrow> s)"

lemma name_bytes_text: "name_bytes = (\<lambda>n. name_text n @ [NUL])"
  by (rule ext) (simp add: name_bytes_def name_text_def split: option.split)

lemma map_rarr_read_all:
  assumes "rarr_ok z a" "n \<le> length (rarr_list a)"
  shows "map (\<lambda>i. f (rarr_read z a i)) [0..<n] = map f (take n (rarr_list a))"
  by (rule nth_equalityI) (use assms in \<open>auto simp: rarr_read_correct\<close>)

text \<open>The names as the reader keeps them: an empty name is a null pointer.\<close>

definition kept_name :: "cstr \<Rightarrow> cstr" where
  "kept_name n = (if name_text n = [] then None else n)"

lemma read_names_written:
  assumes names: "names \<noteq> []" "\<forall>n \<in> set names. \<forall>s. n = Some s \<longrightarrow> no_nul s"
    and r: "r = Some \<lparr>reply_type = at (Kws UTF8_STRING),
              reply_value = V8 (concat (map name_bytes names))\<rparr>"
  shows "rarr_list (ri_desktop_names (read_desktop_names at r c)) = map kept_name names"
proof -
  have nul: "concat (map name_bytes names) = nul_terminated (map name_text names)"
    by (simp add: nul_terminated_def name_bytes_text comp_def)
  have no: "\<forall>s \<in> set (map name_text names). no_nul s"
    using names(2) by (auto simp: name_text_def split: option.split)
  have "get_stringlist_reply r (at (Kws UTF8_STRING)) = map name_text names"
    using get_stringlist_reply_stored [of "map name_text names" w pr "at (Kws UTF8_STRING)" for w pr]
      names(1) no by (simp add: r nul)
  moreover have "nstrndup (name_text n) (length (name_text n)) = kept_name n" if "n \<in> set names" for n
    using no that by (auto simp: nstrndup_def kept_name_def name_text_def split: option.splits)
  ultimately show ?thesis
    by (simp add: read_desktop_names_def rarr_fill_correct Let_def)
qed

section \<open>What a notified client reads\<close>

lemma root_notified:
  assumes "atoms_ok at" "watches_all c"
  shows
    "fst (fst (root_event at srv c (PropertyNotify (at (Kws NET_SUPPORTED))))) =
       read_supported at (srv (root_get at c NET_SUPPORTED XaAtom MAX_PROP_SIZE)) c"
    "fst (fst (root_event at srv c (PropertyNotify (at (Kws NET_DESKTOP_NAMES))))) =
       read_desktop_names at (srv (root_get at c NET_DESKTOP_NAMES (Kws UTF8_STRING) MAX_PROP_SIZE)) c"
    "fst (fst (root_event at srv c (PropertyNotify (at (Kws NET_WORKAREA))))) =
       read_workarea at (srv (root_get at c NET_WORKAREA XaCardinal MAX_PROP_SIZE)) c"
    "fst (fst (root_event at srv c (PropertyNotify (at (Kws NET_DESKTOP_VIEWPORT))))) =
       read_viewport at (srv (root_get at c NET_DESKTOP_VIEWPORT XaCardinal MAX_PROP_SIZE)) c"
    "fst (fst (root_event at srv c (PropertyNotify (at (Kws NET_VIRTUAL_ROOTS))))) =
       read_virtual_roots at (srv (root_get at c NET_VIRTUAL_ROOTS XaWindow 1)) c"
  unfolding notify_updates_direct [OF assms(2)]
  using assms(1) by (simp_all add: root_notify_def root_notify_table_def root_directs_def flag_simps
      quiet_def read_wm_name_def)

text \<open>The property that goes out is the array the writer then has.\<close>

lemma setDesktopName_written:
  assumes w: "root_inv w" and d: "1 \<le> sint d"
  shows "snd (setDesktopName at w d n) =
      [root_change w (at (Kws NET_DESKTOP_NAMES)) (at (Kws UTF8_STRING))
         (V8 (concat (map name_bytes (rarr_list (ri_desktop_names (fst (setDesktopName at w d n)))))))]"
    and "rarr_list (ri_desktop_names (fst (setDesktopName at w d n))) \<noteq> []"
proof -
  define a where "a = rarr_write None (ri_desktop_names w) (loop_count (d - 1)) n"
  define num where "num = (if sint (ri_number_of_desktops w) > int (rarr_size a)
      then loop_count (ri_number_of_desktops w) else rarr_size a)"
  define b where "b = rarr_touch None num a"
  have a: "rarr_ok None a" "rarr_list a \<noteq> []"
    using w by (simp_all add: a_def root_inv_arrays rarr_write_correct pad_to_def)
  have size: "rarr_size a = length (rarr_list a)"
    using a by (simp add: rarr_size_def length_rarr_list)
  have b: "rarr_ok None b" "length (rarr_list b) = num" "rarr_list b \<noteq> []"
    using a size by (auto simp: b_def rarr_touch_correct num_def loop_count_def pad_to_def)
  have step: "setDesktopName at w d n = (w\<lparr>ri_desktop_names := b\<rparr>,
      [root_change w (at (Kws NET_DESKTOP_NAMES)) (at (Kws UTF8_STRING))
         (V8 (concat (map (\<lambda>i. name_bytes (rarr_read None b i)) [0..<num])))])"
    using d by (simp add: setDesktopName_def Let_def a_def num_def b_def)
  show "snd (setDesktopName at w d n) =
      [root_change w (at (Kws NET_DESKTOP_NAMES)) (at (Kws UTF8_STRING))
         (V8 (concat (map name_bytes (rarr_list (ri_desktop_names (fst (setDesktopName at w d n)))))))]"
    using b by (simp add: step map_rarr_read_all)
  show "rarr_list (ri_desktop_names (fst (setDesktopName at w d n))) \<noteq> []"
    using b by (simp add: step)
qed

lemma rects_of_words: "rects_of (concat (map rect_words rs)) = rs"
  by (induction rs) (simp_all add: rect_words_def)

lemma points_of_words: "points_of (concat (map (\<lambda>p. [pt_x p, pt_y p]) ps)) = ps"
  by (induction ps) simp_all

lemma length_rect_words: "length (concat (map rect_words rs)) = 4 * length rs"
  by (induction rs) (simp_all add: rect_words_def)

lemma length_point_words: "length (concat (map (\<lambda>p. [pt_x p, pt_y p]) ps)) = 2 * length ps"
  by (induction ps) simp_all

lemma setWorkArea_written:
  assumes w: "root_inv w" "ri_role w = WindowManager" and d: "1 \<le> sint d"
  shows "snd (setWorkArea at w d r) =
      [root_change w (at (Kws NET_WORKAREA)) (at XaCardinal)
         (V32 (concat (map rect_words (take (loop_count (ri_number_of_desktops w))
            (rarr_list (ri_workarea (fst (setWorkArea at w d r))))))))]"
    and "loop_count (ri_number_of_desktops w) \<le>
      length (rarr_list (ri_workarea (fst (setWorkArea at w d r))))"
proof -
  define n where "n = loop_count (ri_number_of_desktops w)"
  define b where "b = rarr_touch rect0 n (rarr_write rect0 (ri_workarea w) (loop_count (d - 1)) r)"
  have b: "rarr_ok rect0 b" "n \<le> length (rarr_list b)"
    using w by (simp_all add: b_def root_inv_arrays rarr_write_correct rarr_touch_correct)
  have step: "setWorkArea at w d r = (w\<lparr>ri_workarea := b\<rparr>,
      [root_change w (at (Kws NET_WORKAREA)) (at XaCardinal)
         (V32 (concat (map (\<lambda>i. rect_words (rarr_read rect0 b i)) [0..<n])))])"
    using w d by (simp add: setWorkArea_def Let_def n_def b_def)
  show "snd (setWorkArea at w d r) =
      [root_change w (at (Kws NET_WORKAREA)) (at XaCardinal)
         (V32 (concat (map rect_words (take (loop_count (ri_number_of_desktops w))
            (rarr_list (ri_workarea (fst (setWorkArea at w d r))))))))]"
    unfolding n_def [symmetric] using b by (simp add: step map_rarr_read_all)
  show "loop_count (ri_number_of_desktops w) \<le>
      length (rarr_list (ri_workarea (fst (setWorkArea at w d r))))"
    unfolding n_def [symmetric] using b by (simp add: step)
qed

lemma setDesktopViewport_written:
  assumes w: "root_inv w" "ri_role w = WindowManager" and d: "1 \<le> sint d"
  shows "snd (setDesktopViewport at w d v) =
      [root_change w (at (Kws NET_DESKTOP_VIEWPORT)) (at XaCardinal)
         (V32 (concat (map (\<lambda>p. [pt_x p, pt_y p]) (take (loop_count (ri_number_of_desktops w))
            (rarr_list (ri_viewport (fst (setDesktopViewport at w d v))))))))]"
    and "loop_count (ri_number_of_desktops w) \<le>
      length (rarr_list (ri_viewport (fst (setDesktopViewport at w d v))))"
proof -
  define n where "n = loop_count (ri_number_of_desktops w)"
  define b where "b = rarr_touch point0 n (rarr_write point0 (ri_viewport w) (loop_count (d - 1)) v)"
  have b: "rarr_ok point0 b" "n \<le> length (rarr_list b)"
    using w by (simp_all add: b_def root_inv_arrays rarr_write_correct rarr_touch_correct)
  have step: "setDesktopViewport at w d v = (w\<lparr>ri_viewport := b\<rparr>,
      [root_change w (at (Kws NET_DESKTOP_VIEWPORT)) (at XaCardinal)
         (V32 (concat (map (\<lambda>i. [pt_x (rarr_read point0 b i), pt_y (rarr_read point0 b i)]) [0..<n])))])"
    using w d by (simp add: setDesktopViewport_def Let_def n_def b_def)
  show "snd (setDesktopViewport at w d v) =
      [root_change w (at (Kws NET_DESKTOP_VIEWPORT)) (at XaCardinal)
         (V32 (concat (map (\<lambda>p. [pt_x p, pt_y p]) (take (loop_count (ri_number_of_desktops w))
            (rarr_list (ri_viewport (fst (setDesktopViewport at w d v))))))))]"
    unfolding n_def [symmetric]
    using b map_rarr_read_all [of point0 b n "\<lambda>p. [pt_x p, pt_y p]"] by (simp add: step)
  show "loop_count (ri_number_of_desktops w) \<le>
      length (rarr_list (ri_viewport (fst (setDesktopViewport at w d v))))"
    unfolding n_def [symmetric] using b by (simp add: step)
qed

end
