(* ===== verification/RootProperties.thy ===== *)
theory RootProperties
  imports RootReach
begin

text \<open>
  The properties of \<^verbatim>\<open>NETRootInfo\<close>, each with a concrete instance: the round trips of
  the root properties, the request protocol, the invariant of all reachable objects, and the
  places where the reader and the writer do not agree.
\<close>

section \<open>Concrete objects\<close>

definition sample_screen :: x_screen where
  "sample_screen = \<lparr>screen_root = 77, screen_width = 1920, screen_height = 1080\<rparr>"

definition sample_wm :: root_info where
  "sample_wm = NETRootInfo_wm [sample_screen] 5 (Some ''wm'') (prop_flag WMState) 1 3
     (prop2_flag WM2UserTime) 0 0"

definition sample_client :: root_info where
  "sample_client = NETRootInfo_client [sample_screen] (prop_flag WMAllProperties)
     (prop2_flag WM2AllProperties) 0"

lemma sample_shape [simp]:
  "ri_role sample_wm = WindowManager" "ri_role sample_client = Client"
  "ri_root sample_wm = 77" "ri_root sample_client = 77" "watches_all sample_client"
  "root_inv sample_wm" "root_inv sample_client" "ri_clients sample_client = None"
  "ri_name sample_wm = Some ''wm''" "ri_supportwindow sample_wm = 5"
  "ri_number_of_desktops sample_wm = 0" "ri_number_of_desktops sample_client = 0"
  "ri_states sample_wm = 3" "isSupported sample_wm (SupProp WMState)"
  unfolding sample_wm_def sample_client_def
  by (simp_all add: root_inv_wm root_inv_client)
    (simp_all add: NETRootInfo_wm_def NETRootInfo_client_def setDefaultProperties_def root_blank_def
      pick_screen_def sample_screen_def watches_all_def Let_def loop_count_def flag_simps bit_or_iff)

lemma sample_root: "ri_root sample_client = ri_root sample_wm"
  by simp

lemmas [simp] = atoms_ok_sample

text \<open>The requests among the effects.\<close>

fun root_reqs :: "root_effect list \<Rightarrow> xreq list" where
  "root_reqs [] = []"
| "root_reqs (RootReq r # es) = r # root_reqs es"
| "root_reqs (e # es) = root_reqs es"

section \<open>Reading a pipeline of replies\<close>

text \<open>
  C1.  \<^verbatim>\<open>NETRootInfo::update\<close> takes every reply from the cookie of its own request: the
  two passes over the fourteen properties, with the counter started again at zero, give what
  reading each dirty property directly gives, for every server and every set of dirty properties.
\<close>

theorem root_update_pipeline:
  "root_update at srv p properties properties2 = root_update_direct at srv p properties properties2"
  by (rule root_update_is_direct)

section \<open>Supported properties\<close>

text \<open>
  C5.  What a window manager announces with \<^verbatim>\<open>setSupported()\<close> is what a notified client
  holds afterwards: all its flags, but for those no atom stands for, with the window types, the
  states and the actions only if the property they belong to is announced.
\<close>

theorem supported_roundtrip:
  assumes "atoms_ok at" "ri_role w = WindowManager" "watches_all c" "ri_root c = ri_root w"
    and "\<forall>r \<in> set (root_reqs (snd (setSupported at w))). answers srv r"
    and "c' = fst (fst (root_event at srv c (PropertyNotify (at (Kws NET_SUPPORTED)))))"
  shows "ri_properties c' = (ri_properties w OR or_all (map prop_flag [Supported, SupportingWMCheck]))
             AND NOT unsaid_properties \<and>
         ri_properties2 c' = ri_properties2 w AND NOT unsaid_properties2 \<and>
         ri_windowTypes c' = (if isSupported w (SupProp WMWindowType) then ri_windowTypes w else 0)
             AND or_all (map bitflag [0..<19]) \<and>
         ri_states c' = (if isSupported w (SupProp WMState) then ri_states w else 0)
             AND or_all (map bitflag [0..<14]) \<and>
         ri_actions c' = (if isSupported w (SupProp2 WM2AllowedActions) then ri_actions w else 0)
             AND or_all (map bitflag [0..<10])"
proof -
  let ?reply = "srv (root_get at c NET_SUPPORTED XaAtom MAX_PROP_SIZE)"
  let ?atoms = "map (\<lambda>a. at (Kws a)) (supported_atoms w)"
  let ?blank = "c\<lparr>ri_properties := 0, ri_properties2 := 0, ri_windowTypes := 0, ri_states := 0,
          ri_actions := 0\<rparr>"
  have "length (supported_atoms w) \<le> MAX_PROP_SIZE"
    using length_supported_atoms [of w] by (simp add: kws_atom_count_105 MAX_PROP_SIZE_def)
  then have "get_array_reply ?reply (at XaAtom) = ?atoms"
    using assms(2,4,5)
    by (simp add: setSupported_def root_change_def root_get_def xfits_def)
  then have c': "c' = fold (updateSupportedProperties at) ?atoms ?blank"
    using assms(6) root_notified(1) [OF assms(1,3)] by (simp add: read_supported_def)
  have blank: "word_of ?blank k = 0" for k by (cases k) simp_all
  note word = supported_word_roundtrip [OF assms(1) blank, of w, folded c']
  show ?thesis
    using word [of KProp] word [of KProp2] word [of KType] word [of KState] word [of KAction]
    unfolding sayable_values by simp
qed

theorem supported_roundtrip_witness:
  "ri_states (fst (fst (root_event sample_atoms (serve (root_reqs (snd (setSupported sample_atoms sample_wm))))
     sample_client (PropertyNotify (sample_atoms (Kws NET_SUPPORTED)))))) = 3"
proof -
  have "\<forall>r \<in> set (root_reqs (snd (setSupported sample_atoms sample_wm))).
      answers (serve (root_reqs (snd (setSupported sample_atoms sample_wm)))) r"
    by (simp add: setSupported_def root_change_def answers_serve_tail)
  from supported_roundtrip [OF atoms_ok_sample sample_shape(1,5) sample_root this refl]
  show ?thesis by (simp add: bitflag_def upt_rec del: root_event.simps isSupported.simps)
qed

text \<open>
  The list \<^verbatim>\<open>setSupported()\<close> builds never has more entries than the fixed array
  \<^verbatim>\<open>atoms[KwsAtomCount]\<close> it is built in.
\<close>

theorem supported_atoms_fit: "length (supported_atoms p) \<le> kws_atom_count"
  by (rule length_supported_atoms)

section \<open>The client list\<close>

text \<open>
  A client that reads a new \<^verbatim>\<open>_NET_CLIENT_LIST\<close> announces exactly the difference
  to the list it held: \<^verbatim>\<open>removeClient\<close> for the windows that are gone, then
  \<^verbatim>\<open>addClient\<close> for the new ones, with multiplicities, and keeps the new list sorted.
\<close>

theorem client_list_difference:
  assumes "root_reachable at p" "ri_role p = Client" "ri_clients p = Some old"
    and "new = get_array_reply reply (at XaWindow)"
  shows "\<exists>gone came.
    snd (read_client_list at reply (p, [])) =
      map (RootHook \<circ> RemoveClient) gone @ map (RootHook \<circ> AddClient) came \<and>
    mset gone = mset old - mset new \<and> mset came = mset new - mset old \<and>
    clientList (fst (read_client_list at reply (p, []))) = (if new = [] then None else Some (sort new))"
proof -
  have ok: "sorted old" "ri_clients_count p = length old"
    using reachable_inv [OF assms(1)] assms(2,3) by (simp_all add: root_inv_def clients_ok_def)
  let ?d = "client_diff old (sort new)"
  have "mset (fst ?d) = mset old - mset new" "mset (snd ?d) = mset new - mset old"
    using client_diff_mset [OF ok(1), of "sort new"] by simp_all
  then show ?thesis
    using assms(2-4) ok(2)
    by (intro exI [of _ "fst ?d"] exI [of _ "snd ?d"])
      (simp add: read_client_list_def Let_def case_prod_beta clientList_def)
qed

text \<open>The list a sample client has after reading windows 9, 4 and 4.\<close>

definition sample_list_client :: root_info where
  "sample_list_client = fst (fst (root_event sample_atoms
     (serve [ChangeProperty 77 (sample_atoms (Kws NET_CLIENT_LIST)) (sample_atoms XaWindow) (V32 [9, 4, 4])])
     sample_client (PropertyNotify (sample_atoms (Kws NET_CLIENT_LIST)))))"

lemma sample_list_shape [simp]:
  "root_reachable sample_atoms sample_list_client" "ri_role sample_list_client = Client"
  "ri_clients sample_list_client = Some [4, 4, 9]" "ri_clients_count sample_list_client = 3"
proof -
  show "root_reachable sample_atoms sample_list_client"
    unfolding sample_list_client_def sample_client_def by (intro event client)
  have *: "fst (fst (root_event at srv c (PropertyNotify (at (Kws NET_CLIENT_LIST))))) =
       fst (read_client_list at (srv (root_get at c NET_CLIENT_LIST XaWindow MAX_PROP_SIZE)) (c, []))"
    if "atoms_ok at" "watches_all c" for at srv c
    unfolding notify_updates_direct [OF that(2)]
    using that(1) by (simp add: root_notify_def root_notify_table_def root_directs_def flag_simps
        read_wm_name_def case_prod_beta)
  show "ri_role sample_list_client = Client" "ri_clients sample_list_client = Some [4, 4, 9]"
    "ri_clients_count sample_list_client = 3"
    unfolding sample_list_client_def
    by (simp_all add: * root_get_def xfits_def MAX_PROP_SIZE_def read_client_list_def Let_def
        case_prod_beta del: root_event.simps)
qed

theorem client_list_difference_witness:
  "\<exists>gone came.
    snd (read_client_list sample_atoms
      (Some \<lparr>reply_type = sample_atoms XaWindow, reply_value = V32 [4, 6]\<rparr>) (sample_list_client, [])) =
      map (RootHook \<circ> RemoveClient) gone @ map (RootHook \<circ> AddClient) came \<and>
    mset gone = mset [4, 9] \<and> mset came = mset [6]"
  using client_list_difference [OF sample_list_shape(1-3) refl,
      of "Some \<lparr>reply_type = sample_atoms XaWindow, reply_value = V32 [4, 6]\<rparr>"]
  by (simp add: get_array_reply_def) (metis add_mset_commute)

text \<open>
  When the new list is empty the client forgets the list but not its length:
  \<^verbatim>\<open>clientList()\<close> is null while \<^verbatim>\<open>clientListCount()\<close> still says how many
  windows there were.
\<close>

theorem empty_client_list_keeps_count:
  "clientList (fst (read_client_list at None (p, []))) = None \<and>
   clientListCount (fst (read_client_list at None (p, []))) = clientListCount p"
  by (simp add: read_client_list_def Let_def case_prod_beta clientList_def clientListCount_def)

section \<open>All reachable objects\<close>

text \<open>
  C9.  Whatever operations and events an object of \<^verbatim>\<open>NETRootInfo\<close> has seen: its three
  growing arrays keep their memory invariant, its desktop names are C strings, and a client list
  that is there is not empty, has the length the count says and, for a client, is sorted.
\<close>

theorem root_invariant:
  "root_reachable at p \<Longrightarrow>
     rarr_ok point0 (ri_viewport p) \<and> rarr_ok rect0 (ri_workarea p) \<and>
     rarr_ok None (ri_desktop_names p) \<and>
     (\<forall>n \<in> set (rarr_list (ri_desktop_names p)). \<forall>s. n = Some s \<longrightarrow> no_nul s) \<and>
     (\<forall>ws. ri_clients p = Some ws \<longrightarrow>
        ws \<noteq> [] \<and> ri_clients_count p = length ws \<and> (ri_role p = Client \<longrightarrow> sorted ws))"
  using reachable_inv [of at p] by (simp add: root_inv_def root_ok_def clients_ok_def)

theorem root_invariant_witness:
  "rarr_ok point0 (ri_viewport sample_list_client) \<and> sorted [4, 4, 9 :: u32]"
  using root_invariant [OF sample_list_shape(1)] by simp

section \<open>Requests\<close>

text \<open>
  Every request a client makes through \<^verbatim>\<open>NETRootInfo\<close> is one message, and the
  window manager that receives it is told exactly the values the client asked for; its own data is
  not touched.
\<close>

theorem root_request_delivered:
  assumes at: "atoms_ok at" and client: "ri_role c = Client" and wm: "ri_role w = WindowManager"
    and valid: "valid_request rq"
  shows "\<exists>req. issue at c rq = (c, [RootReq req]) \<and>
           fst (root_event at srv w (delivered req)) = (w, [RootHook (intended w rq)])"
  using at client wm valid
  by (cases rq) (simp_all add: root_setter_defs root_request_defs root_message_def
      send_client_message_def root_client_message_def)

theorem root_request_delivered_witness:
  "fst (root_event sample_atoms (\<lambda>_. None) sample_wm
     (delivered (SendClientMessage 77 SubstructureRedirectNotify 42
        (sample_atoms (Kws NET_ACTIVE_WINDOW)) [2, 1000, 7, 0, 0]))) =
   (sample_wm, [RootHook (ChangeActiveWindow 42 FromTool 1000 7)])"
  using root_request_delivered [OF atoms_ok_sample sample_shape(2,1),
      of "RqActiveWindow 42 FromTool 1000 7" "\<lambda>_. None"]
  by (simp add: setActiveWindow_def root_message_def send_client_message_def del: root_event.simps)

text \<open>
  Only a window manager listens to messages, and a message never changes its data: it only
  makes calls.
\<close>

theorem messages_change_nothing:
  "fst (fst (root_event at srv p (ClientMessage format window type data))) = p \<and>
   (ri_role p = Client \<longrightarrow>
      root_event at srv p (ClientMessage format window type data) = ((p, []), 0, 0))"
  by (simp add: case_prod_beta)

theorem messages_change_nothing_witness:
  "root_event sample_atoms (\<lambda>_. None) sample_client
     (ClientMessage 32 42 (sample_atoms (Kws NET_CLOSE_WINDOW)) [0, 0, 0, 0, 0]) =
   ((sample_client, []), 0, 0)"
  using messages_change_nothing [of sample_atoms "\<lambda>_. None" sample_client 32 42
      "sample_atoms (Kws NET_CLOSE_WINDOW)" "[0, 0, 0, 0, 0]"] sample_shape(2)
  by (simp del: root_event.simps)

text \<open>
  A ping comes back: the data of the message \<^verbatim>\<open>sendPing\<close> sends to a window,
  returned to the root window, makes the window manager call \<^verbatim>\<open>gotPing\<close> with that window
  and that timestamp.
\<close>

theorem ping_returns:
  assumes "atoms_ok at" "ri_role w = WindowManager"
  shows "\<exists>data. sendPing at w window timestamp =
      (w, [RootReq (SendClientMessage window NoEventMask window (at (Kws WM_PROTOCOLS)) data)]) \<and>
    fst (root_event at srv w (ClientMessage 32 (ri_root w) (at (Kws WM_PROTOCOLS)) data)) =
      (w, [RootHook (GotPing window timestamp)])"
  using assms by (simp add: sendPing_def send_client_message_def root_client_message_def)

theorem ping_returns_witness:
  "fst (root_event sample_atoms (\<lambda>_. None) sample_wm (ClientMessage 32 77
     (sample_atoms (Kws WM_PROTOCOLS)) [sample_atoms (Kws NET_WM_PING), 1000, 42, 0, 0])) =
   (sample_wm, [RootHook (GotPing 42 1000)])"
  using ping_returns [OF atoms_ok_sample sample_shape(1), of 42 1000 "\<lambda>_. None"]
  by (simp add: sendPing_def send_client_message_def del: root_event.simps)

section \<open>Properties written and read\<close>

text \<open>
  C8.  The number of desktops, the current desktop, the geometry, the active window, the
  showing-desktop mode, the layout and the two window lists: what a window manager publishes is
  what a notified client holds, with the client list in ascending order.
\<close>

theorem published_is_read:
  assumes at: "atoms_ok at" and wm: "ri_role w = WindowManager"
    and c: "watches_all c" "ri_root c = ri_root w"
    and req: "snd (publish at w wr) = [RootReq req]" and srv: "answers srv req"
    and fits: "write_fits wr"
  shows "holds (fst (fst (root_event at srv c (PropertyNotify (at (Kws (written_atom wr))))))) wr"
proof -
  note [simp] = c(2) wm
  from req have req': "req = (case snd (publish at w wr) of [RootReq r] \<Rightarrow> r)" by simp
  show ?thesis
    using at srv fits unfolding notify_updates_direct [OF c(1)] req'
    by (cases wr)
      (simp_all add: root_setter_defs root_change_def root_notify_def root_notify_table_def
        root_directs_def flag_simps quiet_def read_wm_name_def root_get_def read_defs
        xfits_def case_prod_beta Let_def MAX_PROP_SIZE_def clientList_def
        split: if_splits)
qed

theorem published_is_read_witness:
  "ri_active (fst (fst (root_event sample_atoms
     (serve [ChangeProperty 77 (sample_atoms (Kws NET_ACTIVE_WINDOW)) (sample_atoms XaWindow) (V32 [42])])
     sample_client (PropertyNotify (sample_atoms (Kws NET_ACTIVE_WINDOW)))))) = 42"
  using published_is_read [OF atoms_ok_sample sample_shape(1,5) sample_root, of "WrActiveWindow 42"
      "ChangeProperty 77 (sample_atoms (Kws NET_ACTIVE_WINDOW)) (sample_atoms XaWindow) (V32 [42])"
      "serve [ChangeProperty 77 (sample_atoms (Kws NET_ACTIVE_WINDOW)) (sample_atoms XaWindow) (V32 [42])]"]
  by (simp add: setActiveWindow_def root_change_def del: root_event.simps answers.simps serve.simps)

text \<open>
  Desktop names: after \<^verbatim>\<open>setDesktopName\<close> a notified client gives for every desktop the
  name the writer has for it, an empty name being a null pointer.
\<close>

theorem desktop_names_roundtrip:
  assumes "atoms_ok at" "root_reachable at w" "1 \<le> sint d" "\<And>s. n = Some s \<Longrightarrow> no_nul s"
    and "watches_all c" "ri_root c = ri_root w"
    and "\<forall>r \<in> set (root_reqs (snd (setDesktopName at w d n))). answers srv r"
    and "length (concat (map name_bytes (rarr_list (ri_desktop_names (fst (setDesktopName at w d n))))))
           \<le> 4 * MAX_PROP_SIZE"
  shows "desktopName (fst (fst (root_event at srv c (PropertyNotify (at (Kws NET_DESKTOP_NAMES)))))) k =
    kept_name (desktopName (fst (setDesktopName at w d n)) k)"
proof -
  let ?w = "fst (setDesktopName at w d n)"
  let ?c = "fst (fst (root_event at srv c (PropertyNotify (at (Kws NET_DESKTOP_NAMES)))))"
  note inv = reachable_inv [OF assms(2)]
  have inv': "root_inv ?w" using root_inv_setDesktopName [OF inv assms(4)] .
  have "srv (root_get at c NET_DESKTOP_NAMES (Kws UTF8_STRING) MAX_PROP_SIZE) =
      Some \<lparr>reply_type = at (Kws UTF8_STRING),
            reply_value = V8 (concat (map name_bytes (rarr_list (ri_desktop_names ?w))))\<rparr>"
    using assms(6-8) unfolding setDesktopName_written(1) [OF inv assms(3)]
    by (simp add: root_change_def root_get_def xfits_def)
  then have list: "rarr_list (ri_desktop_names ?c) = map kept_name (rarr_list (ri_desktop_names ?w))"
    unfolding root_notified(2) [OF assms(1,5)]
    using setDesktopName_written(2) [OF inv assms(3)] inv'
    by (intro read_names_written) (simp_all add: root_inv_def root_ok_def)
  have "rarr_ok None (ri_desktop_names ?c)"
    unfolding root_notified(2) [OF assms(1,5)]
    by (simp add: read_desktop_names_def Let_def rarr_fill_correct)
  then show ?thesis
    using root_inv_arrays(3) [OF inv'] list
    by (simp add: desktopName_def rarr_read_correct kept_name_def name_text_def)
qed

lemma sample_reachable [simp]:
  "root_reachable sample_atoms sample_wm" "root_reachable sample_atoms sample_client"
  unfolding sample_wm_def sample_client_def by (rule window_manager client)+

lemma sample_arrays [simp]:
  "ri_desktop_names sample_wm = rarr_new None" "ri_workarea sample_wm = rarr_new rect0"
  "ri_viewport sample_wm = rarr_new point0"
  by (simp_all add: sample_wm_def NETRootInfo_wm_def setDefaultProperties_def root_blank_def)

theorem desktop_names_roundtrip_witness:
  "desktopName (fst (fst (root_event sample_atoms
     (serve (root_reqs (snd (setDesktopName sample_atoms sample_wm 2 (Some ''mail'')))))
     sample_client (PropertyNotify (sample_atoms (Kws NET_DESKTOP_NAMES)))))) 2 = Some ''mail''"
proof -
  have names: "rarr_list (ri_desktop_names (fst (setDesktopName sample_atoms sample_wm 2 (Some ''mail'')))) =
      [None, Some ''mail'']"
    by (simp add: setDesktopName_def Let_def loop_count_def rarr_touch_correct rarr_write_correct
        rarr_size_def pad_to_def numeral_2_eq_2) (simp add: rarr_write_def rarr_index_def rarr_new_def)
  have ok: "rarr_ok None (ri_desktop_names (fst (setDesktopName sample_atoms sample_wm 2 (Some ''mail''))))"
    by (rule root_inv_arrays, rule root_inv_setDesktopName) (auto simp: NUL_def)
  have "desktopName (fst (setDesktopName sample_atoms sample_wm 2 (Some ''mail''))) 2 = Some ''mail''"
    by (simp add: desktopName_def rarr_read_correct [OF ok] names loop_count_def)
  then show ?thesis
    by (subst desktop_names_roundtrip [of sample_atoms sample_wm 2 "Some ''mail''"])
      (auto simp: setDesktopName_written(1) names root_change_def name_bytes_def MAX_PROP_SIZE_def NUL_def
        kept_name_def name_text_def)
qed

text \<open>
  Work areas: after \<^verbatim>\<open>setWorkArea\<close> a notified client that knows the number of
  desktops gives for each of them the work area the writer has.
\<close>

theorem work_areas_roundtrip:
  assumes "atoms_ok at" "root_reachable at w" "ri_role w = WindowManager" "1 \<le> sint d"
    and "watches_all c" "ri_root c = ri_root w" "ri_number_of_desktops c = ri_number_of_desktops w"
    and "\<forall>r \<in> set (root_reqs (snd (setWorkArea at w d area))). answers srv r"
    and "1 \<le> sint k" "sint k \<le> sint (ri_number_of_desktops w)"
    and "4 * loop_count (ri_number_of_desktops w) \<le> MAX_PROP_SIZE"
  shows "workArea (fst (fst (root_event at srv c (PropertyNotify (at (Kws NET_WORKAREA)))))) k =
    workArea (fst (setWorkArea at w d area)) k"
proof -
  let ?w = "fst (setWorkArea at w d area)" and ?n = "loop_count (ri_number_of_desktops w)"
  let ?c = "fst (fst (root_event at srv c (PropertyNotify (at (Kws NET_WORKAREA)))))"
  let ?rs = "take ?n (rarr_list (ri_workarea ?w))"
  note inv = reachable_inv [OF assms(2)]
  note written = setWorkArea_written [OF inv assms(3,4), of at area]
  have inv': "root_inv ?w" using root_inv_arrays_set(2) [OF inv] .
  have len: "length ?rs = ?n" using written(2) by simp
  have data: "get_array_reply (srv (root_get at c NET_WORKAREA XaCardinal MAX_PROP_SIZE)) (at XaCardinal) =
      concat (map rect_words ?rs)"
    using assms(6,8,11) len unfolding written(1)
    by (simp add: root_change_def root_get_def xfits_def length_rect_words)
  have n: "int (4 * ?n) = sint (ri_number_of_desktops c) * 4"
    using assms(7,9,10) by (simp add: loop_count_def)
  have "rarr_list (ri_workarea ?c) = ?rs" "rarr_ok rect0 (ri_workarea ?c)"
    using n len unfolding root_notified(3) [OF assms(1,5)] read_workarea_def data Let_def
    by (simp_all add: length_rect_words rects_of_words rarr_fill_correct)
  moreover have "loop_count (k - 1) < ?n"
    using assms(9,10) by (simp add: loop_count_def sint_minus_1)
  ultimately show ?thesis
    using assms(9) root_inv_arrays(2) [OF inv'] written(2)
    by (simp add: workArea_def rarr_read_correct)
qed

text \<open>A window manager with two desktops and a client that knows it.\<close>

definition two_desktops_wm :: root_info where
  "two_desktops_wm = fst (publish sample_atoms sample_wm (WrNumberOfDesktops 2))"

definition two_desktops_client :: root_info where
  "two_desktops_client = fst (fst (root_event sample_atoms
     (serve [ChangeProperty 77 (sample_atoms (Kws NET_NUMBER_OF_DESKTOPS)) (sample_atoms XaCardinal) (V32 [2])])
     sample_client (PropertyNotify (sample_atoms (Kws NET_NUMBER_OF_DESKTOPS)))))"

lemma two_desktops_shape [simp]:
  "root_reachable sample_atoms two_desktops_wm" "root_reachable sample_atoms two_desktops_client"
  "ri_role two_desktops_wm = WindowManager" "watches_all two_desktops_client"
  "ri_root two_desktops_client = ri_root two_desktops_wm"
  "ri_number_of_desktops two_desktops_wm = 2" "ri_number_of_desktops two_desktops_client = 2"
  "ri_workarea two_desktops_wm = rarr_new rect0" "ri_viewport two_desktops_wm = rarr_new point0"
proof -
  show "root_reachable sample_atoms two_desktops_wm"
    unfolding two_desktops_wm_def by (intro published) simp
  show "root_reachable sample_atoms two_desktops_client"
    unfolding two_desktops_client_def by (intro event) simp
  have c: "two_desktops_client = sample_client\<lparr>ri_number_of_desktops := 2\<rparr>"
    unfolding two_desktops_client_def notify_updates_direct [OF sample_shape(5)]
    by (simp add: root_notify_def root_notify_table_def root_directs_def flag_simps
        read_wm_name_def quiet_def read_number_of_desktops_def root_get_def xfits_def)
  show "watches_all two_desktops_client" "ri_number_of_desktops two_desktops_client = 2"
    "ri_root two_desktops_client = ri_root two_desktops_wm"
    using sample_shape(5) by (simp_all add: c watches_all_def two_desktops_wm_def setNumberOfDesktops_def)
  show "ri_role two_desktops_wm = WindowManager" "ri_number_of_desktops two_desktops_wm = 2"
    "ri_workarea two_desktops_wm = rarr_new rect0" "ri_viewport two_desktops_wm = rarr_new point0"
    by (simp_all add: two_desktops_wm_def setNumberOfDesktops_def)
qed

lemma two_desktops_inv [simp]: "root_inv two_desktops_wm"
  using reachable_inv two_desktops_shape(1) .

definition sample_area :: net_rect where
  "sample_area = \<lparr>rect_pos = \<lparr>pt_x = 0, pt_y = 20\<rparr>, rect_size = \<lparr>sz_width = 1920, sz_height = 1060\<rparr>\<rparr>"

theorem work_areas_roundtrip_witness:
  "workArea (fst (fst (root_event sample_atoms
     (serve (root_reqs (snd (setWorkArea sample_atoms two_desktops_wm 2 sample_area))))
     two_desktops_client (PropertyNotify (sample_atoms (Kws NET_WORKAREA)))))) 2 = sample_area"
proof -
  have a: "rarr_ok rect0 (rarr_write rect0 (rarr_new rect0) (Suc 0) sample_area)"
    "rarr_list (rarr_write rect0 (rarr_new rect0) (Suc 0) sample_area) = [rect0, sample_area]"
    by (simp_all add: rarr_write_correct pad_to_def numeral_2_eq_2)
  have "workArea (fst (setWorkArea sample_atoms two_desktops_wm 2 sample_area)) 2 = sample_area"
    by (simp add: setWorkArea_def Let_def workArea_def loop_count_def rarr_read_correct rarr_touch_correct a
        pad_to_def)
  then show ?thesis
    by (subst work_areas_roundtrip [of sample_atoms two_desktops_wm 2])
      (simp_all add: setWorkArea_written(1) root_change_def loop_count_def MAX_PROP_SIZE_def
        del: serve.simps answers.simps)
qed

text \<open>
  Viewports: after \<^verbatim>\<open>setDesktopViewport\<close> a notified client gives for each of the
  writer's desktops the viewport the writer has.
\<close>

theorem viewports_roundtrip:
  assumes "atoms_ok at" "root_reachable at w" "ri_role w = WindowManager" "1 \<le> sint d"
    and "watches_all c" "root_reachable at c" "ri_root c = ri_root w"
    and "\<forall>r \<in> set (root_reqs (snd (setDesktopViewport at w d v))). answers srv r"
    and "1 \<le> sint k" "sint k \<le> sint (ri_number_of_desktops w)"
    and "2 * loop_count (ri_number_of_desktops w) \<le> MAX_PROP_SIZE"
  shows "desktopViewport (fst (fst (root_event at srv c (PropertyNotify (at (Kws NET_DESKTOP_VIEWPORT)))))) k =
    desktopViewport (fst (setDesktopViewport at w d v)) k"
proof -
  let ?w = "fst (setDesktopViewport at w d v)" and ?n = "loop_count (ri_number_of_desktops w)"
  let ?c = "fst (fst (root_event at srv c (PropertyNotify (at (Kws NET_DESKTOP_VIEWPORT)))))"
  let ?ps = "take ?n (rarr_list (ri_viewport ?w))"
  note inv = reachable_inv [OF assms(2)]
  note written = setDesktopViewport_written [OF inv assms(3,4), of at v]
  have inv': "root_inv ?w" using root_inv_arrays_set(1) [OF inv] .
  have len: "length ?ps = ?n" using written(2) by simp
  have data: "get_array_reply (srv (root_get at c NET_DESKTOP_VIEWPORT XaCardinal MAX_PROP_SIZE)) (at XaCardinal) =
      concat (map (\<lambda>p. [pt_x p, pt_y p]) ?ps)"
    using assms(7,8,11) len unfolding written(1)
    by (simp add: root_change_def root_get_def xfits_def length_point_words)
  have k: "loop_count (k - 1) < ?n"
    using assms(9,10) by (simp add: loop_count_def sint_minus_1)
  have "take ?n (rarr_list (ri_viewport ?c)) = ?ps \<and> rarr_ok point0 (ri_viewport ?c) \<and>
      ?n \<le> length (rarr_list (ri_viewport ?c))"
    using len k root_inv_arrays(1) [OF reachable_inv [OF assms(6)]]
    unfolding root_notified(4) [OF assms(1,5)] read_viewport_def data Let_def
    by (simp add: length_point_words points_of_words rarr_fill_correct)
  moreover from this k have "rarr_list (ri_viewport ?c) ! loop_count (k - 1) = ?ps ! loop_count (k - 1)"
    by (metis nth_take)
  ultimately show ?thesis
    using assms(9) k root_inv_arrays(1) [OF inv'] written(2)
    by (simp add: desktopViewport_def rarr_read_correct)
qed

theorem viewports_roundtrip_witness:
  "desktopViewport (fst (fst (root_event sample_atoms
     (serve (root_reqs (snd (setDesktopViewport sample_atoms two_desktops_wm 1 \<lparr>pt_x = 640, pt_y = 480\<rparr>))))
     two_desktops_client (PropertyNotify (sample_atoms (Kws NET_DESKTOP_VIEWPORT)))))) 1 =
   \<lparr>pt_x = 640, pt_y = 480\<rparr>"
proof -
  let ?v = "\<lparr>pt_x = 640, pt_y = 480\<rparr>"
  have a: "rarr_ok point0 (rarr_write point0 (rarr_new point0) 0 ?v)"
    "rarr_list (rarr_write point0 (rarr_new point0) 0 ?v) = [?v]"
    by (simp_all add: rarr_write_correct pad_to_def)
  have "desktopViewport (fst (setDesktopViewport sample_atoms two_desktops_wm 1 ?v)) 1 = ?v"
    by (simp add: setDesktopViewport_def Let_def desktopViewport_def loop_count_def rarr_read_correct
        rarr_touch_correct a pad_to_def)
  then show ?thesis
    by (subst viewports_roundtrip [of sample_atoms two_desktops_wm 1])
      (simp_all add: setDesktopViewport_written(1) root_change_def loop_count_def
        MAX_PROP_SIZE_def del: serve.simps answers.simps)
qed

section \<open>Where writer and reader do not agree\<close>

text \<open>
  Virtual roots never arrive: the window manager stores them as windows, the client asks for
  windows but takes the answer only if it is of type cardinal, so after the notification it has no
  virtual roots, whatever was published.
\<close>

theorem virtual_roots_lost:
  assumes "atoms_ok at" "ri_role w = WindowManager" "watches_all c" "ri_root c = ri_root w"
    and "snd (setVirtualRoots at w [root]) = [RootReq r]" "answers srv r"
    and "c' = fst (fst (root_event at srv c (PropertyNotify (at (Kws NET_VIRTUAL_ROOTS)))))"
  shows "ri_virtual_roots c' = None \<and> ri_virtual_roots_count c' = 0"
proof -
  have "srv (root_get at c NET_VIRTUAL_ROOTS XaWindow 1) =
      Some \<lparr>reply_type = at XaWindow, reply_value = V32 [root]\<rparr>"
    using assms(2,4-6) by (auto simp: setVirtualRoots_def root_change_def root_get_def xfits_def)
  moreover have "at XaWindow \<noteq> at XaCardinal" using assms(1) by simp
  ultimately show ?thesis
    unfolding assms(7) root_notified(5) [OF assms(1,3)]
    by (simp add: read_virtual_roots_def get_array_reply_def)
qed

theorem virtual_roots_lost_witness:
  "ri_virtual_roots (fst (fst (root_event sample_atoms
     (serve [ChangeProperty 77 (sample_atoms (Kws NET_VIRTUAL_ROOTS)) (sample_atoms XaWindow) (V32 [42])])
     sample_client (PropertyNotify (sample_atoms (Kws NET_VIRTUAL_ROOTS)))))) = None"
  using virtual_roots_lost [OF atoms_ok_sample sample_shape(1,5) sample_root _ _ refl, of 42
      "ChangeProperty 77 (sample_atoms (Kws NET_VIRTUAL_ROOTS)) (sample_atoms XaWindow) (V32 [42])"
      "serve [ChangeProperty 77 (sample_atoms (Kws NET_VIRTUAL_ROOTS)) (sample_atoms XaWindow) (V32 [42])]"]
  by (simp add: setVirtualRoots_def root_change_def del: root_event.simps serve.simps answers.simps)

section \<open>The growing array\<close>

text \<open>
  \<^verbatim>\<open>NETRArray\<close> is a list that is extended with zeros to the index that is used:
  indexing, writing and reading keep the memory invariant (allocated length, zeros past the end,
  capacity at most twice the size) and do to the list what they should.
\<close>

theorem rarr_is_padded_list:
  assumes "rarr_ok z a"
  shows "rarr_ok z (rarr_index z a i) \<and> rarr_list (rarr_index z a i) = pad_to z (Suc i) (rarr_list a) \<and>
    rarr_ok z (rarr_write z a i v) \<and>
    rarr_list (rarr_write z a i v) = (pad_to z (Suc i) (rarr_list a))[i := v] \<and>
    rarr_read z a i = (if i < rarr_size a then rarr_list a ! i else z) \<and>
    rarr_size a = length (rarr_list a)"
  using assms
  by (simp add: rarr_index_correct rarr_write_correct rarr_read_correct rarr_size_def length_rarr_list)

theorem rarr_is_padded_list_witness:
  "rarr_list (rarr_write (0 :: nat) (rarr_new 0) 3 7) = [0, 0, 0, 7]"
  using rarr_is_padded_list [OF rarr_ok_new(1), of "0 :: nat" 3 7]
  by (simp add: pad_to_def numeral_eq_Suc)

end
