(* ===== verification/WinInfo.thy ===== *)
theory WinInfo
  imports NetDefs Xcb RArray
begin

text \<open>
  Class \<^verbatim>\<open>NETWinInfo\<close> of \<^verbatim>\<open>netwm.cpp\<close>: its private data, the
  setters that need no property first, and the accessors that compute.  As in \<open>RootInfo\<close>, an
  operation returns the new data and the effects it has, in order.  The icons are in
  \<open>WinIcons\<close>, the reader in \<open>WinUpdate\<close>, \<^verbatim>\<open>setState\<close>,
  \<^verbatim>\<open>setDesktop\<close> and the event handler in \<open>WinState\<close>.
\<close>

section \<open>State and effects\<close>

record win_info =
  wi_role :: net_role
  wi_window :: u32
  wi_root :: u32
  wi_mapping_state :: mapping_state
  wi_mapping_state_dirty :: bool
  wi_icons :: "net_icon rarr"
  wi_icon_count :: nat
  wi_icon_sizes :: "i32 list option"
  wi_icon_geom :: net_rect
  wi_win_geom :: net_rect
  wi_state :: u32
  wi_extended_strut :: net_extended_strut
  wi_strut :: net_strut
  wi_frame_strut :: net_strut
  wi_frame_overlap :: net_strut
  wi_gtk_frame_extents :: net_strut
  wi_types :: "window_type rarr"
  wi_name :: cstr
  wi_visible_name :: cstr
  wi_icon_name :: cstr
  wi_visible_icon_name :: cstr
  wi_desktop :: i32
  wi_pid :: i32
  wi_handled_icons :: bool
  wi_user_time :: u32
  wi_startup_id :: cstr
  wi_opacity :: "64 word"
  wi_transient_for :: u32
  wi_window_group :: u32
  wi_icon_pixmap :: u32
  wi_icon_mask :: u32
  wi_allowed_actions :: u32
  wi_class_class :: cstr
  wi_class_name :: cstr
  wi_window_role :: cstr
  wi_client_machine :: cstr
  wi_desktop_file :: cstr
  wi_appmenu_object_path :: cstr
  wi_appmenu_service_name :: cstr
  wi_gtk_application_id :: cstr
  wi_properties :: u32
  wi_properties2 :: u32
  wi_fullscreen_monitors :: net_fullscreen_monitors
  wi_has_net_support :: bool
  wi_activities :: cstr
  wi_blockCompositing :: bool
  wi_urgency :: bool
  wi_input :: bool
  wi_initialMappingState :: mapping_state
  wi_protocols :: u32
  wi_opaqueRegion :: "net_rect list"

text \<open>The virtual functions a window manager overrides.\<close>

datatype win_hook =
    ChangeState u32 u32
  | ChangeDesktop i32
  | ChangeFullscreenMonitors net_fullscreen_monitors

text \<open>
  \<open>ForwardOnDesktop\<close> is the call of \<^verbatim>\<open>KX11Extras::setOnDesktop\<close> when desktops are
  viewports; \<open>WinUndefined\<close> is undefined behaviour of C++ (a null pointer or memory past an icon's
  data is read).
\<close>

datatype win_effect =
    WinReq xreq
  | WinHook win_hook
  | ForwardOnDesktop u32 i32
  | WinUndefined

type_synonym win_step = "win_info \<times> win_effect list"

text \<open>
  The enumerator with value 0, which is what fresh array elements hold, is \<^verbatim>\<open>Normal\<close>.
\<close>

abbreviation type0 :: window_type where
  "type0 \<equiv> Normal"

text \<open>The constructor up to the call of \<^verbatim>\<open>update\<close>.\<close>

definition win_blank :: "u32 \<Rightarrow> u32 \<Rightarrow> u32 \<Rightarrow> u32 \<Rightarrow> net_role \<Rightarrow> win_info" where
  "win_blank window rootWindow properties properties2 role = \<lparr>
     wi_role = role, wi_window = window, wi_root = rootWindow,
     wi_mapping_state = Withdrawn, wi_mapping_state_dirty = True,
     wi_icons = rarr_new icon0, wi_icon_count = 0, wi_icon_sizes = None,
     wi_icon_geom = rect0, wi_win_geom = rect0, wi_state = 0,
     wi_extended_strut = extended_strut0, wi_strut = strut0, wi_frame_strut = strut0,
     wi_frame_overlap = strut0, wi_gtk_frame_extents = strut0,
     wi_types = rarr_write type0 (rarr_new type0) 0 Unknown,
     wi_name = None, wi_visible_name = None, wi_icon_name = None, wi_visible_icon_name = None,
     wi_desktop = 0, wi_pid = 0, wi_handled_icons = False, wi_user_time = - 1,
     wi_startup_id = None, wi_opacity = 0xffffffff, wi_transient_for = 0, wi_window_group = 0,
     wi_icon_pixmap = 0, wi_icon_mask = 0, wi_allowed_actions = 0, wi_class_class = None,
     wi_class_name = None, wi_window_role = None, wi_client_machine = None,
     wi_desktop_file = None, wi_appmenu_object_path = None, wi_appmenu_service_name = None,
     wi_gtk_application_id = None, wi_properties = properties, wi_properties2 = properties2,
     wi_fullscreen_monitors = fullscreen_monitors0, wi_has_net_support = False,
     wi_activities = None, wi_blockCompositing = False, wi_urgency = False, wi_input = True,
     wi_initialMappingState = Withdrawn, wi_protocols = protocol_flag NoProtocol,
     wi_opaqueRegion = []\<rparr>"

section \<open>Requests\<close>

definition win_change :: "win_info \<Rightarrow> u32 \<Rightarrow> u32 \<Rightarrow> xvalue \<Rightarrow> win_effect" where
  "win_change p property type v = WinReq (ChangeProperty (wi_window p) property type v)"

definition win_delete :: "win_info \<Rightarrow> u32 \<Rightarrow> win_effect" where
  "win_delete p property = WinReq (DeleteProperty (wi_window p) property)"

definition win_message :: "atom_env \<Rightarrow> win_info \<Rightarrow> kws_atom \<Rightarrow> u32 list \<Rightarrow> win_effect" where
  "win_message at p message data =
     WinReq (send_client_message SubstructureRedirectNotify (wi_root p) (wi_window p)
       (at (Kws message)) data)"

section \<open>Geometry\<close>

text \<open>
  \<open>scale\<close> is what \<^verbatim>\<open>x *= qApp->devicePixelRatio()\<close> does to an
  \<^verbatim>\<open>int\<close>.
\<close>

definition scale_rect :: "(i32 \<Rightarrow> i32) \<Rightarrow> net_rect \<Rightarrow> net_rect" where
  "scale_rect scale r = \<lparr>
     rect_pos = \<lparr>pt_x = scale (pt_x (rect_pos r)), pt_y = scale (pt_y (rect_pos r))\<rparr>,
     rect_size = \<lparr>sz_width = scale (sz_width (rect_size r)),
                  sz_height = scale (sz_height (rect_size r))\<rparr>\<rparr>"

definition setIconGeometry :: "(i32 \<Rightarrow> i32) \<Rightarrow> atom_env \<Rightarrow> win_info \<Rightarrow> net_rect \<Rightarrow> win_step" where
  "setIconGeometry scale at p geometry0 =
     (if wi_role p \<noteq> Client then (p, [])
      else
        (let geometry = scale_rect scale geometry0
         in (p\<lparr>wi_icon_geom := geometry\<rparr>,
             [if sz_width (rect_size geometry) = 0
              then win_delete p (at (Kws NET_WM_ICON_GEOMETRY))
              else win_change p (at (Kws NET_WM_ICON_GEOMETRY)) (at XaCardinal)
                (V32 [pt_x (rect_pos geometry), pt_y (rect_pos geometry),
                      sz_width (rect_size geometry), sz_height (rect_size geometry)])])))"

definition setExtendedStrut :: "atom_env \<Rightarrow> win_info \<Rightarrow> net_extended_strut \<Rightarrow> win_step" where
  "setExtendedStrut at p s =
     (if wi_role p \<noteq> Client then (p, [])
      else (p\<lparr>wi_extended_strut := s\<rparr>,
        [win_change p (at (Kws NET_WM_STRUT_PARTIAL)) (at XaCardinal)
           (V32 [left_width s, right_width s, top_width s, bottom_width s,
                 left_start s, left_end s, right_start s, right_end s,
                 top_start s, top_end s, bottom_start s, bottom_end s])]))"

definition strut_words :: "net_strut \<Rightarrow> u32 list" where
  "strut_words s = [strut_left s, strut_right s, strut_top s, strut_bottom s]"

definition setStrut :: "atom_env \<Rightarrow> win_info \<Rightarrow> net_strut \<Rightarrow> win_step" where
  "setStrut at p strut =
     (if wi_role p \<noteq> Client then (p, [])
      else (p\<lparr>wi_strut := strut\<rparr>,
        [win_change p (at (Kws NET_WM_STRUT)) (at XaCardinal) (V32 (strut_words strut))]))"

definition setFullscreenMonitors :: "atom_env \<Rightarrow> win_info \<Rightarrow> net_fullscreen_monitors \<Rightarrow> win_step" where
  "setFullscreenMonitors at p topology =
     (if wi_role p = Client
      then (p, [win_message at p NET_WM_FULLSCREEN_MONITORS
             [mon_top topology, mon_bottom topology, mon_left topology, mon_right topology, 1]])
      else (p\<lparr>wi_fullscreen_monitors := topology\<rparr>,
        [win_change p (at (Kws NET_WM_FULLSCREEN_MONITORS)) (at XaCardinal)
           (V32 [mon_top topology, mon_bottom topology, mon_left topology, mon_right topology])]))"

definition setFrameExtents :: "atom_env \<Rightarrow> win_info \<Rightarrow> net_strut \<Rightarrow> win_step" where
  "setFrameExtents at p strut =
     (if wi_role p \<noteq> WindowManager then (p, [])
      else (p\<lparr>wi_frame_strut := strut\<rparr>,
        [win_change p (at (Kws NET_FRAME_EXTENTS)) (at XaCardinal) (V32 (strut_words strut)),
         win_change p (at (Kws KDE_NET_WM_FRAME_STRUT)) (at XaCardinal) (V32 (strut_words strut))]))"

definition qMax0 :: "i32 \<Rightarrow> i32" where
  "qMax0 x = (if 0 < sint x then x else 0)"

text \<open>All sides \<open>- 1\<close> means that the frame overlaps everywhere; otherwise negative sides are cut.\<close>

definition setFrameOverlap :: "atom_env \<Rightarrow> win_info \<Rightarrow> net_strut \<Rightarrow> win_step" where
  "setFrameOverlap at p s =
     (let strut = (if strut_left s \<noteq> - 1 \<or> strut_top s \<noteq> - 1 \<or> strut_right s \<noteq> - 1 \<or>
                      strut_bottom s \<noteq> - 1
                   then \<lparr>strut_left = qMax0 (strut_left s), strut_right = qMax0 (strut_right s),
                         strut_top = qMax0 (strut_top s), strut_bottom = qMax0 (strut_bottom s)\<rparr>
                   else s)
      in (p\<lparr>wi_frame_overlap := strut\<rparr>,
          [win_change p (at (Kws NET_WM_FRAME_OVERLAP)) (at XaCardinal) (V32 (strut_words strut))]))"

definition setGtkFrameExtents :: "atom_env \<Rightarrow> win_info \<Rightarrow> net_strut \<Rightarrow> win_step" where
  "setGtkFrameExtents at p strut =
     (p\<lparr>wi_gtk_frame_extents := strut\<rparr>,
      [win_change p (at (Kws GTK_FRAME_EXTENTS)) (at XaCardinal) (V32 (strut_words strut))])"

text \<open>
  \<open>geometry\<close> and \<open>translated\<close> are the replies of \<^verbatim>\<open>xcb_get_geometry\<close> (width and height)
  and \<^verbatim>\<open>xcb_translate_coordinates\<close>; the result holds the new data, the frame and the window.
\<close>

definition kdeGeometry ::
  "(16 word \<times> 16 word) option \<Rightarrow> (16 word \<times> 16 word) option \<Rightarrow> win_info \<Rightarrow>
     win_info \<times> net_rect \<times> net_rect" where
  "kdeGeometry geometry translated p =
     (let g = wi_win_geom p;
          p1 = (if sz_width (rect_size g) = 0 \<or> sz_height (rect_size g) = 0
                then (case (geometry, translated) of
                        (Some (width, height), Some (x, y)) \<Rightarrow>
                          p\<lparr>wi_win_geom := \<lparr>rect_pos = \<lparr>pt_x = scast x, pt_y = scast y\<rparr>,
                            rect_size = \<lparr>sz_width = ucast width, sz_height = ucast height\<rparr>\<rparr>\<rparr>
                      | _ \<Rightarrow> p)
                else p);
          window = wi_win_geom p1;
          f = wi_frame_strut p1;
          frame = \<lparr>rect_pos = \<lparr>pt_x = pt_x (rect_pos window) - strut_left f,
                               pt_y = pt_y (rect_pos window) - strut_top f\<rparr>,
                   rect_size = \<lparr>sz_width = sz_width (rect_size window) + strut_left f + strut_right f,
                                sz_height = sz_height (rect_size window) + strut_top f + strut_bottom f\<rparr>\<rparr>
      in (p1, frame, window))"

section \<open>Names\<close>

text \<open>
  Four names are written when they are not empty and deleted when they are; a null pointer is
  dereferenced.
\<close>

definition text_or_delete :: "atom_env \<Rightarrow> win_info \<Rightarrow> kws_atom \<Rightarrow> cstr \<Rightarrow> win_effect list" where
  "text_or_delete at p property text =
     (case text of
        None \<Rightarrow> [WinUndefined]
      | Some s \<Rightarrow>
          [if s \<noteq> [] then win_change p (at (Kws property)) (at (Kws UTF8_STRING)) (V8 s)
           else win_delete p (at (Kws property))])"

definition setName :: "atom_env \<Rightarrow> win_info \<Rightarrow> cstr \<Rightarrow> win_step" where
  "setName at p name =
     (if wi_role p \<noteq> Client then (p, [])
      else (p\<lparr>wi_name := nstrdup name\<rparr>, text_or_delete at p NET_WM_NAME (nstrdup name)))"

definition setVisibleName :: "atom_env \<Rightarrow> win_info \<Rightarrow> cstr \<Rightarrow> win_step" where
  "setVisibleName at p visibleName =
     (if wi_role p \<noteq> WindowManager then (p, [])
      else (p\<lparr>wi_visible_name := nstrdup visibleName\<rparr>,
            text_or_delete at p NET_WM_VISIBLE_NAME (nstrdup visibleName)))"

definition setIconName :: "atom_env \<Rightarrow> win_info \<Rightarrow> cstr \<Rightarrow> win_step" where
  "setIconName at p iconName =
     (if wi_role p \<noteq> Client then (p, [])
      else (p\<lparr>wi_icon_name := nstrdup iconName\<rparr>,
            text_or_delete at p NET_WM_ICON_NAME (nstrdup iconName)))"

definition setVisibleIconName :: "atom_env \<Rightarrow> win_info \<Rightarrow> cstr \<Rightarrow> win_step" where
  "setVisibleIconName at p visibleIconName =
     (if wi_role p \<noteq> WindowManager then (p, [])
      else (p\<lparr>wi_visible_icon_name := nstrdup visibleIconName\<rparr>,
            text_or_delete at p NET_WM_VISIBLE_ICON_NAME (nstrdup visibleIconName)))"

section \<open>Texts that are always written\<close>

definition text_always :: "atom_env \<Rightarrow> win_info \<Rightarrow> kws_atom \<Rightarrow> xatom \<Rightarrow> cstr \<Rightarrow> win_effect list" where
  "text_always at p property type text =
     (case text of
        None \<Rightarrow> [WinUndefined]
      | Some s \<Rightarrow> [win_change p (at (Kws property)) (at type) (V8 s)])"

definition setStartupId :: "atom_env \<Rightarrow> win_info \<Rightarrow> cstr \<Rightarrow> win_step" where
  "setStartupId at p startup_id =
     (if wi_role p \<noteq> Client then (p, [])
      else (p\<lparr>wi_startup_id := nstrdup startup_id\<rparr>,
            text_always at p NET_STARTUP_ID (Kws UTF8_STRING) (nstrdup startup_id)))"

definition setDesktopFileName :: "atom_env \<Rightarrow> win_info \<Rightarrow> cstr \<Rightarrow> win_step" where
  "setDesktopFileName at p name =
     (if wi_role p \<noteq> Client then (p, [])
      else (p\<lparr>wi_desktop_file := nstrdup name\<rparr>,
            text_always at p KDE_NET_WM_DESKTOP_FILE (Kws UTF8_STRING) (nstrdup name)))"

definition setAppMenuObjectPath :: "atom_env \<Rightarrow> win_info \<Rightarrow> cstr \<Rightarrow> win_step" where
  "setAppMenuObjectPath at p name =
     (if wi_role p \<noteq> Client then (p, [])
      else (p\<lparr>wi_appmenu_object_path := nstrdup name\<rparr>,
            text_always at p KDE_NET_WM_APPMENU_OBJECT_PATH XaString (nstrdup name)))"

definition setAppMenuServiceName :: "atom_env \<Rightarrow> win_info \<Rightarrow> cstr \<Rightarrow> win_step" where
  "setAppMenuServiceName at p name =
     (if wi_role p \<noteq> Client then (p, [])
      else (p\<lparr>wi_appmenu_service_name := nstrdup name\<rparr>,
            text_always at p KDE_NET_WM_APPMENU_SERVICE_NAME XaString (nstrdup name)))"

text \<open>\<^verbatim>\<open>KDE_ALL_ACTIVITIES_UUID\<close>; a null pointer stands for all activities here.\<close>

definition nulluuid :: string where
  "nulluuid = ''00000000-0000-0000-0000-000000000000''"

definition setActivities :: "atom_env \<Rightarrow> win_info \<Rightarrow> cstr \<Rightarrow> win_step" where
  "setActivities at p acts =
     (let a = (case acts of None \<Rightarrow> Some nulluuid
               | Some s \<Rightarrow> if s = [] then Some nulluuid else nstrdup acts)
      in (p\<lparr>wi_activities := a\<rparr>, text_always at p KDE_NET_WM_ACTIVITIES XaString a))"

section \<open>Numbers\<close>

definition card1 :: "atom_env \<Rightarrow> win_info \<Rightarrow> kws_atom \<Rightarrow> u32 \<Rightarrow> win_effect" where
  "card1 at p property d = win_change p (at (Kws property)) (at XaCardinal) (V32 [d])"

definition setPid :: "atom_env \<Rightarrow> win_info \<Rightarrow> i32 \<Rightarrow> win_step" where
  "setPid at p pid =
     (if wi_role p \<noteq> Client then (p, [])
      else (p\<lparr>wi_pid := pid\<rparr>, [card1 at p NET_WM_PID pid]))"

definition setHandledIcons :: "atom_env \<Rightarrow> win_info \<Rightarrow> bool \<Rightarrow> win_step" where
  "setHandledIcons at p handled =
     (if wi_role p \<noteq> Client then (p, [])
      else (p\<lparr>wi_handled_icons := handled\<rparr>,
            [card1 at p NET_WM_HANDLED_ICONS (if handled then 1 else 0)]))"

text \<open>The property gets the low half of an \<^verbatim>\<open>unsigned long\<close>.\<close>

definition setOpacity :: "atom_env \<Rightarrow> win_info \<Rightarrow> 64 word \<Rightarrow> win_step" where
  "setOpacity at p opacity =
     (p\<lparr>wi_opacity := opacity\<rparr>, [card1 at p NET_WM_WINDOW_OPACITY (ucast opacity)])"

definition setUserTime :: "atom_env \<Rightarrow> win_info \<Rightarrow> u32 \<Rightarrow> win_step" where
  "setUserTime at p time =
     (if wi_role p \<noteq> Client then (p, [])
      else (p\<lparr>wi_user_time := time\<rparr>, [card1 at p NET_WM_USER_TIME time]))"

definition setBlockingCompositing :: "atom_env \<Rightarrow> win_info \<Rightarrow> bool \<Rightarrow> win_step" where
  "setBlockingCompositing at p active =
     (if wi_role p \<noteq> Client then (p, [])
      else (p\<lparr>wi_blockCompositing := active\<rparr>,
            if active
            then [card1 at p KDE_NET_WM_BLOCK_COMPOSITING 1, card1 at p NET_WM_BYPASS_COMPOSITOR 1]
            else [win_delete p (at (Kws KDE_NET_WM_BLOCK_COMPOSITING)),
                  win_delete p (at (Kws NET_WM_BYPASS_COMPOSITOR))]))"

section \<open>The window type\<close>

text \<open>
  The atoms of a type and how many of them are sent (\<^verbatim>\<open>len\<close>): the second one is a
  fallback for readers that do not know the first.
\<close>

fun type_atoms :: "window_type \<Rightarrow> kws_atom list" where
  "type_atoms Override = [KDE_NET_WM_WINDOW_TYPE_OVERRIDE, NET_WM_WINDOW_TYPE_NORMAL]"
| "type_atoms Dialog = [NET_WM_WINDOW_TYPE_DIALOG]"
| "type_atoms Menu = [NET_WM_WINDOW_TYPE_MENU]"
| "type_atoms TopMenu = [KDE_NET_WM_WINDOW_TYPE_TOPMENU, NET_WM_WINDOW_TYPE_DOCK]"
| "type_atoms Toolbar = [NET_WM_WINDOW_TYPE_TOOLBAR]"
| "type_atoms Dock = [NET_WM_WINDOW_TYPE_DOCK]"
| "type_atoms Desktop = [NET_WM_WINDOW_TYPE_DESKTOP]"
| "type_atoms Utility = [NET_WM_WINDOW_TYPE_UTILITY, NET_WM_WINDOW_TYPE_DIALOG]"
| "type_atoms Splash = [NET_WM_WINDOW_TYPE_SPLASH, NET_WM_WINDOW_TYPE_DOCK]"
| "type_atoms DropdownMenu = [NET_WM_WINDOW_TYPE_DROPDOWN_MENU, NET_WM_WINDOW_TYPE_MENU]"
| "type_atoms PopupMenu = [NET_WM_WINDOW_TYPE_POPUP_MENU, NET_WM_WINDOW_TYPE_MENU]"
| "type_atoms Tooltip = [NET_WM_WINDOW_TYPE_TOOLTIP]"
| "type_atoms Notification = [NET_WM_WINDOW_TYPE_NOTIFICATION, NET_WM_WINDOW_TYPE_UTILITY]"
| "type_atoms ComboBox = [NET_WM_WINDOW_TYPE_COMBO]"
| "type_atoms DNDIcon = [NET_WM_WINDOW_TYPE_DND]"
| "type_atoms OnScreenDisplay =
     [KDE_NET_WM_WINDOW_TYPE_ON_SCREEN_DISPLAY, NET_WM_WINDOW_TYPE_NOTIFICATION]"
| "type_atoms CriticalNotification =
     [KDE_NET_WM_WINDOW_TYPE_CRITICAL_NOTIFICATION, NET_WM_WINDOW_TYPE_NOTIFICATION]"
| "type_atoms AppletPopup = [KDE_NET_WM_WINDOW_TYPE_APPLET_POPUP]"
| "type_atoms Normal = [NET_WM_WINDOW_TYPE_NORMAL]"
| "type_atoms Unknown = [NET_WM_WINDOW_TYPE_NORMAL]"

definition type_len :: "window_type \<Rightarrow> nat" where
  "type_len t =
     (if t \<in> {Override, TopMenu, Utility, Splash, OnScreenDisplay, CriticalNotification} then 2 else 1)"

definition setWindowType :: "atom_env \<Rightarrow> win_info \<Rightarrow> window_type \<Rightarrow> win_step" where
  "setWindowType at p t =
     (if wi_role p \<noteq> Client then (p, [])
      else (p, [win_change p (at (Kws NET_WM_WINDOW_TYPE)) (at XaAtom)
                  (V32 (take (type_len t) (map (\<lambda>a. at (Kws a)) (type_atoms t))))]))"

section \<open>Accessors that compute\<close>

text \<open>The first type of the window that the application supports.\<close>

definition windowType :: "win_info \<Rightarrow> u32 \<Rightarrow> window_type" where
  "windowType p supported_types =
     (case find (\<lambda>i. typeMatchesMask (rarr_read type0 (wi_types p) i) supported_types)
             [0..<rarr_size (wi_types p)] of
        Some i \<Rightarrow> rarr_read type0 (wi_types p) i
      | None \<Rightarrow> Unknown)"

definition hasWindowType :: "win_info \<Rightarrow> bool" where
  "hasWindowType p \<longleftrightarrow> 0 < rarr_size (wi_types p)"

text \<open>\<open>ext\<close> is the desktop \<^verbatim>\<open>KWindowInfo\<close> computes from the viewport.\<close>

definition win_desktop :: "bool \<Rightarrow> i32 \<Rightarrow> win_info \<Rightarrow> bool \<Rightarrow> i32" where
  "win_desktop mapViewport ext p ignore_viewport =
     (if wi_role p = WindowManager then wi_desktop p
      else if \<not> ignore_viewport \<and> mapViewport then ext
      else wi_desktop p)"

definition supportsProtocol :: "win_info \<Rightarrow> net_protocol \<Rightarrow> bool" where
  "supportsProtocol p protocol \<longleftrightarrow>
     wi_protocols p AND protocol_flag protocol = protocol_flag protocol \<and>
     (protocol_flag protocol \<noteq> 0 \<or> wi_protocols p = 0)"

lemmas win_setter_defs =
  setIconGeometry_def setExtendedStrut_def setStrut_def setFullscreenMonitors_def
  setFrameExtents_def setFrameOverlap_def setGtkFrameExtents_def setName_def setVisibleName_def
  setIconName_def setVisibleIconName_def setStartupId_def setDesktopFileName_def
  setAppMenuObjectPath_def setAppMenuServiceName_def setActivities_def setPid_def
  setHandledIcons_def setOpacity_def setUserTime_def setBlockingCompositing_def setWindowType_def

lemmas win_effect_defs =
  win_change_def win_delete_def text_or_delete_def text_always_def card1_def

end
