(* ===== verification/WinIcons.thy ===== *)
theory WinIcons
  imports WinInfo
begin

text \<open>
  The icons of a window: \<^verbatim>\<open>setIcon\<close> and \<^verbatim>\<open>setIconInternal\<close>, which keep
  a copy and write all icons as one array of words, \<^verbatim>\<open>readIcon\<close>, which reads that array
  from an untrusted client, and the choice of an icon by size.  An icon's data is the list of its
  words.  The lemmas show that the reader takes only words the reply has, that what it accepts is
  well-formed, and that it reads back what was written.
\<close>

section \<open>Writing\<close>

definition icon_area :: "net_icon \<Rightarrow> int" where
  "icon_area icon = sint (sz_width (icon_size icon)) * sint (sz_height (icon_size icon))"

text \<open>
  The copy reads \<^verbatim>\<open>width * height\<close> words of the caller's data; it is defined when that
  is an \<^verbatim>\<open>int\<close> and the data has them.
\<close>

definition icon_copyable :: "net_icon \<Rightarrow> bool" where
  "icon_copyable icon \<longleftrightarrow>
     0 \<le> icon_area icon \<and> icon_area icon < 2 ^ 31 \<and>
     (case icon_data icon of None \<Rightarrow> icon_area icon = 0
      | Some d \<Rightarrow> nat (icon_area icon) \<le> length d)"

definition icon_copy :: "net_icon \<Rightarrow> net_icon" where
  "icon_copy icon = icon\<lparr>icon_data :=
     Some (take (nat (icon_area icon)) (case icon_data icon of None \<Rightarrow> [] | Some d \<Rightarrow> d))\<rparr>"

definition icon_words :: "net_icon \<Rightarrow> u32 list" where
  "icon_words icon = sz_width (icon_size icon) # sz_height (icon_size icon) #
     take (nat (icon_area icon)) (case icon_data icon of None \<Rightarrow> [] | Some d \<Rightarrow> d)"

text \<open>Freed icons keep their place in the array, with size 0 and no data.\<close>

definition clear_icons :: "net_icon rarr \<Rightarrow> net_icon rarr" where
  "clear_icons icons = fold (\<lambda>i a. rarr_write icon0 a i icon0) [0..<rarr_size icons] icons"

definition setIconInternal ::
  "atom_env \<Rightarrow> win_info \<Rightarrow> net_icon rarr \<Rightarrow> nat \<Rightarrow> u32 \<Rightarrow> net_icon \<Rightarrow> bool \<Rightarrow>
     (net_icon rarr \<times> nat \<times> i32 list option) \<times> win_effect list" where
  "setIconInternal at p icons0 icon_count0 property icon replace =
     (if wi_role p \<noteq> Client then ((icons0, icon_count0, wi_icon_sizes p), [])
      else if \<not> icon_copyable icon then ((icons0, icon_count0, wi_icon_sizes p), [WinUndefined])
      else
        (let icons1 = (if replace then clear_icons icons0 else icons0);
             count1 = (if replace then 0 else icon_count0);
             icons2 = rarr_write icon0 icons1 count1 (icon_copy icon);
             count2 = count1 + 1;
             prop = concat (map (\<lambda>i. icon_words (rarr_read icon0 icons2 i)) [0..<count2])
         in ((icons2, count2, None),
             [win_change p property (at XaCardinal) (V32 prop)])))"

definition setIcon :: "atom_env \<Rightarrow> win_info \<Rightarrow> net_icon \<Rightarrow> bool \<Rightarrow> win_step" where
  "setIcon at p icon replace =
     (let ((icons, icon_count, icon_sizes), es) =
            setIconInternal at p (wi_icons p) (wi_icon_count p) (at (Kws NET_WM_ICON)) icon replace
      in (p\<lparr>wi_icons := icons, wi_icon_count := icon_count, wi_icon_sizes := icon_sizes\<rparr>, es))"

section \<open>Reading\<close>

definition maxIconSize :: u32 where
  "maxIconSize = 8192"

text \<open>
  The loop of \<^verbatim>\<open>readIcon\<close> from word \<open>j\<close> on; the caller has checked that there are three
  words.  The product and the sum fit 32 bits: both factors are at most 8192.
\<close>

function read_icons_from :: "u32 list \<Rightarrow> nat \<Rightarrow> net_icon list" where
  "read_icons_from data j =
     (if j < length data - 2 then
        (let width = data ! j;
             height = data ! (j + 1);
             j2 = j + 2;
             n = unat width * unat height
         in if width = 0 \<or> height = 0 then []
            else if width > maxIconSize \<or> height > maxIconSize then []
            else if j2 + n > length data then []
            else \<lparr>icon_size = \<lparr>sz_width = width, sz_height = height\<rparr>,
                  icon_data = Some (take n (drop j2 data))\<rparr> # read_icons_from data (j2 + n))
      else [])"
  by pat_completeness auto
termination
  by (relation "measure (\<lambda>(data, j). length data - j)") auto

declare read_icons_from.simps [simp del]

definition readIcon :: "atom_env \<Rightarrow> xreply option \<Rightarrow> win_info \<Rightarrow> win_info" where
  "readIcon at reply p =
     (let data = get_array_reply reply (at XaCardinal);
          icons = (if length data < 3 then [] else read_icons_from data 0)
      in p\<lparr>wi_icons := rarr_fill icon0 0 icons (rarr_reset icon0 (wi_icons p)),
           wi_icon_count := length icons\<rparr>)"

section \<open>Choosing\<close>

text \<open>\<^verbatim>\<open>iconInternal\<close>: the largest icon, then the one closest to the size asked for.\<close>

definition larger_icon :: "net_icon \<Rightarrow> net_icon \<Rightarrow> net_icon" where
  "larger_icon i result =
     (if sint (sz_width (icon_size i)) \<ge> sint (sz_width (icon_size result)) \<and>
         sint (sz_height (icon_size i)) \<ge> sint (sz_height (icon_size result))
      then i else result)"

definition closer_icon :: "i32 \<Rightarrow> i32 \<Rightarrow> net_icon \<Rightarrow> net_icon \<Rightarrow> net_icon" where
  "closer_icon width height i result =
     (if (sint (sz_width (icon_size i)) \<ge> sint width \<and>
          sint (sz_width (icon_size i)) < sint (sz_width (icon_size result))) \<and>
         (sint (sz_height (icon_size i)) \<ge> sint height \<and>
          sint (sz_height (icon_size i)) < sint (sz_height (icon_size result)))
      then i else result)"

definition iconInternal :: "net_icon rarr \<Rightarrow> nat \<Rightarrow> i32 \<Rightarrow> i32 \<Rightarrow> net_icon" where
  "iconInternal icons icon_count width height =
     (if icon_count = 0 then icon0
      else
        (let at_index = rarr_read icon0 icons;
             result = fold (\<lambda>i. larger_icon (at_index i)) [1..<rarr_size icons] (at_index 0)
         in if width = - 1 \<and> height = - 1 then result
            else fold (\<lambda>i. closer_icon width height (at_index i)) [0..<rarr_size icons] result))"

definition icon :: "win_info \<Rightarrow> i32 \<Rightarrow> i32 \<Rightarrow> net_icon" where
  "icon p width height = iconInternal (wi_icons p) (wi_icon_count p) width height"

text \<open>The cached list of sizes, with its terminating pair of zeros.\<close>

definition iconSizes :: "win_info \<Rightarrow> win_info \<times> i32 list" where
  "iconSizes p =
     (case wi_icon_sizes p of
        Some s \<Rightarrow> (p, s)
      | None \<Rightarrow>
          (let s = concat (map (\<lambda>i. let sz = icon_size (rarr_read icon0 (wi_icons p) i)
                                    in [sz_width sz, sz_height sz]) [0..<wi_icon_count p]) @ [0, 0]
           in (p\<lparr>wi_icon_sizes := Some s\<rparr>, s)))"

section \<open>What the reader accepts\<close>

text \<open>An icon the reader accepts: both sides between 1 and 8192, with all its words.\<close>

definition icon_ok :: "net_icon \<Rightarrow> bool" where
  "icon_ok i \<longleftrightarrow>
     0 < sz_width (icon_size i) \<and> sz_width (icon_size i) \<le> maxIconSize \<and>
     0 < sz_height (icon_size i) \<and> sz_height (icon_size i) \<le> maxIconSize \<and>
     (\<exists>d. icon_data i = Some d \<and>
        length d = unat (sz_width (icon_size i)) * unat (sz_height (icon_size i)))"

definition icon_length :: "net_icon \<Rightarrow> nat" where
  "icon_length i = 2 + (case icon_data i of None \<Rightarrow> 0 | Some d \<Rightarrow> length d)"

lemma read_icons_from_cases:
  obtains (stop) "read_icons_from data j = []"
  | (go) i where "read_icons_from data j = i # read_icons_from data (j + icon_length i)"
      "icon_ok i" "j + icon_length i \<le> length data"
proof -
  let ?w = "data ! j" and ?h = "data ! Suc j"
  let ?i = "\<lparr>icon_size = \<lparr>sz_width = ?w, sz_height = ?h\<rparr>,
              icon_data = Some (take (unat ?w * unat ?h) (drop (j + 2) data))\<rparr>"
  show ?thesis
  proof (cases "j < length data - 2 \<and> ?w \<noteq> 0 \<and> ?h \<noteq> 0 \<and> ?w \<le> maxIconSize \<and> ?h \<le> maxIconSize \<and>
      j + 2 + unat ?w * unat ?h \<le> length data")
    case True
    then have "unat ?w * unat ?h \<le> length data - (j + 2)" by linarith
    then have len: "icon_length ?i = 2 + unat ?w * unat ?h" by (simp add: icon_length_def)
    show ?thesis
    proof (rule go)
      show "read_icons_from data j = ?i # read_icons_from data (j + icon_length ?i)"
        using True len by (subst read_icons_from.simps) (simp add: Let_def not_less add.assoc)
      show "icon_ok ?i" using True len by (simp add: icon_ok_def word_gt_0 icon_length_def)
      show "j + icon_length ?i \<le> length data" using True len by simp
    qed
  next
    case False
    have "read_icons_from data j = []"
      using False by (subst read_icons_from.simps) (auto simp: Let_def not_less not_le)
    then show ?thesis by (rule stop)
  qed
qed

lemma icon_length_pos [simp]: "0 < icon_length i"
  by (simp add: icon_length_def)

lemma read_icons_from_sound: "\<forall>i \<in> set (read_icons_from data j). icon_ok i"
proof (induction "length data - j" arbitrary: j rule: less_induct)
  case less
  show ?case
  proof (cases rule: read_icons_from_cases [of data j])
    case (go i)
    then have "length data - (j + icon_length i) < length data - j"
      using icon_length_pos [of i] by linarith
    from less [OF this] go show ?thesis by simp
  qed simp
qed

text \<open>All accepted icons together are no longer than the reply.\<close>

lemma read_icons_from_length:
  "j \<le> length data \<Longrightarrow> j + sum_list (map icon_length (read_icons_from data j)) \<le> length data"
proof (induction "length data - j" arbitrary: j rule: less_induct)
  case less
  show ?case
  proof (cases rule: read_icons_from_cases [of data j])
    case (go i)
    then have "length data - (j + icon_length i) < length data - j"
      using icon_length_pos [of i] by linarith
    from less(1) [OF this go(3)] go(1) show ?thesis by simp
  qed (use less.prems in simp)
qed

section \<open>Round trip\<close>

lemma sint_icon_side: "w \<le> maxIconSize \<Longrightarrow> sint w = int (unat w)" for w :: u32
proof -
  assume "w \<le> maxIconSize"
  then have "uint w < 2 ^ 31" by (simp add: maxIconSize_def word_le_def)
  then show ?thesis
    by (simp add: sint_uint signed_take_bit_int_eq_self_iff order_trans [of _ 0])
qed

lemma icon_area_ok: "icon_ok i \<Longrightarrow>
    icon_area i = int (unat (sz_width (icon_size i)) * unat (sz_height (icon_size i)))"
  by (simp add: icon_ok_def icon_area_def sint_icon_side)

lemma icon_words_ok:
  "icon_ok i \<Longrightarrow> \<exists>d. icon_data i = Some d \<and>
     icon_words i = sz_width (icon_size i) # sz_height (icon_size i) # d"
  unfolding icon_words_def icon_area_ok nat_int by (auto simp: icon_ok_def)

lemma read_icons_from_append:
  "\<forall>i \<in> set is. icon_ok i \<Longrightarrow>
     read_icons_from (pre @ concat (map icon_words is)) (length pre) = is"
proof (induction "is" arbitrary: pre)
  case Nil
  have "\<not> length pre < length pre - 2" by simp
  then show ?case by (subst read_icons_from.simps) (simp del: not_less)
next
  case (Cons i "is")
  let ?w = "sz_width (icon_size i)" and ?h = "sz_height (icon_size i)"
  from Cons.prems have i: "icon_ok i" by simp
  then obtain d where d: "icon_data i = Some d" "icon_words i = ?w # ?h # d"
    using icon_words_ok by blast
  have len: "length d = unat ?w * unat ?h" using i d by (simp add: icon_ok_def)
  have pos: "0 < unat ?w * unat ?h" using i by (simp add: icon_ok_def word_gt_0 unat_gt_0)
  have eta: "\<lparr>icon_size = \<lparr>sz_width = ?w, sz_height = ?h\<rparr>, icon_data = Some d\<rparr> = i"
    using d by simp
  have rest: "read_icons_from ((pre @ ?w # ?h # d) @ concat (map icon_words is))
      (length (pre @ ?w # ?h # d)) = is"
    using Cons.IH [of "pre @ ?w # ?h # d"] Cons.prems by simp
  have size: "?w \<noteq> 0" "?h \<noteq> 0" "\<not> maxIconSize < ?w" "\<not> maxIconSize < ?h"
    using i by (auto simp: icon_ok_def)
  show ?case
    using rest pos size
    by (subst read_icons_from.simps) (simp add: d Let_def nth_append len eta)
qed

end
