(* ===== verification/WinTables.thy ===== *)
theory WinTables
  imports WinInfo RootSupported
begin

text \<open>
  The lists of atoms a window carries: its states, allowed actions, types and protocols.  The
  long \<^verbatim>\<open>if\<close> chains of \<^verbatim>\<open>setState\<close>,
  \<^verbatim>\<open>setAllowedActions\<close>, \<^verbatim>\<open>update\<close> and \<^verbatim>\<open>event\<close> are
  tables in the order of the code.  Locale \<open>flag_announcement\<close> extends the contract of
  \<open>RootSupported\<close> by the flag words and proves that a word survives writing and reading; the
  states and the actions are its two instances.
\<close>

section \<open>Flag words as lists of atoms\<close>

text \<open>The reading loop: every known atom of the list adds its flag.\<close>

definition read_flags ::
  "atom_env \<Rightarrow> (kws_atom \<times> 'f) list \<Rightarrow> ('f \<Rightarrow> u32) \<Rightarrow> u32 list \<Rightarrow> u32" where
  "read_flags at table fl xs =
     fold (\<lambda>x w. case first_match at table x of None \<Rightarrow> w | Some f \<Rightarrow> w OR fl f) xs 0"

definition flag_atoms :: "('f \<times> kws_atom list) list \<Rightarrow> ('f \<Rightarrow> u32) \<Rightarrow> u32 \<Rightarrow> kws_atom list" where
  "flag_atoms table fl w = announce (\<lambda>f. hasf w (fl f)) table"

lemma bit_read_flags:
  assumes at: "atoms_ok at"
  shows "bit (read_flags at table fl (map (\<lambda>a. at (Kws a)) atoms)) n \<longleftrightarrow>
           (\<exists>f \<in> heard table atoms. bit (fl f) n)"
proof -
  have "bit (fold (\<lambda>x w. case first_match at table x of None \<Rightarrow> w | Some f \<Rightarrow> w OR fl f)
           (map (\<lambda>a. at (Kws a)) atoms) w) n \<longleftrightarrow>
      bit w n \<or> (\<exists>f \<in> heard table atoms. bit (fl f) n)" for w
  proof (induction atoms arbitrary: w)
    case Nil
    then show ?case by (simp add: heard_def)
  next
    case (Cons a as)
    have "heard table (a # as) =
        (case map_of table a of None \<Rightarrow> {} | Some f \<Rightarrow> {f}) \<union> heard table as"
      by (auto simp: heard_def split: option.splits)
    with Cons at show ?case by (auto simp: bit_or_iff split: option.splits)
  qed
  then show ?thesis by (simp add: read_flags_def)
qed

locale flag_announcement = announcement emitted read
  for emitted :: "('f \<times> kws_atom list) list" and read :: "(kws_atom \<times> 'f) list" +
  fixes fl :: "'f \<Rightarrow> u32"
  assumes single: "f \<in> fst ` set emitted \<Longrightarrow> single_bit (fl f)"
begin

lemma read_flag_atoms:
  assumes at: "atoms_ok at"
  shows "read_flags at read fl (map (\<lambda>a. at (Kws a)) (flag_atoms emitted fl w)) =
           w AND or_all (map (\<lambda>(f, as). fl f) emitted)"
proof (rule bit_word_eqI)
  fix n
  have "bit (read_flags at read fl (map (\<lambda>a. at (Kws a)) (flag_atoms emitted fl w))) n \<longleftrightarrow>
      (\<exists>f \<in> {f \<in> fst ` set emitted. hasf w (fl f)}. bit (fl f) n)"
    by (simp only: bit_read_flags [OF at] flag_atoms_def heard_announce)
  also have "\<dots> \<longleftrightarrow> (\<exists>f \<in> fst ` set emitted. hasf w (fl f) \<and> bit (fl f) n)" by blast
  also have "\<dots> \<longleftrightarrow> bit w n \<and> (\<exists>f \<in> fst ` set emitted. bit (fl f) n)"
    by (rule bits_of_selected) (rule single)
  also have "(\<exists>f \<in> fst ` set emitted. bit (fl f) n) \<longleftrightarrow> bit (or_all (map (\<lambda>(f, as). fl f) emitted)) n"
    by (simp add: bit_or_all case_prod_beta)
  finally show "bit (read_flags at read fl (map (\<lambda>a. at (Kws a)) (flag_atoms emitted fl w))) n =
      bit (w AND or_all (map (\<lambda>(f, as). fl f) emitted)) n"
    by (simp add: bit_and_iff)
qed

lemma length_flag_atoms: "length (flag_atoms emitted fl w) \<le> sum_list (map (\<lambda>(f, as). length as) emitted)"
  by (simp add: flag_atoms_def length_announce)

end

section \<open>States\<close>

text \<open>The order in which \<^verbatim>\<open>setState\<close> writes: hints, then policy.\<close>

definition state_written :: "(net_state \<times> kws_atom list) list" where
  "state_written = [
     (Modal, [NET_WM_STATE_MODAL]),
     (MaxVert, [NET_WM_STATE_MAXIMIZED_VERT]),
     (MaxHoriz, [NET_WM_STATE_MAXIMIZED_HORZ]),
     (Shaded, [NET_WM_STATE_SHADED]),
     (Hidden, [NET_WM_STATE_HIDDEN]),
     (FullScreen, [NET_WM_STATE_FULLSCREEN]),
     (DemandsAttention, [NET_WM_STATE_DEMANDS_ATTENTION]),
     (Focused, [NET_WM_STATE_FOCUSED]),
     (KeepAbove, [NET_WM_STATE_ABOVE, NET_WM_STATE_STAYS_ON_TOP]),
     (KeepBelow, [NET_WM_STATE_BELOW]),
     (Sticky, [NET_WM_STATE_STICKY]),
     (SkipTaskbar, [NET_WM_STATE_SKIP_TASKBAR]),
     (SkipPager, [NET_WM_STATE_SKIP_PAGER]),
     (SkipSwitcher, [KDE_NET_WM_STATE_SKIP_SWITCHER])]"

text \<open>The chain of \<^verbatim>\<open>update\<close>.\<close>

definition state_read :: "(kws_atom \<times> net_state) list" where
  "state_read = [
     (NET_WM_STATE_MODAL, Modal),
     (NET_WM_STATE_STICKY, Sticky),
     (NET_WM_STATE_MAXIMIZED_VERT, MaxVert),
     (NET_WM_STATE_MAXIMIZED_HORZ, MaxHoriz),
     (NET_WM_STATE_SHADED, Shaded),
     (NET_WM_STATE_SKIP_TASKBAR, SkipTaskbar),
     (NET_WM_STATE_SKIP_PAGER, SkipPager),
     (KDE_NET_WM_STATE_SKIP_SWITCHER, SkipSwitcher),
     (NET_WM_STATE_HIDDEN, Hidden),
     (NET_WM_STATE_FULLSCREEN, FullScreen),
     (NET_WM_STATE_ABOVE, KeepAbove),
     (NET_WM_STATE_BELOW, KeepBelow),
     (NET_WM_STATE_DEMANDS_ATTENTION, DemandsAttention),
     (NET_WM_STATE_STAYS_ON_TOP, KeepAbove),
     (NET_WM_STATE_FOCUSED, Focused)]"

text \<open>The chain of \<^verbatim>\<open>event\<close> for the atoms of a state message.\<close>

definition state_message_read :: "(kws_atom \<times> net_state) list" where
  "state_message_read = [
     (NET_WM_STATE_MODAL, Modal),
     (NET_WM_STATE_STICKY, Sticky),
     (NET_WM_STATE_MAXIMIZED_VERT, MaxVert),
     (NET_WM_STATE_MAXIMIZED_HORZ, MaxHoriz),
     (NET_WM_STATE_SHADED, Shaded),
     (NET_WM_STATE_SKIP_TASKBAR, SkipTaskbar),
     (NET_WM_STATE_SKIP_PAGER, SkipPager),
     (KDE_NET_WM_STATE_SKIP_SWITCHER, SkipSwitcher),
     (NET_WM_STATE_HIDDEN, Hidden),
     (NET_WM_STATE_FULLSCREEN, FullScreen),
     (NET_WM_STATE_ABOVE, KeepAbove),
     (NET_WM_STATE_BELOW, KeepBelow),
     (NET_WM_STATE_DEMANDS_ATTENTION, DemandsAttention),
     (NET_WM_STATE_STAYS_ON_TOP, KeepAbove),
     (NET_WM_STATE_FOCUSED, Focused)]"

interpretation win_states: flag_announcement state_written state_read state_flag
proof
  show "f \<in> fst ` set state_written \<Longrightarrow> single_bit (state_flag f)" for f
    by (auto simp: state_written_def)
  have "\<forall>(f, as) \<in> set state_written. as \<noteq> [] \<and> (\<forall>a \<in> set as. map_of state_read a = Some f)"
    by (simp add: state_written_def state_read_def)
  then show "(f, as) \<in> set state_written \<Longrightarrow> a \<in> set as \<Longrightarrow> map_of state_read a = Some f"
    "(f, as) \<in> set state_written \<Longrightarrow> as \<noteq> []" for f as a
    by fast+
qed

text \<open>All states that have an atom: bits 0 to 13.\<close>

definition all_states :: u32 where
  "all_states = or_all (map bitflag [0..<14])"

lemma state_written_bits: "or_all (map (\<lambda>(f, as). state_flag f) state_written) = all_states"
  by (simp add: state_written_def all_states_def bitflag_def upt_rec)

lemma state_atoms_roundtrip:
  "atoms_ok at \<Longrightarrow>
     read_flags at state_read state_flag
       (map (\<lambda>a. at (Kws a)) (flag_atoms state_written state_flag w)) = w AND all_states"
  using win_states.read_flag_atoms [of at w] by (simp only: state_written_bits)

section \<open>Allowed actions\<close>

definition action_written :: "(net_action \<times> kws_atom list) list" where
  "action_written = [
     (ActionMove, [NET_WM_ACTION_MOVE]),
     (ActionResize, [NET_WM_ACTION_RESIZE]),
     (ActionMinimize, [NET_WM_ACTION_MINIMIZE]),
     (ActionShade, [NET_WM_ACTION_SHADE]),
     (ActionStick, [NET_WM_ACTION_STICK]),
     (ActionMaxVert, [NET_WM_ACTION_MAXIMIZE_VERT]),
     (ActionMaxHoriz, [NET_WM_ACTION_MAXIMIZE_HORZ]),
     (ActionFullScreen, [NET_WM_ACTION_FULLSCREEN]),
     (ActionChangeDesktop, [NET_WM_ACTION_CHANGE_DESKTOP]),
     (ActionClose, [NET_WM_ACTION_CLOSE])]"

definition action_read :: "(kws_atom \<times> net_action) list" where
  "action_read = [
     (NET_WM_ACTION_MOVE, ActionMove),
     (NET_WM_ACTION_RESIZE, ActionResize),
     (NET_WM_ACTION_MINIMIZE, ActionMinimize),
     (NET_WM_ACTION_SHADE, ActionShade),
     (NET_WM_ACTION_STICK, ActionStick),
     (NET_WM_ACTION_MAXIMIZE_VERT, ActionMaxVert),
     (NET_WM_ACTION_MAXIMIZE_HORZ, ActionMaxHoriz),
     (NET_WM_ACTION_FULLSCREEN, ActionFullScreen),
     (NET_WM_ACTION_CHANGE_DESKTOP, ActionChangeDesktop),
     (NET_WM_ACTION_CLOSE, ActionClose)]"

interpretation win_actions: flag_announcement action_written action_read action_flag
proof
  show "f \<in> fst ` set action_written \<Longrightarrow> single_bit (action_flag f)" for f
    by (auto simp: action_written_def)
  have "\<forall>(f, as) \<in> set action_written. as \<noteq> [] \<and> (\<forall>a \<in> set as. map_of action_read a = Some f)"
    by (simp add: action_written_def action_read_def)
  then show "(f, as) \<in> set action_written \<Longrightarrow> a \<in> set as \<Longrightarrow> map_of action_read a = Some f"
    "(f, as) \<in> set action_written \<Longrightarrow> as \<noteq> []" for f as a
    by fast+
qed

definition all_actions :: u32 where
  "all_actions = or_all (map bitflag [0..<10])"

lemma action_written_bits: "or_all (map (\<lambda>(f, as). action_flag f) action_written) = all_actions"
  by (simp add: action_written_def all_actions_def bitflag_def upt_rec)

lemma action_atoms_roundtrip:
  "atoms_ok at \<Longrightarrow>
     read_flags at action_read action_flag
       (map (\<lambda>a. at (Kws a)) (flag_atoms action_written action_flag w)) = w AND all_actions"
  using win_actions.read_flag_atoms [of at w] by (simp only: action_written_bits)

definition setAllowedActions :: "atom_env \<Rightarrow> win_info \<Rightarrow> u32 \<Rightarrow> win_step" where
  "setAllowedActions at p actions =
     (if wi_role p \<noteq> WindowManager then (p, [])
      else (p\<lparr>wi_allowed_actions := actions\<rparr>,
            [win_change p (at (Kws NET_WM_ALLOWED_ACTIONS)) (at XaAtom)
               (V32 (map (\<lambda>a. at (Kws a)) (flag_atoms action_written action_flag actions)))]))"

section \<open>Types and protocols\<close>

definition type_read :: "(kws_atom \<times> window_type) list" where
  "type_read = [
     (NET_WM_WINDOW_TYPE_NORMAL, Normal),
     (NET_WM_WINDOW_TYPE_DESKTOP, Desktop),
     (NET_WM_WINDOW_TYPE_DOCK, Dock),
     (NET_WM_WINDOW_TYPE_TOOLBAR, Toolbar),
     (NET_WM_WINDOW_TYPE_MENU, Menu),
     (NET_WM_WINDOW_TYPE_DIALOG, Dialog),
     (NET_WM_WINDOW_TYPE_UTILITY, Utility),
     (NET_WM_WINDOW_TYPE_SPLASH, Splash),
     (NET_WM_WINDOW_TYPE_DROPDOWN_MENU, DropdownMenu),
     (NET_WM_WINDOW_TYPE_POPUP_MENU, PopupMenu),
     (NET_WM_WINDOW_TYPE_TOOLTIP, Tooltip),
     (NET_WM_WINDOW_TYPE_NOTIFICATION, Notification),
     (NET_WM_WINDOW_TYPE_COMBO, ComboBox),
     (NET_WM_WINDOW_TYPE_DND, DNDIcon),
     (KDE_NET_WM_WINDOW_TYPE_OVERRIDE, Override),
     (KDE_NET_WM_WINDOW_TYPE_TOPMENU, TopMenu),
     (KDE_NET_WM_WINDOW_TYPE_ON_SCREEN_DISPLAY, OnScreenDisplay),
     (KDE_NET_WM_WINDOW_TYPE_CRITICAL_NOTIFICATION, CriticalNotification),
     (KDE_NET_WM_WINDOW_TYPE_APPLET_POPUP, AppletPopup)]"

definition protocol_read :: "(kws_atom \<times> net_protocol) list" where
  "protocol_read = [
     (WM_TAKE_FOCUS, TakeFocusProtocol),
     (WM_DELETE_WINDOW, DeleteWindowProtocol),
     (NET_WM_PING, PingProtocol),
     (NET_WM_SYNC_REQUEST, SyncRequestProtocol),
     (NET_WM_CONTEXT_HELP, ContextHelpProtocol)]"

text \<open>The types of a list of atoms, in order, unknown atoms skipped.\<close>

definition types_of :: "atom_env \<Rightarrow> u32 list \<Rightarrow> window_type list" where
  "types_of at xs = List.map_filter (first_match at type_read) xs"

text \<open>What a reader that knows all types finds for the type set: the type and its fallback.\<close>

lemma type_atoms_read:
  "atoms_ok at \<Longrightarrow> types_of at (take (type_len t) (map (\<lambda>a. at (Kws a)) (type_atoms t))) =
     (case t of
        Unknown \<Rightarrow> [Normal] | Override \<Rightarrow> [Override, Normal] | TopMenu \<Rightarrow> [TopMenu, Dock]
      | Utility \<Rightarrow> [Utility, Dialog] | Splash \<Rightarrow> [Splash, Dock]
      | OnScreenDisplay \<Rightarrow> [OnScreenDisplay, Notification]
      | CriticalNotification \<Rightarrow> [CriticalNotification, Notification]
      | _ \<Rightarrow> [t])"
  by (cases t)
    (simp_all add: types_of_def type_len_def List.map_filter_def type_read_def numeral_2_eq_2)

end
