(* ===== verification/WinUpdate.thy ===== *)
theory WinUpdate
  imports WinIcons WinTables RootUpdate
begin

text \<open>
  \<^verbatim>\<open>NETWinInfo::update\<close>: the requests for the dirty properties, one function for each
  block of the second pass, and the two passes composed the way the code composes them.  Two
  blocks take two replies: the frame extents, where the old KDE property is the fallback, and the
  blocking of compositing.
\<close>

section \<open>First pass: the requests\<close>

definition win_get :: "atom_env \<Rightarrow> win_info \<Rightarrow> xatom \<Rightarrow> xatom \<Rightarrow> nat \<Rightarrow> get_property" where
  "win_get at p property type len = GetProperty (wi_window p) (at property) (at type) 0 len"

text \<open>The five properties that come from \<^verbatim>\<open>WM_HINTS\<close>.\<close>

definition wm_hints_flags :: u32 where
  "wm_hints_flags =
     or_all (map prop2_flag [WM2GroupLeader, WM2Urgency, WM2Input, WM2InitialMappingState, WM2IconPixmap])"

definition win_requests :: "atom_env \<Rightarrow> win_info \<Rightarrow> u32 \<Rightarrow> u32 \<Rightarrow> get_property list" where
  "win_requests at p dirty dirty2 =
     (if hasf dirty (prop_flag XAWMState)
      then [win_get at p (Kws WM_STATE) (Kws WM_STATE) 1] else []) @
     (if hasf dirty (prop_flag WMState)
      then [win_get at p (Kws NET_WM_STATE) XaAtom 2048] else []) @
     (if hasf dirty (prop_flag WMDesktop)
      then [win_get at p (Kws NET_WM_DESKTOP) XaCardinal 1] else []) @
     (if hasf dirty (prop_flag WMName)
      then [win_get at p (Kws NET_WM_NAME) (Kws UTF8_STRING) MAX_PROP_SIZE] else []) @
     (if hasf dirty (prop_flag WMVisibleName)
      then [win_get at p (Kws NET_WM_VISIBLE_NAME) (Kws UTF8_STRING) MAX_PROP_SIZE] else []) @
     (if hasf dirty (prop_flag WMIconName)
      then [win_get at p (Kws NET_WM_ICON_NAME) (Kws UTF8_STRING) MAX_PROP_SIZE] else []) @
     (if hasf dirty (prop_flag WMVisibleIconName)
      then [win_get at p (Kws NET_WM_VISIBLE_ICON_NAME) (Kws UTF8_STRING) MAX_PROP_SIZE] else []) @
     (if hasf dirty (prop_flag WMWindowType)
      then [win_get at p (Kws NET_WM_WINDOW_TYPE) XaAtom 2048] else []) @
     (if hasf dirty (prop_flag WMStrut)
      then [win_get at p (Kws NET_WM_STRUT) XaCardinal 4] else []) @
     (if hasf dirty2 (prop2_flag WM2ExtendedStrut)
      then [win_get at p (Kws NET_WM_STRUT_PARTIAL) XaCardinal 12] else []) @
     (if hasf dirty2 (prop2_flag WM2FullscreenMonitors)
      then [win_get at p (Kws NET_WM_FULLSCREEN_MONITORS) XaCardinal 4] else []) @
     (if hasf dirty (prop_flag WMIconGeometry)
      then [win_get at p (Kws NET_WM_ICON_GEOMETRY) XaCardinal 4] else []) @
     (if hasf dirty (prop_flag WMIcon)
      then [win_get at p (Kws NET_WM_ICON) XaCardinal 0xffffffff] else []) @
     (if hasf dirty (prop_flag WMFrameExtents)
      then [win_get at p (Kws NET_FRAME_EXTENTS) XaCardinal 4,
            win_get at p (Kws KDE_NET_WM_FRAME_STRUT) XaCardinal 4] else []) @
     (if hasf dirty2 (prop2_flag WM2FrameOverlap)
      then [win_get at p (Kws NET_WM_FRAME_OVERLAP) XaCardinal 4] else []) @
     (if hasf dirty2 (prop2_flag WM2Activities)
      then [win_get at p (Kws KDE_NET_WM_ACTIVITIES) XaString MAX_PROP_SIZE] else []) @
     (if hasf dirty2 (prop2_flag WM2BlockCompositing)
      then [win_get at p (Kws KDE_NET_WM_BLOCK_COMPOSITING) XaCardinal 1,
            win_get at p (Kws NET_WM_BYPASS_COMPOSITOR) XaCardinal 1] else []) @
     (if hasf dirty (prop_flag WMPid)
      then [win_get at p (Kws NET_WM_PID) XaCardinal 1] else []) @
     (if hasf dirty2 (prop2_flag WM2StartupId)
      then [win_get at p (Kws NET_STARTUP_ID) (Kws UTF8_STRING) MAX_PROP_SIZE] else []) @
     (if hasf dirty2 (prop2_flag WM2Opacity)
      then [win_get at p (Kws NET_WM_WINDOW_OPACITY) XaCardinal 1] else []) @
     (if hasf dirty2 (prop2_flag WM2AllowedActions)
      then [win_get at p (Kws NET_WM_ALLOWED_ACTIONS) XaAtom 2048] else []) @
     (if hasf dirty2 (prop2_flag WM2UserTime)
      then [win_get at p (Kws NET_WM_USER_TIME) XaCardinal 1] else []) @
     (if hasf dirty2 (prop2_flag WM2TransientFor)
      then [win_get at p XaWmTransientFor XaWindow 1] else []) @
     (if hasf dirty2 wm_hints_flags
      then [win_get at p XaWmHints XaWmHints 9] else []) @
     (if hasf dirty2 (prop2_flag WM2WindowClass)
      then [win_get at p XaWmClass XaString MAX_PROP_SIZE] else []) @
     (if hasf dirty2 (prop2_flag WM2WindowRole)
      then [win_get at p (Kws WM_WINDOW_ROLE) XaString MAX_PROP_SIZE] else []) @
     (if hasf dirty2 (prop2_flag WM2ClientMachine)
      then [win_get at p XaWmClientMachine XaString MAX_PROP_SIZE] else []) @
     (if hasf dirty2 (prop2_flag WM2Protocols)
      then [win_get at p (Kws WM_PROTOCOLS) XaAtom 2048] else []) @
     (if hasf dirty2 (prop2_flag WM2OpaqueRegion)
      then [win_get at p (Kws NET_WM_OPAQUE_REGION) XaCardinal MAX_PROP_SIZE] else []) @
     (if hasf dirty2 (prop2_flag WM2DesktopFileName)
      then [win_get at p (Kws KDE_NET_WM_DESKTOP_FILE) (Kws UTF8_STRING) MAX_PROP_SIZE] else []) @
     (if hasf dirty2 (prop2_flag WM2GTKApplicationId)
      then [win_get at p (Kws GTK_APPLICATION_ID) (Kws UTF8_STRING) MAX_PROP_SIZE] else []) @
     (if hasf dirty2 (prop2_flag WM2GTKFrameExtents)
      then [win_get at p (Kws GTK_FRAME_EXTENTS) XaCardinal 4] else []) @
     (if hasf dirty2 (prop2_flag WM2AppMenuObjectPath)
      then [win_get at p (Kws KDE_NET_WM_APPMENU_OBJECT_PATH) XaString MAX_PROP_SIZE] else []) @
     (if hasf dirty2 (prop2_flag WM2AppMenuServiceName)
      then [win_get at p (Kws KDE_NET_WM_APPMENU_SERVICE_NAME) XaString MAX_PROP_SIZE] else [])"

section \<open>Second pass: single values\<close>

definition mapping_state_of :: "u32 \<Rightarrow> mapping_state" where
  "mapping_state_of w = (if w = 3 then Iconic else if w = 1 then Visible else Withdrawn)"

definition read_wm_state :: "atom_env \<Rightarrow> xreply option \<Rightarrow> win_info \<Rightarrow> win_info" where
  "read_wm_state at reply p =
     (let (state, success) = get_value_reply reply (at (Kws WM_STATE)) 0
      in if success
         then p\<lparr>wi_mapping_state := mapping_state_of state, wi_mapping_state_dirty := False\<rparr>
         else p\<lparr>wi_mapping_state := Withdrawn\<rparr>)"

definition read_desktop :: "atom_env \<Rightarrow> xreply option \<Rightarrow> win_info \<Rightarrow> win_info" where
  "read_desktop at reply p =
     (let (desktop, success) = get_value_reply reply (at XaCardinal) 0
      in p\<lparr>wi_desktop := (if success
             then (if desktop \<noteq> 0xffffffff then desktop + 1 else OnAllDesktops) else 0)\<rparr>)"

definition read_pid :: "atom_env \<Rightarrow> xreply option \<Rightarrow> win_info \<Rightarrow> win_info" where
  "read_pid at reply p = p\<lparr>wi_pid := fst (get_value_reply reply (at XaCardinal) 0)\<rparr>"

definition read_opacity :: "atom_env \<Rightarrow> xreply option \<Rightarrow> win_info \<Rightarrow> win_info" where
  "read_opacity at reply p =
     p\<lparr>wi_opacity := ucast (fst (get_value_reply reply (at XaCardinal) 0xffffffff))\<rparr>"

definition read_user_time :: "atom_env \<Rightarrow> xreply option \<Rightarrow> win_info \<Rightarrow> win_info" where
  "read_user_time at reply p =
     (let (value, success) = get_value_reply reply (at XaCardinal) 0
      in p\<lparr>wi_user_time := (if success then value else - 1)\<rparr>)"

definition read_transient_for :: "atom_env \<Rightarrow> xreply option \<Rightarrow> win_info \<Rightarrow> win_info" where
  "read_transient_for at reply p =
     p\<lparr>wi_transient_for := fst (get_value_reply reply (at XaWindow) 0)\<rparr>"

definition read_block_compositing ::
  "atom_env \<Rightarrow> xreply option \<Rightarrow> xreply option \<Rightarrow> win_info \<Rightarrow> win_info" where
  "read_block_compositing at reply reply' p =
     (let (data, success) = get_value_reply reply (at XaCardinal) 0;
          b1 = (success \<and> data \<noteq> 0);
          (data', success') = get_value_reply reply' (at XaCardinal) 0;
          b2 = (if success' then (if data' = 1 then True else if data' = 2 then False else b1) else b1)
      in p\<lparr>wi_blockCompositing := b2\<rparr>)"

section \<open>Second pass: texts\<close>

definition text_of :: "string \<Rightarrow> cstr" where
  "text_of str = (if length str > 0 then nstrndup str (length str) else None)"

definition read_name :: "atom_env \<Rightarrow> xreply option \<Rightarrow> win_info \<Rightarrow> win_info" where
  "read_name at reply p = p\<lparr>wi_name := text_of (get_string_reply reply (at (Kws UTF8_STRING)))\<rparr>"

definition read_visible_name :: "atom_env \<Rightarrow> xreply option \<Rightarrow> win_info \<Rightarrow> win_info" where
  "read_visible_name at reply p =
     p\<lparr>wi_visible_name := text_of (get_string_reply reply (at (Kws UTF8_STRING)))\<rparr>"

definition read_icon_name :: "atom_env \<Rightarrow> xreply option \<Rightarrow> win_info \<Rightarrow> win_info" where
  "read_icon_name at reply p =
     p\<lparr>wi_icon_name := text_of (get_string_reply reply (at (Kws UTF8_STRING)))\<rparr>"

definition read_visible_icon_name :: "atom_env \<Rightarrow> xreply option \<Rightarrow> win_info \<Rightarrow> win_info" where
  "read_visible_icon_name at reply p =
     p\<lparr>wi_visible_icon_name := text_of (get_string_reply reply (at (Kws UTF8_STRING)))\<rparr>"

definition read_activities :: "atom_env \<Rightarrow> xreply option \<Rightarrow> win_info \<Rightarrow> win_info" where
  "read_activities at reply p =
     p\<lparr>wi_activities := text_of (get_string_reply reply (at XaString))\<rparr>"

definition read_startup_id :: "atom_env \<Rightarrow> xreply option \<Rightarrow> win_info \<Rightarrow> win_info" where
  "read_startup_id at reply p =
     p\<lparr>wi_startup_id := text_of (get_string_reply reply (at (Kws UTF8_STRING)))\<rparr>"

definition read_window_role :: "atom_env \<Rightarrow> xreply option \<Rightarrow> win_info \<Rightarrow> win_info" where
  "read_window_role at reply p =
     p\<lparr>wi_window_role := text_of (get_string_reply reply (at XaString))\<rparr>"

definition read_client_machine :: "atom_env \<Rightarrow> xreply option \<Rightarrow> win_info \<Rightarrow> win_info" where
  "read_client_machine at reply p =
     p\<lparr>wi_client_machine := text_of (get_string_reply reply (at XaString))\<rparr>"

definition read_desktop_file :: "atom_env \<Rightarrow> xreply option \<Rightarrow> win_info \<Rightarrow> win_info" where
  "read_desktop_file at reply p =
     p\<lparr>wi_desktop_file := text_of (get_string_reply reply (at (Kws UTF8_STRING)))\<rparr>"

definition read_gtk_application_id :: "atom_env \<Rightarrow> xreply option \<Rightarrow> win_info \<Rightarrow> win_info" where
  "read_gtk_application_id at reply p =
     p\<lparr>wi_gtk_application_id := text_of (get_string_reply reply (at (Kws UTF8_STRING)))\<rparr>"

definition read_appmenu_object_path :: "atom_env \<Rightarrow> xreply option \<Rightarrow> win_info \<Rightarrow> win_info" where
  "read_appmenu_object_path at reply p =
     p\<lparr>wi_appmenu_object_path := text_of (get_string_reply reply (at XaString))\<rparr>"

definition read_appmenu_service_name :: "atom_env \<Rightarrow> xreply option \<Rightarrow> win_info \<Rightarrow> win_info" where
  "read_appmenu_service_name at reply p =
     p\<lparr>wi_appmenu_service_name := text_of (get_string_reply reply (at XaString))\<rparr>"

text \<open>A client with a single class string gets it for both parts.\<close>

definition read_window_class :: "atom_env \<Rightarrow> xreply option \<Rightarrow> win_info \<Rightarrow> win_info" where
  "read_window_class at reply p =
     (let p1 = p\<lparr>wi_class_name := None, wi_class_class := None\<rparr>;
          list = get_stringlist_reply reply (at XaString)
      in if length list = 2
         then p1\<lparr>wi_class_name := Some (list ! 0), wi_class_class := Some (list ! 1)\<rparr>
         else if length list = 1
         then p1\<lparr>wi_class_name := Some (list ! 0), wi_class_class := Some (list ! 0)\<rparr>
         else p1)"

section \<open>Second pass: arrays\<close>

definition strut_of :: "u32 list \<Rightarrow> net_strut" where
  "strut_of data =
     (if length data = 4
      then \<lparr>strut_left = data ! 0, strut_right = data ! 1, strut_top = data ! 2,
            strut_bottom = data ! 3\<rparr>
      else strut0)"

definition read_strut :: "atom_env \<Rightarrow> xreply option \<Rightarrow> win_info \<Rightarrow> win_info" where
  "read_strut at reply p = p\<lparr>wi_strut := strut_of (get_array_reply reply (at XaCardinal))\<rparr>"

definition read_frame_overlap :: "atom_env \<Rightarrow> xreply option \<Rightarrow> win_info \<Rightarrow> win_info" where
  "read_frame_overlap at reply p =
     p\<lparr>wi_frame_overlap := strut_of (get_array_reply reply (at XaCardinal))\<rparr>"

definition read_gtk_frame_extents :: "atom_env \<Rightarrow> xreply option \<Rightarrow> win_info \<Rightarrow> win_info" where
  "read_gtk_frame_extents at reply p =
     p\<lparr>wi_gtk_frame_extents := strut_of (get_array_reply reply (at XaCardinal))\<rparr>"

definition read_frame_extents ::
  "atom_env \<Rightarrow> xreply option \<Rightarrow> xreply option \<Rightarrow> win_info \<Rightarrow> win_info" where
  "read_frame_extents at reply reply' p =
     (let data1 = get_array_reply reply (at XaCardinal);
          data = (if data1 = [] then get_array_reply reply' (at XaCardinal) else data1)
      in p\<lparr>wi_frame_strut := strut_of data\<rparr>)"

definition read_extended_strut :: "atom_env \<Rightarrow> xreply option \<Rightarrow> win_info \<Rightarrow> win_info" where
  "read_extended_strut at reply p =
     (let data = get_array_reply reply (at XaCardinal)
      in p\<lparr>wi_extended_strut :=
             (if length data = 12
              then \<lparr>left_width = data ! 0, left_start = data ! 4, left_end = data ! 5,
                    right_width = data ! 1, right_start = data ! 6, right_end = data ! 7,
                    top_width = data ! 2, top_start = data ! 8, top_end = data ! 9,
                    bottom_width = data ! 3, bottom_start = data ! 10, bottom_end = data ! 11\<rparr>
              else extended_strut0)\<rparr>)"

definition read_fullscreen_monitors :: "atom_env \<Rightarrow> xreply option \<Rightarrow> win_info \<Rightarrow> win_info" where
  "read_fullscreen_monitors at reply p =
     (let data = get_array_reply reply (at XaCardinal)
      in p\<lparr>wi_fullscreen_monitors :=
             (if length data = 4
              then \<lparr>mon_top = data ! 0, mon_bottom = data ! 1, mon_left = data ! 2,
                    mon_right = data ! 3\<rparr>
              else fullscreen_monitors0)\<rparr>)"

definition read_icon_geometry :: "atom_env \<Rightarrow> xreply option \<Rightarrow> win_info \<Rightarrow> win_info" where
  "read_icon_geometry at reply p =
     (let data = get_array_reply reply (at XaCardinal)
      in p\<lparr>wi_icon_geom :=
             (if length data = 4
              then \<lparr>rect_pos = \<lparr>pt_x = data ! 0, pt_y = data ! 1\<rparr>,
                    rect_size = \<lparr>sz_width = data ! 2, sz_height = data ! 3\<rparr>\<rparr>
              else rect0)\<rparr>)"

definition read_icon :: "atom_env \<Rightarrow> xreply option \<Rightarrow> win_info \<Rightarrow> win_info" where
  "read_icon at reply p = (readIcon at reply p)\<lparr>wi_icon_sizes := None\<rparr>"

definition read_state :: "atom_env \<Rightarrow> xreply option \<Rightarrow> win_info \<Rightarrow> win_info" where
  "read_state at reply p =
     p\<lparr>wi_state := read_flags at state_read state_flag (get_array_reply reply (at XaAtom))\<rparr>"

definition read_allowed_actions :: "atom_env \<Rightarrow> xreply option \<Rightarrow> win_info \<Rightarrow> win_info" where
  "read_allowed_actions at reply p =
     p\<lparr>wi_allowed_actions :=
         read_flags at action_read action_flag (get_array_reply reply (at XaAtom))\<rparr>"

definition read_protocols :: "atom_env \<Rightarrow> xreply option \<Rightarrow> win_info \<Rightarrow> win_info" where
  "read_protocols at reply p =
     p\<lparr>wi_protocols :=
         read_flags at protocol_read protocol_flag (get_array_reply reply (at XaAtom))\<rparr>"

text \<open>Known types are written from place 0 on, over the \<^verbatim>\<open>Unknown\<close> put there first.\<close>

definition read_types :: "atom_env \<Rightarrow> xreply option \<Rightarrow> win_info \<Rightarrow> win_info" where
  "read_types at reply p =
     (let a = rarr_write type0 (rarr_reset type0 (wi_types p)) 0 Unknown;
          types = get_array_reply reply (at XaAtom)
      in p\<lparr>wi_types := rarr_fill type0 0 (types_of at types) a,
           wi_has_net_support := (types \<noteq> [])\<rparr>)"

definition read_opaque_region :: "atom_env \<Rightarrow> xreply option \<Rightarrow> win_info \<Rightarrow> win_info" where
  "read_opaque_region at reply p =
     p\<lparr>wi_opaqueRegion := rects_of (get_array_reply reply (at XaCardinal))\<rparr>"

text \<open>
  The words of \<^verbatim>\<open>kde_wm_hints\<close>: flags, input, initial\_state, icon\_pixmap,
  icon\_window, icon\_x, icon\_y, icon\_mask, window\_group.  What the flags do not cover keeps its
  old value.
\<close>

definition apply_hints :: "u32 list \<Rightarrow> win_info \<Rightarrow> win_info" where
  "apply_hints h p =
     (let flags = h ! 0;
          p1 = (if bit flags 0 then p\<lparr>wi_input := (h ! 1 \<noteq> 0)\<rparr> else p);
          p2 = (if bit flags 1 then p1\<lparr>wi_initialMappingState := mapping_state_of (h ! 2)\<rparr> else p1);
          p3 = (if bit flags 2 then p2\<lparr>wi_icon_pixmap := h ! 3\<rparr> else p2);
          p4 = (if bit flags 5 then p3\<lparr>wi_icon_mask := h ! 7\<rparr> else p3);
          p5 = (if bit flags 6 then p4\<lparr>wi_window_group := h ! 8\<rparr> else p4)
      in p5\<lparr>wi_urgency := bit flags 8\<rparr>)"

definition read_wm_hints :: "atom_env \<Rightarrow> xreply option \<Rightarrow> win_info \<Rightarrow> win_info" where
  "read_wm_hints at reply p =
     (case reply of
        None \<Rightarrow> p
      | Some r \<Rightarrow>
          (case reply_value r of
             V32 h \<Rightarrow> (if length h = 9 \<and> reply_type r = at XaWmHints then apply_hints h p else p)
           | _ \<Rightarrow> p))"

section \<open>The two passes\<close>

definition win_blocks :: "atom_env \<Rightarrow> u32 \<Rightarrow> u32 \<Rightarrow> win_info block list" where
  "win_blocks at dirty dirty2 =
     [read_if (hasf dirty (prop_flag XAWMState)) (read_wm_state at),
      read_if (hasf dirty (prop_flag WMState)) (read_state at),
      read_if (hasf dirty (prop_flag WMDesktop)) (read_desktop at),
      read_if (hasf dirty (prop_flag WMName)) (read_name at),
      read_if (hasf dirty (prop_flag WMVisibleName)) (read_visible_name at),
      read_if (hasf dirty (prop_flag WMIconName)) (read_icon_name at),
      read_if (hasf dirty (prop_flag WMVisibleIconName)) (read_visible_icon_name at),
      read_if (hasf dirty (prop_flag WMWindowType)) (read_types at),
      read_if (hasf dirty (prop_flag WMStrut)) (read_strut at),
      read_if (hasf dirty2 (prop2_flag WM2ExtendedStrut)) (read_extended_strut at),
      read_if (hasf dirty2 (prop2_flag WM2FullscreenMonitors)) (read_fullscreen_monitors at),
      read_if (hasf dirty (prop_flag WMIconGeometry)) (read_icon_geometry at),
      read_if (hasf dirty (prop_flag WMIcon)) (read_icon at),
      read_two_if (hasf dirty (prop_flag WMFrameExtents)) (read_frame_extents at),
      read_if (hasf dirty2 (prop2_flag WM2FrameOverlap)) (read_frame_overlap at),
      read_if (hasf dirty2 (prop2_flag WM2Activities)) (read_activities at),
      read_two_if (hasf dirty2 (prop2_flag WM2BlockCompositing)) (read_block_compositing at),
      read_if (hasf dirty (prop_flag WMPid)) (read_pid at),
      read_if (hasf dirty2 (prop2_flag WM2StartupId)) (read_startup_id at),
      read_if (hasf dirty2 (prop2_flag WM2Opacity)) (read_opacity at),
      read_if (hasf dirty2 (prop2_flag WM2AllowedActions)) (read_allowed_actions at),
      read_if (hasf dirty2 (prop2_flag WM2UserTime)) (read_user_time at),
      read_if (hasf dirty2 (prop2_flag WM2TransientFor)) (read_transient_for at),
      read_if (hasf dirty2 wm_hints_flags) (read_wm_hints at),
      read_if (hasf dirty2 (prop2_flag WM2WindowClass)) (read_window_class at),
      read_if (hasf dirty2 (prop2_flag WM2WindowRole)) (read_window_role at),
      read_if (hasf dirty2 (prop2_flag WM2ClientMachine)) (read_client_machine at),
      read_if (hasf dirty2 (prop2_flag WM2Protocols)) (read_protocols at),
      read_if (hasf dirty2 (prop2_flag WM2OpaqueRegion)) (read_opaque_region at),
      read_if (hasf dirty2 (prop2_flag WM2DesktopFileName)) (read_desktop_file at),
      read_if (hasf dirty2 (prop2_flag WM2GTKApplicationId)) (read_gtk_application_id at),
      read_if (hasf dirty2 (prop2_flag WM2GTKFrameExtents)) (read_gtk_frame_extents at),
      read_if (hasf dirty2 (prop2_flag WM2AppMenuObjectPath)) (read_appmenu_object_path at),
      read_if (hasf dirty2 (prop2_flag WM2AppMenuServiceName)) (read_appmenu_service_name at)]"

text \<open>\<^verbatim>\<open>WM_STATE\<close> is read whenever it is asked for, whatever the object watches.\<close>

definition win_dirty :: "win_info \<Rightarrow> u32 \<Rightarrow> u32" where
  "win_dirty p dirtyProperties =
     (let dirty = dirtyProperties AND wi_properties p
      in if hasf dirtyProperties (prop_flag XAWMState) then dirty OR prop_flag XAWMState else dirty)"

definition win_update :: "atom_env \<Rightarrow> server \<Rightarrow> win_info \<Rightarrow> u32 \<Rightarrow> u32 \<Rightarrow> win_info" where
  "win_update at srv p dirtyProperties dirtyProperties2 =
     (let dirty = win_dirty p dirtyProperties;
          dirty2 = dirtyProperties2 AND wi_properties2 p;
          cookies = win_requests at p dirty dirty2
      in run_blocks (win_blocks at dirty dirty2) srv cookies p)"

definition updateWMState :: "atom_env \<Rightarrow> server \<Rightarrow> win_info \<Rightarrow> win_info" where
  "updateWMState at srv p = win_update at srv p (prop_flag XAWMState) 0"

text \<open>The complete constructor.\<close>

definition NETWinInfo ::
  "atom_env \<Rightarrow> server \<Rightarrow> u32 \<Rightarrow> u32 \<Rightarrow> u32 \<Rightarrow> u32 \<Rightarrow> net_role \<Rightarrow> win_info" where
  "NETWinInfo at srv window rootWindow properties properties2 role =
     win_update at srv (win_blank window rootWindow properties properties2 role) properties properties2"

section \<open>The two passes read the right replies\<close>

definition win_directs :: "atom_env \<Rightarrow> win_info \<Rightarrow> u32 \<Rightarrow> u32 \<Rightarrow> win_info direct list" where
  "win_directs at p dirty dirty2 =
     [ReadOne (hasf dirty (prop_flag XAWMState))
        (win_get at p (Kws WM_STATE) (Kws WM_STATE) 1) (read_wm_state at),
      ReadOne (hasf dirty (prop_flag WMState))
        (win_get at p (Kws NET_WM_STATE) XaAtom 2048) (read_state at),
      ReadOne (hasf dirty (prop_flag WMDesktop))
        (win_get at p (Kws NET_WM_DESKTOP) XaCardinal 1) (read_desktop at),
      ReadOne (hasf dirty (prop_flag WMName))
        (win_get at p (Kws NET_WM_NAME) (Kws UTF8_STRING) MAX_PROP_SIZE) (read_name at),
      ReadOne (hasf dirty (prop_flag WMVisibleName))
        (win_get at p (Kws NET_WM_VISIBLE_NAME) (Kws UTF8_STRING) MAX_PROP_SIZE) (read_visible_name at),
      ReadOne (hasf dirty (prop_flag WMIconName))
        (win_get at p (Kws NET_WM_ICON_NAME) (Kws UTF8_STRING) MAX_PROP_SIZE) (read_icon_name at),
      ReadOne (hasf dirty (prop_flag WMVisibleIconName))
        (win_get at p (Kws NET_WM_VISIBLE_ICON_NAME) (Kws UTF8_STRING) MAX_PROP_SIZE) (read_visible_icon_name at),
      ReadOne (hasf dirty (prop_flag WMWindowType))
        (win_get at p (Kws NET_WM_WINDOW_TYPE) XaAtom 2048) (read_types at),
      ReadOne (hasf dirty (prop_flag WMStrut))
        (win_get at p (Kws NET_WM_STRUT) XaCardinal 4) (read_strut at),
      ReadOne (hasf dirty2 (prop2_flag WM2ExtendedStrut))
        (win_get at p (Kws NET_WM_STRUT_PARTIAL) XaCardinal 12) (read_extended_strut at),
      ReadOne (hasf dirty2 (prop2_flag WM2FullscreenMonitors))
        (win_get at p (Kws NET_WM_FULLSCREEN_MONITORS) XaCardinal 4) (read_fullscreen_monitors at),
      ReadOne (hasf dirty (prop_flag WMIconGeometry))
        (win_get at p (Kws NET_WM_ICON_GEOMETRY) XaCardinal 4) (read_icon_geometry at),
      ReadOne (hasf dirty (prop_flag WMIcon))
        (win_get at p (Kws NET_WM_ICON) XaCardinal 0xffffffff) (read_icon at),
      ReadTwo (hasf dirty (prop_flag WMFrameExtents))
        (win_get at p (Kws NET_FRAME_EXTENTS) XaCardinal 4) (win_get at p (Kws KDE_NET_WM_FRAME_STRUT) XaCardinal 4) (read_frame_extents at),
      ReadOne (hasf dirty2 (prop2_flag WM2FrameOverlap))
        (win_get at p (Kws NET_WM_FRAME_OVERLAP) XaCardinal 4) (read_frame_overlap at),
      ReadOne (hasf dirty2 (prop2_flag WM2Activities))
        (win_get at p (Kws KDE_NET_WM_ACTIVITIES) XaString MAX_PROP_SIZE) (read_activities at),
      ReadTwo (hasf dirty2 (prop2_flag WM2BlockCompositing))
        (win_get at p (Kws KDE_NET_WM_BLOCK_COMPOSITING) XaCardinal 1) (win_get at p (Kws NET_WM_BYPASS_COMPOSITOR) XaCardinal 1) (read_block_compositing at),
      ReadOne (hasf dirty (prop_flag WMPid))
        (win_get at p (Kws NET_WM_PID) XaCardinal 1) (read_pid at),
      ReadOne (hasf dirty2 (prop2_flag WM2StartupId))
        (win_get at p (Kws NET_STARTUP_ID) (Kws UTF8_STRING) MAX_PROP_SIZE) (read_startup_id at),
      ReadOne (hasf dirty2 (prop2_flag WM2Opacity))
        (win_get at p (Kws NET_WM_WINDOW_OPACITY) XaCardinal 1) (read_opacity at),
      ReadOne (hasf dirty2 (prop2_flag WM2AllowedActions))
        (win_get at p (Kws NET_WM_ALLOWED_ACTIONS) XaAtom 2048) (read_allowed_actions at),
      ReadOne (hasf dirty2 (prop2_flag WM2UserTime))
        (win_get at p (Kws NET_WM_USER_TIME) XaCardinal 1) (read_user_time at),
      ReadOne (hasf dirty2 (prop2_flag WM2TransientFor))
        (win_get at p XaWmTransientFor XaWindow 1) (read_transient_for at),
      ReadOne (hasf dirty2 wm_hints_flags)
        (win_get at p XaWmHints XaWmHints 9) (read_wm_hints at),
      ReadOne (hasf dirty2 (prop2_flag WM2WindowClass))
        (win_get at p XaWmClass XaString MAX_PROP_SIZE) (read_window_class at),
      ReadOne (hasf dirty2 (prop2_flag WM2WindowRole))
        (win_get at p (Kws WM_WINDOW_ROLE) XaString MAX_PROP_SIZE) (read_window_role at),
      ReadOne (hasf dirty2 (prop2_flag WM2ClientMachine))
        (win_get at p XaWmClientMachine XaString MAX_PROP_SIZE) (read_client_machine at),
      ReadOne (hasf dirty2 (prop2_flag WM2Protocols))
        (win_get at p (Kws WM_PROTOCOLS) XaAtom 2048) (read_protocols at),
      ReadOne (hasf dirty2 (prop2_flag WM2OpaqueRegion))
        (win_get at p (Kws NET_WM_OPAQUE_REGION) XaCardinal MAX_PROP_SIZE) (read_opaque_region at),
      ReadOne (hasf dirty2 (prop2_flag WM2DesktopFileName))
        (win_get at p (Kws KDE_NET_WM_DESKTOP_FILE) (Kws UTF8_STRING) MAX_PROP_SIZE) (read_desktop_file at),
      ReadOne (hasf dirty2 (prop2_flag WM2GTKApplicationId))
        (win_get at p (Kws GTK_APPLICATION_ID) (Kws UTF8_STRING) MAX_PROP_SIZE) (read_gtk_application_id at),
      ReadOne (hasf dirty2 (prop2_flag WM2GTKFrameExtents))
        (win_get at p (Kws GTK_FRAME_EXTENTS) XaCardinal 4) (read_gtk_frame_extents at),
      ReadOne (hasf dirty2 (prop2_flag WM2AppMenuObjectPath))
        (win_get at p (Kws KDE_NET_WM_APPMENU_OBJECT_PATH) XaString MAX_PROP_SIZE) (read_appmenu_object_path at),
      ReadOne (hasf dirty2 (prop2_flag WM2AppMenuServiceName))
        (win_get at p (Kws KDE_NET_WM_APPMENU_SERVICE_NAME) XaString MAX_PROP_SIZE) (read_appmenu_service_name at)]"

definition win_update_direct :: "atom_env \<Rightarrow> server \<Rightarrow> win_info \<Rightarrow> u32 \<Rightarrow> u32 \<Rightarrow> win_info" where
  "win_update_direct at srv p dirtyProperties dirtyProperties2 =
     fold (run_direct srv)
       (win_directs at p (win_dirty p dirtyProperties) (dirtyProperties2 AND wi_properties2 p)) p"

lemma win_requests_directs:
  "win_requests at p dirty dirty2 = concat (map requests_of (win_directs at p dirty dirty2))"
  by (simp only: win_requests_def win_directs_def list.map concat.simps requests_of.simps append_Nil2)

lemma win_blocks_directs: "win_blocks at dirty dirty2 = map block_of (win_directs at p dirty dirty2)"
  by (simp only: win_blocks_def win_directs_def list.map block_of.simps)

lemma win_update_is_direct:
  "win_update at srv p props props2 = win_update_direct at srv p props props2"
  unfolding win_update_def win_update_direct_def Let_def
  by (rule run_blocks_direct [OF win_requests_directs win_blocks_directs])

text \<open>The cookies fit the array of 255.\<close>

lemma length_requests_of: "length (requests_of d) \<le> (case d of ReadOne _ _ _ \<Rightarrow> 1 | ReadTwo _ _ _ _ \<Rightarrow> 2)"
  by (cases d) simp_all

lemma length_win_requests: "length (win_requests at p dirty dirty2) \<le> 36"
proof -
  have "length (concat (map requests_of ds)) \<le>
      sum_list (map (\<lambda>d. case d of ReadOne _ _ _ \<Rightarrow> 1 | ReadTwo _ _ _ _ \<Rightarrow> 2) ds)"
    for ds :: "win_info direct list"
    by (induction ds) (auto intro: add_mono length_requests_of)
  from this [of "win_directs at p dirty dirty2"] show ?thesis
    by (simp only: win_requests_directs) (simp add: win_directs_def)
qed

lemmas win_read_defs =
  read_wm_state_def read_state_def read_desktop_def read_name_def read_visible_name_def
  read_icon_name_def read_visible_icon_name_def read_types_def read_strut_def
  read_extended_strut_def read_fullscreen_monitors_def read_icon_geometry_def read_icon_def
  read_frame_extents_def read_frame_overlap_def read_activities_def read_block_compositing_def
  read_pid_def read_startup_id_def read_opacity_def read_allowed_actions_def read_user_time_def
  read_transient_for_def read_wm_hints_def read_window_class_def read_window_role_def
  read_client_machine_def read_protocols_def read_opaque_region_def read_desktop_file_def
  read_gtk_application_id_def read_gtk_frame_extents_def read_appmenu_object_path_def
  read_appmenu_service_name_def

end
