(* ===== verification/WinState.thy ===== *)
theory WinState
  imports WinUpdate RootEvent
begin

text \<open>
  The operations of \<^verbatim>\<open>NETWinInfo\<close> that look at a property before they act,
  \<^verbatim>\<open>setState\<close> and \<^verbatim>\<open>setDesktop\<close>, and the event handler.  A client of a
  managed window asks the window manager with messages; otherwise the property is written.  The
  last section proves what a window manager makes of the messages a client sends.
\<close>

section \<open>Setting the desktop\<close>

definition refresh_wm_state :: "atom_env \<Rightarrow> server \<Rightarrow> win_info \<Rightarrow> win_info" where
  "refresh_wm_state at srv p = (if wi_mapping_state_dirty p then updateWMState at srv p else p)"

definition desktop_word :: "i32 \<Rightarrow> u32" where
  "desktop_word desktop = (if desktop = OnAllDesktops then 0xffffffff else desktop - 1)"

definition setDesktop ::
  "atom_env \<Rightarrow> server \<Rightarrow> bool \<Rightarrow> win_info \<Rightarrow> i32 \<Rightarrow> bool \<Rightarrow> win_step" where
  "setDesktop at srv mapViewport p0 desktop ignore_viewport =
     (let p = refresh_wm_state at srv p0
      in if wi_role p = Client \<and> wi_mapping_state p \<noteq> Withdrawn then
           (if desktop = 0 then (p, [])
            else if \<not> ignore_viewport \<and> mapViewport
            then (p, [ForwardOnDesktop (wi_window p) desktop])
            else (p, [win_message at p NET_WM_DESKTOP [desktop_word desktop, 0, 0, 0, 0]]))
         else
           (p\<lparr>wi_desktop := desktop\<rparr>,
            [if desktop = 0 then win_delete p (at (Kws NET_WM_DESKTOP))
             else card1 at p NET_WM_DESKTOP (desktop_word desktop)]))"

section \<open>Setting the state\<close>

text \<open>
  One message about \<open>flag\<close> for every atom it has, if the wish differs from the state.
\<close>

definition state_message :: "atom_env \<Rightarrow> win_info \<Rightarrow> bool \<Rightarrow> u32 \<Rightarrow> u32 \<Rightarrow> win_effect" where
  "state_message at p on atom1 atom2 =
     win_message at p NET_WM_STATE [if on then 1 else 0, atom1, atom2, 0, 0]"

definition state_request ::
  "atom_env \<Rightarrow> win_info \<Rightarrow> u32 \<Rightarrow> u32 \<Rightarrow> net_state \<Rightarrow> kws_atom list \<Rightarrow> win_effect list" where
  "state_request at p state msk f atoms =
     (if hasf msk (state_flag f) \<and> wi_state p AND state_flag f \<noteq> state AND state_flag f
      then map (\<lambda>a. state_message at p (hasf state (state_flag f)) (at (Kws a)) 0) atoms
      else [])"

text \<open>Both maximised directions go into one message when they change in the same way.\<close>

definition max_request :: "atom_env \<Rightarrow> win_info \<Rightarrow> u32 \<Rightarrow> u32 \<Rightarrow> win_effect list" where
  "max_request at p state msk =
     (let Max = state_flag MaxBoth; H = state_flag MaxHoriz; V = state_flag MaxVert;
          atomH = at (Kws NET_WM_STATE_MAXIMIZED_HORZ); atomV = at (Kws NET_WM_STATE_MAXIMIZED_VERT)
      in if hasf msk Max \<and> (wi_state p AND msk) AND Max \<noteq> state AND Max then
           (let wish = (wi_state p AND NOT msk) OR (state AND msk)
            in if wish AND H \<noteq> wi_state p AND H \<and> wish AND V \<noteq> wi_state p AND V then
                 (if wish AND Max = Max then [state_message at p True atomH atomV]
                  else if wish AND Max = 0 then [state_message at p False atomH atomV]
                  else [state_message at p (hasf wish H) atomH 0, state_message at p (hasf wish V) atomV 0])
               else if wish AND V \<noteq> wi_state p AND V then [state_message at p (hasf wish V) atomV 0]
               else if wish AND H \<noteq> wi_state p AND H then [state_message at p (hasf wish H) atomH 0]
               else [])
         else [])"

definition state_requests :: "atom_env \<Rightarrow> win_info \<Rightarrow> u32 \<Rightarrow> u32 \<Rightarrow> win_effect list" where
  "state_requests at p state msk =
     (let ask = state_request at p state msk in
      ask Modal [NET_WM_STATE_MODAL] @
      ask Sticky [NET_WM_STATE_STICKY] @
      max_request at p state msk @
      ask Shaded [NET_WM_STATE_SHADED] @
      ask SkipTaskbar [NET_WM_STATE_SKIP_TASKBAR] @
      ask SkipPager [NET_WM_STATE_SKIP_PAGER] @
      ask SkipSwitcher [KDE_NET_WM_STATE_SKIP_SWITCHER] @
      ask Hidden [NET_WM_STATE_HIDDEN] @
      ask FullScreen [NET_WM_STATE_FULLSCREEN] @
      ask KeepAbove [NET_WM_STATE_ABOVE, NET_WM_STATE_STAYS_ON_TOP] @
      ask KeepBelow [NET_WM_STATE_BELOW] @
      ask DemandsAttention [NET_WM_STATE_DEMANDS_ATTENTION])"

text \<open>The state is read even if the object does not watch it.\<close>

definition refresh_state :: "atom_env \<Rightarrow> server \<Rightarrow> win_info \<Rightarrow> win_info" where
  "refresh_state at srv p =
     (if \<not> hasf (wi_properties p) (prop_flag WMState)
      then (let p1 = p\<lparr>wi_properties := wi_properties p OR prop_flag WMState\<rparr>;
                p2 = win_update at srv p1 (prop_flag WMState) 0
            in p2\<lparr>wi_properties := wi_properties p2 AND NOT (prop_flag WMState)\<rparr>)
      else p)"

definition setState :: "atom_env \<Rightarrow> server \<Rightarrow> win_info \<Rightarrow> u32 \<Rightarrow> u32 \<Rightarrow> win_step" where
  "setState at srv p0 state msk =
     (let p = refresh_state at srv (refresh_wm_state at srv p0)
      in if wi_role p = Client \<and> wi_mapping_state p \<noteq> Withdrawn
         then (p, state_requests at p state msk)
         else
           (let state' = (wi_state p AND NOT msk) OR state
            in (p\<lparr>wi_state := state'\<rparr>,
                [win_change p (at (Kws NET_WM_STATE)) (at XaAtom)
                   (V32 (map (\<lambda>a. at (Kws a)) (flag_atoms state_written state_flag state')))])))"

section \<open>Events\<close>

text \<open>
  The arms of the handler for client messages: (dirty, dirty2, calls).  A state message carries
  0 (remove), 1 (add) or 2 (toggle) and up to two states.
\<close>

definition win_client_message ::
  "atom_env \<Rightarrow> win_info \<Rightarrow> u32 \<Rightarrow> u32 list \<Rightarrow> u32 \<times> u32 \<times> win_hook list" where
  "win_client_message at p type d =
     (if type = at (Kws NET_WM_STATE) then
        (let msk = read_flags at state_message_read state_flag [d ! 1, d ! 2];
             state = (if d ! 0 = 1 then msk
                      else if d ! 0 = 2 then (wi_state p AND msk) XOR msk else 0)
         in (prop_flag WMState, 0, [ChangeState state msk]))
      else if type = at (Kws NET_WM_DESKTOP) then
        (prop_flag WMDesktop, 0,
         [ChangeDesktop (if d ! 0 = OnAllDesktops then OnAllDesktops else d ! 0 + 1)])
      else if type = at (Kws NET_WM_FULLSCREEN_MONITORS) then
        (0, prop2_flag WM2FullscreenMonitors,
         [ChangeFullscreenMonitors
            \<lparr>mon_top = d ! 0, mon_bottom = d ! 1, mon_left = d ! 2, mon_right = d ! 3\<rparr>])
      else (0, 0, []))"

definition win_notify_table :: "(xatom \<times> u32 \<times> u32) list" where
  "win_notify_table = [
     (Kws NET_WM_NAME, prop_flag WMName, 0),
     (Kws NET_WM_VISIBLE_NAME, prop_flag WMVisibleName, 0),
     (Kws NET_WM_DESKTOP, prop_flag WMDesktop, 0),
     (Kws NET_WM_WINDOW_TYPE, prop_flag WMWindowType, 0),
     (Kws NET_WM_STATE, prop_flag WMState, 0),
     (Kws NET_WM_STRUT, prop_flag WMStrut, 0),
     (Kws NET_WM_STRUT_PARTIAL, 0, prop2_flag WM2ExtendedStrut),
     (Kws NET_WM_ICON_GEOMETRY, prop_flag WMIconGeometry, 0),
     (Kws NET_WM_ICON, prop_flag WMIcon, 0),
     (Kws NET_WM_PID, prop_flag WMPid, 0),
     (Kws NET_WM_HANDLED_ICONS, prop_flag WMHandledIcons, 0),
     (Kws NET_STARTUP_ID, 0, prop2_flag WM2StartupId),
     (Kws NET_WM_WINDOW_OPACITY, 0, prop2_flag WM2Opacity),
     (Kws NET_WM_ALLOWED_ACTIONS, 0, prop2_flag WM2AllowedActions),
     (Kws WM_STATE, prop_flag XAWMState, 0),
     (Kws NET_FRAME_EXTENTS, prop_flag WMFrameExtents, 0),
     (Kws KDE_NET_WM_FRAME_STRUT, prop_flag WMFrameExtents, 0),
     (Kws NET_WM_FRAME_OVERLAP, 0, prop2_flag WM2FrameOverlap),
     (Kws NET_WM_ICON_NAME, prop_flag WMIconName, 0),
     (Kws NET_WM_VISIBLE_ICON_NAME, prop_flag WMVisibleIconName, 0),
     (Kws NET_WM_USER_TIME, 0, prop2_flag WM2UserTime),
     (XaWmHints, 0, or_all (map prop2_flag
        [WM2GroupLeader, WM2Urgency, WM2Input, WM2InitialMappingState, WM2IconPixmap])),
     (XaWmTransientFor, 0, prop2_flag WM2TransientFor),
     (XaWmClass, 0, prop2_flag WM2WindowClass),
     (Kws WM_WINDOW_ROLE, 0, prop2_flag WM2WindowRole),
     (XaWmClientMachine, 0, prop2_flag WM2ClientMachine),
     (Kws KDE_NET_WM_ACTIVITIES, 0, prop2_flag WM2Activities),
     (Kws KDE_NET_WM_BLOCK_COMPOSITING, 0, prop2_flag WM2BlockCompositing),
     (Kws NET_WM_BYPASS_COMPOSITOR, 0, prop2_flag WM2BlockCompositing),
     (Kws KDE_NET_WM_SHADOW, 0, prop2_flag WM2KDEShadow),
     (Kws WM_PROTOCOLS, 0, prop2_flag WM2Protocols),
     (Kws NET_WM_OPAQUE_REGION, 0, prop2_flag WM2OpaqueRegion),
     (Kws KDE_NET_WM_DESKTOP_FILE, 0, prop2_flag WM2DesktopFileName),
     (Kws GTK_APPLICATION_ID, 0, prop2_flag WM2GTKApplicationId),
     (Kws NET_WM_FULLSCREEN_MONITORS, 0, prop2_flag WM2FullscreenMonitors),
     (Kws GTK_FRAME_EXTENTS, 0, prop2_flag WM2GTKFrameExtents),
     (Kws GTK_SHOW_WINDOW_MENU, 0, prop2_flag WM2GTKShowWindowMenu),
     (Kws KDE_NET_WM_APPMENU_SERVICE_NAME, 0, prop2_flag WM2AppMenuServiceName),
     (Kws KDE_NET_WM_APPMENU_OBJECT_PATH, 0, prop2_flag WM2AppMenuObjectPath)]"

fun first_xmatch :: "atom_env \<Rightarrow> (xatom \<times> 'f) list \<Rightarrow> u32 \<Rightarrow> 'f option" where
  "first_xmatch at [] x = None"
| "first_xmatch at ((a, f) # table) x = (if x = at a then Some f else first_xmatch at table x)"

definition win_notify :: "atom_env \<Rightarrow> u32 \<Rightarrow> u32 \<times> u32" where
  "win_notify at atom =
     (case first_xmatch at win_notify_table atom of None \<Rightarrow> (0, 0) | Some d \<Rightarrow> d)"

text \<open>The result: the new data, the calls, and the changed properties the caller is told of.\<close>

fun win_event :: "atom_env \<Rightarrow> server \<Rightarrow> win_info \<Rightarrow> xevent \<Rightarrow> win_step \<times> u32 \<times> u32" where
  "win_event at srv p (ClientMessage format window type data) =
     (if wi_role p = WindowManager \<and> format = 32 then
        (let (dirty, dirty2, hooks) = win_client_message at p type data
         in ((p, map WinHook hooks), dirty, dirty2))
      else ((p, []), 0, 0))"
| "win_event at srv p (PropertyNotify atom) =
     (let (dirty, dirty2) = win_notify at atom
      in ((win_update at srv p dirty dirty2, []), dirty, dirty2))"
| "win_event at srv p (ConfigureNotify x y width height) =
     ((p\<lparr>wi_win_geom := \<lparr>rect_pos = \<lparr>pt_x = scast x, pt_y = scast y\<rparr>,
         rect_size = \<lparr>sz_width = ucast width, sz_height = ucast height\<rparr>\<rparr>\<rparr>, []),
      prop_flag WMGeometry, 0)"
| "win_event at srv p OtherEvent = ((p, []), 0, 0)"

end
