(* ===== verification/WinStateProtocol.thy ===== *)
theory WinStateProtocol
  imports WinState
begin

text \<open>
  The two ends of the state protocol: what a window manager that honours every
  \<^verbatim>\<open>changeState\<close> call makes of the messages of a client's \<^verbatim>\<open>setState\<close>, and
  what its own \<^verbatim>\<open>setState\<close> publishes.  Proofs are bit by bit: a message about a flag
  decides the bits of that flag and leaves the others.
\<close>

section \<open>The window manager's answer to messages\<close>

text \<open>The calls among the effects of a handler.\<close>

fun win_hooks :: "win_effect list \<Rightarrow> win_hook list" where
  "win_hooks [] = []"
| "win_hooks (WinHook h # es) = h # win_hooks es"
| "win_hooks (e # es) = win_hooks es"

lemma win_hooks_map [simp]: "win_hooks (map WinHook hs) = hs"
  by (induction hs) simp_all

text \<open>The calls window manager \<open>w\<close> gets for an effect of a client.\<close>

fun hears :: "atom_env \<Rightarrow> server \<Rightarrow> win_info \<Rightarrow> win_effect \<Rightarrow> win_hook list" where
  "hears at srv w (WinReq r) = win_hooks (snd (fst (win_event at srv w (delivered r))))"
| "hears at srv w _ = []"

text \<open>\<^verbatim>\<open>changeState(state, mask)\<close> as the specification has it.\<close>

fun honour :: "win_hook \<Rightarrow> u32 \<Rightarrow> u32" where
  "honour (ChangeState state msk) s = (s AND NOT msk) OR (state AND msk)"
| "honour _ s = s"

definition honour_all :: "atom_env \<Rightarrow> server \<Rightarrow> win_info \<Rightarrow> win_effect list \<Rightarrow> u32 \<Rightarrow> u32" where
  "honour_all at srv w es s = fold honour (concat (map (hears at srv w) es)) s"

lemma honour_all_simps [simp]:
  "honour_all at srv w [] s = s"
  "honour_all at srv w (es @ fs) s = honour_all at srv w fs (honour_all at srv w es s)"
  by (simp_all add: honour_all_def)

lemma honour_all_Cons: "honour_all at srv w (e # es) s = honour_all at srv w es (honour_all at srv w [e] s)"
  using honour_all_simps(2) [of at srv w "[e]" es s] by simp

section \<open>Single bits of masked words\<close>

lemma u32_eq_iff: "x = y \<longleftrightarrow> (\<forall>n < 32. bit x n = bit y n)" for x y :: u32
  by (auto intro: bit_word_eqI)

lemma and_bitflag_eq [flag_simps]:
  "k < 32 \<Longrightarrow> (x AND bitflag k = y AND bitflag k) \<longleftrightarrow> bit x k = bit y k"
  by (auto simp: u32_eq_iff bit_and_iff bit_bitflag)

lemma and_two_eq [flag_simps]:
  "j < 32 \<Longrightarrow> k < 32 \<Longrightarrow>
     (x AND (bitflag j OR bitflag k) = y AND (bitflag j OR bitflag k)) \<longleftrightarrow>
       bit x j = bit y j \<and> bit x k = bit y k"
  unfolding u32_eq_iff by (simp add: bit_and_iff bit_or_iff bit_bitflag) blast

lemma and_two_full [flag_simps]:
  "j < 32 \<Longrightarrow> k < 32 \<Longrightarrow>
     (x AND (bitflag j OR bitflag k) = bitflag j OR bitflag k) \<longleftrightarrow> bit x j \<and> bit x k"
  unfolding u32_eq_iff by (simp add: bit_and_iff bit_or_iff bit_bitflag) blast

lemma and_two_none [flag_simps]:
  "j < 32 \<Longrightarrow> k < 32 \<Longrightarrow>
     (x AND (bitflag j OR bitflag k) = 0) \<longleftrightarrow> \<not> bit x j \<and> \<not> bit x k"
  unfolding u32_eq_iff by (simp add: bit_and_iff bit_or_iff bit_bitflag) blast

section \<open>One message\<close>

lemma first_match_zero [simp]: "atoms_ok at \<Longrightarrow> first_match at table 0 = None"
  by (induction table) (auto simp: atoms_ok_def eq_commute [of 0])

text \<open>The flags a message speaks of.\<close>

definition atom_flags :: "kws_atom list \<Rightarrow> u32" where
  "atom_flags as = or_all (map (\<lambda>a. case map_of state_message_read a of
     None \<Rightarrow> 0 | Some f \<Rightarrow> state_flag f) as)"

lemma read_one_message:
  "atoms_ok at \<Longrightarrow> read_flags at state_message_read state_flag [at (Kws a), 0] = atom_flags [a]"
  by (auto simp: read_flags_def atom_flags_def split: option.split)

lemma read_two_message:
  "atoms_ok at \<Longrightarrow>
     read_flags at state_message_read state_flag [at (Kws a), at (Kws b)] = atom_flags [a, b]"
  by (auto simp: read_flags_def atom_flags_def split: option.split)

lemma bit_honour_one:
  "atoms_ok at \<Longrightarrow> wi_role w = WindowManager \<Longrightarrow> bit (honour_all at srv w [state_message at c on (at (Kws a)) 0] s) n =
     (if bit (atom_flags [a]) n then on else bit s n)"
  by (simp add: honour_all_def state_message_def win_message_def send_client_message_def
      win_client_message_def Let_def read_one_message bit_or_iff bit_and_iff bit_not_iff possible_bit_word)
    (auto dest: bit_imp_le_length)

lemma bit_honour_two:
  "atoms_ok at \<Longrightarrow> wi_role w = WindowManager \<Longrightarrow>
     bit (honour_all at srv w [state_message at c on (at (Kws a)) (at (Kws b))] s) n =
       (if bit (atom_flags [a, b]) n then on else bit s n)"
  by (simp add: honour_all_def state_message_def win_message_def send_client_message_def
      win_client_message_def Let_def read_two_message bit_or_iff bit_and_iff bit_not_iff possible_bit_word)
    (auto dest: bit_imp_le_length)

lemma bit_honour_map:
  assumes "atoms_ok at" "wi_role w = WindowManager" and "\<forall>a \<in> set as. atom_flags [a] = m"
  shows "bit (honour_all at srv w (map (\<lambda>a. state_message at c on (at (Kws a)) 0) as) s) n =
           (if as \<noteq> [] \<and> bit m n then on else bit s n)"
  using assms(3)
proof (induction as arbitrary: s)
  case Nil
  then show ?case by simp
next
  case (Cons a as)
  then show ?case
    by (subst list.map, subst honour_all_Cons) (auto simp: bit_honour_one assms(1,2))
qed

text \<open>What the wish for one flag does to bit \<open>n\<close>.\<close>

lemma bit_honour_request:
  assumes at: "atoms_ok at" "wi_role w = WindowManager" and f: "state_flag f = bitflag k" "k < 32"
    and as: "as \<noteq> []" "\<forall>a \<in> set as. map_of state_message_read a = Some f"
  shows "bit (honour_all at srv w (state_request at c state msk f as) s) n =
           (if n = k \<and> bit msk k \<and> bit (wi_state c) k \<noteq> bit state k then bit state k else bit s n)"
proof -
  have "\<forall>a \<in> set as. atom_flags [a] = bitflag k"
    using as(2) f(1) by (simp add: atom_flags_def)
  note step = bit_honour_map [OF at this]
  show ?thesis
    unfolding state_request_def f(1) using f(2) as(1)
    by (cases "n = k") (simp_all add: step flag_simps)
qed

lemma bit_honour_max:
  assumes at: "atoms_ok at" "wi_role w = WindowManager"
  shows "bit (honour_all at srv w (max_request at c state msk) s) n =
           (if (n = 2 \<or> n = 3) \<and> bit msk n \<and> bit (wi_state c) n \<noteq> bit state n
            then bit state n else bit s n)"
proof -
  have flags: "atom_flags [NET_WM_STATE_MAXIMIZED_HORZ] = bitflag 3"
    "atom_flags [NET_WM_STATE_MAXIMIZED_VERT] = bitflag 2"
    "atom_flags [NET_WM_STATE_MAXIMIZED_HORZ, NET_WM_STATE_MAXIMIZED_VERT] = bitflag 3 OR bitflag 2"
    by (simp_all add: atom_flags_def state_message_read_def)
  show ?thesis
    unfolding max_request_def Let_def
    by (cases "bit msk 2"; cases "bit msk 3"; cases "bit (wi_state c) 2"; cases "bit (wi_state c) 3";
        cases "bit state 2"; cases "bit state 3")
      (auto simp: flag_simps bit_and_iff bit_or_iff bit_not_iff possible_bit_word hasf_or
        honour_all_Cons [of _ _ _ _ "[_]"] bit_honour_one [OF at] bit_honour_two [OF at] flags)
qed

section \<open>All messages\<close>

definition settable_states :: u32 where
  "settable_states = all_states AND NOT (state_flag Focused)"

lemma bit_settable: "bit settable_states n \<longleftrightarrow> n < 13"
proof -
  have "settable_states = or_all (map bitflag [0..<13])"
    by (simp add: settable_states_def all_states_def bitflag_def upt_rec)
  then have "bit settable_states n \<longleftrightarrow> bit (or_all (map bitflag [0..<13])) n" by (rule arg_cong)
  then show ?thesis by (auto simp: bit_or_all bit_bitflag)
qed

lemma state_requests_honoured:
  assumes at: "atoms_ok at" "wi_role w = WindowManager"
  shows "honour_all at srv w (state_requests at c state msk) (wi_state c) =
           (wi_state c AND NOT (msk AND settable_states)) OR (state AND (msk AND settable_states))"
proof (rule bit_word_eqI)
  fix n
  assume n: "n < LENGTH(32)"
  note chunk = bit_honour_request [OF at]
  have "bit (honour_all at srv w (state_requests at c state msk) (wi_state c)) n =
      (if n < 13 \<and> bit msk n \<and> bit (wi_state c) n \<noteq> bit state n then bit state n
       else bit (wi_state c) n)"
  proof (cases "n < 13")
    case True
    then have "n \<in> {0, 1, 2, 3, 4, 5, 6, 7, 8, 9, 10, 11, 12}"
      unfolding insert_iff empty_iff by presburger
    with True show ?thesis
      unfolding state_requests_def Let_def honour_all_simps
      by (elim insertE emptyE) (simp_all add: chunk bit_honour_max [OF at] state_message_read_def)
  next
    case False
    then show ?thesis
      unfolding state_requests_def Let_def honour_all_simps
      by (simp add: chunk bit_honour_max [OF at] state_message_read_def)
  qed
  then show "bit (honour_all at srv w (state_requests at c state msk) (wi_state c)) n =
      bit ((wi_state c AND NOT (msk AND settable_states)) OR (state AND (msk AND settable_states))) n"
    using n by (auto simp: bit_and_iff bit_or_iff bit_not_iff possible_bit_word bit_settable)
qed

end
