(* ===== verification/WinProtocol.thy ===== *)
theory WinProtocol
  imports WinStateProtocol XServer
begin

text \<open>
  What one side writes about a window is what the other side reads: for every property with a
  setter, a second \<^verbatim>\<open>NETWinInfo\<close> that is notified of the change ends up with the value
  written.
\<close>

section \<open>What update leaves alone\<close>

lemma run_direct_frame:
  "d \<in> set (win_directs at p dirty dirty2) \<Longrightarrow>
     wi_role (run_direct srv d s) = wi_role s \<and> wi_window (run_direct srv d s) = wi_window s \<and>
     wi_root (run_direct srv d s) = wi_root s \<and>
     wi_properties (run_direct srv d s) = wi_properties s \<and>
     wi_properties2 (run_direct srv d s) = wi_properties2 s"
  by (auto simp: win_directs_def win_read_defs Let_def case_prod_beta readIcon_def apply_hints_def
      split: option.split xvalue.split)

lemma win_update_frame [simp]:
  "wi_role (win_update at srv p d1 d2) = wi_role p"
  "wi_window (win_update at srv p d1 d2) = wi_window p"
  "wi_root (win_update at srv p d1 d2) = wi_root p"
  "wi_properties (win_update at srv p d1 d2) = wi_properties p"
  "wi_properties2 (win_update at srv p d1 d2) = wi_properties2 p"
proof -
  let ?I = "\<lambda>s. wi_role s = wi_role p \<and> wi_window s = wi_window p \<and> wi_root s = wi_root p \<and>
      wi_properties s = wi_properties p \<and> wi_properties2 s = wi_properties2 p"
  have "?I (fold (run_direct srv)
      (win_directs at p (win_dirty p d1) (d2 AND wi_properties2 p)) p)"
    by (rule fold_invariant_in) (simp_all add: run_direct_frame)
  then show "wi_role (win_update at srv p d1 d2) = wi_role p"
    "wi_window (win_update at srv p d1 d2) = wi_window p"
    "wi_root (win_update at srv p d1 d2) = wi_root p"
    "wi_properties (win_update at srv p d1 d2) = wi_properties p"
    "wi_properties2 (win_update at srv p d1 d2) = wi_properties2 p"
    unfolding win_update_is_direct win_update_direct_def by blast+
qed

lemma refresh_frame [simp]:
  "wi_role (refresh_wm_state at srv p) = wi_role p"
  "wi_window (refresh_wm_state at srv p) = wi_window p"
  "wi_root (refresh_wm_state at srv p) = wi_root p"
  "wi_role (refresh_state at srv p) = wi_role p"
  "wi_window (refresh_state at srv p) = wi_window p"
  "wi_root (refresh_state at srv p) = wi_root p"
  by (simp_all add: refresh_wm_state_def updateWMState_def refresh_state_def Let_def)

section \<open>Writing\<close>

datatype win_write =
    WrName string
  | WrVisibleName string
  | WrIconName string
  | WrVisibleIconName string
  | WrStartupId string
  | WrDesktopFile string
  | WrAppMenuObjectPath string
  | WrAppMenuServiceName string
  | WrActivities string
  | WrStrut net_strut
  | WrExtendedStrut net_extended_strut
  | WrMonitors net_fullscreen_monitors
  | WrIconGeometry net_rect
  | WrFrameExtents net_strut
  | WrGtkFrameExtents net_strut
  | WrPid i32
  | WrOpacity "64 word"
  | WrUserTime u32
  | WrBlockCompositing bool
  | WrAllowedActions u32
  | WrState u32 u32
  | WrDesktop i32

fun win_publish ::
  "(i32 \<Rightarrow> i32) \<Rightarrow> atom_env \<Rightarrow> server \<Rightarrow> win_info \<Rightarrow> win_write \<Rightarrow> win_step" where
  "win_publish scale at srv p (WrName s) = setName at p (Some s)"
| "win_publish scale at srv p (WrVisibleName s) = setVisibleName at p (Some s)"
| "win_publish scale at srv p (WrIconName s) = setIconName at p (Some s)"
| "win_publish scale at srv p (WrVisibleIconName s) = setVisibleIconName at p (Some s)"
| "win_publish scale at srv p (WrStartupId s) = setStartupId at p (Some s)"
| "win_publish scale at srv p (WrDesktopFile s) = setDesktopFileName at p (Some s)"
| "win_publish scale at srv p (WrAppMenuObjectPath s) = setAppMenuObjectPath at p (Some s)"
| "win_publish scale at srv p (WrAppMenuServiceName s) = setAppMenuServiceName at p (Some s)"
| "win_publish scale at srv p (WrActivities s) = setActivities at p (Some s)"
| "win_publish scale at srv p (WrStrut s) = setStrut at p s"
| "win_publish scale at srv p (WrExtendedStrut s) = setExtendedStrut at p s"
| "win_publish scale at srv p (WrMonitors m) = setFullscreenMonitors at p m"
| "win_publish scale at srv p (WrIconGeometry g) = setIconGeometry scale at p g"
| "win_publish scale at srv p (WrFrameExtents s) = setFrameExtents at p s"
| "win_publish scale at srv p (WrGtkFrameExtents s) = setGtkFrameExtents at p s"
| "win_publish scale at srv p (WrPid n) = setPid at p n"
| "win_publish scale at srv p (WrOpacity n) = setOpacity at p n"
| "win_publish scale at srv p (WrUserTime t) = setUserTime at p t"
| "win_publish scale at srv p (WrBlockCompositing b) = setBlockingCompositing at p b"
| "win_publish scale at srv p (WrAllowedActions a) = setAllowedActions at p a"
| "win_publish scale at srv p (WrState state msk) = setState at srv p state msk"
| "win_publish scale at srv p (WrDesktop d) = setDesktop at srv False p d False"

text \<open>Who may write: the client, the window manager, or both.\<close>

fun may_write :: "net_role \<Rightarrow> win_write \<Rightarrow> bool" where
  "may_write r (WrVisibleName s) \<longleftrightarrow> r = WindowManager"
| "may_write r (WrVisibleIconName s) \<longleftrightarrow> r = WindowManager"
| "may_write r (WrMonitors m) \<longleftrightarrow> r = WindowManager"
| "may_write r (WrFrameExtents s) \<longleftrightarrow> r = WindowManager"
| "may_write r (WrAllowedActions a) \<longleftrightarrow> r = WindowManager"
| "may_write r (WrState state msk) \<longleftrightarrow> r = WindowManager"
| "may_write r (WrDesktop d) \<longleftrightarrow> r = WindowManager"
| "may_write r (WrGtkFrameExtents s) \<longleftrightarrow> True"
| "may_write r (WrOpacity n) \<longleftrightarrow> True"
| "may_write r (WrActivities s) \<longleftrightarrow> True"
| "may_write r _ \<longleftrightarrow> r = Client"

text \<open>A property whose change the reader is told of.\<close>

fun win_atom :: "win_write \<Rightarrow> kws_atom" where
  "win_atom (WrName s) = NET_WM_NAME"
| "win_atom (WrVisibleName s) = NET_WM_VISIBLE_NAME"
| "win_atom (WrIconName s) = NET_WM_ICON_NAME"
| "win_atom (WrVisibleIconName s) = NET_WM_VISIBLE_ICON_NAME"
| "win_atom (WrStartupId s) = NET_STARTUP_ID"
| "win_atom (WrDesktopFile s) = KDE_NET_WM_DESKTOP_FILE"
| "win_atom (WrAppMenuObjectPath s) = KDE_NET_WM_APPMENU_OBJECT_PATH"
| "win_atom (WrAppMenuServiceName s) = KDE_NET_WM_APPMENU_SERVICE_NAME"
| "win_atom (WrActivities s) = KDE_NET_WM_ACTIVITIES"
| "win_atom (WrStrut s) = NET_WM_STRUT"
| "win_atom (WrExtendedStrut s) = NET_WM_STRUT_PARTIAL"
| "win_atom (WrMonitors m) = NET_WM_FULLSCREEN_MONITORS"
| "win_atom (WrIconGeometry g) = NET_WM_ICON_GEOMETRY"
| "win_atom (WrFrameExtents s) = NET_FRAME_EXTENTS"
| "win_atom (WrGtkFrameExtents s) = GTK_FRAME_EXTENTS"
| "win_atom (WrPid n) = NET_WM_PID"
| "win_atom (WrOpacity n) = NET_WM_WINDOW_OPACITY"
| "win_atom (WrUserTime t) = NET_WM_USER_TIME"
| "win_atom (WrBlockCompositing b) = NET_WM_BYPASS_COMPOSITOR"
| "win_atom (WrAllowedActions a) = NET_WM_ALLOWED_ACTIONS"
| "win_atom (WrState state msk) = NET_WM_STATE"
| "win_atom (WrDesktop d) = NET_WM_DESKTOP"

text \<open>
  What the reader \<open>c\<close> holds, where \<open>p\<close> is the writer before: texts come back as null when they are
  empty, an icon geometry scaled to no width is dropped, of the states and actions those with an
  atom survive, of the opacity the low 32 bits.
\<close>

definition cstr_of :: "string \<Rightarrow> cstr" where
  "cstr_of s = (if s = [] then None else Some s)"

fun win_holds ::
  "(i32 \<Rightarrow> i32) \<Rightarrow> atom_env \<Rightarrow> server \<Rightarrow> win_info \<Rightarrow> win_info \<Rightarrow> win_write \<Rightarrow> bool" where
  "win_holds scale at srv p c (WrName s) \<longleftrightarrow> wi_name c = cstr_of s"
| "win_holds scale at srv p c (WrVisibleName s) \<longleftrightarrow> wi_visible_name c = cstr_of s"
| "win_holds scale at srv p c (WrIconName s) \<longleftrightarrow> wi_icon_name c = cstr_of s"
| "win_holds scale at srv p c (WrVisibleIconName s) \<longleftrightarrow> wi_visible_icon_name c = cstr_of s"
| "win_holds scale at srv p c (WrStartupId s) \<longleftrightarrow> wi_startup_id c = cstr_of s"
| "win_holds scale at srv p c (WrDesktopFile s) \<longleftrightarrow> wi_desktop_file c = cstr_of s"
| "win_holds scale at srv p c (WrAppMenuObjectPath s) \<longleftrightarrow> wi_appmenu_object_path c = cstr_of s"
| "win_holds scale at srv p c (WrAppMenuServiceName s) \<longleftrightarrow> wi_appmenu_service_name c = cstr_of s"
| "win_holds scale at srv p c (WrActivities s) \<longleftrightarrow>
     wi_activities c = Some (if s = [] then nulluuid else s)"
| "win_holds scale at srv p c (WrStrut s) \<longleftrightarrow> wi_strut c = s"
| "win_holds scale at srv p c (WrExtendedStrut s) \<longleftrightarrow> wi_extended_strut c = s"
| "win_holds scale at srv p c (WrMonitors m) \<longleftrightarrow> wi_fullscreen_monitors c = m"
| "win_holds scale at srv p c (WrIconGeometry g) \<longleftrightarrow>
     wi_icon_geom c =
       (if sz_width (rect_size (scale_rect scale g)) = 0 then rect0 else scale_rect scale g)"
| "win_holds scale at srv p c (WrFrameExtents s) \<longleftrightarrow> wi_frame_strut c = s"
| "win_holds scale at srv p c (WrGtkFrameExtents s) \<longleftrightarrow> wi_gtk_frame_extents c = s"
| "win_holds scale at srv p c (WrPid n) \<longleftrightarrow> wi_pid c = n"
| "win_holds scale at srv p c (WrOpacity n) \<longleftrightarrow> wi_opacity c = take_bit 32 n"
| "win_holds scale at srv p c (WrUserTime t) \<longleftrightarrow> wi_user_time c = t"
| "win_holds scale at srv p c (WrBlockCompositing b) \<longleftrightarrow> wi_blockCompositing c = b"
| "win_holds scale at srv p c (WrAllowedActions a) \<longleftrightarrow> wi_allowed_actions c = a AND all_actions"
| "win_holds scale at srv p c (WrState state msk) \<longleftrightarrow>
     wi_state c = wi_state (fst (setState at srv p state msk)) AND all_states"
| "win_holds scale at srv p c (WrDesktop d) \<longleftrightarrow> wi_desktop c = d"

text \<open>Texts are C strings no longer than the readers ask for.\<close>

definition text_fits :: "string \<Rightarrow> bool" where
  "text_fits s \<longleftrightarrow> no_nul s \<and> length s \<le> 4 * MAX_PROP_SIZE"

fun win_write_fits :: "win_write \<Rightarrow> bool" where
  "win_write_fits (WrName s) \<longleftrightarrow> text_fits s"
| "win_write_fits (WrVisibleName s) \<longleftrightarrow> text_fits s"
| "win_write_fits (WrIconName s) \<longleftrightarrow> text_fits s"
| "win_write_fits (WrVisibleIconName s) \<longleftrightarrow> text_fits s"
| "win_write_fits (WrStartupId s) \<longleftrightarrow> text_fits s"
| "win_write_fits (WrDesktopFile s) \<longleftrightarrow> text_fits s"
| "win_write_fits (WrAppMenuObjectPath s) \<longleftrightarrow> text_fits s"
| "win_write_fits (WrAppMenuServiceName s) \<longleftrightarrow> text_fits s"
| "win_write_fits (WrActivities s) \<longleftrightarrow> text_fits s"
| "win_write_fits _ \<longleftrightarrow> True"

text \<open>The requests among the effects.\<close>

fun win_reqs :: "win_effect list \<Rightarrow> xreq list" where
  "win_reqs [] = []"
| "win_reqs (WinReq r # es) = r # win_reqs es"
| "win_reqs (e # es) = win_reqs es"

definition win_watches_all :: "win_info \<Rightarrow> bool" where
  "win_watches_all c \<longleftrightarrow>
     wi_properties c = prop_flag WMAllProperties \<and> wi_properties2 c = prop2_flag WM2AllProperties"

section \<open>Reading\<close>

lemma length_state_atoms: "length (flag_atoms state_written state_flag w) \<le> 2048"
  using win_states.length_flag_atoms [of w] by (simp add: state_written_def)

lemma length_action_atoms: "length (flag_atoms action_written action_flag w) \<le> 2048"
  using win_actions.length_flag_atoms [of w] by (simp add: action_written_def)

lemma strut_words_roundtrip [simp]: "strut_of (strut_words s) = s"
  by (simp add: strut_of_def strut_words_def)

lemma strut_words_shape [simp]: "length (strut_words s) = 4" "strut_words s \<noteq> []"
  by (simp_all add: strut_words_def)

lemma ucast_low_half: "(ucast (ucast (n :: 64 word) :: u32) :: 64 word) = take_bit 32 n"
  by (rule bit_word_eqI) (simp add: bit_unsigned_iff bit_take_bit_iff)

lemma nulluuid_shape [simp]: "length nulluuid = 36" "no_nul nulluuid" "nulluuid \<noteq> []"
  by (simp_all add: nulluuid_def NUL_def)

lemma desktop_word_roundtrip:
  "d \<noteq> 0 \<Longrightarrow> (if desktop_word d \<noteq> 0xffffffff then desktop_word d + 1 else OnAllDesktops) = d"
  by (auto simp: desktop_word_def OnAllDesktops_def)

lemma text_of_no_nul: "no_nul s \<Longrightarrow> text_of s = cstr_of s"
  by (simp add: text_of_def cstr_of_def nstrndup_whole)

text \<open>What a notification leads to: the blocks of the properties it stands for.\<close>

lemma win_notify_direct:
  assumes "win_watches_all c"
  shows "fst (fst (win_event at srv c (PropertyNotify atom))) =
    (let (dirty, dirty2) = win_notify at atom
     in fold (run_direct srv) (win_directs at c dirty dirty2) c)"
proof -
  have "win_dirty c d = d" for d
  proof -
    have "d AND - 1 = d" by simp
    moreover have "bit d 27 \<Longrightarrow> d OR bitflag 27 = d"
      by (auto simp: u32_eq_iff bit_or_iff bit_bitflag)
    ultimately show ?thesis
      using assms by (simp add: win_dirty_def win_watches_all_def Let_def hasf_bitflag)
  qed
  then show ?thesis
    using assms by (simp add: win_update_is_direct win_update_direct_def win_watches_all_def case_prod_beta)
qed

lemma first_xmatch_map_of [simp]:
  "atoms_ok at \<Longrightarrow> first_xmatch at table (at a) = map_of table a"
  by (induction table) auto

text \<open>One notification, one block.\<close>

lemma win_notify_values:
  assumes "atoms_ok at"
  shows
    "win_notify at (at (Kws NET_WM_STATE)) = (prop_flag WMState, 0)"
    "win_notify at (at (Kws NET_WM_DESKTOP)) = (prop_flag WMDesktop, 0)"
    "win_notify at (at (Kws NET_WM_NAME)) = (prop_flag WMName, 0)"
    "win_notify at (at (Kws NET_WM_VISIBLE_NAME)) = (prop_flag WMVisibleName, 0)"
    "win_notify at (at (Kws NET_WM_ICON_NAME)) = (prop_flag WMIconName, 0)"
    "win_notify at (at (Kws NET_WM_VISIBLE_ICON_NAME)) = (prop_flag WMVisibleIconName, 0)"
    "win_notify at (at (Kws NET_WM_WINDOW_TYPE)) = (prop_flag WMWindowType, 0)"
    "win_notify at (at (Kws NET_WM_STRUT)) = (prop_flag WMStrut, 0)"
    "win_notify at (at (Kws NET_WM_STRUT_PARTIAL)) = (0, prop2_flag WM2ExtendedStrut)"
    "win_notify at (at (Kws NET_WM_FULLSCREEN_MONITORS)) = (0, prop2_flag WM2FullscreenMonitors)"
    "win_notify at (at (Kws NET_WM_ICON_GEOMETRY)) = (prop_flag WMIconGeometry, 0)"
    "win_notify at (at (Kws NET_WM_ICON)) = (prop_flag WMIcon, 0)"
    "win_notify at (at (Kws NET_FRAME_EXTENTS)) = (prop_flag WMFrameExtents, 0)"
    "win_notify at (at (Kws KDE_NET_WM_ACTIVITIES)) = (0, prop2_flag WM2Activities)"
    "win_notify at (at (Kws NET_WM_BYPASS_COMPOSITOR)) = (0, prop2_flag WM2BlockCompositing)"
    "win_notify at (at (Kws NET_WM_PID)) = (prop_flag WMPid, 0)"
    "win_notify at (at (Kws NET_STARTUP_ID)) = (0, prop2_flag WM2StartupId)"
    "win_notify at (at (Kws NET_WM_WINDOW_OPACITY)) = (0, prop2_flag WM2Opacity)"
    "win_notify at (at (Kws NET_WM_ALLOWED_ACTIONS)) = (0, prop2_flag WM2AllowedActions)"
    "win_notify at (at (Kws NET_WM_USER_TIME)) = (0, prop2_flag WM2UserTime)"
    "win_notify at (at (Kws KDE_NET_WM_DESKTOP_FILE)) = (0, prop2_flag WM2DesktopFileName)"
    "win_notify at (at (Kws GTK_FRAME_EXTENTS)) = (0, prop2_flag WM2GTKFrameExtents)"
    "win_notify at (at (Kws KDE_NET_WM_APPMENU_OBJECT_PATH)) = (0, prop2_flag WM2AppMenuObjectPath)"
    "win_notify at (at (Kws KDE_NET_WM_APPMENU_SERVICE_NAME)) = (0, prop2_flag WM2AppMenuServiceName)"
  using assms by (simp_all add: win_notify_def win_notify_table_def)

lemma single_blocks:
  "fold (run_direct srv) (win_directs at c (prop_flag WMState) 0) c =
       read_state at (srv (win_get at c (Kws NET_WM_STATE) XaAtom 2048)) c"
  "fold (run_direct srv) (win_directs at c (prop_flag WMDesktop) 0) c =
       read_desktop at (srv (win_get at c (Kws NET_WM_DESKTOP) XaCardinal 1)) c"
  "fold (run_direct srv) (win_directs at c (prop_flag WMName) 0) c =
       read_name at (srv (win_get at c (Kws NET_WM_NAME) (Kws UTF8_STRING) MAX_PROP_SIZE)) c"
  "fold (run_direct srv) (win_directs at c (prop_flag WMVisibleName) 0) c =
       read_visible_name at (srv (win_get at c (Kws NET_WM_VISIBLE_NAME) (Kws UTF8_STRING) MAX_PROP_SIZE)) c"
  "fold (run_direct srv) (win_directs at c (prop_flag WMIconName) 0) c =
       read_icon_name at (srv (win_get at c (Kws NET_WM_ICON_NAME) (Kws UTF8_STRING) MAX_PROP_SIZE)) c"
  "fold (run_direct srv) (win_directs at c (prop_flag WMVisibleIconName) 0) c =
       read_visible_icon_name at (srv (win_get at c (Kws NET_WM_VISIBLE_ICON_NAME) (Kws UTF8_STRING) MAX_PROP_SIZE)) c"
  "fold (run_direct srv) (win_directs at c (prop_flag WMWindowType) 0) c =
       read_types at (srv (win_get at c (Kws NET_WM_WINDOW_TYPE) XaAtom 2048)) c"
  "fold (run_direct srv) (win_directs at c (prop_flag WMStrut) 0) c =
       read_strut at (srv (win_get at c (Kws NET_WM_STRUT) XaCardinal 4)) c"
  "fold (run_direct srv) (win_directs at c 0 (prop2_flag WM2ExtendedStrut)) c =
       read_extended_strut at (srv (win_get at c (Kws NET_WM_STRUT_PARTIAL) XaCardinal 12)) c"
  "fold (run_direct srv) (win_directs at c 0 (prop2_flag WM2FullscreenMonitors)) c =
       read_fullscreen_monitors at (srv (win_get at c (Kws NET_WM_FULLSCREEN_MONITORS) XaCardinal 4)) c"
  "fold (run_direct srv) (win_directs at c (prop_flag WMIconGeometry) 0) c =
       read_icon_geometry at (srv (win_get at c (Kws NET_WM_ICON_GEOMETRY) XaCardinal 4)) c"
  "fold (run_direct srv) (win_directs at c (prop_flag WMIcon) 0) c =
       read_icon at (srv (win_get at c (Kws NET_WM_ICON) XaCardinal 0xffffffff)) c"
  "fold (run_direct srv) (win_directs at c (prop_flag WMFrameExtents) 0) c =
       read_frame_extents at (srv (win_get at c (Kws NET_FRAME_EXTENTS) XaCardinal 4)) (srv (win_get at c (Kws KDE_NET_WM_FRAME_STRUT) XaCardinal 4)) c"
  "fold (run_direct srv) (win_directs at c 0 (prop2_flag WM2Activities)) c =
       read_activities at (srv (win_get at c (Kws KDE_NET_WM_ACTIVITIES) XaString MAX_PROP_SIZE)) c"
  "fold (run_direct srv) (win_directs at c 0 (prop2_flag WM2BlockCompositing)) c =
       read_block_compositing at (srv (win_get at c (Kws KDE_NET_WM_BLOCK_COMPOSITING) XaCardinal 1)) (srv (win_get at c (Kws NET_WM_BYPASS_COMPOSITOR) XaCardinal 1)) c"
  "fold (run_direct srv) (win_directs at c (prop_flag WMPid) 0) c =
       read_pid at (srv (win_get at c (Kws NET_WM_PID) XaCardinal 1)) c"
  "fold (run_direct srv) (win_directs at c 0 (prop2_flag WM2StartupId)) c =
       read_startup_id at (srv (win_get at c (Kws NET_STARTUP_ID) (Kws UTF8_STRING) MAX_PROP_SIZE)) c"
  "fold (run_direct srv) (win_directs at c 0 (prop2_flag WM2Opacity)) c =
       read_opacity at (srv (win_get at c (Kws NET_WM_WINDOW_OPACITY) XaCardinal 1)) c"
  "fold (run_direct srv) (win_directs at c 0 (prop2_flag WM2AllowedActions)) c =
       read_allowed_actions at (srv (win_get at c (Kws NET_WM_ALLOWED_ACTIONS) XaAtom 2048)) c"
  "fold (run_direct srv) (win_directs at c 0 (prop2_flag WM2UserTime)) c =
       read_user_time at (srv (win_get at c (Kws NET_WM_USER_TIME) XaCardinal 1)) c"
  "fold (run_direct srv) (win_directs at c 0 (prop2_flag WM2DesktopFileName)) c =
       read_desktop_file at (srv (win_get at c (Kws KDE_NET_WM_DESKTOP_FILE) (Kws UTF8_STRING) MAX_PROP_SIZE)) c"
  "fold (run_direct srv) (win_directs at c 0 (prop2_flag WM2GTKFrameExtents)) c =
       read_gtk_frame_extents at (srv (win_get at c (Kws GTK_FRAME_EXTENTS) XaCardinal 4)) c"
  "fold (run_direct srv) (win_directs at c 0 (prop2_flag WM2AppMenuObjectPath)) c =
       read_appmenu_object_path at (srv (win_get at c (Kws KDE_NET_WM_APPMENU_OBJECT_PATH) XaString MAX_PROP_SIZE)) c"
  "fold (run_direct srv) (win_directs at c 0 (prop2_flag WM2AppMenuServiceName)) c =
       read_appmenu_service_name at (srv (win_get at c (Kws KDE_NET_WM_APPMENU_SERVICE_NAME) XaString MAX_PROP_SIZE)) c"
  by (simp_all add: win_directs_def wm_hints_flags_def hasf_or flag_simps)

lemma notified_reads:
  assumes "atoms_ok at" "win_watches_all c"
  shows
    "fst (fst (win_event at srv c (PropertyNotify (at (Kws NET_WM_STATE))))) =
       read_state at (srv (win_get at c (Kws NET_WM_STATE) XaAtom 2048)) c"
    "fst (fst (win_event at srv c (PropertyNotify (at (Kws NET_WM_DESKTOP))))) =
       read_desktop at (srv (win_get at c (Kws NET_WM_DESKTOP) XaCardinal 1)) c"
    "fst (fst (win_event at srv c (PropertyNotify (at (Kws NET_WM_NAME))))) =
       read_name at (srv (win_get at c (Kws NET_WM_NAME) (Kws UTF8_STRING) MAX_PROP_SIZE)) c"
    "fst (fst (win_event at srv c (PropertyNotify (at (Kws NET_WM_VISIBLE_NAME))))) =
       read_visible_name at (srv (win_get at c (Kws NET_WM_VISIBLE_NAME) (Kws UTF8_STRING) MAX_PROP_SIZE)) c"
    "fst (fst (win_event at srv c (PropertyNotify (at (Kws NET_WM_ICON_NAME))))) =
       read_icon_name at (srv (win_get at c (Kws NET_WM_ICON_NAME) (Kws UTF8_STRING) MAX_PROP_SIZE)) c"
    "fst (fst (win_event at srv c (PropertyNotify (at (Kws NET_WM_VISIBLE_ICON_NAME))))) =
       read_visible_icon_name at (srv (win_get at c (Kws NET_WM_VISIBLE_ICON_NAME) (Kws UTF8_STRING) MAX_PROP_SIZE)) c"
    "fst (fst (win_event at srv c (PropertyNotify (at (Kws NET_WM_WINDOW_TYPE))))) =
       read_types at (srv (win_get at c (Kws NET_WM_WINDOW_TYPE) XaAtom 2048)) c"
    "fst (fst (win_event at srv c (PropertyNotify (at (Kws NET_WM_STRUT))))) =
       read_strut at (srv (win_get at c (Kws NET_WM_STRUT) XaCardinal 4)) c"
    "fst (fst (win_event at srv c (PropertyNotify (at (Kws NET_WM_STRUT_PARTIAL))))) =
       read_extended_strut at (srv (win_get at c (Kws NET_WM_STRUT_PARTIAL) XaCardinal 12)) c"
    "fst (fst (win_event at srv c (PropertyNotify (at (Kws NET_WM_FULLSCREEN_MONITORS))))) =
       read_fullscreen_monitors at (srv (win_get at c (Kws NET_WM_FULLSCREEN_MONITORS) XaCardinal 4)) c"
    "fst (fst (win_event at srv c (PropertyNotify (at (Kws NET_WM_ICON_GEOMETRY))))) =
       read_icon_geometry at (srv (win_get at c (Kws NET_WM_ICON_GEOMETRY) XaCardinal 4)) c"
    "fst (fst (win_event at srv c (PropertyNotify (at (Kws NET_WM_ICON))))) =
       read_icon at (srv (win_get at c (Kws NET_WM_ICON) XaCardinal 0xffffffff)) c"
    "fst (fst (win_event at srv c (PropertyNotify (at (Kws NET_FRAME_EXTENTS))))) =
       read_frame_extents at (srv (win_get at c (Kws NET_FRAME_EXTENTS) XaCardinal 4)) (srv (win_get at c (Kws KDE_NET_WM_FRAME_STRUT) XaCardinal 4)) c"
    "fst (fst (win_event at srv c (PropertyNotify (at (Kws KDE_NET_WM_ACTIVITIES))))) =
       read_activities at (srv (win_get at c (Kws KDE_NET_WM_ACTIVITIES) XaString MAX_PROP_SIZE)) c"
    "fst (fst (win_event at srv c (PropertyNotify (at (Kws NET_WM_BYPASS_COMPOSITOR))))) =
       read_block_compositing at (srv (win_get at c (Kws KDE_NET_WM_BLOCK_COMPOSITING) XaCardinal 1)) (srv (win_get at c (Kws NET_WM_BYPASS_COMPOSITOR) XaCardinal 1)) c"
    "fst (fst (win_event at srv c (PropertyNotify (at (Kws NET_WM_PID))))) =
       read_pid at (srv (win_get at c (Kws NET_WM_PID) XaCardinal 1)) c"
    "fst (fst (win_event at srv c (PropertyNotify (at (Kws NET_STARTUP_ID))))) =
       read_startup_id at (srv (win_get at c (Kws NET_STARTUP_ID) (Kws UTF8_STRING) MAX_PROP_SIZE)) c"
    "fst (fst (win_event at srv c (PropertyNotify (at (Kws NET_WM_WINDOW_OPACITY))))) =
       read_opacity at (srv (win_get at c (Kws NET_WM_WINDOW_OPACITY) XaCardinal 1)) c"
    "fst (fst (win_event at srv c (PropertyNotify (at (Kws NET_WM_ALLOWED_ACTIONS))))) =
       read_allowed_actions at (srv (win_get at c (Kws NET_WM_ALLOWED_ACTIONS) XaAtom 2048)) c"
    "fst (fst (win_event at srv c (PropertyNotify (at (Kws NET_WM_USER_TIME))))) =
       read_user_time at (srv (win_get at c (Kws NET_WM_USER_TIME) XaCardinal 1)) c"
    "fst (fst (win_event at srv c (PropertyNotify (at (Kws KDE_NET_WM_DESKTOP_FILE))))) =
       read_desktop_file at (srv (win_get at c (Kws KDE_NET_WM_DESKTOP_FILE) (Kws UTF8_STRING) MAX_PROP_SIZE)) c"
    "fst (fst (win_event at srv c (PropertyNotify (at (Kws GTK_FRAME_EXTENTS))))) =
       read_gtk_frame_extents at (srv (win_get at c (Kws GTK_FRAME_EXTENTS) XaCardinal 4)) c"
    "fst (fst (win_event at srv c (PropertyNotify (at (Kws KDE_NET_WM_APPMENU_OBJECT_PATH))))) =
       read_appmenu_object_path at (srv (win_get at c (Kws KDE_NET_WM_APPMENU_OBJECT_PATH) XaString MAX_PROP_SIZE)) c"
    "fst (fst (win_event at srv c (PropertyNotify (at (Kws KDE_NET_WM_APPMENU_SERVICE_NAME))))) =
       read_appmenu_service_name at (srv (win_get at c (Kws KDE_NET_WM_APPMENU_SERVICE_NAME) XaString MAX_PROP_SIZE)) c"
  unfolding win_notify_direct [OF assms(2)] win_notify_values [OF assms(1)] Let_def prod.case
  by (simp_all only: single_blocks)


text \<open>The requests of a setter, as the server keeps them.\<close>

lemma two_32: "(4294967296 :: u32) = 0"
  by simp

end
