(* ===== verification/WinInvariant.thy ===== *)
theory WinInvariant
  imports WinProtocol
begin

text \<open>
  The invariant of the private data of \<^verbatim>\<open>NETWinInfo\<close> and the operations on its two
  arrays, the icons and the types: what \<^verbatim>\<open>setIcon\<close> stores and writes, what a reader of
  the icons or the type finds, and which type \<^verbatim>\<open>windowType\<close> picks.
\<close>

section \<open>Arrays as lists\<close>

lemma map_rarr_read:
  "rarr_ok z a \<Longrightarrow> n \<le> length (rarr_list a) \<Longrightarrow> map (rarr_read z a) [0..<n] = take n (rarr_list a)"
  by (rule nth_equalityI) (auto simp: rarr_read_correct)

lemma rarr_size_list: "rarr_ok z a \<Longrightarrow> rarr_size a = length (rarr_list a)"
  by (simp add: rarr_size_def length_rarr_list)

lemma enumerate_replicate: "enumerate 0 (replicate n x) = map (\<lambda>i. (i, x)) [0..<n]"
  by (simp add: enumerate_eq_zip zip_replicate2)

lemma clear_icons_fill: "clear_icons a = rarr_fill icon0 0 (replicate (rarr_size a) icon0) a"
  by (simp add: clear_icons_def rarr_fill_def enumerate_replicate fold_map comp_def)

lemma clear_icons_correct:
  "rarr_ok icon0 a \<Longrightarrow> rarr_ok icon0 (clear_icons a)"
  "rarr_ok icon0 a \<Longrightarrow> rarr_list (clear_icons a) = replicate (length (rarr_list a)) icon0"
  by (simp_all add: clear_icons_fill rarr_fill_correct rarr_size_list)

section \<open>The invariant\<close>

text \<open>
  The arrays are well-formed, the counted icons are there and what follows them is cleared, there
  is always a first type, and no text holds a NUL.
\<close>

definition texts_of :: "win_info \<Rightarrow> cstr list" where
  "texts_of p = [wi_name p, wi_visible_name p, wi_icon_name p, wi_visible_icon_name p,
     wi_startup_id p, wi_class_class p, wi_class_name p, wi_window_role p, wi_client_machine p,
     wi_desktop_file p, wi_appmenu_object_path p, wi_appmenu_service_name p,
     wi_gtk_application_id p, wi_activities p]"

definition text_ok :: "cstr \<Rightarrow> bool" where
  "text_ok t \<longleftrightarrow> (\<forall>s. t = Some s \<longrightarrow> no_nul s)"

definition win_inv :: "win_info \<Rightarrow> bool" where
  "win_inv p \<longleftrightarrow>
     rarr_ok icon0 (wi_icons p) \<and> wi_icon_count p \<le> length (rarr_list (wi_icons p)) \<and>
     set (drop (wi_icon_count p) (rarr_list (wi_icons p))) \<subseteq> {icon0} \<and>
     rarr_ok type0 (wi_types p) \<and> rarr_list (wi_types p) \<noteq> [] \<and>
     (\<forall>t \<in> set (texts_of p). text_ok t)"

lemma text_ok_simps [simp]:
  "text_ok None" "text_ok (Some s) \<longleftrightarrow> no_nul s" "text_ok (text_of s)"
  by (simp_all add: text_ok_def text_of_def nstrndup_def)

lemma split_at_no_nul: "w \<in> set (split_at NUL s) \<Longrightarrow> no_nul w"
  by (induction s arbitrary: w) (fastforce split: if_splits list.splits)+

lemma stringlist_no_nul: "w \<in> set (get_stringlist_reply r t) \<Longrightarrow> no_nul w"
  by (auto simp: get_stringlist_reply_def split: option.splits xvalue.splits if_splits
      dest: split_at_no_nul)

lemma win_inv_blank: "win_inv (win_blank window root props props2 role)"
  by (simp add: win_inv_def win_blank_def rarr_write_correct texts_of_def pad_to_def)

lemma types_fill_nonempty:
  "rarr_ok type0 (rarr_fill type0 0 ts (rarr_write type0 (rarr_reset type0 a) 0 Unknown))"
  "rarr_list (rarr_fill type0 0 ts (rarr_write type0 (rarr_reset type0 a) 0 Unknown)) =
     (if ts = [] then [Unknown] else ts)"
  by (auto simp: rarr_fill_correct rarr_write_correct pad_to_def Suc_le_eq)

lemma readIcon_list:
  "rarr_list (wi_icons (readIcon at r p)) =
     (if length (get_array_reply r (at XaCardinal)) < 3 then []
      else read_icons_from (get_array_reply r (at XaCardinal)) 0)"
  "rarr_ok icon0 (wi_icons (readIcon at r p))"
  "wi_icon_count (readIcon at r p) = length (rarr_list (wi_icons (readIcon at r p)))"
  by (simp_all add: readIcon_def Let_def rarr_fill_correct)

lemma readIcon_frame [simp]:
  "wi_types (readIcon at r p) = wi_types p" "texts_of (readIcon at r p) = texts_of p"
  by (simp_all add: readIcon_def Let_def texts_of_def)

lemma win_inv_icons:
  "win_inv p \<Longrightarrow> win_inv ((readIcon at r p)\<lparr>wi_icon_sizes := None\<rparr>)"
  unfolding win_inv_def by (simp add: texts_of_def readIcon_def Let_def rarr_fill_correct)

lemma run_direct_inv:
  assumes "d \<in> set (win_directs at p dirty dirty2)" "win_inv s"
  shows "win_inv (run_direct srv d s)"
proof -
  have part: "no_nul (ws ! i)" if "ws = get_stringlist_reply r t" "i < length ws" for ws r t i
    using stringlist_no_nul that nth_mem by blast
  show ?thesis
    using assms
    by (auto simp: win_directs_def read_icon_def win_inv_icons)
      (auto simp: win_inv_def win_read_defs texts_of_def Let_def case_prod_beta apply_hints_def part
        types_fill_nonempty split: option.split xvalue.split)
qed

lemma win_update_inv: "win_inv p \<Longrightarrow> win_inv (win_update at srv p d1 d2)"
  unfolding win_update_is_direct win_update_direct_def
  by (rule fold_invariant_in) (simp_all add: run_direct_inv)

lemma win_inv_flags [simp]:
  "win_inv (p\<lparr>wi_properties := a\<rparr>) \<longleftrightarrow> win_inv p" "win_inv (p\<lparr>wi_win_geom := g\<rparr>) \<longleftrightarrow> win_inv p"
  "win_inv (p\<lparr>wi_state := a\<rparr>) \<longleftrightarrow> win_inv p" "win_inv (p\<lparr>wi_desktop := a\<rparr>) \<longleftrightarrow> win_inv p"
  by (simp_all add: win_inv_def texts_of_def)

lemma refresh_inv:
  "win_inv p \<Longrightarrow> win_inv (refresh_wm_state at srv p)" "win_inv p \<Longrightarrow> win_inv (refresh_state at srv p)"
  by (simp_all add: refresh_wm_state_def updateWMState_def refresh_state_def Let_def win_update_inv)

lemma NETWinInfo_inv: "win_inv (NETWinInfo at srv window root props props2 role)"
  by (simp add: NETWinInfo_def win_update_inv win_inv_blank)

lemma win_event_inv: "win_inv p \<Longrightarrow> win_inv (fst (fst (win_event at srv p ev)))"
  by (cases ev) (simp_all add: case_prod_beta win_update_inv)

text \<open>The setters, for C strings.\<close>

lemma win_publish_inv:
  assumes "win_inv p" "win_write_fits wr"
  shows "win_inv (fst (win_publish scale at srv p wr))"
proof (cases "(\<exists>state msk. wr = WrState state msk) \<or> (\<exists>d. wr = WrDesktop d)")
  case True
  with assms show ?thesis
    by (auto simp: setState_def setDesktop_def Let_def refresh_inv)
next
  case False
  with assms show ?thesis
    by (cases wr) (simp_all add: win_inv_def texts_of_def win_setter_defs setAllowedActions_def
        text_fits_def Let_def)
qed

section \<open>Icons\<close>

definition icons_of :: "win_info \<Rightarrow> net_icon list" where
  "icons_of p = take (wi_icon_count p) (rarr_list (wi_icons p))"

lemma setIcon_stores:
  assumes inv: "win_inv p" and role: "wi_role p = Client" and ok: "icon_copyable i"
  shows "win_inv (fst (setIcon at p i replace))"
    and "icons_of (fst (setIcon at p i replace)) = (if replace then [] else icons_of p) @ [icon_copy i]"
    and "snd (setIcon at p i replace) =
      [win_change p (at (Kws NET_WM_ICON)) (at XaCardinal)
         (V32 (concat (map icon_words (icons_of (fst (setIcon at p i replace))))))]"
proof -
  define a where "a = (if replace then clear_icons (wi_icons p) else wi_icons p)"
  define n where "n = (if replace then 0 else wi_icon_count p)"
  define b where "b = rarr_write icon0 a n (icon_copy i)"
  have a: "rarr_ok icon0 a" "n \<le> length (rarr_list a)"
    using inv by (simp_all add: a_def n_def win_inv_def clear_icons_correct)
  have tail: "set (drop n (rarr_list a)) \<subseteq> {icon0}"
    using inv by (auto simp: a_def n_def win_inv_def clear_icons_correct)
  then have "set (drop (Suc n) (rarr_list b)) \<subseteq> {icon0}"
    using a set_drop_subset_set_drop [of n "Suc n" "rarr_list a"]
    by (auto simp: b_def rarr_write_correct pad_to_def drop_update_cancel)
  moreover have b: "rarr_ok icon0 b" "n < length (rarr_list b)"
    "take (Suc n) (rarr_list b) = take n (rarr_list a) @ [icon_copy i]"
    using a by (simp_all add: b_def rarr_write_correct pad_to_def take_Suc_conv_app_nth)
  have step: "setIcon at p i replace =
      (p\<lparr>wi_icons := b, wi_icon_count := Suc n, wi_icon_sizes := None\<rparr>,
       [win_change p (at (Kws NET_WM_ICON)) (at XaCardinal)
          (V32 (concat (map (\<lambda>j. icon_words (rarr_read icon0 b j)) [0..<Suc n])))])"
    using role ok by (simp add: setIcon_def setIconInternal_def Let_def a_def n_def b_def)
  have reads: "map (\<lambda>j. icon_words (rarr_read icon0 b j)) [0..<Suc n] =
      map icon_words (take (Suc n) (rarr_list b))"
    using arg_cong [OF map_rarr_read [OF b(1), of "Suc n"], of "map icon_words"] b(2)
    by (simp add: comp_def Suc_le_eq del: upt_Suc)
  show "win_inv (fst (setIcon at p i replace))"
    using inv b(1,2) calculation by (simp add: step win_inv_def texts_of_def)
  have icons: "icons_of (fst (setIcon at p i replace)) = take n (rarr_list a) @ [icon_copy i]"
    using b(3) by (simp add: step icons_of_def)
  show "icons_of (fst (setIcon at p i replace)) = (if replace then [] else icons_of p) @ [icon_copy i]"
    unfolding icons by (simp add: a_def n_def icons_of_def)
  show "snd (setIcon at p i replace) =
      [win_change p (at (Kws NET_WM_ICON)) (at XaCardinal)
         (V32 (concat (map icon_words (icons_of (fst (setIcon at p i replace))))))]"
    unfolding icons using reads b(3) by (simp add: step del: upt_Suc)
qed

text \<open>A reader that is notified of the new icons has exactly the icons the writer holds.\<close>

lemma icon_copy_ok: "icon_ok i \<Longrightarrow> icon_copyable i \<and> icon_copy i = i"
proof -
  assume i: "icon_ok i"
  then have "unat (sz_width (icon_size i)) \<le> 8192" "unat (sz_height (icon_size i)) \<le> 8192"
    by (simp_all add: icon_ok_def maxIconSize_def word_le_nat_alt)
  then have "unat (sz_width (icon_size i)) * unat (sz_height (icon_size i)) \<le> 8192 * 8192"
    by (rule mult_le_mono)
  then have "icon_area i \<le> int (8192 * 8192)"
    unfolding icon_area_ok [OF i] by (simp only: zle_int)
  then have "icon_area i < 2 ^ 31" by simp
  with i show ?thesis
    unfolding icon_copyable_def icon_copy_def icon_area_ok [OF i] nat_int
    by (auto simp: icon_ok_def)
qed

lemma length_icon_words: "icon_ok i \<Longrightarrow> 3 \<le> length (icon_words i)"
proof -
  assume i: "icon_ok i"
  then have "0 < unat (sz_width (icon_size i)) * unat (sz_height (icon_size i))"
    by (simp add: icon_ok_def word_gt_0 unat_gt_0)
  with icon_words_ok [OF i] i show ?thesis by (auto simp: icon_ok_def)
qed

lemma readIcon_written:
  assumes "\<forall>i \<in> set is. icon_ok i"
    and "get_array_reply r (at XaCardinal) = concat (map icon_words is)"
  shows "icons_of (readIcon at r c) = is"
proof (cases "is")
  case Nil
  with assms(2) show ?thesis by (simp add: icons_of_def readIcon_list)
next
  case (Cons i js)
  then have "3 \<le> length (concat (map icon_words is))"
    using length_icon_words [of i] assms(1) by simp
  then show ?thesis
    using read_icons_from_append [OF assms(1), of "[]"] assms(2)
    by (simp add: icons_of_def readIcon_list)
qed

lemma icons_of_sizes [simp]: "icons_of (p\<lparr>wi_icon_sizes := x\<rparr>) = icons_of p"
  by (simp add: icons_of_def)

section \<open>Window types\<close>

lemma windowType_find:
  assumes "rarr_ok type0 (wi_types p)"
  shows "windowType p m =
    (case find (\<lambda>t. typeMatchesMask t m) (rarr_list (wi_types p)) of None \<Rightarrow> Unknown | Some t \<Rightarrow> t)"
proof -
  have find_map: "find P (map f xs) = map_option f (find (P \<circ> f) xs)"
    for P :: "window_type \<Rightarrow> bool" and f :: "nat \<Rightarrow> window_type" and xs
    by (induction xs) simp_all
  let ?l = "rarr_list (wi_types p)"
  have "?l = map (rarr_read type0 (wi_types p)) [0..<rarr_size (wi_types p)]"
    using map_rarr_read [OF assms, of "length ?l"] by (simp add: rarr_size_list [OF assms])
  then have "find (\<lambda>t. typeMatchesMask t m) ?l =
      map_option (rarr_read type0 (wi_types p))
        (find ((\<lambda>t. typeMatchesMask t m) \<circ> rarr_read type0 (wi_types p)) [0..<rarr_size (wi_types p)])"
    by (metis find_map)
  then show ?thesis
    unfolding windowType_def by (simp add: comp_def split: option.split)
qed

text \<open>The type that was set, and the fallback that is sent with it.\<close>

fun declared_types :: "window_type \<Rightarrow> window_type list" where
  "declared_types Unknown = [Normal]"
| "declared_types Override = [Override, Normal]"
| "declared_types TopMenu = [TopMenu, Dock]"
| "declared_types Utility = [Utility, Dialog]"
| "declared_types Splash = [Splash, Dock]"
| "declared_types OnScreenDisplay = [OnScreenDisplay, Notification]"
| "declared_types CriticalNotification = [CriticalNotification, Notification]"
| "declared_types t = [t]"

lemma declared_types_read:
  "atoms_ok at \<Longrightarrow>
     types_of at (take (type_len t) (map (\<lambda>a. at (Kws a)) (type_atoms t))) = declared_types t"
  by (simp add: type_atoms_read split: window_type.split)

lemma declared_types_nonempty [simp]: "declared_types t \<noteq> []"
  by (cases t) simp_all

lemma type_atoms_nonempty [simp]: "take (type_len t) (type_atoms t) \<noteq> []"
  by (cases t) (simp_all add: type_len_def)

lemma windowType_read:
  assumes "atoms_ok at"
    and "get_array_reply r (at XaAtom) = take (type_len t) (map (\<lambda>a. at (Kws a)) (type_atoms t))"
  shows "windowType (read_types at r c) m =
    (case find (\<lambda>t. typeMatchesMask t m) (declared_types t) of None \<Rightarrow> Unknown | Some t \<Rightarrow> t)"
  using assms
  by (subst windowType_find)
    (simp_all add: read_types_def Let_def types_fill_nonempty declared_types_read)

end
