(* ===== verification/WinProperties.thy ===== *)
theory WinProperties
  imports WinInvariant
begin

text \<open>
  The properties of \<^verbatim>\<open>NETWinInfo\<close>, each with a concrete instance: the state protocol,
  the round trips of the window properties, the icons, the types, the invariant of all reachable
  objects, and what the reader never learns.
\<close>

section \<open>Concrete objects\<close>

text \<open>A server that knows window 42 only as mapped, in state modal.\<close>

definition mapped_server :: server where
  "mapped_server = serve
     [ChangeProperty 42 (sample_atoms (Kws WM_STATE)) (sample_atoms (Kws WM_STATE)) (V32 [1]),
      ChangeProperty 42 (sample_atoms (Kws NET_WM_STATE)) (sample_atoms XaAtom)
        (V32 [sample_atoms (Kws NET_WM_STATE_MODAL)])]"

definition sample_win_wm :: win_info where
  "sample_win_wm = win_blank 42 77 0 0 WindowManager"

definition sample_win_client :: win_info where
  "sample_win_client = win_blank 42 77 (prop_flag WMAllProperties) (prop2_flag WM2AllProperties) Client"

lemma sample_win_shape [simp]:
  "wi_role sample_win_wm = WindowManager" "wi_role sample_win_client = Client"
  "wi_window sample_win_wm = 42" "wi_window sample_win_client = 42"
  "win_inv sample_win_wm" "win_inv sample_win_client" "win_watches_all sample_win_client"
  "wi_mapping_state_dirty sample_win_client" "wi_mapping_state_dirty sample_win_wm"
  "wi_root sample_win_client = 77" "wi_icons sample_win_client = rarr_new icon0"
  "wi_icon_count sample_win_client = 0"
  unfolding sample_win_wm_def sample_win_client_def
  by (simp_all add: win_inv_blank) (simp_all add: win_blank_def win_watches_all_def)

lemmas [simp] = atoms_ok_sample

section \<open>Reading a pipeline of replies\<close>

text \<open>
  C2.  \<^verbatim>\<open>NETWinInfo::update\<close> takes every reply from the cookie of its own request, also
  behind the two blocks that take two replies: the two passes over the thirty-four properties give
  what reading each dirty property directly gives, and the cookies fit their array.
\<close>

theorem win_update_pipeline:
  "win_update at srv p d1 d2 = win_update_direct at srv p d1 d2 \<and>
   length (win_requests at p (win_dirty p d1) (d2 AND wi_properties2 p)) \<le> 255"
  using win_update_is_direct length_win_requests [of at p "win_dirty p d1" "d2 AND wi_properties2 p"]
  by simp

section \<open>The state of a window\<close>

text \<open>
  C3.  A client of a mapped window asks for a state with messages; a window manager that honours
  the calls its handler makes for them ends up with the state the client asked for: under the mask
  the wish, elsewhere the old state, for all states but the focus, which only the window manager
  sets.
\<close>

theorem state_messages_honoured:
  assumes "atoms_ok at" "wi_role w = WindowManager"
    and "setState at srv p state msk = (c, es)" "wi_role c = Client" "wi_mapping_state c \<noteq> Withdrawn"
  shows "honour_all at srv' w es (wi_state c) =
    (wi_state c AND NOT (msk AND settable_states)) OR (state AND (msk AND settable_states))"
proof -
  have "es = state_requests at c state msk"
    using assms(3-5) by (auto simp: setState_def Let_def split: if_splits)
  then show ?thesis using state_requests_honoured [OF assms(1,2)] by simp
qed

lemma sample_refreshed:
  "refresh_state sample_atoms mapped_server (refresh_wm_state sample_atoms mapped_server sample_win_client) =
     sample_win_client\<lparr>wi_mapping_state := Visible, wi_mapping_state_dirty := False\<rparr>"
proof -
  have "win_dirty sample_win_client (bitflag 27) = bitflag 27"
    by (simp add: win_dirty_def Let_def sample_win_client_def win_blank_def flag_simps)
  then have "refresh_wm_state sample_atoms mapped_server sample_win_client =
      sample_win_client\<lparr>wi_mapping_state := Visible, wi_mapping_state_dirty := False\<rparr>"
    unfolding refresh_wm_state_def updateWMState_def win_update_is_direct win_update_direct_def
    by (simp add: win_directs_def flag_simps wm_hints_flags_def hasf_or read_wm_state_def win_get_def
        mapped_server_def xfits_def mapping_state_of_def)
  moreover have "hasf (wi_properties sample_win_client) (prop_flag WMState)"
    by (simp add: sample_win_client_def win_blank_def flag_simps)
  ultimately show ?thesis by (simp add: refresh_state_def)
qed

theorem state_messages_honoured_witness:
  "honour_all sample_atoms mapped_server sample_win_wm
     (snd (setState sample_atoms mapped_server sample_win_client (state_flag MaxBoth) (state_flag MaxBoth)))
     (wi_state sample_win_client) =
   (wi_state sample_win_client AND NOT (state_flag MaxBoth AND settable_states)) OR
     (state_flag MaxBoth AND (state_flag MaxBoth AND settable_states))"
  using state_messages_honoured [OF atoms_ok_sample sample_win_shape(1)
      prod.collapse [symmetric, of "setState sample_atoms mapped_server sample_win_client
        (state_flag MaxBoth) (state_flag MaxBoth)"], of mapped_server]
  by (simp add: setState_def Let_def sample_refreshed del: state_flag.simps)

section \<open>Properties written and read\<close>

text \<open>
  C7.  Names, identifiers, struts, extents, icon geometry, process, opacity, user time,
  compositing, activities, actions, state and desktop: what the side that may write publishes is
  what a notified reader of the same window holds.
\<close>

theorem win_published_is_read:
  assumes at: "atoms_ok at" and p: "may_write (wi_role p) wr"
    and c: "win_watches_all c" "wi_window c = wi_window p"
    and srv: "\<forall>r \<in> set (win_reqs (snd (win_publish scale at srv p wr))). answers srv' r"
    and fits: "win_write_fits wr"
  shows "win_holds scale at srv p
    (fst (fst (win_event at srv' c (PropertyNotify (at (Kws (win_atom wr))))))) wr"
proof -
  note [simp] = notified_reads [OF at c(1)] text_of_no_nul length_state_atoms length_action_atoms
    state_atoms_roundtrip [OF at] action_atoms_roundtrip [OF at]
  note defs = setAllowedActions_def setState_def setDesktop_def ucast_low_half cstr_of_def
    desktop_word_def OnAllDesktops_def win_setter_defs win_effect_defs win_get_def xfits_def win_read_defs
  show ?thesis
    using p c(2) srv fits
    by (cases wr)
      (simp_all add: two_32 defs Let_def text_fits_def MAX_PROP_SIZE_def
        split: if_splits del: win_event.simps)
qed

theorem win_published_is_read_witness:
  "wi_name (fst (fst (win_event sample_atoms
     (serve [ChangeProperty 42 (sample_atoms (Kws NET_WM_NAME)) (sample_atoms (Kws UTF8_STRING)) (V8 ''mail'')])
     sample_win_client (PropertyNotify (sample_atoms (Kws NET_WM_NAME)))))) = Some ''mail''"
  using win_published_is_read [OF atoms_ok_sample, of sample_win_client "WrName ''mail''"
      sample_win_client id mapped_server
      "serve [ChangeProperty 42 (sample_atoms (Kws NET_WM_NAME)) (sample_atoms (Kws UTF8_STRING)) (V8 ''mail'')]"]
  by (simp add: setName_def text_or_delete_def win_change_def text_fits_def MAX_PROP_SIZE_def NUL_def
      cstr_of_def del: win_event.simps answers.simps serve.simps)

section \<open>Icons\<close>

text \<open>
  C4.  Reading icons from an untrusted client is safe: every icon that is accepted has both sides
  between 1 and 8192 and all its words, and the accepted icons with their headers are no longer
  than the reply.
\<close>

theorem read_icons_safe:
  "(\<forall>i \<in> set (icons_of (readIcon at reply p)). icon_ok i) \<and>
   sum_list (map icon_length (icons_of (readIcon at reply p))) \<le>
     length (get_array_reply reply (at XaCardinal)) \<and>
   rarr_ok icon0 (wi_icons (readIcon at reply p))"
  using read_icons_from_sound [of "get_array_reply reply (at XaCardinal)" 0]
    read_icons_from_length [of 0 "get_array_reply reply (at XaCardinal)"]
  by (simp add: icons_of_def readIcon_list)

text \<open>The witness: the second header claims more words than there are, and only the first icon is taken.\<close>

theorem read_icons_safe_witness:
  "icons_of (readIcon sample_atoms
      (Some \<lparr>reply_type = sample_atoms XaCardinal, reply_value = V32 [1, 1, 255, 9, 9, 7, 7]\<rparr>)
      sample_win_client) = [\<lparr>icon_size = \<lparr>sz_width = 1, sz_height = 1\<rparr>, icon_data = Some [255]\<rparr>] \<and>
   icon_ok \<lparr>icon_size = \<lparr>sz_width = 1, sz_height = 1\<rparr>, icon_data = Some [255]\<rparr>"
proof -
  let ?r = "Some \<lparr>reply_type = sample_atoms XaCardinal, reply_value = V32 [1, 1, 255, 9, 9, 7, 7]\<rparr>"
  have icons: "icons_of (readIcon sample_atoms ?r sample_win_client) =
      [\<lparr>icon_size = \<lparr>sz_width = 1, sz_height = 1\<rparr>, icon_data = Some [255]\<rparr>]"
    by (simp add: icons_of_def readIcon_list get_array_reply_def maxIconSize_def
        read_icons_from.simps [of "[1, 1, 255, 9, 9, 7, 7]"])
  then show ?thesis
    using read_icons_safe [of sample_atoms ?r sample_win_client] by simp
qed

text \<open>
  C6.  Icons survive: after a client adds a well-formed icon with \<^verbatim>\<open>setIcon\<close>, or replaces
  all icons by it, a notified reader holds exactly the icons the client then has.
\<close>

theorem icons_roundtrip:
  assumes "atoms_ok at" "win_inv p" "wi_role p = Client" "icon_ok i" "\<forall>j \<in> set (icons_of p). icon_ok j"
    and "setIcon at p i replace = (p', [WinReq r])" "answers srv r"
    and "length (concat (map icon_words (icons_of p'))) \<le> 0xffffffff"
    and "win_watches_all c" "wi_window c = wi_window p"
  shows "icons_of (fst (fst (win_event at srv c (PropertyNotify (at (Kws NET_WM_ICON)))))) = icons_of p' \<and>
    icons_of p' = (if replace then [] else icons_of p) @ [i]"
proof -
  note copy = icon_copy_ok [OF assms(4)]
  note stores = setIcon_stores [OF assms(2,3), of i at replace]
  have icons: "icons_of p' = (if replace then [] else icons_of p) @ [i]"
    using stores(2) copy assms(6) by simp
  have "r = ChangeProperty (wi_window p) (at (Kws NET_WM_ICON)) (at XaCardinal)
      (V32 (concat (map icon_words (icons_of p'))))"
    using stores(3) copy assms(6) by (simp add: win_change_def)
  then have "get_array_reply (srv (win_get at c (Kws NET_WM_ICON) XaCardinal 0xffffffff)) (at XaCardinal) =
      concat (map icon_words (icons_of p'))"
    using assms(7,8,10) by (simp add: win_get_def xfits_def)
  moreover have "\<forall>j \<in> set (icons_of p'). icon_ok j"
    using assms(4,5) by (simp add: icons)
  ultimately show ?thesis
    unfolding notified_reads(12) [OF assms(1,9)]
    using readIcon_written [of "icons_of p'"] by (simp add: read_icon_def icons)
qed

definition sample_icon :: net_icon where
  "sample_icon = \<lparr>icon_size = \<lparr>sz_width = 2, sz_height = 1\<rparr>, icon_data = Some [255, 0]\<rparr>"

theorem icons_roundtrip_witness:
  "icons_of (fst (fst (win_event sample_atoms
     (serve [ChangeProperty 42 (sample_atoms (Kws NET_WM_ICON)) (sample_atoms XaCardinal) (V32 [2, 1, 255, 0])])
     sample_win_client (PropertyNotify (sample_atoms (Kws NET_WM_ICON)))))) = [sample_icon]"
proof -
  have ok: "icon_ok sample_icon" by (simp add: icon_ok_def sample_icon_def maxIconSize_def)
  have none: "icons_of sample_win_client = []" by (simp add: icons_of_def)
  note stores = setIcon_stores [OF sample_win_shape(6,2) conjunct1 [OF icon_copy_ok [OF ok]],
      of sample_atoms False]
  have words: "icon_words sample_icon = [2, 1, 255, 0]"
    by (simp add: icon_words_def icon_area_def sample_icon_def)
  have icons: "icons_of (fst (setIcon sample_atoms sample_win_client sample_icon False)) = [sample_icon]"
    using stores(2) none icon_copy_ok [OF ok] by simp
  have "snd (setIcon sample_atoms sample_win_client sample_icon False) =
      [WinReq (ChangeProperty 42 (sample_atoms (Kws NET_WM_ICON)) (sample_atoms XaCardinal) (V32 [2, 1, 255, 0]))]"
    using stores(3) icons words by (simp add: win_change_def)
  then have step: "setIcon sample_atoms sample_win_client sample_icon False =
      (fst (setIcon sample_atoms sample_win_client sample_icon False),
       [WinReq (ChangeProperty 42 (sample_atoms (Kws NET_WM_ICON)) (sample_atoms XaCardinal) (V32 [2, 1, 255, 0]))])"
    by (metis prod.collapse)
  from icons_roundtrip [OF atoms_ok_sample sample_win_shape(6,2) ok _ step answers_serve_head _
      sample_win_shape(7) refl] icons words none
  show ?thesis by (simp del: win_event.simps serve.simps)
qed

text \<open>
  An icon asked for by size is one of the window's own icons, never one that was replaced:
  cleared places in the array are not chosen, for the largest icon and for every size with a
  positive side.
\<close>

theorem icon_is_own:
  assumes "win_inv p" "0 < wi_icon_count p" "\<forall>i \<in> set (icons_of p). icon_ok i"
    and "(width = - 1 \<and> height = - 1) \<or> 0 < sint width \<or> 0 < sint height"
  shows "icon p width height \<in> set (icons_of p)"
proof -
  let ?l = "rarr_list (wi_icons p)" and ?at = "rarr_read icon0 (wi_icons p)"
  have ok: "rarr_ok icon0 (wi_icons p)" and count: "wi_icon_count p \<le> length ?l"
    and tail: "set (drop (wi_icon_count p) ?l) \<subseteq> {icon0}"
    using assms(1) by (auto simp: win_inv_def)
  have at: "?at i \<in> set (icons_of p) \<or> ?at i = icon0" for i
  proof -
    have "set ?l = set (icons_of p) \<union> set (drop (wi_icon_count p) ?l)"
      unfolding icons_of_def by (metis append_take_drop_id set_append)
    then show ?thesis
      using tail nth_mem [of i ?l] by (auto simp: rarr_read_correct [OF ok])
  qed
  have first: "?at 0 \<in> set (icons_of p)"
    using assms(2) count nth_mem [of 0 "icons_of p"]
    by (auto simp: rarr_read_correct [OF ok] icons_of_def)
  have sides: "0 < sint (sz_width (icon_size r))" "0 < sint (sz_height (icon_size r))"
    if "r \<in> set (icons_of p)" for r
    using assms(3) that by (auto simp: icon_ok_def sint_icon_side word_less_def)
  have larger: "fold (\<lambda>i. larger_icon (?at i)) is r \<in> set (icons_of p)"
    if "r \<in> set (icons_of p)" for r "is"
    using that
  proof (induction "is" arbitrary: r)
    case (Cons i "is")
    from Cons.prems at [of i] sides [OF Cons.prems]
    have "larger_icon (?at i) r \<in> set (icons_of p)"
      by (auto simp: larger_icon_def icon0_def size0_def)
    from Cons.IH [OF this] show ?case by simp
  qed simp
  have closer: "fold (\<lambda>i. closer_icon width height (?at i)) is r \<in> set (icons_of p)"
    if "r \<in> set (icons_of p)" "0 < sint width \<or> 0 < sint height" for r "is"
    using that
  proof (induction "is" arbitrary: r)
    case (Cons i "is")
    from Cons.prems at [of i]
    have "closer_icon width height (?at i) r \<in> set (icons_of p)"
      by (auto simp: closer_icon_def icon0_def size0_def)
    from Cons.IH [OF this Cons.prems(2)] show ?case by simp
  qed simp
  show ?thesis
    using assms(2,4) first by (auto simp: icon_def iconInternal_def Let_def intro!: larger closer)
qed

theorem icon_is_own_witness:
  "icon (fst (setIcon sample_atoms sample_win_client sample_icon False)) 16 16 = sample_icon"
proof -
  have ok: "icon_ok sample_icon" by (simp add: icon_ok_def sample_icon_def maxIconSize_def)
  let ?p = "fst (setIcon sample_atoms sample_win_client sample_icon False)"
  note stores = setIcon_stores [OF sample_win_shape(6,2) conjunct1 [OF icon_copy_ok [OF ok]],
      of sample_atoms False]
  have icons: "icons_of ?p = [sample_icon]"
    using stores(2) icon_copy_ok [OF ok] by (simp add: icons_of_def [of sample_win_client])
  then have "0 < wi_icon_count ?p" by (cases "wi_icon_count ?p") (simp_all add: icons_of_def)
  with icon_is_own [OF stores(1), of 16 16] icons ok show ?thesis by simp
qed

section \<open>Window types\<close>

text \<open>
  The type a client sets is the type a notified reader picks, if it supports it; if it does
  not, and a fallback was sent with the type (an override window is normal, a splash screen a
  dock, a utility window a dialog, an on-screen display a notification), it picks the fallback.
\<close>

theorem window_type_roundtrip:
  assumes "atoms_ok at" "setWindowType at p t = (p', [WinReq r])" "wi_role p = Client" "answers srv r"
    and "win_watches_all c" "wi_window c = wi_window p" "t \<noteq> Unknown"
    and "c' = fst (fst (win_event at srv c (PropertyNotify (at (Kws NET_WM_WINDOW_TYPE)))))"
  shows "windowType c' supported =
    (if typeMatchesMask t supported then t
     else case tl (declared_types t) of
            [] \<Rightarrow> Unknown
          | fallback # _ \<Rightarrow> if typeMatchesMask fallback supported then fallback else Unknown)"
proof -
  let ?words = "take (type_len t) (map (\<lambda>a. at (Kws a)) (type_atoms t))"
  have r: "r = ChangeProperty (wi_window p) (at (Kws NET_WM_WINDOW_TYPE)) (at XaAtom) (V32 ?words)"
    using assms(2,3) by (auto simp: setWindowType_def win_change_def)
  have "length ?words \<le> type_len t" by simp
  also have "type_len t \<le> 2048" by (simp add: type_len_def)
  finally have "length ?words \<le> 2048" .
  then have "get_array_reply (srv (win_get at c (Kws NET_WM_WINDOW_TYPE) XaAtom 2048)) (at XaAtom) = ?words"
    using assms(4,6) unfolding r by (simp add: win_get_def xfits_def)
  note read = windowType_read [OF assms(1) this, of c supported]
  show ?thesis
    unfolding assms(8) notified_reads(7) [OF assms(1,5)] read
    using assms(7) by (cases t) (simp_all split: if_splits)
qed

theorem window_type_roundtrip_witness:
  "windowType (fst (fst (win_event sample_atoms
     (serve [ChangeProperty 42 (sample_atoms (Kws NET_WM_WINDOW_TYPE)) (sample_atoms XaAtom)
        (V32 [sample_atoms (Kws NET_WM_WINDOW_TYPE_SPLASH), sample_atoms (Kws NET_WM_WINDOW_TYPE_DOCK)])])
     sample_win_client (PropertyNotify (sample_atoms (Kws NET_WM_WINDOW_TYPE))))))
     (type_flag NormalMask OR type_flag DockMask) = Dock"
proof -
  have step: "setWindowType sample_atoms sample_win_client Splash = (sample_win_client,
      [WinReq (ChangeProperty 42 (sample_atoms (Kws NET_WM_WINDOW_TYPE)) (sample_atoms XaAtom)
        (V32 [sample_atoms (Kws NET_WM_WINDOW_TYPE_SPLASH), sample_atoms (Kws NET_WM_WINDOW_TYPE_DOCK)]))])"
    by (simp add: setWindowType_def win_change_def type_len_def numeral_2_eq_2)
  show ?thesis
    by (subst window_type_roundtrip [OF atoms_ok_sample step sample_win_shape(2) answers_serve_head
          sample_win_shape(7) refl _ refl])
      (simp_all add: flag_simps bit_or_iff hasf_or)
qed

text \<open>
  A dropdown menu, a popup menu and a notification are set without the fallback that is
  prepared for them (the length that is sent is 1): a reader that supports only the fallback sees
  a window of unknown type.
\<close>

theorem prepared_fallback_not_sent:
  assumes "t \<in> {DropdownMenu, PopupMenu, Notification}" "wi_role p = Client"
  shows "length (type_atoms t) = 2 \<and>
    snd (setWindowType at p t) =
      [WinReq (ChangeProperty (wi_window p) (at (Kws NET_WM_WINDOW_TYPE)) (at XaAtom)
         (V32 [at (Kws (hd (type_atoms t)))]))]"
  using assms by (auto simp: setWindowType_def win_change_def type_len_def)

theorem prepared_fallback_not_sent_witness:
  "snd (setWindowType sample_atoms sample_win_client PopupMenu) =
     [WinReq (ChangeProperty 42 (sample_atoms (Kws NET_WM_WINDOW_TYPE)) (sample_atoms XaAtom)
        (V32 [sample_atoms (Kws NET_WM_WINDOW_TYPE_POPUP_MENU)]))]"
  using prepared_fallback_not_sent [of PopupMenu sample_win_client sample_atoms] by simp

section \<open>Requests of a client\<close>

text \<open>
  A client of a mapped window that asks for a desktop makes the window manager change to that
  desktop, all desktops included; without a viewport mapping there is exactly one such call.
\<close>

theorem desktop_request_delivered:
  assumes "atoms_ok at" "wi_role w = WindowManager" "desktop \<noteq> 0"
    and "setDesktop at srv False p desktop ignore = (c, es)" "wi_role c = Client"
    and "wi_mapping_state c \<noteq> Withdrawn"
  shows "concat (map (hears at srv' w) es) = [ChangeDesktop desktop]"
proof -
  have "es = [win_message at c NET_WM_DESKTOP [desktop_word desktop, 0, 0, 0, 0]]"
    using assms(3-6) by (auto simp: setDesktop_def Let_def split: if_splits)
  then show ?thesis
    using assms(1-3) by (auto simp: win_message_def send_client_message_def win_client_message_def
        desktop_word_def OnAllDesktops_def)
qed

theorem desktop_request_delivered_witness:
  "concat (map (hears sample_atoms mapped_server sample_win_wm)
     (snd (setDesktop sample_atoms mapped_server False sample_win_client 3 False))) = [ChangeDesktop 3]"
proof -
  have "refresh_wm_state sample_atoms mapped_server sample_win_client =
      sample_win_client\<lparr>wi_mapping_state := Visible, wi_mapping_state_dirty := False\<rparr>"
    using sample_refreshed sample_win_shape(7)
    by (simp add: refresh_state_def refresh_wm_state_def updateWMState_def win_watches_all_def flag_simps)
  then have "wi_role (fst (setDesktop sample_atoms mapped_server False sample_win_client 3 False)) = Client"
    "wi_mapping_state (fst (setDesktop sample_atoms mapped_server False sample_win_client 3 False)) = Visible"
    by (simp_all add: setDesktop_def Let_def)
  with desktop_request_delivered [OF atoms_ok_sample sample_win_shape(1) _ prod.collapse [symmetric]]
  show ?thesis by simp
qed

text \<open>
  A client's choice of fullscreen monitors reaches the window manager unchanged.
\<close>

theorem monitors_request_delivered:
  assumes "atoms_ok at" "wi_role w = WindowManager" "wi_role p = Client"
  shows "concat (map (hears at srv w) (snd (setFullscreenMonitors at p m))) = [ChangeFullscreenMonitors m]"
  using assms by (simp add: setFullscreenMonitors_def win_message_def send_client_message_def
      win_client_message_def)

theorem monitors_request_delivered_witness:
  "concat (map (hears sample_atoms mapped_server sample_win_wm)
     (snd (setFullscreenMonitors sample_atoms sample_win_client fullscreen_monitors0))) =
   [ChangeFullscreenMonitors fullscreen_monitors0]"
  by (rule monitors_request_delivered) simp_all

section \<open>All reachable objects\<close>

text \<open>
  What a program can have of a window: a constructed object after any sequence of events and
  setters.
\<close>

inductive win_reachable :: "atom_env \<Rightarrow> win_info \<Rightarrow> bool" for at :: atom_env where
  constructed: "win_reachable at (NETWinInfo at srv window root props props2 role)"
| event: "win_reachable at p \<Longrightarrow> win_reachable at (fst (fst (win_event at srv p ev)))"
| published: "win_reachable at p \<Longrightarrow> win_write_fits wr \<Longrightarrow>
     win_reachable at (fst (win_publish scale at srv p wr))"
| icon_set: "win_reachable at p \<Longrightarrow> icon_copyable i \<Longrightarrow> win_reachable at (fst (setIcon at p i replace))"

lemma win_reachable_inv: "win_reachable at p \<Longrightarrow> win_inv p"
proof (induction rule: win_reachable.induct)
  case (icon_set p i replace)
  show ?case
  proof (cases "wi_role p = Client")
    case True
    with icon_set show ?thesis by (simp add: setIcon_stores(1))
  next
    case False
    with icon_set show ?thesis by (simp add: setIcon_def setIconInternal_def)
  qed
qed (simp_all add: NETWinInfo_inv win_event_inv win_publish_inv)

text \<open>
  C10.  Every reachable object of \<^verbatim>\<open>NETWinInfo\<close> is well-formed: the icon and type arrays
  keep their memory invariant, the counted icons are in the array with cleared places after them,
  there is a first type, and every text is a C string.
\<close>

theorem win_invariant:
  "win_reachable at p \<Longrightarrow>
     rarr_ok icon0 (wi_icons p) \<and> wi_icon_count p \<le> length (rarr_list (wi_icons p)) \<and>
     set (drop (wi_icon_count p) (rarr_list (wi_icons p))) \<subseteq> {icon0} \<and>
     rarr_ok type0 (wi_types p) \<and> rarr_list (wi_types p) \<noteq> [] \<and>
     (\<forall>t \<in> set (texts_of p). \<forall>s. t = Some s \<longrightarrow> no_nul s)"
  using win_reachable_inv [of at p] by (simp add: win_inv_def text_ok_def)

theorem win_invariant_witness:
  "rarr_ok icon0 (wi_icons (NETWinInfo sample_atoms mapped_server 42 77 1 1 Client))"
  using win_invariant [OF constructed] by blast

text \<open>
  \<^verbatim>\<open>hasWindowType()\<close> is true for every object, also for a window that has no type: the
  array of types always holds at least the \<^verbatim>\<open>Unknown\<close> the reader puts there first.
\<close>

theorem has_window_type_always:
  assumes "win_reachable at p"
  shows "hasWindowType p"
  using win_reachable_inv [OF assms]
  by (simp add: hasWindowType_def win_inv_def rarr_size_list [of type0])

theorem has_window_type_always_witness:
  "hasWindowType (NETWinInfo sample_atoms (\<lambda>_. None) 42 77 (prop_flag WMWindowType) 0 Client)"
  by (rule has_window_type_always) (rule constructed)

section \<open>What a reader never learns\<close>

text \<open>
  The flag for handled icons is a property one can watch and set, and its change is notified,
  but no update ever reads it.
\<close>

theorem handled_icons_never_read:
  "wi_handled_icons (win_update at srv p d1 d2) = wi_handled_icons p"
proof -
  have frame: "P (wi_handled_icons (run_direct srv d s)) = P (wi_handled_icons s)"
    if "d \<in> set (win_directs at p dirty dirty2)" for d s dirty dirty2 and P :: "bool \<Rightarrow> nat"
    using that
    by (auto simp: win_directs_def win_read_defs Let_def case_prod_beta readIcon_def apply_hints_def
        split: option.split xvalue.split)
  have "wi_handled_icons (run_direct srv d s) = wi_handled_icons s"
    if "d \<in> set (win_directs at p dirty dirty2)" for d s dirty dirty2
    using frame [OF that, of of_bool] by (simp only: of_bool_eq_iff)
  then have "wi_handled_icons (fold (run_direct srv) (win_directs at p x y) p) = wi_handled_icons p" for x y
    by (intro fold_invariant_in [where I = "\<lambda>s. wi_handled_icons s = wi_handled_icons p"]) simp_all
  then show ?thesis unfolding win_update_is_direct win_update_direct_def .
qed

end
