(* ===== verification/Timestamps.thy ===== *)
theory Timestamps
  imports Prelude
begin

text \<open>
  X timestamps (\<^verbatim>\<open>KXUtils::timestampCompare\<close> and
  \<^verbatim>\<open>timestampDiff\<close>, which \<^verbatim>\<open>NET\<close> re-exports): 32-bit milliseconds that wrap
  around, kept in a 64-bit \<^verbatim>\<open>unsigned long\<close> of which only the low half counts.
\<close>

definition timestampCompare :: "64 word \<Rightarrow> 64 word \<Rightarrow> int" where
  "timestampCompare t1 t2 =
     (let time1 = ucast t1 :: u32; time2 = ucast t2 :: u32
      in if time1 = time2 then 0
         else if time1 - time2 < 0x7fffffff then 1 else - 1)"

definition timestampDiff :: "64 word \<Rightarrow> 64 word \<Rightarrow> int" where
  "timestampDiff t1 t2 =
     (let time1 = ucast t1 :: u32; time2 = ucast t2 :: u32 in sint (time2 - time1))"

text \<open>\<open>t + k\<close> as the server's clock counts: in 32 bits, whatever the high half holds.\<close>

definition tick :: "64 word \<Rightarrow> u32 \<Rightarrow> 64 word" where
  "tick t k = ucast (ucast t + k :: u32)"

lemma low_tick [simp]: "(ucast (tick t k) :: u32) = ucast t + k"
proof -
  have "(ucast (ucast x :: 64 word) :: u32) = x" for x :: u32
    by (rule bit_word_eqI) (simp add: bit_unsigned_iff)
  then show ?thesis by (simp only: tick_def)
qed

lemma neg_less_half:
  fixes k :: u32
  assumes "k \<noteq> 0"
  shows "- k < 0x7fffffff \<longleftrightarrow> 0x80000001 < k"
proof -
  have u: "uint (- k) = 2 ^ 32 - uint k"
    using assms uint_bounded [of k] by (simp add: uint_word_ariths zmod_zminus1_eq_if word_uint_eq_iff)
  show ?thesis by (simp add: word_less_def u)
qed

text \<open>
  The comparison follows the clock across the wrap-around: a timestamp that is up to
  0x7ffffffe ticks later compares as later, the other way round as earlier, and the difference is
  the number of ticks.
\<close>

theorem timestamp_order:
  assumes "0 < k" "k < 0x7fffffff"
  shows "timestampCompare (tick t k) t = 1 \<and> timestampCompare t (tick t k) = - 1 \<and>
    timestampDiff t (tick t k) = uint k"
proof -
  have "k \<noteq> 0" using assms(1) by auto
  moreover have "\<not> - k < 0x7fffffff"
    using assms(2) neg_less_half [OF \<open>k \<noteq> 0\<close>] by (auto dest: less_trans)
  moreover have "sint k = uint k"
    using assms(2) by (simp add: word_less_def sint_uint signed_take_bit_int_eq_self_iff order_trans [of _ 0])
  ultimately show ?thesis
    using assms(2) by (simp add: timestampCompare_def timestampDiff_def Let_def)
qed

theorem timestamp_order_witness:
  "timestampCompare (tick 0xffffffff 5) 0xffffffff = 1"
  using timestamp_order [of 5 "0xffffffff"] by simp

text \<open>
  The comparison is antisymmetric but for three differences around half of the range, where
  each of the two timestamps is taken to be earlier than the other.
\<close>

theorem timestamp_antisymmetry:
  "timestampCompare a b = - timestampCompare b a \<longleftrightarrow>
     (ucast a - ucast b :: u32) \<notin> {0x7fffffff, 0x80000000, 0x80000001}"
proof -
  define d where "d = (ucast a - ucast b :: u32)"
  have swap: "(ucast b - ucast a :: u32) = - d" by (simp add: d_def)
  have eq: "(ucast a :: u32) = ucast b \<longleftrightarrow> d = 0" "(ucast b :: u32) = ucast a \<longleftrightarrow> d = 0"
    by (auto simp: d_def)
  show ?thesis
  proof (cases "d = 0")
    case True
    then show ?thesis by (simp add: timestampCompare_def eq d_def [symmetric])
  next
    case False
    have "d \<in> {0x7fffffff, 0x80000000, 0x80000001} \<longleftrightarrow> \<not> d < 0x7fffffff \<and> \<not> 0x80000001 < d"
    proof -
      have "d \<in> {0x7fffffff, 0x80000000, 0x80000001} \<longleftrightarrow>
          uint d \<in> {0x7fffffff, 0x80000000, 0x80000001}"
        by (simp add: word_uint_eq_iff)
      also have "\<dots> \<longleftrightarrow> \<not> uint d < 0x7fffffff \<and> \<not> 0x80000001 < uint d"
        unfolding insert_iff empty_iff by presburger
      finally show ?thesis by (simp add: word_less_def)
    qed
    moreover have "\<not> (d < 0x7fffffff \<and> 0x80000001 < d)"
      by (auto simp: word_less_def)
    ultimately show ?thesis
      using False by (auto simp: timestampCompare_def Let_def eq swap neg_less_half d_def [symmetric])
  qed
qed

end
