(* ===== verification/RefCount.thy ===== *)
theory RefCount
  imports Main
begin

text \<open>
  The reference counting of \<^verbatim>\<open>NETRootInfo\<close> and \<^verbatim>\<open>NETWinInfo\<close>: several
  handles share one private object, which the last one deletes.  Both classes have the same four
  operations.  The state is which private object each handle points to and the count of every
  private object that is allocated.
\<close>

section \<open>Operations\<close>

type_synonym handle = nat
type_synonym priv = nat

record ref_state =
  handles :: "handle \<rightharpoonup> priv"
  refs :: "priv \<rightharpoonup> nat"

definition no_objects :: ref_state where
  "no_objects = \<lparr>handles = Map.empty, refs = Map.empty\<rparr>"

text \<open>A constructor: a new private object with count 1.\<close>

definition ref_construct :: "handle \<Rightarrow> priv \<Rightarrow> ref_state \<Rightarrow> ref_state" where
  "ref_construct h p s = s\<lparr>handles := (handles s)(h \<mapsto> p), refs := (refs s)(p \<mapsto> 1)\<rparr>"

text \<open>\<^verbatim>\<open>p->ref++\<close>\<close>

definition ref_inc :: "priv \<Rightarrow> ref_state \<Rightarrow> ref_state" where
  "ref_inc p s = s\<lparr>refs := (refs s)(p \<mapsto> Suc (the (refs s p)))\<rparr>"

text \<open>\<^verbatim>\<open>refdec_nri(p); if (!p->ref) delete p;\<close>\<close>

definition ref_dec :: "priv \<Rightarrow> ref_state \<Rightarrow> ref_state" where
  "ref_dec p s =
     (let n = the (refs s p) - 1
      in s\<lparr>refs := (if n = 0 then (refs s)(p := None) else (refs s)(p \<mapsto> n))\<rparr>)"

definition ref_copy :: "handle \<Rightarrow> handle \<Rightarrow> ref_state \<Rightarrow> ref_state" where
  "ref_copy h other s =
     (let p = the (handles s other) in ref_inc p (s\<lparr>handles := (handles s)(h \<mapsto> p)\<rparr>))"

text \<open>\<^verbatim>\<open>operator=\<close>: the old object is released only if it is another one.\<close>

definition ref_assign :: "handle \<Rightarrow> handle \<Rightarrow> ref_state \<Rightarrow> ref_state" where
  "ref_assign h other s =
     (let p = the (handles s h); q = the (handles s other);
          s1 = (if p \<noteq> q then ref_dec p s else s)
      in ref_inc q (s1\<lparr>handles := (handles s1)(h \<mapsto> q)\<rparr>))"

definition ref_destroy :: "handle \<Rightarrow> ref_state \<Rightarrow> ref_state" where
  "ref_destroy h s =
     (let p = the (handles s h); s1 = ref_dec p s in s1\<lparr>handles := (handles s1)(h := None)\<rparr>)"

section \<open>The count\<close>

definition users :: "ref_state \<Rightarrow> priv \<Rightarrow> handle set" where
  "users s p = {h. handles s h = Some p}"

text \<open>Every count is the number of handles, and exactly the objects with handles are allocated.\<close>

definition exact :: "ref_state \<Rightarrow> bool" where
  "exact s \<longleftrightarrow> finite (dom (handles s)) \<and>
     (\<forall>p. refs s p = (if users s p = {} then None else Some (card (users s p))))"

lemma finite_users: "exact s \<Longrightarrow> finite (users s p)"
  unfolding exact_def users_def by (rule finite_subset [of _ "dom (handles s)"]) auto

lemma exact_refs:
  "exact s \<Longrightarrow> refs s p = (if users s p = {} then None else Some (card (users s p)))"
  unfolding exact_def by blast

lemma users_ops [simp]:
  "users (s\<lparr>handles := (handles s)(h \<mapsto> q)\<rparr>) p =
     (if p = q then insert h (users s p) else users s p - {h})"
  "users (s\<lparr>handles := (handles s)(h := None)\<rparr>) p = users s p - {h}"
  "users (s\<lparr>refs := r\<rparr>) p = users s p"
  "users (ref_inc q s) p = users s p" "users (ref_dec q s) p = users s p"
  "users (ref_construct h q s) p = (if p = q then insert h (users s p) else users s p - {h})"
  by (auto simp: users_def ref_inc_def ref_dec_def ref_construct_def Let_def)

lemma handles_ops [simp]:
  "handles (ref_inc q s) = handles s" "handles (ref_dec q s) = handles s"
  by (simp_all add: ref_inc_def ref_dec_def Let_def)

lemma refs_ops [simp]:
  "refs (ref_inc q s) p = (if p = q then Some (Suc (the (refs s p))) else refs s p)"
  "refs (ref_dec q s) p =
     (if p = q then (if the (refs s p) - 1 = 0 then None else Some (the (refs s p) - 1)) else refs s p)"
  by (simp_all add: ref_inc_def ref_dec_def Let_def)

lemma exactI:
  assumes "finite (dom (handles s))"
    and "\<And>p. refs s p = (if users s p = {} then None else Some (card (users s p)))"
  shows "exact s"
  using assms by (simp add: exact_def)

lemma exact_none: "exact no_objects"
  by (simp add: exact_def no_objects_def users_def)

lemma in_users: "h \<in> users s p \<longleftrightarrow> handles s h = Some p"
  by (simp add: users_def)

lemma exact_construct:
  assumes "exact s" "handles s h = None" "refs s p = None"
  shows "exact (ref_construct h p s)"
proof (rule exactI)
  have h: "h \<notin> users s q" for q using assms(2) by (simp add: in_users)
  have "users s p = {}" using exact_refs [OF assms(1), of p] assms(3) by (simp split: if_splits)
  then show "refs (ref_construct h p s) q =
      (if users (ref_construct h p s) q = {} then None
       else Some (card (users (ref_construct h p s) q)))" for q
    using exact_refs [OF assms(1), of q] h [of q] by (simp add: ref_construct_def [of h p s])
  show "finite (dom (handles (ref_construct h p s)))"
    using assms(1) by (simp add: exact_def ref_construct_def)
qed

lemma exact_copy:
  assumes "exact s" "handles s h = None" "handles s other = Some p"
  shows "exact (ref_copy h other s)"
proof (rule exactI)
  have h: "h \<notin> users s q" for q using assms(2) by (simp add: in_users)
  have "other \<in> users s p" using assms(3) by (simp add: in_users)
  then have p: "refs s p = Some (card (users s p))" using exact_refs [OF assms(1), of p] by auto
  show "refs (ref_copy h other s) q =
      (if users (ref_copy h other s) q = {} then None else Some (card (users (ref_copy h other s) q)))" for q
    using exact_refs [OF assms(1), of q] h [of p] h [of q] p assms(3) finite_users [OF assms(1), of p]
    by (simp add: ref_copy_def Let_def card_insert_disjoint)
  show "finite (dom (handles (ref_copy h other s)))"
    using assms(1) by (simp add: exact_def ref_copy_def Let_def)
qed

text \<open>What releasing and moving a handle does, object by object.\<close>

lemma released_count:
  assumes "finite U" "h \<in> U"
  shows "(if card U - 1 = 0 then None else Some (card U - 1)) =
    (if U - {h} = {} then None else Some (card (U - {h})))"
  using assms by (metis card_0_eq card_Diff_singleton finite_Diff)

lemma destroy_shape:
  assumes "handles s h = Some p"
  shows "users (ref_destroy h s) q = users s q - {h}"
    and "refs (ref_destroy h s) q =
      (if q = p then (if the (refs s p) - 1 = 0 then None else Some (the (refs s p) - 1)) else refs s q)"
    and "dom (handles (ref_destroy h s)) \<subseteq> dom (handles s)"
  using assms users_ops(2) [of "ref_dec p s" h q]
  by (simp_all add: ref_destroy_def Let_def)

lemma assign_shape:
  assumes "handles s h = Some p" "handles s other = Some q" "p \<noteq> q"
  shows "users (ref_assign h other s) r = (if r = q then insert h (users s r) else users s r - {h})"
    and "refs (ref_assign h other s) r =
      (if r = q then Some (Suc (the (refs s q)))
       else if r = p then (if the (refs s p) - 1 = 0 then None else Some (the (refs s p) - 1))
       else refs s r)"
    and "dom (handles (ref_assign h other s)) \<subseteq> insert h (dom (handles s))"
  using assms users_ops(1) [of "ref_dec p s" h q r]
  by (auto simp: ref_assign_def Let_def)

lemma exact_destroy:
  assumes "exact s" "handles s h = Some p"
  shows "exact (ref_destroy h s)"
proof (rule exactI)
  fix q
  have h: "h \<in> users s p" using assms(2) by (simp add: in_users)
  have p: "the (refs s p) = card (users s p)" using exact_refs [OF assms(1), of p] h by auto
  show "refs (ref_destroy h s) q =
      (if users (ref_destroy h s) q = {} then None else Some (card (users (ref_destroy h s) q)))"
  proof (cases "q = p")
    case True
    show ?thesis
      using released_count [OF finite_users [OF assms(1)] h]
      unfolding destroy_shape(1,2) [OF assms(2)] True p by simp
  next
    case False
    then have "h \<notin> users s q" using assms(2) by (simp add: in_users)
    with False show ?thesis
      unfolding destroy_shape(1,2) [OF assms(2)] using exact_refs [OF assms(1), of q] by simp
  qed
next
  show "finite (dom (handles (ref_destroy h s)))"
    using assms(1) destroy_shape(3) [OF assms(2)] finite_subset by (auto simp: exact_def)
qed

lemma exact_assign:
  assumes "exact s" "handles s h = Some p" "handles s other = Some q" "p \<noteq> q"
  shows "exact (ref_assign h other s)"
proof (rule exactI)
  fix r
  note shape = assign_shape(1,2) [OF assms(2-4)]
  have h: "h \<in> users s p" and o: "other \<in> users s q" and n: "h \<notin> users s q"
    using assms(2-4) by (simp_all add: in_users)
  have p: "the (refs s p) = card (users s p)" using exact_refs [OF assms(1), of p] h by auto
  have q: "the (refs s q) = card (users s q)" using exact_refs [OF assms(1), of q] o by auto
  consider "r = q" | "r = p" | "r \<noteq> q" "r \<noteq> p" by blast
  then show "refs (ref_assign h other s) r =
      (if users (ref_assign h other s) r = {} then None else Some (card (users (ref_assign h other s) r)))"
  proof cases
    case 1
    then show ?thesis
      unfolding shape using n q finite_users [OF assms(1), of q] by (simp add: card_insert_disjoint)
  next
    case 2
    then show ?thesis
      unfolding shape 2 p using assms(4) released_count [OF finite_users [OF assms(1)] h]
      by (simp only: refl if_True if_False)
  next
    case 3
    then have "h \<notin> users s r" using assms(2) by (simp add: in_users)
    with 3 show ?thesis unfolding shape using exact_refs [OF assms(1), of r] by simp
  qed
next
  show "finite (dom (handles (ref_assign h other s)))"
    using assms(1) assign_shape(3) [OF assms(2-4)] finite_subset by (auto simp: exact_def)
qed

section \<open>Programs with handles\<close>

text \<open>
  Sequences of operations on handles, without assignments between two handles of one object.
\<close>

inductive counted :: "ref_state \<Rightarrow> bool" where
  start: "counted no_objects"
| construct: "counted s \<Longrightarrow> handles s h = None \<Longrightarrow> refs s p = None \<Longrightarrow> counted (ref_construct h p s)"
| copy: "counted s \<Longrightarrow> handles s h = None \<Longrightarrow> handles s other = Some p \<Longrightarrow> counted (ref_copy h other s)"
| assign: "counted s \<Longrightarrow> handles s h = Some p \<Longrightarrow> handles s other = Some q \<Longrightarrow> p \<noteq> q \<Longrightarrow>
    counted (ref_assign h other s)"
| destroy: "counted s \<Longrightarrow> handles s h = Some p \<Longrightarrow> counted (ref_destroy h s)"

lemma counted_exact: "counted s \<Longrightarrow> exact s"
  by (induction rule: counted.induct)
    (simp_all add: exact_none exact_construct exact_copy exact_assign exact_destroy)

text \<open>
  C11.  As long as no handle is assigned to a handle of the same object, the count of every private
  object is the number of its handles: an object is freed exactly when its last handle goes.
\<close>

theorem refcount_exact:
  "counted s \<Longrightarrow>
     refs s p = (if users s p = {} then None else Some (card (users s p))) \<and> finite (users s p)"
  using counted_exact exact_refs finite_users by blast

theorem refcount_exact_witness:
  "refs (ref_copy 2 1 (ref_construct 1 7 no_objects)) 7 = Some 2"
proof -
  have "counted (ref_construct 1 7 no_objects)"
    by (rule construct [OF start]) (simp_all add: no_objects_def)
  then have "counted (ref_copy 2 1 (ref_construct 1 7 no_objects))"
    by (rule copy) (simp_all add: ref_construct_def no_objects_def)
  moreover have "users (ref_copy 2 1 (ref_construct 1 7 no_objects)) 7 = {1, 2}"
    by (auto simp: users_def ref_copy_def ref_inc_def ref_construct_def no_objects_def Let_def)
  ultimately show ?thesis using refcount_exact by fastforce
qed

text \<open>
  Assigning a handle to a handle of the same object, itself included, counts one use too many:
  once all handles are gone the object is still allocated, with count 1.
\<close>

theorem self_assignment_leaks:
  assumes "counted s" "handles s h = Some p" "users s p = {h}"
  shows "refs (ref_destroy h (ref_assign h h s)) p = Some 1 \<and>
    users (ref_destroy h (ref_assign h h s)) p = {}"
proof -
  from exact_refs [OF counted_exact [OF assms(1)], of p] assms(3) have "refs s p = Some 1" by simp
  with assms(2,3) show ?thesis
    by (auto simp: ref_destroy_def ref_assign_def ref_inc_def ref_dec_def Let_def users_def)
qed

theorem self_assignment_leaks_witness:
  "refs (ref_destroy 1 (ref_assign 1 1 (ref_construct 1 7 no_objects))) 7 = Some 1"
proof -
  have "counted (ref_construct 1 7 no_objects)"
    by (rule construct [OF start]) (simp_all add: no_objects_def)
  moreover have "users (ref_construct 1 7 no_objects) 7 = {1}"
    by (auto simp: users_def ref_construct_def no_objects_def)
  ultimately show ?thesis
    using self_assignment_leaks [of "ref_construct 1 7 no_objects" 1 7]
    by (simp add: ref_construct_def no_objects_def)
qed

end
