(* ===== verification/QtText.thy ===== *)
theory QtText
  imports Prelude
begin

text \<open>
  Texts of Qt.  A \<^verbatim>\<open>QString\<close> is the list of its UTF-16 code units, a
  \<^verbatim>\<open>QByteArray\<close> the list of its bytes.  Qt is not part of the repository: its
  conversions are the fields of \<open>qt\<close>, a parameter of every definition that calls
  them, and \<open>qt_ok\<close> says what is documented about them.
\<close>

section \<open>Code units\<close>

type_synonym u16 = "16 word"
type_synonym qstring = "u16 list"

definition qchar :: "char \<Rightarrow> u16" where
  "qchar c = of_nat (of_char c)"

definition qs :: "string \<Rightarrow> qstring" where
  "qs s = map qchar s"

lemma unat_qchar: "unat (qchar c) = of_char c"
  using nat_of_char_less_256 [of c]
  by (simp add: qchar_def unat_of_nat less_trans [where y = 256])

lemma qchar_inject [simp]: "qchar a = qchar b \<longleftrightarrow> a = b"
  by (metis of_char_eq_iff unat_qchar)

lemma qs_simps [simp]: "qs [] = []" "qs (c # s) = qchar c # qs s" "qs (s @ t) = qs s @ qs t"
  "length (qs s) = length s" "qs s = [] \<longleftrightarrow> s = []"
  by (simp_all add: qs_def)

lemma set_qs: "set (qs s) = qchar ` set s"
  by (simp add: qs_def)

lemma qs_inject [simp]: "qs s = qs t \<longleftrightarrow> s = t"
  unfolding qs_def by (rule inj_map_eq_map) (simp add: inj_def)

section \<open>Operations of the library\<close>

record qt =
  isSpace :: "u16 \<Rightarrow> bool"
  simplified :: "qstring \<Rightarrow> qstring"
  trimmed :: "qstring \<Rightarrow> qstring"
  toUtf8 :: "qstring \<Rightarrow> string"
  fromUtf8 :: "string \<Rightarrow> qstring"
  number :: "int \<Rightarrow> qstring"
  toLong :: "qstring \<Rightarrow> int option"
  toULong :: "qstring \<Rightarrow> int option"
  toLower :: "string \<Rightarrow> string"

text \<open>The words of a text: its longest pieces without white space.\<close>

fun split_on :: "('c \<Rightarrow> bool) \<Rightarrow> 'c list \<Rightarrow> 'c list list" where
  "split_on sp [] = [[]]"
| "split_on sp (c # cs) =
     (if sp c then [] # split_on sp cs
      else (case split_on sp cs of [] \<Rightarrow> [[c]] | w # ws \<Rightarrow> (c # w) # ws))"

definition words_of :: "('c \<Rightarrow> bool) \<Rightarrow> 'c list \<Rightarrow> 'c list list" where
  "words_of sp s = filter (\<lambda>w. w \<noteq> []) (split_on sp s)"

fun joined :: "'c \<Rightarrow> 'c list list \<Rightarrow> 'c list" where
  "joined c [] = []"
| "joined c [w] = w"
| "joined c (w # v # ws) = w @ c # joined c (v # ws)"

definition trim_end :: "('c \<Rightarrow> bool) \<Rightarrow> 'c list \<Rightarrow> 'c list" where
  "trim_end sp s = rev (dropWhile sp (rev s))"

text \<open>The code units a number is written with, and the visible characters of ASCII.\<close>

definition numeric :: "u16 \<Rightarrow> bool" where
  "numeric u \<longleftrightarrow> u \<in> set (qs ''-0123456789'')"

definition visible :: "char \<Rightarrow> bool" where
  "visible c \<longleftrightarrow> 33 \<le> (of_char c :: nat) \<and> (of_char c :: nat) \<le> 126"

text \<open>
  What Qt documents: \<^verbatim>\<open>simplified()\<close> joins the words with one space,
  \<^verbatim>\<open>trimmed()\<close> removes white space at both ends, the space is white and the visible
  characters are not, and a number of 64 bits is read back from its decimal form.
\<close>

definition qt_ok :: "qt \<Rightarrow> bool" where
  "qt_ok Q \<longleftrightarrow>
     (\<forall>s. simplified Q s = joined (qchar CHR '' '') (words_of (isSpace Q) s)) \<and>
     (\<forall>s. trimmed Q s = trim_end (isSpace Q) (dropWhile (isSpace Q) s)) \<and>
     isSpace Q (qchar CHR '' '') \<and> (\<forall>c. visible c \<longrightarrow> \<not> isSpace Q (qchar c)) \<and>
     (\<forall>n. - (2 ^ 63) \<le> n \<and> n < 2 ^ 63 \<longrightarrow> toLong Q (number Q n) = Some n) \<and>
     (\<forall>n. number Q n \<noteq> [] \<and> list_all numeric (number Q n))"

text \<open>A text that UTF-8 can carry: one without halves of surrogate pairs.\<close>

definition encodable :: "qt \<Rightarrow> qstring \<Rightarrow> bool" where
  "encodable Q s \<longleftrightarrow> fromUtf8 Q (toUtf8 Q s) = s"

section \<open>Words\<close>

lemma split_on_not_Nil [simp]: "split_on sp s \<noteq> []"
  by (cases s) (auto split: list.splits)

lemma split_on_sep: "sp c \<Longrightarrow> split_on sp (a @ c # b) = split_on sp a @ split_on sp b"
  by (induction a) (auto split: list.splits)

lemma split_on_word: "list_all (\<lambda>c. \<not> sp c) w \<Longrightarrow> split_on sp w = [w]"
  by (induction w) auto

lemma words_of_sep: "sp c \<Longrightarrow> words_of sp (a @ c # b) = words_of sp a @ words_of sp b"
  by (simp add: words_of_def split_on_sep)

lemma words_of_simps [simp]:
  "words_of sp [] = []" "sp c \<Longrightarrow> words_of sp (c # b) = words_of sp b"
  "list_all (\<lambda>c. \<not> sp c) w \<Longrightarrow> w \<noteq> [] \<Longrightarrow> words_of sp w = [w]"
  by (simp_all add: words_of_def split_on_word)

lemma words_of_snoc: "sp c \<Longrightarrow> words_of sp (a @ [c]) = words_of sp a"
  using words_of_sep [of sp c a "[]"] by simp

lemma words_of_trim_end [simp]: "words_of sp (trim_end sp s) = words_of sp s"
  by (induction s rule: rev_induct) (auto simp: trim_end_def words_of_snoc)

lemma trim_end_append: "w \<noteq> [] \<Longrightarrow> \<not> sp (last w) \<Longrightarrow> trim_end sp (w @ s) = w @ trim_end sp s"
  by (induction s rule: rev_induct) (auto simp: trim_end_def split: list.splits intro: rev_cases [of w])

lemma joined_append: "ws \<noteq> [] \<Longrightarrow> vs \<noteq> [] \<Longrightarrow> joined c (ws @ vs) = joined c ws @ c # joined c vs"
proof (induction ws rule: joined.induct)
  case (2 c w)
  then show ?case by (cases vs) auto
qed auto

text \<open>Pieces that are tidy in themselves are joined as they are.\<close>

lemma joined_words:
  assumes "list_all (\<lambda>p. p \<noteq> [] \<and> joined c (words_of sp p) = p) ps"
  shows "joined c (concat (map (words_of sp) ps)) = joined c ps"
  using assms
proof (induction ps)
  case (Cons p ps)
  then have p: "words_of sp p \<noteq> []" "joined c (words_of sp p) = p" by auto
  show ?case
  proof (cases ps)
    case Nil
    then show ?thesis using p by simp
  next
    case (Cons q qs)
    then have "words_of sp q \<noteq> []" using Cons.prems by auto
    then have "concat (map (words_of sp) ps) \<noteq> []" using Cons by simp
    then show ?thesis using p Cons Cons.IH Cons.prems by (simp add: joined_append)
  qed
qed simp

text \<open>Single spaces, and no other white space: such a text is tidy.\<close>

fun spaced :: "('c \<Rightarrow> bool) \<Rightarrow> 'c \<Rightarrow> 'c list \<Rightarrow> bool" where
  "spaced sp b [] \<longleftrightarrow> True"
| "spaced sp b [c] \<longleftrightarrow> (sp c \<longrightarrow> c = b)"
| "spaced sp b (c # d # s) \<longleftrightarrow> (sp c \<longrightarrow> c = b \<and> \<not> sp d) \<and> spaced sp b (d # s)"

lemma joined_split_on: "\<forall>c \<in> set s. sp c \<longrightarrow> c = b \<Longrightarrow> joined b (split_on sp s) = s"
proof (induction s)
  case (Cons c s)
  obtain w ws where w: "split_on sp s = w # ws" by (cases "split_on sp s") auto
  with Cons have "joined b (w # ws) = s" by simp
  with w Cons.prems show ?case by (cases ws) auto
qed simp

lemma spaced_only: "spaced sp b s \<Longrightarrow> c \<in> set s \<Longrightarrow> sp c \<Longrightarrow> c = b"
  by (induction sp b s rule: spaced.induct) auto

lemma spaced_no_empty_word:
  "spaced sp b s \<Longrightarrow> s \<noteq> [] \<Longrightarrow> \<not> sp (last s) \<Longrightarrow>
    [] \<notin> set (tl (split_on sp s)) \<and> (hd (split_on sp s) = [] \<longrightarrow> sp (hd s))"
proof (induction sp b s rule: spaced.induct)
  case (3 sp b c d s)
  then show ?case by (cases "split_on sp (d # s)") (auto split: if_splits)
qed auto

lemma tidy_words:
  assumes "spaced sp b s" "s \<noteq> []" "\<not> sp (hd s)" "\<not> sp (last s)"
  shows "joined b (words_of sp s) = s"
proof -
  have "[] \<notin> set (split_on sp s)"
    using spaced_no_empty_word [OF assms(1,2,4)] assms(3) by (cases "split_on sp s") auto
  then have "\<forall>w \<in> set (split_on sp s). w \<noteq> []" by blast
  then have "words_of sp s = split_on sp s" unfolding words_of_def by (rule filter_True)
  then show ?thesis using joined_split_on [of s sp b] spaced_only [OF assms(1)] by simp
qed

section \<open>An instance\<close>

text \<open>
  A small library that behaves as documented: ASCII texts, the white space of ASCII, decimal numbers.
\<close>

fun digits :: "nat \<Rightarrow> string" where
  "digits n = (if n < 10 then [''0123456789'' ! n] else digits (n div 10) @ [''0123456789'' ! (n mod 10)])"

declare digits.simps [simp del]

definition digits_value :: "qstring \<Rightarrow> int" where
  "digits_value s = foldl (\<lambda>a u. 10 * a + (uint u - 48)) 0 s"

definition sample_number :: "int \<Rightarrow> qstring" where
  "sample_number n = (if n < 0 then qs (CHR ''-'' # digits (nat (- n))) else qs (digits (nat n)))"

definition sample_toLong :: "qstring \<Rightarrow> int option" where
  "sample_toLong s =
     (case s of [] \<Rightarrow> None
      | u # rest \<Rightarrow> if u = qchar CHR ''-'' then Some (- digits_value rest) else Some (digits_value s))"

definition ascii_space :: "u16 \<Rightarrow> bool" where
  "ascii_space u \<longleftrightarrow> u = 32 \<or> (9 \<le> u \<and> u \<le> 13)"

definition sample_qt :: qt where
  "sample_qt = \<lparr>isSpace = ascii_space,
     simplified = (\<lambda>s. joined (qchar CHR '' '') (words_of ascii_space s)),
     trimmed = (\<lambda>s. trim_end ascii_space (dropWhile ascii_space s)),
     toUtf8 = map (\<lambda>u. char_of (unat u)), fromUtf8 = qs, number = sample_number,
     toLong = sample_toLong, toULong = sample_toLong, toLower = (\<lambda>s. s)\<rparr>"

lemma digits_value_snoc: "digits_value (s @ [u]) = 10 * digits_value s + (uint u - 48)"
  by (simp add: digits_value_def)

lemma uint_qchar_digit:
  assumes "n < 10"
  shows "uint (qchar (''0123456789'' ! n)) = 48 + int n"
proof -
  have "n \<in> {0, 1, 2, 3, 4, 5, 6, 7, 8, 9}" using assms by auto
  then have "(of_char (''0123456789'' ! n) :: nat) = 48 + n"
    by (elim insertE) simp_all
  then show ?thesis by (simp add: uint_nat unat_qchar)
qed

lemma digits_roundtrip: "digits_value (qs (digits n)) = int n"
proof (induction n rule: digits.induct)
  case (1 n)
  show ?case
  proof (cases "n < 10")
    case True
    have "digits_value (qs (digits n)) = digits_value ([] @ [qchar (''0123456789'' ! n)])"
      by (subst digits.simps) (simp add: True)
    also have "\<dots> = int n"
      unfolding digits_value_snoc uint_qchar_digit [OF True] by (simp add: digits_value_def)
    finally show ?thesis .
  next
    case False
    have "digits_value (qs (digits n)) =
        10 * digits_value (qs (digits (n div 10))) + (uint (qchar (''0123456789'' ! (n mod 10))) - 48)"
      by (subst digits.simps) (simp add: False digits_value_snoc)
    also have "\<dots> = int (10 * (n div 10) + n mod 10)"
      unfolding of_nat_add of_nat_mult
      using 1 [OF False] uint_qchar_digit [of "n mod 10"] by (simp only:)
    also have "10 * (n div 10) + n mod 10 = n" by simp
    finally show ?thesis .
  qed
qed

lemma digits_chars: "digits n \<noteq> [] \<and> set (digits n) \<subseteq> set ''0123456789''"
proof (induction n rule: digits.induct)
  case (1 n)
  have ten: "m < 10 \<Longrightarrow> ''0123456789'' ! m \<in> set ''0123456789''" for m
    by (rule nth_mem) simp
  show ?case
  proof (cases "n < 10")
    case True
    then show ?thesis using ten [of n] unfolding digits.simps [of n] by simp
  next
    case False
    have "set [''0123456789'' ! (n mod 10)] \<subseteq> set ''0123456789''"
      using ten [of "n mod 10"] by (simp only: list.set(1) list.set(2) [of _ "[]"]) simp
    then show ?thesis
      using 1 [OF False] False unfolding digits.simps [of n] by (simp del: list.set)
  qed
qed

lemma numeric_chars: "set s \<subseteq> set ''-0123456789'' \<Longrightarrow> list_all numeric (qs s)"
  unfolding list_all_iff numeric_def set_qs by blast

lemma digit_or_sign: "set ''0123456789'' \<subseteq> set ''-0123456789''"
  by auto

lemma sample_number_ok:
  "sample_toLong (sample_number n) = Some n"
  "sample_number n \<noteq> []" "list_all numeric (sample_number n)"
proof -
  have nonempty: "sample_number m \<noteq> []" for m
    using digits_chars [of "nat m"] by (simp add: sample_number_def)
  show "sample_number n \<noteq> []" by (rule nonempty)
  have all: "set (digits k) \<subseteq> set ''-0123456789''" for k
    using digits_chars [of k] digit_or_sign by blast
  have "set (CHR ''-'' # digits k) \<subseteq> set ''-0123456789''" for k
    using all [of k] by (simp only: list.set insert_subset) simp
  then have signed: "list_all numeric (qs (CHR ''-'' # digits k))" for k by (rule numeric_chars)
  have "list_all numeric (qs (digits k))" for k using all by (rule numeric_chars)
  with signed show "list_all numeric (sample_number n)"
    unfolding sample_number_def by (simp del: qs_simps)
  show "sample_toLong (sample_number n) = Some n"
  proof (cases "n < 0")
    case True
    then show ?thesis by (simp add: sample_toLong_def sample_number_def digits_roundtrip)
  next
    case False
    obtain c cs where c: "digits (nat n) = c # cs"
      using digits_chars [of "nat n"] by (cases "digits (nat n)") auto
    then have "c \<in> set ''0123456789''"
      using digits_chars [of "nat n"] by (simp del: list.set add: list.set(2) [of c cs])
    then have "c \<noteq> CHR ''-''" by auto
    with c False show ?thesis
      using digits_roundtrip [of "nat n"] by (simp add: sample_toLong_def sample_number_def)
  qed
qed

lemma ascii_space_qchar:
  "ascii_space (qchar c) \<longleftrightarrow> (of_char c :: nat) = 32 \<or> (9 \<le> (of_char c :: nat) \<and> (of_char c :: nat) \<le> 13)"
  by (simp add: ascii_space_def word_le_nat_alt unat_qchar word_unat_eq_iff)

lemma qt_ok_sample: "qt_ok sample_qt"
  by (auto simp: qt_ok_def sample_qt_def sample_number_ok ascii_space_qchar visible_def)

lemma encodable_sample [simp]: "encodable sample_qt (qs s)"
  by (simp add: encodable_def sample_qt_def qs_def o_def unat_qchar)

lemma sample_toUtf8: "toUtf8 sample_qt (qs s) = s"
  by (simp add: sample_qt_def qs_def o_def unat_qchar)

end
