(* ===== verification/StartupText.thy ===== *)
theory StartupText
  imports Prelude QtText
begin

text \<open>
  The text form of startup notifications in kstartupinfo.cpp: \<^verbatim>\<open>KStartupInfoId\<close> and
  \<^verbatim>\<open>KStartupInfoData\<close>, their \<^verbatim>\<open>to_text\<close>, the parser
  \<^verbatim>\<open>get_fields\<close> with \<^verbatim>\<open>get_str\<close>, \<^verbatim>\<open>get_cstr\<close>,
  \<^verbatim>\<open>get_num\<close>, the constructors from a text, and the merging of data by
  \<^verbatim>\<open>update\<close>.
\<close>

section \<open>Data\<close>

datatype tri_state = Yes | No | SilentUnknown

record startup_data =
  sd_bin :: qstring
  sd_name :: qstring
  sd_description :: qstring
  sd_icon :: qstring
  sd_desktop :: i32
  sd_pids :: "i32 list"
  sd_wmclass :: string
  sd_hostname :: string
  sd_silent :: tri_state
  sd_screen :: i32
  sd_xinerama :: i32
  sd_application_id :: qstring

definition KStartupInfoData :: startup_data where
  "KStartupInfoData = \<lparr>sd_bin = [], sd_name = [], sd_description = [], sd_icon = [], sd_desktop = 0,
     sd_pids = [], sd_wmclass = [], sd_hostname = [], sd_silent = SilentUnknown, sd_screen = - 1,
     sd_xinerama = - 1, sd_application_id = []\<rparr>"

definition isNull :: "string \<Rightarrow> bool" where
  "isNull i \<longleftrightarrow> i = [] \<or> i = ''0''"

definition addPid :: "i32 \<Rightarrow> startup_data \<Rightarrow> startup_data" where
  "addPid pid d = (if pid \<in> set (sd_pids d) then d else d\<lparr>sd_pids := sd_pids d @ [pid]\<rparr>)"

definition remove_pid :: "i32 \<Rightarrow> startup_data \<Rightarrow> startup_data" where
  "remove_pid pid d = d\<lparr>sd_pids := removeAll pid (sd_pids d)\<rparr>"

definition is_pid :: "startup_data \<Rightarrow> i32 \<Rightarrow> bool" where
  "is_pid d pid \<longleftrightarrow> pid \<in> set (sd_pids d)"

definition findName :: "startup_data \<Rightarrow> qstring" where
  "findName d = (if sd_name d \<noteq> [] then sd_name d else sd_bin d)"

definition findDescription :: "startup_data \<Rightarrow> qstring" where
  "findDescription d = (if sd_description d \<noteq> [] then sd_description d else sd_name d)"

definition findIcon :: "startup_data \<Rightarrow> qstring" where
  "findIcon d = (if sd_icon d \<noteq> [] then sd_icon d else sd_bin d)"

definition findWMClass :: "qt \<Rightarrow> startup_data \<Rightarrow> string" where
  "findWMClass Q d =
     (if sd_wmclass d \<noteq> [] \<and> sd_wmclass d \<noteq> ''0'' then sd_wmclass d else toUtf8 Q (sd_bin d))"

section \<open>Merging\<close>

definition update_data :: "startup_data \<Rightarrow> startup_data \<Rightarrow> startup_data" where
  "update_data d n =
     fold addPid (sd_pids n)
       (d\<lparr>sd_bin := (if sd_bin n \<noteq> [] then sd_bin n else sd_bin d),
          sd_name := (if sd_name n \<noteq> [] \<and> sd_name d = [] then sd_name n else sd_name d),
          sd_description := (if sd_description n \<noteq> [] \<and> sd_description d = []
             then sd_description n else sd_description d),
          sd_icon := (if sd_icon n \<noteq> [] \<and> sd_icon d = [] then sd_icon n else sd_icon d),
          sd_desktop := (if sd_desktop n \<noteq> 0 \<and> sd_desktop d = 0 then sd_desktop n else sd_desktop d),
          sd_wmclass := (if sd_wmclass n \<noteq> [] then sd_wmclass n else sd_wmclass d),
          sd_hostname := (if sd_hostname n \<noteq> [] then sd_hostname n else sd_hostname d),
          sd_silent := (if sd_silent n \<noteq> SilentUnknown then sd_silent n else sd_silent d),
          sd_screen := (if sd_screen n \<noteq> - 1 then sd_screen n else sd_screen d),
          sd_xinerama := (if sd_xinerama n \<noteq> - 1 \<and> sd_xinerama d \<noteq> - 1
             then sd_xinerama n else sd_xinerama d),
          sd_application_id := (if sd_application_id n \<noteq> [] \<and> sd_application_id d = []
             then sd_application_id n else sd_application_id d)\<rparr>)"

section \<open>Printing\<close>

abbreviation quote :: char where "quote \<equiv> CHR 0x22"
abbreviation backslash :: char where "backslash \<equiv> CHR 0x5C"

fun escape_str :: "qstring \<Rightarrow> qstring" where
  "escape_str [] = []"
| "escape_str (c # cs) =
     (if c = qchar backslash \<or> c = qchar quote then [qchar backslash] else []) @ c # escape_str cs"

definition quoted :: "string \<Rightarrow> qstring \<Rightarrow> qstring" where
  "quoted key v = qs ('' '' @ key @ ''='' @ [quote]) @ v @ qs [quote]"

definition plain :: "string \<Rightarrow> qstring \<Rightarrow> qstring" where
  "plain key v = qs ('' '' @ key @ ''='') @ v"

definition id_to_text :: "qt \<Rightarrow> string \<Rightarrow> qstring" where
  "id_to_text Q i = quoted ''ID'' (escape_str (fromUtf8 Q i)) @ qs '' ''"

definition num :: "qt \<Rightarrow> i32 \<Rightarrow> qstring" where
  "num Q n = number Q (sint n)"

definition data_to_text :: "qt \<Rightarrow> startup_data \<Rightarrow> qstring" where
  "data_to_text Q d =
     (if sd_bin d \<noteq> [] then quoted ''BIN'' (escape_str (sd_bin d)) else []) @
     (if sd_name d \<noteq> [] then quoted ''NAME'' (escape_str (sd_name d)) else []) @
     (if sd_description d \<noteq> [] then quoted ''DESCRIPTION'' (escape_str (sd_description d)) else []) @
     (if sd_icon d \<noteq> [] then quoted ''ICON'' (sd_icon d) else []) @
     (if sd_desktop d \<noteq> 0
      then plain ''DESKTOP'' (num Q (if sd_desktop d = - 1 then - 1 else sd_desktop d - 1)) else []) @
     (if sd_wmclass d \<noteq> [] then quoted ''WMCLASS'' (fromUtf8 Q (sd_wmclass d)) else []) @
     (if sd_hostname d \<noteq> [] then plain ''HOSTNAME'' (fromUtf8 Q (sd_hostname d)) else []) @
     concat (map (\<lambda>pid. plain ''PID'' (num Q pid)) (sd_pids d)) @
     (if sd_silent d \<noteq> SilentUnknown
      then plain ''SILENT'' (num Q (if sd_silent d = Yes then 1 else 0)) else []) @
     (if sd_screen d \<noteq> - 1 then plain ''SCREEN'' (num Q (sd_screen d)) else []) @
     (if sd_xinerama d \<noteq> - 1 then plain ''XINERAMA'' (num Q (sd_xinerama d)) else []) @
     (if sd_application_id d \<noteq> [] then quoted ''APPLICATION_ID'' (sd_application_id d) else [])"

section \<open>Parsing\<close>

fun startsWith :: "'c list \<Rightarrow> 'c list \<Rightarrow> bool" where
  "startsWith [] s \<longleftrightarrow> True"
| "startsWith (p # ps) [] \<longleftrightarrow> False"
| "startsWith (p # ps) (c # cs) \<longleftrightarrow> p = c \<and> startsWith ps cs"

text \<open>The loop of \<^verbatim>\<open>get_fields\<close>: whether it is in quotes, after a backslash, the item and the fields.\<close>

fun fields_loop :: "qstring \<Rightarrow> bool \<Rightarrow> bool \<Rightarrow> qstring \<Rightarrow> qstring list \<Rightarrow> qstring list" where
  "fields_loop [] inq escape item ret = ret @ [item]"
| "fields_loop (c # cs) inq escape item ret =
     (if escape then fields_loop cs inq False (item @ [c]) ret
      else if c = qchar backslash then fields_loop cs inq True item ret
      else if c = qchar quote then fields_loop cs (\<not> inq) False item ret
      else if c = qchar CHR '' '' \<and> \<not> inq then fields_loop cs inq False [] (ret @ [item])
      else fields_loop cs inq False (item @ [c]) ret)"

definition get_fields :: "qt \<Rightarrow> qstring \<Rightarrow> qstring list" where
  "get_fields Q txt = fields_loop (simplified Q txt) False False [] []"

text \<open>What follows the first \<^verbatim>\<open>=\<close>, or all of the item.\<close>

definition get_str :: "qstring \<Rightarrow> qstring" where
  "get_str item =
     (if qchar CHR ''='' \<in> set item then tl (dropWhile (\<lambda>c. c \<noteq> qchar CHR ''='') item) else item)"

definition get_cstr :: "qt \<Rightarrow> qstring \<Rightarrow> string" where
  "get_cstr Q item = toUtf8 Q (get_str item)"

definition get_num :: "qt \<Rightarrow> qstring \<Rightarrow> int" where
  "get_num Q item = (case toLong Q (get_str item) of Some n \<Rightarrow> n | None \<Rightarrow> 0)"

definition id_of_text :: "qt \<Rightarrow> qstring \<Rightarrow> string" where
  "id_of_text Q txt =
     fold (\<lambda>it i. if startsWith (qs ''ID='') it then get_cstr Q it else i) (get_fields Q txt) []"

definition parse_item :: "qt \<Rightarrow> qstring \<Rightarrow> startup_data \<Rightarrow> startup_data" where
  "parse_item Q it d =
     (if startsWith (qs ''BIN='') it then d\<lparr>sd_bin := get_str it\<rparr>
      else if startsWith (qs ''NAME='') it then d\<lparr>sd_name := get_str it\<rparr>
      else if startsWith (qs ''DESCRIPTION='') it then d\<lparr>sd_description := get_str it\<rparr>
      else if startsWith (qs ''ICON='') it then d\<lparr>sd_icon := get_str it\<rparr>
      else if startsWith (qs ''DESKTOP='') it
        then (let n = word_of_int (get_num Q it) in d\<lparr>sd_desktop := (if n \<noteq> - 1 then n + 1 else n)\<rparr>)
      else if startsWith (qs ''WMCLASS='') it then d\<lparr>sd_wmclass := get_cstr Q it\<rparr>
      else if startsWith (qs ''HOSTNAME='') it then d\<lparr>sd_hostname := get_cstr Q it\<rparr>
      else if startsWith (qs ''PID='') it then addPid (word_of_int (get_num Q it)) d
      else if startsWith (qs ''SILENT='') it
        then d\<lparr>sd_silent := (if get_num Q it \<noteq> 0 then Yes else No)\<rparr>
      else if startsWith (qs ''SCREEN='') it then d\<lparr>sd_screen := word_of_int (get_num Q it)\<rparr>
      else if startsWith (qs ''XINERAMA='') it then d\<lparr>sd_xinerama := word_of_int (get_num Q it)\<rparr>
      else if startsWith (qs ''APPLICATION_ID='') it then d\<lparr>sd_application_id := get_str it\<rparr>
      else d)"

definition data_of_text :: "qt \<Rightarrow> qstring \<Rightarrow> startup_data" where
  "data_of_text Q txt = fold (parse_item Q) (get_fields Q txt) KStartupInfoData"

section \<open>Reading back a field\<close>

text \<open>
  A token is a field as the parser cuts it out of the text; \<open>scans p t\<close> says that the
  characters \<open>p\<close> are read as the token \<open>t\<close>.
\<close>

definition scans :: "qstring \<Rightarrow> qstring \<Rightarrow> bool" where
  "scans p t \<longleftrightarrow> (\<forall>cs ret. fields_loop (p @ cs) False False [] ret = fields_loop cs False False t ret)"

definition special :: "u16 \<Rightarrow> bool" where
  "special c \<longleftrightarrow> c = qchar backslash \<or> c = qchar quote \<or> c = qchar CHR '' ''"

lemma fields_plain:
  "list_all (\<lambda>c. \<not> special c) s \<Longrightarrow>
    fields_loop (s @ cs) False False item ret = fields_loop cs False False (item @ s) ret"
  by (induction s arbitrary: item) (simp_all add: special_def)

lemma fields_escaped:
  "fields_loop (escape_str v @ cs) True False item ret = fields_loop cs True False (item @ v) ret"
  by (induction v arbitrary: item) simp_all

lemma fields_raw:
  "list_all (\<lambda>c. c \<noteq> qchar backslash \<and> c \<noteq> qchar quote) v \<Longrightarrow>
    fields_loop (v @ cs) True False item ret = fields_loop cs True False (item @ v) ret"
  by (induction v arbitrary: item) simp_all

lemma fields_quote:
  "fields_loop (qchar quote # cs) inq False item ret = fields_loop cs (\<not> inq) False item ret"
  by simp

definition key_ok :: "string \<Rightarrow> bool" where
  "key_ok k \<longleftrightarrow> list_all (\<lambda>c. visible c \<and> c \<noteq> quote \<and> c \<noteq> backslash \<and> c \<noteq> CHR ''='') k"

lemma list_all_qs: "list_all P (qs s) \<longleftrightarrow> list_all (\<lambda>c. P (qchar c)) s"
  by (simp add: qs_def list.pred_map o_def)

lemma visible_not_special: "visible c \<Longrightarrow> c \<noteq> quote \<Longrightarrow> c \<noteq> backslash \<Longrightarrow> \<not> special (qchar c)"
  by (auto simp: special_def visible_def)

lemma key_not_special: "key_ok k \<Longrightarrow> list_all (\<lambda>c. \<not> special c) (qs (k @ ''=''))"
  unfolding key_ok_def list_all_iff set_qs
  using visible_not_special by (auto simp: special_def visible_def)

abbreviation tok :: "string \<Rightarrow> qstring \<Rightarrow> qstring" where
  "tok k v \<equiv> qs (k @ ''='') @ v"

definition body :: "qstring \<Rightarrow> qstring" where
  "body v = qchar quote # v @ [qchar quote]"

lemma scans_escaped: "key_ok k \<Longrightarrow> scans (qs (k @ ''='') @ body (escape_str v)) (tok k v)"
  using fields_plain [OF key_not_special]
  by (simp add: scans_def body_def fields_escaped fields_quote del: qs_simps fields_loop.simps)

lemma scans_raw:
  "key_ok k \<Longrightarrow> list_all (\<lambda>c. c \<noteq> qchar backslash \<and> c \<noteq> qchar quote) v \<Longrightarrow>
    scans (qs (k @ ''='') @ body v) (tok k v)"
  using fields_plain [OF key_not_special]
  by (simp add: scans_def body_def fields_raw fields_quote del: qs_simps fields_loop.simps)

lemma scans_plain:
  "key_ok k \<Longrightarrow> list_all (\<lambda>c. \<not> special c) v \<Longrightarrow> scans (tok k v) (tok k v)"
  using fields_plain [OF key_not_special] fields_plain [of v]
  by (simp add: scans_def del: qs_simps fields_loop.simps)

lemma fields_of_scans:
  "list_all2 scans ps ts \<Longrightarrow> ps \<noteq> [] \<Longrightarrow>
    fields_loop (joined (qchar CHR '' '') ps) False False [] ret = ret @ ts"
proof (induction "qchar CHR '' ''" ps arbitrary: ts ret rule: joined.induct)
  case (2 p)
  then obtain t where t: "ts = [t]" "scans p t" by (auto simp: list_all2_Cons1)
  from t(2) [unfolded scans_def, rule_format, of "[]" ret] t(1) show ?case by simp
next
  case (3 p q ps)
  then obtain t us where t: "ts = t # us" "scans p t" "list_all2 scans (q # ps) us"
    by (auto simp: list_all2_Cons1)
  have step: "fields_loop (qchar CHR '' '' # cs) False False t ret = fields_loop cs False False [] (ret @ [t])" for cs
    by simp
  show ?case
    using 3(1) [OF t(3), of "ret @ [t]"] t(1,2) unfolding scans_def joined.simps
    by (simp add: step del: fields_loop.simps)
qed simp

lemma get_str_tok: "key_ok k \<Longrightarrow> get_str (tok k v) = v"
proof -
  assume "key_ok k"
  then have k: "\<forall>c \<in> set (qs k). c \<noteq> qchar CHR ''=''"
    by (auto simp: key_ok_def list_all_iff set_qs)
  have "dropWhile (\<lambda>c. c \<noteq> qchar CHR ''='') (qs k @ qchar CHR ''='' # v) = qchar CHR ''='' # v"
    using k by (induction k) auto
  then show ?thesis by (simp add: get_str_def)
qed

section \<open>Tidy pieces\<close>

abbreviation tidy :: "qt \<Rightarrow> qstring \<Rightarrow> bool" where
  "tidy Q s \<equiv> spaced (isSpace Q) (qchar CHR '' '') s"

abbreviation nospace :: "qt \<Rightarrow> qstring \<Rightarrow> bool" where
  "nospace Q s \<equiv> list_all (\<lambda>c. \<not> isSpace Q c) s"

lemma spaced_if_none: "list_all (\<lambda>c. \<not> sp c) s \<Longrightarrow> spaced sp b s"
  by (induction sp b s rule: spaced.induct) auto

lemma spaced_snoc: "spaced sp b s \<Longrightarrow> \<not> sp c \<Longrightarrow> spaced sp b (s @ [c])"
  by (induction sp b s rule: spaced.induct) auto

lemma spaced_prepend: "list_all (\<lambda>c. \<not> sp c) p \<Longrightarrow> spaced sp b s \<Longrightarrow> spaced sp b (p @ s)"
proof (induction p)
  case (Cons c p)
  then show ?case by (cases "p @ s") auto
qed simp

lemma spaced_escape:
  "spaced sp b s \<Longrightarrow> \<not> sp (qchar backslash) \<Longrightarrow> spaced sp b (escape_str s)"
proof (induction sp b s rule: spaced.induct)
  case (3 sp b c d s)
  then show ?case by (cases "escape_str (d # s)") (auto split: if_splits)
qed auto

definition piece_ok :: "qt \<Rightarrow> qstring \<Rightarrow> qstring \<Rightarrow> bool" where
  "piece_ok Q p t \<longleftrightarrow> scans p t \<and> p \<noteq> [] \<and> joined (qchar CHR '' '') (words_of (isSpace Q) p) = p"

lemma qt_spaces:
  assumes "qt_ok Q"
  shows "isSpace Q (qchar CHR '' '')" "visible c \<Longrightarrow> \<not> isSpace Q (qchar c)"
    "\<not> isSpace Q (qchar quote)" "\<not> isSpace Q (qchar backslash)" "\<not> isSpace Q (qchar CHR ''='')"
proof -
  show all: "visible c \<Longrightarrow> \<not> isSpace Q (qchar c)" for c using assms by (simp add: qt_ok_def)
  show "isSpace Q (qchar CHR '' '')" using assms by (simp add: qt_ok_def)
  show "\<not> isSpace Q (qchar quote)" "\<not> isSpace Q (qchar backslash)" "\<not> isSpace Q (qchar CHR ''='')"
    by (rule all; simp add: visible_def)+
qed

lemma key_nospace: "qt_ok Q \<Longrightarrow> key_ok k \<Longrightarrow> nospace Q (qs (k @ ''=''))"
  using qt_spaces(2,5) [of Q] by (auto simp: key_ok_def list_all_iff set_qs)

lemma tidy_piece:
  assumes "qt_ok Q" "key_ok k" "tidy Q v" "v \<noteq> [] \<Longrightarrow> \<not> isSpace Q (last v)"
  shows "joined (qchar CHR '' '') (words_of (isSpace Q) (qs (k @ ''='') @ v)) = qs (k @ ''='') @ v"
proof (rule tidy_words)
  have k: "nospace Q (qs (k @ ''=''))" by (rule key_nospace [OF assms(1,2)])
  show "tidy Q (qs (k @ ''='') @ v)" by (rule spaced_prepend [OF k assms(3)])
  show "qs (k @ ''='') @ v \<noteq> []" by simp
  have "hd (qs (k @ ''='') @ v) \<in> set (qs (k @ ''=''))" by (cases k) simp_all
  then show "\<not> isSpace Q (hd (qs (k @ ''='') @ v))" using k by (auto simp: list_all_iff)
  show "\<not> isSpace Q (last (qs (k @ ''='') @ v))"
    using assms(4) qt_spaces(5) [OF assms(1)] by (simp add: last_append)
qed

lemma tidy_body: "qt_ok Q \<Longrightarrow> tidy Q v \<Longrightarrow> tidy Q (body v) \<and> \<not> isSpace Q (last (body v))"
  using spaced_prepend [of "isSpace Q" "[qchar quote]" "qchar CHR '' ''" "v @ [qchar quote]"]
    spaced_snoc [of "isSpace Q" "qchar CHR '' ''" v "qchar quote"]
  by (simp add: body_def qt_spaces(3))

lemma piece_escaped:
  assumes "qt_ok Q" "key_ok k" "tidy Q v"
  shows "piece_ok Q (qs (k @ ''='') @ body (escape_str v)) (tok k v)"
  using scans_escaped [OF assms(2)] tidy_piece [OF assms(1,2)]
    tidy_body [OF assms(1) spaced_escape [OF assms(3) qt_spaces(4) [OF assms(1)]]]
  by (simp add: piece_ok_def del: qs_simps) simp

lemma piece_raw:
  assumes "qt_ok Q" "key_ok k" "tidy Q v" "list_all (\<lambda>c. c \<noteq> qchar backslash \<and> c \<noteq> qchar quote) v"
  shows "piece_ok Q (qs (k @ ''='') @ body v) (tok k v)"
  using scans_raw [OF assms(2,4)] tidy_piece [OF assms(1,2)] tidy_body [OF assms(1,3)]
  by (simp add: piece_ok_def del: qs_simps) simp

lemma piece_plain:
  assumes "qt_ok Q" "key_ok k" "nospace Q v" "list_all (\<lambda>c. c \<noteq> qchar backslash \<and> c \<noteq> qchar quote) v"
  shows "piece_ok Q (tok k v) (tok k v)"
proof -
  have "list_all (\<lambda>c. \<not> special c) v"
    using assms(3,4) qt_spaces(1) [OF assms(1)] by (auto simp: list_all_iff special_def)
  moreover have "v \<noteq> [] \<Longrightarrow> \<not> isSpace Q (last v)" using assms(3) by (simp add: list_all_iff)
  ultimately show ?thesis
    using scans_plain [OF assms(2)] tidy_piece [OF assms(1,2) spaced_if_none [OF assms(3)]]
    by (simp add: piece_ok_def del: qs_simps) simp
qed

lemma piece_num:
  assumes "qt_ok Q" "key_ok k"
  shows "piece_ok Q (tok k (num Q n)) (tok k (num Q n))"
proof -
  have n: "list_all numeric (num Q n)" using assms(1) by (simp add: qt_ok_def num_def)
  have "\<forall>c \<in> set ''-0123456789''. visible c \<and> c \<noteq> quote \<and> c \<noteq> backslash"
    by (simp add: visible_def)
  with n have "list_all (\<lambda>c. \<exists>a. c = qchar a \<and> visible a \<and> a \<noteq> quote \<and> a \<noteq> backslash) (num Q n)"
    unfolding list_all_iff numeric_def set_qs by blast
  then have "nospace Q (num Q n)" "list_all (\<lambda>c. c \<noteq> qchar backslash \<and> c \<noteq> qchar quote) (num Q n)"
    using qt_spaces(2) [OF assms(1)] by (auto simp: list_all_iff)
  then show ?thesis by (rule piece_plain [OF assms])
qed

lemma fields_of_pieces:
  assumes "qt_ok Q" "list_all2 (piece_ok Q) ps ts" "ps \<noteq> []" "words_of (isSpace Q) s = concat (map (words_of (isSpace Q)) ps)"
  shows "get_fields Q s = ts"
proof -
  have "list_all (\<lambda>p. p \<noteq> [] \<and> joined (qchar CHR '' '') (words_of (isSpace Q) p) = p) ps"
    using assms(2) by (auto simp: list_all_iff piece_ok_def list_all2_conv_all_nth in_set_conv_nth)
  from joined_words [OF this] have "simplified Q s = joined (qchar CHR '' '') ps"
    using assms(1,4) by (simp add: qt_ok_def)
  moreover have "list_all2 scans ps ts"
    using assms(2) by (rule list_all2_mono) (simp add: piece_ok_def)
  ultimately show ?thesis using fields_of_scans [of ps ts "[]"] assms(3) by (simp add: get_fields_def)
qed

section \<open>The fields of a notification\<close>

text \<open>Each field as it is printed and as the parser hands it on.\<close>

definition escaped_field :: "string \<Rightarrow> qstring \<Rightarrow> qstring \<times> qstring" where
  "escaped_field k v = (qs (k @ ''='') @ body (escape_str v), tok k v)"

definition raw_field :: "string \<Rightarrow> qstring \<Rightarrow> qstring \<times> qstring" where
  "raw_field k v = (qs (k @ ''='') @ body v, tok k v)"

definition plain_field :: "string \<Rightarrow> qstring \<Rightarrow> qstring \<times> qstring" where
  "plain_field k v = (tok k v, tok k v)"

definition data_fields :: "qt \<Rightarrow> startup_data \<Rightarrow> (qstring \<times> qstring) list" where
  "data_fields Q d =
     (if sd_bin d \<noteq> [] then [escaped_field ''BIN'' (sd_bin d)] else []) @
     (if sd_name d \<noteq> [] then [escaped_field ''NAME'' (sd_name d)] else []) @
     (if sd_description d \<noteq> [] then [escaped_field ''DESCRIPTION'' (sd_description d)] else []) @
     (if sd_icon d \<noteq> [] then [raw_field ''ICON'' (sd_icon d)] else []) @
     (if sd_desktop d \<noteq> 0
      then [plain_field ''DESKTOP'' (num Q (if sd_desktop d = - 1 then - 1 else sd_desktop d - 1))] else []) @
     (if sd_wmclass d \<noteq> [] then [raw_field ''WMCLASS'' (fromUtf8 Q (sd_wmclass d))] else []) @
     (if sd_hostname d \<noteq> [] then [plain_field ''HOSTNAME'' (fromUtf8 Q (sd_hostname d))] else []) @
     map (\<lambda>pid. plain_field ''PID'' (num Q pid)) (sd_pids d) @
     (if sd_silent d \<noteq> SilentUnknown
      then [plain_field ''SILENT'' (num Q (if sd_silent d = Yes then 1 else 0))] else []) @
     (if sd_screen d \<noteq> - 1 then [plain_field ''SCREEN'' (num Q (sd_screen d))] else []) @
     (if sd_xinerama d \<noteq> - 1 then [plain_field ''XINERAMA'' (num Q (sd_xinerama d))] else []) @
     (if sd_application_id d \<noteq> [] then [raw_field ''APPLICATION_ID'' (sd_application_id d)] else [])"

definition fields_text :: "(qstring \<times> qstring) list \<Rightarrow> qstring" where
  "fields_text fs = concat (map (\<lambda>f. qchar CHR '' '' # fst f) fs)"

lemma concat_map_if: "concat (map f (if c then [x] else [])) = (if c then f x else [])"
  by simp

lemma printed_fields:
  "quoted k (escape_str v) = qchar CHR '' '' # fst (escaped_field k v)"
  "quoted k v = qchar CHR '' '' # fst (raw_field k v)"
  "plain k v = qchar CHR '' '' # fst (plain_field k v)"
  by (simp_all add: quoted_def plain_def escaped_field_def raw_field_def plain_field_def body_def)

lemma data_to_text_fields: "data_to_text Q d = fields_text (data_fields Q d)"
  unfolding data_to_text_def data_fields_def fields_text_def map_append concat_append concat_map_if
    printed_fields(1,3) map_map o_def
  by (simp only: printed_fields(2))

lemma words_of_fields:
  "sp (qchar CHR '' '') \<Longrightarrow>
    words_of sp (a @ fields_text fs) = words_of sp a @ concat (map (words_of sp) (map fst fs))"
proof (induction fs arbitrary: a)
  case (Cons f fs)
  then show ?case using words_of_sep [of sp "qchar CHR '' ''" a "fst f @ fields_text fs"]
    by (simp add: fields_text_def)
qed (simp add: fields_text_def)

text \<open>Texts that survive: single spaces, no quotes where nothing is escaped, valid UTF-8.\<close>

definition unquoted :: "qstring \<Rightarrow> bool" where
  "unquoted v \<longleftrightarrow> list_all (\<lambda>c. c \<noteq> qchar backslash \<and> c \<noteq> qchar quote) v"

definition carried :: "qt \<Rightarrow> string \<Rightarrow> bool" where
  "carried Q s \<longleftrightarrow> toUtf8 Q (fromUtf8 Q s) = s"

definition clean_data :: "qt \<Rightarrow> startup_data \<Rightarrow> bool" where
  "clean_data Q d \<longleftrightarrow>
     tidy Q (sd_bin d) \<and> tidy Q (sd_name d) \<and> tidy Q (sd_description d) \<and>
     tidy Q (sd_icon d) \<and> unquoted (sd_icon d) \<and>
     tidy Q (fromUtf8 Q (sd_wmclass d)) \<and> unquoted (fromUtf8 Q (sd_wmclass d)) \<and> carried Q (sd_wmclass d) \<and>
     nospace Q (fromUtf8 Q (sd_hostname d)) \<and> unquoted (fromUtf8 Q (sd_hostname d)) \<and>
     carried Q (sd_hostname d) \<and>
     tidy Q (sd_application_id d) \<and> unquoted (sd_application_id d) \<and> distinct (sd_pids d)"

definition clean_id :: "qt \<Rightarrow> string \<Rightarrow> bool" where
  "clean_id Q i \<longleftrightarrow> tidy Q (fromUtf8 Q i) \<and> carried Q i"

definition field_ok :: "qt \<Rightarrow> qstring \<times> qstring \<Rightarrow> bool" where
  "field_ok Q f \<longleftrightarrow> piece_ok Q (fst f) (snd f)"

lemma field_oks:
  assumes "qt_ok Q" "key_ok k"
  shows "tidy Q v \<Longrightarrow> field_ok Q (escaped_field k v)"
    "tidy Q v \<Longrightarrow> unquoted v \<Longrightarrow> field_ok Q (raw_field k v)"
    "nospace Q v \<Longrightarrow> unquoted v \<Longrightarrow> field_ok Q (plain_field k v)"
    "field_ok Q (plain_field k (num Q n))"
  using piece_escaped [OF assms] piece_raw [OF assms] piece_plain [OF assms] piece_num [OF assms]
  by (simp_all add: field_ok_def escaped_field_def raw_field_def plain_field_def unquoted_def del: qs_simps)

lemma keys_ok:
  "key_ok ''ID''" "key_ok ''BIN''" "key_ok ''NAME''" "key_ok ''DESCRIPTION''" "key_ok ''ICON''"
  "key_ok ''DESKTOP''" "key_ok ''WMCLASS''" "key_ok ''HOSTNAME''" "key_ok ''PID''" "key_ok ''SILENT''"
  "key_ok ''SCREEN''" "key_ok ''XINERAMA''" "key_ok ''APPLICATION_ID''"
  by (simp_all add: key_ok_def visible_def)

lemma list_all_if: "list_all P (if c then [x] else []) \<longleftrightarrow> (c \<longrightarrow> P x)"
  by simp

lemma data_fields_ok: "qt_ok Q \<Longrightarrow> clean_data Q d \<Longrightarrow> list_all (field_ok Q) (data_fields Q d)"
  unfolding data_fields_def list_all_append list_all_if list.pred_map o_def
  by (simp add: clean_data_def field_oks keys_ok list_all_iff)

section \<open>What the parser makes of the fields\<close>

lemma snd_field [simp]:
  "snd (escaped_field k v) = tok k v" "snd (raw_field k v) = tok k v" "snd (plain_field k v) = tok k v"
  by (simp_all add: escaped_field_def raw_field_def plain_field_def)

lemma parse_tok:
  "parse_item Q (tok ''ID'' v) d = d"
  "parse_item Q (tok ''BIN'' v) d = d\<lparr>sd_bin := v\<rparr>"
  "parse_item Q (tok ''NAME'' v) d = d\<lparr>sd_name := v\<rparr>"
  "parse_item Q (tok ''DESCRIPTION'' v) d = d\<lparr>sd_description := v\<rparr>"
  "parse_item Q (tok ''ICON'' v) d = d\<lparr>sd_icon := v\<rparr>"
  "parse_item Q (tok ''WMCLASS'' v) d = d\<lparr>sd_wmclass := toUtf8 Q v\<rparr>"
  "parse_item Q (tok ''HOSTNAME'' v) d = d\<lparr>sd_hostname := toUtf8 Q v\<rparr>"
  "parse_item Q (tok ''APPLICATION_ID'' v) d = d\<lparr>sd_application_id := v\<rparr>"
  using get_str_tok [OF keys_ok(2)] get_str_tok [OF keys_ok(3)] get_str_tok [OF keys_ok(4)]
    get_str_tok [OF keys_ok(5)] get_str_tok [OF keys_ok(7)] get_str_tok [OF keys_ok(8)]
    get_str_tok [OF keys_ok(13)]
  by (simp_all add: parse_item_def get_cstr_def)

lemma get_num_tok:
  assumes "qt_ok Q" "key_ok k"
  shows "get_num Q (tok k (num Q n)) = sint (n :: i32)"
proof -
  have "- (2 ^ 63) \<le> sint n" "sint n < 2 ^ 63"
    using sint_ge [of n] sint_lt [of n] by simp_all
  then have "toLong Q (number Q (sint n)) = Some (sint n)" using assms(1) by (simp add: qt_ok_def)
  then show ?thesis unfolding get_num_def get_str_tok [OF assms(2)] num_def by simp
qed

lemma sint_zero: "sint (n :: i32) = 0 \<longleftrightarrow> n = 0"
  by (rule signed_eq_0_iff)

lemma parse_num:
  assumes "qt_ok Q"
  shows "parse_item Q (tok ''DESKTOP'' (num Q n)) d = d\<lparr>sd_desktop := (if n \<noteq> - 1 then n + 1 else n)\<rparr>"
    "parse_item Q (tok ''PID'' (num Q n)) d = addPid n d"
    "parse_item Q (tok ''SILENT'' (num Q n)) d = d\<lparr>sd_silent := (if n \<noteq> 0 then Yes else No)\<rparr>"
    "parse_item Q (tok ''SCREEN'' (num Q n)) d = d\<lparr>sd_screen := n\<rparr>"
    "parse_item Q (tok ''XINERAMA'' (num Q n)) d = d\<lparr>sd_xinerama := n\<rparr>"
  using get_num_tok [OF assms keys_ok(6), of n] get_num_tok [OF assms keys_ok(9), of n]
    get_num_tok [OF assms keys_ok(10), of n] get_num_tok [OF assms keys_ok(11), of n]
    get_num_tok [OF assms keys_ok(12), of n] sint_zero [of n]
  by (simp_all add: parse_item_def Let_def)

lemma fold_addPid:
  "distinct ps \<Longrightarrow> set ps \<inter> set (sd_pids d) = {} \<Longrightarrow>
    fold addPid ps d = d\<lparr>sd_pids := sd_pids d @ ps\<rparr>"
proof (induction ps arbitrary: d)
  case (Cons p ps)
  have p: "addPid p d = d\<lparr>sd_pids := sd_pids d @ [p]\<rparr>" using Cons.prems by (simp add: addPid_def)
  have "fold addPid ps (addPid p d) = (addPid p d)\<lparr>sd_pids := sd_pids (addPid p d) @ ps\<rparr>"
    using Cons.prems p by (intro Cons.IH) auto
  then show ?case by (simp add: p)
qed simp

lemma fold_if: "fold f (map snd (if c then [x] else [])) d = (if c then f (snd x) d else d)"
  by simp

lemma if_updates:
  "(if c then d\<lparr>sd_bin := v1\<rparr> else d) = d\<lparr>sd_bin := (if c then v1 else sd_bin d)\<rparr>"
  "(if c then d\<lparr>sd_name := v2\<rparr> else d) = d\<lparr>sd_name := (if c then v2 else sd_name d)\<rparr>"
  "(if c then d\<lparr>sd_description := v3\<rparr> else d) =
     d\<lparr>sd_description := (if c then v3 else sd_description d)\<rparr>"
  "(if c then d\<lparr>sd_icon := v4\<rparr> else d) = d\<lparr>sd_icon := (if c then v4 else sd_icon d)\<rparr>"
  "(if c then d\<lparr>sd_desktop := v5\<rparr> else d) = d\<lparr>sd_desktop := (if c then v5 else sd_desktop d)\<rparr>"
  "(if c then d\<lparr>sd_wmclass := v6\<rparr> else d) = d\<lparr>sd_wmclass := (if c then v6 else sd_wmclass d)\<rparr>"
  "(if c then d\<lparr>sd_hostname := v7\<rparr> else d) = d\<lparr>sd_hostname := (if c then v7 else sd_hostname d)\<rparr>"
  "(if c then d\<lparr>sd_silent := v8\<rparr> else d) = d\<lparr>sd_silent := (if c then v8 else sd_silent d)\<rparr>"
  "(if c then d\<lparr>sd_screen := v9\<rparr> else d) = d\<lparr>sd_screen := (if c then v9 else sd_screen d)\<rparr>"
  "(if c then d\<lparr>sd_xinerama := v10\<rparr> else d) = d\<lparr>sd_xinerama := (if c then v10 else sd_xinerama d)\<rparr>"
  "(if c then d\<lparr>sd_application_id := v11\<rparr> else d) =
     d\<lparr>sd_application_id := (if c then v11 else sd_application_id d)\<rparr>"
  by simp_all

lemma parse_pids:
  assumes "qt_ok Q"
  shows "fold (parse_item Q) (map snd (map (\<lambda>pid. plain_field ''PID'' (num Q pid)) ps)) d = fold addPid ps d"
  using parse_num(2) [OF assms] by (induction ps arbitrary: d) simp_all

lemma field_values:
  "(if x \<noteq> c then x else c) = x"
  "(if n \<noteq> 0 then (if (if n = - 1 then - 1 else n - 1) \<noteq> - 1
      then (if n = - 1 then - 1 else n - 1) + 1 else (if n = - 1 then - 1 else n - 1)) else 0) = (n :: i32)"
  "(if t \<noteq> SilentUnknown then (if (if t = Yes then 1 else 0 :: i32) \<noteq> 0 then Yes else No)
    else SilentUnknown) = t"
  by (auto intro: tri_state.exhaust [of t])

lemma carried_values:
  "carried Q s \<Longrightarrow> (if s \<noteq> [] then toUtf8 Q (fromUtf8 Q s) else []) = s"
  by (simp add: carried_def)

lemma parse_data_fields:
  assumes "qt_ok Q" "clean_data Q d"
  shows "fold (parse_item Q) (map snd (data_fields Q d)) KStartupInfoData = d"
proof -
  have d: "distinct (sd_pids d)" "carried Q (sd_wmclass d)" "carried Q (sd_hostname d)"
    using assms(2) by (simp_all add: clean_data_def)
  show ?thesis
    unfolding data_fields_def map_append fold_append o_apply fold_if parse_pids [OF assms(1)]
      snd_field parse_tok parse_num [OF assms(1)] if_updates
    by (rule startup_data.equality)
      (simp_all add: fold_addPid d KStartupInfoData_def field_values carried_values
        split del: if_split cong: if_cong)
qed

section \<open>The whole text\<close>

definition id_field :: "qt \<Rightarrow> string \<Rightarrow> qstring \<times> qstring" where
  "id_field Q i = escaped_field ''ID'' (fromUtf8 Q i)"

lemma id_to_text_field: "id_to_text Q i = fields_text [id_field Q i] @ qs '' ''"
  unfolding id_to_text_def fields_text_def id_field_def printed_fields(1) by simp

definition no_id :: "qstring \<times> qstring \<Rightarrow> bool" where
  "no_id f \<longleftrightarrow> \<not> startsWith (qs ''ID='') (snd f)"

lemma data_fields_no_id: "list_all no_id (data_fields Q d)"
  unfolding data_fields_def list_all_append list_all_if list.pred_map o_def
  by (simp add: no_id_def list_all_iff)

lemma fold_no_id:
  "list_all no_id fs \<Longrightarrow>
    fold (\<lambda>it i. if startsWith (qs ''ID='') it then get_cstr Q it else i) (map snd fs) i = i"
  by (induction fs arbitrary: i) (simp_all add: no_id_def del: qs_simps)

lemma words_of_blank [simp]: "sp c \<Longrightarrow> words_of sp [c] = []"
  by simp

text \<open>Id, data and further fields are read back, whatever white space there is between them.\<close>

lemma text_parsed:
  assumes "qt_ok Q" "clean_id Q i" "clean_data Q d" "list_all (field_ok Q) extra" "list_all no_id extra"
    and "words_of (isSpace Q) s =
      concat (map (words_of (isSpace Q)) (map fst (id_field Q i # data_fields Q d @ extra)))"
  shows "id_of_text Q s = i"
    and "data_of_text Q s = fold (parse_item Q) (map snd extra) d"
proof -
  let ?fs = "id_field Q i # data_fields Q d @ extra"
  have "field_ok Q (id_field Q i)"
    using assms(2) field_oks(1) [OF assms(1) keys_ok(1)] by (simp add: id_field_def clean_id_def)
  with data_fields_ok [OF assms(1,3)] assms(4) have "list_all (field_ok Q) ?fs" by simp
  then have "list_all2 (piece_ok Q) (map fst ?fs) (map snd ?fs)"
    unfolding list.rel_map list_all2_same list_all_iff by (auto simp only: field_ok_def)
  from fields_of_pieces [OF assms(1) this _ assms(6)] have fields: "get_fields Q s = map snd ?fs" by simp
  have i: "toUtf8 Q (fromUtf8 Q i) = i" using assms(2) by (simp add: clean_id_def carried_def)
  have id: "snd (id_field Q i) = tok ''ID'' (fromUtf8 Q i)" by (simp add: id_field_def)
  have start: "startsWith (qs ''ID='') (tok ''ID'' v)" for v by simp
  have first: "get_cstr Q (tok ''ID'' (fromUtf8 Q i)) = i"
    using get_str_tok [OF keys_ok(1)] i by (simp add: get_cstr_def)
  show "id_of_text Q s = i"
    unfolding id_of_text_def fields list.map fold.simps map_append fold_append o_apply id if_P [OF start] first
    by (simp only: fold_no_id [OF data_fields_no_id] fold_no_id [OF assms(5)])
  show "data_of_text Q s = fold (parse_item Q) (map snd extra) d"
    unfolding data_of_text_def fields list.map fold.simps map_append fold_append o_apply id parse_tok(1)
      parse_data_fields [OF assms(1,3)] ..
qed

end
