(* ===== verification/KXMessages.thy ===== *)
theory KXMessages
  imports Prelude QtText
begin

text \<open>
  The broadcast of texts in kxmessages.cpp: \<^verbatim>\<open>send_message_internal\<close> cuts the UTF-8 form
  of a text into client messages of 20 bytes, the first of them of the type \<^verbatim>\<open>..._BEGIN\<close>,
  and \<^verbatim>\<open>nativeEventFilter\<close> of a receiver puts them together again, one text in progress
  for each sending window.  The numbers the X server gives to the names of atoms are a parameter.
\<close>

section \<open>Events and effects\<close>

record native_event =
  ne_eventType :: string
  ne_response_type :: "8 word"
  ne_format :: nat
  ne_window :: u32
  ne_type :: u32
  ne_data8 :: string

definition XCB_CLIENT_MESSAGE :: "8 word" where
  "XCB_CLIENT_MESSAGE = 33"

datatype kx_effect =
    CreateWindow u32 u32
  | SendEvent u32 native_event
  | DestroyWindow u32
  | Warning
  | NullScreen

section \<open>Sending\<close>

text \<open>
  The loop of \<^verbatim>\<open>send_message_internal\<close>, from \<^verbatim>\<open>pos\<close> on.  It also runs for
  \<^verbatim>\<open>pos == len\<close>: a text that fills its last message is followed by an empty one.
\<close>

function send_loop :: "u32 \<Rightarrow> string \<Rightarrow> u32 \<Rightarrow> u32 \<Rightarrow> u32 \<Rightarrow> nat \<Rightarrow> kx_effect list" where
  "send_loop w msg handle type followingMessage pos =
     SendEvent w \<lparr>ne_eventType = ''xcb_generic_event_t'', ne_response_type = XCB_CLIENT_MESSAGE,
        ne_format = 8, ne_window = handle, ne_type = type,
        ne_data8 = pad_to NUL 20 (take 20 (drop pos msg))\<rparr> #
     (if pos + 20 \<le> length msg
      then send_loop w msg handle followingMessage followingMessage (pos + 20) else [])"
  by pat_completeness auto
termination
  by (relation "measure (\<lambda>(w, msg, handle, type, followingMessage, pos). length msg - pos)") auto

declare send_loop.simps [simp del]

definition send_message_internal ::
  "qt \<Rightarrow> u32 \<Rightarrow> qstring \<Rightarrow> u32 \<Rightarrow> u32 \<Rightarrow> u32 \<Rightarrow> kx_effect list" where
  "send_message_internal Q w msg leadingMessage followingMessage handle =
     send_loop w (toUtf8 Q msg) handle leadingMessage followingMessage 0"

text \<open>The screens of the display, by their root windows.\<close>

fun defaultScreen :: "u32 list \<Rightarrow> i32 \<Rightarrow> u32 option" where
  "defaultScreen [] screen = None"
| "defaultScreen (root # roots) screen =
     (if screen = 0 then Some root else defaultScreen roots (screen - 1))"

definition begin_type :: "string \<Rightarrow> string" where
  "begin_type msg = msg @ ''_BEGIN''"

record kx_messages =
  kx_accept1 :: u32
  kx_accept2 :: u32
  kx_incoming :: "u32 \<rightharpoonup> string"
  kx_handle :: u32
  kx_valid :: bool
  kx_root :: u32

definition broadcastMessage ::
  "qt \<Rightarrow> (string \<Rightarrow> u32) \<Rightarrow> u32 list \<Rightarrow> kx_messages \<Rightarrow> string \<Rightarrow> qstring \<Rightarrow> i32 \<Rightarrow> kx_effect list" where
  "broadcastMessage Q intern roots d msg_type message screen =
     (if \<not> kx_valid d then [Warning]
      else (case (if screen = - 1 then Some (kx_root d) else defaultScreen roots screen) of
              None \<Rightarrow> [NullScreen]
            | Some root \<Rightarrow> send_message_internal Q root message
                (intern (begin_type msg_type)) (intern msg_type) (kx_handle d)))"

definition broadcastMessageX ::
  "qt \<Rightarrow> (string \<Rightarrow> u32) \<Rightarrow> u32 list option \<Rightarrow> u32 \<Rightarrow> string \<Rightarrow> qstring \<Rightarrow> i32 \<Rightarrow> bool \<times> kx_effect list" where
  "broadcastMessageX Q intern connection win msg_type message screenNumber =
     (case connection of
        None \<Rightarrow> (False, [])
      | Some roots \<Rightarrow>
          (case defaultScreen roots screenNumber of
             None \<Rightarrow> (False, [])
           | Some root \<Rightarrow>
               (True, CreateWindow win root #
                  send_message_internal Q root message (intern (begin_type msg_type)) (intern msg_type) win @
                  [DestroyWindow win])))"

section \<open>Receiving\<close>

definition KXMessages :: "(string \<Rightarrow> u32) \<Rightarrow> string option \<Rightarrow> u32 \<Rightarrow> bool \<Rightarrow> u32 \<Rightarrow> kx_messages" where
  "KXMessages intern acceptBroadcast handle valid root =
     \<lparr>kx_accept1 = (case acceptBroadcast of Some a \<Rightarrow> intern (begin_type a) | None \<Rightarrow> 0),
      kx_accept2 = (case acceptBroadcast of Some a \<Rightarrow> intern a | None \<Rightarrow> 0),
      kx_incoming = Map.empty, kx_handle = handle, kx_valid = valid, kx_root = root\<rparr>"

text \<open>The text of a message up to its NUL, at most 20 bytes.\<close>

definition message_buf :: "native_event \<Rightarrow> string" where
  "message_buf e = c_string (take 20 (ne_data8 e))"

definition for_us :: "kx_messages \<Rightarrow> native_event \<Rightarrow> bool" where
  "for_us d e \<longleftrightarrow>
     (case ne_eventType e of c # _ \<Rightarrow> c = CHR ''x'' | [] \<Rightarrow> False) \<and>
     ne_response_type e AND NOT 0x80 = XCB_CLIENT_MESSAGE \<and> ne_format e = 8 \<and>
     (ne_type e = kx_accept1 d \<or> ne_type e = kx_accept2 d)"

text \<open>The new object, and the text of \<^verbatim>\<open>gotMessage\<close> if it is emitted.\<close>

definition nativeEventFilter :: "qt \<Rightarrow> kx_messages \<Rightarrow> native_event \<Rightarrow> kx_messages \<times> qstring option" where
  "nativeEventFilter Q d e =
     (if \<not> for_us d e then (d, None)
      else
        (let w = ne_window e; buf = message_buf e in
         case (case kx_incoming d w of
                 Some sofar \<Rightarrow> Some ((if ne_type e = kx_accept1 d then [] else sofar) @ buf)
               | None \<Rightarrow> if ne_type e = kx_accept2 d then None else Some buf) of
           None \<Rightarrow> (d, None)
         | Some text \<Rightarrow>
             if length buf < 20
             then (d\<lparr>kx_incoming := (kx_incoming d)(w := None)\<rparr>, Some (fromUtf8 Q text))
             else (d\<lparr>kx_incoming := (kx_incoming d)(w := Some text)\<rparr>, None)))"

text \<open>The texts a sequence of events makes the object emit, each with the window it came from.\<close>

fun received :: "qt \<Rightarrow> kx_messages \<Rightarrow> native_event list \<Rightarrow> (u32 \<times> qstring) list" where
  "received Q d [] = []"
| "received Q d (e # es) =
     (case nativeEventFilter Q d e of
        (d', Some text) \<Rightarrow> (ne_window e, text) # received Q d' es
      | (d', None) \<Rightarrow> received Q d' es)"

section \<open>One sender\<close>

text \<open>
  What a receiver does for one window, as a machine of its own: the text in progress, and the type
  and bytes of a message.
\<close>

definition assemble :: "string option \<Rightarrow> bool \<times> string \<Rightarrow> string option \<times> string option" where
  "assemble sofar = (\<lambda>(starts, buf).
     case (case sofar of Some s \<Rightarrow> Some ((if starts then [] else s) @ buf)
           | None \<Rightarrow> if starts then Some buf else None) of
       None \<Rightarrow> (None, None)
     | Some text \<Rightarrow> if length buf < 20 then (None, Some text) else (Some text, None))"

text \<open>The pieces of a text as the sender cuts it.\<close>

fun pieces :: "bool \<Rightarrow> nat \<Rightarrow> string \<Rightarrow> (bool \<times> string) list" where
  "pieces starts 0 msg = [(starts, take 20 msg)]"
| "pieces starts (Suc n) msg = (starts, take 20 msg) # pieces False n (drop 20 msg)"

definition fragments :: "string \<Rightarrow> (bool \<times> string) list" where
  "fragments msg = pieces True (length msg div 20) msg"

section \<open>The contract of a sender and a receiver\<close>

fun run :: "('s \<Rightarrow> 'f \<Rightarrow> 's \<times> 't option) \<Rightarrow> 's \<Rightarrow> 'f list \<Rightarrow> 's \<times> 't list" where
  "run step s [] = (s, [])"
| "run step s (f # fs) =
     (let (s', t) = step s f; (s'', ts) = run step s' fs
      in (s'', (case t of None \<Rightarrow> [] | Some x \<Rightarrow> [x]) @ ts))"

lemma run_append:
  "run step s (fs @ gs) =
    (fst (run step (fst (run step s fs)) gs), snd (run step s fs) @ snd (run step (fst (run step s fs)) gs))"
  by (induction fs arbitrary: s) (auto simp: Let_def split: prod.splits)

text \<open>
  A sender cuts a text into fragments; whatever the receiver has in progress, the fragments of one
  text make it deliver that text, and nothing else.
\<close>

locale reassembly =
  fixes step :: "'s \<Rightarrow> 'f \<Rightarrow> 's \<times> 't option"
    and cut :: "'t \<Rightarrow> 'f list"
    and good :: "'t \<Rightarrow> bool"
  assumes whole: "good t \<Longrightarrow> snd (run step s (cut t)) = [t]"
begin

lemma all_delivered: "list_all good ts \<Longrightarrow> snd (run step s (concat (map cut ts))) = ts"
  by (induction ts arbitrary: s) (simp_all add: run_append whole)

end

lemma assemble_rest:
  "no_nul msg \<Longrightarrow> length msg div 20 = n \<Longrightarrow>
    run assemble (Some sofar) (pieces False n msg) = (None, [sofar @ msg])"
proof (induction n arbitrary: msg sofar)
  case 0
  then show ?case by (simp add: assemble_def div_eq_0_iff)
next
  case (Suc n)
  then have n: "length (drop 20 msg) div 20 = n" "\<not> length msg < 20" by auto
  have "no_nul (drop 20 msg)"
    using Suc.prems(1) in_set_dropD unfolding no_nul_def by metis
  from Suc.IH [OF this n(1), of "sofar @ take 20 msg"] n(2) show ?case
    by (simp add: assemble_def)
qed

lemma assemble_whole:
  assumes "no_nul msg"
  shows "run assemble sofar (fragments msg) = (None, [msg])"
proof (cases "length msg div 20")
  case 0
  then show ?thesis
    by (simp add: fragments_def assemble_def div_eq_0_iff split: option.splits)
next
  case (Suc n)
  then have n: "length (drop 20 msg) div 20 = n" "\<not> length msg < 20" by auto
  have "no_nul (drop 20 msg)"
    using assms in_set_dropD unfolding no_nul_def by metis
  from assemble_rest [OF this n(1), of "take 20 msg"] n(2) Suc show ?thesis
    by (simp add: fragments_def assemble_def split: option.splits)
qed

interpretation kx: reassembly assemble fragments no_nul
  by unfold_locales (simp add: assemble_whole)

section \<open>From events to fragments\<close>

fun sent_events :: "kx_effect list \<Rightarrow> native_event list" where
  "sent_events [] = []"
| "sent_events (SendEvent w e # es) = e # sent_events es"
| "sent_events (_ # es) = sent_events es"

lemma sent_events_append [simp]: "sent_events (es @ fs) = sent_events es @ sent_events fs"
  by (induction es rule: sent_events.induct) auto

definition heard_from :: "kx_messages \<Rightarrow> u32 \<Rightarrow> native_event list \<Rightarrow> native_event list" where
  "heard_from d w es = filter (\<lambda>e. for_us d e \<and> ne_window e = w) es"

definition piece_of :: "kx_messages \<Rightarrow> native_event \<Rightarrow> bool \<times> string" where
  "piece_of d e = (ne_type e = kx_accept1 d, message_buf e)"

text \<open>The receiver treats every window by itself, as the machine does.\<close>

lemma filter_step:
  assumes "kx_accept1 d \<noteq> kx_accept2 d" "for_us d e"
  shows "nativeEventFilter Q d e =
    (case assemble (kx_incoming d (ne_window e)) (piece_of d e) of
       (s, t) \<Rightarrow> (d\<lparr>kx_incoming := (kx_incoming d)(ne_window e := s)\<rparr>, map_option (fromUtf8 Q) t))"
proof -
  have "ne_type e = kx_accept2 d \<longleftrightarrow> ne_type e \<noteq> kx_accept1 d"
    using assms unfolding for_us_def by auto
  moreover have "d = d\<lparr>kx_incoming := (kx_incoming d)(ne_window e := None)\<rparr>"
    if "kx_incoming d (ne_window e) = None"
    using that by (simp add: fun_upd_idem)
  ultimately show ?thesis
    using assms(2)
    by (auto simp: nativeEventFilter_def assemble_def piece_of_def Let_def split: option.splits)
qed

lemma received_projection:
  assumes "kx_accept1 d \<noteq> kx_accept2 d"
  shows "map snd (filter (\<lambda>x. fst x = w) (received Q d es)) =
    map (fromUtf8 Q) (snd (run assemble (kx_incoming d w) (map (piece_of d) (heard_from d w es))))"
  using assms
proof (induction es arbitrary: d)
  case Nil
  then show ?case by (simp add: heard_from_def)
next
  case (Cons e es)
  show ?case
  proof (cases "for_us d e")
    case False
    then have "nativeEventFilter Q d e = (d, None)" by (simp add: nativeEventFilter_def)
    then show ?thesis using False Cons.IH [OF Cons.prems] by (simp add: heard_from_def)
  next
    case True
    obtain s t where st: "assemble (kx_incoming d (ne_window e)) (piece_of d e) = (s, t)"
      by fastforce
    define d' where "d' = d\<lparr>kx_incoming := (kx_incoming d)(ne_window e := s)\<rparr>"
    have step: "nativeEventFilter Q d e = (d', map_option (fromUtf8 Q) t)"
      using filter_step [OF Cons.prems True] by (simp add: st d'_def)
    have "heard_from d' w es = heard_from d w es" "piece_of d' = piece_of d"
      by (simp_all add: heard_from_def for_us_def piece_of_def d'_def fun_eq_iff)
    with Cons.IH [of d'] Cons.prems have "map snd (filter (\<lambda>x. fst x = w) (received Q d' es)) =
        map (fromUtf8 Q) (snd (run assemble (kx_incoming d' w) (map (piece_of d) (heard_from d w es))))"
      by (simp add: d'_def)
    then show ?thesis
      using True st step by (auto simp: heard_from_def d'_def Let_def split: option.splits prod.splits)
  qed
qed

lemma c_string_pad: "no_nul s \<Longrightarrow> c_string (pad_to NUL n s) = s"
  by (cases "n - length s")
    (auto simp: pad_to_def c_string_def no_nul_def takeWhile_append takeWhile_eq_all_conv)

lemma send_loop_pieces:
  assumes "no_nul msg" "follow \<noteq> kx_accept1 d" "type = kx_accept1 d \<longleftrightarrow> starts" "pos \<le> length msg"
  shows "map (piece_of d) (sent_events (send_loop w msg h type follow pos)) =
    pieces starts ((length msg - pos) div 20) (drop pos msg)"
  using assms
proof (induction "(length msg - pos) div 20" arbitrary: pos type starts)
  case 0
  then have "\<not> pos + 20 \<le> length msg" by (simp add: div_eq_0_iff)
  have "no_nul (take 20 (drop pos msg))"
    using 0 unfolding no_nul_def by (meson in_set_dropD in_set_takeD)
  then show ?case
    using 0 \<open>\<not> pos + 20 \<le> length msg\<close>
    by (subst send_loop.simps) (auto simp: piece_of_def message_buf_def c_string_pad)
next
  case (Suc n)
  then have pos: "pos + 20 \<le> length msg" "n = (length msg - (pos + 20)) div 20"
    by (auto simp: div_eq_0_iff)
  have "no_nul (take 20 (drop pos msg))"
    using Suc.prems unfolding no_nul_def by (meson in_set_dropD in_set_takeD)
  then show ?case
    using Suc.prems pos Suc.hyps(1) [OF pos(2), of follow False] Suc.hyps(2)
    by (subst send_loop.simps)
      (simp add: piece_of_def message_buf_def c_string_pad add.commute flip: Suc.hyps(2))
qed

lemma sent_fragments:
  assumes "no_nul (toUtf8 Q t)" "kx_accept1 d \<noteq> kx_accept2 d"
  shows "map (piece_of d)
      (sent_events (send_message_internal Q w t (kx_accept1 d) (kx_accept2 d) h)) = fragments (toUtf8 Q t)"
  using send_loop_pieces [of "toUtf8 Q t" "kx_accept2 d" d "kx_accept1 d" True 0] assms
  by (auto simp: send_message_internal_def fragments_def)

lemma sent_loop_heard:
  assumes "kx_accept1 d = type \<or> kx_accept2 d = type" "kx_accept2 d = follow"
  shows "\<forall>e \<in> set (sent_events (send_loop w msg h type follow pos)). for_us d e \<and> ne_window e = h"
  using assms
proof (induction w msg h type follow pos rule: send_loop.induct)
  case (1 w msg h type follow pos)
  then show ?case
    by (subst send_loop.simps) (auto simp: for_us_def XCB_CLIENT_MESSAGE_def)
qed

lemma received_windows: "fst ` set (received Q d es) \<subseteq> ne_window ` set es"
proof (induction es arbitrary: d)
  case (Cons e es)
  obtain d' t where "nativeEventFilter Q d e = (d', t)" by fastforce
  then show ?case using Cons [of d'] by (cases t) auto
qed simp

text \<open>One text, from one window.\<close>

lemma received_one:
  assumes "kx_accept1 d \<noteq> kx_accept2 d" "encodable Q t" "no_nul (toUtf8 Q t)"
  shows "received Q d (sent_events (send_message_internal Q w t (kx_accept1 d) (kx_accept2 d) h)) = [(h, t)]"
proof -
  let ?es = "sent_events (send_message_internal Q w t (kx_accept1 d) (kx_accept2 d) h)"
  have es: "\<forall>e \<in> set ?es. for_us d e \<and> ne_window e = h"
    unfolding send_message_internal_def by (rule sent_loop_heard) simp_all
  then have heard_from: "heard_from d h ?es = ?es" by (simp add: heard_from_def)
  have only: "\<forall>x \<in> set (received Q d ?es). fst x = h"
    using received_windows [of Q d ?es] es by fastforce
  have "map snd (filter (\<lambda>x. fst x = h) (received Q d ?es)) = map (fromUtf8 Q) [toUtf8 Q t]"
    using received_projection [OF assms(1), of h Q ?es] sent_fragments [OF assms(3,1)]
      kx.whole [OF assms(3)] by (simp add: heard_from)
  with only assms(2) have "map snd (received Q d ?es) = [t]" by (simp add: encodable_def filter_id_conv)
  then obtain x where "received Q d ?es = [x]" "snd x = t" by (auto simp: map_eq_Cons_conv)
  with only show ?thesis by (cases x) auto
qed

section \<open>Properties\<close>

definition speakable :: "qt \<Rightarrow> qstring \<Rightarrow> bool" where
  "speakable Q t \<longleftrightarrow> encodable Q t \<and> no_nul (toUtf8 Q t)"

lemma fragments_of_all:
  assumes "list_all (speakable Q) ts" "kx_accept1 d \<noteq> kx_accept2 d"
  shows "map (piece_of d) (concat (map (\<lambda>t. sent_events
      (send_message_internal Q w t (kx_accept1 d) (kx_accept2 d) h)) ts)) =
    concat (map fragments (map (toUtf8 Q) ts))"
  using assms by (induction ts) (simp_all add: sent_fragments speakable_def)

text \<open>
  C19.  Broadcast texts arrive whole: however the messages of any number of senders are interleaved
  with each other and with other events, and whatever was in progress before, a receiver emits for
  every window exactly the texts that were sent from it, in their order.
\<close>

theorem broadcasts_arrive:
  assumes "kx_accept1 d \<noteq> kx_accept2 d"
    and "\<forall>w. list_all (speakable Q) (texts w)"
    and "\<forall>w. heard_from d w es = concat (map (\<lambda>t. sent_events
           (send_message_internal Q dest t (kx_accept1 d) (kx_accept2 d) w)) (texts w))"
  shows "map snd (filter (\<lambda>x. fst x = w) (received Q d es)) = texts w"
proof -
  have texts: "list_all (speakable Q) (texts w)" using assms(2) by blast
  have good: "list_all no_nul (map (toUtf8 Q) (texts w))"
    using texts by (simp add: list_all_iff speakable_def)
  have again: "map (fromUtf8 Q) (map (toUtf8 Q) (texts w)) = texts w"
    using texts by (auto simp: list_all_iff speakable_def encodable_def intro: map_idI)
  have "map (piece_of d) (heard_from d w es) = concat (map fragments (map (toUtf8 Q) (texts w)))"
    unfolding assms(3) [rule_format] by (rule fragments_of_all [OF texts assms(1)])
  then show ?thesis
    using received_projection [OF assms(1), of w Q es] kx.all_delivered [OF good] again by simp
qed

text \<open>
  The witness: two senders, one of them with a text of exactly twenty bytes, the other starting in
  between.
\<close>

definition sample_kx :: kx_messages where
  "sample_kx = \<lparr>kx_accept1 = 1, kx_accept2 = 2, kx_incoming = [7 \<mapsto> ''left over''],
     kx_handle = 0, kx_valid = True, kx_root = 0\<rparr>"

definition sample_texts :: "u32 \<Rightarrow> qstring list" where
  "sample_texts w = (if w = 7 then [qs ''twenty bytes of text''] else if w = 8 then [qs ''short''] else [])"

definition sample_from :: "u32 \<Rightarrow> native_event list" where
  "sample_from w = concat (map (\<lambda>t. sent_events (send_message_internal sample_qt 0 t 1 2 w)) (sample_texts w))"

lemma sample_speakable: "speakable sample_qt (qs s) \<longleftrightarrow> no_nul s"
  by (simp add: speakable_def sample_toUtf8)

definition sample_event :: "u32 \<Rightarrow> u32 \<Rightarrow> string \<Rightarrow> native_event" where
  "sample_event w t data = \<lparr>ne_eventType = ''xcb_generic_event_t'', ne_response_type = XCB_CLIENT_MESSAGE,
     ne_format = 8, ne_window = w, ne_type = t, ne_data8 = pad_to NUL 20 data\<rparr>"

lemma sample_from_shape:
  "sample_from 7 = [sample_event 7 1 ''twenty bytes of text'', sample_event 7 2 []]"
  "sample_from 8 = [sample_event 8 1 ''short'']"
  "w \<noteq> 7 \<Longrightarrow> w \<noteq> 8 \<Longrightarrow> sample_from w = []"
  by (simp_all add: sample_from_def sample_texts_def sample_event_def send_message_internal_def
      sample_toUtf8 send_loop.simps del: qs_simps)

lemma sample_event_heard: "t = 1 \<or> t = 2 \<Longrightarrow> for_us sample_kx (sample_event w t data)"
  by (auto simp: for_us_def sample_kx_def sample_event_def XCB_CLIENT_MESSAGE_def)

theorem broadcasts_arrive_witness:
  "map snd (filter (\<lambda>x. fst x = 7) (received sample_qt sample_kx
     [sample_event 7 1 ''twenty bytes of text'', sample_event 8 1 ''short'', sample_event 7 2 []])) =
   [qs ''twenty bytes of text'']"
proof -
  let ?es = "[sample_event 7 1 ''twenty bytes of text'', sample_event 8 1 ''short'', sample_event 7 2 []]"
  have "sample_texts w \<in> {[qs ''twenty bytes of text''], [qs ''short''], []}" for w
    by (simp add: sample_texts_def)
  then have speakable: "\<forall>w. list_all (speakable sample_qt) (sample_texts w)"
    by (auto simp: sample_texts_def sample_speakable NUL_def simp del: qs_simps)
  have "ne_window (sample_event w t data) = w" for w t data by (simp add: sample_event_def)
  then have "heard_from sample_kx w ?es = sample_from w" for w
    by (cases "w = 7"; cases "w = 8")
      (auto simp: heard_from_def sample_event_heard sample_from_shape)
  then have "\<forall>w. heard_from sample_kx w ?es = concat (map (\<lambda>t. sent_events
      (send_message_internal sample_qt 0 t (kx_accept1 sample_kx) (kx_accept2 sample_kx) w)) (sample_texts w))"
    by (simp add: sample_from_def sample_kx_def)
  from broadcasts_arrive [OF _ speakable this, of 7] show ?thesis
    by (simp add: sample_kx_def sample_texts_def)
qed

end
