(* ===== verification/StartupInfo.thy ===== *)
theory StartupInfo
  imports StartupText KXMessages WinUpdate Timestamps "HOL-Library.RBT" "HOL-Library.List_Lexorder"
    "HOL-Library.Char_ord"
begin

text \<open>
  \<^verbatim>\<open>KStartupInfo\<close> in kstartupinfo.cpp: the startups that are in progress, in three maps
  (announced, silenced, and changed before they were announced), what messages and new windows do to
  them, their timeouts, and the messages that are sent about them.  A \<^verbatim>\<open>QMap\<close> is an ordered
  map of the library; windows are looked at through \<^verbatim>\<open>NETWinInfo\<close>.
\<close>

section \<open>Keys\<close>

datatype startup_id = StartupId (id_bytes: string)

text \<open>The order of the keys of the maps: \<^verbatim>\<open>KStartupInfoId::operator<\<close>.\<close>

definition id_before :: "startup_id \<Rightarrow> startup_id \<Rightarrow> bool" where
  "id_before a b \<longleftrightarrow> id_bytes a < id_bytes b"

instantiation startup_id :: linorder
begin

definition less_eq_startup_id :: "startup_id \<Rightarrow> startup_id \<Rightarrow> bool" where
  "less_eq_startup_id a b \<longleftrightarrow> id_bytes a \<le> id_bytes b"

definition less_startup_id :: "startup_id \<Rightarrow> startup_id \<Rightarrow> bool" where
  "less_startup_id a b \<longleftrightarrow> id_before a b"

instance
  by standard (auto simp: less_eq_startup_id_def less_startup_id_def id_before_def startup_id.expand)

end

definition id_null :: "startup_id \<Rightarrow> bool" where
  "id_null i \<longleftrightarrow> isNull (id_bytes i)"

section \<open>State\<close>

record startup_entry =
  en_data :: startup_data
  en_age :: u32

type_synonym startups = "(startup_id, startup_entry) RBT.rbt"

record startup_info =
  si_timeout :: u32
  si_startups :: startups
  si_silent :: startups
  si_uninited :: startups
  si_flags :: u32
  si_cleanup :: bool

definition CleanOnCantDetect :: u32 where "CleanOnCantDetect = bitflag 0"
definition DisableKWinModule :: u32 where "DisableKWinModule = bitflag 1"
definition AnnounceSilenceChanges :: u32 where "AnnounceSilenceChanges = bitflag 2"

definition KStartupInfo :: "u32 \<Rightarrow> startup_info" where
  "KStartupInfo flags = \<lparr>si_timeout = 60, si_startups = RBT.empty, si_silent = RBT.empty,
     si_uninited = RBT.empty, si_flags = flags, si_cleanup = False\<rparr>"

datatype startup_signal =
    GotNewStartup startup_id startup_data
  | GotStartupChange startup_id startup_data
  | GotRemoveStartup startup_id startup_data

type_synonym startup_step = "startup_info \<times> startup_signal list"

definition announces :: "startup_info \<Rightarrow> bool" where
  "announces s \<longleftrightarrow> hasf (si_flags s) AnnounceSilenceChanges"

section \<open>Messages about startups\<close>

definition new_startup_info_internal ::
  "startup_id \<Rightarrow> startup_data \<Rightarrow> bool \<Rightarrow> startup_info \<Rightarrow> startup_step" where
  "new_startup_info_internal i d upd s =
     (if id_null i then (s, [])
      else case RBT.lookup (si_startups s) i of
        Some e \<Rightarrow>
          (let e' = \<lparr>en_data = update_data (en_data e) d, en_age = 0\<rparr> in
           if sd_silent (en_data e') = Yes \<and> \<not> announces s
           then (s\<lparr>si_silent := RBT.insert i e' (si_silent s),
                   si_startups := RBT.delete i (si_startups s)\<rparr>, [GotRemoveStartup i (en_data e')])
           else (s\<lparr>si_startups := RBT.insert i e' (si_startups s)\<rparr>, [GotStartupChange i (en_data e')]))
      | None \<Rightarrow>
        (case RBT.lookup (si_silent s) i of
          Some e \<Rightarrow>
            (let e' = \<lparr>en_data = update_data (en_data e) d, en_age = 0\<rparr> in
             if sd_silent (en_data e') \<noteq> Yes
             then (s\<lparr>si_startups := RBT.insert i e' (si_startups s),
                     si_silent := RBT.delete i (si_silent s)\<rparr>, [GotNewStartup i (en_data e')])
             else (s\<lparr>si_silent := RBT.insert i e' (si_silent s)\<rparr>, [GotStartupChange i (en_data e')]))
        | None \<Rightarrow>
          (case RBT.lookup (si_uninited s) i of
            Some e \<Rightarrow>
              (let e' = e\<lparr>en_data := update_data (en_data e) d\<rparr> in
               if \<not> upd
               then (s\<lparr>si_startups := RBT.insert i e' (si_startups s),
                       si_uninited := RBT.delete i (si_uninited s)\<rparr>, [GotNewStartup i (en_data e')])
               else (s\<lparr>si_uninited := RBT.insert i e' (si_uninited s)\<rparr>, []))
          | None \<Rightarrow>
              (let e = \<lparr>en_data = d, en_age = 0\<rparr>; t = s\<lparr>si_cleanup := True\<rparr> in
               if upd then (t\<lparr>si_uninited := RBT.insert i e (si_uninited s)\<rparr>, [])
               else if sd_silent d \<noteq> Yes \<or> announces s
               then (t\<lparr>si_startups := RBT.insert i e (si_startups s)\<rparr>, [GotNewStartup i d])
               else (t\<lparr>si_silent := RBT.insert i e (si_silent s)\<rparr>, [])))))"

definition got_startup_info :: "qt \<Rightarrow> qstring \<Rightarrow> bool \<Rightarrow> startup_info \<Rightarrow> startup_step" where
  "got_startup_info Q msg upd s =
     (let i = StartupId (id_of_text Q msg) in
      if id_null i then (s, []) else new_startup_info_internal i (data_of_text Q msg) upd s)"

definition removeAllStartupInfoInternal :: "startup_id \<Rightarrow> startup_info \<Rightarrow> startup_step" where
  "removeAllStartupInfoInternal i s =
     (case RBT.lookup (si_startups s) i of
        Some e \<Rightarrow> (s\<lparr>si_startups := RBT.delete i (si_startups s)\<rparr>, [GotRemoveStartup i (en_data e)])
      | None \<Rightarrow>
          (case RBT.lookup (si_silent s) i of
             Some e \<Rightarrow> (s\<lparr>si_silent := RBT.delete i (si_silent s)\<rparr>, [])
           | None \<Rightarrow>
               (case RBT.lookup (si_uninited s) i of
                  Some e \<Rightarrow> (s\<lparr>si_uninited := RBT.delete i (si_uninited s)\<rparr>, [])
                | None \<Rightarrow> (s, []))))"

definition removeStartupInfoInternal :: "startup_id \<Rightarrow> startup_entry \<Rightarrow> startup_info \<Rightarrow> startup_step" where
  "removeStartupInfoInternal i e s =
     (s\<lparr>si_startups := RBT.delete i (si_startups s)\<rparr>, [GotRemoveStartup i (en_data e)])"

definition without_pids :: "i32 list \<Rightarrow> startup_entry \<Rightarrow> startup_entry" where
  "without_pids pids e = e\<lparr>en_data := fold remove_pid pids (en_data e)\<rparr>"

definition remove_startup_pids_id :: "startup_id \<Rightarrow> startup_data \<Rightarrow> startup_info \<Rightarrow> startup_step" where
  "remove_startup_pids_id i d s =
     (let change = without_pids (sd_pids d) in
      case RBT.lookup (si_startups s) i of
        Some e \<Rightarrow>
          (let t = s\<lparr>si_startups := RBT.insert i (change e) (si_startups s)\<rparr> in
           if sd_pids (en_data (change e)) = [] then removeAllStartupInfoInternal i t else (t, []))
      | None \<Rightarrow>
          (case RBT.lookup (si_silent s) i of
             Some e \<Rightarrow>
               (let t = s\<lparr>si_silent := RBT.insert i (change e) (si_silent s)\<rparr> in
                if sd_pids (en_data (change e)) = [] then removeAllStartupInfoInternal i t else (t, []))
           | None \<Rightarrow>
               (case RBT.lookup (si_uninited s) i of
                  Some e \<Rightarrow>
                    (let t = s\<lparr>si_uninited := RBT.insert i (change e) (si_uninited s)\<rparr> in
                     if sd_pids (en_data (change e)) = [] then removeAllStartupInfoInternal i t else (t, []))
                | None \<Rightarrow> (s, []))))"

definition remove_startup_pids :: "startup_data \<Rightarrow> startup_info \<Rightarrow> startup_step" where
  "remove_startup_pids d s =
     (case find (\<lambda>(i, e). sd_hostname (en_data e) = sd_hostname d \<and> is_pid (en_data e) (hd (sd_pids d)))
             (RBT.entries (si_startups s)) of
        Some (i, e) \<Rightarrow> remove_startup_pids_id i d s
      | None \<Rightarrow> (s, []))"

definition got_remove_startup_info :: "qt \<Rightarrow> qstring \<Rightarrow> startup_info \<Rightarrow> startup_step" where
  "got_remove_startup_info Q msg s =
     (let i = StartupId (id_of_text Q msg); d = data_of_text Q msg in
      if sd_pids d \<noteq> []
      then (if \<not> id_null i then remove_startup_pids_id i d s else remove_startup_pids d s)
      else removeAllStartupInfoInternal i s)"

definition got_message :: "qt \<Rightarrow> qstring \<Rightarrow> startup_info \<Rightarrow> startup_step" where
  "got_message Q text s =
     (let msg = trimmed Q text in
      if startsWith (qs ''new:'') msg then got_startup_info Q (drop 4 msg) False s
      else if startsWith (qs ''change:'') msg then got_startup_info Q (drop 7 msg) True s
      else if startsWith (qs ''remove:'') msg then got_remove_startup_info Q (drop 7 msg) s
      else (s, []))"

section \<open>Windows\<close>

datatype startup_match = NoMatch | Match | CantDetect

text \<open>The X session a window is in.\<close>

record x_session =
  xs_atoms :: atom_env
  xs_server :: server
  xs_root :: u32
  xs_platform :: bool

definition windowStartupId :: "x_session \<Rightarrow> u32 \<Rightarrow> cstr" where
  "windowStartupId X w =
     (if \<not> xs_platform X then None
      else
        (let info = NETWinInfo (xs_atoms X) (xs_server X) w (xs_root X) 0
                      (prop2_flag WM2StartupId OR prop2_flag WM2GroupLeader) Client;
             ret = wi_startup_id info
         in if (case ret of None \<Rightarrow> True | Some s \<Rightarrow> s = []) \<and> wi_window_group info \<noteq> 0
            then wi_startup_id
                   (NETWinInfo (xs_atoms X) (xs_server X) (wi_window_group info) (xs_root X) 0 0 Client)
            else ret))"

definition find_id :: "string \<Rightarrow> startup_info \<Rightarrow> (startup_id \<times> startup_data) option" where
  "find_id i s =
     (case RBT.lookup (si_startups s) (StartupId i) of
        Some e \<Rightarrow> Some (StartupId i, en_data e) | None \<Rightarrow> None)"

text \<open>The first announced startup with a property, which is removed.\<close>

definition take_first ::
  "(startup_entry \<Rightarrow> bool) \<Rightarrow> startup_info \<Rightarrow> startup_step \<times> (startup_id \<times> startup_data) option" where
  "take_first P s =
     (case find (\<lambda>(i, e). P e) (RBT.entries (si_startups s)) of
        Some (i, e) \<Rightarrow> (removeStartupInfoInternal i e s, Some (i, en_data e))
      | None \<Rightarrow> ((s, []), None))"

definition find_pid ::
  "i32 \<Rightarrow> string \<Rightarrow> startup_info \<Rightarrow> startup_step \<times> (startup_id \<times> startup_data) option" where
  "find_pid pid hostname =
     take_first (\<lambda>e. is_pid (en_data e) pid \<and> sd_hostname (en_data e) = hostname)"

definition find_wclass ::
  "qt \<Rightarrow> string \<Rightarrow> string \<Rightarrow> startup_info \<Rightarrow> startup_step \<times> (startup_id \<times> startup_data) option" where
  "find_wclass Q res_name res_class =
     take_first (\<lambda>e. toLower Q (findWMClass Q (en_data e)) = toLower Q res_name \<or>
        toLower Q (findWMClass Q (en_data e)) = toLower Q res_class)"

definition bytes_of :: "cstr \<Rightarrow> string" where
  "bytes_of c = (case c of None \<Rightarrow> [] | Some s \<Rightarrow> s)"

definition matched_types :: u32 where
  "matched_types = or_all (map type_flag [NormalMask, DesktopMask, DockMask, ToolbarMask, MenuMask,
     DialogMask, OverrideMask, TopMenuMask, UtilityMask, SplashMask])"

text \<open>The window is looked at only if its startup id is not set.\<close>

definition check_unmarked ::
  "qt \<Rightarrow> x_session \<Rightarrow> u32 \<Rightarrow> startup_info \<Rightarrow>
     startup_step \<times> startup_match \<times> (startup_id \<times> startup_data) option" where
  "check_unmarked Q X w s =
     (let info = NETWinInfo (xs_atoms X) (xs_server X) w (xs_root X)
            (prop_flag WMWindowType OR prop_flag WMPid OR prop_flag WMState)
            (prop2_flag WM2WindowClass OR prop2_flag WM2ClientMachine OR prop2_flag WM2TransientFor) Client;
          pid = wi_pid info; hostname = bytes_of (wi_client_machine info);
          by_pid = (if 0 < sint pid \<and> hostname \<noteq> [] then find_pid pid hostname s else ((s, []), None))
      in case by_pid of
        (step, Some found) \<Rightarrow> (step, Match, Some found)
      | (step, None) \<Rightarrow>
          (case find_wclass Q (bytes_of (wi_class_name info)) (bytes_of (wi_class_class info)) s of
             (step, Some found) \<Rightarrow> (step, Match, Some found)
           | (step, None) \<Rightarrow>
               if windowType info matched_types \<notin> {Normal, Override, Unknown, Dialog, Utility}
               then ((s, []), NoMatch, None)
               else if wi_transient_for info \<noteq> xs_root X \<and> wi_transient_for info \<noteq> 0
               then ((s, []), NoMatch, None)
               else ((s, []), CantDetect, None)))"

definition check_startup_internal ::
  "qt \<Rightarrow> x_session \<Rightarrow> u32 \<Rightarrow> startup_info \<Rightarrow>
     startup_step \<times> startup_match \<times> (startup_id \<times> startup_data) option" where
  "check_startup_internal Q X w s =
     (if RBT.is_empty (si_startups s) then ((s, []), NoMatch, None)
      else case windowStartupId X w of
        Some i \<Rightarrow>
          (if i = [] \<or> i = ''0'' then ((s, []), NoMatch, None)
           else case find_id i s of
             Some found \<Rightarrow> ((s, []), Match, Some found)
           | None \<Rightarrow> ((s, []), NoMatch, None))
      | None \<Rightarrow>
          if \<not> xs_platform X then ((s, []), CantDetect, None) else check_unmarked Q X w s)"

fun clean_list :: "(startup_id \<times> startup_entry) list \<Rightarrow> startup_step \<Rightarrow> startup_step" where
  "clean_list [] st = st"
| "clean_list ((i, e) # es) (s, sigs) =
     (if sd_wmclass (en_data e) \<noteq> ''0'' then clean_list es (s, sigs)
      else (let (s', sigs') = removeStartupInfoInternal i e s in clean_list es (s', sigs @ sigs')))"

definition clean_all_noncompliant :: "startup_info \<Rightarrow> startup_step" where
  "clean_all_noncompliant s = clean_list (RBT.entries (si_startups s)) (s, [])"

definition window_added :: "qt \<Rightarrow> x_session \<Rightarrow> u32 \<Rightarrow> startup_info \<Rightarrow> startup_step" where
  "window_added Q X w s =
     (case check_startup_internal Q X w s of
        ((s', sigs), CantDetect, found) \<Rightarrow>
          if hasf (si_flags s') CleanOnCantDetect
          then (let (s'', sigs') = clean_all_noncompliant s' in (s'', sigs @ sigs'))
          else (s', sigs)
      | ((s', sigs), m, found) \<Rightarrow> (s', sigs))"

section \<open>Timeouts\<close>

text \<open>
  \<open>env\<close> is \<^verbatim>\<open>KSTARTUPINFO_TIMEOUT\<close> as a number, if it is set.
\<close>

definition entry_timeout :: "u32 option \<Rightarrow> u32 \<Rightarrow> startup_entry \<Rightarrow> u32" where
  "entry_timeout env timeout e =
     (case env of
        Some t \<Rightarrow> t
      | None \<Rightarrow> if sd_silent (en_data e) = Yes then timeout * 20 else timeout)"

definition aged :: "bool \<Rightarrow> startup_entry \<Rightarrow> startup_entry" where
  "aged age e = (if age then e\<lparr>en_age := en_age e + 1\<rparr> else e)"

definition expired :: "u32 option \<Rightarrow> u32 \<Rightarrow> startup_entry \<Rightarrow> bool" where
  "expired env timeout e \<longleftrightarrow> entry_timeout env timeout e \<le> en_age e"

fun check_list ::
  "u32 option \<Rightarrow> u32 \<Rightarrow> bool \<Rightarrow> bool \<Rightarrow> (startup_id \<times> startup_entry) list \<Rightarrow> startups \<times> startup_signal list
    \<Rightarrow> startups \<times> startup_signal list" where
  "check_list env timeout age doEmit [] st = st"
| "check_list env timeout age doEmit ((i, e) # es) (m, sigs) =
     check_list env timeout age doEmit es
       (if expired env timeout (aged age e)
        then (RBT.delete i m, sigs @ (if doEmit then [GotRemoveStartup i (en_data e)] else []))
        else (RBT.insert i (aged age e) m, sigs))"

definition checkCleanup ::
  "u32 option \<Rightarrow> u32 \<Rightarrow> bool \<Rightarrow> bool \<Rightarrow> startups \<Rightarrow> startups \<times> startup_signal list" where
  "checkCleanup env timeout age doEmit m = check_list env timeout age doEmit (RBT.entries m) (m, [])"

definition startups_cleanup_internal :: "u32 option \<Rightarrow> bool \<Rightarrow> startup_info \<Rightarrow> startup_step" where
  "startups_cleanup_internal env age s =
     (let (m1, sigs) = checkCleanup env (si_timeout s) age True (si_startups s);
          (m2, _) = checkCleanup env (si_timeout s) age False (si_silent s);
          (m3, _) = checkCleanup env (si_timeout s) age False (si_uninited s)
      in (s\<lparr>si_startups := m1, si_silent := m2, si_uninited := m3\<rparr>, sigs))"

definition startups_cleanup_no_age :: "u32 option \<Rightarrow> startup_info \<Rightarrow> startup_step" where
  "startups_cleanup_no_age env s = startups_cleanup_internal env False s"

definition startups_cleanup :: "u32 option \<Rightarrow> startup_info \<Rightarrow> startup_step" where
  "startups_cleanup env s =
     (if RBT.is_empty (si_startups s) \<and> RBT.is_empty (si_silent s) \<and> RBT.is_empty (si_uninited s)
      then (s\<lparr>si_cleanup := False\<rparr>, [])
      else startups_cleanup_internal env True s)"

definition setTimeout :: "u32 \<Rightarrow> startup_info \<Rightarrow> startup_info" where
  "setTimeout secs s = s\<lparr>si_timeout := secs\<rparr>"

section \<open>Sending\<close>

definition NET_STARTUP_MSG :: string where
  "NET_STARTUP_MSG = ''_NET_STARTUP_INFO''"

definition check_required_startup_fields :: "qt \<Rightarrow> qstring \<Rightarrow> startup_data \<Rightarrow> i32 \<Rightarrow> qstring" where
  "check_required_startup_fields Q msg d screen =
     msg @
     (if sd_name d = []
      then quoted ''NAME'' (escape_str (if sd_bin d = [] then qs ''UNKNOWN'' else sd_bin d)) else []) @
     (if sd_screen d = - 1 then plain ''SCREEN'' (num Q screen) else [])"

definition startup_text :: "qt \<Rightarrow> i32 \<Rightarrow> string \<Rightarrow> startup_data \<Rightarrow> qstring" where
  "startup_text Q screen i d =
     check_required_startup_fields Q (qs ''new: '' @ id_to_text Q i @ qs '' '' @ data_to_text Q d) d screen"

definition change_text :: "qt \<Rightarrow> string \<Rightarrow> startup_data \<Rightarrow> qstring" where
  "change_text Q i d = qs ''change: '' @ id_to_text Q i @ qs '' '' @ data_to_text Q d"

definition finish_text :: "qt \<Rightarrow> string \<Rightarrow> qstring" where
  "finish_text Q i = qs ''remove: '' @ id_to_text Q i"

definition finish_data_text :: "qt \<Rightarrow> string \<Rightarrow> startup_data \<Rightarrow> qstring" where
  "finish_data_text Q i d = qs ''remove: '' @ id_to_text Q i @ qs '' '' @ data_to_text Q d"

text \<open>\<open>conn\<close>: the roots of the screens, and the numbers of names; \<open>win\<close> is the window that sends.\<close>

definition sendStartupXcb ::
  "qt \<Rightarrow> (string \<Rightarrow> u32) \<Rightarrow> u32 list option \<Rightarrow> u32 \<Rightarrow> i32 \<Rightarrow> string \<Rightarrow> startup_data \<Rightarrow> bool \<times> kx_effect list" where
  "sendStartupXcb Q intern conn win screen i d =
     (if isNull i then (False, [])
      else broadcastMessageX Q intern conn win NET_STARTUP_MSG (startup_text Q screen i d) screen)"

definition sendChangeXcb ::
  "qt \<Rightarrow> (string \<Rightarrow> u32) \<Rightarrow> u32 list option \<Rightarrow> u32 \<Rightarrow> i32 \<Rightarrow> string \<Rightarrow> startup_data \<Rightarrow> bool \<times> kx_effect list" where
  "sendChangeXcb Q intern conn win screen i d =
     (if isNull i then (False, [])
      else broadcastMessageX Q intern conn win NET_STARTUP_MSG (change_text Q i d) screen)"

definition sendFinishXcb ::
  "qt \<Rightarrow> (string \<Rightarrow> u32) \<Rightarrow> u32 list option \<Rightarrow> u32 \<Rightarrow> i32 \<Rightarrow> string \<Rightarrow> bool \<times> kx_effect list" where
  "sendFinishXcb Q intern conn win screen i =
     (if isNull i then (False, [])
      else broadcastMessageX Q intern conn win NET_STARTUP_MSG (finish_text Q i) screen)"

definition sendFinishXcb_data ::
  "qt \<Rightarrow> (string \<Rightarrow> u32) \<Rightarrow> u32 list option \<Rightarrow> u32 \<Rightarrow> i32 \<Rightarrow> string \<Rightarrow> startup_data \<Rightarrow> bool \<times> kx_effect list" where
  "sendFinishXcb_data Q intern conn win screen i d =
     broadcastMessageX Q intern conn win NET_STARTUP_MSG (finish_data_text Q i d) screen"

end
