(* ===== verification/StartupProtocol.thy ===== *)
theory StartupProtocol
  imports StartupInfo
begin

text \<open>
  What holds of every \<^verbatim>\<open>KStartupInfo\<close>: its three maps never overlap, its timer runs while
  there is anything to expire, and its signals tell an observer exactly which startups are
  announced; and what the timer does to a startup nobody speaks of any more.
\<close>

section \<open>Operations and runs\<close>

datatype startup_op =
    Heard qstring
  | WindowAdded x_session u32
  | CheckStartup x_session u32
  | Tick "u32 option"
  | Sweep "u32 option"
  | SetTimeout u32

primrec startup_apply :: "qt \<Rightarrow> startup_op \<Rightarrow> startup_info \<Rightarrow> startup_step" where
  "startup_apply Q (Heard msg) s = got_message Q msg s"
| "startup_apply Q (WindowAdded X w) s = window_added Q X w s"
| "startup_apply Q (CheckStartup X w) s = fst (check_startup_internal Q X w s)"
| "startup_apply Q (Tick env) s = startups_cleanup env s"
| "startup_apply Q (Sweep env) s = startups_cleanup_no_age env s"
| "startup_apply Q (SetTimeout secs) s = (setTimeout secs s, [])"

fun startup_run :: "qt \<Rightarrow> startup_op list \<Rightarrow> startup_info \<Rightarrow> startup_step" where
  "startup_run Q [] s = (s, [])"
| "startup_run Q (op # ops) s =
     (let (s', sigs) = startup_apply Q op s; (s'', sigs') = startup_run Q ops s' in (s'', sigs @ sigs'))"

section \<open>The observer\<close>

text \<open>
  What an observer of the signals believes to be announced; it is puzzled (\<open>None\<close>) by the
  announcement of what is announced and by the removal of what is not.
\<close>

fun replay :: "startup_signal list \<Rightarrow> startup_id set \<Rightarrow> startup_id set option" where
  "replay [] shown = Some shown"
| "replay (GotNewStartup i d # sigs) shown = (if i \<in> shown then None else replay sigs (insert i shown))"
| "replay (GotStartupChange i d # sigs) shown = replay sigs shown"
| "replay (GotRemoveStartup i d # sigs) shown = (if i \<in> shown then replay sigs (shown - {i}) else None)"

lemma replay_append:
  "replay (xs @ ys) A = (case replay xs A of None \<Rightarrow> None | Some B \<Rightarrow> replay ys B)"
  by (induction xs A rule: replay.induct) auto

lemma replay_removes:
  "distinct (map fst es) \<Longrightarrow> fst ` set es \<subseteq> A \<Longrightarrow>
    replay (map (\<lambda>(i, e). GotRemoveStartup i (f e)) es) A = Some (A - fst ` set es)"
proof (induction es arbitrary: A)
  case (Cons x es)
  obtain i e where x: "x = (i, e)" by (cases x)
  have "i \<notin> fst ` set es" using Cons.prems(1) x by simp
  then have "replay (map (\<lambda>(i, e). GotRemoveStartup i (f e)) es) (A - {i}) = Some (A - {i} - fst ` set es)"
    using Cons.prems x by (intro Cons.IH) auto
  moreover have "A - {i} - fst ` set es = A - insert i (fst ` set es)" by blast
  ultimately show ?case using Cons.prems(2) by (simp add: x)
qed simp

section \<open>The invariant\<close>

abbreviation shown :: "startup_info \<Rightarrow> startup_id \<rightharpoonup> startup_entry" where
  "shown s \<equiv> RBT.lookup (si_startups s)"
abbreviation silenced :: "startup_info \<Rightarrow> startup_id \<rightharpoonup> startup_entry" where
  "silenced s \<equiv> RBT.lookup (si_silent s)"
abbreviation uninited :: "startup_info \<Rightarrow> startup_id \<rightharpoonup> startup_entry" where
  "uninited s \<equiv> RBT.lookup (si_uninited s)"

definition startup_inv :: "startup_info \<Rightarrow> bool" where
  "startup_inv s \<longleftrightarrow>
     dom (shown s) \<inter> dom (silenced s) = {} \<and>
     dom (shown s) \<inter> dom (uninited s) = {} \<and>
     dom (silenced s) \<inter> dom (uninited s) = {} \<and>
     (\<forall>e \<in> ran (silenced s). sd_silent (en_data e) = Yes \<and> \<not> announces s) \<and>
     (\<forall>i \<in> dom (shown s) \<union> dom (silenced s) \<union> dom (uninited s). \<not> id_null i) \<and>
     (dom (shown s) \<union> dom (silenced s) \<union> dom (uninited s) \<noteq> {} \<longrightarrow> si_cleanup s)"

text \<open>A step that keeps the invariant and tells the observer the truth.\<close>

definition honest :: "startup_info \<Rightarrow> startup_step \<Rightarrow> bool" where
  "honest s st \<longleftrightarrow> startup_inv (fst st) \<and> si_flags (fst st) = si_flags s \<and>
     replay (snd st) (dom (shown s)) = Some (dom (shown (fst st)))"

lemma honest_stay [simp]: "startup_inv s \<Longrightarrow> honest s (s, [])"
  by (simp add: honest_def)

lemma honest_then:
  "honest s (s', sigs) \<Longrightarrow> honest s' (s'', sigs') \<Longrightarrow> honest s (s'', sigs @ sigs')"
  by (simp add: honest_def replay_append)

lemma announces_flags: "si_flags s = si_flags t \<Longrightarrow> announces s = announces t"
  by (simp add: announces_def)

section \<open>Messages keep it\<close>

lemma honest_new:
  assumes "startup_inv s"
  shows "honest s (new_startup_info_internal i d upd s)"
proof (cases "id_null i")
  case True
  then show ?thesis using assms by (simp add: new_startup_info_internal_def)
next
  case False
  note inv = assms [unfolded startup_inv_def]
  consider (a) e where "shown s i = Some e"
    | (b) e where "shown s i = None" "silenced s i = Some e"
    | (c) e where "shown s i = None" "silenced s i = None" "uninited s i = Some e"
    | (d) "shown s i = None" "silenced s i = None" "uninited s i = None"
    by (cases "shown s i"; cases "silenced s i"; cases "uninited s i") auto
  then show ?thesis
  proof cases
    case a
    then show ?thesis using False inv
      by (auto simp: new_startup_info_internal_def Let_def honest_def startup_inv_def announces_def
          ran_def dom_def split: if_splits)
  next
    case b
    then show ?thesis using False inv
      by (auto simp: new_startup_info_internal_def Let_def honest_def startup_inv_def announces_def
          ran_def dom_def split: if_splits)
  next
    case c
    then show ?thesis using False inv
      by (auto simp: new_startup_info_internal_def Let_def honest_def startup_inv_def announces_def
          ran_def dom_def split: if_splits)
  next
    case d
    then show ?thesis using False inv
      by (auto simp: new_startup_info_internal_def Let_def honest_def startup_inv_def announces_def
          ran_def dom_def split: if_splits)
  qed
qed

lemma honest_remove_all:
  assumes "startup_inv s"
  shows "honest s (removeAllStartupInfoInternal i s)"
proof -
  note inv = assms [unfolded startup_inv_def]
  show ?thesis
    using inv
    by (auto simp: removeAllStartupInfoInternal_def honest_def startup_inv_def announces_def ran_def dom_def
        split: option.splits if_splits)
qed

text \<open>Changing the data of a startup without silencing it is not seen.\<close>

lemma silent_remove_pids: "sd_silent (fold remove_pid pids d) = sd_silent d"
  by (induction pids arbitrary: d) (simp_all add: remove_pid_def)

lemma silent_without_pids [simp]:
  "sd_silent (en_data (without_pids pids e)) = sd_silent (en_data e)"
  "en_age (without_pids pids e) = en_age e"
  by (simp_all add: without_pids_def silent_remove_pids)

definition same_keys :: "startup_info \<Rightarrow> startup_info \<Rightarrow> bool" where
  "same_keys s t \<longleftrightarrow> dom (shown t) = dom (shown s) \<and> dom (silenced t) = dom (silenced s) \<and>
     dom (uninited t) = dom (uninited s) \<and> si_flags t = si_flags s \<and> si_cleanup t = si_cleanup s"

lemma honest_same_keys:
  assumes "startup_inv s" "same_keys s t" "\<forall>e \<in> ran (silenced t). sd_silent (en_data e) = Yes"
  shows "honest s (t, [])"
proof -
  have "announces t = announces s" using assms(2) by (simp add: same_keys_def announces_def)
  moreover have "\<not> announces s" if "e \<in> ran (silenced t)" for e
  proof -
    from that obtain i where "i \<in> dom (silenced t)" by (auto simp: ran_def)
    then have "i \<in> dom (silenced s)" using assms(2) by (simp add: same_keys_def)
    then show ?thesis using assms(1) by (force simp: startup_inv_def ran_def)
  qed
  ultimately show ?thesis
    using assms unfolding honest_def startup_inv_def same_keys_def by simp
qed

lemma honest_change_then_remove:
  assumes "honest s (t, [])"
  shows "honest s (if b then removeAllStartupInfoInternal i t else (t, []))"
proof (cases b)
  case True
  obtain t' sigs where r: "removeAllStartupInfoInternal i t = (t', sigs)" by fastforce
  have "startup_inv t" using assms by (simp add: honest_def)
  from honest_remove_all [OF this, of i] have "honest t (t', sigs)" by (simp add: r)
  from honest_then [OF assms this] show ?thesis using True r by simp
qed (simp add: assms)

lemma honest_remove_pids_id:
  assumes "startup_inv s"
  shows "honest s (remove_startup_pids_id i d s)"
proof -
  have silent: "\<forall>e \<in> ran (silenced s). sd_silent (en_data e) = Yes"
    using assms by (simp add: startup_inv_def)
  have changed: "\<forall>e \<in> ran ((silenced s)(i \<mapsto> without_pids pids e)). sd_silent (en_data e) = Yes"
    if "silenced s i = Some e" for e pids
    using silent that by (auto simp: ran_def split: if_splits)
  have 1: "honest s (s\<lparr>si_startups := RBT.insert i (without_pids pids e) (si_startups s)\<rparr>, [])"
    if "shown s i = Some e" for e pids
    using that silent
    by (intro honest_same_keys [OF assms]) (auto simp: same_keys_def)
  have 2: "honest s (s\<lparr>si_silent := RBT.insert i (without_pids pids e) (si_silent s)\<rparr>, [])"
    if "silenced s i = Some e" for e pids
    using that changed
    by (intro honest_same_keys [OF assms]) (auto simp: same_keys_def)
  have 3: "honest s (s\<lparr>si_uninited := RBT.insert i (without_pids pids e) (si_uninited s)\<rparr>, [])"
    if "uninited s i = Some e" for e pids
    using that silent
    by (intro honest_same_keys [OF assms]) (auto simp: same_keys_def)
  show ?thesis
    unfolding remove_startup_pids_id_def Let_def
    using honest_change_then_remove [OF 1] honest_change_then_remove [OF 2]
      honest_change_then_remove [OF 3] honest_stay [OF assms]
    by (cases "shown s i"; cases "silenced s i"; cases "uninited s i")
      (simp_all only: option.case)
qed

lemma honest_remove_pids: "startup_inv s \<Longrightarrow> honest s (remove_startup_pids d s)"
  by (auto simp: remove_startup_pids_def honest_remove_pids_id split: option.split)

lemma honest_got_message: "startup_inv s \<Longrightarrow> honest s (got_message Q msg s)"
  by (simp add: got_message_def got_startup_info_def got_remove_startup_info_def Let_def honest_new
      honest_remove_all honest_remove_pids honest_remove_pids_id)

section \<open>Windows keep it\<close>

lemma honest_removeStartupInfo:
  assumes "startup_inv s" "shown s i = Some e"
  shows "honest s (removeStartupInfoInternal i e' s)"
  using assms
  by (auto simp: removeStartupInfoInternal_def honest_def startup_inv_def announces_def ran_def dom_def
      split: if_splits)

lemma entry_announced: "(i, e) \<in> set (RBT.entries (si_startups s)) \<Longrightarrow> shown s i = Some e"
  by (simp add: RBT.lookup_in_tree)

lemma honest_take_first:
  assumes "startup_inv s"
  shows "honest s (fst (take_first P s))"
proof (cases "find (\<lambda>(i, e). P e) (RBT.entries (si_startups s))")
  case (Some x)
  obtain i e where x: "x = (i, e)" by (cases x)
  have "(i, e) \<in> set (RBT.entries (si_startups s))"
    using Some x by (metis (no_types, lifting) find_Some_iff nth_mem)
  then show ?thesis
    using honest_removeStartupInfo [OF assms entry_announced] Some x by (simp add: take_first_def)
qed (simp add: take_first_def assms)

lemma take_first_None: "snd (take_first P s) = None \<Longrightarrow> fst (take_first P s) = (s, [])"
  by (auto simp: take_first_def split: option.splits)

lemma honest_found_or:
  "honest s (fst r) \<Longrightarrow> honest s (fst k) \<Longrightarrow>
    honest s (fst (case r of (st, Some f) \<Rightarrow> (st, Match, Some f) | (st, None) \<Rightarrow> k))"
  by (cases r; cases "snd r") auto

lemma honest_check_unmarked:
  assumes "startup_inv s"
  shows "honest s (fst (check_unmarked Q X w s))"
proof -
  have two: "honest s (fst (if b then find_pid pid h s else ((s, []), None)))" for b pid h
    by (simp add: find_pid_def honest_take_first assms)
  have three: "honest s (fst (find_wclass Q n c s))" for n c
    by (simp add: find_wclass_def honest_take_first assms)
  show ?thesis
    unfolding check_unmarked_def Let_def
    by (intro honest_found_or two three) (simp add: assms)
qed

lemma honest_check:
  assumes "startup_inv s"
  shows "honest s (fst (check_startup_internal Q X w s))"
  unfolding check_startup_internal_def
  using honest_check_unmarked [OF assms] honest_stay [OF assms]
  by (auto split: option.split)

lemma check_CantDetect:
  assumes "check_startup_internal Q X w s = (st, CantDetect, found)"
  shows "st = (s, [])"
  using assms unfolding check_startup_internal_def check_unmarked_def Let_def
  by (auto split: option.splits prod.splits if_splits)

lemma honest_clean_list:
  "honest s (t, sigs) \<Longrightarrow> distinct (map fst es) \<Longrightarrow> (\<forall>(i, e) \<in> set es. shown t i = Some e) \<Longrightarrow>
    honest s (clean_list es (t, sigs))"
proof (induction es arbitrary: t sigs)
  case (Cons x es)
  obtain i e where x: "x = (i, e)" by (cases x)
  show ?case
  proof (cases "sd_wmclass (en_data e) = ''0''")
    case False
    then show ?thesis using Cons x by simp
  next
    case True
    have inv: "startup_inv t" "shown t i = Some e" using Cons.prems x by (auto simp: honest_def)
    obtain t' sigs' where r: "removeStartupInfoInternal i e t = (t', sigs')" by fastforce
    have "honest s (t', sigs @ sigs')"
      using honest_then [OF Cons.prems(1)] honest_removeStartupInfo [OF inv, of e] r by simp
    moreover have "\<forall>(j, f) \<in> set es. shown t' j = Some f"
      using Cons.prems x r by (force simp: removeStartupInfoInternal_def)
    ultimately show ?thesis using Cons.IH [of t' "sigs @ sigs'"] Cons.prems(2) True x r by simp
  qed
qed simp

lemma honest_clean: "startup_inv s \<Longrightarrow> honest s (clean_all_noncompliant s)"
  unfolding clean_all_noncompliant_def
  by (rule honest_clean_list) (auto simp: entry_announced RBT.distinct_entries)

lemma honest_window_added:
  assumes "startup_inv s"
  shows "honest s (window_added Q X w s)"
proof -
  obtain st m found where c: "check_startup_internal Q X w s = (st, m, found)" by (metis surj_pair)
  obtain s' sigs where st: "st = (s', sigs)" by (cases st)
  have h: "honest s (s', sigs)" using honest_check [OF assms, of Q X w] c st by simp
  show ?thesis
  proof (cases m)
    case CantDetect
    have "s' = s" "sigs = []" using check_CantDetect c st CantDetect by auto
    then show ?thesis
      using c st CantDetect honest_clean [OF assms] assms
      by (auto simp: window_added_def split: prod.split)
  qed (use c st h in \<open>simp_all add: window_added_def\<close>)
qed

section \<open>Timeouts keep it\<close>

definition gone :: "u32 option \<Rightarrow> u32 \<Rightarrow> bool \<Rightarrow> (startup_id \<times> startup_entry) list \<Rightarrow> (startup_id \<times> startup_entry) list" where
  "gone env timeout age es = filter (\<lambda>(i, e). expired env timeout (aged age e)) es"

lemma check_list_signals:
  "snd (check_list env timeout age doEmit es (m, sigs)) =
    sigs @ (if doEmit then map (\<lambda>(i, e). GotRemoveStartup i (en_data e)) (gone env timeout age es) else [])"
proof (induction es arbitrary: m sigs)
  case (Cons x es)
  obtain i e where x: "x = (i, e)" by (cases x)
  show ?case by (cases "expired env timeout (aged age e)") (simp_all add: x Cons.IH gone_def)
qed (simp add: gone_def)

lemma check_list_lookup:
  "distinct (map fst es) \<Longrightarrow>
    RBT.lookup (fst (check_list env timeout age doEmit es (m, sigs))) k =
      (case map_of es k of
         None \<Rightarrow> RBT.lookup m k
       | Some e \<Rightarrow> if expired env timeout (aged age e) then None else Some (aged age e))"
proof (induction es arbitrary: m sigs)
  case (Cons x es)
  obtain i e where x: "x = (i, e)" by (cases x)
  have "map_of es i = None" using Cons.prems x by (simp add: map_of_eq_None_iff)
  then show ?case
    using Cons.IH Cons.prems
    by (cases "expired env timeout (aged age e)"; cases "k = i") (simp_all add: x split: option.split)
qed simp

lemma checkCleanup_lookup:
  "RBT.lookup (fst (checkCleanup env timeout age doEmit m)) k =
    (case RBT.lookup m k of
       None \<Rightarrow> None
     | Some e \<Rightarrow> if expired env timeout (aged age e) then None else Some (aged age e))"
  by (simp add: checkCleanup_def check_list_lookup RBT.distinct_entries split: option.split)

lemma checkCleanup_signals:
  "snd (checkCleanup env timeout age True m) =
    map (\<lambda>(i, e). GotRemoveStartup i (en_data e)) (gone env timeout age (RBT.entries m))"
  "snd (checkCleanup env timeout age False m) = []"
  by (simp_all add: checkCleanup_def check_list_signals)

lemma dom_checkCleanup:
  "dom (RBT.lookup (fst (checkCleanup env timeout age doEmit m))) =
    dom (RBT.lookup m) - fst ` set (gone env timeout age (RBT.entries m))"
proof (rule set_eqI)
  fix k
  have "k \<in> fst ` set (gone env timeout age (RBT.entries m)) \<longleftrightarrow>
      (\<exists>e. RBT.lookup m k = Some e \<and> expired env timeout (aged age e))"
    by (force simp: gone_def RBT.lookup_in_tree)
  then show "k \<in> dom (RBT.lookup (fst (checkCleanup env timeout age doEmit m))) \<longleftrightarrow>
      k \<in> dom (RBT.lookup m) - fst ` set (gone env timeout age (RBT.entries m))"
    unfolding dom_def mem_Collect_eq checkCleanup_lookup by (auto split: option.splits if_splits)
qed

lemma distinct_gone: "distinct (map fst es) \<Longrightarrow> distinct (map fst (gone env timeout age es))"
  by (simp add: gone_def distinct_map inj_on_def)

lemma replay_checkCleanup:
  "replay (snd (checkCleanup env timeout age True m)) (dom (RBT.lookup m)) =
    Some (dom (RBT.lookup (fst (checkCleanup env timeout age True m))))"
proof -
  have "fst ` set (gone env timeout age (RBT.entries m)) \<subseteq> dom (RBT.lookup m)"
    by (auto simp: gone_def RBT.lookup_in_tree dom_def)
  from replay_removes [OF distinct_gone [OF RBT.distinct_entries] this, of en_data] show ?thesis
    by (simp add: checkCleanup_signals dom_checkCleanup)
qed

lemma cleanup_internal_fields:
  "shown (fst (startups_cleanup_internal env age s)) =
     RBT.lookup (fst (checkCleanup env (si_timeout s) age True (si_startups s)))"
  "silenced (fst (startups_cleanup_internal env age s)) =
     RBT.lookup (fst (checkCleanup env (si_timeout s) age False (si_silent s)))"
  "uninited (fst (startups_cleanup_internal env age s)) =
     RBT.lookup (fst (checkCleanup env (si_timeout s) age False (si_uninited s)))"
  "snd (startups_cleanup_internal env age s) =
     snd (checkCleanup env (si_timeout s) age True (si_startups s))"
  "si_flags (fst (startups_cleanup_internal env age s)) = si_flags s"
  "si_cleanup (fst (startups_cleanup_internal env age s)) = si_cleanup s"
  "si_timeout (fst (startups_cleanup_internal env age s)) = si_timeout s"
  by (simp_all add: startups_cleanup_internal_def split: prod.split)

lemma silent_aged [simp]: "en_data (aged age e) = en_data e"
  by (simp add: aged_def)

lemma ran_checkCleanup:
  "e' \<in> ran (RBT.lookup (fst (checkCleanup env timeout age doEmit m))) \<Longrightarrow>
    \<exists>e \<in> ran (RBT.lookup m). en_data e' = en_data e"
  by (force simp: ran_def checkCleanup_lookup split: option.splits if_splits)

lemma startup_inv_shrink:
  assumes "startup_inv s" "dom (shown t) \<subseteq> dom (shown s)" "dom (silenced t) \<subseteq> dom (silenced s)"
    and "dom (uninited t) \<subseteq> dom (uninited s)" "si_cleanup t = si_cleanup s"
    and "\<forall>e \<in> ran (silenced t). sd_silent (en_data e) = Yes \<and> \<not> announces t"
  shows "startup_inv t"
proof -
  have s: "dom (shown s) \<inter> dom (silenced s) = {}" "dom (shown s) \<inter> dom (uninited s) = {}"
    "dom (silenced s) \<inter> dom (uninited s) = {}"
    "\<And>i. i \<in> dom (shown s) \<union> dom (silenced s) \<union> dom (uninited s) \<Longrightarrow> \<not> id_null i"
    "dom (shown s) \<union> dom (silenced s) \<union> dom (uninited s) \<noteq> {} \<Longrightarrow> si_cleanup s"
    using assms(1) unfolding startup_inv_def by simp_all
  have sub: "dom (shown t) \<union> dom (silenced t) \<union> dom (uninited t) \<subseteq>
      dom (shown s) \<union> dom (silenced s) \<union> dom (uninited s)" (is "?A \<subseteq> ?B")
    using assms(2,3,4) by (intro Un_mono)
  have "dom (shown t) \<inter> dom (silenced t) = {}"
    using s(1) Int_mono [OF assms(2,3)] by (simp only: subset_empty)
  moreover have "dom (shown t) \<inter> dom (uninited t) = {}"
    using s(2) Int_mono [OF assms(2,4)] by (simp only: subset_empty)
  moreover have "dom (silenced t) \<inter> dom (uninited t) = {}"
    using s(3) Int_mono [OF assms(3,4)] by (simp only: subset_empty)
  moreover have "\<forall>i \<in> ?A. \<not> id_null i"
    by (intro ballI s(4)) (rule subsetD [OF sub])
  moreover have "?A \<noteq> {} \<longrightarrow> si_cleanup t"
  proof
    assume "?A \<noteq> {}"
    then have "?B \<noteq> {}" using sub by (metis subset_empty)
    then show "si_cleanup t" using s(5) assms(5) by simp
  qed
  ultimately show ?thesis unfolding startup_inv_def using assms(6) by (intro conjI)
qed

lemma honest_cleanup_internal:
  assumes "startup_inv s"
  shows "honest s (startups_cleanup_internal env age s)"
proof -
  let ?t = "fst (startups_cleanup_internal env age s)"
  have sub: "dom (shown ?t) \<subseteq> dom (shown s)" "dom (silenced ?t) \<subseteq> dom (silenced s)"
    "dom (uninited ?t) \<subseteq> dom (uninited s)"
    unfolding cleanup_internal_fields dom_checkCleanup by blast+
  have "\<forall>e \<in> ran (silenced ?t). sd_silent (en_data e) = Yes \<and> \<not> announces s"
    using ran_checkCleanup assms unfolding cleanup_internal_fields startup_inv_def by metis
  moreover have "announces ?t = announces s" by (simp add: announces_def cleanup_internal_fields)
  ultimately have "startup_inv ?t"
    by (intro startup_inv_shrink [OF assms sub]) (simp_all add: cleanup_internal_fields)
  then show ?thesis
    using replay_checkCleanup by (simp add: honest_def cleanup_internal_fields)
qed

lemma is_empty_dom: "RBT.is_empty m \<longleftrightarrow> dom (RBT.lookup m) = {}"
  by (simp flip: RBT.lookup_empty_empty)

lemma honest_cleanup:
  assumes "startup_inv s"
  shows "honest s (startups_cleanup env s)"
proof (cases "dom (shown s) = {} \<and> dom (silenced s) = {} \<and> dom (uninited s) = {}")
  case True
  then have "startup_inv (s\<lparr>si_cleanup := False\<rparr>)" by (simp add: startup_inv_def)
  then have "honest s (s\<lparr>si_cleanup := False\<rparr>, [])" by (simp add: honest_def)
  then show ?thesis using True by (simp add: startups_cleanup_def is_empty_dom)
next
  case False
  then have "startups_cleanup env s = startups_cleanup_internal env True s"
    by (auto simp add: startups_cleanup_def is_empty_dom simp del: dom_eq_empty_conv)
  then show ?thesis using honest_cleanup_internal [OF assms] by simp
qed

section \<open>All operations\<close>

lemma honest_apply:
  assumes "startup_inv s"
  shows "honest s (startup_apply Q op s)"
proof (cases op)
  case (SetTimeout secs)
  have "honest s (setTimeout secs s, [])"
    using assms by (auto simp: honest_def setTimeout_def startup_inv_def announces_def)
  then show ?thesis by (simp add: SetTimeout)
qed (simp_all add: assms honest_got_message honest_window_added honest_check honest_cleanup
    startups_cleanup_no_age_def honest_cleanup_internal)

lemma startup_inv_new: "startup_inv (KStartupInfo flags)"
  by (simp add: startup_inv_def KStartupInfo_def)

lemma honest_run: "startup_inv s \<Longrightarrow> honest s (startup_run Q ops s)"
proof (induction ops arbitrary: s)
  case (Cons op ops)
  obtain s' sigs where op: "startup_apply Q op s = (s', sigs)" by fastforce
  obtain s'' sigs' where ops: "startup_run Q ops s' = (s'', sigs')" by fastforce
  have "honest s (s', sigs)" using honest_apply [OF Cons.prems, of Q op] op by simp
  moreover from this have "honest s' (s'', sigs')" using Cons.IH [of s'] ops by (simp add: honest_def)
  ultimately show ?case using honest_then by (simp add: op ops)
qed simp

section \<open>Ages do not wrap around\<close>

definition young :: "startups \<Rightarrow> bool" where
  "young m \<longleftrightarrow> (\<forall>i e. RBT.lookup m i = Some e \<longrightarrow> en_age e \<noteq> - 1)"

lemma young_simps [simp]:
  "young RBT.empty" "young m \<Longrightarrow> en_age e \<noteq> - 1 \<Longrightarrow> young (RBT.insert i e m)"
  "young m \<Longrightarrow> young (RBT.delete i m)"
  by (simp_all add: young_def)

lemma young_lookup: "young m \<Longrightarrow> RBT.lookup m i = Some e \<Longrightarrow> en_age e \<noteq> - 1"
  by (simp add: young_def)

definition all_young :: "startup_info \<Rightarrow> bool" where
  "all_young s \<longleftrightarrow> young (si_startups s) \<and> young (si_silent s) \<and> young (si_uninited s)"

lemma young_new: "all_young s \<Longrightarrow> all_young (fst (new_startup_info_internal i d upd s))"
  by (auto simp: all_young_def new_startup_info_internal_def Let_def young_lookup split: option.split)

lemma young_remove_all: "all_young s \<Longrightarrow> all_young (fst (removeAllStartupInfoInternal i s))"
  by (auto simp: all_young_def removeAllStartupInfoInternal_def split: option.split)

lemma young_change: "young m \<Longrightarrow> RBT.lookup m i = Some e \<Longrightarrow> young (RBT.insert i (without_pids pids e) m)"
  by (rule young_simps(2)) (auto dest: young_lookup)

lemma young_change_then_remove:
  "all_young t \<Longrightarrow> all_young (fst (if b then removeAllStartupInfoInternal i t else (t, [])))"
  by (simp add: young_remove_all)

lemma young_remove_pids_id:
  assumes "all_young s"
  shows "all_young (fst (remove_startup_pids_id i d s))"
proof -
  have "all_young (s\<lparr>si_startups := RBT.insert i (without_pids pids e) (si_startups s)\<rparr>)"
    if "shown s i = Some e" for e pids
    using assms that by (simp add: all_young_def young_change)
  note 1 = young_change_then_remove [OF this]
  have "all_young (s\<lparr>si_silent := RBT.insert i (without_pids pids e) (si_silent s)\<rparr>)"
    if "silenced s i = Some e" for e pids
    using assms that by (simp add: all_young_def young_change)
  note 2 = young_change_then_remove [OF this]
  have "all_young (s\<lparr>si_uninited := RBT.insert i (without_pids pids e) (si_uninited s)\<rparr>)"
    if "uninited s i = Some e" for e pids
    using assms that by (simp add: all_young_def young_change)
  note 3 = young_change_then_remove [OF this]
  show ?thesis
    unfolding remove_startup_pids_id_def Let_def using 1 2 3 assms
    by (cases "shown s i"; cases "silenced s i"; cases "uninited s i")
      (simp_all only: option.case fst_conv)
qed

lemma young_got_message: "all_young s \<Longrightarrow> all_young (fst (got_message Q msg s))"
  by (auto simp: got_message_def got_startup_info_def got_remove_startup_info_def Let_def young_new
      young_remove_all young_remove_pids_id remove_startup_pids_def split: option.split)

lemma young_take_first: "all_young s \<Longrightarrow> all_young (fst (fst (take_first P s)))"
  by (auto simp: take_first_def removeStartupInfoInternal_def all_young_def split: option.split)

lemma young_found_or:
  "all_young (fst (fst r)) \<Longrightarrow> all_young (fst (fst k)) \<Longrightarrow>
    all_young (fst (fst (case r of (st, Some f) \<Rightarrow> (st, Match, Some f) | (st, None) \<Rightarrow> k)))"
  by (cases r; cases "snd r") auto

lemma young_check:
  assumes "all_young s"
  shows "all_young (fst (fst (check_startup_internal Q X w s)))"
proof -
  have "all_young (fst (fst (if b then find_pid pid h s else ((s, []), None))))"
    "all_young (fst (fst (find_wclass Q n c s)))" for b pid h n c
    by (simp_all add: find_pid_def find_wclass_def young_take_first assms)
  then have "all_young (fst (fst (check_unmarked Q X w s)))"
    unfolding check_unmarked_def Let_def by (intro young_found_or) (simp_all add: assms)
  then show ?thesis using assms by (auto simp: check_startup_internal_def split: option.split)
qed

lemma young_clean_list: "all_young s \<Longrightarrow> all_young (fst (clean_list es (s, sigs)))"
  by (induction es arbitrary: s sigs)
    (auto simp: removeStartupInfoInternal_def all_young_def Let_def)

lemma young_window_added: "all_young s \<Longrightarrow> all_young (fst (window_added Q X w s))"
  using young_check [of s Q X w]
  by (auto simp: window_added_def clean_all_noncompliant_def young_clean_list
      split: prod.split startup_match.split) (metis fst_conv young_clean_list)

lemma young_checkCleanup: "young (fst (checkCleanup env timeout age doEmit m))"
  if "young m \<or> age"
proof -
  have "en_age e \<noteq> - 1" if "\<not> expired env timeout e" for e
    using that by (auto simp: expired_def)
  then show ?thesis by (auto simp: young_def checkCleanup_lookup aged_def split: option.splits if_splits)
qed

lemma young_cleanup: "all_young s \<Longrightarrow> all_young (fst (startups_cleanup_internal env age s))"
  by (auto simp: all_young_def startups_cleanup_internal_def young_checkCleanup split: prod.split)
    (metis fst_conv young_checkCleanup)+

lemma young_apply:
  assumes "all_young s"
  shows "all_young (fst (startup_apply Q op s))"
proof (cases op)
  case (SetTimeout secs)
  then show ?thesis using assms by (simp add: setTimeout_def all_young_def)
next
  case (Tick env)
  have "all_young (s\<lparr>si_cleanup := False\<rparr>)" using assms by (simp add: all_young_def)
  then show ?thesis using Tick young_cleanup [OF assms] by (simp add: startups_cleanup_def)
qed (simp_all add: young_got_message young_window_added young_check young_cleanup
    startups_cleanup_no_age_def assms)

lemma young_run: "all_young s \<Longrightarrow> all_young (fst (startup_run Q ops s))"
proof (induction ops arbitrary: s)
  case (Cons op ops)
  then have "all_young (fst (startup_run Q ops (fst (startup_apply Q op s))))"
    using young_apply by blast
  then show ?case by (simp split: prod.split) (metis fst_conv)
qed simp

end
