(* ===== verification/StartupProperties.thy ===== *)
theory StartupProperties
  imports StartupProtocol
begin

text \<open>
  The properties of startup notification: what is sent is understood, the signals tell the truth,
  the maps keep their invariant, startups expire on time, and what a window's group leader is
  asked for.
\<close>

section \<open>Lifetimes\<close>

definition ticks :: "u32 option \<Rightarrow> nat \<Rightarrow> startup_info \<Rightarrow> startup_info" where
  "ticks env n = (\<lambda>s. fst (startups_cleanup env s)) ^^ n"

text \<open>What is left of an entry after so many ticks of the timer.\<close>

definition survivor :: "u32 option \<Rightarrow> u32 \<Rightarrow> nat \<Rightarrow> startup_entry \<Rightarrow> startup_entry option" where
  "survivor env timeout n e =
     (if n = 0 \<or> unat (en_age e) + n < unat (entry_timeout env timeout e)
      then Some (e\<lparr>en_age := en_age e + of_nat n\<rparr>) else None)"

lemma cleanup_lookup:
  assumes "m = si_startups \<or> m = si_silent \<or> m = si_uninited"
  shows "RBT.lookup (m (fst (startups_cleanup env s))) i =
    (case RBT.lookup (m s) i of
       None \<Rightarrow> None
     | Some e \<Rightarrow> if expired env (si_timeout s) (aged True e) then None else Some (aged True e))"
proof (cases "RBT.is_empty (si_startups s) \<and> RBT.is_empty (si_silent s) \<and> RBT.is_empty (si_uninited s)")
  case True
  then show ?thesis using assms by (auto simp: startups_cleanup_def)
next
  case False
  then show ?thesis
    using assms cleanup_internal_fields(1-3) [of env True s] checkCleanup_lookup
    by (auto simp: startups_cleanup_def)
qed

lemma timeout_cleanup: "si_timeout (fst (startups_cleanup env s)) = si_timeout s"
  by (simp add: startups_cleanup_def cleanup_internal_fields)

lemma timeout_ticks: "si_timeout (ticks env n s) = si_timeout s"
  by (induction n) (simp_all add: ticks_def timeout_cleanup)

lemma unat_less_32: "unat (x :: u32) < 2 ^ 32"
  using unsigned_less [of x] by simp

lemma survivor_step:
  assumes "en_age e \<noteq> - 1"
  shows "(case survivor env t n e of
       None \<Rightarrow> None
     | Some e' \<Rightarrow> if expired env t (aged True e') then None else Some (aged True e')) = survivor env t (Suc n) e"
proof (cases "n = 0 \<or> unat (en_age e) + n < unat (entry_timeout env t e)")
  case True
  have "(- 1 :: u32) = 0xffffffff" by simp
  with assms have "en_age e \<noteq> 0xffffffff" by (simp only:) simp
  then have "unat (en_age e) \<noteq> unat (0xffffffff :: u32)"
    by (simp only: word_unat_eq_iff not_False_eq_True)
  then have "unat (en_age e) \<noteq> 2 ^ 32 - 1" by simp
  then have "unat (en_age e) + n < 2 ^ 32 - 1"
    using True unat_less_32 [of "en_age e"] unat_less_32 [of "entry_timeout env t e"]
    by auto
  then have "unat (en_age e + (1 + of_nat n)) = unat (en_age e) + Suc n"
    by (simp add: unat_word_ariths unat_of_nat)
  then have "expired env t (aged True (e\<lparr>en_age := en_age e + of_nat n\<rparr>)) \<longleftrightarrow>
      \<not> unat (en_age e) + Suc n < unat (entry_timeout env t e)"
    by (simp add: expired_def aged_def entry_timeout_def word_le_nat_alt not_less ac_simps split: option.split)
  then show ?thesis
    using True by (auto simp: survivor_def aged_def ac_simps)
qed (simp add: survivor_def)

lemma ticks_lookup:
  assumes "all_young s" "m = si_startups \<or> m = si_silent \<or> m = si_uninited"
  shows "RBT.lookup (m (ticks env n s)) i = Option.bind (RBT.lookup (m s) i) (survivor env (si_timeout s) n)"
proof (induction n)
  case 0
  show ?case by (cases "RBT.lookup (m s) i") (simp_all add: ticks_def survivor_def)
next
  case (Suc n)
  have step: "ticks env (Suc n) s = fst (startups_cleanup env (ticks env n s))" by (simp add: ticks_def)
  show ?case
  proof (cases "RBT.lookup (m s) i")
    case None
    then show ?thesis using Suc by (simp add: step cleanup_lookup [OF assms(2)])
  next
    case (Some e)
    have "young (m s)" using assms by (auto simp: all_young_def)
    then have "en_age e \<noteq> - 1" using Some by (rule young_lookup)
    from survivor_step [OF this, of env "si_timeout s" n] show ?thesis
      unfolding step cleanup_lookup [OF assms(2)] timeout_ticks Suc Some by simp
  qed
qed

lemma all_young_start: "all_young (KStartupInfo flags)"
  by (simp add: all_young_def KStartupInfo_def)

text \<open>
  Startups live exactly as long as they should: in any object that has seen any messages and
  windows, a shown startup nobody speaks of any more is there after \<open>n\<close> seconds if and
  only if its age and \<open>n\<close> together are less than its timeout (which is twenty times as long for
  a silenced one), and so for the silenced and the uninitialised ones.
\<close>

theorem startup_lifetime:
  "let s = fst (startup_run Q ops (KStartupInfo flags)); t = ticks env n s in
     shown t i = Option.bind (shown s i) (survivor env (si_timeout s) n) \<and>
     silenced t i = Option.bind (silenced s i) (survivor env (si_timeout s) n) \<and>
     uninited t i = Option.bind (uninited s i) (survivor env (si_timeout s) n)"
  unfolding Let_def using ticks_lookup [OF young_run [OF all_young_start]] by blast

text \<open>
  The timer ends: once no timeout is longer than \<open>n\<close> seconds, after \<open>n\<close> seconds
  without messages all three maps are empty, and one second later the timer stands still, until
  the next message starts it again.
\<close>

theorem startups_expire:
  assumes "0 < n" "unat (si_timeout s) \<le> n" "unat (si_timeout s * 20) \<le> n"
    and "s = fst (startup_run Q ops (KStartupInfo flags))"
  shows "RBT.is_empty (si_startups (ticks None n s)) \<and> RBT.is_empty (si_silent (ticks None n s)) \<and>
    RBT.is_empty (si_uninited (ticks None n s)) \<and> \<not> si_cleanup (ticks None (Suc n) s)"
proof -
  have young: "all_young s" unfolding assms(4) by (rule young_run [OF all_young_start])
  have "survivor None (si_timeout s) n e = None" for e
    using assms(1-3) by (simp add: survivor_def entry_timeout_def)
  then have "Option.bind x (survivor None (si_timeout s) n) = None" for x by (cases x) simp_all
  then have "RBT.lookup (m (ticks None n s)) = Map.empty"
    if "m = si_startups \<or> m = si_silent \<or> m = si_uninited" for m
    using ticks_lookup [OF young that] by (auto simp: fun_eq_iff)
  then have empty: "RBT.is_empty (si_startups (ticks None n s))" "RBT.is_empty (si_silent (ticks None n s))"
    "RBT.is_empty (si_uninited (ticks None n s))"
    by (auto simp flip: RBT.lookup_empty_empty)
  then have "\<not> si_cleanup (fst (startups_cleanup None (ticks None n s)))"
    by (simp add: startups_cleanup_def)
  with empty show ?thesis by (simp add: ticks_def)
qed

section \<open>Signals\<close>


text \<open>
  C39.  The three maps never share a startup, a startup is never kept without an identifier, only
  silent startups are kept as silenced, and only if changes of silence are not announced, and the
  timer runs as long as there is anything to expire.
\<close>

theorem startup_invariant:
  "startup_inv (fst (startup_run Q ops (KStartupInfo flags)))"
  using honest_run [OF startup_inv_new, of flags Q ops] by (simp add: honest_def)

section \<open>Messages are understood\<close>

definition required_fields :: "qt \<Rightarrow> startup_data \<Rightarrow> i32 \<Rightarrow> (qstring \<times> qstring) list" where
  "required_fields Q d screen =
     (if sd_name d = [] then [escaped_field ''NAME'' (if sd_bin d = [] then qs ''UNKNOWN'' else sd_bin d)] else []) @
     (if sd_screen d = - 1 then [plain_field ''SCREEN'' (num Q screen)] else [])"

text \<open>The data the receiver of a new startup gets: with a name and a screen.\<close>

definition completed :: "i32 \<Rightarrow> startup_data \<Rightarrow> startup_data" where
  "completed screen d =
     d\<lparr>sd_name := (if sd_name d = [] then if sd_bin d = [] then qs ''UNKNOWN'' else sd_bin d else sd_name d),
       sd_screen := (if sd_screen d = - 1 then screen else sd_screen d)\<rparr>"

lemma fields_text_append: "fields_text (fs @ gs) = fields_text fs @ fields_text gs"
  by (simp add: fields_text_def)

lemma startup_text_fields:
  "startup_text Q screen i d =
    qs ''new:'' @ qs '' '' @ id_to_text Q i @ qs '' '' @ fields_text (data_fields Q d @ required_fields Q d screen)"
proof -
  have "(if sd_name d = [] then quoted ''NAME'' (escape_str v) else []) @
      (if sd_screen d = - 1 then plain ''SCREEN'' (num Q screen) else []) =
    fields_text ((if sd_name d = [] then [escaped_field ''NAME'' v] else []) @
      (if sd_screen d = - 1 then [plain_field ''SCREEN'' (num Q screen)] else []))" for v
    unfolding fields_text_def map_append concat_append concat_map_if printed_fields(1,3) ..
  then show ?thesis
    by (simp add: startup_text_def check_required_startup_fields_def required_fields_def
        data_to_text_fields fields_text_append)
qed

lemma required_fields_ok:
  assumes "qt_ok Q" "clean_data Q d"
  shows "list_all (field_ok Q) (required_fields Q d screen)" "list_all no_id (required_fields Q d screen)"
proof -
  have "tidy Q (qs ''UNKNOWN'')"
    using qt_spaces(2) [OF assms(1)] by (intro spaced_if_none) (simp add: visible_def)
  then have "tidy Q (if sd_bin d = [] then qs ''UNKNOWN'' else sd_bin d)"
    using assms(2) by (simp add: clean_data_def)
  then show "list_all (field_ok Q) (required_fields Q d screen)"
    unfolding required_fields_def list_all_append list_all_if
    using field_oks(1) [OF assms(1) keys_ok(3)] field_oks(4) [OF assms(1) keys_ok(11)] by simp
  show "list_all no_id (required_fields Q d screen)"
    unfolding required_fields_def list_all_append list_all_if by (simp add: no_id_def)
qed

lemma parse_required:
  "qt_ok Q \<Longrightarrow> fold (parse_item Q) (map snd (required_fields Q d screen)) d = completed screen d"
  unfolding required_fields_def map_append fold_append o_apply fold_if snd_field parse_tok parse_num if_updates
  by (simp add: completed_def)

lemma trimmed_command:
  assumes "qt_ok Q" "list_all visible w" "w \<noteq> []"
  shows "trimmed Q (qs w @ r) = qs w @ trim_end (isSpace Q) r"
proof -
  have first: "\<not> isSpace Q (hd (qs w))" "\<not> isSpace Q (last (qs w))"
    using assms(2,3) qt_spaces(2) [OF assms(1)]
    by (auto simp: qs_def hd_map last_map list_all_iff)
  have "dropWhile (isSpace Q) (qs w @ r) = qs w @ r"
    using first(1) assms(3) by (cases "qs w") auto
  then show ?thesis
    using assms(1) trim_end_append [of "qs w" "isSpace Q" r] first(2) assms(3) by (simp add: qt_ok_def)
qed

lemma words_of_message:
  assumes "qt_ok Q"
  shows "words_of (isSpace Q) (trim_end (isSpace Q) (qs '' '' @ id_to_text Q i @ qs '' '' @ fields_text fs)) =
      concat (map (words_of (isSpace Q)) (map fst (id_field Q i # fs)))"
    and "words_of (isSpace Q) (trim_end (isSpace Q) (qs '' '' @ id_to_text Q i)) =
      words_of (isSpace Q) (fst (id_field Q i))"
proof -
  note sp = qt_spaces(1) [OF assms]
  have id: "words_of (isSpace Q) (fields_text [id_field Q i]) = words_of (isSpace Q) (fst (id_field Q i))"
    using words_of_fields [where sp = "isSpace Q", OF sp, of "[]" "[id_field Q i]"] by simp
  have fs: "words_of (isSpace Q) (fields_text fs) = concat (map (words_of (isSpace Q)) (map fst fs))"
    using words_of_fields [where sp = "isSpace Q", OF sp, of "[]" fs] by simp
  show "words_of (isSpace Q) (trim_end (isSpace Q) (qs '' '' @ id_to_text Q i @ qs '' '' @ fields_text fs)) =
      concat (map (words_of (isSpace Q)) (map fst (id_field Q i # fs)))"
    using sp id fs by (simp add: id_to_text_field words_of_sep [where sp = "isSpace Q", OF sp])
  show "words_of (isSpace Q) (trim_end (isSpace Q) (qs '' '' @ id_to_text Q i)) =
      words_of (isSpace Q) (fst (id_field Q i))"
    using sp id by (simp add: id_to_text_field words_of_sep [where sp = "isSpace Q", OF sp])
qed

lemma new_understood:
  assumes "qt_ok Q" "clean_id Q i" "clean_data Q d" "\<not> isNull i"
  shows "got_message Q (startup_text Q screen i d) s =
    new_startup_info_internal (StartupId i) (completed screen d) False s"
proof -
  let ?r = "qs '' '' @ id_to_text Q i @ qs '' '' @ fields_text (data_fields Q d @ required_fields Q d screen)"
  have trim: "trimmed Q (startup_text Q screen i d) = qs ''new:'' @ trim_end (isSpace Q) ?r"
    unfolding startup_text_fields by (rule trimmed_command [OF assms(1)]) (simp_all add: visible_def)
  have "id_of_text Q (trim_end (isSpace Q) ?r) = i"
    "data_of_text Q (trim_end (isSpace Q) ?r) = completed screen d"
    using text_parsed [OF assms(1-3) required_fields_ok [OF assms(1,3)] words_of_message(1) [OF assms(1)]]
      parse_required [OF assms(1)] by simp_all
  then show ?thesis
    unfolding got_message_def trim using assms(4) by (simp add: got_startup_info_def id_null_def)
qed

lemma change_understood:
  assumes "qt_ok Q" "clean_id Q i" "clean_data Q d" "\<not> isNull i"
  shows "got_message Q (change_text Q i d) s = new_startup_info_internal (StartupId i) d True s"
proof -
  let ?r = "qs '' '' @ id_to_text Q i @ qs '' '' @ fields_text (data_fields Q d)"
  have "change_text Q i d = qs ''change:'' @ ?r"
    by (simp add: change_text_def data_to_text_fields)
  then have trim: "trimmed Q (change_text Q i d) = qs ''change:'' @ trim_end (isSpace Q) ?r"
    using trimmed_command [OF assms(1), of "''change:''"] by (simp add: visible_def del: qs_simps)
  have "id_of_text Q (trim_end (isSpace Q) ?r) = i" "data_of_text Q (trim_end (isSpace Q) ?r) = d"
    using text_parsed [OF assms(1-3), of "[]"] words_of_message(1) [OF assms(1)] by simp_all
  then show ?thesis
    unfolding got_message_def trim using assms(4) by (simp add: got_startup_info_def id_null_def)
qed

lemma id_parsed:
  assumes "qt_ok Q" "clean_id Q i" "words_of (isSpace Q) s = words_of (isSpace Q) (fst (id_field Q i))"
  shows "id_of_text Q s = i" "data_of_text Q s = KStartupInfoData"
proof -
  have i: "toUtf8 Q (fromUtf8 Q i) = i" "tidy Q (fromUtf8 Q i)"
    using assms(2) by (simp_all add: clean_id_def carried_def)
  have id: "snd (id_field Q i) = tok ''ID'' (fromUtf8 Q i)" by (simp add: id_field_def)
  have "piece_ok Q (fst (id_field Q i)) (snd (id_field Q i))"
    using field_oks(1) [OF assms(1) keys_ok(1) i(2)] by (simp add: field_ok_def id_field_def)
  then have "get_fields Q s = [tok ''ID'' (fromUtf8 Q i)]"
    using fields_of_pieces [OF assms(1), of "[fst (id_field Q i)]" "[snd (id_field Q i)]" s] assms(3)
    unfolding id by simp
  then show "id_of_text Q s = i" "data_of_text Q s = KStartupInfoData"
    using parse_tok(1) [of Q "fromUtf8 Q i" KStartupInfoData] get_str_tok [OF keys_ok(1), of "fromUtf8 Q i"] i(1)
    by (simp_all add: id_of_text_def data_of_text_def get_cstr_def)
qed

lemma finish_understood:
  assumes "qt_ok Q" "clean_id Q i"
  shows "got_message Q (finish_text Q i) s = removeAllStartupInfoInternal (StartupId i) s"
proof -
  let ?r = "qs '' '' @ id_to_text Q i"
  have "finish_text Q i = qs ''remove:'' @ ?r" by (simp add: finish_text_def)
  then have trim: "trimmed Q (finish_text Q i) = qs ''remove:'' @ trim_end (isSpace Q) ?r"
    using trimmed_command [OF assms(1), of "''remove:''"] by (simp add: visible_def del: qs_simps)
  note parsed = id_parsed [OF assms words_of_message(2) [OF assms(1)]]
  then show ?thesis
    unfolding got_message_def trim by (simp add: got_remove_startup_info_def KStartupInfoData_def)
qed

text \<open>
  What is said about a startup is understood as it was meant: the texts of a new startup, of
  a change and of the end of a startup are parsed back to the identifier and the data they were
  made of, a new one with the name and the screen that were added, and have the effect of the
  corresponding operation in every state.
\<close>

theorem startup_messages_understood:
  assumes "qt_ok Q" "clean_id Q i" "clean_data Q d" "\<not> isNull i"
  shows "got_message Q (startup_text Q screen i d) s =
      new_startup_info_internal (StartupId i) (completed screen d) False s \<and>
    got_message Q (change_text Q i d) s = new_startup_info_internal (StartupId i) d True s \<and>
    got_message Q (finish_text Q i) s = removeAllStartupInfoInternal (StartupId i) s"
  using new_understood [OF assms] change_understood [OF assms] finish_understood [OF assms(1,2)] by blast

text \<open>The witness: an icon and a program name with a quote, two processes, on all desktops.\<close>

definition sample_startup :: startup_data where
  "sample_startup = KStartupInfoData\<lparr>sd_bin := qs (''say '' @ [quote] @ ''hi''), sd_icon := qs ''terminal'',
     sd_desktop := - 1, sd_pids := [7, 8], sd_hostname := ''host'', sd_silent := No\<rparr>"

definition sample_id :: string where
  "sample_id = ''host;1;2;7_TIME5''"

lemma sample_nospace: "list_all visible s \<Longrightarrow> nospace sample_qt (qs s)"
  unfolding list_all_qs using qt_spaces(2) [OF qt_ok_sample] by (simp add: list_all_iff)

lemma sample_carried: "carried sample_qt s"
  by (simp add: carried_def sample_qt_def qs_def o_def unat_qchar)

lemma sample_fromUtf8: "fromUtf8 sample_qt s = qs s"
  by (simp add: sample_qt_def)

lemma sample_clean: "clean_id sample_qt sample_id" "clean_data sample_qt sample_startup" "\<not> isNull sample_id"
proof -
  have tidy: "tidy sample_qt (qs s)" if "list_all visible s" for s
    by (rule spaced_if_none [OF sample_nospace [OF that]])
  show "clean_id sample_qt sample_id"
    unfolding clean_id_def sample_fromUtf8
    by (intro conjI sample_carried tidy) (simp add: sample_id_def visible_def)
  have "isSpace sample_qt = ascii_space" by (simp add: sample_qt_def)
  then have bin: "tidy sample_qt (qs (''say '' @ [quote] @ ''hi''))"
    by (simp add: ascii_space_qchar)
  show "clean_data sample_qt sample_startup"
    unfolding clean_data_def sample_fromUtf8 sample_startup_def
    using bin tidy [of "''terminal''"] sample_nospace [of "''host''"]
    by (simp add: KStartupInfoData_def unquoted_def sample_carried visible_def)
  show "\<not> isNull sample_id" by (simp add: isNull_def sample_id_def)
qed

theorem startup_messages_understood_witness:
  "snd (got_message sample_qt (startup_text sample_qt 0 sample_id sample_startup) (KStartupInfo 0)) =
    [GotNewStartup (StartupId sample_id) (completed 0 sample_startup)]"
proof -
  have "\<not> id_null (StartupId sample_id)" "sd_silent (completed 0 sample_startup) \<noteq> Yes"
    using sample_clean(3) by (simp_all add: id_null_def completed_def sample_startup_def)
  then have "snd (new_startup_info_internal (StartupId sample_id) (completed 0 sample_startup) False (KStartupInfo 0)) =
      [GotNewStartup (StartupId sample_id) (completed 0 sample_startup)]"
    by (simp add: new_startup_info_internal_def KStartupInfo_def Let_def)
  then show ?thesis
    using startup_messages_understood [OF qt_ok_sample sample_clean, of 0 "KStartupInfo 0"] by simp
qed


definition ascii :: "u16 \<Rightarrow> bool" where
  "ascii c \<longleftrightarrow> (\<exists>a. c = qchar a \<and> a \<noteq> NUL)"

lemma ascii_qchar [simp]: "ascii (qchar a) \<longleftrightarrow> a \<noteq> NUL"
  by (auto simp: ascii_def)






section \<open>A startup that nobody ends\<close>

text \<open>The witness for the end of the timer: after the startup above, twenty minutes are enough.\<close>

definition sample_started :: startup_info where
  "sample_started = fst (startup_run sample_qt [Heard (startup_text sample_qt 0 sample_id sample_startup)] (KStartupInfo 0))"

lemma sample_started_shape: "si_timeout sample_started = 60" "\<not> RBT.is_empty (si_startups sample_started)"
proof -
  have "\<not> id_null (StartupId sample_id)" "sd_silent (completed 0 sample_startup) \<noteq> Yes"
    using sample_clean(3) by (simp_all add: id_null_def completed_def sample_startup_def)
  then have start: "sample_started = (KStartupInfo 0)\<lparr>si_cleanup := True,
      si_startups := RBT.insert (StartupId sample_id) \<lparr>en_data = completed 0 sample_startup, en_age = 0\<rparr> RBT.empty\<rparr>"
    using new_understood [OF qt_ok_sample sample_clean, of 0 "KStartupInfo 0"]
    by (simp add: sample_started_def new_startup_info_internal_def KStartupInfo_def Let_def)
  show "si_timeout sample_started = 60" "\<not> RBT.is_empty (si_startups sample_started)"
    unfolding start is_empty_dom by (simp_all add: KStartupInfo_def)
qed

theorem startups_expire_witness:
  "\<not> RBT.is_empty (si_startups sample_started) \<and> RBT.is_empty (si_startups (ticks None 1200 sample_started)) \<and>
   \<not> si_cleanup (ticks None 1201 sample_started)"
  using startups_expire [of 1200 sample_started, OF _ _ _ sample_started_def] sample_started_shape
  by simp

section \<open>Group leaders\<close>

definition own_info :: "x_session \<Rightarrow> u32 \<Rightarrow> win_info" where
  "own_info X w = NETWinInfo (xs_atoms X) (xs_server X) w (xs_root X) 0
     (prop2_flag WM2StartupId OR prop2_flag WM2GroupLeader) Client"

lemma nothing_asked: "wi_startup_id (NETWinInfo at srv w root 0 0 role) = None"
  by (simp add: NETWinInfo_def win_update_is_direct win_update_direct_def win_directs_def win_dirty_def
      win_blank_def)

text \<open>
  The startup identifier of a window's group leader is never found: if the window has none
  itself, the leader is looked at without asking for the property, so the answer is that there is
  none, whatever the leader says.
\<close>

theorem group_leader_never_asked:
  "windowStartupId X w =
    (if \<not> xs_platform X then None
     else if bytes_of (wi_startup_id (own_info X w)) = [] \<and> wi_window_group (own_info X w) \<noteq> 0 then None
     else wi_startup_id (own_info X w))"
  by (auto simp: windowStartupId_def Let_def nothing_asked own_info_def bytes_of_def split: option.split)

end
