(* ===== verification/Selection.thy ===== *)
theory Selection
  imports Xcb
begin

text \<open>
  \<^verbatim>\<open>KSelectionOwner\<close> and \<^verbatim>\<open>KSelectionWatcher\<close> (kselectionowner.cpp,
  kselectionwatcher.cpp): claiming an X selection as its manager, answering requests for it, losing
  it, and watching who owns it.  What the server answers (the owner of the selection, a new window
  id, the reply to a property request, the atoms) is a parameter of the operation that asks; what
  an operation sends and which signals it emits is a list.  The operations are those of an object
  on X11; without X11 the private object is null and every operation returns at once, which is
  \<open>owner_apply\<close> and \<open>watcher_apply\<close> of \<open>SelectionProtocol\<close>.
\<close>

section \<open>Shared helpers\<close>

text \<open>\<^verbatim>\<open>get_selection_owner\<close> and \<^verbatim>\<open>intern_atom\<close> on the reply, which may be null.\<close>

definition get_selection_owner :: "u32 option \<Rightarrow> u32" where
  "get_selection_owner reply = (case reply of None \<Rightarrow> 0 | Some owner \<Rightarrow> owner)"

definition intern_atom :: "(string \<Rightarrow> u32 option) \<Rightarrow> string \<Rightarrow> u32" where
  "intern_atom intern name = (case intern name of None \<Rightarrow> 0 | Some a \<Rightarrow> a)"

definition XCB_ATOM_ATOM :: u32 where "XCB_ATOM_ATOM = 4"
definition XCB_ATOM_INTEGER :: u32 where "XCB_ATOM_INTEGER = 19"
definition XCB_PROP_MODE_REPLACE :: u32 where "XCB_PROP_MODE_REPLACE = 0"

definition STRUCTURE_NOTIFY :: u32 where "STRUCTURE_NOTIFY = bitflag 17"
definition PROPERTY_CHANGE :: u32 where "PROPERTY_CHANGE = bitflag 22"

text \<open>The events of the two filters; \<open>EvOther\<close> is any other response type.\<close>

datatype selection_event =
    EvSelectionClear (ev_selection: u32)
  | EvDestroyNotify (ev_window: u32)
  | EvSelectionNotify (ev_selection: u32)
  | EvSelectionRequest (ev_time: u32) (ev_requestor: u32) (ev_selection: u32) (ev_target: u32) (ev_property: u32)
  | EvPropertyNotify (ev_window: u32) (ev_time: u32)
  | EvClientMessage (ev_type: u32) (ev_data: "u32 list")
  | EvOther

section \<open>KSelectionOwner: state\<close>

datatype owner_state = Idle | WaitingForTimestamp | WaitingForPreviousOwner

record selection_owner =
  so_state :: owner_state
  so_selection :: u32
  so_root :: u32
  so_window :: u32
  so_prev_owner :: u32
  so_timestamp :: u32
  so_extra1 :: u32
  so_extra2 :: u32
  so_timer :: bool
  so_force_kill :: bool

text \<open>The static members: the atoms, none of them known until the first claim.\<close>

record owner_atoms =
  oa_manager :: u32
  oa_multiple :: u32
  oa_targets :: u32
  oa_timestamp :: u32

text \<open>
  \<open>XChangeProperty mode window property type format data\<close> and the others have the arguments in
  the order the function of libxcb declares them.
\<close>

datatype owner_effect =
    ClaimedOwnership
  | FailedToClaimOwnership
  | LostOwnership
  | XChangeProperty "8 word" u32 u32 u32 "8 word" "u32 list"
  | XSelectInput u32 u32
  | XCreateInputWindow u32 u32 u32
  | XDestroyWindow u32
  | XSetSelectionOwner u32 u32 u32
  | XKillClient u32
  | XClientMessage u32 u32 u32 u32 "u32 list"
  | XSelectionNotify u32 u32 u32 u32 u32
  | StartTimer nat
  | StopTimer

type_synonym owner_step = "selection_owner \<times> owner_effect list"

definition new_selection_owner :: "u32 \<Rightarrow> u32 \<Rightarrow> selection_owner" where
  "new_selection_owner selection root =
     \<lparr>so_state = Idle, so_selection = selection, so_root = root, so_window = 0, so_prev_owner = 0,
      so_timestamp = 0, so_extra1 = 0, so_extra2 = 0, so_timer = False, so_force_kill = False\<rparr>"

text \<open>
  The four constructors: by atom or name, on a screen of the application (only on X11) or on a
  connection and root window.
\<close>

definition create_on_screen :: "bool \<Rightarrow> (nat \<Rightarrow> u32) \<Rightarrow> u32 \<Rightarrow> nat \<Rightarrow> selection_owner option" where
  "create_on_screen x11 appRootWindow selection screen =
     (if x11 then Some (new_selection_owner selection (appRootWindow screen)) else None)"

definition create_by_name ::
  "bool \<Rightarrow> (nat \<Rightarrow> u32) \<Rightarrow> (string \<Rightarrow> u32 option) \<Rightarrow> string \<Rightarrow> nat \<Rightarrow> selection_owner option" where
  "create_by_name x11 appRootWindow intern selection screen =
     (if x11 then Some (new_selection_owner (intern_atom intern selection) (appRootWindow screen)) else None)"

section \<open>KSelectionOwner: claims\<close>

definition claimSucceeded :: "owner_atoms \<Rightarrow> selection_owner \<Rightarrow> owner_step" where
  "claimSucceeded A p =
     (p\<lparr>so_state := Idle\<rparr>,
      [XClientMessage (so_root p) STRUCTURE_NOTIFY (so_root p) (oa_manager A)
         [so_timestamp p, so_selection p, so_window p, so_extra1 p, so_extra2 p],
       ClaimedOwnership])"

text \<open>\<open>answer\<close> is the owner the server names after the selection was set.\<close>

definition gotTimestamp :: "owner_atoms \<Rightarrow> u32 option \<Rightarrow> selection_owner \<Rightarrow> owner_step" where
  "gotTimestamp A answer p0 =
     (let p = p0\<lparr>so_state := Idle\<rparr>;
          set_owner = XSetSelectionOwner (so_window p) (so_selection p) (so_timestamp p)
      in if get_selection_owner answer \<noteq> so_window p
         then (p\<lparr>so_timestamp := 0, so_window := 0\<rparr>,
               [set_owner, XDestroyWindow (so_window p), FailedToClaimOwnership])
         else if so_prev_owner p \<noteq> 0 \<and> so_force_kill p
         then (p\<lparr>so_timer := True, so_state := WaitingForPreviousOwner\<rparr>, [set_owner, StartTimer 1000])
         else (let (q, es) = claimSucceeded A p in (q, set_owner # es)))"

definition claim_timeout :: "owner_atoms \<Rightarrow> selection_owner \<Rightarrow> owner_step" where
  "claim_timeout A p0 =
     (let p = p0\<lparr>so_state := Idle\<rparr>
      in if so_force_kill p
         then (let (q, es) = claimSucceeded A p in (q, XKillClient (so_prev_owner p) # es))
         else (p, [FailedToClaimOwnership]))"

definition release :: "selection_owner \<Rightarrow> owner_step" where
  "release p =
     (if so_timestamp p = 0 then (p, [])
      else (p\<lparr>so_window := 0, so_timestamp := 0\<rparr>, [XDestroyWindow (so_window p)]))"

definition getAtoms :: "(string \<Rightarrow> u32 option) \<Rightarrow> owner_atoms \<Rightarrow> owner_atoms" where
  "getAtoms intern A =
     (let found = (\<lambda>name old. case intern name of Some a \<Rightarrow> a | None \<Rightarrow> old)
      in if oa_manager A \<noteq> 0 then A
         else \<lparr>oa_manager = found ''MANAGER'' (oa_manager A),
               oa_multiple = found ''MULTIPLE'' (oa_multiple A),
               oa_targets = found ''TARGETS'' (oa_targets A),
               oa_timestamp = found ''TIMESTAMP'' (oa_timestamp A)\<rparr>)"

text \<open>
  \<^verbatim>\<open>claim(force, force_kill)\<close>: \<open>answer\<close> is the present owner, \<open>fresh\<close> what
  \<^verbatim>\<open>xcb_generate_id\<close> gives.
\<close>

definition claim ::
  "(string \<Rightarrow> u32 option) \<Rightarrow> owner_atoms \<Rightarrow> u32 option \<Rightarrow> u32 \<Rightarrow> bool \<Rightarrow> bool \<Rightarrow> selection_owner \<Rightarrow>
     owner_atoms \<times> owner_step" where
  "claim intern A0 answer fresh force force_kill p0 =
     (let A = (if oa_manager A0 = 0 then getAtoms intern A0 else A0);
          (p1, released) = (if so_timestamp p0 \<noteq> 0 then release p0 else (p0, []));
          p = p1\<lparr>so_prev_owner := get_selection_owner answer\<rparr>
      in if so_prev_owner p \<noteq> 0 \<and> \<not> force then (A, p, released @ [FailedToClaimOwnership])
         else (A, p\<lparr>so_window := fresh, so_force_kill := force_kill, so_state := WaitingForTimestamp\<rparr>,
               released @
               (if so_prev_owner p \<noteq> 0 then [XSelectInput (so_prev_owner p) STRUCTURE_NOTIFY] else []) @
               [XCreateInputWindow fresh (so_root p) (PROPERTY_CHANGE OR STRUCTURE_NOTIFY),
                XChangeProperty (ucast XCB_PROP_MODE_REPLACE) fresh XCB_ATOM_ATOM XCB_ATOM_ATOM 32 [XCB_ATOM_ATOM]]))"

definition ownerWindow :: "selection_owner \<Rightarrow> u32" where
  "ownerWindow p = (if so_timestamp p = 0 then 0 else so_window p)"

definition setData :: "u32 \<Rightarrow> u32 \<Rightarrow> selection_owner \<Rightarrow> selection_owner" where
  "setData extra1 extra2 p = p\<lparr>so_extra1 := extra1, so_extra2 := extra2\<rparr>"

text \<open>The destructor.\<close>

definition destroy_owner :: "selection_owner \<Rightarrow> owner_effect list" where
  "destroy_owner p =
     (let (q, released) = release p
      in released @ (if so_window q \<noteq> 0 then [XDestroyWindow (so_window q)] else []))"

section \<open>KSelectionOwner: requests for the selection\<close>

text \<open>
  \<^verbatim>\<open>genericReply\<close> is virtual; this is the implementation of the class.  The calls of
  \<^verbatim>\<open>xcb_change_property\<close> in this part pass requestor, property, type, format, mode where the
  function has mode, window, property, type, format; mode and format are 8 bits wide there.
\<close>

definition genericReply :: "u32 \<Rightarrow> u32 \<Rightarrow> u32 \<Rightarrow> bool" where
  "genericReply target property requestor = False"

definition replyTargets :: "owner_atoms \<Rightarrow> u32 \<Rightarrow> u32 \<Rightarrow> owner_effect list" where
  "replyTargets A property requestor =
     [XChangeProperty (ucast requestor) property XCB_ATOM_ATOM 32 (ucast XCB_PROP_MODE_REPLACE)
        [oa_multiple A, oa_timestamp A, oa_targets A]]"

definition handle_selection ::
  "owner_atoms \<Rightarrow> selection_owner \<Rightarrow> u32 \<Rightarrow> u32 \<Rightarrow> u32 \<Rightarrow> bool \<times> owner_effect list" where
  "handle_selection A p target property requestor =
     (if target = oa_timestamp A
      then (True, [XChangeProperty (ucast requestor) property XCB_ATOM_INTEGER 32
                     (ucast XCB_PROP_MODE_REPLACE) [so_timestamp p]])
      else if target = oa_targets A then (True, replyTargets A property requestor)
      else if genericReply target property requestor then (True, [])
      else (False, []))"

text \<open>
  The loops of a \<^verbatim>\<open>MULTIPLE\<close> request over the pairs of atoms in the reply: what is sent,
  whether all were handled, and the atoms with the properties of the refused targets replaced by
  none.
\<close>

fun handle_pairs ::
  "owner_atoms \<Rightarrow> selection_owner \<Rightarrow> u32 \<Rightarrow> u32 list \<Rightarrow> owner_effect list \<times> bool \<times> u32 list" where
  "handle_pairs A p requestor (target # property # rest) =
     (let (handled, es) = handle_selection A p target property requestor;
          (fs, all_handled, atoms) = handle_pairs A p requestor rest
      in (es @ fs, handled \<and> all_handled, target # (if handled then property else 0) # atoms))"
| "handle_pairs A p requestor _ = ([], True, [])"

definition handle_multiple ::
  "owner_atoms \<Rightarrow> xreply option \<Rightarrow> selection_owner \<Rightarrow> u32 \<Rightarrow> u32 \<Rightarrow> bool \<times> owner_effect list" where
  "handle_multiple A reply p property requestor =
     (case reply of
        Some r \<Rightarrow>
          (case reply_value r of
             V32 ws \<Rightarrow>
               (if length ws mod 2 = 0
                then (let (es, all_handled, atoms) = handle_pairs A p requestor ws
                      in (True, es @
                           (if \<not> all_handled
                            then [XChangeProperty (ucast requestor) property XCB_ATOM_ATOM 32
                                    (ucast XCB_PROP_MODE_REPLACE) atoms]
                            else [])))
                else (False, []))
           | _ \<Rightarrow> (False, []))
      | None \<Rightarrow> (False, []))"

definition filter_selection_request ::
  "owner_atoms \<Rightarrow> xreply option \<Rightarrow> selection_owner \<Rightarrow> u32 \<Rightarrow> u32 \<Rightarrow> u32 \<Rightarrow> u32 \<Rightarrow> u32 \<Rightarrow> owner_effect list" where
  "filter_selection_request A reply p time requestor selection target property =
     (if so_timestamp p = 0 \<or> selection \<noteq> so_selection p then []
      else if time \<noteq> 0 \<and> time - so_timestamp p > bitflag 31 then []
      else
        (let property' = (if target \<noteq> oa_multiple A \<and> property = 0 then target else property);
             (handled, es) =
               (if target = oa_multiple A
                then (if property \<noteq> 0 then handle_multiple A reply p property requestor else (False, []))
                else handle_selection A p target property' requestor)
         in es @ [XSelectionNotify 0 requestor selection target (if handled then property' else 0)]))"

section \<open>KSelectionOwner: events\<close>

text \<open>
  \<^verbatim>\<open>filterEvent\<close>: whether the event is taken, the new state and the effects; \<open>answer\<close> is
  the reply to a question for the owner, \<open>reply\<close> that to one for a property.
\<close>

fun filterEvent ::
  "owner_atoms \<Rightarrow> u32 option \<Rightarrow> xreply option \<Rightarrow> selection_owner \<Rightarrow> selection_event \<Rightarrow> bool \<times> owner_step" where
  "filterEvent A answer reply p (EvSelectionClear selection) =
     (if so_timestamp p = 0 \<or> selection \<noteq> so_selection p then (False, p, [])
      else (True, p\<lparr>so_timestamp := 0\<rparr>,
            [LostOwnership, XSelectInput (so_window p) 0, XDestroyWindow (so_window p)]))"
| "filterEvent A answer reply p (EvDestroyNotify window) =
     (if window = so_prev_owner p \<and> so_state p = WaitingForPreviousOwner
      then (let (q, es) = claimSucceeded A (p\<lparr>so_timer := False\<rparr>) in (True, q, StopTimer # es))
      else (let q = (if window = so_prev_owner p then p\<lparr>so_prev_owner := 0\<rparr> else p)
            in if so_timestamp q = 0 \<or> window \<noteq> so_window q then (False, q, [])
               else (True, q\<lparr>so_timestamp := 0\<rparr>, [LostOwnership])))"
| "filterEvent A answer reply p (EvSelectionRequest time requestor selection target property) =
     (False, p, filter_selection_request A reply p time requestor selection target property)"
| "filterEvent A answer reply p (EvPropertyNotify window time) =
     (if window = so_window p \<and> so_state p = WaitingForTimestamp
      then (True, gotTimestamp A answer (p\<lparr>so_timestamp := time\<rparr>))
      else (False, p, []))"
| "filterEvent A answer reply p _ = (False, p, [])"

text \<open>\<^verbatim>\<open>nativeEventFilter\<close>: only events of XCB.\<close>

definition owner_nativeEventFilter ::
  "owner_atoms \<Rightarrow> u32 option \<Rightarrow> xreply option \<Rightarrow> selection_owner \<Rightarrow> string \<Rightarrow> selection_event \<Rightarrow> bool \<times> owner_step" where
  "owner_nativeEventFilter A answer reply p eventType ev =
     (if eventType \<noteq> ''xcb_generic_event_t'' then (False, p, []) else filterEvent A answer reply p ev)"

text \<open>\<^verbatim>\<open>timerEvent\<close> of the object's own timer, which fires only while it runs.\<close>

definition timerEvent :: "owner_atoms \<Rightarrow> selection_owner \<Rightarrow> owner_step" where
  "timerEvent A p =
     (if so_timer p
      then (let (q, es) = claim_timeout A (p\<lparr>so_timer := False\<rparr>) in (q, StopTimer # es))
      else (p, []))"

section \<open>KSelectionWatcher\<close>

record selection_watcher =
  sw_root :: u32
  sw_selection :: u32
  sw_owner :: u32

datatype watcher_effect =
    NewOwner u32
  | LostOwner
  | WatchInput u32 u32

text \<open>
  What the server answers to \<^verbatim>\<open>owner()\<close>: the owner, whether selecting events on its window
  failed, and the owner afterwards.
\<close>

record owner_query =
  qu_owner :: "u32 option"
  qu_error :: bool
  qu_again :: "u32 option"

definition watcher_owner :: "owner_query \<Rightarrow> selection_watcher \<Rightarrow> u32 \<times> selection_watcher \<times> watcher_effect list" where
  "watcher_owner Q d =
     (let current = get_selection_owner (qu_owner Q)
      in if current = 0 then (0, d, [])
         else if current = sw_owner d then (sw_owner d, d, [])
         else if \<not> qu_error Q \<and> current = get_selection_owner (qu_again Q)
         then (current, d\<lparr>sw_owner := current\<rparr>, [WatchInput current STRUCTURE_NOTIFY, NewOwner current])
         else (0, d\<lparr>sw_owner := 0\<rparr>, [WatchInput current STRUCTURE_NOTIFY]))"

text \<open>
  The constructor: the static atom of \<^verbatim>\<open>MANAGER\<close> and the event mask of the root window on first
  use, then the present owner.  The two replies are used without a test: no value stands for the
  crash of a null reply.
\<close>

definition watcher_init ::
  "(string \<Rightarrow> u32 option) \<Rightarrow> u32 option \<Rightarrow> owner_query \<Rightarrow> u32 \<Rightarrow> selection_watcher \<Rightarrow>
     (u32 \<times> selection_watcher \<times> watcher_effect list) option" where
  "watcher_init intern attributes Q manager d =
     (let (_, q, es) = watcher_owner Q d
      in if manager \<noteq> 0 then Some (manager, q, es)
         else case (intern ''MANAGER'', attributes) of
           (Some atom, Some event_mask) \<Rightarrow>
             Some (atom, q,
               (if hasf event_mask STRUCTURE_NOTIFY then []
                else [WatchInput (sw_root d) (event_mask OR STRUCTURE_NOTIFY)]) @ es)
         | _ \<Rightarrow> None)"

definition new_selection_watcher :: "u32 \<Rightarrow> u32 \<Rightarrow> selection_watcher" where
  "new_selection_watcher selection root = \<lparr>sw_root = root, sw_selection = selection, sw_owner = 0\<rparr>"

fun watcher_filterEvent ::
  "u32 \<Rightarrow> owner_query \<Rightarrow> selection_watcher \<Rightarrow> selection_event \<Rightarrow> selection_watcher \<times> watcher_effect list" where
  "watcher_filterEvent manager Q d (EvClientMessage type data) =
     (if type \<noteq> manager \<or> data ! 1 \<noteq> sw_selection d then (d, [])
      else (let (_, q, es) = watcher_owner Q d in (q, es)))"
| "watcher_filterEvent manager Q d (EvDestroyNotify window) =
     (if sw_owner d = 0 \<or> window \<noteq> sw_owner d then (d, [])
      else (let (owner, q, es) = watcher_owner Q (d\<lparr>sw_owner := 0\<rparr>)
            in (q, es @ (if owner = 0 then [LostOwner] else []))))"
| "watcher_filterEvent manager Q d _ = (d, [])"

end
