(* ===== verification/SelectionProtocol.thy ===== *)
theory SelectionProtocol
  imports Selection
begin

text \<open>
  Runs of \<^verbatim>\<open>KSelectionOwner\<close> and \<^verbatim>\<open>KSelectionWatcher\<close>: what the application calls and
  what the event loop delivers, in any order, with the invariants every run keeps.
\<close>

section \<open>Runs of an owner\<close>

datatype owner_op =
    OwnClaim "u32 option" u32 bool bool
  | OwnRelease
  | OwnSetData u32 u32
  | OwnEvent selection_event "u32 option" "xreply option"
  | OwnTick

type_synonym owner_object = "owner_atoms \<times> selection_owner option"

primrec owner_step_of ::
  "(string \<Rightarrow> u32 option) \<Rightarrow> owner_op \<Rightarrow> owner_atoms \<Rightarrow> selection_owner \<Rightarrow> owner_atoms \<times> owner_step" where
  "owner_step_of intern (OwnClaim answer fresh force kill) A p = claim intern A answer fresh force kill p"
| "owner_step_of intern OwnRelease A p = (A, release p)"
| "owner_step_of intern (OwnSetData x y) A p = (A, setData x y p, [])"
| "owner_step_of intern (OwnEvent ev answer reply) A p = (A, snd (filterEvent A answer reply p ev))"
| "owner_step_of intern OwnTick A p = (A, timerEvent A p)"

text \<open>Every operation returns at once if the private object is null.\<close>

definition owner_apply ::
  "(string \<Rightarrow> u32 option) \<Rightarrow> owner_op \<Rightarrow> owner_object \<Rightarrow> owner_object \<times> owner_effect list" where
  "owner_apply intern op obj =
     (case snd obj of
        None \<Rightarrow> (obj, [])
      | Some p \<Rightarrow> (let (A, q, es) = owner_step_of intern op (fst obj) p in ((A, Some q), es)))"

primrec owner_run ::
  "(string \<Rightarrow> u32 option) \<Rightarrow> owner_op list \<Rightarrow> owner_object \<Rightarrow> owner_object \<times> owner_effect list" where
  "owner_run intern [] obj = (obj, [])"
| "owner_run intern (op # ops) obj =
     (let (obj1, es) = owner_apply intern op obj; (obj2, fs) = owner_run intern ops obj1 in (obj2, es @ fs))"

fun is_claim :: "owner_op \<Rightarrow> bool" where
  "is_claim (OwnClaim _ _ _ _) = True"
| "is_claim _ = False"

text \<open>\<^verbatim>\<open>Q_ASSERT(d->state == Private::Idle)\<close>: claims come one after the other.\<close>

primrec orderly :: "(string \<Rightarrow> u32 option) \<Rightarrow> owner_op list \<Rightarrow> owner_object \<Rightarrow> bool" where
  "orderly intern [] obj = True"
| "orderly intern (op # ops) obj =
     ((case snd obj of Some p \<Rightarrow> is_claim op \<longrightarrow> so_state p = Idle | None \<Rightarrow> True) \<and>
      orderly intern ops (fst (owner_apply intern op obj)))"

definition owner_inv :: "selection_owner \<Rightarrow> bool" where
  "owner_inv p \<longleftrightarrow>
     (so_timer p \<longleftrightarrow> so_state p = WaitingForPreviousOwner) \<and>
     (so_state p = WaitingForPreviousOwner \<longrightarrow> so_force_kill p \<and> so_prev_owner p \<noteq> 0) \<and>
     (so_state p = WaitingForTimestamp \<longrightarrow> so_timestamp p = 0)"

fun answers_claim :: "owner_effect \<Rightarrow> bool" where
  "answers_claim ClaimedOwnership = True"
| "answers_claim FailedToClaimOwnership = True"
| "answers_claim _ = False"

definition answers_in :: "owner_effect list \<Rightarrow> nat" where
  "answers_in es = length (filter answers_claim es)"

definition pending :: "selection_owner \<Rightarrow> nat" where
  "pending p = (if so_state p = Idle then 0 else 1)"

lemma answers_in_simps [simp]:
  "answers_in [] = 0"
  "answers_in (e # es) = (if answers_claim e then 1 else 0) + answers_in es"
  "answers_in (es @ fs) = answers_in es + answers_in fs"
  by (simp_all add: answers_in_def)

lemmas owner_defs = claim_def release_def setData_def gotTimestamp_def claimSucceeded_def
  timerEvent_def claim_timeout_def

subsection \<open>Requests answer no claim\<close>

lemma handle_selection_answers: "answers_in (snd (handle_selection A p t pr r)) = 0"
  by (simp add: handle_selection_def replyTargets_def genericReply_def)

lemma handle_pairs_answers: "answers_in (fst (handle_pairs A p r ws)) = 0"
  using handle_selection_answers
  by (induction A p r ws rule: handle_pairs.induct) (auto split: prod.split simp: prod_eq_iff)

lemma handle_multiple_answers: "answers_in (snd (handle_multiple A reply p pr r)) = 0"
  using handle_pairs_answers
  by (auto simp: handle_multiple_def prod_eq_iff split: option.split xvalue.split prod.split)

lemma request_answers: "answers_in (filter_selection_request A reply p t r s tg pr) = 0"
  using handle_selection_answers handle_multiple_answers
  by (auto simp: filter_selection_request_def Let_def prod_eq_iff split: prod.split)

subsection \<open>One operation\<close>

lemma got_timestamp_claim:
  assumes "gotTimestamp A answer p = (q, es)" "\<not> so_timer p"
  shows "owner_inv q \<and> answers_in es + pending q = 1"
  using assms by (auto simp: gotTimestamp_def claimSucceeded_def owner_inv_def pending_def Let_def split: if_splits)

lemma filter_event_claim:
  assumes "filterEvent A answer reply p ev = (b, q, es)" "owner_inv p"
  shows "owner_inv q \<and> answers_in es + pending q = pending p"
proof (cases ev)
  case (EvSelectionRequest t r s tg pr)
  then show ?thesis using assms request_answers by auto
next
  case (EvPropertyNotify window time)
  show ?thesis
  proof (cases "window = so_window p \<and> so_state p = WaitingForTimestamp")
    case True
    then have "\<not> so_timer p" using assms(2) by (simp add: owner_inv_def)
    then show ?thesis
      using assms(1) True EvPropertyNotify got_timestamp_claim [of A answer "p\<lparr>so_timestamp := time\<rparr>" q es]
      by (simp add: pending_def)
  qed (use assms EvPropertyNotify in auto)
qed (use assms in \<open>auto simp: owner_inv_def pending_def claimSucceeded_def Let_def split: if_splits\<close>)

lemma owner_step_claim:
  assumes "owner_step_of intern op A p = (B, q, es)" "owner_inv p" "is_claim op \<longrightarrow> so_state p = Idle"
  shows "owner_inv q \<and> answers_in es + pending q = pending p + (if is_claim op then 1 else 0)"
proof (cases op)
  case (OwnEvent ev answer reply)
  obtain b where "filterEvent A answer reply p ev = (b, q, es)"
    using assms(1) OwnEvent by (cases "filterEvent A answer reply p ev") auto
  then show ?thesis using filter_event_claim assms(2) OwnEvent by auto
qed (use assms in \<open>auto simp: owner_defs owner_inv_def pending_def Let_def split: if_splits prod.splits\<close>)

subsection \<open>Whole runs\<close>

lemma owner_run_claims:
  assumes "orderly intern ops (A, Some p)" "owner_inv p"
  shows "\<exists>B q es. owner_run intern ops (A, Some p) = ((B, Some q), es) \<and> owner_inv q \<and>
    answers_in es + pending q = pending p + length (filter is_claim ops)"
  using assms
proof (induction ops arbitrary: A p)
  case (Cons op ops)
  obtain B q es where step: "owner_step_of intern op A p = (B, q, es)" by (metis prod_cases3)
  have q: "owner_inv q \<and> answers_in es + pending q = pending p + (if is_claim op then 1 else 0)"
    using owner_step_claim [OF step] Cons.prems by auto
  have apply_eq: "owner_apply intern op (A, Some p) = ((B, Some q), es)"
    by (simp add: owner_apply_def step)
  then have "orderly intern ops (B, Some q)" using Cons.prems(1) by simp
  from Cons.IH [OF this] q obtain C r fs where
    "owner_run intern ops (B, Some q) = ((C, Some r), fs)" "owner_inv r"
    "answers_in fs + pending r = pending q + length (filter is_claim ops)" by blast
  then show ?case using q apply_eq by auto
qed simp

lemma new_owner_inv: "owner_inv (new_selection_owner s r)"
  by (simp add: owner_inv_def new_selection_owner_def)

section \<open>Runs of a watcher\<close>

datatype watcher_op = WatchEvent selection_event owner_query | WatchAsk owner_query

primrec watcher_step_of ::
  "u32 \<Rightarrow> watcher_op \<Rightarrow> selection_watcher \<Rightarrow> selection_watcher \<times> watcher_effect list" where
  "watcher_step_of manager (WatchEvent ev Q) d = watcher_filterEvent manager Q d ev"
| "watcher_step_of manager (WatchAsk Q) d = snd (watcher_owner Q d)"

primrec watcher_run ::
  "u32 \<Rightarrow> watcher_op list \<Rightarrow> selection_watcher \<Rightarrow> selection_watcher \<times> watcher_effect list" where
  "watcher_run manager [] d = (d, [])"
| "watcher_run manager (op # ops) d =
     (let (d1, es) = watcher_step_of manager op d; (d2, fs) = watcher_run manager ops d1 in (d2, es @ fs))"

text \<open>
  What a listener knows: the owner it was last told of, unless it was told of the loss since.  Being
  told of a loss without an owner is an error.
\<close>

fun observe :: "watcher_effect list \<Rightarrow> u32 option \<Rightarrow> u32 option option" where
  "observe [] known = Some known"
| "observe (NewOwner w # es) known = observe es (Some w)"
| "observe (LostOwner # es) known = (if known = None then None else observe es None)"
| "observe (WatchInput _ _ # es) known = observe es known"

lemma observe_append: "observe (es @ fs) k = Option.bind (observe es k) (observe fs)"
  by (induction es k rule: observe.induct) auto

text \<open>No change of owner while the watcher looks, and no error.\<close>

definition steady :: "owner_query \<Rightarrow> bool" where
  "steady Q \<longleftrightarrow> \<not> qu_error Q \<and> qu_again Q = qu_owner Q"

primrec query_of :: "watcher_op \<Rightarrow> owner_query" where
  "query_of (WatchEvent ev Q) = Q"
| "query_of (WatchAsk Q) = Q"

definition knows :: "bool \<Rightarrow> u32 option \<Rightarrow> selection_watcher \<Rightarrow> bool" where
  "knows calm known d \<longleftrightarrow> (sw_owner d \<noteq> 0 \<longrightarrow> known = Some (sw_owner d)) \<and> (calm \<and> sw_owner d = 0 \<longrightarrow> known = None)"

lemma watcher_owner_knows:
  assumes "knows calm known d" "calm \<longrightarrow> steady Q" "watcher_owner Q d = (w, q, es)"
  shows "\<exists>k. observe es known = Some k \<and> knows calm k q"
  using assms by (auto simp: watcher_owner_def knows_def steady_def Let_def split: if_splits)

lemma watcher_again_knows:
  assumes "watcher_owner Q (d\<lparr>sw_owner := 0\<rparr>) = (w, q, es)" "known \<noteq> None" "calm \<longrightarrow> steady Q"
  shows "\<exists>k. observe (es @ (if w = 0 then [LostOwner] else [])) known = Some k \<and> knows calm k q"
  using assms by (auto simp: watcher_owner_def knows_def steady_def Let_def split: if_splits)

lemma watcher_step_knows:
  assumes "knows calm known d" "calm \<longrightarrow> steady (query_of op)" "watcher_step_of manager op d = (q, es)"
  shows "\<exists>k. observe es known = Some k \<and> knows calm k q"
proof (cases op)
  case (WatchAsk Q)
  then show ?thesis
    using assms watcher_owner_knows [OF assms(1), of Q "fst (watcher_owner Q d)"] by (metis prod.collapse query_of.simps(2) watcher_step_of.simps(2))
next
  case (WatchEvent ev Q)
  have Q: "calm \<longrightarrow> steady Q" using assms(2) WatchEvent by simp
  obtain w r fs where "watcher_owner Q d = (w, r, fs)" by (metis prod_cases3)
  note ask = this watcher_owner_knows [OF assms(1) Q this]
  obtain w' r' fs' where again: "watcher_owner Q (d\<lparr>sw_owner := 0\<rparr>) = (w', r', fs')" by (metis prod_cases3)
  have "known \<noteq> None" if "sw_owner d \<noteq> 0" using assms(1) that by (auto simp: knows_def)
  with assms(1,3) WatchEvent ask again watcher_again_knows [OF again _ Q] show ?thesis
    by (cases ev) (auto split: if_splits)
qed

lemma watcher_run_knows:
  assumes "knows calm known d" "calm \<longrightarrow> list_all (steady \<circ> query_of) ops"
    and "watcher_run manager ops d = (q, es)"
  shows "\<exists>k. observe es known = Some k \<and> knows calm k q"
  using assms
proof (induction ops arbitrary: d known q es)
  case (Cons op ops)
  obtain d1 fs where step: "watcher_step_of manager op d = (d1, fs)" by (metis surj_pair)
  obtain d2 gs where rest: "watcher_run manager ops d1 = (d2, gs)" by (metis surj_pair)
  obtain k where k: "observe fs known = Some k" "knows calm k d1"
    using watcher_step_knows [OF Cons.prems(1) _ step] Cons.prems(2) by auto
  obtain k' where "observe gs k = Some k'" "knows calm k' d2"
    using Cons.IH [OF k(2) _ rest] Cons.prems(2) by auto
  then show ?case using Cons.prems(3) step rest k(1) by (auto simp: observe_append)
qed (auto simp: knows_def)

end
