(* ===== verification/SelectionProperties.thy ===== *)
theory SelectionProperties
  imports SelectionProtocol
begin

text \<open>
  The properties of selections: every claim is answered exactly once and how, what the messages
  about a claim tell a watcher, what a watcher tells its listeners, and where the answers to
  requests and a claim that is lost while it waits go wrong.
\<close>

section \<open>Claims\<close>

text \<open>
  C21.  Every claim is answered exactly once: in any run that makes its claims one after the other,
  whatever events, releases and timers come between, the signals \<^verbatim>\<open>claimedOwnership\<close> and
  \<^verbatim>\<open>failedToClaimOwnership\<close> together are as many as the claims, less one if a claim is still
  under way.
\<close>

theorem claims_answered:
  assumes "orderly intern ops (A, Some (new_selection_owner s r))"
    and "owner_run intern ops (A, Some (new_selection_owner s r)) = ((B, Some q), es)"
  shows "length (filter is_claim ops) = answers_in es + (if so_state q = Idle then 0 else 1)"
  using owner_run_claims [OF assms(1) new_owner_inv] assms(2)
  by (auto simp: pending_def new_selection_owner_def)

text \<open>
  Whatever happens between claims that come one after the other, the timer runs exactly while
  the object waits for the previous owner, it waits only for an owner there is and that it may
  kill, and while it waits for a timestamp it does not believe to own the selection.
\<close>

theorem owner_invariant:
  assumes "orderly intern ops (A, Some (new_selection_owner s r))"
  shows "\<exists>B q es. owner_run intern ops (A, Some (new_selection_owner s r)) = ((B, Some q), es) \<and> owner_inv q"
  using owner_run_claims [OF assms new_owner_inv] by blast

text \<open>A claim that takes the selection from another window and waits for it to go.\<close>

definition sample_intern :: "string \<Rightarrow> u32 option" where
  "sample_intern name = Some (of_nat (length name))"

definition sample_claims :: "owner_op list" where
  "sample_claims =
     [OwnClaim (Some 9) 5 False False, OwnClaim (Some 9) 6 True True,
      OwnEvent (EvPropertyNotify 6 100) (Some 6) None, OwnEvent (EvDestroyNotify 9) None None, OwnRelease]"

definition no_atoms :: owner_atoms where
  "no_atoms = \<lparr>oa_manager = 0, oa_multiple = 0, oa_targets = 0, oa_timestamp = 0\<rparr>"

lemmas run_defs = owner_defs owner_apply_def new_selection_owner_def get_selection_owner_def no_atoms_def
  getAtoms_def

lemma sample_claims_run:
  "orderly sample_intern sample_claims (no_atoms, Some (new_selection_owner 7 1))"
  "\<exists>B q. owner_run sample_intern sample_claims (no_atoms, Some (new_selection_owner 7 1)) =
     ((B, Some q), [FailedToClaimOwnership, XSelectInput 9 STRUCTURE_NOTIFY,
       XCreateInputWindow 6 1 (PROPERTY_CHANGE OR STRUCTURE_NOTIFY),
       XChangeProperty (ucast XCB_PROP_MODE_REPLACE) 6 XCB_ATOM_ATOM XCB_ATOM_ATOM 32 [XCB_ATOM_ATOM],
       XSetSelectionOwner 6 7 100, StartTimer 1000, StopTimer,
       XClientMessage 1 STRUCTURE_NOTIFY 1 7 [100, 7, 6, 0, 0], ClaimedOwnership, XDestroyWindow 6]) \<and>
     so_state q = Idle"
  by (simp_all add: sample_claims_def run_defs sample_intern_def)

theorem claims_answered_witness:
  "\<exists>B q es. owner_run sample_intern sample_claims (no_atoms, Some (new_selection_owner 7 1)) = ((B, Some q), es) \<and>
     length (filter is_claim sample_claims) = answers_in es + (if so_state q = Idle then 0 else 1)"
proof -
  obtain B q es where run: "owner_run sample_intern sample_claims (no_atoms, Some (new_selection_owner 7 1)) = ((B, Some q), es)"
    using sample_claims_run(2) by blast
  from claims_answered [OF sample_claims_run(1) run] run show ?thesis by blast
qed

theorem owner_invariant_witness:
  "\<exists>B q es. owner_run sample_intern sample_claims (no_atoms, Some (new_selection_owner 7 1)) = ((B, Some q), es) \<and> owner_inv q"
  by (rule owner_invariant [OF sample_claims_run(1)])

text \<open>The signals of a list of effects, and the windows that are killed.\<close>

definition signals_in :: "owner_effect list \<Rightarrow> owner_effect list" where
  "signals_in es = filter (\<lambda>e. e \<in> {ClaimedOwnership, FailedToClaimOwnership, LostOwnership}) es"

fun killed :: "owner_effect list \<Rightarrow> u32 list" where
  "killed [] = []"
| "killed (XKillClient w # es) = w # killed es"
| "killed (_ # es) = killed es"

text \<open>
  What becomes of a claim: it fails if the selection has an owner and the claim is not forced,
  or if the server names another owner once it was made; otherwise it succeeds, at once or after the
  previous owner had its second, and that owner is killed exactly if the claim said so and it is
  still there.  In every case the object is idle again, the answer is the only signal, and after
  success with a timestamp the owner window is the new one.
\<close>

theorem claim_outcome:
  assumes "owner_inv p" "so_state p = Idle" "fresh \<noteq> 0" "time \<noteq> 0"
    and "old = get_selection_owner answer"
    and "ok = ((old \<noteq> 0 \<longrightarrow> force) \<and> get_selection_owner again = fresh)"
    and "owner_run intern [OwnClaim answer fresh force kill, OwnEvent (EvPropertyNotify fresh time) again None, OwnTick]
           (A, Some p) = ((B, Some q), es)"
  shows "signals_in es = [if ok then ClaimedOwnership else FailedToClaimOwnership] \<and>
    killed es = (if ok \<and> kill \<and> old \<noteq> 0 then [old] else []) \<and>
    so_state q = Idle \<and> ownerWindow q = (if ok then fresh else 0)"
proof -
  have "\<not> so_timer p" using assms(1,2) by (simp add: owner_inv_def)
  then show ?thesis
    using assms(2-7)
    by (cases "so_timestamp p = 0"; cases "old = 0"; cases force; cases kill; cases "get_selection_owner again = fresh")
      (auto simp: owner_defs owner_apply_def Let_def signals_in_def ownerWindow_def)
qed

theorem claim_outcome_witness:
  "\<exists>B q es. owner_run sample_intern [OwnClaim (Some 9) 5 True True, OwnEvent (EvPropertyNotify 5 100) (Some 5) None, OwnTick]
     (no_atoms, Some (new_selection_owner 7 1)) = ((B, Some q), es) \<and>
   signals_in es = [ClaimedOwnership] \<and> killed es = [9] \<and> so_state q = Idle \<and> ownerWindow q = 5"
proof -
  let ?p = "new_selection_owner 7 1"
  let ?run = "owner_run sample_intern [OwnClaim (Some 9) 5 True True, OwnEvent (EvPropertyNotify 5 100) (Some 5) None, OwnTick]
     (no_atoms, Some ?p)"
  have "\<exists>B q es. ?run = ((B, Some q), es)" by (simp add: run_defs)
  then obtain B q es where run: "?run = ((B, Some q), es)" by blast
  have idle: "so_state ?p = Idle" by (simp add: new_selection_owner_def)
  have "(0 :: u32) \<noteq> 5" "(0 :: u32) \<noteq> 100" "(9 :: u32) \<noteq> 0" by simp_all
  then show ?thesis
    using claim_outcome [OF new_owner_inv idle _ _ refl refl run] run
    by (simp add: get_selection_owner_def)
qed

section \<open>What others hear\<close>

text \<open>The client messages an owner sends to a window, as the events its listeners get.\<close>

fun messages_to :: "u32 \<Rightarrow> owner_effect list \<Rightarrow> selection_event list" where
  "messages_to w [] = []"
| "messages_to w (XClientMessage dest m window type data # es) =
     (if dest = w \<and> m = STRUCTURE_NOTIFY then [EvClientMessage type data] else []) @ messages_to w es"
| "messages_to w (_ # es) = messages_to w es"

text \<open>
  A claim that succeeds is heard: what the owner sends to the root window when it gets its
  timestamp makes a watcher of the same selection, which finds the new owner, emit
  \<^verbatim>\<open>newOwner\<close> once, with exactly the window of the claim.
\<close>

theorem claim_announced:
  assumes "so_window p \<noteq> 0" "so_force_kill p \<longrightarrow> so_prev_owner p = 0"
    and "sw_selection d = so_selection p" "sw_owner d \<noteq> so_window p"
    and "qu_owner Q = Some (so_window p)" "steady Q"
  shows "watcher_run (oa_manager A)
      (map (\<lambda>ev. WatchEvent ev Q) (messages_to (so_root p) (snd (gotTimestamp A (Some (so_window p)) p)))) d =
    (d\<lparr>sw_owner := so_window p\<rparr>, [WatchInput (so_window p) STRUCTURE_NOTIFY, NewOwner (so_window p)])"
  using assms
  by (auto simp: gotTimestamp_def claimSucceeded_def watcher_owner_def get_selection_owner_def steady_def Let_def)

theorem claim_announced_witness:
  "snd (watcher_run 7
      (map (\<lambda>ev. WatchEvent ev \<lparr>qu_owner = Some 5, qu_error = False, qu_again = Some 5\<rparr>)
        (messages_to 1 (snd (gotTimestamp (getAtoms sample_intern no_atoms) (Some 5)
          ((new_selection_owner 7 1)\<lparr>so_window := 5\<rparr>))))) (new_selection_watcher 7 1)) =
    [WatchInput 5 STRUCTURE_NOTIFY, NewOwner 5]"
proof -
  let ?p = "(new_selection_owner 7 1)\<lparr>so_window := 5\<rparr>"
  let ?Q = "\<lparr>qu_owner = Some 5, qu_error = False, qu_again = Some 5\<rparr>"
  have shape: "so_window ?p \<noteq> 0" "so_force_kill ?p \<longrightarrow> so_prev_owner ?p = 0"
    "sw_selection (new_selection_watcher 7 1) = so_selection ?p" "sw_owner (new_selection_watcher 7 1) \<noteq> so_window ?p"
    "qu_owner ?Q = Some (so_window ?p)" "steady ?Q"
    by (simp_all add: new_selection_owner_def new_selection_watcher_def steady_def)
  have "oa_manager (getAtoms sample_intern no_atoms) = 7" "so_root ?p = 1"
    by (simp_all add: getAtoms_def no_atoms_def sample_intern_def new_selection_owner_def)
  then show ?thesis
    using claim_announced [OF shape, of "getAtoms sample_intern no_atoms"]
    by (simp add: new_selection_owner_def)
qed



text \<open>
  A change of owner while the watcher looks makes it deaf: it forgets the owner its listener
  knows without a signal, and the end of that owner is never reported, whatever follows.
\<close>

theorem watcher_race_silent:
  assumes "sw_owner d \<noteq> 0" "qu_owner Q = Some w" "w \<noteq> 0" "w \<noteq> sw_owner d" "qu_again Q \<noteq> Some w" "qu_again Q \<noteq> None"
  shows "watcher_run manager [WatchAsk Q, WatchEvent (EvDestroyNotify (sw_owner d)) Q'] d =
    (d\<lparr>sw_owner := 0\<rparr>, [WatchInput w STRUCTURE_NOTIFY])"
  using assms by (auto simp: watcher_owner_def get_selection_owner_def)

theorem watcher_race_silent_witness:
  "snd (watcher_run 3 [WatchAsk \<lparr>qu_owner = Some 8, qu_error = False, qu_again = Some 9\<rparr>, WatchEvent (EvDestroyNotify 4) Q']
     \<lparr>sw_root = 1, sw_selection = 7, sw_owner = 4\<rparr>) = [WatchInput 8 STRUCTURE_NOTIFY]"
  using watcher_race_silent [of "\<lparr>sw_root = 1, sw_selection = 7, sw_owner = 4\<rparr>"
      "\<lparr>qu_owner = Some 8, qu_error = False, qu_again = Some 9\<rparr>" 8 3 Q'] by simp

section \<open>What goes wrong\<close>

text \<open>
  A selection that is lost, or released, while the claim waits for the previous owner is
  claimed all the same: the timer then kills the previous owner, announces a manager without a
  timestamp, and reports \<^verbatim>\<open>claimedOwnership\<close> of a window that is destroyed, while the object
  says that it owns nothing.
\<close>

theorem lost_claim_succeeds:
  assumes "owner_inv p" "so_state p = WaitingForPreviousOwner" "so_timestamp p \<noteq> 0"
  shows "(\<exists>q. owner_run intern [OwnEvent (EvSelectionClear (so_selection p)) None None, OwnTick] (A, Some p) =
      ((A, Some q), [LostOwnership, XSelectInput (so_window p) 0, XDestroyWindow (so_window p), StopTimer,
         XKillClient (so_prev_owner p),
         XClientMessage (so_root p) STRUCTURE_NOTIFY (so_root p) (oa_manager A)
           [0, so_selection p, so_window p, so_extra1 p, so_extra2 p], ClaimedOwnership]) \<and> ownerWindow q = 0) \<and>
    (\<exists>q. owner_run intern [OwnRelease, OwnTick] (A, Some p) =
      ((A, Some q), [XDestroyWindow (so_window p), StopTimer, XKillClient (so_prev_owner p),
         XClientMessage (so_root p) STRUCTURE_NOTIFY (so_root p) (oa_manager A)
           [0, so_selection p, 0, so_extra1 p, so_extra2 p], ClaimedOwnership]) \<and> ownerWindow q = 0)"
  using assms by (simp add: owner_inv_def owner_defs owner_apply_def ownerWindow_def)

definition waiting_owner :: selection_owner where
  "waiting_owner = (new_selection_owner 7 1)\<lparr>so_state := WaitingForPreviousOwner, so_window := 6, so_prev_owner := 9,
     so_timestamp := 100, so_timer := True, so_force_kill := True\<rparr>"

theorem lost_claim_succeeds_witness:
  "\<exists>B q es. owner_run sample_intern (take 3 sample_claims) (no_atoms, Some (new_selection_owner 7 1)) = ((B, Some waiting_owner), es) \<and>
   owner_run sample_intern [OwnRelease, OwnTick] (B, Some waiting_owner) = ((B, Some q), [XDestroyWindow 6, StopTimer,
     XKillClient 9, XClientMessage 1 STRUCTURE_NOTIFY 1 7 [0, 7, 0, 0, 0], ClaimedOwnership])"
proof -
  have "owner_inv waiting_owner" "so_state waiting_owner = WaitingForPreviousOwner" "so_timestamp waiting_owner \<noteq> 0"
    by (simp_all add: waiting_owner_def owner_inv_def new_selection_owner_def)
  note lost = lost_claim_succeeds [OF this]
  have "\<exists>es. owner_run sample_intern (take 3 sample_claims) (no_atoms, Some (new_selection_owner 7 1)) =
      ((getAtoms sample_intern no_atoms, Some waiting_owner), es)"
    by (simp add: sample_claims_def run_defs waiting_owner_def sample_intern_def)
  moreover have "oa_manager (getAtoms sample_intern no_atoms) = 7"
    by (simp add: getAtoms_def no_atoms_def sample_intern_def)
  ultimately show ?thesis
    using lost [of sample_intern "getAtoms sample_intern no_atoms"]
    by (fastforce simp: waiting_owner_def new_selection_owner_def)
qed

definition well_formed_change :: "owner_effect \<Rightarrow> bool" where
  "well_formed_change e =
     (case e of XChangeProperty mode window property type format data \<Rightarrow> format \<in> {8, 16, 32} | _ \<Rightarrow> False)"

lemma handle_selection_malformed: "\<not> list_ex well_formed_change (snd (handle_selection A p t pr r))"
  by (simp add: handle_selection_def replyTargets_def genericReply_def well_formed_change_def XCB_PROP_MODE_REPLACE_def)

lemma handle_pairs_malformed: "\<not> list_ex well_formed_change (fst (handle_pairs A p r ws))"
  using handle_selection_malformed
  by (induction A p r ws rule: handle_pairs.induct) (auto split: prod.split simp: prod_eq_iff)

lemma handle_multiple_malformed: "\<not> list_ex well_formed_change (snd (handle_multiple A reply p pr r))"
  using handle_pairs_malformed
  by (auto simp: handle_multiple_def prod_eq_iff well_formed_change_def XCB_PROP_MODE_REPLACE_def
      split: option.split xvalue.split prod.split)

text \<open>
  No requestor ever gets the data it asked for: the arguments of
  \<^verbatim>\<open>xcb_change_property\<close> are in the wrong order wherever a request is answered, so no answer has
  a format the server accepts; nevertheless the request for the timestamp of an owned selection is
  reported as handled.
\<close>

theorem answers_malformed:
  "\<not> list_ex well_formed_change (filter_selection_request A reply p time requestor selection target property) \<and>
   filter_selection_request (A\<lparr>oa_timestamp := 3, oa_multiple := 2\<rparr>) reply (p\<lparr>so_timestamp := 100\<rparr>) 0 requestor (so_selection p) 3 5 =
     [XChangeProperty (ucast requestor) 5 XCB_ATOM_INTEGER 32 0 [100],
      XSelectionNotify 0 requestor (so_selection p) 3 5]"
proof -
  have "\<not> list_ex well_formed_change (filter_selection_request A reply p time requestor selection target property)"
    using handle_selection_malformed handle_multiple_malformed
    by (auto simp: filter_selection_request_def Let_def prod_eq_iff well_formed_change_def split: prod.split)
  then show ?thesis
    by (simp add: filter_selection_request_def handle_selection_def Let_def XCB_PROP_MODE_REPLACE_def)
qed

end
