(* ===== verification/KeyTables.thy ===== *)
theory KeyTables
  imports Prelude
begin

text \<open>
  The tables of \<^verbatim>\<open>KKeyServer\<close> (kkeyserver.cpp).  The numbers of \<^verbatim>\<open>XF86keysym.h\<close> are
  copied into the source and are copied here; the enumeration of Qt keys and the symbols of
  \<^verbatim>\<open>keysymdef.h\<close> are not in the repository, so the tables have their names, and
  \<open>key_env\<close> is what these names stand for.
\<close>

record key_env =
  ke_qt :: "string \<Rightarrow> i32"
  ke_xk :: "string \<Rightarrow> u32"
  ke_upper :: "u32 \<Rightarrow> u32"
  ke_lower :: "u32 \<Rightarrow> u32"
  ke_letter :: "u32 \<Rightarrow> bool"

section \<open>Symbols of XF86keysym.h\<close>

definition XF86XK_MonBrightnessUp :: u32 where "XF86XK_MonBrightnessUp = 0x1008FF02"
definition XF86XK_MonBrightnessDown :: u32 where "XF86XK_MonBrightnessDown = 0x1008FF03"
definition XF86XK_KbdLightOnOff :: u32 where "XF86XK_KbdLightOnOff = 0x1008FF04"
definition XF86XK_KbdBrightnessUp :: u32 where "XF86XK_KbdBrightnessUp = 0x1008FF05"
definition XF86XK_KbdBrightnessDown :: u32 where "XF86XK_KbdBrightnessDown = 0x1008FF06"
definition XF86XK_Standby :: u32 where "XF86XK_Standby = 0x1008FF10"
definition XF86XK_AudioLowerVolume :: u32 where "XF86XK_AudioLowerVolume = 0x1008FF11"
definition XF86XK_AudioMute :: u32 where "XF86XK_AudioMute = 0x1008FF12"
definition XF86XK_AudioRaiseVolume :: u32 where "XF86XK_AudioRaiseVolume = 0x1008FF13"
definition XF86XK_AudioPlay :: u32 where "XF86XK_AudioPlay = 0x1008FF14"
definition XF86XK_AudioStop :: u32 where "XF86XK_AudioStop = 0x1008FF15"
definition XF86XK_AudioPrev :: u32 where "XF86XK_AudioPrev = 0x1008FF16"
definition XF86XK_AudioNext :: u32 where "XF86XK_AudioNext = 0x1008FF17"
definition XF86XK_HomePage :: u32 where "XF86XK_HomePage = 0x1008FF18"
definition XF86XK_Mail :: u32 where "XF86XK_Mail = 0x1008FF19"
definition XF86XK_Search :: u32 where "XF86XK_Search = 0x1008FF1B"
definition XF86XK_AudioRecord :: u32 where "XF86XK_AudioRecord = 0x1008FF1C"
definition XF86XK_Calculator :: u32 where "XF86XK_Calculator = 0x1008FF1D"
definition XF86XK_Memo :: u32 where "XF86XK_Memo = 0x1008FF1E"
definition XF86XK_ToDoList :: u32 where "XF86XK_ToDoList = 0x1008FF1F"
definition XF86XK_Calendar :: u32 where "XF86XK_Calendar = 0x1008FF20"
definition XF86XK_PowerDown :: u32 where "XF86XK_PowerDown = 0x1008FF21"
definition XF86XK_ContrastAdjust :: u32 where "XF86XK_ContrastAdjust = 0x1008FF22"
definition XF86XK_Back :: u32 where "XF86XK_Back = 0x1008FF26"
definition XF86XK_Forward :: u32 where "XF86XK_Forward = 0x1008FF27"
definition XF86XK_Stop :: u32 where "XF86XK_Stop = 0x1008FF28"
definition XF86XK_Refresh :: u32 where "XF86XK_Refresh = 0x1008FF29"
definition XF86XK_PowerOff :: u32 where "XF86XK_PowerOff = 0x1008FF2A"
definition XF86XK_WakeUp :: u32 where "XF86XK_WakeUp = 0x1008FF2B"
definition XF86XK_Eject :: u32 where "XF86XK_Eject = 0x1008FF2C"
definition XF86XK_ScreenSaver :: u32 where "XF86XK_ScreenSaver = 0x1008FF2D"
definition XF86XK_WWW :: u32 where "XF86XK_WWW = 0x1008FF2E"
definition XF86XK_Sleep :: u32 where "XF86XK_Sleep = 0x1008FF2F"
definition XF86XK_Favorites :: u32 where "XF86XK_Favorites = 0x1008FF30"
definition XF86XK_AudioPause :: u32 where "XF86XK_AudioPause = 0x1008FF31"
definition XF86XK_AudioMedia :: u32 where "XF86XK_AudioMedia = 0x1008FF32"
definition XF86XK_MyComputer :: u32 where "XF86XK_MyComputer = 0x1008FF33"
definition XF86XK_LightBulb :: u32 where "XF86XK_LightBulb = 0x1008FF35"
definition XF86XK_Shop :: u32 where "XF86XK_Shop = 0x1008FF36"
definition XF86XK_History :: u32 where "XF86XK_History = 0x1008FF37"
definition XF86XK_OpenURL :: u32 where "XF86XK_OpenURL = 0x1008FF38"
definition XF86XK_AddFavorite :: u32 where "XF86XK_AddFavorite = 0x1008FF39"
definition XF86XK_HotLinks :: u32 where "XF86XK_HotLinks = 0x1008FF3A"
definition XF86XK_BrightnessAdjust :: u32 where "XF86XK_BrightnessAdjust = 0x1008FF3B"
definition XF86XK_Finance :: u32 where "XF86XK_Finance = 0x1008FF3C"
definition XF86XK_Community :: u32 where "XF86XK_Community = 0x1008FF3D"
definition XF86XK_AudioRewind :: u32 where "XF86XK_AudioRewind = 0x1008FF3E"
definition XF86XK_BackForward :: u32 where "XF86XK_BackForward = 0x1008FF3F"
definition XF86XK_Launch0 :: u32 where "XF86XK_Launch0 = 0x1008FF40"
definition XF86XK_Launch1 :: u32 where "XF86XK_Launch1 = 0x1008FF41"
definition XF86XK_Launch2 :: u32 where "XF86XK_Launch2 = 0x1008FF42"
definition XF86XK_Launch3 :: u32 where "XF86XK_Launch3 = 0x1008FF43"
definition XF86XK_Launch4 :: u32 where "XF86XK_Launch4 = 0x1008FF44"
definition XF86XK_Launch5 :: u32 where "XF86XK_Launch5 = 0x1008FF45"
definition XF86XK_Launch6 :: u32 where "XF86XK_Launch6 = 0x1008FF46"
definition XF86XK_Launch7 :: u32 where "XF86XK_Launch7 = 0x1008FF47"
definition XF86XK_Launch8 :: u32 where "XF86XK_Launch8 = 0x1008FF48"
definition XF86XK_Launch9 :: u32 where "XF86XK_Launch9 = 0x1008FF49"
definition XF86XK_LaunchA :: u32 where "XF86XK_LaunchA = 0x1008FF4A"
definition XF86XK_LaunchB :: u32 where "XF86XK_LaunchB = 0x1008FF4B"
definition XF86XK_LaunchC :: u32 where "XF86XK_LaunchC = 0x1008FF4C"
definition XF86XK_LaunchD :: u32 where "XF86XK_LaunchD = 0x1008FF4D"
definition XF86XK_LaunchE :: u32 where "XF86XK_LaunchE = 0x1008FF4E"
definition XF86XK_LaunchF :: u32 where "XF86XK_LaunchF = 0x1008FF4F"
definition XF86XK_ApplicationLeft :: u32 where "XF86XK_ApplicationLeft = 0x1008FF50"
definition XF86XK_ApplicationRight :: u32 where "XF86XK_ApplicationRight = 0x1008FF51"
definition XF86XK_Book :: u32 where "XF86XK_Book = 0x1008FF52"
definition XF86XK_CD :: u32 where "XF86XK_CD = 0x1008FF53"
definition XF86XK_Calculater :: u32 where "XF86XK_Calculater = 0x1008FF54"
definition XF86XK_Clear :: u32 where "XF86XK_Clear = 0x1008FF55"
definition XF86XK_Close :: u32 where "XF86XK_Close = 0x1008FF56"
definition XF86XK_Copy :: u32 where "XF86XK_Copy = 0x1008FF57"
definition XF86XK_Cut :: u32 where "XF86XK_Cut = 0x1008FF58"
definition XF86XK_Display :: u32 where "XF86XK_Display = 0x1008FF59"
definition XF86XK_DOS :: u32 where "XF86XK_DOS = 0x1008FF5A"
definition XF86XK_Documents :: u32 where "XF86XK_Documents = 0x1008FF5B"
definition XF86XK_Excel :: u32 where "XF86XK_Excel = 0x1008FF5C"
definition XF86XK_Explorer :: u32 where "XF86XK_Explorer = 0x1008FF5D"
definition XF86XK_Game :: u32 where "XF86XK_Game = 0x1008FF5E"
definition XF86XK_Go :: u32 where "XF86XK_Go = 0x1008FF5F"
definition XF86XK_iTouch :: u32 where "XF86XK_iTouch = 0x1008FF60"
definition XF86XK_LogOff :: u32 where "XF86XK_LogOff = 0x1008FF61"
definition XF86XK_Market :: u32 where "XF86XK_Market = 0x1008FF62"
definition XF86XK_Meeting :: u32 where "XF86XK_Meeting = 0x1008FF63"
definition XF86XK_MenuKB :: u32 where "XF86XK_MenuKB = 0x1008FF65"
definition XF86XK_MenuPB :: u32 where "XF86XK_MenuPB = 0x1008FF66"
definition XF86XK_MySites :: u32 where "XF86XK_MySites = 0x1008FF67"
definition XF86XK_New :: u32 where "XF86XK_New = 0x1008FF68"
definition XF86XK_News :: u32 where "XF86XK_News = 0x1008FF69"
definition XF86XK_OfficeHome :: u32 where "XF86XK_OfficeHome = 0x1008FF6A"
definition XF86XK_Open :: u32 where "XF86XK_Open = 0x1008FF6B"
definition XF86XK_Option :: u32 where "XF86XK_Option = 0x1008FF6C"
definition XF86XK_Paste :: u32 where "XF86XK_Paste = 0x1008FF6D"
definition XF86XK_Phone :: u32 where "XF86XK_Phone = 0x1008FF6E"
definition XF86XK_Reply :: u32 where "XF86XK_Reply = 0x1008FF72"
definition XF86XK_Reload :: u32 where "XF86XK_Reload = 0x1008FF73"
definition XF86XK_RotateWindows :: u32 where "XF86XK_RotateWindows = 0x1008FF74"
definition XF86XK_RotationPB :: u32 where "XF86XK_RotationPB = 0x1008FF75"
definition XF86XK_RotationKB :: u32 where "XF86XK_RotationKB = 0x1008FF76"
definition XF86XK_Save :: u32 where "XF86XK_Save = 0x1008FF77"
definition XF86XK_Send :: u32 where "XF86XK_Send = 0x1008FF7B"
definition XF86XK_Spell :: u32 where "XF86XK_Spell = 0x1008FF7C"
definition XF86XK_SplitScreen :: u32 where "XF86XK_SplitScreen = 0x1008FF7D"
definition XF86XK_Support :: u32 where "XF86XK_Support = 0x1008FF7E"
definition XF86XK_TaskPane :: u32 where "XF86XK_TaskPane = 0x1008FF7F"
definition XF86XK_Terminal :: u32 where "XF86XK_Terminal = 0x1008FF80"
definition XF86XK_Tools :: u32 where "XF86XK_Tools = 0x1008FF81"
definition XF86XK_Travel :: u32 where "XF86XK_Travel = 0x1008FF82"
definition XF86XK_Video :: u32 where "XF86XK_Video = 0x1008FF87"
definition XF86XK_Word :: u32 where "XF86XK_Word = 0x1008FF89"
definition XF86XK_Xfer :: u32 where "XF86XK_Xfer = 0x1008FF8A"
definition XF86XK_ZoomIn :: u32 where "XF86XK_ZoomIn = 0x1008FF8B"
definition XF86XK_ZoomOut :: u32 where "XF86XK_ZoomOut = 0x1008FF8C"
definition XF86XK_Away :: u32 where "XF86XK_Away = 0x1008FF8D"
definition XF86XK_Messenger :: u32 where "XF86XK_Messenger = 0x1008FF8E"
definition XF86XK_WebCam :: u32 where "XF86XK_WebCam = 0x1008FF8F"
definition XF86XK_MailForward :: u32 where "XF86XK_MailForward = 0x1008FF90"
definition XF86XK_Pictures :: u32 where "XF86XK_Pictures = 0x1008FF91"
definition XF86XK_Music :: u32 where "XF86XK_Music = 0x1008FF92"
definition XF86XK_Battery :: u32 where "XF86XK_Battery = 0x1008FF93"
definition XF86XK_Bluetooth :: u32 where "XF86XK_Bluetooth = 0x1008FF94"
definition XF86XK_WLAN :: u32 where "XF86XK_WLAN = 0x1008FF95"
definition XF86XK_UWB :: u32 where "XF86XK_UWB = 0x1008FF96"
definition XF86XK_AudioForward :: u32 where "XF86XK_AudioForward = 0x1008FF97"
definition XF86XK_AudioRepeat :: u32 where "XF86XK_AudioRepeat = 0x1008FF98"
definition XF86XK_AudioRandomPlay :: u32 where "XF86XK_AudioRandomPlay = 0x1008FF99"
definition XF86XK_Subtitle :: u32 where "XF86XK_Subtitle = 0x1008FF9A"
definition XF86XK_AudioCycleTrack :: u32 where "XF86XK_AudioCycleTrack = 0x1008FF9B"
definition XF86XK_Time :: u32 where "XF86XK_Time = 0x1008FF9F"
definition XF86XK_Select :: u32 where "XF86XK_Select = 0x1008FFA0"
definition XF86XK_View :: u32 where "XF86XK_View = 0x1008FFA1"
definition XF86XK_TopMenu :: u32 where "XF86XK_TopMenu = 0x1008FFA2"
definition XF86XK_Red :: u32 where "XF86XK_Red = 0x1008FFA3"
definition XF86XK_Green :: u32 where "XF86XK_Green = 0x1008FFA4"
definition XF86XK_Yellow :: u32 where "XF86XK_Yellow = 0x1008FFA5"
definition XF86XK_Blue :: u32 where "XF86XK_Blue = 0x1008FFA6"
definition XF86XK_Suspend :: u32 where "XF86XK_Suspend = 0x1008FFA7"
definition XF86XK_Hibernate :: u32 where "XF86XK_Hibernate = 0x1008FFA8"
definition XF86XK_TouchpadToggle :: u32 where "XF86XK_TouchpadToggle = 0x1008FFA9"
definition XF86XK_TouchpadOn :: u32 where "XF86XK_TouchpadOn = 0x1008FFB0"
definition XF86XK_TouchpadOff :: u32 where "XF86XK_TouchpadOff = 0x1008FFB1"
definition XF86XK_AudioMicMute :: u32 where "XF86XK_AudioMicMute = 0x1008FFB2"
definition XF86XK_ClearGrab :: u32 where "XF86XK_ClearGrab = 0x1008FE21"

lemmas xf86_defs =
  XF86XK_MonBrightnessUp_def XF86XK_MonBrightnessDown_def XF86XK_KbdLightOnOff_def
  XF86XK_KbdBrightnessUp_def XF86XK_KbdBrightnessDown_def XF86XK_Standby_def
  XF86XK_AudioLowerVolume_def XF86XK_AudioMute_def XF86XK_AudioRaiseVolume_def
  XF86XK_AudioPlay_def XF86XK_AudioStop_def XF86XK_AudioPrev_def XF86XK_AudioNext_def
  XF86XK_HomePage_def XF86XK_Mail_def XF86XK_Search_def XF86XK_AudioRecord_def
  XF86XK_Calculator_def XF86XK_Memo_def XF86XK_ToDoList_def XF86XK_Calendar_def
  XF86XK_PowerDown_def XF86XK_ContrastAdjust_def XF86XK_Back_def XF86XK_Forward_def
  XF86XK_Stop_def XF86XK_Refresh_def XF86XK_PowerOff_def XF86XK_WakeUp_def XF86XK_Eject_def
  XF86XK_ScreenSaver_def XF86XK_WWW_def XF86XK_Sleep_def XF86XK_Favorites_def
  XF86XK_AudioPause_def XF86XK_AudioMedia_def XF86XK_MyComputer_def XF86XK_LightBulb_def
  XF86XK_Shop_def XF86XK_History_def XF86XK_OpenURL_def XF86XK_AddFavorite_def
  XF86XK_HotLinks_def XF86XK_BrightnessAdjust_def XF86XK_Finance_def XF86XK_Community_def
  XF86XK_AudioRewind_def XF86XK_BackForward_def XF86XK_Launch0_def XF86XK_Launch1_def
  XF86XK_Launch2_def XF86XK_Launch3_def XF86XK_Launch4_def XF86XK_Launch5_def
  XF86XK_Launch6_def XF86XK_Launch7_def XF86XK_Launch8_def XF86XK_Launch9_def
  XF86XK_LaunchA_def XF86XK_LaunchB_def XF86XK_LaunchC_def XF86XK_LaunchD_def
  XF86XK_LaunchE_def XF86XK_LaunchF_def XF86XK_ApplicationLeft_def XF86XK_ApplicationRight_def
  XF86XK_Book_def XF86XK_CD_def XF86XK_Calculater_def XF86XK_Clear_def XF86XK_Close_def
  XF86XK_Copy_def XF86XK_Cut_def XF86XK_Display_def XF86XK_DOS_def XF86XK_Documents_def
  XF86XK_Excel_def XF86XK_Explorer_def XF86XK_Game_def XF86XK_Go_def XF86XK_iTouch_def
  XF86XK_LogOff_def XF86XK_Market_def XF86XK_Meeting_def XF86XK_MenuKB_def XF86XK_MenuPB_def
  XF86XK_MySites_def XF86XK_New_def XF86XK_News_def XF86XK_OfficeHome_def XF86XK_Open_def
  XF86XK_Option_def XF86XK_Paste_def XF86XK_Phone_def XF86XK_Reply_def XF86XK_Reload_def
  XF86XK_RotateWindows_def XF86XK_RotationPB_def XF86XK_RotationKB_def XF86XK_Save_def
  XF86XK_Send_def XF86XK_Spell_def XF86XK_SplitScreen_def XF86XK_Support_def
  XF86XK_TaskPane_def XF86XK_Terminal_def XF86XK_Tools_def XF86XK_Travel_def XF86XK_Video_def
  XF86XK_Word_def XF86XK_Xfer_def XF86XK_ZoomIn_def XF86XK_ZoomOut_def XF86XK_Away_def
  XF86XK_Messenger_def XF86XK_WebCam_def XF86XK_MailForward_def XF86XK_Pictures_def
  XF86XK_Music_def XF86XK_Battery_def XF86XK_Bluetooth_def XF86XK_WLAN_def XF86XK_UWB_def
  XF86XK_AudioForward_def XF86XK_AudioRepeat_def XF86XK_AudioRandomPlay_def XF86XK_Subtitle_def
  XF86XK_AudioCycleTrack_def XF86XK_Time_def XF86XK_Select_def XF86XK_View_def
  XF86XK_TopMenu_def XF86XK_Red_def XF86XK_Green_def XF86XK_Yellow_def XF86XK_Blue_def
  XF86XK_Suspend_def XF86XK_Hibernate_def XF86XK_TouchpadToggle_def XF86XK_TouchpadOn_def
  XF86XK_TouchpadOff_def XF86XK_AudioMicMute_def XF86XK_ClearGrab_def

section \<open>The table of keys\<close>

text \<open>\<^verbatim>\<open>g_rgQtToSymX\<close>: the part with symbols of X11, and the part with those above.\<close>

definition qt_to_xk :: "(string \<times> string) list" where
  "qt_to_xk =
     [(''Key_Escape'', ''Escape''), (''Key_Tab'', ''Tab''), (''Key_Backtab'', ''ISO_Left_Tab''),
      (''Key_Backspace'', ''BackSpace''), (''Key_Return'', ''Return''),
      (''Key_Insert'', ''Insert''), (''Key_Delete'', ''Delete''), (''Key_Pause'', ''Pause''),
      (''Key_Print'', ''Print''), (''Key_SysReq'', ''Sys_Req''), (''Key_Home'', ''Home''),
      (''Key_End'', ''End''), (''Key_Left'', ''Left''), (''Key_Up'', ''Up''),
      (''Key_Right'', ''Right''), (''Key_Down'', ''Down''), (''Key_PageUp'', ''Prior''),
      (''Key_PageDown'', ''Next''), (''Key_Shift'', ''Shift_L''), (''Key_Shift'', ''Shift_R''),
      (''Key_Shift'', ''Shift_Lock''), (''Key_Control'', ''Control_L''),
      (''Key_Control'', ''Control_R''), (''Key_Meta'', ''Meta_L''), (''Key_Meta'', ''Meta_R''),
      (''Key_Alt'', ''Alt_L''), (''Key_Alt'', ''Alt_R''), (''Key_CapsLock'', ''Caps_Lock''),
      (''Key_NumLock'', ''Num_Lock''), (''Key_ScrollLock'', ''Scroll_Lock''), (''Key_F1'', ''F1''),
      (''Key_F2'', ''F2''), (''Key_F3'', ''F3''), (''Key_F4'', ''F4''), (''Key_F5'', ''F5''),
      (''Key_F6'', ''F6''), (''Key_F7'', ''F7''), (''Key_F8'', ''F8''), (''Key_F9'', ''F9''),
      (''Key_F10'', ''F10''), (''Key_F11'', ''F11''), (''Key_F12'', ''F12''),
      (''Key_F13'', ''F13''), (''Key_F14'', ''F14''), (''Key_F15'', ''F15''),
      (''Key_F16'', ''F16''), (''Key_F17'', ''F17''), (''Key_F18'', ''F18''),
      (''Key_F19'', ''F19''), (''Key_F20'', ''F20''), (''Key_F21'', ''F21''),
      (''Key_F22'', ''F22''), (''Key_F23'', ''F23''), (''Key_F24'', ''F24''),
      (''Key_F25'', ''F25''), (''Key_F26'', ''F26''), (''Key_F27'', ''F27''),
      (''Key_F28'', ''F28''), (''Key_F29'', ''F29''), (''Key_F30'', ''F30''),
      (''Key_F31'', ''F31''), (''Key_F32'', ''F32''), (''Key_F33'', ''F33''),
      (''Key_F34'', ''F34''), (''Key_F35'', ''F35''), (''Key_Super_L'', ''Super_L''),
      (''Key_Super_R'', ''Super_R''), (''Key_Menu'', ''Menu''), (''Key_Hyper_L'', ''Hyper_L''),
      (''Key_Hyper_R'', ''Hyper_R''), (''Key_Help'', ''Help''), (''Key_Space'', ''KP_Space''),
      (''Key_Tab'', ''KP_Tab''), (''Key_Enter'', ''KP_Enter''), (''Key_Home'', ''KP_Home''),
      (''Key_Left'', ''KP_Left''), (''Key_Up'', ''KP_Up''), (''Key_Right'', ''KP_Right''),
      (''Key_Down'', ''KP_Down''), (''Key_PageUp'', ''KP_Prior''), (''Key_PageDown'', ''KP_Next''),
      (''Key_End'', ''KP_End''), (''Key_Clear'', ''KP_Begin''), (''Key_Insert'', ''KP_Insert''),
      (''Key_Delete'', ''KP_Delete''), (''Key_Equal'', ''KP_Equal''),
      (''Key_Asterisk'', ''KP_Multiply''), (''Key_Plus'', ''KP_Add''),
      (''Key_Comma'', ''KP_Separator''), (''Key_Minus'', ''KP_Subtract''),
      (''Key_Period'', ''KP_Decimal''), (''Key_Slash'', ''KP_Divide'')]"

definition qt_to_xf86 :: "(string \<times> u32) list" where
  "qt_to_xf86 =
     [(''Key_Back'', XF86XK_Back), (''Key_Forward'', XF86XK_Forward), (''Key_Stop'', XF86XK_Stop),
      (''Key_Refresh'', XF86XK_Refresh), (''Key_Favorites'', XF86XK_Favorites),
      (''Key_LaunchMedia'', XF86XK_AudioMedia), (''Key_OpenUrl'', XF86XK_OpenURL),
      (''Key_HomePage'', XF86XK_HomePage), (''Key_Search'', XF86XK_Search),
      (''Key_VolumeDown'', XF86XK_AudioLowerVolume), (''Key_VolumeMute'', XF86XK_AudioMute),
      (''Key_VolumeUp'', XF86XK_AudioRaiseVolume), (''Key_MediaPlay'', XF86XK_AudioPlay),
      (''Key_MediaStop'', XF86XK_AudioStop), (''Key_MediaPrevious'', XF86XK_AudioPrev),
      (''Key_MediaNext'', XF86XK_AudioNext), (''Key_MediaRecord'', XF86XK_AudioRecord),
      (''Key_MediaPause'', XF86XK_AudioPause), (''Key_LaunchMail'', XF86XK_Mail),
      (''Key_LaunchMedia'', XF86XK_MyComputer), (''Key_Memo'', XF86XK_Memo),
      (''Key_ToDoList'', XF86XK_ToDoList), (''Key_Calendar'', XF86XK_Calendar),
      (''Key_PowerDown'', XF86XK_PowerDown), (''Key_ContrastAdjust'', XF86XK_ContrastAdjust),
      (''Key_Standby'', XF86XK_Standby), (''Key_MonBrightnessUp'', XF86XK_MonBrightnessUp),
      (''Key_MonBrightnessDown'', XF86XK_MonBrightnessDown),
      (''Key_KeyboardLightOnOff'', XF86XK_KbdLightOnOff),
      (''Key_KeyboardBrightnessUp'', XF86XK_KbdBrightnessUp),
      (''Key_KeyboardBrightnessDown'', XF86XK_KbdBrightnessDown),
      (''Key_PowerOff'', XF86XK_PowerOff), (''Key_WakeUp'', XF86XK_WakeUp),
      (''Key_Eject'', XF86XK_Eject), (''Key_ScreenSaver'', XF86XK_ScreenSaver),
      (''Key_WWW'', XF86XK_WWW), (''Key_Sleep'', XF86XK_Sleep),
      (''Key_LightBulb'', XF86XK_LightBulb), (''Key_Shop'', XF86XK_Shop),
      (''Key_History'', XF86XK_History), (''Key_AddFavorite'', XF86XK_AddFavorite),
      (''Key_HotLinks'', XF86XK_HotLinks), (''Key_BrightnessAdjust'', XF86XK_BrightnessAdjust),
      (''Key_Finance'', XF86XK_Finance), (''Key_Community'', XF86XK_Community),
      (''Key_AudioRewind'', XF86XK_AudioRewind), (''Key_BackForward'', XF86XK_BackForward),
      (''Key_ApplicationLeft'', XF86XK_ApplicationLeft),
      (''Key_ApplicationRight'', XF86XK_ApplicationRight), (''Key_Book'', XF86XK_Book),
      (''Key_CD'', XF86XK_CD), (''Key_Calculator'', XF86XK_Calculater),
      (''Key_Calculator'', XF86XK_Calculator), (''Key_Clear'', XF86XK_Clear),
      (''Key_ClearGrab'', XF86XK_ClearGrab), (''Key_Close'', XF86XK_Close),
      (''Key_Copy'', XF86XK_Copy), (''Key_Cut'', XF86XK_Cut), (''Key_Display'', XF86XK_Display),
      (''Key_DOS'', XF86XK_DOS), (''Key_Documents'', XF86XK_Documents),
      (''Key_Excel'', XF86XK_Excel), (''Key_Explorer'', XF86XK_Explorer),
      (''Key_Game'', XF86XK_Game), (''Key_Go'', XF86XK_Go), (''Key_iTouch'', XF86XK_iTouch),
      (''Key_LogOff'', XF86XK_LogOff), (''Key_Market'', XF86XK_Market),
      (''Key_Meeting'', XF86XK_Meeting), (''Key_MenuKB'', XF86XK_MenuKB),
      (''Key_MenuPB'', XF86XK_MenuPB), (''Key_MySites'', XF86XK_MySites), (''Key_New'', XF86XK_New),
      (''Key_News'', XF86XK_News), (''Key_OfficeHome'', XF86XK_OfficeHome),
      (''Key_Open'', XF86XK_Open), (''Key_Option'', XF86XK_Option), (''Key_Paste'', XF86XK_Paste),
      (''Key_Phone'', XF86XK_Phone), (''Key_Reply'', XF86XK_Reply), (''Key_Reload'', XF86XK_Reload),
      (''Key_RotateWindows'', XF86XK_RotateWindows), (''Key_RotationPB'', XF86XK_RotationPB),
      (''Key_RotationKB'', XF86XK_RotationKB), (''Key_Save'', XF86XK_Save),
      (''Key_Send'', XF86XK_Send), (''Key_Spell'', XF86XK_Spell),
      (''Key_SplitScreen'', XF86XK_SplitScreen), (''Key_Support'', XF86XK_Support),
      (''Key_TaskPane'', XF86XK_TaskPane), (''Key_Terminal'', XF86XK_Terminal),
      (''Key_Tools'', XF86XK_Tools), (''Key_Travel'', XF86XK_Travel), (''Key_Video'', XF86XK_Video),
      (''Key_Word'', XF86XK_Word), (''Key_Xfer'', XF86XK_Xfer), (''Key_ZoomIn'', XF86XK_ZoomIn),
      (''Key_ZoomOut'', XF86XK_ZoomOut), (''Key_Away'', XF86XK_Away),
      (''Key_Messenger'', XF86XK_Messenger), (''Key_WebCam'', XF86XK_WebCam),
      (''Key_MailForward'', XF86XK_MailForward), (''Key_Pictures'', XF86XK_Pictures),
      (''Key_Music'', XF86XK_Music), (''Key_Battery'', XF86XK_Battery),
      (''Key_Bluetooth'', XF86XK_Bluetooth), (''Key_WLAN'', XF86XK_WLAN), (''Key_UWB'', XF86XK_UWB),
      (''Key_AudioForward'', XF86XK_AudioForward), (''Key_AudioRepeat'', XF86XK_AudioRepeat),
      (''Key_AudioRandomPlay'', XF86XK_AudioRandomPlay), (''Key_Subtitle'', XF86XK_Subtitle),
      (''Key_AudioCycleTrack'', XF86XK_AudioCycleTrack), (''Key_Time'', XF86XK_Time),
      (''Key_Select'', XF86XK_Select), (''Key_View'', XF86XK_View),
      (''Key_TopMenu'', XF86XK_TopMenu), (''Key_Red'', XF86XK_Red), (''Key_Green'', XF86XK_Green),
      (''Key_Yellow'', XF86XK_Yellow), (''Key_Blue'', XF86XK_Blue),
      (''Key_Bluetooth'', XF86XK_Bluetooth), (''Key_Suspend'', XF86XK_Suspend),
      (''Key_Hibernate'', XF86XK_Hibernate), (''Key_TouchpadToggle'', XF86XK_TouchpadToggle),
      (''Key_TouchpadOn'', XF86XK_TouchpadOn), (''Key_TouchpadOff'', XF86XK_TouchpadOff),
      (''Key_MicMute'', XF86XK_AudioMicMute), (''Key_Launch0'', XF86XK_Launch0),
      (''Key_Launch1'', XF86XK_Launch1), (''Key_Launch2'', XF86XK_Launch2),
      (''Key_Launch3'', XF86XK_Launch3), (''Key_Launch4'', XF86XK_Launch4),
      (''Key_Launch5'', XF86XK_Launch5), (''Key_Launch6'', XF86XK_Launch6),
      (''Key_Launch7'', XF86XK_Launch7), (''Key_Launch8'', XF86XK_Launch8),
      (''Key_Launch9'', XF86XK_Launch9), (''Key_LaunchA'', XF86XK_LaunchA),
      (''Key_LaunchB'', XF86XK_LaunchB), (''Key_LaunchC'', XF86XK_LaunchC),
      (''Key_LaunchD'', XF86XK_LaunchD), (''Key_LaunchE'', XF86XK_LaunchE),
      (''Key_LaunchF'', XF86XK_LaunchF)]"

section \<open>Keys that may have Shift as a modifier\<close>

text \<open>The cases of \<^verbatim>\<open>isShiftAsModifierAllowed\<close>.\<close>

definition shift_keys :: "string list" where
  "shift_keys =
     [''Key_Return'', ''Key_Space'', ''Key_Backspace'', ''Key_Tab'', ''Key_Backtab'',
      ''Key_Escape'', ''Key_Print'', ''Key_ScrollLock'', ''Key_Pause'', ''Key_PageUp'',
      ''Key_PageDown'', ''Key_Insert'', ''Key_Delete'', ''Key_Home'', ''Key_End'', ''Key_Up'',
      ''Key_Down'', ''Key_Left'', ''Key_Right'', ''Key_Enter'', ''Key_SysReq'', ''Key_CapsLock'',
      ''Key_NumLock'', ''Key_Help'', ''Key_Back'', ''Key_Forward'', ''Key_Stop'', ''Key_Refresh'',
      ''Key_Favorites'', ''Key_LaunchMedia'', ''Key_OpenUrl'', ''Key_HomePage'', ''Key_Search'',
      ''Key_VolumeDown'', ''Key_VolumeMute'', ''Key_VolumeUp'', ''Key_BassBoost'', ''Key_BassUp'',
      ''Key_BassDown'', ''Key_TrebleUp'', ''Key_TrebleDown'', ''Key_MediaPlay'', ''Key_MediaStop'',
      ''Key_MediaPrevious'', ''Key_MediaNext'', ''Key_MediaRecord'', ''Key_MediaPause'',
      ''Key_MediaTogglePlayPause'', ''Key_LaunchMail'', ''Key_Calculator'', ''Key_Memo'',
      ''Key_ToDoList'', ''Key_Calendar'', ''Key_PowerDown'', ''Key_ContrastAdjust'',
      ''Key_Standby'', ''Key_MonBrightnessUp'', ''Key_MonBrightnessDown'',
      ''Key_KeyboardLightOnOff'', ''Key_KeyboardBrightnessUp'', ''Key_KeyboardBrightnessDown'',
      ''Key_PowerOff'', ''Key_WakeUp'', ''Key_Eject'', ''Key_ScreenSaver'', ''Key_WWW'',
      ''Key_Sleep'', ''Key_LightBulb'', ''Key_Shop'', ''Key_History'', ''Key_AddFavorite'',
      ''Key_HotLinks'', ''Key_BrightnessAdjust'', ''Key_Finance'', ''Key_Community'',
      ''Key_AudioRewind'', ''Key_BackForward'', ''Key_ApplicationLeft'', ''Key_ApplicationRight'',
      ''Key_Book'', ''Key_CD'', ''Key_Clear'', ''Key_ClearGrab'', ''Key_Close'', ''Key_Copy'',
      ''Key_Cut'', ''Key_Display'', ''Key_DOS'', ''Key_Documents'', ''Key_Excel'', ''Key_Explorer'',
      ''Key_Game'', ''Key_Go'', ''Key_iTouch'', ''Key_LogOff'', ''Key_Market'', ''Key_Meeting'',
      ''Key_MenuKB'', ''Key_MenuPB'', ''Key_MySites'', ''Key_News'', ''Key_OfficeHome'',
      ''Key_Option'', ''Key_Paste'', ''Key_Phone'', ''Key_Reply'', ''Key_Reload'',
      ''Key_RotateWindows'', ''Key_RotationPB'', ''Key_RotationKB'', ''Key_Save'', ''Key_Send'',
      ''Key_Spell'', ''Key_SplitScreen'', ''Key_Support'', ''Key_TaskPane'', ''Key_Terminal'',
      ''Key_Tools'', ''Key_Travel'', ''Key_Video'', ''Key_Word'', ''Key_Xfer'', ''Key_ZoomIn'',
      ''Key_ZoomOut'', ''Key_Away'', ''Key_Messenger'', ''Key_WebCam'', ''Key_MailForward'',
      ''Key_Pictures'', ''Key_Music'', ''Key_Battery'', ''Key_Bluetooth'', ''Key_WLAN'',
      ''Key_UWB'', ''Key_AudioForward'', ''Key_AudioRepeat'', ''Key_AudioRandomPlay'',
      ''Key_Subtitle'', ''Key_AudioCycleTrack'', ''Key_Time'', ''Key_Select'', ''Key_View'',
      ''Key_TopMenu'', ''Key_Suspend'', ''Key_Hibernate'', ''Key_Launch0'', ''Key_Launch1'',
      ''Key_Launch2'', ''Key_Launch3'', ''Key_Launch4'', ''Key_Launch5'', ''Key_Launch6'',
      ''Key_Launch7'', ''Key_Launch8'', ''Key_Launch9'', ''Key_LaunchA'', ''Key_LaunchB'',
      ''Key_LaunchC'', ''Key_LaunchD'', ''Key_LaunchE'', ''Key_LaunchF'', ''Key_Shift'',
      ''Key_Control'', ''Key_Meta'', ''Key_Alt'', ''Key_Super_L'', ''Key_Super_R'']"

section \<open>The table as it is searched\<close>

definition g_rgQtToSymX :: "key_env \<Rightarrow> (i32 \<times> u32) list" where
  "g_rgQtToSymX E =
     map (\<lambda>(key, sym). (ke_qt E key, ke_xk E sym)) qt_to_xk @
     map (\<lambda>(key, sym). (ke_qt E key, sym)) qt_to_xf86"

text \<open>No symbol stands for two keys; one entry, for Bluetooth, is there twice.\<close>

lemma xf86_distinct: "distinct (map snd (take 121 qt_to_xf86 @ drop 122 qt_to_xf86))"
proof -
  have "distinct (map unat (map snd (take 121 qt_to_xf86 @ drop 122 qt_to_xf86)))"
    unfolding qt_to_xf86_def xf86_defs by simp
  then show ?thesis by (rule distinct_map [THEN iffD1, THEN conjunct1])
qed

lemma xf86_range: "list_all (\<lambda>v. 0x10080000 \<le> v) (map snd qt_to_xf86)"
  unfolding qt_to_xf86_def xf86_defs by simp

lemma xf86_twice: "qt_to_xf86 ! 121 \<in> set (take 121 qt_to_xf86)"
  unfolding qt_to_xf86_def by simp

end
