(* ===== verification/KeyServer.thy ===== *)
theory KeyServer
  imports KeyTables
begin

text \<open>
  \<^verbatim>\<open>KKeyServer\<close> (kkeyserver.cpp): which X modifiers stand for Alt and Meta, and the
  conversions between keys of Qt and symbols, codes and modifiers of X11.  The global variables of
  the file are a record that is passed on; the keyboard the server describes is \<open>key_display\<close>.
\<close>

section \<open>Constants of Qt and X11\<close>

definition SHIFT :: i32 where "SHIFT = 0x02000000"
definition CTRL :: i32 where "CTRL = 0x04000000"
definition ALT :: i32 where "ALT = 0x08000000"
definition META :: i32 where "META = 0x10000000"
definition KeypadModifier :: i32 where "KeypadModifier = 0x20000000"
definition KeyboardModifierMask :: i32 where "KeyboardModifierMask = 0xfe000000"
definition Key_unknown :: i32 where "Key_unknown = 0x01ffffff"
definition Key_0 :: i32 where "Key_0 = 0x30"
definition Key_9 :: i32 where "Key_9 = 0x39"

definition ShiftMask :: u32 where "ShiftMask = bitflag 0"
definition LockMask :: u32 where "LockMask = bitflag 1"
definition ControlMask :: u32 where "ControlMask = bitflag 2"
definition Mod1Mask :: u32 where "Mod1Mask = bitflag 3"
definition Mod4Mask :: u32 where "Mod4Mask = bitflag 6"
definition MODE_SWITCH :: u32 where "MODE_SWITCH = 0x2000"

section \<open>Names of modifiers\<close>

text \<open>
  \<^verbatim>\<open>g_rgModInfo\<close>: the Qt modifiers and their names; the translated labels are null pointers until
  they are initialised.
\<close>

definition g_rgModInfo :: "(i32 \<times> string) list" where
  "g_rgModInfo = [(SHIFT, ''Shift''), (CTRL, ''Ctrl''), (ALT, ''Alt''), (META, ''Meta'')]"

type_synonym labels = "string list option"

definition intializeKKeyLabels :: "(string \<Rightarrow> string) \<Rightarrow> labels" where
  "intializeKKeyLabels tr = Some (map (\<lambda>(q, name). tr name) g_rgModInfo)"

definition mod_text :: "u32 \<Rightarrow> (i32 \<times> string) list \<Rightarrow> string" where
  "mod_text m names =
     foldl (\<lambda>s (q, label). if hasf m q then (if s \<noteq> [] then s @ ''+'' else s) @ label else s) [] (rev names)"

definition modToString :: "(string \<Rightarrow> string) \<Rightarrow> labels \<Rightarrow> u32 \<Rightarrow> bool \<Rightarrow> labels \<times> string" where
  "modToString tr ls m bUserSpace =
     (let ls' = (if bUserSpace \<and> ls = None then intializeKKeyLabels tr else ls)
      in (ls', mod_text m
            (if bUserSpace then zip (map fst g_rgModInfo) (the ls') else g_rgModInfo)))"

definition modToStringUser :: "(string \<Rightarrow> string) \<Rightarrow> labels \<Rightarrow> u32 \<Rightarrow> labels \<times> string" where
  "modToStringUser tr ls m = modToString tr ls m True"

text \<open>\<^verbatim>\<open>stringUserToMod\<close> uses the labels without initialising them: no value is the null pointer.\<close>

definition stringUserToMod :: "(string \<Rightarrow> string) \<Rightarrow> labels \<Rightarrow> string \<Rightarrow> u32 option" where
  "stringUserToMod toLower ls text =
     (case ls of
        None \<Rightarrow> None
      | Some texts \<Rightarrow>
          Some (case find (\<lambda>(q, label). toLower text = toLower label) (rev (zip (map fst g_rgModInfo) texts)) of
                  Some (q, _) \<Rightarrow> q | None \<Rightarrow> 0))"

definition isShiftAsModifierAllowed :: "key_env \<Rightarrow> i32 \<Rightarrow> bool" where
  "isShiftAsModifierAllowed E keyQt =
     (let key = keyQt AND NOT KeyboardModifierMask
      in if ke_qt E ''Key_F1'' \<le> key \<and> key \<le> ke_qt E ''Key_F35'' then True
         else if ke_letter E key then True
         else key \<in> set (map (ke_qt E) shift_keys))"

section \<open>Modifiers of X11\<close>

record key_display =
  kd_x11 :: bool
  kd_max_keypermod :: nat
  kd_keysyms_per_keycode :: nat
  kd_modifiermap :: "nat \<Rightarrow> 8 word"
  kd_symbol :: "8 word \<Rightarrow> nat \<Rightarrow> u32"
  kd_press :: "8 word \<Rightarrow> nat \<Rightarrow> u32"
  kd_keycode :: "u32 \<Rightarrow> 8 word"
  kd_keysym :: "8 word \<Rightarrow> nat \<Rightarrow> u32"

text \<open>The globals; the last two are the entries of \<^verbatim>\<open>g_rgX11ModInfo\<close> that are overwritten.\<close>

record key_mods =
  km_initialized :: bool
  km_numlock :: u32
  km_scrolllock :: u32
  km_modeswitch :: u32
  km_alt :: u32
  km_meta :: u32
  km_super :: u32
  km_hyper :: u32
  km_alt_entry :: u32
  km_meta_entry :: u32

definition mods0 :: key_mods where
  "mods0 = \<lparr>km_initialized = False, km_numlock = 0, km_scrolllock = 0, km_modeswitch = 0, km_alt = 0, km_meta = 0,
     km_super = 0, km_hyper = 0, km_alt_entry = Mod1Mask, km_meta_entry = Mod4Mask\<rparr>"

definition g_rgX11ModInfo :: "key_mods \<Rightarrow> (i32 \<times> u32) list" where
  "g_rgX11ModInfo S = [(SHIFT, ShiftMask), (CTRL, ControlMask), (ALT, km_alt_entry S), (META, km_meta_entry S)]"

text \<open>The symbols on the keys of each modifier from Mod1 to Mod5, with its mask, in the order of the loops.\<close>

definition mod_symbols :: "key_display \<Rightarrow> (u32 \<times> u32) list" where
  "mod_symbols D =
     concat (map (\<lambda>i. concat (map (\<lambda>j. map (\<lambda>k.
         (bitflag i, kd_symbol D (kd_modifiermap D (kd_max_keypermod D * i + j)) k))
       [0..<kd_keysyms_per_keycode D]) [0..<kd_max_keypermod D])) [3..<8])"

definition note_symbol :: "key_env \<Rightarrow> u32 \<times> u32 \<Rightarrow> key_mods \<Rightarrow> key_mods" where
  "note_symbol E ms S =
     (let (m, ks) = ms; xk = ke_xk E
      in if ks = xk ''Alt_L'' \<or> ks = xk ''Alt_R'' then S\<lparr>km_alt := km_alt S OR m\<rparr>
         else if ks = xk ''Super_L'' \<or> ks = xk ''Super_R'' then S\<lparr>km_super := km_super S OR m\<rparr>
         else if ks = xk ''Hyper_L'' \<or> ks = xk ''Hyper_R'' then S\<lparr>km_hyper := km_hyper S OR m\<rparr>
         else if ks = xk ''Meta_L'' \<or> ks = xk ''Meta_R'' then S\<lparr>km_meta := km_meta S OR m\<rparr>
         else if ks = xk ''Num_Lock'' then S\<lparr>km_numlock := km_numlock S OR m\<rparr>
         else if ks = xk ''Scroll_Lock'' then S\<lparr>km_scrolllock := km_scrolllock S OR m\<rparr>
         else if ks = xk ''Mode_switch'' then S\<lparr>km_modeswitch := km_modeswitch S OR m\<rparr>
         else S)"

text \<open>What is done about masks that overlap, and about a keyboard without Meta.\<close>

definition resolve_masks :: "key_mods \<Rightarrow> key_mods" where
  "resolve_masks S0 =
     (let S1 = (if hasf (km_hyper S0) (km_super S0 OR km_meta S0 OR km_alt S0)
                then S0\<lparr>km_hyper := km_hyper S0 AND NOT (km_super S0 OR km_meta S0 OR km_alt S0)\<rparr> else S0);
          S2 = (if hasf (km_super S1) (km_meta S1 OR km_alt S1)
                then S1\<lparr>km_super := km_super S1 AND NOT (km_meta S1 OR km_alt S1)\<rparr> else S1);
          S3 = (if km_meta S2 OR km_alt S2 \<noteq> 0 then S2\<lparr>km_meta := km_meta S2 AND NOT (km_alt S2)\<rparr> else S2)
      in if km_meta S3 = 0
         then S3\<lparr>km_meta := (if km_super S3 \<noteq> 0 then km_super S3 else if km_hyper S3 \<noteq> 0 then km_hyper S3 else 0)\<rparr>
         else S3)"

definition initializeMods :: "key_env \<Rightarrow> key_display \<Rightarrow> key_mods \<Rightarrow> bool \<times> key_mods" where
  "initializeMods E D S0 =
     (let S = S0\<lparr>km_numlock := 0, km_scrolllock := 0, km_modeswitch := 0, km_alt := 0, km_meta := 0,
                 km_super := 0, km_hyper := 0\<rparr>
      in if \<not> kd_x11 D then (False, S\<lparr>km_initialized := True\<rparr>)
         else let T = resolve_masks (fold (note_symbol E) (mod_symbols D) S)
              in (True, T\<lparr>km_alt_entry := km_alt T, km_meta_entry := km_meta T, km_initialized := True\<rparr>))"

text \<open>Every reader of the masks initialises them on first use.\<close>

definition ensure_mods :: "key_env \<Rightarrow> key_display \<Rightarrow> key_mods \<Rightarrow> key_mods" where
  "ensure_mods E D S = (if km_initialized S then S else snd (initializeMods E D S))"

definition modXShift :: u32 where "modXShift = ShiftMask"
definition modXCtrl :: u32 where "modXCtrl = ControlMask"
definition modXLock :: u32 where "modXLock = LockMask"
definition modXAlt :: "key_env \<Rightarrow> key_display \<Rightarrow> key_mods \<Rightarrow> u32" where
  "modXAlt E D S = km_alt (ensure_mods E D S)"
definition modXMeta :: "key_env \<Rightarrow> key_display \<Rightarrow> key_mods \<Rightarrow> u32" where
  "modXMeta E D S = km_meta (ensure_mods E D S)"
definition modXNumLock :: "key_env \<Rightarrow> key_display \<Rightarrow> key_mods \<Rightarrow> u32" where
  "modXNumLock E D S = km_numlock (ensure_mods E D S)"
definition modXScrollLock :: "key_env \<Rightarrow> key_display \<Rightarrow> key_mods \<Rightarrow> u32" where
  "modXScrollLock E D S = km_scrolllock (ensure_mods E D S)"
definition modXModeSwitch :: "key_env \<Rightarrow> key_display \<Rightarrow> key_mods \<Rightarrow> u32" where
  "modXModeSwitch E D S = km_modeswitch (ensure_mods E D S)"
definition keyboardHasMetaKey :: "key_env \<Rightarrow> key_display \<Rightarrow> key_mods \<Rightarrow> bool" where
  "keyboardHasMetaKey E D S \<longleftrightarrow> modXMeta E D S \<noteq> 0"
definition accelModMaskX :: "key_env \<Rightarrow> key_display \<Rightarrow> key_mods \<Rightarrow> u32" where
  "accelModMaskX E D S = modXShift OR modXCtrl OR modXAlt E D S OR modXMeta E D S"

text \<open>
  \<^verbatim>\<open>keyQtToModX\<close>: the loop returns at the first modifier without a mask; the mask found so far is
  left in the result.
\<close>

fun to_mod_loop :: "i32 \<Rightarrow> (i32 \<times> u32) list \<Rightarrow> u32 \<Rightarrow> bool \<times> u32" where
  "to_mod_loop modQt [] modX = (True, modX)"
| "to_mod_loop modQt ((q, x) # rest) modX =
     (if hasf modQt q
      then (if x \<noteq> 0 then to_mod_loop modQt rest (modX OR x) else (False, modX))
      else to_mod_loop modQt rest modX)"

definition keyQtToModX :: "key_env \<Rightarrow> key_display \<Rightarrow> key_mods \<Rightarrow> i32 \<Rightarrow> bool \<times> u32" where
  "keyQtToModX E D S modQt = to_mod_loop modQt (g_rgX11ModInfo (ensure_mods E D S)) 0"

definition modXToQt :: "key_env \<Rightarrow> key_display \<Rightarrow> key_mods \<Rightarrow> u32 \<Rightarrow> bool \<times> i32" where
  "modXToQt E D S modX =
     (True, fold (\<lambda>(q, x) modQt. if hasf modX x then modQt OR q else modQt)
        (g_rgX11ModInfo (ensure_mods E D S)) 0)"

section \<open>Keys and symbols\<close>

definition is_keypad_key :: "key_env \<Rightarrow> u32 \<Rightarrow> bool" where
  "is_keypad_key E ks \<longleftrightarrow> ke_xk E ''KP_Space'' \<le> ks \<and> ks \<le> ke_xk E ''KP_9''"

definition keyQtToSymXs :: "key_env \<Rightarrow> i32 \<Rightarrow> u32 list" where
  "keyQtToSymXs E keyQt =
     (let symQt = keyQt AND NOT KeyboardModifierMask; keypad = hasf keyQt KeypadModifier
      in if keypad \<and> Key_0 \<le> symQt \<and> symQt \<le> Key_9 then [ke_xk E ''KP_0'' + (symQt - Key_0)]
         else if \<not> keypad \<and> symQt < 0x1000 then [ke_upper E symQt]
         else map snd (filter (\<lambda>(key, ks). key = symQt \<and> \<not> (keypad \<and> \<not> is_keypad_key E ks)) (g_rgQtToSymX E)))"

text \<open>The deprecated \<^verbatim>\<open>keyQtToSymX\<close>: a loop that returns at the first entry.\<close>

fun sym_loop :: "key_env \<Rightarrow> bool \<Rightarrow> i32 \<Rightarrow> (i32 \<times> u32) list \<Rightarrow> bool \<times> u32" where
  "sym_loop E keypad symQt [] = (False, 0)"
| "sym_loop E keypad symQt ((key, ks) # rest) =
     (if key = symQt
      then (if keypad \<and> \<not> is_keypad_key E ks then sym_loop E keypad symQt rest else (True, ks))
      else sym_loop E keypad symQt rest)"

definition keyQtToSymX :: "key_env \<Rightarrow> i32 \<Rightarrow> bool \<times> u32" where
  "keyQtToSymX E keyQt =
     (let symQt = keyQt AND NOT KeyboardModifierMask; keypad = hasf keyQt KeypadModifier
      in if keypad
         then (if Key_0 \<le> symQt \<and> symQt \<le> Key_9 then (True, ke_xk E ''KP_0'' + (symQt - Key_0))
               else sym_loop E keypad symQt (g_rgQtToSymX E))
         else (if symQt < 0x1000 then (True, ke_upper E symQt)
               else sym_loop E keypad symQt (g_rgQtToSymX E)))"

definition sym_to_key :: "key_env \<Rightarrow> u32 \<Rightarrow> i32" where
  "sym_to_key E keySym =
     (if ke_xk E ''KP_0'' \<le> keySym \<and> keySym \<le> ke_xk E ''KP_9'' then Key_0 + (keySym - ke_xk E ''KP_0'')
      else if keySym < 0x1000 then (if 0x61 \<le> keySym \<and> keySym \<le> 0x7a then ke_upper E keySym else keySym)
      else if keySym < 0x3000 then keySym
      else case find (\<lambda>(key, ks). ks = keySym) (g_rgQtToSymX E) of
        Some (key, _) \<Rightarrow> key | None \<Rightarrow> Key_unknown)"

definition symXModXToKeyQt :: "key_env \<Rightarrow> key_display \<Rightarrow> key_mods \<Rightarrow> u32 \<Rightarrow> 16 word \<Rightarrow> bool \<times> i32" where
  "symXModXToKeyQt E D S keySym modX =
     (let keyQt = sym_to_key E keySym; (ok, keyModQt) = modXToQt E D S (ucast modX)
      in if keyQt = Key_unknown then (False, keyQt)
         else if ok then (True, keyQt OR keyModQt OR (if is_keypad_key E keySym then KeypadModifier else 0))
         else (False, keyQt))"

section \<open>Codes\<close>

definition getModsRequired :: "key_env \<Rightarrow> key_display \<Rightarrow> u32 \<Rightarrow> u32" where
  "getModsRequired E D ks =
     (if \<not> kd_x11 D then 0
      else if ks = ke_xk E ''Sys_Req'' then ALT
      else if ks = ke_xk E ''Break'' then CTRL
      else if ks < 0x3000 \<and> ke_letter E ks \<and> ke_lower E ks \<noteq> ke_upper E ks \<and> ks = ke_upper E ks then SHIFT
      else
        (let code = kd_keycode D ks
         in if code = 0 then 0
            else if ks = kd_keysym D code 0 then 0
            else if ks = kd_keysym D code 1 then SHIFT
            else if ks = kd_keysym D code 2 then MODE_SWITCH
            else if ks = kd_keysym D code 3 then SHIFT OR MODE_SWITCH
            else 0))"

definition can_type :: "key_env \<Rightarrow> key_display \<Rightarrow> key_mods \<Rightarrow> i32 \<Rightarrow> u32 \<Rightarrow> bool" where
  "can_type E D S keyQt ks \<longleftrightarrow>
     ks \<noteq> 0 \<and> fst (keyQtToModX E D S ((keyQt AND KeyboardModifierMask) OR getModsRequired E D ks))"

definition keyQtToCodeXs :: "key_env \<Rightarrow> key_display \<Rightarrow> key_mods \<Rightarrow> i32 \<Rightarrow> 8 word list" where
  "keyQtToCodeXs E D S keyQt =
     (if \<not> kd_x11 D then [] else map (kd_keycode D) (filter (can_type E D S keyQt) (keyQtToSymXs E keyQt)))"

text \<open>The deprecated \<^verbatim>\<open>keyQtToCodeX\<close>; without X11 it writes no code.\<close>

definition keyQtToCodeX :: "key_env \<Rightarrow> key_display \<Rightarrow> key_mods \<Rightarrow> i32 \<Rightarrow> bool \<times> 8 word" where
  "keyQtToCodeX E D S keyQt =
     (let ks = snd (keyQtToSymX E keyQt)
      in if \<not> kd_x11 D \<or> \<not> can_type E D S keyQt ks then (False, 0) else (True, kd_keycode D ks))"

section \<open>Events\<close>

record key_press =
  kp_detail :: "8 word"
  kp_state :: "16 word"

text \<open>The symbol a key press stands for: with NumLock, Shift selects the other one on the keypad.\<close>

definition press_symbol :: "key_env \<Rightarrow> key_display \<Rightarrow> key_mods \<Rightarrow> key_press \<Rightarrow> u32" where
  "press_symbol E D S e =
     (let sym0 = kd_press D (kp_detail e) 0; sym1 = kd_press D (kp_detail e) 1
      in if hasf (ucast (kp_state e)) (modXNumLock E D S) \<and> is_keypad_key E sym1
         then (if hasf (ucast (kp_state e)) ShiftMask then sym0 else sym1)
         else sym0)"

definition xcbKeyPressEventToQt :: "key_env \<Rightarrow> key_display \<Rightarrow> key_mods \<Rightarrow> key_press \<Rightarrow> bool \<times> i32" where
  "xcbKeyPressEventToQt E D S e =
     (let keyModX = ucast (ucast (kp_state e) AND (accelModMaskX E D S OR MODE_SWITCH));
          (ok, keyQt) = symXModXToKeyQt E D S (press_symbol E D S e) keyModX
      in (ok,
          if hasf keyQt SHIFT \<and> \<not> isShiftAsModifierAllowed E keyQt
          then (if keyQt \<noteq> ke_qt E ''Key_Tab''
                then snd (symXModXToKeyQt E D S (kd_symbol D (kp_detail e) 1) keyModX) else keyQt) AND NOT SHIFT
          else keyQt))"

text \<open>Any event of XCB: only presses and releases of keys are converted; otherwise nothing is written.\<close>

definition xcbKeyPressEventToQt_any ::
  "key_env \<Rightarrow> key_display \<Rightarrow> key_mods \<Rightarrow> 8 word \<Rightarrow> key_press \<Rightarrow> (bool \<times> i32) option" where
  "xcbKeyPressEventToQt_any E D S response_type e =
     (if response_type AND NOT 0x80 \<noteq> 2 \<and> response_type AND NOT 0x80 \<noteq> 3 then None
      else Some (xcbKeyPressEventToQt E D S e))"

text \<open>
  \<^verbatim>\<open>xEventToQt\<close> of an Xlib event: \<open>ks\<close> is what \<^verbatim>\<open>XLookupString\<close> gives for it; the mask
  is cut to 16 bits by the call.
\<close>

definition xEventToQt :: "key_env \<Rightarrow> key_display \<Rightarrow> key_mods \<Rightarrow> 8 word \<Rightarrow> u32 \<Rightarrow> u32 \<Rightarrow> bool \<times> i32" where
  "xEventToQt E D S code state ks =
     (let keyModX = state AND (accelModMaskX E D S OR MODE_SWITCH);
          plain = kd_keysym D code 0;
          keyModX' =
            (if hasf state (modXNumLock E D S) \<and> is_keypad_key E plain \<and>
                plain \<notin> {ke_xk E ''KP_Multiply'', ke_xk E ''KP_Add'', ke_xk E ''KP_Subtract'', ke_xk E ''KP_Divide''}
             then (if hasf keyModX modXShift then keyModX AND NOT modXShift else keyModX OR modXShift)
             else keyModX)
      in symXModXToKeyQt E D S ks (ucast keyModX'))"

end
