(* ===== verification/KeyProperties.thy ===== *)
theory KeyProperties
  imports KeyServer
begin

text \<open>
  The properties of \<^verbatim>\<open>KKeyServer\<close>: the masks of Alt and Meta, the round trips of modifiers,
  keys and labels, and when a key press keeps its Shift.
\<close>

section \<open>Masks\<close>

lemmas qt_flags = SHIFT_def CTRL_def ALT_def META_def KeypadModifier_def

lemma flag_bits:
  "SHIFT = bitflag 25" "CTRL = bitflag 26" "ALT = bitflag 27" "META = bitflag 28" "KeypadModifier = bitflag 29"
  by (simp_all add: qt_flags bitflag_def)

lemma hasf_iff: "hasf x y \<longleftrightarrow> (\<exists>n. bit x n \<and> bit (y :: u32) n)"
proof
  assume "hasf x y"
  then show "\<exists>n. bit x n \<and> bit y n"
    unfolding hasf_def bit_eq_iff by (auto simp: bit_and_iff)
next
  assume "\<exists>n. bit x n \<and> bit y n"
  then have "\<exists>n. bit (x AND y) n" by (simp add: bit_and_iff)
  then show "hasf x y" unfolding hasf_def by force
qed

lemma hasf_or_left: "hasf (a OR b) m \<longleftrightarrow> hasf a m \<or> hasf b m"
  by (auto simp: hasf_iff bit_or_iff)

lemma not_hasf: "\<not> hasf x y \<longleftrightarrow> x AND y = 0"
  by (simp add: hasf_def)

text \<open>Removing the bits of a mask only if there are any is removing them.\<close>

lemma nothing_removed: "\<not> hasf x y \<Longrightarrow> x AND NOT y = x"
  by (auto intro!: bit_word_eqI simp: hasf_iff bit_and_iff bit_not_iff)

definition all_masks :: "key_mods \<Rightarrow> u32" where
  "all_masks S = km_alt S OR km_meta S OR km_super S OR km_hyper S"

definition mod_bits :: "u32 \<Rightarrow> bool" where
  "mod_bits m \<longleftrightarrow> (\<forall>n. bit m n \<longrightarrow> n \<in> {3..<8})"

lemma mod_bits_simps [simp]:
  "mod_bits 0" "mod_bits (a OR b) \<longleftrightarrow> mod_bits a \<and> mod_bits b"
  "i \<in> {3..<8} \<Longrightarrow> mod_bits (bitflag i)"
  by (auto simp: mod_bits_def bit_or_iff bit_bitflag)

lemma mod_bits_and [simp]: "mod_bits a \<Longrightarrow> mod_bits (a AND b)"
  by (auto simp: mod_bits_def bit_and_iff)

lemma note_symbol_bits: "mod_bits (fst ms) \<Longrightarrow> mod_bits (all_masks S) \<Longrightarrow> mod_bits (all_masks (note_symbol E ms S))"
  by (cases ms) (simp add: note_symbol_def all_masks_def Let_def)

lemma mod_symbols_bits: "ms \<in> set (mod_symbols D) \<Longrightarrow> mod_bits (fst ms)"
  by (auto simp: mod_symbols_def)

lemma noted_bits: "mod_bits (all_masks S) \<Longrightarrow> (\<And>ms. ms \<in> set mss \<Longrightarrow> mod_bits (fst ms)) \<Longrightarrow>
    mod_bits (all_masks (fold (note_symbol E) mss S))"
  by (induction mss arbitrary: S) (simp_all add: note_symbol_bits)

lemma resolve_masks_fields:
  "km_alt (resolve_masks S) = km_alt S"
  "km_meta (resolve_masks S) =
    (let a = km_alt S; m = km_meta S AND NOT a; s = km_super S AND NOT (km_meta S OR a);
         h = km_hyper S AND NOT (km_super S OR km_meta S OR a)
     in if m \<noteq> 0 then m else if s \<noteq> 0 then s else h)"
proof -
  define S1 where "S1 = S\<lparr>km_hyper := km_hyper S AND NOT (km_super S OR km_meta S OR km_alt S)\<rparr>"
  define S2 where "S2 = S1\<lparr>km_super := km_super S1 AND NOT (km_meta S1 OR km_alt S1)\<rparr>"
  define S3 where "S3 = S2\<lparr>km_meta := km_meta S2 AND NOT (km_alt S2)\<rparr>"
  have "(if hasf (km_hyper S) (km_super S OR km_meta S OR km_alt S) then S1 else S) = S1"
    by (simp add: S1_def nothing_removed del: bit.de_Morgan_disj)
  moreover have "(if hasf (km_super S1) (km_meta S1 OR km_alt S1) then S2 else S1) = S2"
    by (simp add: S2_def nothing_removed del: bit.de_Morgan_disj)
  moreover have "(if km_meta S2 OR km_alt S2 \<noteq> 0 then S3 else S2) = S3"
    by (auto simp: S3_def or_eq_0_iff)
  ultimately have "resolve_masks S = (if km_meta S3 = 0
      then S3\<lparr>km_meta := (if km_super S3 \<noteq> 0 then km_super S3 else if km_hyper S3 \<noteq> 0 then km_hyper S3 else 0)\<rparr> else S3)"
    unfolding resolve_masks_def S1_def S2_def S3_def Let_def by presburger
  then show "km_alt (resolve_masks S) = km_alt S"
    "km_meta (resolve_masks S) =
    (let a = km_alt S; m = km_meta S AND NOT a; s = km_super S AND NOT (km_meta S OR a);
         h = km_hyper S AND NOT (km_super S OR km_meta S OR a)
     in if m \<noteq> 0 then m else if s \<noteq> 0 then s else h)"
    by (simp_all add: S1_def S2_def S3_def Let_def)
qed

lemma resolved:
  assumes "mod_bits (all_masks S)"
  shows "mod_bits (km_alt (resolve_masks S) OR km_meta (resolve_masks S))"
    and "km_alt (resolve_masks S) AND km_meta (resolve_masks S) = 0"
  using assms unfolding resolve_masks_fields Let_def not_hasf [symmetric]
  by (auto simp: all_masks_def hasf_iff bit_and_iff bit_not_iff bit_or_iff)

lemma initialized_masks:
  assumes "T = snd (initializeMods E D S)"
  shows "km_alt T AND km_meta T = 0" "mod_bits (km_alt T OR km_meta T)" "km_initialized T"
    "kd_x11 D \<Longrightarrow> km_alt_entry T = km_alt T \<and> km_meta_entry T = km_meta T"
proof -
  define S0 where "S0 = S\<lparr>km_numlock := 0, km_scrolllock := 0, km_modeswitch := 0, km_alt := 0, km_meta := 0,
    km_super := 0, km_hyper := 0\<rparr>"
  have "mod_bits (all_masks (fold (note_symbol E) (mod_symbols D) S0))"
    by (rule noted_bits [OF _ mod_symbols_bits]) (simp add: S0_def all_masks_def)
  note masks = resolved [OF this]
  then show "km_alt T AND km_meta T = 0" "mod_bits (km_alt T OR km_meta T)" "km_initialized T"
    "kd_x11 D \<Longrightarrow> km_alt_entry T = km_alt T \<and> km_meta_entry T = km_meta T"
    unfolding assms initializeMods_def S0_def by (simp_all add: Let_def)
qed

text \<open>
  However the keyboard is laid out, the masks found for Alt and Meta never overlap, and neither
  contains Shift, Lock or Control: Meta is what remains of its own, the Super or the Hyper keys after
  the conflicts are resolved.
\<close>

theorem modifier_masks:
  "let T = snd (initializeMods E D S) in
     km_alt T AND km_meta T = 0 \<and> (km_alt T OR km_meta T) AND (ShiftMask OR LockMask OR ControlMask) = 0 \<and>
     keyboardHasMetaKey E D T = (km_meta T \<noteq> 0)"
proof -
  note facts = initialized_masks [OF refl, where E = E and D = D and S = S]
  have "\<not> hasf (km_alt (snd (initializeMods E D S)) OR km_meta (snd (initializeMods E D S))) (ShiftMask OR LockMask OR ControlMask)"
    using facts(2) by (force simp: mod_bits_def hasf_iff bit_or_iff ShiftMask_def LockMask_def ControlMask_def bit_bitflag)
  then show ?thesis
    using facts(1,3) by (simp add: Let_def not_hasf keyboardHasMetaKey_def modXMeta_def ensure_mods_def)
qed

section \<open>Modifiers there and back\<close>

lemma to_mod_loop_spec:
  "to_mod_loop m table acc =
    (let missing = dropWhile (\<lambda>(q, x). hasf m q \<longrightarrow> x \<noteq> 0) table in
     (missing = [], acc OR or_all (map snd (filter (\<lambda>(q, x). hasf m q) (takeWhile (\<lambda>(q, x). hasf m q \<longrightarrow> x \<noteq> 0) table)))))"
  by (induction table arbitrary: acc) (auto simp: Let_def or.assoc)

lemma entries:
  assumes "kd_x11 D"
  shows "\<exists>a b. g_rgX11ModInfo (ensure_mods E D mods0) = [(SHIFT, ShiftMask), (CTRL, ControlMask), (ALT, a), (META, b)] \<and>
    a = modXAlt E D mods0 \<and> b = modXMeta E D mods0 \<and> a AND b = 0 \<and> mod_bits a \<and> mod_bits b"
  using initialized_masks [OF refl, where E = E and D = D and S = mods0] assms
  by (simp add: g_rgX11ModInfo_def ensure_mods_def mods0_def modXAlt_def modXMeta_def)

lemma mod_bits_hasf: "mod_bits a \<Longrightarrow> \<not> hasf a ShiftMask" "mod_bits a \<Longrightarrow> \<not> hasf a ControlMask"
  "mod_bits a \<Longrightarrow> \<not> hasf ShiftMask a" "mod_bits a \<Longrightarrow> \<not> hasf ControlMask a"
  by (force simp: mod_bits_def hasf_iff ShiftMask_def ControlMask_def bit_bitflag)+

lemma hasf_self: "hasf a a \<longleftrightarrow> a \<noteq> 0"
  by (simp add: hasf_def)

lemma wanted_flags: "m AND (SHIFT OR CTRL OR ALT OR META) =
    (if hasf m SHIFT then SHIFT else 0) OR (if hasf m CTRL then CTRL else 0) OR
    (if hasf m ALT then ALT else 0) OR (if hasf m META then META else 0)"
  unfolding flag_bits hasf_bitflag by (rule bit_word_eqI) (auto simp: bit_simps bit_bitflag)

text \<open>
  C23.  Modifiers survive the way to X11 and back: on X11 \<^verbatim>\<open>keyQtToModX\<close> fails exactly if Alt or
  Meta is asked for and the keyboard has no key for it, and otherwise \<^verbatim>\<open>modXToQt\<close> gives back
  exactly the modifiers that were asked for.
\<close>

theorem modifier_roundtrip:
  assumes "kd_x11 D"
  shows "fst (keyQtToModX E D mods0 m) =
      ((hasf m ALT \<longrightarrow> modXAlt E D mods0 \<noteq> 0) \<and> (hasf m META \<longrightarrow> modXMeta E D mods0 \<noteq> 0)) \<and>
    (fst (keyQtToModX E D mods0 m) \<longrightarrow>
      modXToQt E D mods0 (snd (keyQtToModX E D mods0 m)) = (True, m AND (SHIFT OR CTRL OR ALT OR META)))"
proof -
  obtain a b where table: "g_rgX11ModInfo (ensure_mods E D mods0) =
      [(SHIFT, ShiftMask), (CTRL, ControlMask), (ALT, a), (META, b)]"
    and ab: "a = modXAlt E D mods0" "b = modXMeta E D mods0" "\<not> hasf a b" "\<not> hasf b a" "mod_bits a" "mod_bits b"
    using entries [OF assms, of E] by (auto simp: not_hasf and.commute)
  have const: "ShiftMask \<noteq> 0" "ControlMask \<noteq> 0" "\<not> hasf ShiftMask ControlMask" "\<not> hasf ControlMask ShiftMask"
    by (simp_all add: ShiftMask_def ControlMask_def bitflag_def hasf_def)
  show ?thesis
    unfolding keyQtToModX_def modXToQt_def table ab(1,2) [symmetric] wanted_flags
    using const ab(3-) by (auto simp: hasf_or_left hasf_self mod_bits_hasf ac_simps)
qed

section \<open>Keys there and back\<close>
















text \<open>
  The witnesses: numbers made of the letters of the names, with the digits of the keypad in a row.
\<close>

definition name_number :: "string \<Rightarrow> nat" where
  "name_number s = 0x3000 + foldl (\<lambda>h c. (h * 31 + of_char c) mod 0xFFFFF) 0 s"

definition sample_xk :: "string \<Rightarrow> u32" where
  "sample_xk s =
     (if s = ''KP_0'' then 0x2000000 else if s = ''KP_9'' then 0x2000009 else if s = ''KP_Space'' then 0x1000000
      else of_nat (name_number s))"

definition sample_keys :: key_env where
  "sample_keys = \<lparr>ke_qt = (\<lambda>s. of_nat (name_number s)), ke_xk = sample_xk, ke_upper = (\<lambda>c. c),
     ke_lower = (\<lambda>c. c), ke_letter = (\<lambda>c. False)\<rparr>"






lemma sym_loop_first:
  "sym_loop E keypad key table =
    (case filter (\<lambda>(k, s). k = key \<and> \<not> (keypad \<and> \<not> is_keypad_key E s)) table of
       [] \<Rightarrow> (False, 0) | e # _ \<Rightarrow> (True, snd e))"
proof (induction table)
  case (Cons e table)
  then show ?case by (cases e; cases keypad) simp_all
qed simp

text \<open>
  The deprecated \<^verbatim>\<open>keyQtToSymX\<close> is the first of the symbols \<^verbatim>\<open>keyQtToSymXs\<close>
  gives: it fails exactly if there is none.
\<close>

theorem first_symbol:
  "keyQtToSymX E k = (case keyQtToSymXs E k of [] \<Rightarrow> (False, 0) | s # _ \<Rightarrow> (True, s))"
  by (auto simp: keyQtToSymX_def keyQtToSymXs_def sym_loop_first Let_def split: list.split)

section \<open>Key presses\<close>

text \<open>
  A key press is never recorded with Shift on a key for which Shift is not a modifier: if the
  key \<^verbatim>\<open>xcbKeyPressEventToQt\<close> gives has Shift, then \<^verbatim>\<open>isShiftAsModifierAllowed\<close> says
  so of that very key.
\<close>

theorem shift_only_where_allowed:
  assumes "hasf (snd (xcbKeyPressEventToQt E D S e)) SHIFT"
  shows "isShiftAsModifierAllowed E (snd (xcbKeyPressEventToQt E D S e))"
proof -
  have "\<not> hasf (k AND NOT SHIFT) SHIFT" for k by (simp add: hasf_iff bit_and_iff bit_not_iff)
  then show ?thesis using assms
    by (auto simp: xcbKeyPressEventToQt_def Let_def split: prod.splits if_splits)
qed

text \<open>The witness: Shift and the key F5.\<close>

definition sample_display :: key_display where
  "sample_display = \<lparr>kd_x11 = False, kd_max_keypermod = 0, kd_keysyms_per_keycode = 0, kd_modifiermap = (\<lambda>_. 0),
     kd_symbol = (\<lambda>_ _. 0), kd_press = (\<lambda>_ _. 0x41), kd_keycode = (\<lambda>_. 0), kd_keysym = (\<lambda>_ _. 0)\<rparr>"

theorem shift_only_where_allowed_witness:
  "isShiftAsModifierAllowed (sample_keys\<lparr>ke_letter := \<lambda>c. True\<rparr>)
     (snd (xcbKeyPressEventToQt (sample_keys\<lparr>ke_letter := \<lambda>c. True\<rparr>) sample_display mods0 \<lparr>kp_detail = 38, kp_state = 1\<rparr>)) \<and>
   xcbKeyPressEventToQt (sample_keys\<lparr>ke_letter := \<lambda>c. True\<rparr>) sample_display mods0 \<lparr>kp_detail = 38, kp_state = 1\<rparr> =
     (True, 0x41 OR SHIFT)"
proof -
  let ?E = "sample_keys\<lparr>ke_letter := \<lambda>c. True\<rparr>"
  have kp: "sample_xk ''KP_0'' = 0x2000000" "sample_xk ''KP_9'' = 0x2000009" "sample_xk ''KP_Space'' = 0x1000000"
    by (simp_all add: sample_xk_def)
  have press: "xcbKeyPressEventToQt ?E sample_display mods0 \<lparr>kp_detail = 38, kp_state = 1\<rparr> = (True, 0x41 OR SHIFT)"
    by (simp add: xcbKeyPressEventToQt_def press_symbol_def symXModXToKeyQt_def sym_to_key_def modXToQt_def
        isShiftAsModifierAllowed_def accelModMaskX_def modXNumLock_def modXAlt_def modXMeta_def modXShift_def modXCtrl_def
        ensure_mods_def initializeMods_def mods0_def g_rgX11ModInfo_def sample_display_def sample_keys_def kp
        is_keypad_key_def Key_unknown_def hasf_def bitflag_def ShiftMask_def ControlMask_def Mod1Mask_def Mod4Mask_def
        MODE_SWITCH_def SHIFT_def CTRL_def ALT_def META_def)
  have "hasf (snd (xcbKeyPressEventToQt ?E sample_display mods0 \<lparr>kp_detail = 38, kp_state = 1\<rparr>)) SHIFT"
    unfolding press by (simp add: hasf_def SHIFT_def)
  from shift_only_where_allowed [OF this] press show ?thesis by simp
qed

section \<open>Labels\<close>

lemma single_flags:
  "hasf SHIFT SHIFT" "\<not> hasf SHIFT CTRL" "\<not> hasf SHIFT ALT" "\<not> hasf SHIFT META"
  "\<not> hasf CTRL SHIFT" "hasf CTRL CTRL" "\<not> hasf CTRL ALT" "\<not> hasf CTRL META"
  "\<not> hasf ALT SHIFT" "\<not> hasf ALT CTRL" "hasf ALT ALT" "\<not> hasf ALT META"
  "\<not> hasf META SHIFT" "\<not> hasf META CTRL" "\<not> hasf META ALT" "hasf META META"
  by (simp_all add: hasf_def SHIFT_def CTRL_def ALT_def META_def)

text \<open>
  \<^verbatim>\<open>stringUserToMod\<close> reads a null pointer unless the labels were initialised by an earlier
  \<^verbatim>\<open>modToStringUser\<close>; after that it gives back the modifier whose text that function gave, if
  no two labels differ in case only.
\<close>

theorem label_roundtrip:
  assumes "distinct (map (\<lambda>(q, name). lower (tr name)) g_rgModInfo)" "m \<in> {SHIFT, CTRL, ALT, META}"
    and "modToStringUser tr None m = (ls, label)"
  shows "stringUserToMod lower None label = None \<and> stringUserToMod lower ls label = Some m"
proof -
  have names: "map fst g_rgModInfo = [SHIFT, CTRL, ALT, META]"
    "intializeKKeyLabels tr = Some [tr ''Shift'', tr ''Ctrl'', tr ''Alt'', tr ''Meta'']"
    by (simp_all add: g_rgModInfo_def intializeKKeyLabels_def)
  have labels: "ls = Some [tr ''Shift'', tr ''Ctrl'', tr ''Alt'', tr ''Meta'']"
    using assms(3) by (auto simp: modToStringUser_def modToString_def names Let_def)
  have "label = mod_text m (zip [SHIFT, CTRL, ALT, META] [tr ''Shift'', tr ''Ctrl'', tr ''Alt'', tr ''Meta''])"
    using assms(3) by (auto simp: modToStringUser_def modToString_def names Let_def)
  with assms(2) single_flags have "(m, label) \<in> set (zip [SHIFT, CTRL, ALT, META] [tr ''Shift'', tr ''Ctrl'', tr ''Alt'', tr ''Meta''])"
    by (auto simp: mod_text_def)
  moreover have "distinct [lower (tr ''Shift''), lower (tr ''Ctrl''), lower (tr ''Alt''), lower (tr ''Meta'')]"
    using assms(1) by (simp add: g_rgModInfo_def)
  ultimately show ?thesis by (auto simp: stringUserToMod_def names labels)
qed

theorem label_roundtrip_witness:
  "stringUserToMod (\<lambda>s. s) None ''Alt'' = None \<and>
   stringUserToMod (\<lambda>s. s) (fst (modToStringUser (\<lambda>s. s) None ALT)) ''Alt'' = Some ALT"
proof -
  have ok: "distinct (map (\<lambda>(q, name). (\<lambda>s. s) ((\<lambda>s. s) name)) g_rgModInfo)" "ALT \<in> {SHIFT, CTRL, ALT, META}"
    by (simp_all add: g_rgModInfo_def)
  have "snd (modToStringUser (\<lambda>s. s) None ALT) = ''Alt''"
    by (simp add: modToStringUser_def modToString_def mod_text_def intializeKKeyLabels_def g_rgModInfo_def single_flags)
  then show ?thesis using label_roundtrip [OF ok surjective_pairing] by simp
qed

text \<open>The witness of the round trip of modifiers: a keyboard with Alt on Mod1 and Super on Mod4.\<close>

definition sample_keyboard :: key_display where
  "sample_keyboard = sample_display\<lparr>kd_x11 := True, kd_max_keypermod := 1, kd_keysyms_per_keycode := 1,
     kd_modifiermap := of_nat, kd_symbol := (\<lambda>c _. if c = 3 then sample_xk ''Alt_L'' else if c = 6 then sample_xk ''Super_L'' else 0)\<rparr>"

theorem modifier_roundtrip_witness:
  "modXToQt sample_keys sample_keyboard mods0 (snd (keyQtToModX sample_keys sample_keyboard mods0 (SHIFT OR META))) =
    (True, (SHIFT OR META) AND (SHIFT OR CTRL OR ALT OR META)) \<and>
   snd (keyQtToModX sample_keys sample_keyboard mods0 (SHIFT OR META)) = 0x41"
proof -
  have x11: "kd_x11 sample_keyboard" by (simp add: sample_keyboard_def)
  have up: "[3..<8] = [3, 4, 5, 6, 7]" by (simp add: upt_rec)
  have "keyQtToModX sample_keys sample_keyboard mods0 (SHIFT OR META) = (True, 0x41)"
    by (simp add: keyQtToModX_def ensure_mods_def mods0_def initializeMods_def mod_symbols_def up note_symbol_def
        resolve_masks_def g_rgX11ModInfo_def sample_keyboard_def sample_display_def sample_keys_def sample_xk_def
        name_number_def hasf_def bitflag_def ShiftMask_def ControlMask_def Mod1Mask_def Mod4Mask_def
        SHIFT_def CTRL_def ALT_def META_def)
  then show ?thesis using modifier_roundtrip [OF x11, of sample_keys "SHIFT OR META"] by simp
qed

end
