(* ===== verification/Viewport.thy ===== *)
theory Viewport
  imports RootSupported "HOL-Library.Signed_Division"
begin

text \<open>
  Desktops as parts of one large desktop (kx11extras.cpp): with a window manager that has viewports
  instead of virtual desktops, \<^verbatim>\<open>KX11Extras\<close> numbers the screens the large desktop is made of.
  A C++ \<^verbatim>\<open>int\<close> is an integer here: an overflow has no meaning in the source, and no step of
  these functions relies on one.  A division by a display without width or height has no value.
\<close>

text \<open>The large desktop, the display, and the position of the display on the desktop.\<close>

record viewport =
  vp_width :: int
  vp_height :: int
  vp_display_width :: int
  vp_display_height :: int
  vp_x :: int
  vp_y :: int

text \<open>\<^verbatim>\<open>NETEventFilter::mapViewport\<close>, and what the functions below read from it.\<close>

definition mapViewport :: "int \<Rightarrow> int \<Rightarrow> root_info \<Rightarrow> bool" where
  "mapViewport displayWidth displayHeight p \<longleftrightarrow>
     isSupported p (SupProp DesktopViewport) \<and> sint (numberOfDesktops False 0 p True) \<le> 1 \<and>
     (displayWidth < sint (sz_width (desktopGeometry p)) \<or> displayHeight < sint (sz_height (desktopGeometry p)))"

definition viewport_of :: "int \<Rightarrow> int \<Rightarrow> root_info \<Rightarrow> viewport" where
  "viewport_of displayWidth displayHeight p =
     (let s = desktopGeometry p; c = desktopViewport p (currentDesktop False 0 p True)
      in \<lparr>vp_width = sint (sz_width s), vp_height = sint (sz_height s), vp_display_width = displayWidth,
          vp_display_height = displayHeight, vp_x = sint (pt_x c), vp_y = sint (pt_y c)\<rparr>)"

definition vp_columns :: "viewport \<Rightarrow> int" where
  "vp_columns V = vp_width V sdiv vp_display_width V"

definition vp_rows :: "viewport \<Rightarrow> int" where
  "vp_rows V = vp_height V sdiv vp_display_height V"

definition no_display :: "viewport \<Rightarrow> bool" where
  "no_display V \<longleftrightarrow> vp_display_width V = 0 \<or> vp_display_height V = 0"

text \<open>One coordinate: its column or row, the first or the last one if it lies outside.\<close>

definition vp_index :: "int \<Rightarrow> int \<Rightarrow> int \<Rightarrow> int \<Rightarrow> int" where
  "vp_index p extent n unit = (if p < 0 then 0 else if extent \<le> p then n - 1 else p sdiv unit)"

definition viewportToDesktop :: "viewport \<Rightarrow> int \<times> int \<Rightarrow> int option" where
  "viewportToDesktop V p =
     (if no_display V then None
      else Some (vp_index (snd p) (vp_height V) (vp_rows V) (vp_display_height V) * vp_columns V +
        vp_index (fst p) (vp_width V) (vp_columns V) (vp_display_width V) + 1))"

text \<open>
  \<^verbatim>\<open>viewportWindowToDesktop\<close>: \<open>scaled\<close> is the division of a coordinate by the device pixel
  ratio.  A \<^verbatim>\<open>QRect\<close> keeps its last column and row, and its centre is rounded to zero.
\<close>

definition rect_center :: "int \<Rightarrow> int \<Rightarrow> int" where
  "rect_center x w = (x + (x + w - 1)) sdiv 2"

definition viewportWindowToDesktop :: "viewport \<Rightarrow> (int \<Rightarrow> int) \<Rightarrow> int \<times> int \<times> int \<times> int \<Rightarrow> int option" where
  "viewportWindowToDesktop V scaled rect =
     (let (x, y, w, h) = rect
      in viewportToDesktop V (rect_center (scaled x) (scaled w) + vp_x V, rect_center (scaled y) (scaled h) + vp_y V))"

text \<open>The number of desktops; the expression is evaluated from the left.\<close>

definition mapped_numberOfDesktops :: "viewport \<Rightarrow> int option" where
  "mapped_numberOfDesktops V =
     (if no_display V then None
      else Some (vp_width V sdiv vp_display_width V * vp_height V sdiv vp_display_height V))"

definition wrap_once :: "int \<Rightarrow> int \<Rightarrow> int" where
  "wrap_once v extent =
     (let v1 = (if extent \<le> v then v - extent else v) in if v1 < 0 then v1 + extent else v1)"

definition desktopToViewport :: "viewport \<Rightarrow> int \<Rightarrow> bool \<Rightarrow> (int \<times> int) option" where
  "desktopToViewport V desktop absolute =
     (if no_display V then None
      else if desktop \<le> 0 \<or> vp_columns V * vp_rows V < desktop then Some (0, 0)
      else
        (let d = desktop - 1;
             rx = vp_display_width V * (d smod vp_columns V);
             ry = vp_display_height V * (d sdiv vp_columns V)
         in Some (if absolute then (rx, ry)
                  else (wrap_once (rx - vp_x V) (vp_width V), wrap_once (ry - vp_y V) (vp_height V)))))"

definition constrain :: "int \<Rightarrow> int \<Rightarrow> int \<Rightarrow> int" where
  "constrain pos c extent =
     (let v = (pos + c) smod extent in (if v < 0 then v + extent else v) - c)"

definition constrainViewportRelativePosition :: "viewport \<Rightarrow> int \<times> int \<Rightarrow> (int \<times> int) option" where
  "constrainViewportRelativePosition V pos =
     (if vp_width V = 0 \<or> vp_height V = 0 then None
      else Some (constrain (fst pos) (vp_x V) (vp_width V), constrain (snd pos) (vp_y V) (vp_height V)))"

text \<open>
  \<^verbatim>\<open>setOnDesktop\<close> with a viewport: the centre of the window on its present screen, moved to the
  given one; the result is the new position that is asked for.
\<close>

definition moved_to :: "int \<Rightarrow> int \<Rightarrow> int \<Rightarrow> int \<Rightarrow> int" where
  "moved_to x w unit target =
     (let c = (x + w sdiv 2) smod unit in (if c < 0 then c + unit else c) + target - w sdiv 2)"

definition mapped_setOnDesktop :: "viewport \<Rightarrow> int \<times> int \<times> int \<times> int \<Rightarrow> int \<Rightarrow> (int \<times> int) option" where
  "mapped_setOnDesktop V window desktop =
     (let (x, y, w, h) = window
      in case desktopToViewport V desktop False of
           None \<Rightarrow> None
         | Some (px, py) \<Rightarrow>
             constrainViewportRelativePosition V
               (moved_to x w (vp_display_width V) px, moved_to y h (vp_display_height V) py))"

section \<open>Lemmas\<close>

definition tiled :: "viewport \<Rightarrow> bool" where
  "tiled V \<longleftrightarrow> 0 < vp_display_width V \<and> 0 < vp_display_height V \<and> 0 < vp_columns V \<and> 0 < vp_rows V"

lemma sdiv_nonneg: "0 \<le> (a :: int) \<Longrightarrow> 0 \<le> b \<Longrightarrow> a sdiv b = a div b"
  by (cases "a = 0"; cases "b = 0") (simp_all add: signed_divide_int_def)

lemma smod_nonneg: "0 \<le> (a :: int) \<Longrightarrow> 0 \<le> b \<Longrightarrow> a smod b = a mod b"
  by (cases "a = 0") (simp_all add: signed_modulo_int_def)

text \<open>Adding the modulus to a negative remainder gives the mathematical one.\<close>

lemma smod_fixed: "0 < b \<Longrightarrow> (let v = (a :: int) smod b in if v < 0 then v + b else v) = a mod b"
proof -
  assume b: "0 < b"
  then have "0 \<le> a mod b" "a mod b < b" by simp_all
  with b show ?thesis by (auto simp: signed_modulo_int_eq_modulo_int Let_def dvd_eq_mod_eq_0 sgn_if)
qed

lemma div_mult_le_int: "0 < b \<Longrightarrow> (a :: int) div b * b \<le> a"
  by (simp add: minus_mod_eq_div_mult [symmetric])

lemma tiled_sizes:
  assumes "tiled V"
  shows "0 < vp_width V" "0 < vp_height V" "vp_columns V = vp_width V div vp_display_width V"
    "vp_rows V = vp_height V div vp_display_height V" "\<not> no_display V"
    "vp_columns V * vp_display_width V \<le> vp_width V" "vp_rows V * vp_display_height V \<le> vp_height V"
proof -
  have pos: "0 < w \<and> w sdiv d = w div d" if "0 < d" "0 < w sdiv d" for w d :: int
  proof -
    have "0 < w"
    proof (rule ccontr)
      assume "\<not> 0 < w"
      then have "sgn w * sgn d \<le> 0 \<and> 0 \<le> \<bar>w\<bar> div \<bar>d\<bar>" using that(1) by (auto simp: sgn_if pos_imp_zdiv_nonneg_iff)
      then have "w sdiv d \<le> 0" by (simp add: signed_divide_int_def mult_nonpos_nonneg)
      then show False using that(2) by simp
    qed
    then show ?thesis using that(1) by (simp add: sdiv_nonneg)
  qed
  show "0 < vp_width V" "0 < vp_height V" and c: "vp_columns V = vp_width V div vp_display_width V"
    and r: "vp_rows V = vp_height V div vp_display_height V"
    using assms pos by (auto simp: tiled_def vp_columns_def vp_rows_def)
  show "\<not> no_display V" using assms by (auto simp: tiled_def no_display_def)
  show "vp_columns V * vp_display_width V \<le> vp_width V" "vp_rows V * vp_display_height V \<le> vp_height V"
    unfolding c r using assms by (simp_all add: tiled_def div_mult_le_int)
qed

lemma vp_index_inside:
  assumes "0 < unit" "0 \<le> k" "k < n" "n * unit \<le> extent" "k * unit \<le> p" "p < (k + 1) * unit"
  shows "vp_index p extent n unit = k"
proof -
  have "0 \<le> k * unit" using assms(1,2) by simp
  then have p: "0 \<le> p" using assms(5) by linarith
  have "(k + 1) * unit \<le> n * unit" using assms(1,3) by (intro mult_right_mono) auto
  then have "p < extent" using assms(4,6) by linarith
  moreover have "p div unit = k"
    using assms(1,5,6) by (intro int_div_pos_eq [of p unit k "p - k * unit"]) (auto simp: algebra_simps)
  ultimately show ?thesis using p assms(1) by (simp add: vp_index_def sdiv_nonneg)
qed

text \<open>The column and the row of a desktop.\<close>

lemma desktop_parts:
  assumes "tiled V" "1 \<le> d" "d \<le> vp_columns V * vp_rows V"
  shows "0 \<le> (d - 1) mod vp_columns V" "(d - 1) mod vp_columns V < vp_columns V"
    "0 \<le> (d - 1) div vp_columns V" "(d - 1) div vp_columns V < vp_rows V"
    "(d - 1) div vp_columns V * vp_columns V + (d - 1) mod vp_columns V + 1 = d"
    "desktopToViewport V d absolute =
      (let rx = vp_display_width V * ((d - 1) mod vp_columns V); ry = vp_display_height V * ((d - 1) div vp_columns V)
       in Some (if absolute then (rx, ry)
            else (wrap_once (rx - vp_x V) (vp_width V), wrap_once (ry - vp_y V) (vp_height V))))"
proof -
  have n: "0 < vp_columns V" using assms(1) by (simp add: tiled_def)
  then show "0 \<le> (d - 1) mod vp_columns V" "(d - 1) mod vp_columns V < vp_columns V" by simp_all
  show "0 \<le> (d - 1) div vp_columns V" using n assms(2) by (simp add: pos_imp_zdiv_nonneg_iff)
  show "(d - 1) div vp_columns V < vp_rows V"
  proof -
    have "(d - 1) div vp_columns V * vp_columns V < vp_rows V * vp_columns V"
      using div_mult_le_int [OF n, of "d - 1"] assms(3) by (simp add: mult.commute)
    then show ?thesis using n by (simp add: mult_less_cancel_right)
  qed
  show "(d - 1) div vp_columns V * vp_columns V + (d - 1) mod vp_columns V + 1 = d"
    by simp
  show "desktopToViewport V d absolute =
      (let rx = vp_display_width V * ((d - 1) mod vp_columns V); ry = vp_display_height V * ((d - 1) div vp_columns V)
       in Some (if absolute then (rx, ry)
            else (wrap_once (rx - vp_x V) (vp_width V), wrap_once (ry - vp_y V) (vp_height V))))"
    using assms n tiled_sizes(5) [OF assms(1)]
    by (simp add: desktopToViewport_def Let_def smod_nonneg sdiv_nonneg)
qed

lemma point_on_desktop:
  assumes "tiled V" "1 \<le> d" "d \<le> vp_columns V * vp_rows V"
    and "px = vp_display_width V * ((d - 1) mod vp_columns V) + a" "0 \<le> a" "a < vp_display_width V"
    and "py = vp_display_height V * ((d - 1) div vp_columns V) + b" "0 \<le> b" "b < vp_display_height V"
  shows "viewportToDesktop V (px, py) = Some d"
proof -
  note parts = desktop_parts(1-5) [OF assms(1-3)] and sizes = tiled_sizes [OF assms(1)]
  have unit: "0 < vp_display_width V" "0 < vp_display_height V" using assms(1) by (simp_all add: tiled_def)
  have "vp_index px (vp_width V) (vp_columns V) (vp_display_width V) = (d - 1) mod vp_columns V"
    using assms(4-6) by (intro vp_index_inside [OF unit(1) parts(1,2) sizes(6)]) (simp_all add: algebra_simps)
  moreover have "vp_index py (vp_height V) (vp_rows V) (vp_display_height V) = (d - 1) div vp_columns V"
    using assms(7-9) by (intro vp_index_inside [OF unit(2) parts(3,4) sizes(7)]) (simp_all add: algebra_simps)
  ultimately show ?thesis using sizes(5) parts(5) by (simp add: viewportToDesktop_def)
qed

end
