(* ===== verification/ClientTracker.thy ===== *)
theory ClientTracker
  imports Viewport RootReach WinState
begin

text \<open>
  \<^verbatim>\<open>NETEventFilter\<close> of kx11extras.cpp: the object behind \<^verbatim>\<open>KX11Extras\<close>, a
  \<^verbatim>\<open>NETRootInfo\<close> that keeps the list of windows, their stacking order and the struts it has read,
  and turns events into the signals of \<^verbatim>\<open>KX11Extras\<close>; and the work area that is left beside some
  windows.  Windows are looked at with \<^verbatim>\<open>NETWinInfo\<close>.
\<close>

section \<open>State\<close>

datatype filter_info = INFO_BASIC | INFO_WINDOWS

record event_filter =
  ef_info :: root_info
  ef_windows :: "u32 list"
  ef_stacking :: "u32 list"
  ef_struts :: "(u32 \<times> net_strut \<times> i32) list"
  ef_possible :: "u32 list"
  ef_strut_connected :: bool
  ef_compositing :: bool
  ef_what :: filter_info
  ef_xfixes :: bool
  ef_win_id :: u32

datatype extras_signal =
    WindowAdded u32
  | WindowRemoved u32
  | StrutChanged
  | StackingOrderChanged
  | CompositingChanged bool
  | CurrentDesktopChanged i32
  | ActiveWindowChanged u32
  | DesktopNamesChanged
  | NumberOfDesktopsChanged i32
  | WorkAreaChanged
  | ShowingDesktopChanged bool
  | WindowChanged u32 u32 u32
  | SelectWindowInput u32 u32

type_synonym filter_step = "event_filter \<times> extras_signal list"

text \<open>
  The display: its size, the device pixel ratio as the division of a coordinate, the atoms, what
  the server answers, and the event mask it has for a window.
\<close>

record x_display =
  xd_width :: int
  xd_height :: int
  xd_scaled :: "int \<Rightarrow> int"
  xd_atoms :: atom_env
  xd_server :: server
  xd_mask :: "u32 \<Rightarrow> u32 option"

text \<open>\<^verbatim>\<open>windowsProperties\<close> and \<^verbatim>\<open>desktopProperties\<close> are the same.\<close>

definition windowsProperties :: u32 where
  "windowsProperties = or_all (map prop_flag [ClientList, ClientListStacking, Supported, NumberOfDesktops,
     DesktopGeometry, DesktopViewport, CurrentDesktop, DesktopNames, ActiveWindow, WorkArea])"

definition windowsProperties2 :: u32 where
  "windowsProperties2 = prop2_flag WM2ShowingDesktop"

definition new_event_filter ::
  "x_screen list \<Rightarrow> i32 \<Rightarrow> filter_info \<Rightarrow> bool \<Rightarrow> u32 \<Rightarrow> bool \<Rightarrow> event_filter" where
  "new_event_filter screens screen what haveXfixes winId compositing =
     \<lparr>ef_info = NETRootInfo_client screens windowsProperties windowsProperties2 screen,
      ef_windows = [], ef_stacking = [], ef_struts = [], ef_possible = [], ef_strut_connected = False,
      ef_compositing = haveXfixes \<and> compositing, ef_what = what, ef_xfixes = haveXfixes,
      ef_win_id = (if haveXfixes then winId else 0)\<rparr>"

section \<open>Windows come and go\<close>

definition read_strut_of :: "x_display \<Rightarrow> u32 \<Rightarrow> u32 \<Rightarrow> net_strut \<times> i32" where
  "read_strut_of X root w =
     (let info = NETWinInfo (xd_atoms X) (xd_server X) w root (prop_flag WMStrut OR prop_flag WMDesktop) 0 Client
      in (wi_strut info, win_desktop False 0 info True))"

definition has_strut :: "net_strut \<Rightarrow> bool" where
  "has_strut s \<longleftrightarrow> strut_left s \<noteq> 0 \<or> strut_top s \<noteq> 0 \<or> strut_right s \<noteq> 0 \<or> strut_bottom s \<noteq> 0"

text \<open>The first entry of a window in the cache of struts is erased.\<close>

fun remove_first :: "u32 \<Rightarrow> (u32 \<times> net_strut \<times> i32) list \<Rightarrow> (u32 \<times> net_strut \<times> i32) list" where
  "remove_first w [] = []"
| "remove_first w ((v, s) # rest) = (if v = w then rest else (v, s) # remove_first w rest)"

definition removeStrutWindow :: "u32 \<Rightarrow> event_filter \<Rightarrow> bool \<times> event_filter" where
  "removeStrutWindow w F = (w \<in> fst ` set (ef_struts F), F\<lparr>ef_struts := remove_first w (ef_struts F)\<rparr>)"

definition addClient :: "x_display \<Rightarrow> u32 \<Rightarrow> event_filter \<Rightarrow> filter_step" where
  "addClient X w F =
     (let events = bitflag 22 OR bitflag 17 OR (case xd_mask X w of Some m \<Rightarrow> m | None \<Rightarrow> 0);
          selected = (if ef_what F = INFO_WINDOWS then [SelectWindowInput w events] else []);
          (strut, desktop) = read_strut_of X (ri_root (ef_info F)) w;
          emits = ef_strut_connected F \<and> has_strut strut;
          F1 = (if ef_strut_connected F
                then (if has_strut strut then F\<lparr>ef_struts := ef_struts F @ [(w, strut, desktop)]\<rparr> else F)
                else F\<lparr>ef_possible := ef_possible F @ [w]\<rparr>)
      in (F1\<lparr>ef_windows := ef_windows F @ [w]\<rparr>,
          selected @ [WindowAdded w] @ (if emits then [StrutChanged] else [])))"

definition removeClient :: "x_display \<Rightarrow> u32 \<Rightarrow> event_filter \<Rightarrow> filter_step" where
  "removeClient X w F =
     (let (had, F1) = removeStrutWindow w F;
          info = NETWinInfo (xd_atoms X) (xd_server X) w (ri_root (ef_info F)) (prop_flag WMStrut) 0 Client;
          emits = had \<or> (ef_strut_connected F \<and> w \<in> set (ef_possible F) \<and> has_strut (wi_strut info))
      in (F1\<lparr>ef_possible := removeAll w (ef_possible F), ef_windows := removeAll w (ef_windows F)\<rparr>,
          WindowRemoved w # (if emits then [StrutChanged] else [])))"

text \<open>The virtual functions \<^verbatim>\<open>NETRootInfo\<close> calls, in the order of the calls.\<close>

fun run_hook :: "x_display \<Rightarrow> root_effect \<Rightarrow> filter_step \<Rightarrow> filter_step" where
  "run_hook X (RootHook (AddClient w)) (F, es) = (let (G, fs) = addClient X w F in (G, es @ fs))"
| "run_hook X (RootHook (RemoveClient w)) (F, es) = (let (G, fs) = removeClient X w F in (G, es @ fs))"
| "run_hook X _ s = s"

definition updateStackingOrder :: "event_filter \<Rightarrow> event_filter" where
  "updateStackingOrder F =
     F\<lparr>ef_stacking := take (ri_stacking_count (ef_info F)) (case ri_stacking (ef_info F) of None \<Rightarrow> [] | Some ws \<Rightarrow> ws)\<rparr>"

text \<open>\<^verbatim>\<open>activate\<close>: reads all properties, which adds the windows, then the stacking order.\<close>

definition filter_activate :: "x_display \<Rightarrow> event_filter \<Rightarrow> filter_step" where
  "filter_activate X F =
     (let (p, es) = activate (xd_atoms X) (xd_server X) (ef_info F);
          (G, fs) = fold (run_hook X) es (F\<lparr>ef_info := p\<rparr>, [])
      in (updateStackingOrder G, fs))"

section \<open>Events\<close>

text \<open>
  \<^verbatim>\<open>currentDesktop()\<close> and \<^verbatim>\<open>numberOfDesktops()\<close> without an argument ask
  \<^verbatim>\<open>KX11Extras\<close>, which answers from the viewport if there is one.
\<close>

definition maps_viewport :: "x_display \<Rightarrow> root_info \<Rightarrow> bool" where
  "maps_viewport X p = mapViewport (xd_width X) (xd_height X) p"

definition current_desktop :: "x_display \<Rightarrow> root_info \<Rightarrow> i32" where
  "current_desktop X p =
     (let V = viewport_of (xd_width X) (xd_height X) p
      in currentDesktop (maps_viewport X p)
           (word_of_int (the (viewportToDesktop V (xd_scaled X (vp_x V), xd_scaled X (vp_y V))))) p False)"

definition number_of_desktops_now :: "x_display \<Rightarrow> root_info \<Rightarrow> i32" where
  "number_of_desktops_now X p =
     numberOfDesktops (maps_viewport X p)
       (word_of_int (the (mapped_numberOfDesktops (viewport_of (xd_width X) (xd_height X) p)))) p False"

text \<open>What is emitted once \<^verbatim>\<open>NETRootInfo::event\<close> has changed \<open>p\<close> to \<open>q\<close>.\<close>

definition root_signals :: "x_display \<Rightarrow> root_info \<Rightarrow> root_info \<Rightarrow> u32 \<Rightarrow> u32 \<Rightarrow> extras_signal list" where
  "root_signals X p q props props2 =
     (if hasf props (prop_flag CurrentDesktop) \<and> current_desktop X q \<noteq> current_desktop X p
      then [CurrentDesktopChanged (current_desktop X q)] else []) @
     (if hasf props (prop_flag DesktopViewport) \<and> maps_viewport X q \<and> current_desktop X q \<noteq> current_desktop X p
      then [CurrentDesktopChanged (current_desktop X q)] else []) @
     (if hasf props (prop_flag ActiveWindow) \<and> ri_active q \<noteq> ri_active p
      then [ActiveWindowChanged (ri_active q)] else []) @
     (if hasf props (prop_flag DesktopNames) then [DesktopNamesChanged] else []) @
     (if hasf props (prop_flag NumberOfDesktops) \<and> number_of_desktops_now X q \<noteq> number_of_desktops_now X p
      then [NumberOfDesktopsChanged (number_of_desktops_now X q)] else []) @
     (if hasf props (prop_flag DesktopGeometry) \<and> maps_viewport X q \<and>
         number_of_desktops_now X q \<noteq> number_of_desktops_now X p
      then [NumberOfDesktopsChanged (number_of_desktops_now X q)] else []) @
     (if hasf props (prop_flag WorkArea) then [WorkAreaChanged] else []) @
     (if hasf props (prop_flag ClientListStacking) then [StackingOrderChanged] else []) @
     (if hasf props2 (prop2_flag WM2ShowingDesktop) \<and> ri_showing_desktop q \<noteq> ri_showing_desktop p
      then [ShowingDesktopChanged (ri_showing_desktop q)] else [])"

definition filter_root_event :: "x_display \<Rightarrow> xevent \<Rightarrow> event_filter \<Rightarrow> filter_step" where
  "filter_root_event X ev F =
     (let ((q, hooks), props, props2) = root_event (xd_atoms X) (xd_server X) (ef_info F) ev;
          (G, es) = fold (run_hook X) hooks (F\<lparr>ef_info := q\<rparr>, []);
          H = (if hasf props (prop_flag ClientListStacking) then updateStackingOrder G else G)
      in (H, es @ root_signals X (ef_info F) q props props2))"

definition XCB_ATOM_WM_ICON_NAME :: u32 where "XCB_ATOM_WM_ICON_NAME = 37"
definition XCB_ATOM_WM_NAME :: u32 where "XCB_ATOM_WM_NAME = 39"

text \<open>The properties of old window managers that count as the new ones.\<close>

definition old_properties :: "x_display \<Rightarrow> xevent \<Rightarrow> u32" where
  "old_properties X ev =
     (case ev of
        PropertyNotify atom \<Rightarrow>
          (if atom = xd_atoms X XaWmHints then prop_flag WMIcon
           else if atom = XCB_ATOM_WM_NAME then prop_flag WMName
           else if atom = XCB_ATOM_WM_ICON_NAME then prop_flag WMIconName else 0)
      | _ \<Rightarrow> 0)"

definition filter_window_event :: "x_display \<Rightarrow> u32 \<Rightarrow> xevent \<Rightarrow> event_filter \<Rightarrow> filter_step" where
  "filter_window_event X w ev F =
     (if w \<notin> set (ef_windows F) then (F, [])
      else
        (let ni = NETWinInfo (xd_atoms X) (xd_server X) w (ri_root (ef_info F)) 0 0 Client;
             (_, props, dirty2) = win_event (xd_atoms X) (xd_server X) ni ev;
             dirty1 = props OR old_properties X ev;
             dirty = (if maps_viewport X (ef_info F) \<and> hasf dirty1 (prop_flag WMState OR prop_flag WMGeometry)
                      then dirty1 OR prop_flag WMDesktop else dirty1);
             strut = hasf dirty (prop_flag WMStrut);
             F1 = (if strut
                   then (let G = snd (removeStrutWindow w F)
                         in if w \<in> set (ef_possible G) then G else G\<lparr>ef_possible := ef_possible G @ [w]\<rparr>)
                   else F)
         in (F1, if dirty \<noteq> 0 \<or> dirty2 \<noteq> 0
                 then WindowChanged w dirty dirty2 # (if strut then [StrutChanged] else []) else [])))"

text \<open>The compositing manager changed: an event of XFIXES on the own window or on the root window.\<close>

definition filter_selection_event :: "u32 \<Rightarrow> u32 \<Rightarrow> u32 \<Rightarrow> u32 \<Rightarrow> event_filter \<Rightarrow> bool \<times> filter_step" where
  "filter_selection_event net_wm_cm window selection owner F =
     (let haveOwner = (owner \<noteq> 0);
          changed = (if ef_compositing F \<noteq> haveOwner
                     then (F\<lparr>ef_compositing := haveOwner\<rparr>, [CompositingChanged haveOwner]) else (F, []))
      in if window = ef_win_id F then (True, changed)
         else if window = ri_root (ef_info F) \<and> selection = net_wm_cm then (False, changed)
         else (False, F, []))"

text \<open>An event of a window: the root window, or one of the clients.\<close>

definition filter_event :: "x_display \<Rightarrow> u32 \<Rightarrow> xevent \<Rightarrow> event_filter \<Rightarrow> filter_step" where
  "filter_event X eventWindow ev F =
     (if eventWindow = ri_root (ef_info F) then filter_root_event X ev F
      else filter_window_event X eventWindow ev F)"

section \<open>The work area beside windows\<close>

text \<open>A \<^verbatim>\<open>QRect\<close> by its first and last columns and rows; \<open>meet\<close> is \<^verbatim>\<open>intersected\<close>.\<close>

record qrect =
  qr_left :: int
  qr_top :: int
  qr_right :: int
  qr_bottom :: int

definition beside :: "net_strut \<Rightarrow> qrect \<Rightarrow> qrect" where
  "beside s r =
     (let r1 = (if 0 < sint (strut_left s) then r\<lparr>qr_left := qr_left r + sint (strut_left s)\<rparr> else r);
          r2 = (if 0 < sint (strut_top s) then r1\<lparr>qr_top := qr_top r1 + sint (strut_top s)\<rparr> else r1);
          r3 = (if 0 < sint (strut_right s) then r2\<lparr>qr_right := qr_right r2 - sint (strut_right s)\<rparr> else r2)
      in if 0 < sint (strut_bottom s) then r3\<lparr>qr_bottom := qr_bottom r3 - sint (strut_bottom s)\<rparr> else r3)"

definition on_desktop :: "i32 \<Rightarrow> i32 \<Rightarrow> bool" where
  "on_desktop desktop d \<longleftrightarrow> d = desktop \<or> d = OnAllDesktops"

text \<open>One window of the loop: its cached strut, or the strut that is read and cached now.\<close>

definition work_area_step ::
  "x_display \<Rightarrow> (qrect \<Rightarrow> qrect \<Rightarrow> qrect) \<Rightarrow> qrect \<Rightarrow> u32 set \<Rightarrow> i32 \<Rightarrow> u32 \<Rightarrow> event_filter \<times> qrect \<Rightarrow> event_filter \<times> qrect" where
  "work_area_step X meet all exclude desktop w = (\<lambda>(F, a).
     if w \<in> exclude then (F, a)
     else case map_of (ef_struts F) w of
       Some (strut, d) \<Rightarrow> (F, if on_desktop desktop d then meet a (beside strut all) else a)
     | None \<Rightarrow>
         (if w \<in> set (ef_possible F)
          then (let (strut, d) = read_strut_of X (ri_root (ef_info F)) w
                in (F\<lparr>ef_possible := removeAll w (ef_possible F), ef_struts := ef_struts F @ [(w, strut, d)]\<rparr>,
                    if on_desktop desktop d then meet a (beside strut all) else a))
          else (F, a)))"

text \<open>The division of a rectangle by the device pixel ratio: of its corner and its size.\<close>

definition rect_scaled :: "x_display \<Rightarrow> qrect \<Rightarrow> qrect" where
  "rect_scaled X r =
     (let x = xd_scaled X (qr_left r); y = xd_scaled X (qr_top r);
          w = xd_scaled X (qr_right r - qr_left r + 1); h = xd_scaled X (qr_bottom r - qr_top r + 1)
      in \<lparr>qr_left = x, qr_top = y, qr_right = x + w - 1, qr_bottom = y + h - 1\<rparr>)"

definition workArea_beside ::
  "x_display \<Rightarrow> (qrect \<Rightarrow> qrect \<Rightarrow> qrect) \<Rightarrow> qrect \<Rightarrow> u32 set \<Rightarrow> i32 \<Rightarrow> event_filter \<Rightarrow> event_filter \<times> qrect" where
  "workArea_beside X meet all exclude desktop F =
     (let d = (if desktop = - 1 then current_desktop X (ef_info F) else desktop);
          (G, a) = fold (work_area_step X meet all exclude d) (ef_windows F) (F, all)
      in (G, rect_scaled X a))"

end
