(* ===== verification/Extras.thy ===== *)
theory Extras
  imports ClientTracker
begin

text \<open>
  \<^verbatim>\<open>KX11Extras\<close> (kx11extras.cpp): the object that makes the event filter when it is first
  needed, makes a better one when more is needed, answers questions from it, and asks the window
  manager for changes through short-lived objects of \<^verbatim>\<open>NETRootInfo\<close> and
  \<^verbatim>\<open>NETWinInfo\<close>.  The platform is X11: elsewhere \<^verbatim>\<open>CHECK_X11\<close> returns the default of the type before anything else.
\<close>

section \<open>The application and its filter\<close>

text \<open>
  What the application and its display are: the screens, whether XFIXES is there, the window the
  filter creates for itself, whether the selection of the compositing manager has an owner, the times of
  the last event and of the last action of the user, the focused window, and the geometry of the display.
\<close>

record x_app =
  xa_screens :: "x_screen list"
  xa_screen :: i32
  xa_xfixes :: bool
  xa_window :: u32
  xa_compositor :: bool
  xa_time :: u32
  xa_user_time :: u32
  xa_focus :: u32
  xa_all :: qrect

type_synonym extras = "event_filter option"

datatype extras_effect =
    XsSignal extras_signal
  | XsRoot root_effect
  | XsWin win_effect

definition app_root :: "x_app \<Rightarrow> u32" where
  "app_root A = screen_root (pick_screen (xa_screens A) (xa_screen A))"

text \<open>
  \<^verbatim>\<open>init\<close>: the filter afterwards, and the signals on the way.  A new filter reads
  everything anew.
\<close>

definition create_filter :: "x_display \<Rightarrow> x_app \<Rightarrow> filter_info \<Rightarrow> bool \<Rightarrow> filter_step" where
  "create_filter X A what wasCompositing =
     (let (F, es) = filter_activate X
            (new_event_filter (xa_screens A) (xa_screen A) what (xa_xfixes A) (xa_window A) (xa_compositor A))
      in (F, es @ (if wasCompositing \<noteq> ef_compositing F then [CompositingChanged (ef_compositing F)] else [])))"

fun extras_init :: "x_display \<Rightarrow> x_app \<Rightarrow> filter_info \<Rightarrow> extras \<Rightarrow> filter_step" where
  "extras_init X A what None = create_filter X A what False"
| "extras_init X A what (Some F) =
     (if ef_what F = INFO_BASIC \<and> what = INFO_WINDOWS then create_filter X A what (ef_compositing F)
      else (F, []))"

text \<open>A question to the filter: the new state, the effects and the answer.\<close>

definition asking ::
  "x_display \<Rightarrow> x_app \<Rightarrow> (event_filter \<Rightarrow> 'a) \<Rightarrow> extras \<Rightarrow> extras \<times> extras_effect list \<times> 'a" where
  "asking X A question s = (let (F, es) = extras_init X A INFO_BASIC s in (Some F, map XsSignal es, question F))"

definition extras_windows :: "x_display \<Rightarrow> x_app \<Rightarrow> extras \<Rightarrow> extras \<times> extras_effect list \<times> u32 list" where
  "extras_windows X A = asking X A ef_windows"

definition hasWId :: "x_display \<Rightarrow> x_app \<Rightarrow> u32 \<Rightarrow> extras \<Rightarrow> extras \<times> extras_effect list \<times> bool" where
  "hasWId X A w s = (let (t, es, ws) = extras_windows X A s in (t, es, w \<in> set ws))"

definition extras_stackingOrder :: "x_display \<Rightarrow> x_app \<Rightarrow> extras \<Rightarrow> extras \<times> extras_effect list \<times> u32 list" where
  "extras_stackingOrder X A = asking X A ef_stacking"

definition compositingActive :: "x_display \<Rightarrow> x_app \<Rightarrow> extras \<Rightarrow> extras \<times> extras_effect list \<times> bool" where
  "compositingActive X A =
     asking X A (\<lambda>F. if ef_xfixes F then ef_compositing F else xa_compositor A)"

definition extras_showingDesktop :: "x_display \<Rightarrow> x_app \<Rightarrow> extras \<Rightarrow> extras \<times> extras_effect list \<times> bool" where
  "extras_showingDesktop X A = asking X A (\<lambda>F. ri_showing_desktop (ef_info F))"

text \<open>Objects that live for one call.\<close>

definition open_root :: "x_display \<Rightarrow> x_app \<Rightarrow> u32 \<Rightarrow> u32 \<Rightarrow> root_info" where
  "open_root X A props props2 =
     fst (new_root_client (xd_atoms X) (xd_server X) (xa_screens A) props props2 (xa_screen A) True)"

definition open_win :: "x_display \<Rightarrow> x_app \<Rightarrow> u32 \<Rightarrow> u32 \<Rightarrow> u32 \<Rightarrow> win_info" where
  "open_win X A w props props2 =
     NETWinInfo (xd_atoms X) (xd_server X) w (app_root A) props props2 Client"

definition extras_activeWindow :: "x_display \<Rightarrow> x_app \<Rightarrow> extras \<Rightarrow> u32" where
  "extras_activeWindow X A s =
     (case s of Some F \<Rightarrow> ri_active (ef_info F) | None \<Rightarrow> ri_active (open_root X A (prop_flag ActiveWindow) 0))"

definition extras_mapViewport :: "x_display \<Rightarrow> x_app \<Rightarrow> extras \<Rightarrow> bool" where
  "extras_mapViewport X A s =
     (case s of
        Some F \<Rightarrow> maps_viewport X (ef_info F)
      | None \<Rightarrow>
          isSupported (open_root X A (prop_flag Supported) 0) (SupProp DesktopViewport) \<and>
          (let info = open_root X A (prop_flag NumberOfDesktops OR prop_flag CurrentDesktop OR prop_flag DesktopGeometry) 0
           in sint (numberOfDesktops False 0 info True) \<le> 1 \<and>
              (xd_width X < sint (sz_width (desktopGeometry info)) \<or>
               xd_height X < sint (sz_height (desktopGeometry info)))))"

text \<open>\<^verbatim>\<open>currentDesktop()\<close> and \<^verbatim>\<open>numberOfDesktops()\<close>.\<close>

definition extras_currentDesktop :: "x_display \<Rightarrow> x_app \<Rightarrow> extras \<Rightarrow> extras \<times> extras_effect list \<times> i32" where
  "extras_currentDesktop X A s =
     (if extras_mapViewport X A s
      then asking X A (\<lambda>F. let V = viewport_of (xd_width X) (xd_height X) (ef_info F)
             in word_of_int (the (viewportToDesktop V (xd_scaled X (vp_x V), xd_scaled X (vp_y V))))) s
      else (s, [], case s of
         Some F \<Rightarrow> currentDesktop False 0 (ef_info F) True
       | None \<Rightarrow> currentDesktop False 0 (open_root X A (prop_flag CurrentDesktop) 0) True))"

definition extras_numberOfDesktops :: "x_display \<Rightarrow> x_app \<Rightarrow> extras \<Rightarrow> extras \<times> extras_effect list \<times> i32" where
  "extras_numberOfDesktops X A s =
     (if extras_mapViewport X A s
      then asking X A (\<lambda>F. word_of_int (the (mapped_numberOfDesktops (viewport_of (xd_width X) (xd_height X) (ef_info F))))) s
      else (s, [], case s of
         Some F \<Rightarrow> numberOfDesktops False 0 (ef_info F) True
       | None \<Rightarrow> numberOfDesktops False 0 (open_root X A (prop_flag NumberOfDesktops) 0) True))"

text \<open>\<^verbatim>\<open>connectNotify\<close>: the signals that need more than the list of windows.\<close>

datatype notified_signal = SigWorkAreaChanged | SigStrutChanged | SigWindowChanged | SigOther

definition connectNotify :: "x_display \<Rightarrow> x_app \<Rightarrow> notified_signal \<Rightarrow> extras \<Rightarrow> extras \<times> extras_effect list" where
  "connectNotify X A signal s =
     (let (F, es) = extras_init X A (if signal = SigOther then INFO_BASIC else INFO_WINDOWS) s
      in (Some (if \<not> ef_strut_connected F \<and> signal = SigStrutChanged then F\<lparr>ef_strut_connected := True\<rparr> else F),
          map XsSignal es))"

text \<open>\<^verbatim>\<open>nativeEventFilter\<close> is called only if there is a filter.\<close>

definition extras_event :: "x_display \<Rightarrow> u32 \<Rightarrow> xevent \<Rightarrow> extras \<Rightarrow> extras \<times> extras_effect list" where
  "extras_event X eventWindow ev s =
     (case s of None \<Rightarrow> (None, [])
      | Some F \<Rightarrow> (let (G, es) = filter_event X eventWindow ev F in (Some G, map XsSignal es)))"

section \<open>Work areas and names\<close>

definition sane_desktop :: "x_display \<Rightarrow> event_filter \<Rightarrow> i32 \<Rightarrow> bool" where
  "sane_desktop X F desktop \<longleftrightarrow> 0 < sint desktop \<and> sint desktop \<le> sint (number_of_desktops_now X (ef_info F))"

definition extras_workArea :: "x_display \<Rightarrow> x_app \<Rightarrow> i32 \<Rightarrow> extras \<Rightarrow> extras \<times> extras_effect list \<times> qrect" where
  "extras_workArea X A desktop =
     asking X A (\<lambda>F.
       let desk = (if sane_desktop X F desktop then desktop else snd (snd (extras_currentDesktop X A (Some F))));
           r = workArea (ef_info F) desk
       in if sint desk \<le> 0 \<or> sint (sz_width (rect_size r)) \<le> 0 \<or> sint (sz_height (rect_size r)) \<le> 0
          then rect_scaled X (xa_all A)
          else rect_scaled X
                 \<lparr>qr_left = sint (pt_x (rect_pos r)), qr_top = sint (pt_y (rect_pos r)),
                  qr_right = sint (pt_x (rect_pos r)) + sint (sz_width (rect_size r)) - 1,
                  qr_bottom = sint (pt_y (rect_pos r)) + sint (sz_height (rect_size r)) - 1\<rparr>)"

definition extras_workArea_beside ::
  "x_display \<Rightarrow> x_app \<Rightarrow> (qrect \<Rightarrow> qrect \<Rightarrow> qrect) \<Rightarrow> u32 set \<Rightarrow> i32 \<Rightarrow> extras \<Rightarrow>
     extras \<times> extras_effect list \<times> qrect" where
  "extras_workArea_beside X A meet exclude desktop s =
     (let (F, es) = extras_init X A INFO_WINDOWS s;
          (G, a) = workArea_beside X meet (xa_all A) exclude desktop F
      in (Some G, map XsSignal es, a))"

text \<open>The name of a desktop; \<open>fromUtf8\<close> reads it, \<open>untitled\<close> is the text for a desktop without a name.\<close>

definition extras_desktopName ::
  "x_display \<Rightarrow> x_app \<Rightarrow> (string \<Rightarrow> 's) \<Rightarrow> (i32 \<Rightarrow> 's) \<Rightarrow> i32 \<Rightarrow> extras \<Rightarrow> extras \<times> extras_effect list \<times> 's" where
  "extras_desktopName X A fromUtf8 untitled desktop =
     asking X A (\<lambda>F.
       case desktopName (ef_info F)
              (if sane_desktop X F desktop then desktop else snd (snd (extras_currentDesktop X A (Some F)))) of
         Some (c # cs) \<Rightarrow> fromUtf8 (c # cs)
       | _ \<Rightarrow> untitled desktop)"

text \<open>
  \<^verbatim>\<open>setDesktopName\<close> looks for the filter first, then asks for the number of desktops;
  without a filter it uses an object that has read no names.
\<close>

definition extras_setDesktopName :: "x_display \<Rightarrow> x_app \<Rightarrow> i32 \<Rightarrow> string \<Rightarrow> extras \<Rightarrow> extras \<times> extras_effect list" where
  "extras_setDesktopName X A desktop name s =
     (let (s1, es1, n) = extras_numberOfDesktops X A s;
          (s2, es2, desk) = (if sint desktop \<le> 0 \<or> sint n < sint desktop then extras_currentDesktop X A s1
                             else (s1, [], desktop))
      in case s of
           Some F \<Rightarrow> (let (p, es) = setDesktopName (xd_atoms X) (ef_info F) desk (Some name)
                      in (Some (F\<lparr>ef_info := p\<rparr>), map XsRoot es))
         | None \<Rightarrow> (s2, es1 @ es2 @ map XsRoot (snd (setDesktopName (xd_atoms X) (open_root X A 0 0) desk (Some name)))))"

section \<open>Requests\<close>

definition activateWindow :: "x_display \<Rightarrow> x_app \<Rightarrow> u32 \<Rightarrow> u32 \<Rightarrow> extras_effect list" where
  "activateWindow X A win time =
     map XsRoot (snd (setActiveWindow (xd_atoms X) (open_root X A 0 0) win FromApplication
       (if time = 0 then xa_user_time A else time) (xa_focus A)))"

definition forceActiveWindow :: "x_display \<Rightarrow> x_app \<Rightarrow> u32 \<Rightarrow> u32 \<Rightarrow> extras_effect list" where
  "forceActiveWindow X A win time =
     map XsRoot (snd (setActiveWindow (xd_atoms X) (open_root X A 0 0) win FromTool
       (if time = 0 then xa_time A else time) 0))"

definition extras_setState :: "x_display \<Rightarrow> x_app \<Rightarrow> u32 \<Rightarrow> u32 \<Rightarrow> extras_effect list" where
  "extras_setState X A win state =
     map XsWin (snd (setState (xd_atoms X) (xd_server X) (open_win X A win (prop_flag WMState) 0) state state))"

definition clearState :: "x_display \<Rightarrow> x_app \<Rightarrow> u32 \<Rightarrow> u32 \<Rightarrow> extras_effect list" where
  "clearState X A win state =
     map XsWin (snd (setState (xd_atoms X) (xd_server X) (open_win X A win (prop_flag WMState) 0) 0 state))"

definition extras_setType :: "x_display \<Rightarrow> x_app \<Rightarrow> u32 \<Rightarrow> window_type \<Rightarrow> extras_effect list" where
  "extras_setType X A win t =
     map XsWin (snd (setWindowType (xd_atoms X) (open_win X A win 0 0) t))"

definition extras_setShowingDesktop :: "x_display \<Rightarrow> x_app \<Rightarrow> bool \<Rightarrow> extras_effect list" where
  "extras_setShowingDesktop X A showing =
     map XsRoot (snd (setShowingDesktop (xd_atoms X) (open_root X A 0 (prop2_flag WM2ShowingDesktop)) showing))"

text \<open>The activities are joined by commas.\<close>

fun comma_joined :: "string list \<Rightarrow> string" where
  "comma_joined [] = []"
| "comma_joined [a] = a"
| "comma_joined (a # b # rest) = a @ '','' @ comma_joined (b # rest)"

definition setOnActivities :: "x_display \<Rightarrow> x_app \<Rightarrow> u32 \<Rightarrow> string list \<Rightarrow> extras_effect list" where
  "setOnActivities X A win activities =
     map XsWin (snd (setActivities (xd_atoms X) (open_win X A win 0 (prop2_flag WM2Activities))
       (Some (comma_joined activities))))"

text \<open>
  The structure of ICCCM 4.1.4; the type is an atom that \<^verbatim>\<open>create_atoms\<close> asks for.
\<close>

definition minimizeWindow :: "x_app \<Rightarrow> u32 \<Rightarrow> u32 \<Rightarrow> extras_effect list" where
  "minimizeWindow A wm_change_state win =
     [XsRoot (RootReq (SendClientMessage (app_root A) SubstructureRedirectNotify win wm_change_state [3, 0, 0, 0, 0]))]"

section \<open>Desktops\<close>

definition extras_setCurrentDesktop :: "x_display \<Rightarrow> x_app \<Rightarrow> i32 \<Rightarrow> extras \<Rightarrow> extras \<times> extras_effect list" where
  "extras_setCurrentDesktop X A desktop s =
     (if extras_mapViewport X A s
      then (let (F, es) = extras_init X A INFO_BASIC s;
                V = viewport_of (xd_width X) (xd_height X) (ef_info F);
                pos = the (desktopToViewport V (sint desktop) True)
            in (Some F, map XsSignal es @ map XsRoot (snd (setDesktopViewport (xd_atoms X) (open_root X A 0 0)
                  (currentDesktop False 0 (ef_info F) True)
                  \<lparr>pt_x = word_of_int (fst pos), pt_y = word_of_int (snd pos)\<rparr>))))
      else (s, map XsRoot (snd (setCurrentDesktop (xd_atoms X) False (open_root X A 0 0) desktop True))))"

definition setOnAllDesktops :: "x_display \<Rightarrow> x_app \<Rightarrow> u32 \<Rightarrow> bool \<Rightarrow> extras \<Rightarrow> extras_effect list" where
  "setOnAllDesktops X A win b s =
     (if extras_mapViewport X A s
      then (if b then extras_setState X A win (state_flag Sticky) else clearState X A win (state_flag Sticky))
      else
        (let info = open_win X A win (prop_flag WMDesktop) 0;
             move = (\<lambda>d. map XsWin (snd (setDesktop (xd_atoms X) (xd_server X) False info d True)))
         in if b then move OnAllDesktops
            else if win_desktop False 0 info True = OnAllDesktops
            then move (currentDesktop False 0 (open_root X A (prop_flag CurrentDesktop) 0) True)
            else []))"

text \<open>\<open>geometry\<close> is where the window lies on the root window, as Xlib says.\<close>

definition setOnDesktop ::
  "x_display \<Rightarrow> x_app \<Rightarrow> int \<times> int \<times> int \<times> int \<Rightarrow> u32 \<Rightarrow> i32 \<Rightarrow> extras \<Rightarrow> extras \<times> extras_effect list" where
  "setOnDesktop X A geometry win desktop s =
     (if extras_mapViewport X A s
      then
        (if desktop = OnAllDesktops then (s, setOnAllDesktops X A win True s)
         else
           (let sticky = clearState X A win (state_flag Sticky);
                (F, es) = extras_init X A INFO_BASIC s;
                (x, y, w, h) = geometry;
                pos = the (mapped_setOnDesktop (viewport_of (xd_width X) (xd_height X) (ef_info F)) geometry (sint desktop))
            in (Some F, sticky @ map XsSignal es @
                  map XsRoot (snd (moveResizeWindowRequest (xd_atoms X) (ef_info F) win 0x230A
                    (word_of_int (fst pos)) (word_of_int (snd pos)) (word_of_int w) (word_of_int h))))))
      else (s, map XsWin (snd (setDesktop (xd_atoms X) (xd_server X) False
                 (open_win X A win (prop_flag WMDesktop) 0) desktop True))))"

section \<open>Struts\<close>

text \<open>
  A \<^verbatim>\<open>qreal\<close> is a value of any type; \<open>scaled\<close> is \<^verbatim>\<open>std::lround\<close> of its product
  with the device pixel ratio, and \<open>qreal\<close> the conversion of an integer.  A \<^verbatim>\<open>long\<close> that does not fit
  an \<^verbatim>\<open>int\<close> loses its upper half.
\<close>

definition extras_setExtendedStrut ::
  "x_display \<Rightarrow> x_app \<Rightarrow> ('r \<Rightarrow> int) \<Rightarrow> u32 \<Rightarrow> 'r \<times> 'r \<times> 'r \<Rightarrow> 'r \<times> 'r \<times> 'r \<Rightarrow> 'r \<times> 'r \<times> 'r \<Rightarrow> 'r \<times> 'r \<times> 'r \<Rightarrow>
     extras_effect list" where
  "extras_setExtendedStrut X A scaled win L R T B =
     (let (lw, ls, le) = L; (rw, rs, re) = R; (tw, ts, te) = T; (bw, bs, be) = B;
          i = (\<lambda>q. word_of_int (scaled q));
          info = open_win X A win 0 0;
          (info1, es1) = setExtendedStrut (xd_atoms X) info
            \<lparr>left_width = i lw, left_start = i ls, left_end = i le,
             right_width = i rw, right_start = i rs, right_end = i re,
             top_width = i tw, top_start = i ts, top_end = i te,
             bottom_width = i bw, bottom_start = i bs, bottom_end = i be\<rparr>;
          (info2, es2) = setStrut (xd_atoms X) info1
            \<lparr>strut_left = i lw, strut_right = i rw, strut_top = i tw, strut_bottom = i bw\<rparr>
      in map XsWin (es1 @ es2))"

definition extras_setStrut ::
  "x_display \<Rightarrow> x_app \<Rightarrow> ('r \<Rightarrow> int) \<Rightarrow> (int \<Rightarrow> 'r) \<Rightarrow> u32 \<Rightarrow> 'r \<Rightarrow> 'r \<Rightarrow> 'r \<Rightarrow> 'r \<Rightarrow> extras_effect list" where
  "extras_setStrut X A scaled qreal win l r t b =
     (let side = (\<lambda>q extent. (qreal (scaled q), qreal 0, qreal (if scaled q \<noteq> 0 then extent else 0)))
      in extras_setExtendedStrut X A scaled win (side l (xd_width X)) (side r (xd_width X))
           (side t (xd_height X)) (side b (xd_height X)))"

end
