(* ===== verification/WindowInfo.thy ===== *)
theory WindowInfo
  imports Extras QtText
begin

text \<open>
  \<^verbatim>\<open>KWindowInfo\<close> (kwindowinfo.cpp): what is known of one window at one time, read by an
  object of \<^verbatim>\<open>NETWinInfo\<close>, with the names, geometries and the process that are asked for in
  other ways, and the answers that fall back on other properties.
\<close>

section \<open>Old text properties\<close>

text \<open>
  What is outside of the repository: whether the platform is X11, Qt, text properties as
  \<^verbatim>\<open>XGetTextProperty\<close> gives them (their encoding and bytes) and as Xlib converts them, the two
  conversions of bytes to texts, the atom \<^verbatim>\<open>UTF8_STRING\<close>, replies about the geometry, errors that were
  caught, the process the extension XRes names, and the size of the default screen.
\<close>

record window_env =
  we_x11 :: bool
  we_qt :: qt
  we_text :: "u32 \<Rightarrow> u32 \<Rightarrow> (u32 \<times> string) option"
  we_list :: "u32 \<times> string \<Rightarrow> string list option"
  we_local :: "string \<Rightarrow> qstring"
  we_latin1 :: "string \<Rightarrow> qstring"
  we_utf8 :: u32
  we_geometry :: "(16 word \<times> 16 word) option"
  we_translated :: "(16 word \<times> 16 word) option"
  we_error :: bool
  we_pid :: "u32 option"
  we_screen_width :: i32
  we_screen_height :: i32

definition XA_STRING :: u32 where "XA_STRING = 31"

definition readNameProperty :: "window_env \<Rightarrow> u32 \<Rightarrow> u32 \<Rightarrow> qstring" where
  "readNameProperty E win atom =
     (case we_text E win atom of
        None \<Rightarrow> []
      | Some (encoding, value) \<Rightarrow>
          if encoding = we_utf8 E then fromUtf8 (we_qt E) value
          else case we_list E (encoding, value) of
            Some (t # _) \<Rightarrow> we_local E t
          | _ \<Rightarrow> if encoding = XA_STRING then we_local E value else [])"

section \<open>Reading a window\<close>

type_synonym q_rect = "int \<times> int \<times> int \<times> int"

record kwindow_info =
  kw_window :: u32
  kw_properties :: u32
  kw_properties2 :: u32
  kw_info :: "win_info option"
  kw_name :: qstring
  kw_iconic_name :: qstring
  kw_geometry :: q_rect
  kw_frame_geometry :: q_rect
  kw_pid :: i32
  kw_valid :: bool

definition q_rect_of :: "net_rect \<Rightarrow> q_rect" where
  "q_rect_of r = (sint (pt_x (rect_pos r)), sint (pt_y (rect_pos r)), sint (sz_width (rect_size r)), sint (sz_height (rect_size r)))"

definition filled :: "cstr \<Rightarrow> bool" where
  "filled s \<longleftrightarrow> (case s of Some (_ # _) \<Rightarrow> True | _ \<Rightarrow> False)"

definition text_of_name :: "window_env \<Rightarrow> cstr \<Rightarrow> qstring" where
  "text_of_name E s = (case s of Some t \<Rightarrow> fromUtf8 (we_qt E) t | None \<Rightarrow> [])"

text \<open>What is asked for because it may be needed.\<close>

definition forced :: "bool \<Rightarrow> u32 \<Rightarrow> u32 \<Rightarrow> u32 \<times> u32" where
  "forced viewport p0 q0 =
     (let p1 = (if hasf p0 (prop_flag WMVisibleIconName) then p0 OR (prop_flag WMIconName OR prop_flag WMVisibleName) else p0);
          p2 = (if hasf p1 (prop_flag WMVisibleName) then p1 OR prop_flag WMName else p1);
          p3 = (if hasf q0 (prop2_flag WM2ExtendedStrut) then p2 OR prop_flag WMStrut else p2);
          q1 = (if hasf p3 (prop_flag WMWindowType) then q0 OR prop2_flag WM2TransientFor else q0);
          p4 = (if hasf p3 (prop_flag WMDesktop) \<and> viewport then p3 OR prop_flag WMGeometry else p3)
      in (p4 OR prop_flag XAWMState, q1))"

definition read_name_of :: "window_env \<Rightarrow> u32 \<Rightarrow> cstr \<Rightarrow> u32 \<Rightarrow> qstring" where
  "read_name_of E window name atom = (if filled name then text_of_name E name else readNameProperty E window atom)"

definition new_window_info :: "x_display \<Rightarrow> x_app \<Rightarrow> window_env \<Rightarrow> extras \<Rightarrow> u32 \<Rightarrow> u32 \<Rightarrow> u32 \<Rightarrow> kwindow_info" where
  "new_window_info X A E s window properties0 properties20 =
     (let d = \<lparr>kw_window = window, kw_properties = properties0, kw_properties2 = properties20, kw_info = None,
               kw_name = [], kw_iconic_name = [], kw_geometry = (0, 0, 0, 0), kw_frame_geometry = (0, 0, 0, 0),
               kw_pid = - 1, kw_valid = False\<rparr>
      in if \<not> we_x11 E then d
         else
           (let (properties, properties2) = forced (extras_mapViewport X A s) properties0 properties20;
                info = open_win X A window properties properties2;
                asks = hasf properties (prop_flag WMGeometry OR prop_flag WMFrameExtents);
                (info1, frame, geom) = kdeGeometry (we_geometry E) (we_translated E) info
            in d\<lparr>kw_info := Some (if asks then info1 else info),
                 kw_name := (if hasf properties (prop_flag WMName)
                             then read_name_of E window (wi_name info) XCB_ATOM_WM_NAME else []),
                 kw_iconic_name := (if hasf properties (prop_flag WMIconName)
                             then read_name_of E window (wi_icon_name info) XCB_ATOM_WM_ICON_NAME else []),
                 kw_geometry := (if asks then q_rect_of geom else (0, 0, 0, 0)),
                 kw_frame_geometry := (if asks then q_rect_of frame else (0, 0, 0, 0)),
                 kw_valid := \<not> we_error E,
                 kw_pid := (case we_pid E of Some pid \<Rightarrow> pid | None \<Rightarrow> - 1)\<rparr>))"

section \<open>Answers\<close>

text \<open>\<^verbatim>\<open>CHECK_X11\<close>: without X11 every answer is the default of its type.\<close>

definition checked :: "'a \<Rightarrow> (win_info \<Rightarrow> 'a) \<Rightarrow> kwindow_info \<Rightarrow> 'a" where
  "checked none answer k = (case kw_info k of None \<Rightarrow> none | Some info \<Rightarrow> answer info)"

definition kw_state :: "kwindow_info \<Rightarrow> u32" where
  "kw_state = checked 0 wi_state"

definition hasState :: "kwindow_info \<Rightarrow> u32 \<Rightarrow> bool" where
  "hasState k s = checked False (\<lambda>_. kw_state k AND s = s) k"

text \<open>The default of the mapping state is zero, that is \<^verbatim>\<open>Withdrawn\<close>.\<close>

definition kw_mappingState :: "kwindow_info \<Rightarrow> mapping_state" where
  "kw_mappingState = checked Withdrawn wi_mapping_state"

definition kw_valid_now :: "kwindow_info \<Rightarrow> bool \<Rightarrow> bool" where
  "kw_valid_now k withdrawn_is_valid =
     (kw_info k \<noteq> None \<and> kw_valid k \<and> (withdrawn_is_valid \<or> kw_mappingState k \<noteq> Withdrawn))"

text \<open>
  What the window manager supports is asked once; the first answer is kept (\<open>cache\<close>) for as long as the
  program runs.
\<close>

definition ask_once :: "x_display \<Rightarrow> x_app \<Rightarrow> support \<Rightarrow> bool option \<Rightarrow> bool" where
  "ask_once X A flag cache =
     (case cache of Some b \<Rightarrow> b | None \<Rightarrow> isSupported (open_root X A (prop_flag Supported) 0) flag)"

definition icccmCompliantMappingState :: "x_display \<Rightarrow> x_app \<Rightarrow> bool option \<Rightarrow> bool option \<times> bool" where
  "icccmCompliantMappingState X A cache =
     (let b = ask_once X A (SupState Hidden) cache in (Some b, b))"

definition allowedActionsSupported :: "x_display \<Rightarrow> x_app \<Rightarrow> bool option \<Rightarrow> bool option \<times> bool" where
  "allowedActionsSupported X A cache =
     (let b = ask_once X A (SupProp2 WM2AllowedActions) cache in (Some b, b))"

definition isMinimized :: "x_display \<Rightarrow> x_app \<Rightarrow> kwindow_info \<Rightarrow> bool option \<Rightarrow> bool option \<times> bool" where
  "isMinimized X A k cache = checked (cache, False) (\<lambda>_.
     if kw_mappingState k \<noteq> Iconic then (cache, False)
     else if hasf (kw_state k) (state_flag Hidden) \<and> \<not> hasf (kw_state k) (state_flag Shaded) then (cache, True)
     else (let (c, b) = icccmCompliantMappingState X A cache in (c, \<not> b))) k"

definition actionSupported :: "x_display \<Rightarrow> x_app \<Rightarrow> kwindow_info \<Rightarrow> net_action \<Rightarrow> bool option \<Rightarrow> bool option \<times> bool" where
  "actionSupported X A k action cache = checked (cache, False) (\<lambda>info.
     let (c, b) = allowedActionsSupported X A cache
     in (c, if b then hasf (wi_allowed_actions info) (action_flag action) else True)) k"

text \<open>An extended strut is built from a simple one if there is none.\<close>

definition kw_extendedStrut :: "window_env \<Rightarrow> kwindow_info \<Rightarrow> net_extended_strut" where
  "kw_extendedStrut E = checked extended_strut0 (\<lambda>info.
     let ext = wi_extended_strut info; str = wi_strut info
     in if left_width ext = 0 \<and> right_width ext = 0 \<and> top_width ext = 0 \<and> bottom_width ext = 0 \<and> has_strut str
        then
          (let e1 = (if strut_left str \<noteq> 0
                     then ext\<lparr>left_width := strut_left str, left_start := 0, left_end := we_screen_height E\<rparr> else ext);
               e2 = (if strut_right str \<noteq> 0
                     then e1\<lparr>right_width := strut_right str, right_start := 0, right_end := we_screen_height E\<rparr> else e1);
               e3 = (if strut_top str \<noteq> 0
                     then e2\<lparr>top_width := strut_top str, top_start := 0, top_end := we_screen_width E\<rparr> else e2)
           in if strut_bottom str \<noteq> 0
              then e3\<lparr>bottom_width := strut_bottom str, bottom_start := 0, bottom_end := we_screen_width E\<rparr> else e3)
        else ext)"

text \<open>The default of the enumeration of window types is zero, that is \<^verbatim>\<open>Normal\<close>.\<close>

definition kw_windowType :: "kwindow_info \<Rightarrow> u32 \<Rightarrow> window_type" where
  "kw_windowType k supported_types = checked Normal (\<lambda>info.
     if \<not> hasWindowType info \<and> wi_transient_for info \<noteq> 0 \<and> hasf supported_types (type_flag DialogMask) then Dialog
     else if \<not> hasWindowType info \<and> wi_transient_for info = 0 \<and> hasf supported_types (type_flag NormalMask) then Normal
     else windowType info supported_types) k"

text \<open>Names, with their fallbacks.\<close>

definition visibleName :: "window_env \<Rightarrow> kwindow_info \<Rightarrow> qstring" where
  "visibleName E k = checked [] (\<lambda>info.
     if filled (wi_visible_name info) then text_of_name E (wi_visible_name info) else kw_name k) k"

definition visibleIconName :: "window_env \<Rightarrow> kwindow_info \<Rightarrow> qstring" where
  "visibleIconName E k = checked [] (\<lambda>info.
     if filled (wi_visible_icon_name info) then text_of_name E (wi_visible_icon_name info)
     else if filled (wi_icon_name info) then text_of_name E (wi_icon_name info)
     else if kw_iconic_name k \<noteq> [] then kw_iconic_name k
     else visibleName E k) k"

definition kw_iconName :: "window_env \<Rightarrow> kwindow_info \<Rightarrow> qstring" where
  "kw_iconName E k = checked [] (\<lambda>info.
     if filled (wi_icon_name info) then text_of_name E (wi_icon_name info)
     else if kw_iconic_name k \<noteq> [] then kw_iconic_name k
     else kw_name k) k"

definition parenthesised :: "qstring \<Rightarrow> qstring" where
  "parenthesised s = qchar CHR ''('' # s @ [qchar CHR '')'']"

definition visibleNameWithState ::
  "x_display \<Rightarrow> x_app \<Rightarrow> window_env \<Rightarrow> kwindow_info \<Rightarrow> bool option \<Rightarrow> bool option \<times> qstring" where
  "visibleNameWithState X A E k cache = checked (cache, []) (\<lambda>_.
     let (c, m) = isMinimized X A k cache in (c, if m then parenthesised (visibleName E k) else visibleName E k)) k"

definition visibleIconNameWithState ::
  "x_display \<Rightarrow> x_app \<Rightarrow> window_env \<Rightarrow> kwindow_info \<Rightarrow> bool option \<Rightarrow> bool option \<times> qstring" where
  "visibleIconNameWithState X A E k cache = checked (cache, []) (\<lambda>_.
     let (c, m) = isMinimized X A k cache in (c, if m then parenthesised (visibleIconName E k) else visibleIconName E k)) k"

text \<open>Desktops: with a large desktop, of the geometry that was read, or of a state.\<close>

definition onAllDesktops :: "x_display \<Rightarrow> x_app \<Rightarrow> extras \<Rightarrow> kwindow_info \<Rightarrow> bool" where
  "onAllDesktops X A s k = checked False (\<lambda>info.
     if extras_mapViewport X A s
     then hasf (wi_state (if hasf (wi_properties info) (prop_flag WMState) then info
                          else open_win X A (kw_window k) (prop_flag WMState) 0)) (state_flag Sticky)
     else win_desktop False 0 info False = OnAllDesktops) k"

definition extras_viewportWindowToDesktop ::
  "x_display \<Rightarrow> x_app \<Rightarrow> q_rect \<Rightarrow> extras \<Rightarrow> extras \<times> extras_effect list \<times> i32" where
  "extras_viewportWindowToDesktop X A rect =
     asking X A (\<lambda>F. word_of_int (the (viewportWindowToDesktop
       (viewport_of (xd_width X) (xd_height X) (ef_info F)) (xd_scaled X) rect)))"

definition isOnDesktop :: "x_display \<Rightarrow> x_app \<Rightarrow> kwindow_info \<Rightarrow> i32 \<Rightarrow> extras \<Rightarrow> extras \<times> extras_effect list \<times> bool" where
  "isOnDesktop X A k desktop s = checked (s, [], False) (\<lambda>info.
     if extras_mapViewport X A s
     then (if onAllDesktops X A s k then (s, [], True)
           else (let (t, es, d) = extras_viewportWindowToDesktop X A (kw_geometry k) s in (t, es, d = desktop)))
     else (s, [], win_desktop False 0 info False = desktop \<or> win_desktop False 0 info False = OnAllDesktops)) k"

definition isOnCurrentDesktop :: "x_display \<Rightarrow> x_app \<Rightarrow> kwindow_info \<Rightarrow> extras \<Rightarrow> extras \<times> extras_effect list \<times> bool" where
  "isOnCurrentDesktop X A k s = checked (s, [], False) (\<lambda>_.
     let (t, es, d) = extras_currentDesktop X A s; (u, fs, b) = isOnDesktop X A k d t in (u, es @ fs, b)) k"

definition kw_desktop :: "x_display \<Rightarrow> x_app \<Rightarrow> kwindow_info \<Rightarrow> extras \<Rightarrow> extras \<times> extras_effect list \<times> i32" where
  "kw_desktop X A k s = checked (s, [], 0) (\<lambda>info.
     if extras_mapViewport X A s
     then (if onAllDesktops X A s k then (s, [], OnAllDesktops)
           else extras_viewportWindowToDesktop X A (kw_geometry k) s)
     else (s, [], win_desktop False 0 info False)) k"

text \<open>Activities: the parts between commas that are not empty; the null UUID stands for all.\<close>

definition kw_activities :: "window_env \<Rightarrow> kwindow_info \<Rightarrow> qstring list" where
  "kw_activities E = checked [] (\<lambda>info.
     let result = words_of (\<lambda>c. c = qchar CHR '','') (we_latin1 E (case wi_activities info of None \<Rightarrow> [] | Some s \<Rightarrow> s))
     in if qs nulluuid \<in> set result then [] else result)"

text \<open>The process: as XRes says, or as the window says.\<close>

definition kw_process :: "kwindow_info \<Rightarrow> i32" where
  "kw_process k = checked 0 (\<lambda>info. if 0 < sint (kw_pid k) then kw_pid k else wi_pid info) k"

text \<open>Byte arrays of texts of the window.\<close>

definition text_bytes :: "cstr \<Rightarrow> string" where
  "text_bytes s = (case s of None \<Rightarrow> [] | Some t \<Rightarrow> t)"

definition windowClassClass :: "kwindow_info \<Rightarrow> string" where
  "windowClassClass = checked [] (text_bytes \<circ> wi_class_class)"

definition windowClassName :: "kwindow_info \<Rightarrow> string" where
  "windowClassName = checked [] (text_bytes \<circ> wi_class_name)"

definition kw_windowRole :: "kwindow_info \<Rightarrow> string" where
  "kw_windowRole = checked [] (text_bytes \<circ> wi_window_role)"

definition clientMachine :: "kwindow_info \<Rightarrow> string" where
  "clientMachine = checked [] (text_bytes \<circ> wi_client_machine)"

definition kw_desktopFileName :: "kwindow_info \<Rightarrow> string" where
  "kw_desktopFileName = checked [] (text_bytes \<circ> wi_desktop_file)"

definition gtkApplicationId :: "kwindow_info \<Rightarrow> string" where
  "gtkApplicationId = checked [] (text_bytes \<circ> wi_gtk_application_id)"

definition applicationMenuServiceName :: "kwindow_info \<Rightarrow> string" where
  "applicationMenuServiceName = checked [] (text_bytes \<circ> wi_appmenu_service_name)"

definition applicationMenuObjectPath :: "kwindow_info \<Rightarrow> string" where
  "applicationMenuObjectPath = checked [] (text_bytes \<circ> wi_appmenu_object_path)"

definition kw_transientFor :: "kwindow_info \<Rightarrow> u32" where
  "kw_transientFor = checked 0 wi_transient_for"

definition kw_groupLeader :: "kwindow_info \<Rightarrow> u32" where
  "kw_groupLeader = checked 0 wi_window_group"

definition geometry_asked :: "kwindow_info \<Rightarrow> q_rect" where
  "geometry_asked k = checked (0, 0, 0, 0) (\<lambda>_. kw_geometry k) k"

definition frame_geometry_asked :: "kwindow_info \<Rightarrow> q_rect" where
  "frame_geometry_asked k = checked (0, 0, 0, 0) (\<lambda>_. kw_frame_geometry k) k"

end
