(* ===== verification/Tracker.thy ===== *)
theory Tracker
  imports ClientTracker
begin

text \<open>
  Lemmas on \<^verbatim>\<open>NETEventFilter\<close>: its list of windows is the set of the client list without
  repetition (a data refinement), and the cache of struts holds only what is known of its windows.
\<close>

section \<open>The effects of single calls\<close>

lemma removed_struts:
  assumes "distinct (map fst xs)"
  shows "remove_first w xs = filter (\<lambda>(v, _). v \<noteq> w) xs"
  using assms
proof (induction w xs rule: remove_first.induct)
  case (2 w v s rest)
  have "filter (\<lambda>(v, _). v \<noteq> w) rest = rest" if "v = w"
    using "2.prems" that by (auto simp: filter_id_conv rev_image_eqI)
  then show ?case using "2.IH" "2.prems" by simp
qed simp

definition hooked :: "x_display \<Rightarrow> root_effect \<Rightarrow> event_filter \<Rightarrow> event_filter" where
  "hooked X e F = fst (run_hook X e (F, []))"

lemma run_hook_split: "run_hook X e (F, es) = (hooked X e F, es @ snd (run_hook X e (F, [])))"
proof (cases e)
  case (RootHook h)
  then show ?thesis by (cases h) (simp_all add: hooked_def case_prod_beta)
qed (simp_all add: hooked_def)

lemma fold_hook_fst: "fst (fold (run_hook X) es s) = fold (hooked X) es (fst s)"
proof (induction es arbitrary: s)
  case (Cons e es)
  have "fst (run_hook X e s) = hooked X e (fst s)"
    by (cases s) (metis run_hook_split fst_conv)
  then show ?case by (simp add: Cons)
qed simp

text \<open>What the filter keeps of its own lists.\<close>

definition filter_inv :: "event_filter \<Rightarrow> bool" where
  "filter_inv F \<longleftrightarrow>
     distinct (ef_windows F) \<and> distinct (map fst (ef_struts F) @ ef_possible F) \<and>
     fst ` set (ef_struts F) \<union> set (ef_possible F) \<subseteq> set (ef_windows F)"

lemma filter_inv_info [simp]:
  "filter_inv (F\<lparr>ef_info := p\<rparr>) = filter_inv F" "filter_inv (F\<lparr>ef_stacking := ws\<rparr>) = filter_inv F"
  "filter_inv (F\<lparr>ef_compositing := c\<rparr>) = filter_inv F" "filter_inv (F\<lparr>ef_strut_connected := c\<rparr>) = filter_inv F"
  by (simp_all add: filter_inv_def)

lemma filter_inv_distinct:
  "filter_inv F \<Longrightarrow> distinct (map fst (ef_struts F))"
  by (simp add: filter_inv_def)

definition windows_step :: "root_effect \<Rightarrow> u32 list \<Rightarrow> u32 list" where
  "windows_step e ws =
     (case e of
        RootHook (AddClient w) \<Rightarrow> ws @ [w]
      | RootHook (RemoveClient w) \<Rightarrow> removeAll w ws
      | _ \<Rightarrow> ws)"

lemma addClient_frame:
  "ef_windows (fst (addClient X w F)) = ef_windows F @ [w]" "ef_info (fst (addClient X w F)) = ef_info F"
  by (simp_all add: addClient_def Let_def case_prod_beta)

lemma removeClient_frame:
  "ef_windows (fst (removeClient X w F)) = removeAll w (ef_windows F)"
  "ef_info (fst (removeClient X w F)) = ef_info F"
  by (simp_all add: removeClient_def removeStrutWindow_def Let_def)

lemma hooked_windows:
  "ef_windows (hooked X e F) = windows_step e (ef_windows F)" "ef_info (hooked X e F) = ef_info F"
proof -
  have "ef_windows (hooked X e F) = windows_step e (ef_windows F) \<and> ef_info (hooked X e F) = ef_info F"
  proof (cases e)
    case (RootHook h)
    then show ?thesis
      by (cases h) (simp_all add: hooked_def windows_step_def case_prod_beta addClient_frame removeClient_frame)
  qed (simp_all add: hooked_def windows_step_def)
  then show "ef_windows (hooked X e F) = windows_step e (ef_windows F)" "ef_info (hooked X e F) = ef_info F"
    by simp_all
qed

lemma fold_hooked_windows:
  "ef_windows (fold (hooked X) es F) = fold windows_step es (ef_windows F)"
  "ef_info (fold (hooked X) es F) = ef_info F"
  by (induction es arbitrary: F) (simp_all add: hooked_windows)

lemma addClient_inv:
  assumes "filter_inv F" "w \<notin> set (ef_windows F)"
  shows "filter_inv (fst (addClient X w F))"
  using assms by (auto simp: filter_inv_def addClient_def Let_def case_prod_beta)

lemma removeClient_inv:
  assumes "filter_inv F"
  shows "filter_inv (fst (removeClient X w F))"
  using assms
  by (auto simp: filter_inv_def removeClient_def removeStrutWindow_def Let_def case_prod_beta
      removed_struts distinct_map inj_on_def distinct_removeAll)

text \<open>A run of removals and a run of additions.\<close>

abbreviation removals :: "u32 list \<Rightarrow> root_effect list" where
  "removals ws \<equiv> map (RootHook \<circ> RemoveClient) ws"

abbreviation additions :: "u32 list \<Rightarrow> root_effect list" where
  "additions ws \<equiv> map (RootHook \<circ> AddClient) ws"

lemma fold_removals:
  "filter_inv F \<Longrightarrow> filter_inv (fold (hooked X) (removals rs) F) \<and>
     set (ef_windows (fold (hooked X) (removals rs) F)) = set (ef_windows F) - set rs"
  by (induction rs arbitrary: F)
    (auto simp: hooked_def case_prod_beta removeClient_inv removeClient_frame)

lemma fold_additions:
  "filter_inv F \<Longrightarrow> distinct as \<Longrightarrow> set as \<inter> set (ef_windows F) = {} \<Longrightarrow>
     filter_inv (fold (hooked X) (additions as) F) \<and>
     set (ef_windows (fold (hooked X) (additions as) F)) = set (ef_windows F) \<union> set as"
proof (induction as arbitrary: F)
  case (Cons a as)
  then have "filter_inv (fst (addClient X a F))" "set as \<inter> set (ef_windows (fst (addClient X a F))) = {}"
    using addClient_inv [of F a X] by (auto simp: addClient_frame)
  then show ?case using Cons.IH [of "fst (addClient X a F)"] Cons.prems(2)
    by (auto simp: hooked_def case_prod_beta addClient_frame)
qed simp

section \<open>The client list and the calls of update()\<close>

definition client_set :: "root_info \<Rightarrow> u32 set" where
  "client_set p = (case ri_clients p of None \<Rightarrow> {} | Some ws \<Rightarrow> set ws)"

definition list_inv :: "root_info \<Rightarrow> bool" where
  "list_inv p \<longleftrightarrow> ri_role p = Client \<and>
     (\<forall>ws. ri_clients p = Some ws \<longrightarrow> ri_clients_count p = length ws \<and> sorted ws \<and> distinct ws)"

definition same_list :: "root_info \<Rightarrow> root_info \<Rightarrow> bool" where
  "same_list p q \<longleftrightarrow> ri_clients q = ri_clients p \<and> ri_clients_count q = ri_clients_count p \<and>
     ri_role q = ri_role p \<and> ri_root q = ri_root p"

text \<open>The calls lead from the list of \<open>p\<close> to the list of the new data.\<close>

definition in_step :: "root_info \<Rightarrow> root_step \<Rightarrow> bool" where
  "in_step p = (\<lambda>(q, es). \<exists>rs as. es = removals rs @ additions as \<and> distinct as \<and>
     set rs \<subseteq> client_set p \<and> set as \<inter> (client_set p - set rs) = {} \<and> client_set q = client_set p - set rs \<union> set as \<and>
     list_inv q \<and> ri_root q = ri_root p)"

lemma in_stepI:
  assumes "es = removals rs @ additions as" "distinct as" "set rs \<subseteq> client_set p" "set as \<inter> (client_set p - set rs) = {}"
    and "client_set q = client_set p - set rs \<union> set as" "list_inv q" "ri_root q = ri_root p"
  shows "in_step p (q, es)"
  using assms unfolding in_step_def prod.case by blast

lemma same_list_refl: "same_list p p"
  by (simp add: same_list_def)

lemma same_list_in_step: "in_step p (q, es) \<Longrightarrow> same_list q r \<Longrightarrow> in_step p (r, es)"
  by (auto simp: in_step_def same_list_def list_inv_def client_set_def)

lemma in_step_start: "list_inv p \<Longrightarrow> in_step p (p, [])"
  by (force simp: in_step_def)

lemma same_list_step: "list_inv p \<Longrightarrow> same_list p q \<Longrightarrow> in_step p (q, [])"
  by (rule same_list_in_step [OF in_step_start])

lemma reads_same:
  "same_list p (read_supported at r p)" "same_list p (read_stacking at r p)"
  "same_list p (read_number_of_desktops at r p)" "same_list p (read_geometry at r p)"
  "same_list p (read_viewport at r p)" "same_list p (read_current_desktop at r p)"
  "same_list p (read_desktop_names at r p)" "same_list p (read_active at r p)"
  "same_list p (read_workarea at r p)" "same_list p (read_supporting_check at r p)"
  "same_list p (read_virtual_roots at r p)" "same_list p (read_layout at r p)"
  "same_list p (read_showing at r p)" "same_list p (read_wm_name at srv d p)"
proof -
  have fold: "same_list p (fold (updateSupportedProperties at) ws q) = same_list p q" for ws q
    by (induction ws arbitrary: q) (simp_all add: same_list_def updateSupportedProperties_def split: option.split)
  show "same_list p (read_supported at r p)" by (simp add: read_supported_def fold) (simp add: same_list_def)
qed (simp_all add: same_list_def read_stacking_def read_number_of_desktops_def read_geometry_def
    read_viewport_def read_current_desktop_def read_desktop_names_def read_active_def read_workarea_def
    read_supporting_check_def read_virtual_roots_def read_layout_def read_showing_def read_wm_name_def Let_def)

text \<open>The difference of two sorted lists without repetition is the difference of their sets.\<close>

lemma client_diff_sets:
  assumes "sorted old" "sorted new" "distinct old" "distinct new"
  shows "set (fst (client_diff old new)) = set old - set new"
    "set (snd (client_diff old new)) = set new - set old" "distinct (snd (client_diff old new))"
proof -
  note d = client_diff_mset [OF assms(1,2)]
  have count: "count (mset xs - mset ys) x = (if x \<in> set xs - set ys then 1 else 0)"
    if "distinct xs" "distinct ys" for xs ys :: "u32 list" and x
    using that by (simp add: distinct_count_atmost_1)
  have sets: "set zs = set xs - set ys \<and> distinct zs"
    if "mset zs = mset xs - mset ys" "distinct xs" "distinct ys" for xs ys zs :: "u32 list"
  proof -
    have "count (mset zs) x = (if x \<in> set xs - set ys then 1 else 0)" for x
      using that(1) count [OF that(2,3)] by simp
    moreover from this have "set zs = set xs - set ys"
      by (metis (no_types, opaque_lifting) count_mset_0_iff set_eqI zero_neq_one)
    ultimately show ?thesis by (simp add: distinct_count_atmost_1)
  qed
  show "set (fst (client_diff old new)) = set old - set new"
    using sets [of "fst (client_diff old new)" old new] d assms by blast
  show "set (snd (client_diff old new)) = set new - set old" "distinct (snd (client_diff old new))"
    using sets [of "snd (client_diff old new)" new old] d assms by blast+
qed

definition distinct_list :: "atom_env \<Rightarrow> xreply option \<Rightarrow> bool" where
  "distinct_list at reply \<longleftrightarrow> distinct (get_array_reply reply (at XaWindow))"

lemma in_step_client_list:
  assumes "list_inv p" "same_list p q" "distinct_list at reply"
  shows "in_step p (read_client_list at reply (q, []))"
proof -
  let ?new = "sort (get_array_reply reply (at XaWindow))"
  have new: "sorted ?new" "distinct ?new" using assms(3) by (simp_all add: distinct_list_def)
  have q: "list_inv q" "ri_root q = ri_root p" "ri_clients q = ri_clients p" "ri_role q = Client"
    using assms(1,2) by (auto simp: list_inv_def same_list_def)
  show ?thesis
  proof (cases "ri_clients p")
    case None
    have "read_client_list at reply (q, []) =
        (if ?new = [] then q\<lparr>ri_clients := None\<rparr>
         else q\<lparr>ri_clients := Some ?new, ri_clients_count := length ?new\<rparr>, removals [] @ additions ?new)"
      using q None by (auto simp: read_client_list_def Let_def)
    moreover have "client_set p = {}" using None by (simp add: client_set_def)
    ultimately show ?thesis
      using q new by (auto simp: client_set_def list_inv_def intro!: in_stepI [of _ "[]" ?new])
  next
    case (Some old)
    have old: "sorted old" "distinct old" "take (ri_clients_count q) old = old"
      using assms(1,2) Some by (auto simp: list_inv_def same_list_def)
    obtain rs as where d: "client_diff old ?new = (rs, as)" by force
    have sets: "set rs = set old - set ?new" "set as = set ?new - set old" "distinct as"
      using client_diff_sets [OF old(1) new(1) old(2) new(2)] d by simp_all
    have "client_set p = set old" using Some by (simp add: client_set_def)
    moreover have "read_client_list at reply (q, []) =
        (if ?new = [] then q\<lparr>ri_clients := None\<rparr>
         else q\<lparr>ri_clients := Some ?new, ri_clients_count := length ?new\<rparr>, removals rs @ additions as)"
      using q(3,4) Some old(3) d by (auto simp: read_client_list_def Let_def)
    ultimately show ?thesis
      using sets q new by (auto simp: client_set_def list_inv_def intro!: in_stepI [of _ rs as])
  qed
qed

section \<open>update() and event()\<close>

lemma in_step_quiet:
  assumes "in_step p s" "\<And>q. same_list q (f r q)"
  shows "in_step p (quiet f r s)"
  using assms by (cases s) (auto simp: quiet_def intro: same_list_in_step)

definition list_request :: "atom_env \<Rightarrow> u32 \<Rightarrow> get_property" where
  "list_request at root = GetProperty root (at (Kws NET_CLIENT_LIST)) (at XaWindow) 0 MAX_PROP_SIZE"

lemma update_in_step:
  assumes "list_inv p" "distinct_list at (srv (list_request at (ri_root p)))"
  shows "in_step p (root_update at srv p props props2)"
proof -
  have one: "in_step p (run_direct srv d s)" if "d \<in> set (drop 2 (root_directs at p d1 d2))" "in_step p s" for d s d1 d2
    using that by (simp add: root_directs_def) (elim disjE; simp add: in_step_quiet reads_same)
  have "in_step p (fold (run_direct srv) (root_directs at p d1 d2) (p, []))" for d1 d2
  proof -
    obtain q where first: "run_direct srv (root_directs at p d1 d2 ! 0) (p, []) = (q, [])" "same_list p q"
      by (rule that [of "if hasf d1 (prop_flag Supported)
            then read_supported at (srv (root_get at p NET_SUPPORTED XaAtom MAX_PROP_SIZE)) p else p"])
        (simp_all add: root_directs_def quiet_def reads_same same_list_refl)
    have second: "in_step p (run_direct srv (root_directs at p d1 d2 ! 1) (q, []))"
      using in_step_client_list [OF assms(1) first(2) assms(2)] same_list_step [OF assms(1) first(2)]
      by (simp add: root_directs_def root_get_def list_request_def)
    have split: "root_directs at p d1 d2 =
        root_directs at p d1 d2 ! 0 # root_directs at p d1 d2 ! 1 # drop 2 (root_directs at p d1 d2)"
      by (simp add: root_directs_def)
    have "in_step p (fold (run_direct srv) (drop 2 (root_directs at p d1 d2))
        (run_direct srv (root_directs at p d1 d2 ! 1) (q, [])))"
      by (rule fold_invariant_in [where I = "in_step p"]) (use one second in auto)
    then show ?thesis by (subst split) (simp add: first(1))
  qed
  then show ?thesis
    by (auto simp: root_update_is_direct root_update_direct_def Let_def case_prod_beta
        intro!: same_list_in_step [OF _ reads_same(14)])
qed

lemma event_in_step:
  assumes "list_inv p" "distinct_list at (srv (list_request at (ri_root p)))"
  shows "in_step p (fst (root_event at srv p ev))"
proof (cases ev)
  case (PropertyNotify atom)
  then show ?thesis using assms by (simp add: case_prod_beta update_in_step)
qed (use assms(1) in \<open>auto simp: in_step_start list_inv_def\<close>)

lemma activate_in_step:
  assumes "list_inv p" "distinct_list at (srv (list_request at (ri_root p)))"
  shows "in_step p (activate at srv p)"
  using assms by (simp add: activate_def list_inv_def update_in_step)

end
