(* ===== verification/ExtrasRun.thy ===== *)
theory ExtrasRun
  imports Tracker Extras
begin

text \<open>
  Runs of \<^verbatim>\<open>KX11Extras\<close>: whatever a program asks and whatever events arrive, in any order
  and with any answers of the server.  The invariant of the filter holds in all of them, and a
  listener that replays the signals about windows knows the list of windows.
\<close>

section \<open>Runs\<close>

datatype extras_op =
    OpEvent x_display u32 xevent
  | OpSelection u32 u32 u32 u32
  | OpConnect x_display x_app notified_signal
  | OpAsk x_display x_app
  | OpWorkArea x_display x_app "qrect \<Rightarrow> qrect \<Rightarrow> qrect" "u32 set" i32
  | OpRename x_display x_app i32 string
  | OpCurrent x_display x_app i32
  | OpMove x_display x_app "int \<times> int \<times> int \<times> int" u32 i32

fun extras_apply :: "extras_op \<Rightarrow> extras \<Rightarrow> extras \<times> extras_effect list" where
  "extras_apply (OpEvent X w ev) s = extras_event X w ev s"
| "extras_apply (OpSelection cm window selection owner) s =
     (case s of None \<Rightarrow> (None, [])
      | Some F \<Rightarrow> (let (_, G, es) = filter_selection_event cm window selection owner F in (Some G, map XsSignal es)))"
| "extras_apply (OpConnect X A signal) s = connectNotify X A signal s"
| "extras_apply (OpAsk X A) s = (let (t, es, _) = extras_windows X A s in (t, es))"
| "extras_apply (OpWorkArea X A meet exclude desktop) s =
     (let (t, es, _) = extras_workArea_beside X A meet exclude desktop s in (t, es))"
| "extras_apply (OpRename X A desktop name) s = extras_setDesktopName X A desktop name s"
| "extras_apply (OpCurrent X A desktop) s = extras_setCurrentDesktop X A desktop s"
| "extras_apply (OpMove X A geometry win desktop) s = setOnDesktop X A geometry win desktop s"

primrec extras_run :: "extras_op list \<Rightarrow> extras \<Rightarrow> extras \<times> extras_effect list" where
  "extras_run [] s = (s, [])"
| "extras_run (x # ops) s = (let (t, es) = extras_apply x s; (u, fs) = extras_run ops t in (u, es @ fs))"

text \<open>The server never names a window twice in the list of clients.\<close>

definition reads_distinct :: "x_display \<Rightarrow> bool" where
  "reads_distinct X \<longleftrightarrow> (\<forall>root. distinct_list (xd_atoms X) (xd_server X (list_request (xd_atoms X) root)))"

fun op_distinct :: "extras_op \<Rightarrow> bool" where
  "op_distinct (OpEvent X w ev) = reads_distinct X"
| "op_distinct (OpSelection cm window selection owner) = True"
| "op_distinct (OpConnect X A signal) = reads_distinct X"
| "op_distinct (OpAsk X A) = reads_distinct X"
| "op_distinct (OpWorkArea X A meet exclude desktop) = reads_distinct X"
| "op_distinct (OpRename X A desktop name) = reads_distinct X"
| "op_distinct (OpCurrent X A desktop) = reads_distinct X"
| "op_distinct (OpMove X A geometry win desktop) = reads_distinct X"

section \<open>What a listener knows\<close>

fun heard_signal :: "extras_signal \<Rightarrow> u32 set \<Rightarrow> u32 set" where
  "heard_signal (WindowAdded w) K = insert w K"
| "heard_signal (WindowRemoved w) K = K - {w}"
| "heard_signal _ K = K"

fun heard_effect :: "extras_effect \<Rightarrow> u32 set \<Rightarrow> u32 set" where
  "heard_effect (XsSignal e) K = heard_signal e K"
| "heard_effect _ K = K"

abbreviation heard_signals :: "extras_signal list \<Rightarrow> u32 set \<Rightarrow> u32 set" where
  "heard_signals es K \<equiv> fold heard_signal es K"

abbreviation told :: "extras_effect list \<Rightarrow> u32 set \<Rightarrow> u32 set" where
  "told es K \<equiv> fold heard_effect es K"

lemma heard_map_signals [simp]: "told (map XsSignal es) K = heard_signals es K"
  by (induction es arbitrary: K) simp_all

lemma heard_map_requests [simp]:
  "told (map XsRoot rs) K = K" "told (map XsWin ws) K = K"
  by (induction rs arbitrary: K) (simp_all, induction ws arbitrary: K, simp_all)

section \<open>The invariant\<close>

definition tracked :: "event_filter \<Rightarrow> bool" where
  "tracked F \<longleftrightarrow> filter_inv F \<and> list_inv (ef_info F) \<and> set (ef_windows F) = client_set (ef_info F)"

definition extras_inv :: "extras \<Rightarrow> bool" where
  "extras_inv s \<longleftrightarrow> (case s of None \<Rightarrow> True | Some F \<Rightarrow> tracked F)"

lemma extras_inv_simps [simp]: "extras_inv None" "extras_inv (Some F) = tracked F"
  by (simp_all add: extras_inv_def)

lemma tracked_frame [simp]:
  "tracked (F\<lparr>ef_stacking := ws\<rparr>) = tracked F" "tracked (F\<lparr>ef_compositing := c\<rparr>) = tracked F"
  "tracked (F\<lparr>ef_strut_connected := c\<rparr>) = tracked F"
  by (simp_all add: tracked_def)

lemma tracked_calls:
  assumes "tracked F" "in_step (ef_info F) (q, es)"
  shows "tracked (fold (hooked X) es (F\<lparr>ef_info := q\<rparr>))"
proof -
  obtain rs as where c: "es = removals rs @ additions as" "distinct as"
      "set as \<inter> (client_set (ef_info F) - set rs) = {}"
      "client_set q = client_set (ef_info F) - set rs \<union> set as" "list_inv q"
    using assms(2) by (auto simp: in_step_def)
  let ?R = "fold (hooked X) (removals rs) (F\<lparr>ef_info := q\<rparr>)"
  have r: "filter_inv ?R" "set (ef_windows ?R) = client_set (ef_info F) - set rs"
    using fold_removals [of "F\<lparr>ef_info := q\<rparr>" X rs] assms(1) by (simp_all add: tracked_def)
  show ?thesis
    using fold_additions [OF r(1) c(2), of X] c(3-5) r(2)
    by (simp add: c(1) tracked_def fold_hooked_windows)
qed

lemma heard_hook:
  "heard_signals es K = set (ef_windows F) \<Longrightarrow>
     heard_signals (snd (run_hook X e (F, es))) K = set (ef_windows (fst (run_hook X e (F, es))))"
proof (cases e)
  case (RootHook h)
  assume "heard_signals es K = set (ef_windows F)"
  with RootHook show ?thesis
    by (cases h) (auto simp: addClient_def removeClient_def removeStrutWindow_def Let_def split: prod.split)
qed simp_all

lemma heard_calls:
  "heard_signals (snd s) K = set (ef_windows (fst s)) \<Longrightarrow>
     heard_signals (snd (fold (run_hook X) es s)) K = set (ef_windows (fst (fold (run_hook X) es s)))"
proof (induction es arbitrary: s)
  case (Cons e es)
  then show ?case using Cons.IH [OF heard_hook] by (cases s) simp
qed simp

lemma updateStackingOrder_frame [simp]:
  "tracked (updateStackingOrder F) = tracked F" "ef_windows (updateStackingOrder F) = ef_windows F"
  "ef_what (updateStackingOrder F) = ef_what F"
  by (simp_all add: updateStackingOrder_def)

section \<open>Every operation keeps the invariant\<close>

lemma tracked_new: "tracked (new_event_filter screens screen what x w c)"
  by (simp add: new_event_filter_def tracked_def filter_inv_def list_inv_def client_set_def
      NETRootInfo_client_def setDefaultProperties_def root_blank_def Let_def)

lemma new_windows: "ef_windows (new_event_filter screens screen what x w c) = []"
  by (simp add: new_event_filter_def)

lemma reads_distinctD:
  "reads_distinct X \<Longrightarrow> distinct_list (xd_atoms X) (xd_server X (list_request (xd_atoms X) root))"
  by (simp add: reads_distinct_def)

lemma trackedD: "tracked F \<Longrightarrow> list_inv (ef_info F)"
  by (simp add: tracked_def)

lemma calls_in_step:
  assumes "tracked F" "reads_distinct X"
  shows "in_step (ef_info F) (activate (xd_atoms X) (xd_server X) (ef_info F))"
    "in_step (ef_info F) (fst (root_event (xd_atoms X) (xd_server X) (ef_info F) ev))"
  using assms by (simp_all add: activate_in_step event_in_step trackedD reads_distinctD)

lemma activate_tracked:
  assumes "tracked F" "reads_distinct X"
  shows "tracked (fst (filter_activate X F))"
proof -
  obtain q es where a: "activate (xd_atoms X) (xd_server X) (ef_info F) = (q, es)" by force
  have "in_step (ef_info F) (q, es)"
    using calls_in_step(1) [OF assms] a by simp
  from tracked_calls [OF assms(1) this, of X] show ?thesis
    by (simp add: filter_activate_def a case_prod_beta fold_hook_fst)
qed

lemma activate_heard:
  assumes "ef_windows F = []"
  shows "heard_signals (snd (filter_activate X F)) {} = set (ef_windows (fst (filter_activate X F)))"
proof -
  obtain q es where a: "activate (xd_atoms X) (xd_server X) (ef_info F) = (q, es)" by force
  show ?thesis
    using heard_calls [of "(F\<lparr>ef_info := q\<rparr>, [])" "{}" X es] assms
    by (simp add: filter_activate_def a case_prod_beta)
qed

lemma root_event_tracked:
  assumes "tracked F" "reads_distinct X"
  shows "tracked (fst (filter_root_event X ev F))"
proof -
  obtain q es props props2 where e: "root_event (xd_atoms X) (xd_server X) (ef_info F) ev = ((q, es), props, props2)"
    by (metis surj_pair)
  have "in_step (ef_info F) (q, es)"
    using calls_in_step(2) [OF assms, of ev] e by simp
  from tracked_calls [OF assms(1) this, of X] show ?thesis
    by (simp add: filter_root_event_def e case_prod_beta fold_hook_fst Let_def)
qed

lemma heard_root_signals: "heard_signals (root_signals X p q props props2) K = K"
  by (simp add: root_signals_def)

lemma root_event_heard:
  "heard_signals (snd (filter_root_event X ev F)) (set (ef_windows F)) = set (ef_windows (fst (filter_root_event X ev F)))"
proof -
  obtain q es props props2 where e: "root_event (xd_atoms X) (xd_server X) (ef_info F) ev = ((q, es), props, props2)"
    by (metis surj_pair)
  show ?thesis
    using heard_calls [of "(F\<lparr>ef_info := q\<rparr>, [])" "set (ef_windows F)" X es]
    by (simp add: filter_root_event_def e case_prod_beta Let_def heard_root_signals)
qed

lemma window_event_frame:
  "ef_windows (fst (filter_window_event X w ev F)) = ef_windows F"
  "ef_info (fst (filter_window_event X w ev F)) = ef_info F"
  "heard_signals (snd (filter_window_event X w ev F)) K = K"
  by (simp_all add: filter_window_event_def Let_def removeStrutWindow_def split: prod.split)

lemma window_event_inv:
  assumes "filter_inv F"
  shows "filter_inv (fst (filter_window_event X w ev F))"
proof -
  have "filter_inv (F\<lparr>ef_struts := remove_first w (ef_struts F)\<rparr>)"
    using assms by (auto simp: filter_inv_def removed_struts distinct_map inj_on_def)
  moreover have "filter_inv (F\<lparr>ef_struts := remove_first w (ef_struts F), ef_possible := ef_possible F @ [w]\<rparr>)"
    if "w \<in> set (ef_windows F)" "w \<notin> set (ef_possible F)"
    using assms that by (auto simp: filter_inv_def removed_struts distinct_map inj_on_def)
  ultimately show ?thesis
    using assms by (auto simp: filter_window_event_def Let_def removeStrutWindow_def split: prod.split)
qed

lemma filter_event_tracked:
  "tracked F \<Longrightarrow> reads_distinct X \<Longrightarrow> tracked (fst (filter_event X w ev F))"
  by (auto simp: filter_event_def root_event_tracked)
    (simp add: tracked_def window_event_frame window_event_inv)

lemma filter_event_heard:
  "heard_signals (snd (filter_event X w ev F)) (set (ef_windows F)) = set (ef_windows (fst (filter_event X w ev F)))"
  by (simp add: filter_event_def root_event_heard window_event_frame)

lemma create_filter_tracked: "reads_distinct X \<Longrightarrow> tracked (fst (create_filter X A what was))"
  by (simp add: create_filter_def case_prod_beta activate_tracked tracked_new)

lemma create_filter_heard:
  "heard_signals (snd (create_filter X A what was)) {} = set (ef_windows (fst (create_filter X A what was)))"
  by (simp add: create_filter_def case_prod_beta activate_heard new_windows)

lemma init_tracked:
  "extras_inv s \<Longrightarrow> reads_distinct X \<Longrightarrow> tracked (fst (extras_init X A what s))"
  by (cases s) (simp_all add: create_filter_tracked)

lemma asking_frame:
  "fst (asking X A question s) = Some (fst (extras_init X A INFO_BASIC s))"
  "fst (snd (asking X A question s)) = map XsSignal (snd (extras_init X A INFO_BASIC s))"
  by (simp_all add: asking_def case_prod_beta)

lemma questions_inv:
  assumes "extras_inv s" "reads_distinct X"
  shows "extras_inv (fst (asking X A question s))" "extras_inv (fst (extras_numberOfDesktops X A s))"
    "extras_inv (fst (extras_currentDesktop X A s))"
  using assms by (simp_all add: asking_frame init_tracked extras_numberOfDesktops_def extras_currentDesktop_def)

lemma same_list_tracked: "tracked F \<Longrightarrow> same_list (ef_info F) p \<Longrightarrow> tracked (F\<lparr>ef_info := p\<rparr>)"
  by (auto simp: tracked_def same_list_def list_inv_def client_set_def)

lemma setDesktopName_same: "same_list p (fst (setDesktopName at p d n))"
  by (simp add: setDesktopName_def same_list_def Let_def)

lemma connectNotify_inv: "extras_inv s \<Longrightarrow> reads_distinct X \<Longrightarrow> extras_inv (fst (connectNotify X A signal s))"
  by (simp add: connectNotify_def case_prod_beta init_tracked)

text \<open>The cache of the struts.\<close>

lemma work_area_step_frame:
  assumes "filter_inv (fst s)" "w \<in> set (ef_windows (fst s))"
  shows "filter_inv (fst (work_area_step X meet all exclude desktop w s))"
    "ef_windows (fst (work_area_step X meet all exclude desktop w s)) = ef_windows (fst s)"
    "ef_info (fst (work_area_step X meet all exclude desktop w s)) = ef_info (fst s)"
    "ef_what (fst (work_area_step X meet all exclude desktop w s)) = ef_what (fst s)"
proof -
  obtain F a where s: "s = (F, a)" by (cases s)
  have "map_of (ef_struts F) w = None \<longleftrightarrow> w \<notin> fst ` set (ef_struts F)"
    by (simp add: map_of_eq_None_iff)
  then show "filter_inv (fst (work_area_step X meet all exclude desktop w s))"
    using assms by (auto simp: s work_area_step_def filter_inv_def distinct_removeAll split: option.split prod.split)
qed (cases s, simp add: work_area_step_def split: option.split prod.split)+

lemma work_area_fold_frame:
  "filter_inv (fst s) \<Longrightarrow> set ws \<subseteq> set (ef_windows (fst s)) \<Longrightarrow>
     filter_inv (fst (fold (work_area_step X meet all exclude desktop) ws s)) \<and>
     ef_windows (fst (fold (work_area_step X meet all exclude desktop) ws s)) = ef_windows (fst s) \<and>
     ef_info (fst (fold (work_area_step X meet all exclude desktop) ws s)) = ef_info (fst s) \<and>
     ef_what (fst (fold (work_area_step X meet all exclude desktop) ws s)) = ef_what (fst s)"
  by (induction ws arbitrary: s) (simp_all add: work_area_step_frame)

lemma workArea_frame:
  assumes "tracked F"
  shows "tracked (fst (workArea_beside X meet all exclude desktop F))"
    "ef_windows (fst (workArea_beside X meet all exclude desktop F)) = ef_windows F"
    "ef_what (fst (workArea_beside X meet all exclude desktop F)) = ef_what F"
  using assms work_area_fold_frame [of "(F, all)" "ef_windows F" X meet all exclude]
  by (simp_all add: workArea_beside_def case_prod_beta tracked_def Let_def)

lemma apply_inv:
  assumes "extras_inv s" "op_distinct x"
  shows "extras_inv (fst (extras_apply x s))"
proof (cases x)
  case (OpRename X A desktop name)
  then show ?thesis
    using assms questions_inv [OF assms(1), of X A]
      questions_inv(3) [OF questions_inv(2) [OF assms(1), of X A], of X A]
    by (cases s) (auto simp: extras_setDesktopName_def Let_def case_prod_beta setDesktopName_same same_list_tracked)
qed (use assms in \<open>auto simp: extras_event_def filter_event_tracked filter_selection_event_def Let_def connectNotify_inv
      extras_windows_def questions_inv extras_workArea_beside_def init_tracked workArea_frame
      extras_setCurrentDesktop_def setOnDesktop_def case_prod_beta split: option.split\<close>)

lemma run_inv:
  "extras_inv s \<Longrightarrow> list_all op_distinct ops \<Longrightarrow> extras_inv (fst (extras_run ops s))"
  by (induction ops arbitrary: s) (simp_all add: case_prod_beta apply_inv)

section \<open>The filter that is never replaced\<close>

lemma hooked_what: "ef_what (hooked X e F) = ef_what F"
proof (cases e)
  case (RootHook h)
  then show ?thesis
    by (cases h) (simp_all add: hooked_def addClient_def removeClient_def removeStrutWindow_def Let_def split: prod.split)
qed (simp_all add: hooked_def)

lemma fold_hooked_what: "ef_what (fold (hooked X) es F) = ef_what F"
  by (induction es arbitrary: F) (simp_all add: hooked_what)

lemma filter_event_what: "ef_what (fst (filter_event X w ev F)) = ef_what F"
  by (simp add: filter_event_def filter_root_event_def filter_window_event_def removeStrutWindow_def Let_def
      case_prod_beta fold_hook_fst fold_hooked_what)

lemma create_filter_what: "ef_what (fst (create_filter X A what was)) = what"
  by (simp add: create_filter_def filter_activate_def case_prod_beta fold_hook_fst fold_hooked_what)
    (simp add: new_event_filter_def)

definition full :: "extras \<Rightarrow> bool" where
  "full s \<longleftrightarrow> (case s of None \<Rightarrow> False | Some F \<Rightarrow> ef_what F = INFO_WINDOWS)"

definition known :: "extras \<Rightarrow> u32 set" where
  "known s = (case s of None \<Rightarrow> {} | Some F \<Rightarrow> set (ef_windows F))"

text \<open>A listener keeps up with a filter that is never replaced.\<close>

lemma full_init: "ef_what F = INFO_WINDOWS \<Longrightarrow> extras_init X A what (Some F) = (F, [])"
  by simp

lemma questions_full:
  assumes "ef_what F = INFO_WINDOWS"
  shows "fst (asking X A question (Some F)) = Some F" "fst (snd (asking X A question (Some F))) = []"
    "fst (extras_numberOfDesktops X A (Some F)) = Some F" "fst (snd (extras_numberOfDesktops X A (Some F))) = []"
    "fst (extras_currentDesktop X A (Some F)) = Some F" "fst (snd (extras_currentDesktop X A (Some F))) = []"
  using assms by (simp_all add: asking_frame extras_numberOfDesktops_def extras_currentDesktop_def)

lemma requests_heard:
  "told (clearState X A w st) K = K" "told (extras_setState X A w st) K = K"
  "told (setOnAllDesktops X A w b s) K = K"
  by (simp_all add: clearState_def extras_setState_def setOnAllDesktops_def Let_def)

lemma apply_heard:
  assumes "full s" "extras_inv s"
  shows "full (fst (extras_apply x s)) \<and> told (snd (extras_apply x s)) (known s) = known (fst (extras_apply x s))"
proof -
  obtain F where s: "s = Some F" "ef_what F = INFO_WINDOWS" "tracked F"
    using assms by (auto simp: full_def split: option.splits)
  show ?thesis
  proof (cases x)
    case (OpRename X A desktop name)
    then show ?thesis
      by (simp add: s questions_full extras_setDesktopName_def full_def known_def Let_def case_prod_beta)
  qed (use s in \<open>auto simp: full_def known_def extras_event_def filter_event_what filter_event_heard
        filter_selection_event_def connectNotify_def extras_windows_def questions_full Let_def
        extras_workArea_beside_def workArea_frame extras_setCurrentDesktop_def setOnDesktop_def
        requests_heard case_prod_beta\<close>)
qed

lemma run_heard:
  assumes "full s" "extras_inv s" "list_all op_distinct ops"
  shows "told (snd (extras_run ops s)) (known s) = known (fst (extras_run ops s))"
  using assms
proof (induction ops arbitrary: s)
  case (Cons x ops)
  then have "full (fst (extras_apply x s))" "extras_inv (fst (extras_apply x s))"
    "told (snd (extras_apply x s)) (known s) = known (fst (extras_apply x s))"
    using apply_heard [of s x] apply_inv [of s x] by simp_all
  with Cons show ?case by (simp add: case_prod_beta)
qed simp

end
