(* ===== verification/ViewportProperties.thy ===== *)
theory ViewportProperties
  imports Viewport
begin

text \<open>
  The properties of desktops on a viewport: their numbers and positions correspond, windows are
  moved to the desktop they should go to, and where the two fail.
\<close>

text \<open>
  With any large desktop of at least one screen, every desktop has a position, and the desktop
  at that position is the same one; so switching to a desktop makes it the current one.
\<close>

theorem viewport_roundtrip:
  assumes "tiled V" "1 \<le> d" "d \<le> vp_columns V * vp_rows V"
  shows "\<exists>p. desktopToViewport V d True = Some p \<and> viewportToDesktop V p = Some d"
proof -
  have "viewportToDesktop V (vp_display_width V * ((d - 1) mod vp_columns V),
      vp_display_height V * ((d - 1) div vp_columns V)) = Some d"
    using assms(1) by (intro point_on_desktop [OF assms, of _ 0 _ 0]) (simp_all add: tiled_def)
  then show ?thesis by (simp add: desktop_parts(6) [OF assms] Let_def)
qed

definition sample_viewport :: viewport where
  "sample_viewport = \<lparr>vp_width = 3000, vp_height = 1500, vp_display_width = 1000, vp_display_height = 700,
     vp_x = 1000, vp_y = 0\<rparr>"

lemma sample_viewport_tiled:
  "tiled sample_viewport" "vp_columns sample_viewport = 3" "vp_rows sample_viewport = 2"
  by (simp_all add: sample_viewport_def tiled_def vp_columns_def vp_rows_def signed_divide_int_def)

theorem viewport_roundtrip_witness:
  "\<exists>p. desktopToViewport sample_viewport 5 True = Some p \<and> viewportToDesktop sample_viewport p = Some 5"
  using viewport_roundtrip [OF sample_viewport_tiled(1), of 5] sample_viewport_tiled(2,3) by simp

section \<open>The numbers of desktops\<close>

lemma vp_index_bounds:
  assumes "0 < unit" "0 < n" "n * unit = extent"
  shows "0 \<le> vp_index p extent n unit \<and> vp_index p extent n unit < n"
proof (cases "p < 0 \<or> extent \<le> p")
  case False
  then have "p div unit * unit < n * unit" using assms(3) div_mult_le_int [OF assms(1), of p] by linarith
  then have "p div unit < n" using assms(1) by simp
  then show ?thesis using False assms(1) by (simp add: vp_index_def sdiv_nonneg pos_imp_zdiv_nonneg_iff)
qed (use assms(2) in \<open>auto simp: vp_index_def\<close>)

text \<open>The strip behind the last whole screen counts as one screen more.\<close>

lemma vp_index_strip:
  assumes "0 < unit" "0 < n" "n * unit < extent"
  shows "vp_index (n * unit) extent n unit = n"
  using assms by (simp add: vp_index_def sdiv_nonneg mult_less_0_iff)

lemma desktop_of_indices:
  "tiled V \<Longrightarrow> viewportToDesktop V (x, y) = Some (vp_index y (vp_height V) (vp_rows V) (vp_display_height V) * vp_columns V +
     vp_index x (vp_width V) (vp_columns V) (vp_display_width V) + 1)"
  by (simp add: viewportToDesktop_def tiled_sizes(5))

lemma grid_number_bounds:
  assumes "0 \<le> i" "i < n" "0 \<le> k" "k < (m :: int)"
  shows "1 \<le> k * n + i + 1" "k * n + i + 1 \<le> n * m"
proof -
  have "0 \<le> k * n" using assms by simp
  then show "1 \<le> k * n + i + 1" using assms(1) by linarith
  have "(k + 1) * n \<le> m * n" using assms by (intro mult_right_mono) auto
  then show "k * n + i + 1 \<le> n * m" using assms(2) by (simp add: algebra_simps)
qed

text \<open>
  C25.  Every point has a desktop with a number between one and the number of screens if, and only if, the large
  desktop is made of whole screens: on a strip that is left over the number is too large.
\<close>

theorem desktop_number_bounds:
  assumes "tiled V"
  shows "(\<forall>p. \<exists>d. viewportToDesktop V p = Some d \<and> 1 \<le> d \<and> d \<le> vp_columns V * vp_rows V) \<longleftrightarrow>
    vp_columns V * vp_display_width V = vp_width V \<and> vp_rows V * vp_display_height V = vp_height V"
    (is "?bounded \<longleftrightarrow> ?whole")
proof
  have pos: "0 < vp_display_width V" "0 < vp_display_height V" "0 < vp_columns V" "0 < vp_rows V"
    using assms by (simp_all add: tiled_def)
  note sizes = tiled_sizes(6,7) [OF assms]
  show ?bounded if w: ?whole
  proof
    fix p
    show "\<exists>d. viewportToDesktop V p = Some d \<and> 1 \<le> d \<and> d \<le> vp_columns V * vp_rows V"
      using vp_index_bounds [OF pos(1,3) w [THEN conjunct1], of "fst p"] vp_index_bounds [OF pos(2,4) w [THEN conjunct2], of "snd p"]
      by (cases p) (simp add: desktop_of_indices [OF assms] grid_number_bounds)
  qed
  show ?whole if b: ?bounded
  proof (rule ccontr)
    assume "\<not> ?whole"
    then consider (x) "vp_columns V * vp_display_width V < vp_width V" | (y) "vp_rows V * vp_display_height V < vp_height V"
      using sizes by linarith
    then show False
    proof cases
      case x
      have last: "vp_index (vp_height V) (vp_height V) (vp_rows V) (vp_display_height V) = vp_rows V - 1"
        using tiled_sizes(2) [OF assms] by (simp add: vp_index_def)
      have "viewportToDesktop V (vp_columns V * vp_display_width V, vp_height V) = Some (vp_columns V * vp_rows V + 1)"
        unfolding desktop_of_indices [OF assms] vp_index_strip [OF pos(1,3) x] last by (simp add: algebra_simps)
      then show False using b [THEN spec, of "(vp_columns V * vp_display_width V, vp_height V)"] by simp
    next
      case y
      have "vp_index (- 1) (vp_width V) (vp_columns V) (vp_display_width V) = 0" by (simp add: vp_index_def)
      then have "viewportToDesktop V (- 1, vp_rows V * vp_display_height V) = Some (vp_rows V * vp_columns V + 1)"
        by (simp add: desktop_of_indices [OF assms] vp_index_strip [OF pos(2,4) y])
      then show False using b [THEN spec, of "(- 1, vp_rows V * vp_display_height V)"] by (simp add: mult.commute)
    qed
  qed
qed

theorem desktop_number_bounds_witness:
  "\<not> (\<forall>p. \<exists>d. viewportToDesktop sample_viewport p = Some d \<and> 1 \<le> d \<and> d \<le> 3 * 2)"
  using desktop_number_bounds [OF sample_viewport_tiled(1)]
  by (simp add: sample_viewport_tiled(2,3)) (simp add: sample_viewport_def)

section \<open>Moving windows\<close>

text \<open>The position of the display is on the large desktop.\<close>

definition vp_inside :: "viewport \<Rightarrow> bool" where
  "vp_inside V \<longleftrightarrow> 0 \<le> vp_x V \<and> vp_x V < vp_width V \<and> 0 \<le> vp_y V \<and> vp_y V < vp_height V"

lemma constrain_wrapped:
  assumes "0 \<le> a" "a < extent" "pos + c = a \<or> pos + c = a + extent"
  shows "constrain pos c extent = a - c"
proof -
  have "(pos + c) smod extent = a" using assms by (auto simp: smod_nonneg)
  then show ?thesis using assms(1) by (simp add: constrain_def)
qed

text \<open>Where a window comes to lie along one axis, and where its centre is then.\<close>

lemma moved_axis:
  fixes x w unit extent c k :: int
  assumes "0 < unit" "0 < w" "0 \<le> k" "(k + 1) * unit \<le> extent" "0 \<le> c" "c < extent"
    and "w div 2 \<le> (x + w div 2) mod unit"
  shows "\<exists>a. 0 \<le> a \<and> a < unit \<and>
    rect_center (constrain (moved_to x w unit (wrap_once (unit * k - c) extent)) c extent) w + c = unit * k + a"
proof -
  define m where "m = (x + w div 2) mod unit"
  define left where "left = unit * k + m - w div 2"
  have m: "0 \<le> m" "m < unit" "w div 2 \<le> m" using assms(1,7) by (simp_all add: m_def)
  have "(let v = (x + w sdiv 2) smod unit in if v < 0 then v + unit else v) = m"
    using smod_fixed [OF assms(1), of "x + w sdiv 2"] assms(2) by (simp add: m_def sdiv_nonneg)
  then have "moved_to x w unit t = t + m - w div 2" for t
    using assms(2) by (simp add: moved_to_def Let_def sdiv_nonneg split: if_splits)
  moreover have "wrap_once (unit * k - c) extent = unit * k - c \<or> wrap_once (unit * k - c) extent = unit * k - c + extent"
  proof -
    have "unit * k - c < extent" using assms(1,4,5) by (simp add: algebra_simps)
    then show ?thesis by (simp add: wrap_once_def Let_def)
  qed
  ultimately have pos: "moved_to x w unit (wrap_once (unit * k - c) extent) + c = left \<or>
      moved_to x w unit (wrap_once (unit * k - c) extent) + c = left + extent"
    by (auto simp: left_def)
  have "0 \<le> unit * k" "0 \<le> w div 2" "unit * k + unit \<le> extent"
    using assms(1-4) by (simp_all add: algebra_simps)
  then have "0 \<le> left" "left < extent" using m by (simp_all add: left_def)
  then have to: "constrain (moved_to x w unit (wrap_once (unit * k - c) extent)) c extent = left - c"
    using pos by (rule constrain_wrapped)
  define t where "t = 2 * (left - c) + w - 1"
  have "rect_center (left - c) w = t sdiv 2" by (simp add: rect_center_def t_def algebra_simps)
  moreover have "t sdiv 2 = t div 2 + (if t < 0 \<and> odd t then 1 else 0)"
    by (auto simp: signed_divide_int_eq_divide_int sgn_if)
  moreover have "t div 2 + c = unit * k + m + ((w - 1) div 2 - w div 2)"
  proof -
    have "t = (w - 1) + 2 * (left - c)" by (simp add: t_def)
    then have "t div 2 = (w - 1) div 2 + (left - c)" by simp
    then show ?thesis by (simp add: left_def)
  qed
  moreover have "odd t \<longleftrightarrow> even w" by (simp add: t_def)
  moreover have "(w - 1) div 2 - w div 2 = (if even w then - 1 else 0)"
    by (cases "even w") (auto elim!: evenE oddE)
  moreover have "even w \<longrightarrow> 1 \<le> m" using m(3) assms(2) by (auto elim!: evenE)
  ultimately show ?thesis
    unfolding to using m by (intro exI [of _ "t sdiv 2 + c - unit * k"]) auto
qed

lemma moved_window_lands:
  assumes "tiled V" "vp_inside V" "1 \<le> d" "d \<le> vp_columns V * vp_rows V" "0 < w" "0 < h"
    and "w div 2 \<le> (x + w div 2) mod vp_display_width V" "h div 2 \<le> (y + h div 2) mod vp_display_height V"
  shows "\<exists>px py. mapped_setOnDesktop V (x, y, w, h) d = Some (px, py) \<and>
    viewportWindowToDesktop V (\<lambda>c. c) (px, py, w, h) = Some d"
proof -
  note parts = desktop_parts [OF assms(1,3,4)] and sizes = tiled_sizes [OF assms(1)]
  have unit: "0 < vp_display_width V" "0 < vp_display_height V" using assms(1) by (simp_all add: tiled_def)
  let ?i = "(d - 1) mod vp_columns V" and ?j = "(d - 1) div vp_columns V"
  have "(?i + 1) * vp_display_width V \<le> vp_columns V * vp_display_width V"
    "(?j + 1) * vp_display_height V \<le> vp_rows V * vp_display_height V"
    using parts(1-4) unit by (simp_all add: mult_right_mono)
  then have fits: "(?i + 1) * vp_display_width V \<le> vp_width V" "(?j + 1) * vp_display_height V \<le> vp_height V"
    using sizes(6,7) by linarith+
  have c: "0 \<le> vp_x V" "vp_x V < vp_width V" "0 \<le> vp_y V" "vp_y V < vp_height V"
    using assms(2) by (simp_all add: vp_inside_def)
  obtain a where a: "0 \<le> a" "a < vp_display_width V" and
    ca: "rect_center (constrain (moved_to x w (vp_display_width V) (wrap_once (vp_display_width V * ?i - vp_x V) (vp_width V)))
        (vp_x V) (vp_width V)) w + vp_x V = vp_display_width V * ?i + a"
    using moved_axis [OF unit(1) assms(5) parts(1) fits(1) c(1,2) assms(7)] by blast
  obtain b where b: "0 \<le> b" "b < vp_display_height V" and
    cb: "rect_center (constrain (moved_to y h (vp_display_height V) (wrap_once (vp_display_height V * ?j - vp_y V) (vp_height V)))
        (vp_y V) (vp_height V)) h + vp_y V = vp_display_height V * ?j + b"
    using moved_axis [OF unit(2) assms(6) parts(3) fits(2) c(3,4) assms(8)] by blast
  have "vp_width V \<noteq> 0" "vp_height V \<noteq> 0" using sizes(1,2) by simp_all
  then show ?thesis
    using point_on_desktop [OF assms(1,3,4) ca a cb b]
    by (simp add: mapped_setOnDesktop_def parts(6) Let_def constrainViewportRelativePosition_def viewportWindowToDesktop_def)
qed

text \<open>
  A window goes where it is sent: on a large desktop that is made of whole screens, a window
  whose centre is at least half its size from the left and the top of the screen it is on is moved to
  a position whose desktop, as \<^verbatim>\<open>viewportWindowToDesktop\<close> finds it, is the one asked for.
\<close>

theorem window_lands_on_desktop:
  assumes "tiled V" "vp_inside V" "1 \<le> d" "d \<le> vp_columns V * vp_rows V" "0 < w" "0 < h"
    and "w div 2 \<le> (x + w div 2) mod vp_display_width V" "h div 2 \<le> (y + h div 2) mod vp_display_height V"
  shows "\<exists>px py. mapped_setOnDesktop V (x, y, w, h) d = Some (px, py) \<and>
    viewportWindowToDesktop V (\<lambda>c. c) (px, py, w, h) = Some d"
  using assms by (rule moved_window_lands)

theorem window_lands_on_desktop_witness:
  "\<exists>px py. mapped_setOnDesktop sample_viewport (100, 50, 400, 300) 1 = Some (px, py) \<and>
    viewportWindowToDesktop sample_viewport (\<lambda>c. c) (px, py, 400, 300) = Some 1"
proof -
  have "vp_inside sample_viewport" by (simp add: vp_inside_def sample_viewport_def)
  then show ?thesis
    using window_lands_on_desktop [OF sample_viewport_tiled(1), of 1 400 300 100 50] sample_viewport_tiled(2,3)
    by (simp add: sample_viewport_def)
qed

text \<open>
  A window that hangs over the left edge of its screen is not moved to a desktop of the first
  column: its left side is wrapped around the large desktop, and the window goes to the last column.
\<close>

theorem overhanging_window_lost:
  "mapped_setOnDesktop sample_viewport (- 40, 50, 100, 300) 1 = Some (1960, 50) \<and>
   viewportWindowToDesktop sample_viewport (\<lambda>c. c) (1960, 50, 100, 300) = Some 3"
  by code_simp

text \<open>
  \<^verbatim>\<open>numberOfDesktops\<close> is the number of screens of the large desktop only if its height is
  a multiple of that of the display: it is never less, and on a desktop of one column or with a whole
  number of rows it is exactly that, but in between it counts desktops that do not exist.
\<close>

theorem number_of_desktops:
  assumes "tiled V"
  shows "\<exists>n. mapped_numberOfDesktops V = Some n \<and> vp_columns V * vp_rows V \<le> n \<and>
    (vp_display_height V dvd vp_height V \<or> vp_columns V = 1 \<longrightarrow> n = vp_columns V * vp_rows V)"
proof -
  note sizes = tiled_sizes [OF assms]
  have pos: "0 < vp_display_height V" "0 < vp_columns V" using assms by (simp_all add: tiled_def)
  have "mapped_numberOfDesktops V = Some (vp_columns V * vp_height V div vp_display_height V)"
    using sizes(2,5) pos by (simp add: mapped_numberOfDesktops_def vp_columns_def [symmetric] sdiv_nonneg)
  moreover have "vp_columns V * (vp_height V div vp_display_height V) \<le> vp_columns V * vp_height V div vp_display_height V"
  proof -
    have "vp_columns V * (vp_height V div vp_display_height V) * vp_display_height V \<le> vp_columns V * vp_height V"
      using pos(2) div_mult_le_int [OF pos(1)] by (simp add: mult.assoc)
    then have "vp_columns V * (vp_height V div vp_display_height V) * vp_display_height V div vp_display_height V \<le>
        vp_columns V * vp_height V div vp_display_height V"
      using pos(1) by (intro zdiv_mono1)
    then show ?thesis using pos(1) by simp
  qed
  moreover have "vp_columns V * vp_height V div vp_display_height V = vp_columns V * (vp_height V div vp_display_height V)"
    if "vp_display_height V dvd vp_height V \<or> vp_columns V = 1"
    using that by (auto simp: div_mult_swap)
  ultimately show ?thesis by (simp add: sizes(4))
qed

theorem number_of_desktops_witness:
  "\<exists>n. mapped_numberOfDesktops (sample_viewport\<lparr>vp_height := 1400\<rparr>) = Some n \<and> n = 6"
proof -
  have "tiled (sample_viewport\<lparr>vp_height := 1400\<rparr>)" "vp_columns (sample_viewport\<lparr>vp_height := 1400\<rparr>) = 3"
    "vp_rows (sample_viewport\<lparr>vp_height := 1400\<rparr>) = 2"
    by (simp_all add: sample_viewport_def tiled_def vp_columns_def vp_rows_def signed_divide_int_def)
  then show ?thesis using number_of_desktops [of "sample_viewport\<lparr>vp_height := 1400\<rparr>"]
    by (auto simp: sample_viewport_def)
qed

text \<open>Between two multiples: seven desktops where there are six, and the seventh is the first.\<close>

lemma phantom_desktop:
  "mapped_numberOfDesktops (sample_viewport\<lparr>vp_height := 1700\<rparr>) = Some 7"
  "desktopToViewport (sample_viewport\<lparr>vp_height := 1700\<rparr>) 7 True = Some (0, 0)"
  by (simp_all add: mapped_numberOfDesktops_def sample_viewport_def no_display_def desktopToViewport_def vp_columns_def
      vp_rows_def signed_divide_int_def)

end
