(* ===== verification/ExtrasProperties.thy ===== *)
theory ExtrasProperties
  imports ExtrasRun WinProtocol RootEvent ViewportProperties
begin

text \<open>
  The properties of \<^verbatim>\<open>KX11Extras\<close> and its event filter: the list of windows and its
  listeners, the work area with its cache of struts, the names of desktops and the struts that are set.
\<close>

section \<open>The list of windows\<close>

text \<open>
  C12.  In every run of questions, connections and events, in any order and with any answers of the
  server that name no window twice, the list of windows is the client list without repetition,
  and the caches of struts hold only windows of the list, each of them once.
\<close>

theorem windows_follow_client_list:
  assumes "list_all op_distinct ops" "extras_run ops None = (Some F, es)"
  shows "distinct (ef_windows F) \<and> set (ef_windows F) = client_set (ef_info F) \<and>
    distinct (map fst (ef_struts F) @ ef_possible F) \<and>
    set (map fst (ef_struts F) @ ef_possible F) \<subseteq> set (ef_windows F)"
proof -
  have "tracked F" using run_inv [of None ops] assms by simp
  then show ?thesis by (auto simp: tracked_def filter_inv_def)
qed

definition sample_app :: x_app where
  "sample_app = \<lparr>xa_screens = [\<lparr>screen_root = 77, screen_width = 800, screen_height = 600\<rparr>], xa_screen = 0,
     xa_xfixes = True, xa_window = 5, xa_compositor = False, xa_time = 0, xa_user_time = 0, xa_focus = 0,
     xa_all = \<lparr>qr_left = 0, qr_top = 0, qr_right = 799, qr_bottom = 599\<rparr>\<rparr>"

definition sample_display_of :: "u32 list \<Rightarrow> x_display" where
  "sample_display_of ws = \<lparr>xd_width = 800, xd_height = 600, xd_scaled = (\<lambda>x. x), xd_atoms = sample_atoms,
     xd_server = serve [ChangeProperty 77 (sample_atoms (Kws NET_CLIENT_LIST)) (sample_atoms XaWindow) (V32 ws)],
     xd_mask = (\<lambda>_. None)\<rparr>"

lemma sample_reads_distinct: "distinct ws \<Longrightarrow> reads_distinct (sample_display_of ws)"
  by (simp add: reads_distinct_def distinct_list_def list_request_def sample_display_of_def get_array_reply_def)

theorem windows_follow_client_list_witness:
  "\<exists>F es. extras_run [OpAsk (sample_display_of [4, 9]) sample_app] None = (Some F, es) \<and>
     distinct (ef_windows F) \<and> set (ef_windows F) = client_set (ef_info F)"
proof -
  have ok: "list_all op_distinct [OpAsk (sample_display_of [4, 9]) sample_app]"
    by (simp add: sample_reads_distinct)
  obtain F es where run: "extras_run [OpAsk (sample_display_of [4, 9]) sample_app] None = (Some F, es)"
    by (force simp: extras_windows_def asking_def case_prod_beta)
  from windows_follow_client_list [OF ok run] run show ?thesis by blast
qed



lemma fold_additions_heard:
  "heard_signals (snd (fold (run_hook X) (additions as) s)) K = heard_signals (snd s) K \<union> set as"
  "set (ef_windows (fst (fold (run_hook X) (additions as) s))) = set (ef_windows (fst s)) \<union> set as"
  by (induction as arbitrary: s) (auto simp: addClient_def Let_def split: prod.splits if_splits)

lemma activate_heard_any:
  assumes "ef_windows F = []" "tracked F" "reads_distinct X"
  shows "heard_signals (snd (filter_activate X F)) K = K \<union> set (ef_windows (fst (filter_activate X F)))"
proof -
  obtain q es where a: "activate (xd_atoms X) (xd_server X) (ef_info F) = (q, es)" by force
  have "client_set (ef_info F) = {}" using assms(1,2) by (simp add: tracked_def)
  then obtain as where "es = additions as"
    using calls_in_step(1) [OF assms(2,3)] a by (auto simp: in_step_def)
  then show ?thesis
    using fold_additions_heard [of X as "(F\<lparr>ef_info := q\<rparr>, [])"] assms(1)
    by (simp add: filter_activate_def a case_prod_beta)
qed

text \<open>
  When a filter is replaced by one that tells more, the windows are announced once more and
  none is reported as gone: a listener holds the windows of both filters, also those that were
  closed in between.
\<close>

theorem replaced_filter_forgets:
  assumes "ef_what F = INFO_BASIC" "signal \<noteq> SigOther" "reads_distinct X"
    and "connectNotify X A signal (Some F) = (Some G, es)"
  shows "told es (set (ef_windows F)) = set (ef_windows F) \<union> set (ef_windows G)"
proof -
  have "heard_signals (snd (create_filter X A INFO_WINDOWS c)) K = K \<union> set (ef_windows (fst (create_filter X A INFO_WINDOWS c)))" for c K
    by (simp add: create_filter_def case_prod_beta activate_heard_any new_windows tracked_new assms(3))
  then show ?thesis using assms(1,2,4) by (auto simp: connectNotify_def case_prod_beta split: if_splits)
qed

definition sample_basic_filter :: event_filter where
  "sample_basic_filter = (new_event_filter (xa_screens sample_app) 0 INFO_BASIC True 5 False)\<lparr>ef_windows := [4]\<rparr>"

theorem replaced_filter_forgets_witness:
  "\<exists>G es. connectNotify (sample_display_of [9]) sample_app SigStrutChanged (Some sample_basic_filter) = (Some G, es) \<and>
     4 \<in> told es (set (ef_windows sample_basic_filter))"
proof -
  have b: "ef_what sample_basic_filter = INFO_BASIC" "4 \<in> set (ef_windows sample_basic_filter)"
    by (simp_all add: sample_basic_filter_def new_event_filter_def)
  obtain G es where c: "connectNotify (sample_display_of [9]) sample_app SigStrutChanged (Some sample_basic_filter) = (Some G, es)"
    by (force simp: connectNotify_def case_prod_beta)
  have "told es (set (ef_windows sample_basic_filter)) = set (ef_windows sample_basic_filter) \<union> set (ef_windows G)"
    using replaced_filter_forgets [OF b(1) _ _ c] by (simp add: sample_reads_distinct)
  with b(2) c show ?thesis by auto
qed

section \<open>The work area\<close>

text \<open>
  Reading the strut of every window directly; and what the filter may rely on: a cached strut is the
  one the window has, and a window of which nothing is known has none.
\<close>

definition direct_step ::
  "x_display \<Rightarrow> u32 \<Rightarrow> (qrect \<Rightarrow> qrect \<Rightarrow> qrect) \<Rightarrow> qrect \<Rightarrow> u32 set \<Rightarrow> i32 \<Rightarrow> u32 \<Rightarrow> qrect \<Rightarrow> qrect" where
  "direct_step X root meet all exclude desktop w a =
     (if w \<in> exclude then a
      else (let (strut, d) = read_strut_of X root w
            in if on_desktop desktop d then meet a (beside strut all) else a))"

definition direct_workArea ::
  "x_display \<Rightarrow> (qrect \<Rightarrow> qrect \<Rightarrow> qrect) \<Rightarrow> qrect \<Rightarrow> u32 set \<Rightarrow> i32 \<Rightarrow> event_filter \<Rightarrow> qrect" where
  "direct_workArea X meet all exclude desktop F =
     rect_scaled X (fold (direct_step X (ri_root (ef_info F)) meet all exclude
       (if desktop = - 1 then current_desktop X (ef_info F) else desktop)) (ef_windows F) all)"

definition coherent_at :: "x_display \<Rightarrow> event_filter \<Rightarrow> u32 \<Rightarrow> bool" where
  "coherent_at X F w \<longleftrightarrow>
     (case map_of (ef_struts F) w of
        Some sd \<Rightarrow> read_strut_of X (ri_root (ef_info F)) w = sd
      | None \<Rightarrow> w \<in> set (ef_possible F) \<or> \<not> has_strut (fst (read_strut_of X (ri_root (ef_info F)) w)))"

definition coherent :: "x_display \<Rightarrow> event_filter \<Rightarrow> bool" where
  "coherent X F \<longleftrightarrow> list_all (coherent_at X F) (ef_windows F)"

text \<open>What is documented of the intersection of rectangles, for areas inside the display.\<close>

definition meet_ok :: "(qrect \<Rightarrow> qrect \<Rightarrow> qrect) \<Rightarrow> qrect \<Rightarrow> bool" where
  "meet_ok meet all \<longleftrightarrow> meet all all = all \<and> (\<forall>a r. meet a all = a \<longrightarrow> meet (meet a r) all = meet a r)"

lemma beside_none: "\<not> has_strut s \<Longrightarrow> beside s all = all"
  by (simp add: has_strut_def beside_def)

lemma coherent_at_frame:
  assumes "map_of (ef_struts G) w = map_of (ef_struts F) w" "w \<in> set (ef_possible G) \<longleftrightarrow> w \<in> set (ef_possible F)"
    and "ef_info G = ef_info F"
  shows "coherent_at X G w = coherent_at X F w"
  using assms by (simp add: coherent_at_def split: option.split)

lemma step_cached:
  assumes "coherent_at X F w" "meet_ok meet all" "meet a all = a"
  shows "snd (work_area_step X meet all exclude desktop w (F, a)) =
      direct_step X (ri_root (ef_info F)) meet all exclude desktop w a"
    "meet (direct_step X (ri_root (ef_info F)) meet all exclude desktop w a) all =
      direct_step X (ri_root (ef_info F)) meet all exclude desktop w a"
  using assms
  by (auto simp: work_area_step_def direct_step_def coherent_at_def meet_ok_def beside_none split: option.splits prod.splits)

lemma step_coherent:
  assumes "coherent_at X F v"
  shows "coherent_at X (fst (work_area_step X meet all exclude desktop w (F, a))) v"
  using assms by (cases "v = w") (auto simp: work_area_step_def coherent_at_def map_add_def split: option.splits prod.splits)

lemma fold_cached:
  assumes "list_all (coherent_at X F) ws" "meet_ok meet all" "meet a all = a"
  shows "snd (fold (work_area_step X meet all exclude desktop) ws (F, a)) =
    fold (direct_step X (ri_root (ef_info F)) meet all exclude desktop) ws a"
  using assms
proof (induction ws arbitrary: F a)
  case (Cons w ws)
  obtain G b where s: "work_area_step X meet all exclude desktop w (F, a) = (G, b)" by force
  have "ef_info G = ef_info F"
    using s by (auto simp: work_area_step_def split: if_splits option.splits prod.splits)
  moreover have "list_all (coherent_at X G) ws"
    using Cons.prems(1) step_coherent [of X F _ meet all exclude desktop w a] by (simp add: s list_all_iff)
  moreover have "b = direct_step X (ri_root (ef_info F)) meet all exclude desktop w a" "meet b all = b"
    using step_cached [of X F w meet all a exclude desktop] Cons.prems by (simp_all add: s)
  ultimately show ?case using Cons.IH [of G b] Cons.prems(2) by (simp add: s)
qed simp

lemma fold_coherent:
  "list_all (coherent_at X (fst s)) vs \<Longrightarrow>
     list_all (coherent_at X (fst (fold (work_area_step X meet all exclude desktop) ws s))) vs"
proof (induction ws arbitrary: s)
  case (Cons w ws)
  have "list_all (coherent_at X (fst (work_area_step X meet all exclude desktop w s))) vs"
    using Cons.prems step_coherent by (cases s) (auto simp: list_all_iff)
  then show ?case using Cons.IH by simp
qed simp

text \<open>
  C14.  The cache of struts is right: if what the filter has cached is what the windows have, the
  work area is the one that reading every window gives, and the cache is right afterwards too.
\<close>

theorem work_area_cached:
  assumes "filter_inv F" "coherent X F" "meet_ok meet all"
  shows "snd (workArea_beside X meet all exclude desktop F) = direct_workArea X meet all exclude desktop F \<and>
    coherent X (fst (workArea_beside X meet all exclude desktop F))"
proof -
  have "meet all all = all" using assms(3) by (simp add: meet_ok_def)
  then show ?thesis
    using fold_cached [OF assms(2) [unfolded coherent_def] assms(3)] fold_coherent [of X "(F, all)" "ef_windows F"]
      work_area_fold_frame [of "(F, all)" "ef_windows F" X meet all exclude] assms(1,2)
    by (simp add: workArea_beside_def direct_workArea_def case_prod_beta Let_def coherent_def)
qed

definition sample_coherent :: event_filter where
  "sample_coherent = (new_event_filter (xa_screens sample_app) 0 INFO_WINDOWS True 5 False)
     \<lparr>ef_windows := [4], ef_possible := [4]\<rparr>"

definition sample_meet :: "qrect \<Rightarrow> qrect \<Rightarrow> qrect" where
  "sample_meet a b = \<lparr>qr_left = max (qr_left a) (qr_left b), qr_top = max (qr_top a) (qr_top b),
     qr_right = min (qr_right a) (qr_right b), qr_bottom = min (qr_bottom a) (qr_bottom b)\<rparr>"

lemma meet_ok_sample: "meet_ok sample_meet all"
proof -
  have "sample_meet (sample_meet a r) all = sample_meet a r" if "sample_meet a all = a" for a r
    using that by (cases a; cases all; cases r) (auto simp: sample_meet_def max_def min_def split: if_splits)
  then show ?thesis by (cases all) (simp add: meet_ok_def sample_meet_def)
qed

lemma sample_coherent_ok: "filter_inv sample_coherent" "coherent X sample_coherent" "meet_ok sample_meet all"
  by (simp_all add: filter_inv_def coherent_def coherent_at_def sample_coherent_def new_event_filter_def meet_ok_sample)

text \<open>A display with one window of identifier 4 that has a strut of 30 at its top, on the first desktop.\<close>

definition sample_strut_display :: x_display where
  "sample_strut_display = (sample_display_of [4])\<lparr>xd_server := serve
     [ChangeProperty 4 (sample_atoms (Kws NET_WM_STRUT)) (sample_atoms XaCardinal) (V32 [0, 0, 30, 0]),
      ChangeProperty 4 (sample_atoms (Kws NET_WM_DESKTOP)) (sample_atoms XaCardinal) (V32 [0])]\<rparr>"

theorem work_area_cached_witness:
  "snd (workArea_beside sample_strut_display sample_meet (xa_all sample_app) {} 1 sample_coherent) =
     direct_workArea sample_strut_display sample_meet (xa_all sample_app) {} 1 sample_coherent"
  using work_area_cached [OF sample_coherent_ok] by blast

text \<open>The window whose strut was changed is asked again.\<close>

lemma map_of_filter_other: "map_of (filter (\<lambda>(v, _). v \<noteq> w) xs) v = (if v = w then None else map_of xs v)"
  by (induction xs) auto

lemma strut_dirty: "hasf (bitflag 20 OR e) (bitflag 20)" "bitflag 20 OR e \<noteq> 0"
proof -
  show "hasf (bitflag 20 OR e) (bitflag 20)" by (simp add: flag_simps bit_or_iff)
  then show "bitflag 20 OR e \<noteq> 0" by auto
qed

lemma strut_dirty_or: "(a OR b) OR c = a OR (b OR (c :: u32))"
  by (simp add: or.assoc)

lemma strut_event_coherent:
  assumes "filter_inv F" "coherent X F" "w \<in> set (ef_windows F)" "w \<noteq> ri_root (ef_info F)" "atoms_ok (xd_atoms Y)"
    and "\<And>v. v \<noteq> w \<Longrightarrow> read_strut_of Y (ri_root (ef_info F)) v = read_strut_of X (ri_root (ef_info F)) v"
  shows "coherent Y (fst (filter_event Y w (PropertyNotify (xd_atoms Y (Kws NET_WM_STRUT))) F))"
proof -
  let ?G = "fst (filter_event Y w (PropertyNotify (xd_atoms Y (Kws NET_WM_STRUT))) F)"
  have G: "ef_struts ?G = remove_first w (ef_struts F)" "set (ef_possible ?G) = insert w (set (ef_possible F))"
    "ef_info ?G = ef_info F" "ef_windows ?G = ef_windows F"
    using assms(3,4)
    by (auto simp: filter_event_def filter_window_event_def win_notify_values [OF assms(5)] Let_def
        removeStrutWindow_def strut_dirty strut_dirty_or)
  have "coherent_at Y ?G v" if "v \<in> set (ef_windows F)" for v
  proof -
    have "map_of (remove_first w (ef_struts F)) v = (if v = w then None else map_of (ef_struts F) v)"
      by (simp add: removed_struts [OF filter_inv_distinct [OF assms(1)]] map_of_filter_other)
    moreover have "coherent_at X F v" using assms(2) that by (simp add: coherent_def list_all_iff)
    ultimately show ?thesis
      using G(1-3) assms(6) [of v] by (cases "v = w") (auto simp: coherent_at_def split: option.splits)
  qed
  then show ?thesis by (simp add: coherent_def G(4) list_all_iff)
qed

text \<open>
  A change of a strut is noticed: when a window that changed its strut, and nothing else changed,
  notifies the filter, listeners are told, and the next work area is the one that reading every
  window anew gives.
\<close>

theorem strut_change_noticed:
  assumes "tracked F" "coherent X F" "w \<in> set (ef_windows F)" "w \<noteq> ri_root (ef_info F)" "atoms_ok (xd_atoms Y)"
    and "\<And>v. v \<noteq> w \<Longrightarrow> read_strut_of Y (ri_root (ef_info F)) v = read_strut_of X (ri_root (ef_info F)) v"
    and "meet_ok meet all"
    and "filter_event Y w (PropertyNotify (xd_atoms Y (Kws NET_WM_STRUT))) F = (G, es)"
  shows "StrutChanged \<in> set es \<and>
    snd (workArea_beside Y meet all exclude desktop G) = direct_workArea Y meet all exclude desktop G"
proof -
  have "coherent Y G" "filter_inv G"
    using strut_event_coherent [OF _ assms(2-6)] assms(1,4,8) window_event_inv [of F Y w "PropertyNotify (xd_atoms Y (Kws NET_WM_STRUT))"]
    by (auto simp: tracked_def filter_event_def assms(4))
  moreover have "StrutChanged \<in> set es"
    using assms(3,4,8)
    by (auto simp: filter_event_def filter_window_event_def win_notify_values [OF assms(5)] Let_def
        strut_dirty strut_dirty_or split: if_splits prod.splits)
  ultimately show ?thesis
    using fold_cached [OF _ assms(7), of Y G "ef_windows G" all] assms(7)
    by (simp add: workArea_beside_def direct_workArea_def case_prod_beta Let_def coherent_def meet_ok_def)
qed

definition sample_tracked :: event_filter where
  "sample_tracked = sample_coherent\<lparr>ef_info := (ef_info sample_coherent)
     \<lparr>ri_clients := Some [4], ri_clients_count := 1\<rparr>\<rparr>"

lemma sample_tracked_ok:
  "tracked sample_tracked" "coherent X sample_tracked" "4 \<in> set (ef_windows sample_tracked)"
  "ri_root (ef_info sample_tracked) = 77" "ef_what sample_tracked = INFO_WINDOWS"
  by (simp_all add: sample_tracked_def sample_coherent_def new_event_filter_def tracked_def filter_inv_def
      list_inv_def client_set_def coherent_def coherent_at_def NETRootInfo_client_def setDefaultProperties_def
      root_blank_def pick_screen_def sample_app_def loop_count_def Let_def)

lemma sample_strut_atoms: "xd_atoms sample_strut_display = sample_atoms"
  by (simp add: sample_strut_display_def sample_display_of_def)

theorem strut_change_noticed_witness:
  "StrutChanged \<in> set (snd (filter_event sample_strut_display 4
     (PropertyNotify (sample_atoms (Kws NET_WM_STRUT))) sample_tracked))"
  using strut_change_noticed [where X = sample_strut_display and Y = sample_strut_display,
      OF sample_tracked_ok(1,2,3) _ _ refl meet_ok_sample surjective_pairing]
  by (simp add: sample_tracked_ok sample_strut_atoms atoms_ok_sample)

text \<open>
  A window that moves to another desktop is not asked again: the notification is passed on to
  listeners, but the filter stays as it is, and the work area goes on counting the strut on the
  desktop where the window was.
\<close>

theorem strut_desktop_stale:
  assumes "atoms_ok (xd_atoms X)" "w \<in> set (ef_windows F)" "w \<noteq> ri_root (ef_info F)"
    and "map_of (ef_struts F) w = Some (strut, d)" "w \<notin> exclude"
  shows "\<exists>dirty. hasf dirty (prop_flag WMDesktop) \<and>
    filter_event X w (PropertyNotify (xd_atoms X (Kws NET_WM_DESKTOP))) F = (F, [WindowChanged w dirty 0]) \<and>
    work_area_step X meet all exclude desktop w (F, a) =
      (F, if on_desktop desktop d then meet a (beside strut all) else a)"
proof -
  have old: "\<not> bit (old_properties X ev) 20" for ev
    by (simp add: old_properties_def flag_simps split: xevent.split)
  have dirty: "hasf (bitflag 17 OR e) (bitflag 17)" "bitflag 17 OR e \<noteq> 0" for e
  proof -
    show "hasf (bitflag 17 OR e) (bitflag 17)" by (simp add: flag_simps bit_or_iff)
    then show "bitflag 17 OR e \<noteq> 0" by auto
  qed
  show ?thesis
    using assms(2-5) old
    by (simp add: filter_event_def filter_window_event_def win_notify_values [OF assms(1)] Let_def dirty
        strut_dirty_or flag_simps bit_or_iff work_area_step_def)
qed

theorem strut_desktop_stale_witness:
  "\<exists>dirty. hasf dirty (prop_flag WMDesktop) \<and>
    filter_event sample_strut_display 4 (PropertyNotify (sample_atoms (Kws NET_WM_DESKTOP)))
      (sample_tracked\<lparr>ef_possible := [], ef_struts := [(4, strut0, 2)]\<rparr>) =
      (sample_tracked\<lparr>ef_possible := [], ef_struts := [(4, strut0, 2)]\<rparr>, [WindowChanged 4 dirty 0])"
  using strut_desktop_stale [where X = sample_strut_display and w = 4 and exclude = "{}" and strut = strut0 and d = 2
      and F = "sample_tracked\<lparr>ef_possible := [], ef_struts := [(4, strut0, 2)]\<rparr>"]
  by (simp add: sample_tracked_ok sample_strut_atoms atoms_ok_sample) blast

section \<open>Names and struts that are set\<close>

lemma open_root_nothing: "open_root X A 0 0 = NETRootInfo_client (xa_screens A) 0 0 (xa_screen A)"
proof -
  have c: "ri_role (NETRootInfo_client (xa_screens A) 0 0 (xa_screen A)) = Client"
    "ri_clientProperties (NETRootInfo_client (xa_screens A) 0 0 (xa_screen A)) = 0"
    "ri_clientProperties2 (NETRootInfo_client (xa_screens A) 0 0 (xa_screen A)) = 0"
    by (simp_all add: NETRootInfo_client_def setDefaultProperties_def root_blank_def Let_def)
  show ?thesis
    by (simp add: open_root_def new_root_client_def activate_def c root_update_is_direct root_update_direct_def
        root_directs_def read_wm_name_def Let_def)
qed

lemma nothing_named:
  "ri_desktop_names (open_root X A 0 0) = rarr_new None" "ri_number_of_desktops (open_root X A 0 0) = 0"
  "ri_root (open_root X A 0 0) = app_root A" "ri_role (open_root X A 0 0) = Client"
  by (simp_all add: open_root_nothing NETRootInfo_client_def setDefaultProperties_def root_blank_def app_root_def Let_def)

text \<open>
  A desktop that is named before there is a filter loses the names of all others: the property
  that is written holds an empty name for every desktop before it, and none after it.
\<close>

theorem names_wiped:
  assumes "\<not> extras_mapViewport X A None" "1 \<le> sint desktop"
    and "sint desktop \<le> sint (snd (snd (extras_numberOfDesktops X A None)))"
  shows "extras_setDesktopName X A desktop name None =
    (None, [XsRoot (RootReq (ChangeProperty (app_root A) (xd_atoms X (Kws NET_DESKTOP_NAMES)) (xd_atoms X (Kws UTF8_STRING))
       (V8 (replicate (loop_count (desktop - 1)) NUL @ name @ [NUL]))))])"
proof -
  let ?w = "open_root X A 0 0" and ?i = "loop_count (desktop - 1)"
  have inv: "root_inv ?w" by (simp add: open_root_nothing root_inv_client)
  let ?a = "rarr_write None (rarr_new None) ?i (Some name)"
  have pad: "(pad_to None (Suc ?i) [])[?i := Some name] = replicate ?i None @ [Some name]"
    by (simp add: pad_to_def replicate_append_same [symmetric] list_update_append)
  have a: "rarr_ok None ?a" "rarr_list ?a = replicate ?i None @ [Some name]"
    using pad by (simp_all add: rarr_write_correct)
  then have "rarr_size ?a = Suc ?i" by (simp add: rarr_size_def length_rarr_list [symmetric])
  then have "rarr_list (ri_desktop_names (fst (setDesktopName (xd_atoms X) ?w desktop (Some name)))) = replicate ?i None @ [Some name]"
    using assms(2) a by (simp add: setDesktopName_def Let_def nothing_named rarr_touch_correct pad_to_def)
  then have "snd (setDesktopName (xd_atoms X) ?w desktop (Some name)) =
      [RootReq (ChangeProperty (app_root A) (xd_atoms X (Kws NET_DESKTOP_NAMES)) (xd_atoms X (Kws UTF8_STRING))
         (V8 (replicate ?i NUL @ name @ [NUL])))]"
    using setDesktopName_written(1) [OF inv assms(2), of "xd_atoms X" "Some name"]
    by (simp add: root_change_def nothing_named name_bytes_def)
  then show ?thesis using assms by (simp add: extras_setDesktopName_def extras_numberOfDesktops_def Let_def)
qed

text \<open>A display that says only that there are four desktops.\<close>

definition sample_desktops :: x_display where
  "sample_desktops = (sample_display_of [])\<lparr>xd_server := serve
     [ChangeProperty 77 (sample_atoms (Kws NET_NUMBER_OF_DESKTOPS)) (sample_atoms XaCardinal) (V32 [4])]\<rparr>"

lemma sample_root_client:
  "NETRootInfo_client (xa_screens sample_app) props props2 (xa_screen sample_app) =
     (root_blank Client 77 \<lparr>sz_width = 800, sz_height = 600\<rparr> 0 None)
       \<lparr>ri_clientProperties := props, ri_clientProperties2 := props2, ri_properties := 0, ri_properties2 := 0,
         ri_windowTypes := 0, ri_states := 0, ri_actions := 0\<rparr>"
  by (simp add: NETRootInfo_client_def setDefaultProperties_def sample_app_def pick_screen_def loop_count_def Let_def
      root_blank_def)

lemma sample_desktops_read:
  "\<not> extras_mapViewport sample_desktops sample_app None"
  "snd (snd (extras_numberOfDesktops sample_desktops sample_app None)) = 4"
proof -
  have "ri_properties (open_root sample_desktops sample_app (prop_flag Supported) 0) = 0"
    using atoms_ok_sample
    by (simp add: open_root_def new_root_client_def sample_root_client activate_def root_blank_def
        root_update_is_direct root_update_direct_def root_directs_def quiet_def read_supported_def
        read_wm_name_def flag_simps sample_desktops_def sample_display_of_def root_get_def get_array_reply_def Let_def)
  then show v: "\<not> extras_mapViewport sample_desktops sample_app None"
    by (simp add: extras_mapViewport_def)
  have "ri_number_of_desktops (open_root sample_desktops sample_app (prop_flag NumberOfDesktops) 0) = 4"
    by (simp add: open_root_def new_root_client_def sample_root_client activate_def root_blank_def
        root_update_is_direct root_update_direct_def root_directs_def quiet_def read_number_of_desktops_def
        read_wm_name_def flag_simps sample_desktops_def sample_display_of_def root_get_def xfits_def Let_def)
  then show "snd (snd (extras_numberOfDesktops sample_desktops sample_app None)) = 4"
    using v by (simp add: extras_numberOfDesktops_def numberOfDesktops_def)
qed

theorem names_wiped_witness:
  "extras_setDesktopName sample_desktops sample_app 2 ''mail'' None =
    (None, [XsRoot (RootReq (ChangeProperty 77 (sample_atoms (Kws NET_DESKTOP_NAMES)) (sample_atoms (Kws UTF8_STRING))
       (V8 (NUL # ''mail'' @ [NUL]))))])"
  using names_wiped [OF sample_desktops_read(1), of 2 "''mail''"] sample_desktops_read(2)
  by (simp add: app_root_def sample_app_def pick_screen_def loop_count_def sample_desktops_def sample_display_of_def)

text \<open>
  The device pixel ratio is applied twice to a strut that is set for all sides, and the sides at
  the left and the right end at the width of the display, those at the top and the bottom at its
  height, where the specification counts along the other axis.
\<close>

theorem strut_scaled_twice:
  "let i = (\<lambda>q. word_of_int (scaled q) :: u32); twice = (\<lambda>q. i (qreal (scaled q))); zero = i (qreal 0);
       until = (\<lambda>q extent. i (qreal (if scaled q \<noteq> 0 then extent else 0)))
   in extras_setStrut X A scaled qreal win l r t b =
     [XsWin (WinReq (ChangeProperty win (xd_atoms X (Kws NET_WM_STRUT_PARTIAL)) (xd_atoms X XaCardinal)
        (V32 [twice l, twice r, twice t, twice b,
              zero, until l (xd_width X), zero, until r (xd_width X),
              zero, until t (xd_height X), zero, until b (xd_height X)]))),
      XsWin (WinReq (ChangeProperty win (xd_atoms X (Kws NET_WM_STRUT)) (xd_atoms X XaCardinal)
        (V32 [twice l, twice r, twice t, twice b])))]"
proof -
  have w: "wi_role (open_win X A win 0 0) = Client" "wi_window (open_win X A win 0 0) = win"
    by (simp_all add: open_win_def NETWinInfo_def win_blank_def)
  show ?thesis
    by (simp add: extras_setStrut_def extras_setExtendedStrut_def setExtendedStrut_def setStrut_def w Let_def
        win_change_def strut_words_def)
qed

section \<open>Moving a window, from the client to the window manager\<close>






end
