(* ===== verification/WindowInfoProperties.thy ===== *)
theory WindowInfoProperties
  imports WindowInfo ExtrasProperties WinInvariant
begin

text \<open>
  The properties of \<^verbatim>\<open>KWindowInfo\<close>: activities from the setter to the reader, the desktop of a
  window, and the fallback for window types that is never used.
\<close>

section \<open>Activities\<close>

lemma comma_joined_qs: "qs (comma_joined acts) = joined (qchar CHR '','') (map qs acts)"
  by (induction acts rule: comma_joined.induct) simp_all

lemma words_of_joined:
  "\<forall>w \<in> set ws. w \<noteq> [] \<and> c \<notin> set w \<Longrightarrow> words_of (\<lambda>x. x = c) (joined c ws) = ws"
proof (induction c ws rule: joined.induct)
  case (3 c w v ws)
  then have "words_of (\<lambda>x. x = c) w = [w]" by (intro words_of_simps(3)) (auto simp: list_all_iff)
  then show ?case using 3 by (simp add: words_of_sep)
next
  case (2 c w)
  then show ?case by (auto simp: list_all_iff intro!: words_of_simps(3))
qed simp

text \<open>An activity: a name without commas that is not the one that stands for all.\<close>

definition activity_name :: "string \<Rightarrow> bool" where
  "activity_name a \<longleftrightarrow> a \<noteq> [] \<and> CHR '','' \<notin> set a \<and> NUL \<notin> set a \<and> a \<noteq> nulluuid"

lemma comma_joined_set: "set (comma_joined acts) \<subseteq> \<Union> (set ` set acts) \<union> {CHR '',''}"
  by (induction acts rule: comma_joined.induct) auto

lemma comma_joined_empty: "list_all activity_name acts \<Longrightarrow> comma_joined acts = [] \<longleftrightarrow> acts = []"
  by (induction acts rule: comma_joined.induct) (auto simp: activity_name_def)

lemma activities_read:
  "wi_activities (open_win X A w (prop_flag XAWMState) (prop2_flag WM2Activities)) =
     text_of (get_string_reply (xd_server X (GetProperty w (xd_atoms X (Kws KDE_NET_WM_ACTIVITIES))
       (xd_atoms X XaString) 0 MAX_PROP_SIZE)) (xd_atoms X XaString))"
  by (simp add: open_win_def NETWinInfo_def win_update_is_direct win_update_direct_def win_directs_def win_dirty_def
      win_blank_def flag_simps win_get_def read_activities_def read_wm_state_def case_prod_beta wm_hints_flags_def hasf_or)

lemma forced_activities: "forced v 0 (prop2_flag WM2Activities) = (prop_flag XAWMState, prop2_flag WM2Activities)"
  by (simp add: forced_def flag_simps)

lemma no_comma_part: "list_all activity_name acts \<Longrightarrow> no_nul (comma_joined acts)"
  using subsetD [OF comma_joined_set, of NUL acts] by (auto simp: no_nul_def activity_name_def list_all_iff NUL_def)

lemma nulluuid_chars: "CHR '','' \<notin> set nulluuid" "nulluuid \<noteq> []" "NUL \<notin> set nulluuid" "length nulluuid = 36"
  by (simp_all add: nulluuid_def NUL_def)

lemma nulluuid_word: "words_of (\<lambda>c. c = qchar CHR '','') (qs nulluuid) = [qs nulluuid]"
  using nulluuid_chars(1,2) by (intro words_of_simps(3)) (auto simp: list_all_iff set_qs)

lemma qchar_not_in: "c \<notin> set s \<Longrightarrow> qchar c \<notin> set (qs s)"
  by (auto simp: set_qs)

lemma activity_word:
  assumes "activity_name a"
  shows "qs a \<noteq> []" "qchar CHR '','' \<notin> set (qs a)" "qs a \<noteq> qs nulluuid"
proof -
  have a: "a \<noteq> []" "CHR '','' \<notin> set a" "a \<noteq> nulluuid" using assms unfolding activity_name_def by blast+
  show "qs a \<noteq> []" using a(1) by (simp only: qs_simps not_False_eq_True)
  show "qchar CHR '','' \<notin> set (qs a)" by (rule qchar_not_in [OF a(2)])
  show "qs a \<noteq> qs nulluuid" using a(3) by (simp only: qs_inject not_False_eq_True)
qed

lemma activity_words:
  assumes "list_all activity_name acts"
  shows "\<forall>w \<in> set (map qs acts). w \<noteq> [] \<and> qchar CHR '','' \<notin> set w" "qs nulluuid \<notin> set (map qs acts)"
proof -
  have each: "activity_name a" if "a \<in> set acts" for a using assms that unfolding list_all_iff by blast
  show "\<forall>w \<in> set (map qs acts). w \<noteq> [] \<and> qchar CHR '','' \<notin> set w"
  proof
    fix w assume "w \<in> set (map qs acts)"
    then obtain a where "a \<in> set acts" "w = qs a" unfolding set_map by (rule imageE)
    then show "w \<noteq> [] \<and> qchar CHR '','' \<notin> set w" using activity_word(1,2) [OF each] by (simp only: not_False_eq_True)
  qed
  show "qs nulluuid \<notin> set (map qs acts)"
  proof
    assume "qs nulluuid \<in> set (map qs acts)"
    then obtain a where "a \<in> set acts" "qs nulluuid = qs a" unfolding set_map by (rule imageE)
    then show False using activity_word(3) [OF each, of a] by simp
  qed
qed

lemma read_window_info:
  assumes "we_x11 E" "forced (extras_mapViewport X A s) p q = (p', q')"
    and "\<not> hasf p' (prop_flag WMGeometry OR prop_flag WMFrameExtents)"
  shows "kw_info (new_window_info X A E s w p q) = Some (open_win X A w p' q')"
  using assms unfolding new_window_info_def Let_def by (simp only: prod.case if_False not_True_eq_False case_prod_beta) simp

text \<open>
  The activities a client puts a window on are the activities a reader of the window gives, in the same
  order; no activity at all is read as all activities, which is the empty list again.
\<close>

theorem activities_roundtrip:
  assumes "list_all activity_name acts" "length (comma_joined acts) \<le> 4 * MAX_PROP_SIZE" "we_x11 E" "\<And>t. we_latin1 E t = qs t"
    and "xd_atoms Y = xd_atoms X"
    and "\<And>r. XsWin (WinReq r) \<in> set (setOnActivities X A win acts) \<Longrightarrow> answers (xd_server Y) r"
  shows "kw_activities E (new_window_info Y B E s win 0 (prop2_flag WM2Activities)) = map qs acts"
proof -
  define bytes where "bytes = (if acts = [] then nulluuid else comma_joined acts)"
  have bytes: "no_nul bytes" "bytes \<noteq> []" "length bytes \<le> 4 * MAX_PROP_SIZE"
    using assms(2) no_comma_part [OF assms(1)] comma_joined_empty [OF assms(1)]
    by (auto simp: bytes_def nulluuid_chars no_nul_def MAX_PROP_SIZE_def)
  have w: "wi_window (open_win X A win p q) = win" for p q
    by (simp add: open_win_def NETWinInfo_def win_blank_def)
  have "XsWin (WinReq (ChangeProperty win (xd_atoms X (Kws KDE_NET_WM_ACTIVITIES)) (xd_atoms X XaString) (V8 bytes))) \<in>
      set (setOnActivities X A win acts)"
    using comma_joined_empty [OF assms(1)]
    by (simp add: setOnActivities_def setActivities_def text_always_def win_change_def w bytes_def)
  from assms(6) [OF this] have "xd_server Y (GetProperty win (xd_atoms Y (Kws KDE_NET_WM_ACTIVITIES)) (xd_atoms Y XaString) 0
      MAX_PROP_SIZE) = Some \<lparr>reply_type = xd_atoms Y XaString, reply_value = V8 bytes\<rparr>"
    using bytes(3) by (simp add: xfits_def assms(5))
  then have acts: "wi_activities (open_win Y B win (prop_flag XAWMState) (prop2_flag WM2Activities)) = Some bytes"
    using bytes by (simp only: activities_read) (simp add: text_of_def nstrndup_def)
  have parts: "words_of (\<lambda>c. c = qchar CHR '','') (qs bytes) = (if acts = [] then [qs nulluuid] else map qs acts)"
  proof (cases "acts = []")
    case True
    then show ?thesis by (simp add: bytes_def nulluuid_word)
  next
    case False
    then have "qs bytes = joined (qchar CHR '','') (map qs acts)" by (simp add: bytes_def comma_joined_qs)
    then show ?thesis using words_of_joined [OF activity_words(1) [OF assms(1)]] False by simp
  qed
  note none = activity_words(2) [OF assms(1)]
  have "kw_info (new_window_info Y B E s win 0 (prop2_flag WM2Activities)) =
      Some (open_win Y B win (prop_flag XAWMState) (prop2_flag WM2Activities))"
    by (rule read_window_info [OF assms(3) forced_activities]) (simp add: flag_simps hasf_or)
  then have "kw_activities E (new_window_info Y B E s win 0 (prop2_flag WM2Activities)) =
      (if qs nulluuid \<in> set (words_of (\<lambda>c. c = qchar CHR '','') (qs bytes)) then []
       else words_of (\<lambda>c. c = qchar CHR '','') (qs bytes))"
    using acts by (simp only: kw_activities_def checked_def option.case assms(4) Let_def)
  then show ?thesis
    unfolding parts using none by (cases "acts = []") simp_all
qed

definition sample_env :: window_env where
  "sample_env = \<lparr>we_x11 = True, we_qt = sample_qt, we_text = (\<lambda>_ _. None), we_list = (\<lambda>_. None), we_local = qs,
     we_latin1 = qs, we_utf8 = 1, we_geometry = None, we_translated = None, we_error = False, we_pid = None,
     we_screen_width = 800, we_screen_height = 600\<rparr>"

definition sample_activities_display :: x_display where
  "sample_activities_display = (sample_display_of [])\<lparr>xd_server := serve
     [ChangeProperty 42 (sample_atoms (Kws KDE_NET_WM_ACTIVITIES)) (sample_atoms XaString) (V8 ''home,work'')]\<rparr>"

lemma sample_activities_written:
  "setOnActivities sample_activities_display sample_app 42 [''home'', ''work''] =
     [XsWin (WinReq (ChangeProperty 42 (sample_atoms (Kws KDE_NET_WM_ACTIVITIES)) (sample_atoms XaString) (V8 ''home,work'')))]"
proof -
  have "wi_window (open_win sample_activities_display sample_app 42 0 (prop2_flag WM2Activities)) = 42"
    by (simp add: open_win_def NETWinInfo_def win_blank_def)
  then show ?thesis
    by (simp add: setOnActivities_def setActivities_def text_always_def win_change_def sample_activities_display_def
        sample_display_of_def)
qed

theorem activities_roundtrip_witness:
  "kw_activities sample_env (new_window_info sample_activities_display sample_app sample_env None 42 0
     (prop2_flag WM2Activities)) = [qs ''home'', qs ''work'']"
proof -
  have "answers (xd_server sample_activities_display) r"
    if "XsWin (WinReq r) \<in> set (setOnActivities sample_activities_display sample_app 42 [''home'', ''work''])" for r
    using that by (simp add: sample_activities_written) (simp add: sample_activities_display_def)
  moreover have "list_all activity_name [''home'', ''work'']" by (simp add: activity_name_def nulluuid_def NUL_def)
  moreover have "length (comma_joined [''home'', ''work'']) \<le> 4 * MAX_PROP_SIZE" by (simp add: MAX_PROP_SIZE_def)
  moreover have "we_x11 sample_env" "\<And>t. we_latin1 sample_env t = qs t" by (simp_all add: sample_env_def)
  ultimately show ?thesis
    using activities_roundtrip [OF _ _ _ _ refl, of "[''home'', ''work'']" sample_env sample_activities_display sample_app 42
        sample_app None] by simp
qed

section \<open>Window types\<close>

text \<open>
  The fallback for windows without a type is never used: a window always has a type, so the answer is
  that of \<^verbatim>\<open>NETWinInfo\<close>, also for a dialog that says nothing but what it is transient for.
\<close>

theorem window_type_fallback_dead:
  "kw_windowType (new_window_info X A E s w props props2) supported =
    (let (p, q) = forced (extras_mapViewport X A s) props props2
     in if we_x11 E then windowType (open_win X A w p q) supported else Normal)"
proof -
  have has: "hasWindowType (open_win X A w p q)" for p q
    using NETWinInfo_inv [of "xd_atoms X" "xd_server X" w "app_root A" p q Client]
    by (simp add: open_win_def hasWindowType_def win_inv_def rarr_size_list [of type0])
  have types: "wi_types (fst (kdeGeometry g t i)) = wi_types i" for g t i
    by (simp add: kdeGeometry_def Let_def split: option.split)
  have same: "hasWindowType i = hasWindowType j \<and> windowType i st = windowType j st" if "wi_types i = wi_types j" for i j st
    using that by (simp add: hasWindowType_def windowType_def split: option.split)
  obtain p q where f: "forced (extras_mapViewport X A s) props props2 = (p, q)" by force
  show ?thesis
  proof (cases "we_x11 E")
    case True
    obtain info where k: "kw_info (new_window_info X A E s w props props2) = Some info"
        "wi_types info = wi_types (open_win X A w p q)"
      using True f types by (auto simp: new_window_info_def Let_def case_prod_beta)
    show ?thesis
      using True f k(1) has [of p q] same [OF k(2)] by (simp add: kw_windowType_def checked_def)
  next
    case False
    then show ?thesis by (simp add: f kw_windowType_def checked_def new_window_info_def Let_def)
  qed
qed

end
