(* ===== verification/Shadow.thy ===== *)
theory Shadow
  imports Prelude "HOL-Library.Multiset"
begin

text \<open>
  Shadows of windows (kwindowshadow.cpp and platforms/xcb/kwindowshadow.cpp): tiles with their images and
  pixmaps, which several shadows may share, and shadows, which publish the pixmaps of their tiles in a
  property of their window.  The world of the model holds all tiles and shadows of the program, the
  pointers to tiles the program itself keeps, and the windows of the display its windows of Qt have.
\<close>

section \<open>Objects\<close>

record q_image =
  img_width :: int
  img_height :: int
  img_depth :: int
  img_bits :: "8 word list"

definition null_image :: q_image where
  "null_image = \<lparr>img_width = 0, img_height = 0, img_depth = 0, img_bits = []\<rparr>"

record shadow_tile =
  tile_image :: q_image
  tile_created :: bool
  tile_pixmap :: u32
  tile_gc :: u32

definition blank_tile :: shadow_tile where
  "blank_tile = \<lparr>tile_image = null_image, tile_created = False, tile_pixmap = 0, tile_gc = 0\<rparr>"

datatype side = ShLeft | ShTopLeft | ShTop | ShTopRight | ShRight | ShBottomRight | ShBottom | ShBottomLeft

record margins =
  mg_left :: i32
  mg_top :: i32
  mg_right :: i32
  mg_bottom :: i32

text \<open>A tile is named by its address, a place in the list of tiles; a window of Qt by a number.\<close>

record shadow =
  sh_tile :: "side \<Rightarrow> nat option"
  sh_padding :: margins
  sh_window :: "nat option"
  sh_created :: bool
  sh_empty :: "nat option"

definition blank_shadow :: shadow where
  "blank_shadow = \<lparr>sh_tile = (\<lambda>_. None), sh_padding = \<lparr>mg_left = 0, mg_top = 0, mg_right = 0, mg_bottom = 0\<rparr>,
     sh_window = None, sh_created = False, sh_empty = None\<rparr>"

record shadow_world =
  w_tiles :: "shadow_tile option list"
  w_shadows :: "shadow option list"
  w_held :: "nat list"
  w_surface :: "nat \<Rightarrow> u32 option"
  w_ids :: nat

text \<open>
  The platform: whether the plugin for X11 is loaded (else nothing can be created), whether there is
  a connection, the answer to the request for the atom, and the identifiers the library of X gives out.
\<close>

record shadow_env =
  se_x11 :: bool
  se_connected :: bool
  se_atom :: "u32 option"
  se_id :: "nat \<Rightarrow> u32"

text \<open>What is sent to the X server, and what happens to windows there.\<close>

datatype x_shadow =
    CreatePixmap "8 word" u32 "16 word" "16 word"
  | CreateGC u32 u32
  | PutImage u32 u32 "16 word" "16 word" "8 word" "8 word list"
  | FreePixmap u32
  | FreeGC u32
  | SetShadow u32 u32 "u32 list"
  | DeleteShadow u32 u32
  | WindowMade u32
  | WindowDestroyed u32

section \<open>Operations on the world\<close>

text \<open>An operation changes the world, sends requests and returns a value.\<close>

type_synonym 'a shadow_io = "shadow_world \<Rightarrow> shadow_world \<times> x_shadow list \<times> 'a"

definition sret :: "'a \<Rightarrow> 'a shadow_io" where
  "sret a = (\<lambda>w. (w, [], a))"

definition sthen :: "'a shadow_io \<Rightarrow> ('a \<Rightarrow> 'b shadow_io) \<Rightarrow> 'b shadow_io" where
  "sthen f g = (\<lambda>w. let (w1, e1, a) = f w; (w2, e2, b) = g a w1 in (w2, e1 @ e2, b))"

definition sget :: "(shadow_world \<Rightarrow> 'a) \<Rightarrow> 'a shadow_io" where
  "sget f = (\<lambda>w. (w, [], f w))"

definition smod :: "(shadow_world \<Rightarrow> shadow_world) \<Rightarrow> unit shadow_io" where
  "smod f = (\<lambda>w. (f w, [], ()))"

definition semit :: "x_shadow list \<Rightarrow> unit shadow_io" where
  "semit es = (\<lambda>w. (w, es, ()))"

fun sfor :: "('a \<Rightarrow> 'b shadow_io) \<Rightarrow> 'a list \<Rightarrow> 'b list shadow_io" where
  "sfor f [] = sret []"
| "sfor f (x # xs) = sthen (f x) (\<lambda>r. sthen (sfor f xs) (\<lambda>rs. sret (r # rs)))"

definition tile_at :: "nat \<Rightarrow> shadow_world \<Rightarrow> shadow_tile option" where
  "tile_at t w = (if t < length (w_tiles w) then w_tiles w ! t else None)"

definition shadow_at :: "nat \<Rightarrow> shadow_world \<Rightarrow> shadow option" where
  "shadow_at s w = (if s < length (w_shadows w) then w_shadows w ! s else None)"

definition put_tile :: "nat \<Rightarrow> shadow_tile option \<Rightarrow> shadow_world \<Rightarrow> shadow_world" where
  "put_tile t d w = w\<lparr>w_tiles := (w_tiles w)[t := d]\<rparr>"

definition put_shadow :: "nat \<Rightarrow> shadow option \<Rightarrow> shadow_world \<Rightarrow> shadow_world" where
  "put_shadow s d w = w\<lparr>w_shadows := (w_shadows w)[s := d]\<rparr>"

definition xcb_generate_id :: "shadow_env \<Rightarrow> u32 shadow_io" where
  "xcb_generate_id E = (\<lambda>w. (w\<lparr>w_ids := Suc (w_ids w)\<rparr>, [], se_id E (w_ids w)))"

section \<open>Tiles\<close>

definition x11_tile_create :: "shadow_env \<Rightarrow> nat \<Rightarrow> shadow_tile \<Rightarrow> bool shadow_io" where
  "x11_tile_create E t d =
     (let width = word_of_int (img_width (tile_image d)); height = word_of_int (img_height (tile_image d));
          depth = word_of_int (img_depth (tile_image d))
      in sthen (xcb_generate_id E) (\<lambda>pixmap. sthen (xcb_generate_id E) (\<lambda>gc.
           sthen (smod (put_tile t (Some (d\<lparr>tile_pixmap := pixmap, tile_gc := gc\<rparr>)))) (\<lambda>_.
           sthen (semit [CreatePixmap depth pixmap width height, CreateGC gc pixmap,
               PutImage pixmap gc width height depth (img_bits (tile_image d))]) (\<lambda>_.
           sret True)))))"

definition set_tile_created :: "nat \<Rightarrow> bool \<Rightarrow> shadow_world \<Rightarrow> shadow_world" where
  "set_tile_created t b w = put_tile t (map_option (tile_created_update (\<lambda>_. b)) (tile_at t w)) w"

definition tile_create :: "shadow_env \<Rightarrow> nat \<Rightarrow> bool shadow_io" where
  "tile_create E t = sthen (sget (tile_at t)) (\<lambda>o'. case o' of
       None \<Rightarrow> sret False
     | Some d \<Rightarrow>
         if tile_created d then sret True
         else sthen (if se_x11 E then x11_tile_create E t d else sret False) (\<lambda>b.
           sthen (smod (set_tile_created t b)) (\<lambda>_. sret b)))"

definition setImage :: "nat \<Rightarrow> q_image \<Rightarrow> unit shadow_io" where
  "setImage t img = smod (\<lambda>w. case tile_at t w of
       None \<Rightarrow> w
     | Some d \<Rightarrow> if tile_created d then w else put_tile t (Some (d\<lparr>tile_image := img\<rparr>)) w)"

text \<open>
  A tile is deleted with the last pointer to it (\<^verbatim>\<open>QSharedPointer\<close>); a tile that is created frees what it has
  at the server.  \<open>drop_tile\<close> is called for a pointer that has just been given up.
\<close>

definition sides :: "side list" where
  "sides = [ShLeft, ShTopLeft, ShTop, ShTopRight, ShRight, ShBottomRight, ShBottom, ShBottomLeft]"

definition shadow_refs :: "shadow \<Rightarrow> nat list" where
  "shadow_refs sh = List.map_filter id (sh_empty sh # map (sh_tile sh) (rev sides))"

definition referenced :: "shadow_world \<Rightarrow> nat \<Rightarrow> bool" where
  "referenced w t \<longleftrightarrow> t \<in> set (w_held w) \<or>
     list_ex (\<lambda>o'. case o' of None \<Rightarrow> False | Some sh \<Rightarrow> t \<in> set (shadow_refs sh)) (w_shadows w)"

definition x11_tile_destroy :: "shadow_env \<Rightarrow> shadow_tile \<Rightarrow> x_shadow list" where
  "x11_tile_destroy E d = (if se_connected E then [FreePixmap (tile_pixmap d), FreeGC (tile_gc d)] else [])"

definition drop_tile :: "shadow_env \<Rightarrow> nat \<Rightarrow> unit shadow_io" where
  "drop_tile E t = (\<lambda>w. if referenced w t then (w, [], ())
     else case tile_at t w of
       None \<Rightarrow> (w, [], ())
     | Some d \<Rightarrow> (put_tile t None w, if tile_created d then x11_tile_destroy E d else [], ()))"

definition new_tile :: "nat shadow_io" where
  "new_tile = (\<lambda>w. (w\<lparr>w_tiles := w_tiles w @ [Some blank_tile]\<rparr>, [], length (w_tiles w)))"

section \<open>Shadows\<close>

definition lookupAtom :: "shadow_env \<Rightarrow> u32" where
  "lookupAtom E = (if \<not> se_connected E then 0 else case se_atom E of None \<Rightarrow> 0 | Some a \<Rightarrow> a)"

text \<open>A change of a shadow that is refused while the shadow is created, with the pointer that is given up.\<close>

definition change_shadow :: "nat \<Rightarrow> (shadow \<Rightarrow> shadow) \<Rightarrow> shadow_world \<Rightarrow> shadow_world" where
  "change_shadow s f w = put_shadow s (map_option f (shadow_at s w)) w"

definition set_shadow :: "nat \<Rightarrow> (shadow \<Rightarrow> shadow) \<Rightarrow> unit shadow_io" where
  "set_shadow s f = smod (\<lambda>w. case shadow_at s w of
       None \<Rightarrow> w | Some sh \<Rightarrow> if sh_created sh then w else change_shadow s f w)"

definition drop_pointer :: "shadow_env \<Rightarrow> nat option \<Rightarrow> unit shadow_io" where
  "drop_pointer E p = (case p of None \<Rightarrow> sret () | Some t \<Rightarrow> drop_tile E t)"

definition setTile :: "shadow_env \<Rightarrow> side \<Rightarrow> nat \<Rightarrow> nat option \<Rightarrow> unit shadow_io" where
  "setTile E side s tile = sthen (sget (shadow_at s)) (\<lambda>o'. case o' of
       None \<Rightarrow> sret ()
     | Some sh \<Rightarrow>
         if sh_created sh then sret ()
         else sthen (smod (change_shadow s (\<lambda>sh. sh\<lparr>sh_tile := (sh_tile sh)(side := tile)\<rparr>))) (\<lambda>_.
           drop_pointer E (sh_tile sh side)))"

definition setPadding :: "nat \<Rightarrow> margins \<Rightarrow> unit shadow_io" where
  "setPadding s m = set_shadow s (\<lambda>sh. sh\<lparr>sh_padding := m\<rparr>)"

definition setWindow :: "nat \<Rightarrow> nat option \<Rightarrow> unit shadow_io" where
  "setWindow s q = set_shadow s (\<lambda>sh. sh\<lparr>sh_window := q\<rparr>)"

text \<open>\<^verbatim>\<open>prepareTiles\<close> stops at the first tile that cannot be created.\<close>

fun prepare_tiles :: "shadow_env \<Rightarrow> nat option list \<Rightarrow> bool shadow_io" where
  "prepare_tiles E [] = sret True"
| "prepare_tiles E (None # ts) = prepare_tiles E ts"
| "prepare_tiles E (Some t # ts) =
     sthen (tile_create E t) (\<lambda>b. if b then prepare_tiles E ts else sret False)"

text \<open>The tile that stands for a side without one is made when it is first needed.\<close>

definition empty_image :: q_image where
  "empty_image = \<lparr>img_width = 1, img_height = 1, img_depth = 32, img_bits = [0, 0, 0, 0]\<rparr>"

definition getOrCreateEmptyTile :: "shadow_env \<Rightarrow> nat \<Rightarrow> nat shadow_io" where
  "getOrCreateEmptyTile E s = sthen (sget (shadow_at s)) (\<lambda>o'. case Option.bind o' sh_empty of
       Some t \<Rightarrow> sret t
     | None \<Rightarrow>
         sthen new_tile (\<lambda>t.
         sthen (smod (change_shadow s (sh_empty_update (\<lambda>_. Some t)))) (\<lambda>_.
         sthen (setImage t empty_image) (\<lambda>_.
         sthen (tile_create E t) (\<lambda>_. sret t)))))"

definition pixmap_at :: "nat \<Rightarrow> shadow_world \<Rightarrow> u32" where
  "pixmap_at t w = (case tile_at t w of None \<Rightarrow> 0 | Some d \<Rightarrow> tile_pixmap d)"

definition tile_handle :: "shadow_env \<Rightarrow> nat \<Rightarrow> side \<Rightarrow> u32 shadow_io" where
  "tile_handle E s side = sthen (sget (shadow_at s)) (\<lambda>o'. case Option.bind o' (\<lambda>sh. sh_tile sh side) of
       Some t \<Rightarrow> sget (pixmap_at t)
     | None \<Rightarrow> sthen (getOrCreateEmptyTile E s) (\<lambda>t. sget (pixmap_at t)))"

definition data_order :: "side list" where
  "data_order = [ShTop, ShTopRight, ShRight, ShBottomRight, ShBottom, ShBottomLeft, ShLeft, ShTopLeft]"

definition pad_word :: "shadow \<Rightarrow> side list \<Rightarrow> i32 \<Rightarrow> u32" where
  "pad_word sh edge p = (if list_ex (\<lambda>side. sh_tile sh side \<noteq> None) edge then p else 1)"

definition pad_words :: "shadow \<Rightarrow> u32 list" where
  "pad_words sh =
     [pad_word sh [ShTopLeft, ShTop, ShTopRight] (mg_top (sh_padding sh)),
      pad_word sh [ShTopRight, ShRight, ShBottomRight] (mg_right (sh_padding sh)),
      pad_word sh [ShBottomRight, ShBottom, ShBottomLeft] (mg_bottom (sh_padding sh)),
      pad_word sh [ShBottomLeft, ShLeft, ShTopLeft] (mg_left (sh_padding sh))]"

text \<open>A window of Qt gets its window of the display when it is first asked for.\<close>

definition winId :: "shadow_env \<Rightarrow> nat \<Rightarrow> u32 shadow_io" where
  "winId E q = sthen (sget (\<lambda>w. w_surface w q)) (\<lambda>o'. case o' of
       Some x \<Rightarrow> sret x
     | None \<Rightarrow> sthen (xcb_generate_id E) (\<lambda>x.
         sthen (smod (\<lambda>w. w\<lparr>w_surface := (w_surface w)(q := Some x)\<rparr>)) (\<lambda>_.
         sthen (semit [WindowMade x]) (\<lambda>_. sret x))))"

definition x11_shadow_create :: "shadow_env \<Rightarrow> nat \<Rightarrow> shadow \<Rightarrow> nat \<Rightarrow> bool shadow_io" where
  "x11_shadow_create E s sh q =
     (if lookupAtom E = 0 then sret False
      else sthen (sfor (tile_handle E s) data_order) (\<lambda>handles.
        sthen (winId E q) (\<lambda>x.
        sthen (semit [SetShadow x (lookupAtom E) (handles @ pad_words sh)]) (\<lambda>_. sret True))))"

definition shadow_create :: "shadow_env \<Rightarrow> nat \<Rightarrow> bool shadow_io" where
  "shadow_create E s = sthen (sget (shadow_at s)) (\<lambda>o'. case o' of
       None \<Rightarrow> sret False
     | Some sh \<Rightarrow>
         if sh_created sh then sret True
         else case sh_window sh of
           None \<Rightarrow> sret False
         | Some q \<Rightarrow> sthen (prepare_tiles E (map (sh_tile sh) sides)) (\<lambda>ready.
             if \<not> ready then sret False
             else sthen (if se_x11 E then x11_shadow_create E s sh q else sret False) (\<lambda>b.
               sthen (smod (change_shadow s (sh_created_update (\<lambda>_. b)))) (\<lambda>_. sret b))))"

definition x11_shadow_destroy :: "shadow_env \<Rightarrow> nat \<Rightarrow> shadow \<Rightarrow> unit shadow_io" where
  "x11_shadow_destroy E s sh =
     sthen (smod (change_shadow s (sh_empty_update (\<lambda>_. None)))) (\<lambda>_.
     sthen (drop_pointer E (sh_empty sh)) (\<lambda>_.
     sthen (sget (\<lambda>w. Option.bind (sh_window sh) (w_surface w))) (\<lambda>o'. case o' of
       None \<Rightarrow> sret ()
     | Some x \<Rightarrow> if lookupAtom E = 0 then sret () else semit [DeleteShadow x (lookupAtom E)])))"

definition shadow_destroy :: "shadow_env \<Rightarrow> nat \<Rightarrow> unit shadow_io" where
  "shadow_destroy E s = sthen (sget (shadow_at s)) (\<lambda>o'. case o' of
       None \<Rightarrow> sret ()
     | Some sh \<Rightarrow>
         if \<not> sh_created sh then sret ()
         else sthen (if se_x11 E then x11_shadow_destroy E s sh else sret ()) (\<lambda>_.
           smod (change_shadow s (sh_created_update (\<lambda>_. False)))))"

text \<open>The destructor: the shadow is destroyed, then its pointers are given up from the last to the first.\<close>

definition delete_shadow :: "shadow_env \<Rightarrow> nat \<Rightarrow> unit shadow_io" where
  "delete_shadow E s = sthen (shadow_destroy E s) (\<lambda>_. sthen (sget (shadow_at s)) (\<lambda>o'. case o' of
       None \<Rightarrow> sret ()
     | Some sh \<Rightarrow> sthen (smod (put_shadow s None)) (\<lambda>_.
         sthen (sfor (drop_tile E) (remdups (shadow_refs sh))) (\<lambda>_. sret ()))))"

section \<open>A program that uses shadows\<close>

text \<open>
  What a program and Qt can do: make tiles and keep pointers to them, make shadows and change them, copy a
  pointer out of a shadow, give pointers up, and make and destroy windows.  A program passes only
  pointers that it holds.
\<close>

datatype shadow_op =
    NewTile
  | ImageOp nat q_image
  | CreateTile nat
  | ForgetTile nat
  | NewShadow
  | TileOp side nat "nat option"
  | TakeTile side nat
  | PaddingOp nat margins
  | WindowOp nat "nat option"
  | CreateShadow nat
  | DestroyShadow nat
  | RemoveShadow nat
  | MakeSurface nat
  | DestroySurface nat
  | DestroyWindow nat

definition held_pointer :: "shadow_world \<Rightarrow> nat option \<Rightarrow> bool" where
  "held_pointer w p \<longleftrightarrow> (case p of None \<Rightarrow> True | Some t \<Rightarrow> t \<in> set (w_held w))"

definition swhen :: "(shadow_world \<Rightarrow> bool) \<Rightarrow> unit shadow_io \<Rightarrow> unit shadow_io" where
  "swhen c f = (\<lambda>w. if c w then f w else (w, [], ()))"

definition hold :: "nat \<Rightarrow> unit shadow_io" where
  "hold t = smod (\<lambda>w. w\<lparr>w_held := t # w_held w\<rparr>)"

definition lose_surface :: "nat \<Rightarrow> unit shadow_io" where
  "lose_surface q = (\<lambda>w. (w\<lparr>w_surface := (w_surface w)(q := None)\<rparr>,
     case w_surface w q of None \<Rightarrow> [] | Some x \<Rightarrow> [WindowDestroyed x], ()))"

text \<open>\<^verbatim>\<open>QPointer\<close>: a shadow forgets a window that is destroyed.\<close>

definition forget_window :: "nat \<Rightarrow> shadow \<Rightarrow> shadow" where
  "forget_window q sh = (if sh_window sh = Some q then sh\<lparr>sh_window := None\<rparr> else sh)"

fun shadow_step :: "shadow_env \<Rightarrow> shadow_op \<Rightarrow> unit shadow_io" where
  "shadow_step E NewTile = sthen new_tile hold"
| "shadow_step E (ImageOp t img) = swhen (\<lambda>w. t \<in> set (w_held w)) (setImage t img)"
| "shadow_step E (CreateTile t) = swhen (\<lambda>w. t \<in> set (w_held w)) (sthen (tile_create E t) (\<lambda>_. sret ()))"
| "shadow_step E (ForgetTile t) = sthen (smod (\<lambda>w. w\<lparr>w_held := remove1 t (w_held w)\<rparr>)) (\<lambda>_. drop_tile E t)"
| "shadow_step E NewShadow = smod (\<lambda>w. w\<lparr>w_shadows := w_shadows w @ [Some blank_shadow]\<rparr>)"
| "shadow_step E (TileOp side s p) = swhen (\<lambda>w. held_pointer w p) (setTile E side s p)"
| "shadow_step E (TakeTile side s) = sthen (sget (shadow_at s)) (\<lambda>o'.
     case Option.bind o' (\<lambda>sh. sh_tile sh side) of None \<Rightarrow> sret () | Some t \<Rightarrow> hold t)"
| "shadow_step E (PaddingOp s m) = setPadding s m"
| "shadow_step E (WindowOp s q) = setWindow s q"
| "shadow_step E (CreateShadow s) = sthen (shadow_create E s) (\<lambda>_. sret ())"
| "shadow_step E (DestroyShadow s) = shadow_destroy E s"
| "shadow_step E (RemoveShadow s) = delete_shadow E s"
| "shadow_step E (MakeSurface q) = sthen (winId E q) (\<lambda>_. sret ())"
| "shadow_step E (DestroySurface q) = lose_surface q"
| "shadow_step E (DestroyWindow q) = sthen (lose_surface q) (\<lambda>_.
     smod (\<lambda>w. w\<lparr>w_shadows := map (map_option (forget_window q)) (w_shadows w)\<rparr>))"

definition shadow_run :: "shadow_env \<Rightarrow> shadow_op list \<Rightarrow> unit shadow_io" where
  "shadow_run E ops = sthen (sfor (shadow_step E) ops) (\<lambda>_. sret ())"

definition empty_world :: shadow_world where
  "empty_world = \<lparr>w_tiles = [], w_shadows = [], w_held = [], w_surface = (\<lambda>_. None), w_ids = 0\<rparr>"

section \<open>The server\<close>

text \<open>What the server holds for the program: pixmaps and graphics contexts, and the property of every window.\<close>

record shadow_server =
  sv_pixmaps :: "u32 multiset"
  sv_gcs :: "u32 multiset"
  sv_shadow :: "u32 \<Rightarrow> u32 list option"

definition empty_server :: shadow_server where
  "empty_server = \<lparr>sv_pixmaps = {#}, sv_gcs = {#}, sv_shadow = (\<lambda>_. None)\<rparr>"

fun sv_step :: "x_shadow \<Rightarrow> shadow_server \<Rightarrow> shadow_server" where
  "sv_step (CreatePixmap _ p _ _) S = S\<lparr>sv_pixmaps := add_mset p (sv_pixmaps S)\<rparr>"
| "sv_step (CreateGC g _) S = S\<lparr>sv_gcs := add_mset g (sv_gcs S)\<rparr>"
| "sv_step (PutImage _ _ _ _ _ _) S = S"
| "sv_step (FreePixmap p) S = S\<lparr>sv_pixmaps := sv_pixmaps S - {#p#}\<rparr>"
| "sv_step (FreeGC g) S = S\<lparr>sv_gcs := sv_gcs S - {#g#}\<rparr>"
| "sv_step (SetShadow x _ ws) S = S\<lparr>sv_shadow := (sv_shadow S)(x := Some ws)\<rparr>"
| "sv_step (DeleteShadow x _) S = S\<lparr>sv_shadow := (sv_shadow S)(x := None)\<rparr>"
| "sv_step (WindowMade x) S = S"
| "sv_step (WindowDestroyed x) S = S\<lparr>sv_shadow := (sv_shadow S)(x := None)\<rparr>"

definition sv_run :: "x_shadow list \<Rightarrow> shadow_server \<Rightarrow> shadow_server" where
  "sv_run es S = fold sv_step es S"

lemma sv_run_simps [simp]: "sv_run [] S = S" "sv_run (e # es) S = sv_run es (sv_step e S)"
  "sv_run (es @ fs) S = sv_run fs (sv_run es S)"
  by (simp_all add: sv_run_def)

end
