(* ===== verification/ShadowInvariant.thy ===== *)
theory ShadowInvariant
  imports Shadow
begin

text \<open>
  The invariant of the shadows of a program: pointers lead to tiles that are there and no tile is there
  without a pointer to it, the server holds exactly what the created tiles have, and what a window shows is
  made of the pixmaps of a shadow that is created.
\<close>

section \<open>Composed operations\<close>

lemma sthen_elim:
  assumes "sthen f g w = (w', es, b)"
  obtains w1 e1 a e2 where "f w = (w1, e1, a)" "g a w1 = (w', e2, b)" "es = e1 @ e2"
  using assms by (auto simp: sthen_def split: prod.splits)

lemma sthen_eqs [simp]:
  "sthen (sret a) g = g a"
  "sthen (sget h) g w = g (h w) w"
  "sthen (smod u) g' w = g' () (u w)"
  "sret a w = (w, [], a)" "sget h w = (w, [], h w)" "smod u w = (u w, [], ())" "semit es w = (w, es, ())"
  by (simp_all add: sthen_def sret_def sget_def smod_def semit_def case_prod_beta fun_eq_iff)

lemma sthen_emit [simp]: "sthen (semit es) g w = (let (w', fs, b) = g () w in (w', es @ fs, b))"
  by (simp add: sthen_def semit_def)

section \<open>Places\<close>

lemma tile_at_put [simp]: "tile_at t (put_tile u d w) = (if t = u \<and> u < length (w_tiles w) then d else tile_at t w)"
  by (auto simp: tile_at_def put_tile_def)

lemma shadow_at_put [simp]:
  "shadow_at s (put_shadow u d w) = (if s = u \<and> u < length (w_shadows w) then d else shadow_at s w)"
  by (auto simp: shadow_at_def put_shadow_def)

lemma put_other [simp]:
  "shadow_at s (put_tile u d w) = shadow_at s w" "tile_at t (put_shadow u c w) = tile_at t w"
  "w_held (put_tile u d w) = w_held w" "w_held (put_shadow u c w) = w_held w"
  "w_surface (put_tile u d w) = w_surface w" "w_surface (put_shadow u c w) = w_surface w"
  "w_shadows (put_tile u d w) = w_shadows w" "w_tiles (put_shadow u c w) = w_tiles w"
  "length (w_tiles (put_tile u d w)) = length (w_tiles w)"
  "length (w_shadows (put_shadow u c w)) = length (w_shadows w)"
  "w_ids (put_tile u d w) = w_ids w" "w_ids (put_shadow u c w) = w_ids w"
  by (simp_all add: put_tile_def put_shadow_def shadow_at_def tile_at_def)

lemma at_updates [simp]:
  "tile_at t (w\<lparr>w_ids := n\<rparr>) = tile_at t w" "tile_at t (w\<lparr>w_held := h\<rparr>) = tile_at t w"
  "tile_at t (w\<lparr>w_surface := f\<rparr>) = tile_at t w" "tile_at t (w\<lparr>w_shadows := ss\<rparr>) = tile_at t w"
  "shadow_at s (w\<lparr>w_ids := n\<rparr>) = shadow_at s w" "shadow_at s (w\<lparr>w_held := h\<rparr>) = shadow_at s w"
  "shadow_at s (w\<lparr>w_surface := f\<rparr>) = shadow_at s w" "shadow_at s (w\<lparr>w_tiles := ts\<rparr>) = shadow_at s w"
  by (simp_all add: tile_at_def shadow_at_def)

lemma at_range: "tile_at t w = Some d \<Longrightarrow> t < length (w_tiles w)" "shadow_at s w = Some sh \<Longrightarrow> s < length (w_shadows w)"
  by (auto simp: tile_at_def shadow_at_def split: if_splits)

lemma shadow_at_change [simp]:
  "shadow_at s (change_shadow u f w) = (if s = u then map_option f (shadow_at s w) else shadow_at s w)"
  by (auto simp: change_shadow_def shadow_at_def put_shadow_def nth_list_update)

lemma change_other [simp]:
  "tile_at t (change_shadow u f w) = tile_at t w" "w_held (change_shadow u f w) = w_held w"
  "w_surface (change_shadow u f w) = w_surface w" "w_tiles (change_shadow u f w) = w_tiles w"
  by (simp_all add: change_shadow_def)

lemma set_map_filter_id: "t \<in> set (List.map_filter id xs) \<longleftrightarrow> Some t \<in> set xs"
  by (induction xs) (auto simp: map_filter_simps split: option.splits)

lemma in_sides [simp]: "side \<in> set sides"
  by (cases side) (simp_all add: sides_def)

lemma set_shadow_refs: "t \<in> set (shadow_refs sh) \<longleftrightarrow> sh_empty sh = Some t \<or> (\<exists>side. sh_tile sh side = Some t)"
proof -
  have "Some t \<in> set (map (sh_tile sh) (rev sides)) \<longleftrightarrow> (\<exists>side. sh_tile sh side = Some t)"
    by (auto simp: image_iff) (metis in_sides)
  then show ?thesis unfolding shadow_refs_def set_map_filter_id by (simp only: set_simps insert_iff) metis
qed

definition refers :: "shadow_world \<Rightarrow> nat \<Rightarrow> bool" where
  "refers w t \<longleftrightarrow> t \<in> set (w_held w) \<or> (\<exists>s sh. shadow_at s w = Some sh \<and> t \<in> set (shadow_refs sh))"

lemma referenced_refers: "referenced w t = refers w t"
proof -
  have "list_ex (\<lambda>o'. case o' of None \<Rightarrow> False | Some sh \<Rightarrow> t \<in> set (shadow_refs sh)) (w_shadows w) \<longleftrightarrow>
      (\<exists>s < length (w_shadows w). case w_shadows w ! s of None \<Rightarrow> False | Some sh \<Rightarrow> t \<in> set (shadow_refs sh))"
    by (rule list_ex_length)
  also have "\<dots> \<longleftrightarrow> (\<exists>s sh. shadow_at s w = Some sh \<and> t \<in> set (shadow_refs sh))"
    by (auto simp: shadow_at_def split: option.splits if_splits)
  finally show ?thesis by (simp add: referenced_def refers_def)
qed

section \<open>What the server holds\<close>

definition contrib :: "(shadow_tile \<Rightarrow> u32) \<Rightarrow> shadow_tile option \<Rightarrow> u32 multiset" where
  "contrib f o' = (case o' of None \<Rightarrow> {#} | Some d \<Rightarrow> if tile_created d then {#f d#} else {#})"

definition owned :: "(shadow_tile \<Rightarrow> u32) \<Rightarrow> shadow_world \<Rightarrow> u32 multiset" where
  "owned f w = sum_list (map (contrib f) (w_tiles w))"

lemma sum_list_put: "i < length xs \<Longrightarrow> sum_list (map c (xs[i := v])) + c (xs ! i) = sum_list (map c xs) + (c v :: 'a multiset)"
proof (induction xs arbitrary: i)
  case (Cons x xs)
  show ?case
  proof (cases i)
    case 0
    then show ?thesis by (simp add: union_ac)
  next
    case (Suc j)
    then have "sum_list (map c (xs[j := v])) + c (xs ! j) = sum_list (map c xs) + c v" using Cons by simp
    then show ?thesis using Suc by (simp add: add.assoc)
  qed
qed simp

lemma owned_put: "tile_at t w = Some d \<Longrightarrow> owned f (put_tile t d' w) + contrib f (Some d) = owned f w + contrib f d'"
proof -
  assume t: "tile_at t w = Some d"
  then have "w_tiles w ! t = Some d" "t < length (w_tiles w)" by (auto simp: tile_at_def split: if_splits)
  then show ?thesis
    using sum_list_put [of t "w_tiles w" "contrib f" d'] unfolding owned_def put_tile_def by simp
qed

lemma owned_updates [simp]:
  "owned f (w\<lparr>w_ids := n\<rparr>) = owned f w" "owned f (w\<lparr>w_held := h\<rparr>) = owned f w"
  "owned f (w\<lparr>w_surface := u\<rparr>) = owned f w" "owned f (w\<lparr>w_shadows := ss\<rparr>) = owned f w"
  "owned f (put_shadow s d w) = owned f w" "owned f (change_shadow s g w) = owned f w"
  by (simp_all add: owned_def put_shadow_def change_shadow_def)

lemma owned_member: "tile_at t w = Some d \<Longrightarrow> tile_created d \<Longrightarrow> f d \<in># owned f w"
proof -
  assume "tile_at t w = Some d" "tile_created d"
  then have "owned f (put_tile t None w) + {#f d#} = owned f w" using owned_put [of t w d f None] by (simp add: contrib_def)
  then show ?thesis by (metis add_mset_add_single union_single_eq_member)
qed

section \<open>The invariant\<close>

definition made :: "shadow_world \<Rightarrow> nat \<Rightarrow> bool" where
  "made w t \<longleftrightarrow> (\<exists>d. tile_at t w = Some d \<and> tile_created d)"

definition side_handle :: "shadow_world \<Rightarrow> shadow \<Rightarrow> side \<Rightarrow> u32" where
  "side_handle w sh side = (case sh_tile sh side of Some t \<Rightarrow> pixmap_at t w
     | None \<Rightarrow> (case sh_empty sh of Some t \<Rightarrow> pixmap_at t w | None \<Rightarrow> 0))"

definition shadow_words :: "shadow_world \<Rightarrow> shadow \<Rightarrow> u32 list" where
  "shadow_words w sh = map (side_handle w sh) data_order @ pad_words sh"

definition complete :: "shadow_world \<Rightarrow> shadow \<Rightarrow> bool" where
  "complete w sh \<longleftrightarrow> (\<forall>t \<in> set (shadow_refs sh). made w t) \<and> (\<forall>side. sh_tile sh side = None \<longrightarrow> sh_empty sh \<noteq> None)"

definition pointers_ok :: "nat set \<Rightarrow> shadow_world \<Rightarrow> bool" where
  "pointers_ok D w \<longleftrightarrow> (\<forall>t. refers w t \<longrightarrow> tile_at t w \<noteq> None) \<and> (\<forall>t. tile_at t w \<noteq> None \<longrightarrow> refers w t \<or> t \<in> D)"

definition created_ok :: "shadow_env \<Rightarrow> nat set \<Rightarrow> shadow_world \<Rightarrow> bool" where
  "created_ok E X w \<longleftrightarrow> (\<forall>s sh. shadow_at s w = Some sh \<and> sh_created sh \<longrightarrow>
     se_x11 E \<and> lookupAtom E \<noteq> 0 \<and> (s \<notin> X \<longrightarrow> complete w sh))"

definition owned_ok :: "shadow_world \<Rightarrow> shadow_server \<Rightarrow> bool" where
  "owned_ok w S \<longleftrightarrow> sv_pixmaps S = owned tile_pixmap w \<and> sv_gcs S = owned tile_gc w"

definition shown_ok :: "nat set \<Rightarrow> shadow_world \<Rightarrow> shadow_server \<Rightarrow> bool" where
  "shown_ok X w S \<longleftrightarrow> (\<forall>x ws. sv_shadow S x = Some ws \<longrightarrow> (\<exists>s sh q. shadow_at s w = Some sh \<and> sh_created sh \<and>
     sh_window sh = Some q \<and> w_surface w q = Some x \<and> (s \<notin> X \<longrightarrow> ws = shadow_words w sh)))"

text \<open>
  In the middle of an operation the tiles of \<open>D\<close> may have lost their pointer, and the shadows of \<open>X\<close> may be
  incomplete.
\<close>

definition shadow_inv :: "shadow_env \<Rightarrow> nat set \<Rightarrow> nat set \<Rightarrow> shadow_world \<Rightarrow> shadow_server \<Rightarrow> bool" where
  "shadow_inv E X D w S \<longleftrightarrow> pointers_ok D w \<and> created_ok E X w \<and> owned_ok w S \<and> shown_ok X w S"

lemmas inv_defs = shadow_inv_def pointers_ok_def created_ok_def owned_ok_def shown_ok_def

lemma complete_frame:
  assumes "complete w sh" "\<And>t. t \<in> set (shadow_refs sh) \<Longrightarrow> tile_at t w' = tile_at t w"
  shows "complete w' sh" "shadow_words w' sh = shadow_words w sh"
proof -
  show "complete w' sh" using assms by (simp add: complete_def made_def)
  have "side_handle w' sh side = side_handle w sh side" for side
  proof (cases "sh_tile sh side")
    case None
    then show ?thesis using assms(2) by (auto simp: side_handle_def pixmap_at_def set_shadow_refs split: option.split)
  next
    case (Some t)
    then have "tile_at t w' = tile_at t w" by (intro assms(2)) (auto simp: set_shadow_refs)
    then show ?thesis using Some by (simp add: side_handle_def pixmap_at_def)
  qed
  then show "shadow_words w' sh = shadow_words w sh" by (simp add: shadow_words_def)
qed

text \<open>Tiles that are created do not change while others do.\<close>

lemma inv_made_frame:
  assumes "created_ok E X w" "shown_ok X w S" "\<And>s. shadow_at s w' = shadow_at s w" "w_surface w' = w_surface w"
    "\<And>t s sh. made w t \<Longrightarrow> shadow_at s w = Some sh \<Longrightarrow> t \<in> set (shadow_refs sh) \<Longrightarrow> tile_at t w' = tile_at t w"
    "sv_shadow S' = sv_shadow S"
  shows "created_ok E X w'" "shown_ok X w' S'"
proof -
  have frame: "complete w' sh \<and> shadow_words w' sh = shadow_words w sh"
    if "shadow_at s w = Some sh" "complete w sh" for s sh
    using that assms(5) [OF _ that(1)] complete_frame [OF that(2), of w'] by (auto simp: complete_def)
  show "created_ok E X w'" using assms(1) frame by (simp add: created_ok_def assms(3)) blast
  show "shown_ok X w' S'"
    unfolding shown_ok_def assms(3,4,6)
  proof (intro allI impI)
    fix x ws assume "sv_shadow S x = Some ws"
    then obtain s sh q where h: "shadow_at s w = Some sh" "sh_created sh" "sh_window sh = Some q" "w_surface w q = Some x"
        "s \<notin> X \<longrightarrow> ws = shadow_words w sh"
      using assms(2) unfolding shown_ok_def by blast
    then have "s \<notin> X \<longrightarrow> ws = shadow_words w' sh" using frame assms(1) by (simp add: created_ok_def)
    then show "\<exists>s sh q. shadow_at s w = Some sh \<and> sh_created sh \<and> sh_window sh = Some q \<and> w_surface w q = Some x \<and>
        (s \<notin> X \<longrightarrow> ws = shadow_words w' sh)" using h by blast
  qed
qed

lemma inv_ids [simp]: "shadow_inv E X D (w\<lparr>w_ids := n\<rparr>) S = shadow_inv E X D w S"
  by (simp add: inv_defs refers_def complete_def made_def shadow_words_def side_handle_def [abs_def] pixmap_at_def cong: option.case_cong)

lemma inv_fewer: "shadow_inv E X D w S \<Longrightarrow> (\<And>t. t \<in> D \<Longrightarrow> tile_at t w \<noteq> None \<Longrightarrow> t \<notin> D' \<Longrightarrow> refers w t) \<Longrightarrow> shadow_inv E X D' w S"
  unfolding shadow_inv_def pointers_ok_def by blast

section \<open>Changes that keep the invariant\<close>

lemma inv_put_tile:
  assumes "shadow_inv E X D w S" "tile_at t w = Some d" "\<not> tile_created d"
    and "sv_pixmaps S' = sv_pixmaps S + contrib tile_pixmap (Some d')" "sv_gcs S' = sv_gcs S + contrib tile_gc (Some d')"
    and "sv_shadow S' = sv_shadow S"
  shows "shadow_inv E X D (put_tile t (Some d') w) S'"
proof -
  have alive: "tile_at u (put_tile t (Some d') w) = None \<longleftrightarrow> tile_at u w = None" for u
    using assms(2) at_range(1) by auto
  have "refers (put_tile t (Some d') w) = refers w" by (simp add: refers_def fun_eq_iff)
  then have "pointers_ok D (put_tile t (Some d') w)"
    using assms(1) by (simp only: shadow_inv_def pointers_ok_def alive) blast
  moreover have "tile_at u (put_tile t (Some d') w) = tile_at u w" if "made w u" for u
    using that assms(2,3) by (auto simp: made_def)
  moreover have "owned_ok (put_tile t (Some d') w) S'"
    using assms(1,4,5) owned_put [OF assms(2), of _ "Some d'"] assms(3) by (simp add: shadow_inv_def owned_ok_def contrib_def)
  ultimately show ?thesis
    using assms(1,6) inv_made_frame [of E X w S "put_tile t (Some d') w" S'] by (simp add: shadow_inv_def)
qed

lemma inv_new_tile:
  assumes "shadow_inv E X D w S"
  shows "shadow_inv E X (insert (length (w_tiles w)) D) (w\<lparr>w_tiles := w_tiles w @ [Some blank_tile]\<rparr>) S"
proof -
  let ?w = "w\<lparr>w_tiles := w_tiles w @ [Some blank_tile]\<rparr>"
  have t: "tile_at u ?w = (if u = length (w_tiles w) then Some blank_tile else tile_at u w)" for u
    by (simp add: tile_at_def nth_append)
  have none: "tile_at (length (w_tiles w)) w = None" by (simp add: tile_at_def)
  have "refers ?w = refers w" by (simp add: refers_def fun_eq_iff)
  then have "pointers_ok (insert (length (w_tiles w)) D) ?w"
    using assms none by (auto simp: shadow_inv_def pointers_ok_def t)
  moreover have "tile_at u ?w = tile_at u w" if "made w u" for u using that none by (auto simp: t made_def)
  moreover have "owned_ok ?w S"
    using assms by (simp add: shadow_inv_def owned_ok_def owned_def contrib_def blank_tile_def)
  ultimately show ?thesis using assms inv_made_frame [of E X w S ?w S] by (simp add: shadow_inv_def)
qed

lemma same_tiles: "(\<And>t. tile_at t w' = tile_at t w) \<Longrightarrow> complete w' sh = complete w sh \<and> shadow_words w' sh = shadow_words w sh"
  by (simp add: complete_def made_def shadow_words_def side_handle_def [abs_def] pixmap_at_def cong: option.case_cong)

lemma inv_change_shadow:
  assumes "shadow_inv E X D w S" "shadow_at s w = Some sh"
    and "sh_created sh \<or> sh_created (f sh) \<Longrightarrow> s \<in> X \<and> sh_created sh \<and> sh_created (f sh) \<and> sh_window (f sh) = sh_window sh"
    and "\<And>t. t \<in> set (shadow_refs (f sh)) \<Longrightarrow> tile_at t w \<noteq> None" "set (shadow_refs sh) \<subseteq> set (shadow_refs (f sh)) \<union> D'" "D \<subseteq> D'"
  shows "shadow_inv E X D' (change_shadow s f w) S"
proof -
  have at: "shadow_at u (change_shadow s f w) = (if u = s then Some (f sh) else shadow_at u w)" for u using assms(2) by simp
  have r: "refers (change_shadow s f w) t \<longleftrightarrow> t \<in> set (shadow_refs (f sh)) \<or> t \<in> set (w_held w) \<or>
      (\<exists>u sh. u \<noteq> s \<and> shadow_at u w = Some sh \<and> t \<in> set (shadow_refs sh))" for t
    by (auto simp: refers_def at simp del: shadow_at_change)
  have "pointers_ok D' (change_shadow s f w)"
    unfolding pointers_ok_def
  proof (intro conjI allI impI)
    fix t assume "refers (change_shadow s f w) t"
    then have "t \<in> set (shadow_refs (f sh)) \<or> refers w t" unfolding r by (auto simp: refers_def)
    then show "tile_at t (change_shadow s f w) \<noteq> None"
      using assms(1,4) by (auto simp: shadow_inv_def pointers_ok_def)
  next
    fix t assume "tile_at t (change_shadow s f w) \<noteq> None"
    then have "refers w t \<or> t \<in> D" using assms(1) by (auto simp: shadow_inv_def pointers_ok_def)
    then show "refers (change_shadow s f w) t \<or> t \<in> D'"
      unfolding r refers_def [of w] using assms(2,5,6) by (metis (no_types) Un_iff option.inject subsetD)
  qed
  moreover have "created_ok E X (change_shadow s f w)"
    using assms(1-3) same_tiles [of "change_shadow s f w" w]
    by (auto simp: shadow_inv_def created_ok_def at simp del: shadow_at_change split: if_splits)
  moreover have "shown_ok X (change_shadow s f w) S"
    unfolding shown_ok_def
  proof (intro allI impI)
    fix x ws assume "sv_shadow S x = Some ws"
    then obtain u c q where h: "shadow_at u w = Some c" "sh_created c" "sh_window c = Some q" "w_surface w q = Some x"
        "u \<notin> X \<longrightarrow> ws = shadow_words w c"
      using assms(1) unfolding shadow_inv_def shown_ok_def by blast
    have same: "shadow_words (change_shadow s f w) c = shadow_words w c" for c
      using same_tiles [of "change_shadow s f w" w] by simp
    show "\<exists>u c q. shadow_at u (change_shadow s f w) = Some c \<and> sh_created c \<and> sh_window c = Some q \<and>
        w_surface (change_shadow s f w) q = Some x \<and> (u \<notin> X \<longrightarrow> ws = shadow_words (change_shadow s f w) c)"
    proof (cases "u = s")
      case True
      then have "sh_created (f sh)" "sh_window (f sh) = Some q" "s \<in> X" using h(1-3) assms(2,3) by auto
      then show ?thesis using h(4) True assms(2) by (intro exI [of _ s] exI [of _ "f sh"] exI [of _ q]) simp
    next
      case False
      then show ?thesis using h same by (intro exI [of _ u] exI [of _ c] exI [of _ q]) simp
    qed
  qed
  ultimately show ?thesis using assms(1) by (simp add: shadow_inv_def owned_ok_def)
qed

text \<open>Giving up a pointer.\<close>

lemma drop_tile_keeps:
  assumes "drop_tile E t w = (w', es, u)" "shadow_inv E X D w S" "se_connected E"
  shows "shadow_inv E X (D - {t}) w' (sv_run es S)" "w_shadows w' = w_shadows w" "w_held w' = w_held w" "w_surface w' = w_surface w"
proof -
  consider (kept) "w' = w" "es = []" "refers w t \<or> tile_at t w = None"
    | (gone) d where "\<not> refers w t" "tile_at t w = Some d" "w' = put_tile t None w"
        "es = (if tile_created d then x11_tile_destroy E d else [])"
    using assms(1) by (auto simp: drop_tile_def referenced_refers split: if_splits option.splits)
  note cases = this
  then show "w_shadows w' = w_shadows w" "w_held w' = w_held w" "w_surface w' = w_surface w" by (cases; simp)+
  from cases show "shadow_inv E X (D - {t}) w' (sv_run es S)"
  proof cases
    case kept
    then show ?thesis using inv_fewer [OF assms(2), of "D - {t}"] by auto
  next
    case (gone d)
    have t: "tile_at u w' = (if u = t then None else tile_at u w)" for u using gone(2,3) at_range(1) by auto
    have r: "refers w' = refers w" by (simp add: gone(3) refers_def fun_eq_iff)
    have p: "pointers_ok (D - {t}) w'"
      using assms(2) gone(1) unfolding shadow_inv_def pointers_ok_def r t by (metis Diff_iff singletonD)
    have shown: "sv_shadow (sv_run es S) = sv_shadow S" by (simp add: gone(4) x11_tile_destroy_def)
    have frame: "tile_at u w' = tile_at u w" if "shadow_at s w = Some sh" "u \<in> set (shadow_refs sh)" for u s sh
      using that gone(1) by (auto simp: t refers_def)
    have own: "owned f w = owned f w' + contrib f (Some d)" for f
      using owned_put [OF gone(2), of f None] by (simp add: gone(3) contrib_def)
    then have "owned_ok w' (sv_run es S)"
      using assms(2,3) by (simp add: shadow_inv_def owned_ok_def gone(4) x11_tile_destroy_def contrib_def)
    then show ?thesis
      using p inv_made_frame [of E X w S w' "sv_run es S"] assms(2) shown frame by (simp add: shadow_inv_def gone(3))
  qed
qed

end
