(* ===== verification/ShadowProtocol.thy ===== *)
theory ShadowProtocol
  imports ShadowInvariant
begin

text \<open>
  Every operation of tiles and shadows keeps the invariant of the world of shadows, and what a shadow publishes is
  made of its own tiles.
\<close>

section \<open>Tiles\<close>

text \<open>What an operation on tiles leaves alone.\<close>

definition tiles_steady :: "shadow_world \<Rightarrow> shadow_world \<Rightarrow> bool" where
  "tiles_steady w w' \<longleftrightarrow> w_shadows w' = w_shadows w \<and> w_held w' = w_held w \<and> w_surface w' = w_surface w \<and>
     (\<forall>t. made w t \<longrightarrow> tile_at t w' = tile_at t w)"

lemma steady_refl [simp]: "tiles_steady w w"
  by (simp add: tiles_steady_def)

lemma steady_trans: "tiles_steady u v \<Longrightarrow> tiles_steady v w \<Longrightarrow> tiles_steady u w"
  by (simp add: tiles_steady_def made_def)

lemma steady_made: "tiles_steady w w' \<Longrightarrow> made w t \<Longrightarrow> made w' t"
  by (simp add: tiles_steady_def made_def)

lemma steady_shadow: "tiles_steady w w' \<Longrightarrow> shadow_at s w' = shadow_at s w"
  by (simp add: tiles_steady_def shadow_at_def)

text \<open>The tile after it has been created at the server.\<close>

definition native_tile :: "shadow_env \<Rightarrow> nat \<Rightarrow> shadow_tile \<Rightarrow> shadow_tile" where
  "native_tile E n d = d\<lparr>tile_pixmap := se_id E n, tile_gc := se_id E (Suc n), tile_created := True\<rparr>"

lemma put_tile_twice [simp]: "put_tile t a (put_tile t b w) = put_tile t a w"
  by (simp add: put_tile_def)

definition native_effects :: "shadow_env \<Rightarrow> nat \<Rightarrow> shadow_tile \<Rightarrow> x_shadow list" where
  "native_effects E n d =
     (let width = word_of_int (img_width (tile_image d)); height = word_of_int (img_height (tile_image d));
          depth = word_of_int (img_depth (tile_image d))
      in [CreatePixmap depth (se_id E n) width height, CreateGC (se_id E (Suc n)) (se_id E n),
          PutImage (se_id E n) (se_id E (Suc n)) width height depth (img_bits (tile_image d))])"

lemma tile_create_new:
  assumes "tile_at t w = Some d" "\<not> tile_created d"
  shows "tile_create E t w = (if se_x11 E
      then (put_tile t (Some (native_tile E (w_ids w) d)) (w\<lparr>w_ids := Suc (Suc (w_ids w))\<rparr>), native_effects E (w_ids w) d, True)
      else (put_tile t (Some (d\<lparr>tile_created := False\<rparr>)) w, [], False))"
  using assms at_range(1) [OF assms(1)]
  by (simp add: tile_create_def x11_tile_create_def xcb_generate_id_def sthen_def set_tile_created_def native_tile_def
      native_effects_def sret_def smod_def sget_def semit_def Let_def)

lemma native_server:
  "sv_pixmaps (sv_run (native_effects E n d) S) = sv_pixmaps S + contrib tile_pixmap (Some (native_tile E n d))"
  "sv_gcs (sv_run (native_effects E n d) S) = sv_gcs S + contrib tile_gc (Some (native_tile E n d))"
  "sv_shadow (sv_run (native_effects E n d) S) = sv_shadow S"
  by (simp_all add: native_effects_def native_tile_def contrib_def Let_def)

lemma tile_create_keeps:
  assumes "tile_create E t w = (w', es, b)" "shadow_inv E X D w S"
  shows "shadow_inv E X D w' (sv_run es S) \<and> tiles_steady w w' \<and> (b \<longrightarrow> made w' t)"
proof (cases "tile_at t w")
  case None
  then show ?thesis using assms by (simp add: tile_create_def)
next
  case (Some d)
  show ?thesis
  proof (cases "tile_created d")
    case True
    then show ?thesis using assms Some by (simp add: tile_create_def made_def)
  next
    case False
    note new = tile_create_new [OF Some False, of E]
    have s: "tiles_steady w (put_tile t (Some d') (w\<lparr>w_ids := n\<rparr>))" for d' n
      using Some False by (auto simp: tiles_steady_def made_def)
    show ?thesis
    proof (cases "se_x11 E")
      case True
      then have w': "w' = put_tile t (Some (native_tile E (w_ids w) d)) (w\<lparr>w_ids := Suc (Suc (w_ids w))\<rparr>)"
          "es = native_effects E (w_ids w) d" using assms(1) new by simp_all
      have "shadow_inv E X D (w\<lparr>w_ids := Suc (Suc (w_ids w))\<rparr>) S" using assms(2) by simp
      from inv_put_tile [OF this, of t d "sv_run es S"] show ?thesis
        using w' s Some False at_range(1) [OF Some] native_server [of E "w_ids w" d S]
        by (simp add: made_def native_tile_def)
    next
      case x: False
      then have "w' = put_tile t (Some (d\<lparr>tile_created := False\<rparr>)) w" "es = []" "\<not> b" using assms(1) new by simp_all
      then show ?thesis
        using inv_put_tile [OF assms(2) Some False, of S "d\<lparr>tile_created := False\<rparr>"] s [of "d\<lparr>tile_created := False\<rparr>" "w_ids w"]
        by (simp add: contrib_def)
    qed
  qed
qed

lemma prepare_tiles_keeps:
  "prepare_tiles E ts w = (w', es, b) \<Longrightarrow> shadow_inv E X D w S \<Longrightarrow>
     shadow_inv E X D w' (sv_run es S) \<and> tiles_steady w w' \<and> (b \<longrightarrow> (\<forall>t. Some t \<in> set ts \<longrightarrow> made w' t))"
proof (induction E ts arbitrary: w w' es b S rule: prepare_tiles.induct)
  case (3 E t ts)
  from 3(2) obtain w1 e1 a e2 where h: "tile_create E t w = (w1, e1, a)" "es = e1 @ e2"
      "(if a then prepare_tiles E ts else sret False) w1 = (w', e2, b)"
    unfolding prepare_tiles.simps by (rule sthen_elim)
  note first = tile_create_keeps [OF h(1) 3(3)]
  show ?case
  proof (cases a)
    case True
    then have "prepare_tiles E ts w1 = (w', e2, b)" using h(3) by simp
    from 3(1) [OF True this, of "sv_run e1 S"] first True show ?thesis
      using h(2) steady_trans [of w w1 w'] steady_made [of w1 w' t] by auto
  next
    case False
    then show ?thesis using h first by simp
  qed
qed simp_all

section \<open>Creating a shadow\<close>

text \<open>A shadow in the middle of being created: its tiles are, and so is the empty one if there is one.\<close>

definition building :: "shadow_env \<Rightarrow> nat \<Rightarrow> shadow \<Rightarrow> nat option \<Rightarrow> shadow_world \<Rightarrow> shadow_server \<Rightarrow> bool" where
  "building E s sh e w S \<longleftrightarrow> shadow_inv E {} {} w S \<and> shadow_at s w = Some (sh\<lparr>sh_empty := e\<rparr>) \<and> \<not> sh_created sh \<and>
     (\<forall>t \<in> set (shadow_refs (sh\<lparr>sh_empty := e\<rparr>)). made w t)"

definition same_made :: "nat \<Rightarrow> shadow_world \<Rightarrow> shadow_world \<Rightarrow> bool" where
  "same_made s w w' \<longleftrightarrow> (\<forall>t. made w t \<longrightarrow> tile_at t w' = tile_at t w) \<and> w_surface w' = w_surface w \<and>
     (\<forall>u. u \<noteq> s \<longrightarrow> shadow_at u w' = shadow_at u w)"

lemma same_made_trans: "same_made s u v \<Longrightarrow> same_made s v w \<Longrightarrow> same_made s u w"
  by (simp add: same_made_def made_def)

lemma same_made_made: "same_made s w w' \<Longrightarrow> made w t \<Longrightarrow> made w' t"
  by (simp add: same_made_def made_def)

lemma sthen_new_tile [simp]:
  "sthen new_tile g w = g (length (w_tiles w)) (w\<lparr>w_tiles := w_tiles w @ [Some blank_tile]\<rparr>)"
  by (simp add: sthen_def new_tile_def case_prod_beta)

lemma blank_not_created [simp]: "\<not> tile_created blank_tile"
  by (simp add: blank_tile_def)

lemma empty_tile_steps:
  assumes "building E s sh None w S" "se_x11 E"
  defines "n \<equiv> length (w_tiles w)"
  obtains w1 where "getOrCreateEmptyTile E s w =
      (put_tile n (Some (native_tile E (w_ids w1) (blank_tile\<lparr>tile_image := empty_image\<rparr>))) (w1\<lparr>w_ids := Suc (Suc (w_ids w1))\<rparr>),
       native_effects E (w_ids w1) (blank_tile\<lparr>tile_image := empty_image\<rparr>), n)"
    "shadow_inv E {} {} w1 S" "tile_at n w1 = Some (blank_tile\<lparr>tile_image := empty_image\<rparr>)"
    "shadow_at s w1 = Some (sh\<lparr>sh_empty := Some n\<rparr>)" "w_surface w1 = w_surface w" "\<forall>t. t \<noteq> n \<longrightarrow> tile_at t w1 = tile_at t w"
    "\<forall>u. u \<noteq> s \<longrightarrow> shadow_at u w1 = shadow_at u w"
proof
  let ?w1 = "w\<lparr>w_tiles := w_tiles w @ [Some blank_tile]\<rparr>"
  let ?w2 = "change_shadow s (sh_empty_update (\<lambda>_. Some n)) ?w1"
  let ?w3 = "put_tile n (Some (blank_tile\<lparr>tile_image := empty_image\<rparr>)) ?w2"
  have sh: "shadow_at s w = Some (sh\<lparr>sh_empty := None\<rparr>)" "\<not> sh_created sh" and inv: "shadow_inv E {} {} w S"
    and m: "\<And>t. t \<in> set (shadow_refs (sh\<lparr>sh_empty := None\<rparr>)) \<Longrightarrow> made w t"
    using assms(1) by (simp_all add: building_def)
  have t1: "tile_at t ?w1 = (if t = n then Some blank_tile else tile_at t w)" for t
    by (simp add: tile_at_def nth_append n_def)
  have i1: "shadow_inv E {} {n} ?w1 S" using inv_new_tile [OF inv] by (simp add: n_def)
  have i2: "shadow_inv E {} {n} ?w2 S"
  proof (rule inv_change_shadow [OF i1, of s "sh\<lparr>sh_empty := None\<rparr>"])
    fix t assume "t \<in> set (shadow_refs (sh_empty_update (\<lambda>_. Some n) (sh\<lparr>sh_empty := None\<rparr>)))"
    then show "tile_at t ?w1 \<noteq> None" using m by (auto simp: set_shadow_refs t1 made_def)
  qed (use sh in \<open>auto simp: set_shadow_refs\<close>)
  have "n \<in> set (shadow_refs (sh\<lparr>sh_empty := Some n\<rparr>))" by (simp add: set_shadow_refs)
  moreover have at2: "shadow_at s ?w2 = Some (sh\<lparr>sh_empty := Some n\<rparr>)" using sh by simp
  ultimately have "refers ?w2 n" unfolding refers_def by blast
  then have i2': "shadow_inv E {} {} ?w2 S" by (intro inv_fewer [OF i2]) auto
  show i3: "shadow_inv E {} {} ?w3 S"
    by (rule inv_put_tile [OF i2', of n blank_tile]) (simp_all add: t1 contrib_def)
  show t3: "tile_at n ?w3 = Some (blank_tile\<lparr>tile_image := empty_image\<rparr>)"
    by (simp add: n_def)
  show "shadow_at s ?w3 = Some (sh\<lparr>sh_empty := Some n\<rparr>)" using at2 by simp
  show "w_surface ?w3 = w_surface w" by simp
  show "\<forall>t. t \<noteq> n \<longrightarrow> tile_at t ?w3 = tile_at t w" by (simp add: t1)
  show "\<forall>u. u \<noteq> s \<longrightarrow> shadow_at u ?w3 = shadow_at u w" by simp
  have "sthen (tile_create E n) (\<lambda>_. sret n) ?w3 = (let (v, es, b) = tile_create E n ?w3 in (v, es, n))"
    by (simp add: sthen_def sret_def case_prod_beta Let_def)
  moreover have "getOrCreateEmptyTile E s w = sthen (tile_create E n) (\<lambda>_. sret n) ?w3"
    using sh t1 by (simp add: getOrCreateEmptyTile_def setImage_def n_def [symmetric])
  ultimately show "getOrCreateEmptyTile E s w =
      (put_tile n (Some (native_tile E (w_ids ?w3) (blank_tile\<lparr>tile_image := empty_image\<rparr>))) (?w3\<lparr>w_ids := Suc (Suc (w_ids ?w3))\<rparr>),
       native_effects E (w_ids ?w3) (blank_tile\<lparr>tile_image := empty_image\<rparr>), n)"
    using tile_create_new [OF t3, of E] assms(2) by simp
qed

lemma empty_tile_keeps:
  assumes "building E s sh e w S" "se_x11 E" "getOrCreateEmptyTile E s w = (w', es, t)"
  shows "building E s sh (Some t) w' (sv_run es S)" "same_made s w w'" "e \<noteq> None \<Longrightarrow> e = Some t"
proof -
  have "building E s sh (Some t) w' (sv_run es S) \<and> same_made s w w' \<and> (e \<noteq> None \<longrightarrow> e = Some t)"
  proof (cases e)
    case (Some u)
    then have "w' = w" "es = []" "t = u"
      using assms(1,3) by (simp_all add: building_def getOrCreateEmptyTile_def)
    then show ?thesis using assms(1) Some by (simp add: same_made_def)
  next
    case None
    then have b: "building E s sh None w S" using assms(1) by simp
    let ?d = "blank_tile\<lparr>tile_image := empty_image\<rparr>"
    have fresh: "tile_at (length (w_tiles w)) w = None" by (simp add: tile_at_def)
    obtain w1 where h: "getOrCreateEmptyTile E s w =
          (put_tile (length (w_tiles w)) (Some (native_tile E (w_ids w1) ?d)) (w1\<lparr>w_ids := Suc (Suc (w_ids w1))\<rparr>),
           native_effects E (w_ids w1) ?d, length (w_tiles w))"
        "shadow_inv E {} {} w1 S" "tile_at (length (w_tiles w)) w1 = Some ?d"
        "shadow_at s w1 = Some (sh\<lparr>sh_empty := Some (length (w_tiles w))\<rparr>)" "w_surface w1 = w_surface w"
        "\<forall>t. t \<noteq> length (w_tiles w) \<longrightarrow> tile_at t w1 = tile_at t w"
        "\<forall>u. u \<noteq> s \<longrightarrow> shadow_at u w1 = shadow_at u w"
      by (rule empty_tile_steps [OF b assms(2)]) (rule that)
    have eqs: "t = length (w_tiles w)" "es = native_effects E (w_ids w1) ?d"
        "w' = put_tile t (Some (native_tile E (w_ids w1) ?d)) (w1\<lparr>w_ids := Suc (Suc (w_ids w1))\<rparr>)"
      using assms(3) unfolding h(1) by auto
    have "shadow_inv E {} {} (w1\<lparr>w_ids := Suc (Suc (w_ids w1))\<rparr>) S" using h(2) by simp
    then have inv: "shadow_inv E {} {} w' (sv_run es S)"
      unfolding eqs(2,3) by (rule inv_put_tile [where d = ?d]) (use h(3) native_server in \<open>simp_all add: eqs(1)\<close>)
    have at: "tile_at u w' = (if u = t then Some (native_tile E (w_ids w1) ?d) else tile_at u w)" for u
      using at_range(1) [OF h(3)] h(6) by (simp add: eqs)
    have mt: "made w' t" by (simp add: made_def at native_tile_def)
    have ne: "u \<noteq> t" if "made w u" for u using that fresh by (auto simp: made_def eqs(1))
    moreover have "w_surface w' = w_surface w" "\<forall>u. u \<noteq> s \<longrightarrow> shadow_at u w' = shadow_at u w"
      using h(5,7) by (simp_all add: eqs(3))
    ultimately have same: "same_made s w w'" by (auto simp: same_made_def at)
    have "made w' u" if "u \<in> set (shadow_refs (sh\<lparr>sh_empty := Some t\<rparr>))" for u
    proof (cases "u = t")
      case False
      then have "u \<in> set (shadow_refs (sh\<lparr>sh_empty := None\<rparr>))" using that by (auto simp: set_shadow_refs)
      then show ?thesis using b same_made_made [OF same] by (simp add: building_def)
    qed (simp add: mt)
    then show ?thesis using inv h(4) b same None by (simp add: building_def eqs)
  qed
  then show "building E s sh (Some t) w' (sv_run es S)" "same_made s w w'" "e \<noteq> None \<Longrightarrow> e = Some t" by auto
qed

text \<open>The handle of a side is the one the finished shadow has there, and stays it.\<close>

lemma tile_handle_keeps:
  assumes "building E s sh e w S" "se_x11 E" "tile_handle E s side w = (w', es, h)"
  obtains e' where "building E s sh e' w' (sv_run es S)" "same_made s w w'" "e \<noteq> None \<longrightarrow> e' = e"
    "sh_tile sh side = None \<longrightarrow> e' \<noteq> None" "h = side_handle w' (sh\<lparr>sh_empty := e'\<rparr>) side"
proof (cases "sh_tile sh side")
  case (Some t)
  then have "w' = w" "es = []" "h = pixmap_at t w" using assms(1,3) by (auto simp: building_def tile_handle_def)
  then show thesis using Some assms(1) by (intro that [of e]) (simp_all add: same_made_def side_handle_def)
next
  case None
  then have "sthen (getOrCreateEmptyTile E s) (\<lambda>t. sget (pixmap_at t)) w = (w', es, h)"
    using assms(1,3) by (simp add: building_def tile_handle_def)
  then obtain t where g: "getOrCreateEmptyTile E s w = (w', es, t)" "h = pixmap_at t w'" by (rule sthen_elim) auto
  show thesis
    using empty_tile_keeps [OF assms(1,2) g(1)] None g(2) by (intro that [of "Some t"]) (auto simp: side_handle_def)
qed

definition has_handle :: "shadow \<Rightarrow> nat option \<Rightarrow> side \<Rightarrow> bool" where
  "has_handle sh e side \<longleftrightarrow> (sh_tile sh side = None \<longrightarrow> e \<noteq> None)"

lemma side_handle_stays:
  assumes "building E s sh e w S" "same_made s w w'" "e \<noteq> None \<longrightarrow> e' = e" "has_handle sh e side"
  shows "side_handle w' (sh\<lparr>sh_empty := e'\<rparr>) side = side_handle w (sh\<lparr>sh_empty := e\<rparr>) side"
proof (cases "sh_tile sh side")
  case None
  then obtain t where t: "e = Some t" using assms(4) by (auto simp: has_handle_def)
  then have "made w t" using assms(1) by (simp add: building_def set_shadow_refs)
  then show ?thesis using assms(2,3) t None by (simp add: side_handle_def pixmap_at_def same_made_def)
next
  case (Some t)
  then have "made w t" using assms(1) by (auto simp: building_def set_shadow_refs)
  then show ?thesis using assms(2) Some by (simp add: side_handle_def pixmap_at_def same_made_def)
qed

lemma handles_keep:
  "building E s sh e w S \<Longrightarrow> se_x11 E \<Longrightarrow> sfor (tile_handle E s) ss w = (w', es, hs) \<Longrightarrow>
     \<exists>e'. building E s sh e' w' (sv_run es S) \<and> same_made s w w' \<and> (e \<noteq> None \<longrightarrow> e' = e) \<and>
       (\<forall>side \<in> set ss. has_handle sh e' side) \<and> hs = map (side_handle w' (sh\<lparr>sh_empty := e'\<rparr>)) ss"
proof (induction ss arbitrary: e w S es hs)
  case Nil
  then show ?case by (auto simp: same_made_def)
next
  case (Cons side ss)
  from Cons.prems(3) obtain w1 e1 h e2 where f: "tile_handle E s side w = (w1, e1, h)" "es = e1 @ e2"
      "sthen (sfor (tile_handle E s) ss) (\<lambda>rs. sret (h # rs)) w1 = (w', e2, hs)"
    unfolding sfor.simps by (rule sthen_elim)
  from f(3) obtain rs where g: "sfor (tile_handle E s) ss w1 = (w', e2, rs)" "hs = h # rs" by (rule sthen_elim) auto
  obtain d where d: "building E s sh d w1 (sv_run e1 S)" "same_made s w w1" "e \<noteq> None \<longrightarrow> d = e"
      "has_handle sh d side" "h = side_handle w1 (sh\<lparr>sh_empty := d\<rparr>) side"
    unfolding has_handle_def by (rule tile_handle_keeps [OF Cons.prems(1,2) f(1)])
  from Cons.IH [OF d(1) Cons.prems(2) g(1)] obtain e' where e': "building E s sh e' w' (sv_run e2 (sv_run e1 S))"
      "same_made s w1 w'" "d \<noteq> None \<longrightarrow> e' = d" "\<forall>side \<in> set ss. has_handle sh e' side"
      "rs = map (side_handle w' (sh\<lparr>sh_empty := e'\<rparr>)) ss" by blast
  have "has_handle sh e' side" using d(4) e'(3) by (auto simp: has_handle_def)
  moreover have "h = side_handle w' (sh\<lparr>sh_empty := e'\<rparr>) side"
    using side_handle_stays [OF d(1) e'(2,3) d(4)] d(5) by simp
  ultimately show ?case
    using e' d(3) same_made_trans [OF d(2) e'(2)] f(2) g(2) by (intro exI [of _ e']) auto
qed

end
