(* ===== verification/ShadowRun.thy ===== *)
theory ShadowRun
  imports ShadowProtocol
begin

text \<open>
  Shadows from creation to deletion, and runs of a program that uses them: the invariant holds between any two
  operations.
\<close>

lemma refers_same:
  assumes "w_held w' = w_held w" "\<And>u. map_option shadow_refs (shadow_at u w') = map_option shadow_refs (shadow_at u w)"
  shows "refers w' = refers w"
proof -
  have e: "refers v t \<longleftrightarrow> t \<in> set (w_held v) \<or> (\<exists>u r. map_option shadow_refs (shadow_at u v) = Some r \<and> t \<in> set r)" for v t
    by (auto simp: refers_def)
  show ?thesis unfolding fun_eq_iff e assms by (intro allI refl)
qed

lemma shown_by:
  assumes "shadow_inv E {} D w S" "sv_shadow S x = Some ws"
  obtains u c q where "shadow_at u w = Some c" "sh_created c" "sh_window c = Some q" "w_surface w q = Some x" "ws = shadow_words w c"
  using assms unfolding shadow_inv_def shown_ok_def by blast

section \<open>Windows\<close>

text \<open>Other windows of the display: what is shown there does not depend on them.\<close>

lemma inv_surface:
  assumes "shadow_inv E {} D w S" "w_surface w q = None \<or> sv_shadow S (the (w_surface w q)) = None"
  shows "shadow_inv E {} D (w\<lparr>w_surface := (w_surface w)(q := v)\<rparr>) S"
proof -
  let ?w = "w\<lparr>w_surface := (w_surface w)(q := v)\<rparr>"
  have same: "complete ?w sh = complete w sh \<and> shadow_words ?w sh = shadow_words w sh" for sh
    by (rule same_tiles) simp
  have "refers ?w = refers w" by (simp add: refers_def fun_eq_iff)
  moreover have "shown_ok {} ?w S"
    unfolding shown_ok_def
  proof (intro allI impI)
    fix x ws assume x: "sv_shadow S x = Some ws"
    then obtain u c p where h: "shadow_at u w = Some c" "sh_created c" "sh_window c = Some p" "w_surface w p = Some x"
        "ws = shadow_words w c"
      by (rule shown_by [OF assms(1)])
    then have "p \<noteq> q" using assms(2) x by auto
    then show "\<exists>u c p. shadow_at u ?w = Some c \<and> sh_created c \<and> sh_window c = Some p \<and> w_surface ?w p = Some x \<and>
        (u \<notin> {} \<longrightarrow> ws = shadow_words ?w c)"
      using h same by (intro exI [of _ u] exI [of _ c] exI [of _ p]) simp
  qed
  moreover have "created_ok E {} ?w" using assms(1) same unfolding shadow_inv_def created_ok_def by simp blast
  ultimately show ?thesis using assms(1) by (simp add: shadow_inv_def pointers_ok_def owned_ok_def)
qed

lemma winId_keeps:
  assumes "winId E q w = (w', es, x)" "shadow_inv E {} D w S"
  shows "shadow_inv E {} D w' (sv_run es S)" "w_surface w' q = Some x" "shadow_at s w' = shadow_at s w" "tile_at t w' = tile_at t w"
proof -
  have "shadow_inv E {} D w' (sv_run es S) \<and> w_surface w' q = Some x \<and> shadow_at s w' = shadow_at s w \<and> tile_at t w' = tile_at t w"
  proof (cases "w_surface w q")
    case (Some y)
    then show ?thesis using assms by (simp add: winId_def)
  next
    case None
    then have w': "w' = w\<lparr>w_ids := Suc (w_ids w), w_surface := (w_surface w)(q := Some x)\<rparr>" "es = [WindowMade x]"
      using assms(1) by (auto simp: winId_def xcb_generate_id_def sthen_def sret_def smod_def semit_def sget_def)
    have "shadow_inv E {} D (w\<lparr>w_ids := Suc (w_ids w)\<rparr>) S" using assms(2) by simp
    from inv_surface [OF this, of q "Some x"] None show ?thesis by (simp add: w')
  qed
  then show "shadow_inv E {} D w' (sv_run es S)" "w_surface w' q = Some x" "shadow_at s w' = shadow_at s w"
    "tile_at t w' = tile_at t w" by auto
qed

section \<open>Creating\<close>

lemma inv_publish:
  assumes "shadow_inv E {} {} w S" "shadow_at s w = Some sh" "complete w sh" "sh_window sh = Some q" "w_surface w q = Some x"
    "se_x11 E" "lookupAtom E \<noteq> 0"
  shows "shadow_inv E {} {} (change_shadow s (sh_created_update (\<lambda>_. True)) w)
    (S\<lparr>sv_shadow := (sv_shadow S)(x := Some (shadow_words w sh))\<rparr>)"
proof -
  let ?w = "change_shadow s (sh_created_update (\<lambda>_. True)) w" and ?c = "sh\<lparr>sh_created := True\<rparr>"
  have refs: "shadow_refs ?c = shadow_refs sh" by (simp add: shadow_refs_def)
  have words: "shadow_words ?w ?c = shadow_words w sh" "complete ?w ?c = complete w sh"
    using same_tiles [of ?w w] refs
    by (simp_all add: shadow_words_def side_handle_def [abs_def] complete_def pad_words_def pad_word_def cong: option.case_cong)
  have same: "complete ?w c = complete w c \<and> shadow_words ?w c = shadow_words w c" for c by (rule same_tiles) simp
  have at: "shadow_at u ?w = (if u = s then Some ?c else shadow_at u w)" for u using assms(2) by simp
  have "refers ?w = refers w" by (rule refers_same) (simp_all only: at change_other, simp add: assms(2) refs)
  then have "pointers_ok {} ?w" using assms(1) by (simp add: shadow_inv_def pointers_ok_def)
  moreover have "created_ok E {} ?w"
    using assms(1,3,6,7) words(2) same unfolding shadow_inv_def created_ok_def at by (auto split: if_splits)
  moreover have "shown_ok {} ?w (S\<lparr>sv_shadow := (sv_shadow S)(x := Some (shadow_words w sh))\<rparr>)"
    unfolding shown_ok_def
  proof (intro allI impI)
    fix y ws assume y: "sv_shadow (S\<lparr>sv_shadow := (sv_shadow S)(x := Some (shadow_words w sh))\<rparr>) y = Some ws"
    show "\<exists>u c p. shadow_at u ?w = Some c \<and> sh_created c \<and> sh_window c = Some p \<and> w_surface ?w p = Some y \<and>
        (u \<notin> {} \<longrightarrow> ws = shadow_words ?w c)"
    proof (cases "y = x")
      case True
      then show ?thesis using y assms(2,4,5) words(1) by (intro exI [of _ s] exI [of _ ?c] exI [of _ q]) simp
    next
      case False
      then have "sv_shadow S y = Some ws" using y by simp
      then obtain u c p where h: "shadow_at u w = Some c" "sh_created c" "sh_window c = Some p" "w_surface w p = Some y"
          "ws = shadow_words w c"
        by (rule shown_by [OF assms(1)])
      show ?thesis
      proof (cases "u = s")
        case True
        then show ?thesis using h assms(2) words(1) by (intro exI [of _ s] exI [of _ ?c] exI [of _ p]) simp
      next
        case False
        then show ?thesis using h same by (intro exI [of _ u] exI [of _ c] exI [of _ p]) simp
      qed
    qed
  qed
  ultimately show ?thesis using assms(1) by (simp add: shadow_inv_def owned_ok_def)
qed

text \<open>A shadow that is not created has no empty tile.\<close>

definition idle_ok :: "shadow_world \<Rightarrow> bool" where
  "idle_ok w \<longleftrightarrow> (\<forall>s sh. shadow_at s w = Some sh \<and> \<not> sh_created sh \<longrightarrow> sh_empty sh = None)"

definition world_ok :: "shadow_env \<Rightarrow> shadow_world \<Rightarrow> shadow_server \<Rightarrow> bool" where
  "world_ok E w S \<longleftrightarrow> shadow_inv E {} {} w S \<and> idle_ok w"

lemma all_sides: "(\<forall>side \<in> set data_order. P side) \<longleftrightarrow> (\<forall>side. P side)"
proof -
  have "side \<in> set data_order" for side by (cases side) (simp_all add: data_order_def)
  then show ?thesis by blast
qed

lemma x11_shadow_create_keeps:
  assumes "x11_shadow_create E s sh q w = (w', es, b)" "building E s sh None w S" "sh_window sh = Some q" "se_x11 E"
    and "sh_empty sh = None"
  shows "\<not> b \<Longrightarrow> w' = w \<and> es = []"
    and "b \<Longrightarrow> shadow_inv E {} {} (change_shadow s (sh_created_update (\<lambda>_. True)) w') (sv_run es S) \<and>
      (\<forall>u. u \<noteq> s \<longrightarrow> shadow_at u w' = shadow_at u w) \<and> shadow_at s w' \<noteq> None"
proof -
  have "if b then shadow_inv E {} {} (change_shadow s (sh_created_update (\<lambda>_. True)) w') (sv_run es S) \<and>
      (\<forall>u. u \<noteq> s \<longrightarrow> shadow_at u w' = shadow_at u w) \<and> shadow_at s w' \<noteq> None else w' = w \<and> es = []"
  proof (cases "lookupAtom E = 0")
    case True
    then show ?thesis using assms(1) by (simp add: x11_shadow_create_def)
  next
    case False
    with assms(1) have "sthen (sfor (tile_handle E s) data_order) (\<lambda>handles. sthen (winId E q) (\<lambda>x.
        sthen (semit [SetShadow x (lookupAtom E) (handles @ pad_words sh)]) (\<lambda>_. sret True))) w = (w', es, b)"
      by (simp add: x11_shadow_create_def)
    then obtain w1 e1 hs e2 where h: "sfor (tile_handle E s) data_order w = (w1, e1, hs)" "es = e1 @ e2"
        "sthen (winId E q) (\<lambda>x. sthen (semit [SetShadow x (lookupAtom E) (hs @ pad_words sh)]) (\<lambda>_. sret True)) w1 = (w', e2, b)"
      by (rule sthen_elim)
    from h(3) obtain x e3 where x: "winId E q w1 = (w', e3, x)" "e2 = e3 @ [SetShadow x (lookupAtom E) (hs @ pad_words sh)]" b
      by (rule sthen_elim) (auto simp: Let_def)
    from handles_keep [OF assms(2,4) h(1)] obtain e where e: "building E s sh e w1 (sv_run e1 S)" "same_made s w w1"
        "\<forall>side. has_handle sh e side" "hs = map (side_handle w1 (sh\<lparr>sh_empty := e\<rparr>)) data_order"
      using all_sides by blast
    let ?sh = "sh\<lparr>sh_empty := e\<rparr>"
    note win = winId_keeps [OF x(1)]
    have inv: "shadow_inv E {} {} w1 (sv_run e1 S)" and at: "shadow_at s w1 = Some ?sh"
      and m: "\<forall>t \<in> set (shadow_refs ?sh). made w1 t"
      using e(1) by (simp_all add: building_def)
    have same: "complete w' ?sh = complete w1 ?sh \<and> shadow_words w' ?sh = shadow_words w1 ?sh"
      by (rule same_tiles) (rule win(4) [OF inv])
    have "complete w1 ?sh" using m e(3) by (auto simp: complete_def has_handle_def)
    moreover have "shadow_words w1 ?sh = hs @ pad_words sh"
      by (simp add: shadow_words_def e(4) pad_words_def pad_word_def)
    ultimately show ?thesis
      using inv_publish [OF win(1) [OF inv], of s ?sh q x] win(2,3) [OF inv] at same assms(3,4) False e(2) h(2) x(2,3)
      by (simp add: same_made_def)
  qed
  then show "\<not> b \<Longrightarrow> w' = w \<and> es = []"
    and "b \<Longrightarrow> shadow_inv E {} {} (change_shadow s (sh_created_update (\<lambda>_. True)) w') (sv_run es S) \<and>
      (\<forall>u. u \<noteq> s \<longrightarrow> shadow_at u w' = shadow_at u w) \<and> shadow_at s w' \<noteq> None" by auto
qed

lemma inv_not_created:
  assumes "shadow_inv E {} {} w S" "shadow_at s w = Some sh" "\<not> sh_created sh"
  shows "shadow_inv E {} {} (change_shadow s (sh_created_update (\<lambda>_. False)) w) S"
proof (rule inv_change_shadow [OF assms(1,2)])
  have "shadow_refs (sh\<lparr>sh_created := False\<rparr>) = shadow_refs sh" by (simp add: shadow_refs_def)
  moreover have "tile_at t w \<noteq> None" if "t \<in> set (shadow_refs sh)" for t
    using that assms(1,2) by (auto simp: shadow_inv_def pointers_ok_def refers_def)
  ultimately show "t \<in> set (shadow_refs (sh\<lparr>sh_created := False\<rparr>)) \<Longrightarrow> tile_at t w \<noteq> None"
    "set (shadow_refs sh) \<subseteq> set (shadow_refs (sh\<lparr>sh_created := False\<rparr>)) \<union> {}" for t by auto
qed (use assms(3) in auto)

lemma shadow_create_keeps:
  assumes "shadow_create E s w = (w', es, b)" "world_ok E w S"
  shows "world_ok E w' (sv_run es S)"
proof (cases "\<exists>sh q. shadow_at s w = Some sh \<and> \<not> sh_created sh \<and> sh_window sh = Some q")
  case False
  then have "w' = w" "es = []"
    using assms(1) by (auto simp: shadow_create_def split: option.splits if_splits)
  then show ?thesis using assms(2) by simp
next
  case True
  then obtain sh q where sh: "shadow_at s w = Some sh" "\<not> sh_created sh" "sh_window sh = Some q" by blast
  then have "sh_empty sh = None" using assms(2) by (auto simp: world_ok_def idle_ok_def)
  then have eq: "sh\<lparr>sh_empty := None\<rparr> = sh" "sh_empty sh = None" by simp_all
  let ?finish = "\<lambda>b. sthen (smod (change_shadow s (sh_created_update (\<lambda>_. b)))) (\<lambda>_. sret b)"
  from assms(1) sh obtain w1 e1 ready e2 where p: "prepare_tiles E (map (sh_tile sh) sides) w = (w1, e1, ready)" "es = e1 @ e2"
      "(if \<not> ready then sret False else sthen (if se_x11 E then x11_shadow_create E s sh q else sret False) ?finish) w1 = (w', e2, b)"
    by (auto simp: shadow_create_def elim: sthen_elim)
  have keep: "shadow_inv E {} {} w1 (sv_run e1 S)" "tiles_steady w w1"
      "ready \<Longrightarrow> Some t \<in> set (map (sh_tile sh) sides) \<Longrightarrow> made w1 t" for t
    using prepare_tiles_keeps [OF p(1), of "{}" "{}" S] assms(2) by (auto simp: world_ok_def)
  have at1: "shadow_at u w1 = shadow_at u w" for u by (rule steady_shadow [OF keep(2)])
  have idle: "idle_ok w1" using assms(2) unfolding world_ok_def idle_ok_def at1 by blast
  show ?thesis
  proof (cases ready)
    case False
    then show ?thesis using p keep(1) idle by (simp add: world_ok_def)
  next
    case True
    have made: "made w1 t" if m: "t \<in> set (shadow_refs sh)" for t
    proof -
      obtain side where "sh_tile sh side = Some t" using m eq(2) by (auto simp: set_shadow_refs)
      then have "Some t \<in> set (map (sh_tile sh) sides)" using in_sides [of side] by (metis imageI set_map)
      then show ?thesis by (rule keep(3) [OF True])
    qed
    show ?thesis
    proof (cases "se_x11 E")
      case False
      then have "w' = change_shadow s (sh_created_update (\<lambda>_. False)) w1" "e2 = []" using p(3) True by auto
      then show ?thesis
        using p(2) inv_not_created [OF keep(1), of s sh] at1 sh idle by (auto simp: world_ok_def idle_ok_def)
    next
      case x: True
      have "sthen (x11_shadow_create E s sh q) ?finish w1 = (w', e2, b)" using p(3) True x by simp
      then obtain w2 c where c: "x11_shadow_create E s sh q w1 = (w2, e2, c)" "w' = change_shadow s (sh_created_update (\<lambda>_. c)) w2"
        by (rule sthen_elim) auto
      have "building E s sh None w1 (sv_run e1 S)"
        using keep(1) at1 sh(1,2) made eq(1) by (simp add: building_def)
      note created = x11_shadow_create_keeps [OF c(1) this sh(3) x eq(2)]
      show ?thesis
      proof (cases c)
        case True
        then show ?thesis
          using created(2) c(2) p(2) idle by (auto simp: world_ok_def idle_ok_def)
      next
        case False
        then show ?thesis
          using created(1) c(2) p(2) inv_not_created [OF keep(1), of s sh] at1 sh idle by (auto simp: world_ok_def idle_ok_def)
      qed
    qed
  qed
qed

section \<open>Destroying\<close>

lemma inv_more: "shadow_inv E {} D w S \<Longrightarrow> shadow_inv E X D w S"
  unfolding shadow_inv_def created_ok_def shown_ok_def by blast

lemma drop_pointer_keeps:
  assumes "drop_pointer E p w = (w', es, u)" "shadow_inv E X (set_option p) w S" "se_connected E"
  shows "shadow_inv E X {} w' (sv_run es S) \<and> w_shadows w' = w_shadows w \<and> w_held w' = w_held w \<and> w_surface w' = w_surface w"
proof (cases p)
  case None
  then show ?thesis using assms by (simp add: drop_pointer_def)
next
  case (Some t)
  then show ?thesis using drop_tile_keeps [of E t w w' es u X "{t}" S] assms by (simp add: drop_pointer_def)
qed

lemma drop_tiles_keep:
  "sfor (drop_tile E) ts w = (w', es, us) \<Longrightarrow> shadow_inv E X D w S \<Longrightarrow> se_connected E \<Longrightarrow>
     shadow_inv E X (D - set ts) w' (sv_run es S) \<and> w_shadows w' = w_shadows w"
proof (induction ts arbitrary: w es us S D)
  case (Cons t ts)
  from Cons.prems(1) obtain w1 e1 u e2 where f: "drop_tile E t w = (w1, e1, u)" "es = e1 @ e2"
      "sthen (sfor (drop_tile E) ts) (\<lambda>rs. sret (u # rs)) w1 = (w', e2, us)"
    unfolding sfor.simps by (rule sthen_elim)
  from f(3) obtain rs where g: "sfor (drop_tile E) ts w1 = (w', e2, rs)" by (rule sthen_elim) auto
  note d = drop_tile_keeps [OF f(1) Cons.prems(2,3)]
  from Cons.IH [OF g d(1) Cons.prems(3)] show ?case
    using d(2) f(2) by (simp add: Diff_insert2 [symmetric] insert_commute)
qed simp

text \<open>What a destroyed shadow leaves on its window: nothing.\<close>

lemma inv_unpublish:
  assumes "shadow_inv E {s} {} w S" "shadow_at s w = Some sh"
    and "\<And>x. Option.bind (sh_window sh) (w_surface w) = Some x \<Longrightarrow> sv_shadow S x = None"
  shows "shadow_inv E {} {} (change_shadow s (sh_created_update (\<lambda>_. False)) w) S"
proof -
  let ?w = "change_shadow s (sh_created_update (\<lambda>_. False)) w"
  have at: "shadow_at u ?w = (if u = s then Some (sh\<lparr>sh_created := False\<rparr>) else shadow_at u w)" for u using assms(2) by simp
  have same: "complete ?w c \<longleftrightarrow> complete w c" "shadow_words ?w c = shadow_words w c" for c
    using same_tiles [of ?w w] by simp_all
  have "refers ?w = refers w"
    by (rule refers_same) (simp_all only: at change_other, simp add: assms(2) shadow_refs_def)
  then have "pointers_ok {} ?w" using assms(1) by (simp add: shadow_inv_def pointers_ok_def)
  moreover have "created_ok E {} ?w"
    using assms(1) unfolding shadow_inv_def created_ok_def at same by (auto split: if_splits)
  moreover have "shown_ok {} ?w S"
    unfolding shown_ok_def
  proof (intro allI impI)
    fix x ws assume x: "sv_shadow S x = Some ws"
    then obtain u c q where h: "shadow_at u w = Some c" "sh_created c" "sh_window c = Some q" "w_surface w q = Some x"
        "u \<notin> {s} \<longrightarrow> ws = shadow_words w c"
      using assms(1) unfolding shadow_inv_def shown_ok_def by blast
    have "u \<noteq> s"
    proof
      assume "u = s"
      then show False using h assms(2,3) x by simp
    qed
    then show "\<exists>u c q. shadow_at u ?w = Some c \<and> sh_created c \<and> sh_window c = Some q \<and> w_surface ?w q = Some x \<and>
        (u \<notin> {} \<longrightarrow> ws = shadow_words ?w c)"
      using h same by (intro exI [of _ u] exI [of _ c] exI [of _ q]) simp
  qed
  ultimately show ?thesis using assms(1) by (simp add: shadow_inv_def owned_ok_def)
qed

lemma inv_delete_property:
  "shadow_inv E X D w S \<Longrightarrow> shadow_inv E X D w (S\<lparr>sv_shadow := (sv_shadow S)(x := None)\<rparr>)"
  by (auto simp: shadow_inv_def owned_ok_def shown_ok_def)

lemma x11_shadow_destroy_keeps:
  assumes "x11_shadow_destroy E s sh w = (w', es, u)" "shadow_inv E {} {} w S" "shadow_at s w = Some sh" "sh_created sh"
    and "se_connected E"
  shows "shadow_inv E {} {} (change_shadow s (sh_created_update (\<lambda>_. False)) w') (sv_run es S)"
    "shadow_at r w' = (if r = s then Some (sh\<lparr>sh_empty := None\<rparr>) else shadow_at r w)"
proof -
  let ?c = "sh\<lparr>sh_empty := None\<rparr>" and ?w1 = "change_shadow s (sh_empty_update (\<lambda>_. None)) w"
  obtain w2 e2 v where d: "drop_pointer E (sh_empty sh) ?w1 = (w2, e2, v)" by (metis prod_cases3)
  have "shadow_inv E {s} (set_option (sh_empty sh)) ?w1 S"
  proof (rule inv_change_shadow [OF inv_more [OF assms(2)] assms(3)])
    fix t assume "t \<in> set (shadow_refs ?c)"
    then have "refers w t" using assms(3) by (auto simp: refers_def set_shadow_refs)
    then show "tile_at t w \<noteq> None" using assms(2) by (simp add: shadow_inv_def pointers_ok_def)
  qed (use assms(4) in \<open>auto simp: set_shadow_refs\<close>)
  from drop_pointer_keeps [OF d this assms(5)] have inv: "shadow_inv E {s} {} w2 (sv_run e2 S)"
    and k: "w_shadows w2 = w_shadows ?w1" "w_surface w2 = w_surface w" by simp_all
  have at: "shadow_at r w2 = (if r = s then Some ?c else shadow_at r w)" for r
  proof -
    have "shadow_at r w2 = shadow_at r ?w1" using k(1) by (simp add: shadow_at_def)
    then show ?thesis using assms(3) by simp
  qed
  have a: "lookupAtom E \<noteq> 0" using assms(2-4) by (auto simp: shadow_inv_def created_ok_def)
  have r: "w' = w2" "es = e2 @ (case Option.bind (sh_window sh) (w_surface w) of None \<Rightarrow> [] | Some x \<Rightarrow> [DeleteShadow x (lookupAtom E)])"
    using assms(1) d k(2) a by (auto simp: x11_shadow_destroy_def sthen_def [of "drop_pointer E (sh_empty sh)"] split: option.splits)
  then show "shadow_at r w' = (if r = s then Some ?c else shadow_at r w)" using at by simp
  show "shadow_inv E {} {} (change_shadow s (sh_created_update (\<lambda>_. False)) w') (sv_run es S)"
  proof (cases "Option.bind (sh_window sh) (w_surface w)")
    case None
    then show ?thesis using r inv_unpublish [OF inv, of ?c] at k(2) by simp
  next
    case (Some x)
    have "sv_run es S = (sv_run e2 S)\<lparr>sv_shadow := (sv_shadow (sv_run e2 S))(x := None)\<rparr>" using r(2) Some by simp
    then show ?thesis
      using r(1) inv_unpublish [OF inv_delete_property [OF inv, of x], of ?c] at k(2) Some by simp
  qed
qed

lemma shadow_destroy_keeps:
  assumes "shadow_destroy E s w = (w', es, u)" "world_ok E w S" "se_connected E"
  shows "world_ok E w' (sv_run es S)" "shadow_at s w' = Some sh \<Longrightarrow> \<not> sh_created sh"
proof -
  have "world_ok E w' (sv_run es S) \<and> (shadow_at s w' = Some sh \<longrightarrow> \<not> sh_created sh)"
  proof (cases "\<exists>c. shadow_at s w = Some c \<and> sh_created c")
    case False
    then have "w' = w \<and> es = []" using assms(1) by (auto simp: shadow_destroy_def split: option.splits if_splits)
    then show ?thesis using assms(2) False by auto
  next
    case True
    then obtain c where c: "shadow_at s w = Some c" "sh_created c" by blast
    then have "se_x11 E" using assms(2) by (auto simp: world_ok_def shadow_inv_def created_ok_def)
    then have "sthen (x11_shadow_destroy E s c) (\<lambda>_. smod (change_shadow s (sh_created_update (\<lambda>_. False)))) w = (w', es, u)"
      using assms(1) c by (simp add: shadow_destroy_def)
    then obtain w1 v where d: "x11_shadow_destroy E s c w = (w1, es, v)" "w' = change_shadow s (sh_created_update (\<lambda>_. False)) w1"
      by (rule sthen_elim) auto
    have inv: "shadow_inv E {} {} w S" using assms(2) by (simp add: world_ok_def)
    note k = x11_shadow_destroy_keeps [OF d(1) inv c assms(3)]
    have "idle_ok w'" using assms(2) unfolding world_ok_def idle_ok_def d(2) shadow_at_change k(2) by auto
    then show ?thesis using k(1) d(2) by (auto simp: world_ok_def k(2))
  qed
  then show "world_ok E w' (sv_run es S)" "shadow_at s w' = Some sh \<Longrightarrow> \<not> sh_created sh" by auto
qed

end
