(* ===== verification/ShadowSteps.thy ===== *)
theory ShadowSteps
  imports ShadowRun
begin

text \<open>
  The operations of tiles and shadows a program can call, each of which keeps the invariant, and so do all
  sequences of them.
\<close>

section \<open>The other operations\<close>

lemma inv_remove_shadow:
  assumes "shadow_inv E {} {} w S" "shadow_at s w = Some sh" "\<not> sh_created sh"
  shows "shadow_inv E {} (set (shadow_refs sh)) (put_shadow s None w) S"
proof -
  let ?w = "put_shadow s None w"
  have at: "shadow_at u ?w = (if u = s then None else shadow_at u w)" for u using at_range(2) [OF assms(2)] by simp
  have same: "complete ?w c \<longleftrightarrow> complete w c" "shadow_words ?w c = shadow_words w c" for c
    using same_tiles [of ?w w] by simp_all
  have "refers ?w t \<Longrightarrow> refers w t" for t unfolding refers_def at by (auto split: if_splits)
  moreover have "refers w t \<Longrightarrow> refers ?w t \<or> t \<in> set (shadow_refs sh)" for t
    unfolding refers_def at put_other using assms(2) by (metis option.inject)
  ultimately have "pointers_ok (set (shadow_refs sh)) ?w" using assms(1) unfolding shadow_inv_def pointers_ok_def by auto
  moreover have "created_ok E {} ?w"
    using assms(1) unfolding shadow_inv_def created_ok_def at same by (auto split: if_splits)
  moreover have "shown_ok {} ?w S"
    unfolding shown_ok_def
  proof (intro allI impI)
    fix x ws assume "sv_shadow S x = Some ws"
    then obtain u c q where h: "shadow_at u w = Some c" "sh_created c" "sh_window c = Some q" "w_surface w q = Some x"
        "ws = shadow_words w c" by (rule shown_by [OF assms(1)])
    then have "u \<noteq> s" using assms(2,3) by auto
    then show "\<exists>u c q. shadow_at u ?w = Some c \<and> sh_created c \<and> sh_window c = Some q \<and> w_surface ?w q = Some x \<and>
        (u \<notin> {} \<longrightarrow> ws = shadow_words ?w c)"
      using h same by (intro exI [of _ u] exI [of _ c] exI [of _ q]) simp
  qed
  ultimately show ?thesis using assms(1) by (simp add: shadow_inv_def owned_ok_def)
qed

lemma delete_shadow_keeps:
  assumes "delete_shadow E s w = (w', es, u)" "world_ok E w S" "se_connected E"
  shows "world_ok E w' (sv_run es S)"
proof -
  from assms(1) obtain w1 e1 v e2 where d: "shadow_destroy E s w = (w1, e1, v)" "es = e1 @ e2"
      "sthen (sget (shadow_at s)) (\<lambda>o'. case o' of None \<Rightarrow> sret () | Some sh \<Rightarrow> sthen (smod (put_shadow s None)) (\<lambda>_.
         sthen (sfor (drop_tile E) (remdups (shadow_refs sh))) (\<lambda>_. sret ()))) w1 = (w', e2, u)"
    unfolding delete_shadow_def by (rule sthen_elim)
  note k = shadow_destroy_keeps [OF d(1) assms(2,3)]
  show ?thesis
  proof (cases "shadow_at s w1")
    case None
    then show ?thesis using d k(1) by simp
  next
    case (Some sh)
    then have "sthen (sfor (drop_tile E) (remdups (shadow_refs sh))) (\<lambda>_. sret ()) (put_shadow s None w1) = (w', e2, u)"
      using d(3) by simp
    then obtain us where f: "sfor (drop_tile E) (remdups (shadow_refs sh)) (put_shadow s None w1) = (w', e2, us)"
      by (rule sthen_elim) auto
    have "shadow_inv E {} (set (shadow_refs sh)) (put_shadow s None w1) (sv_run e1 S)"
      using k(1) k(2) [OF Some] Some by (intro inv_remove_shadow) (simp_all add: world_ok_def)
    from drop_tiles_keep [OF f this assms(3)] have inv: "shadow_inv E {} {} w' (sv_run es S)"
      and sh: "w_shadows w' = w_shadows (put_shadow s None w1)" by (simp_all add: d(2))
    have "shadow_at r w' = shadow_at r (put_shadow s None w1)" for r using sh by (simp add: shadow_at_def)
    moreover have "idle_ok (put_shadow s None w1)" using k(1) by (auto simp: world_ok_def idle_ok_def split: if_splits)
    ultimately show ?thesis using inv by (simp add: world_ok_def idle_ok_def)
  qed
qed

lemma idle_same: "w_shadows w' = w_shadows w \<Longrightarrow> idle_ok w' = idle_ok w"
  by (simp add: idle_ok_def shadow_at_def)

lemma inv_alive: "shadow_inv E X {} w S \<Longrightarrow> refers w t \<longleftrightarrow> tile_at t w \<noteq> None"
  by (auto simp: shadow_inv_def pointers_ok_def)

text \<open>The pointers the program keeps.\<close>

lemma inv_held:
  assumes "shadow_inv E {} D w S" "\<And>t. t \<in> set h \<Longrightarrow> tile_at t w \<noteq> None" "set (w_held w) \<subseteq> set h \<union> D'" "D \<subseteq> set h \<union> D'"
  shows "shadow_inv E {} D' (w\<lparr>w_held := h\<rparr>) S"
proof -
  let ?w = "w\<lparr>w_held := h\<rparr>"
  have same: "complete ?w c \<longleftrightarrow> complete w c" "shadow_words ?w c = shadow_words w c" for c
    using same_tiles [of ?w w] by simp_all
  have "refers ?w t \<Longrightarrow> refers w t \<or> t \<in> set h" "refers w t \<or> t \<in> D \<Longrightarrow> refers ?w t \<or> t \<in> D'" for t
    using assms(3,4) unfolding refers_def by auto
  then have "pointers_ok D' ?w" using assms(1,2) unfolding shadow_inv_def pointers_ok_def at_updates by blast
  moreover have "created_ok E {} ?w" using assms(1) unfolding shadow_inv_def created_ok_def by (simp add: same) blast
  ultimately show ?thesis using assms(1) by (simp add: shadow_inv_def shown_ok_def owned_ok_def same)
qed

lemma held_alive: "shadow_inv E {} {} w S \<Longrightarrow> t \<in> set (w_held w) \<Longrightarrow> tile_at t w \<noteq> None"
  using inv_alive by (fastforce simp: refers_def)

lemma tile_alive: "shadow_inv E {} {} w S \<Longrightarrow> shadow_at s w = Some sh \<Longrightarrow> t \<in> set (shadow_refs sh) \<Longrightarrow> tile_at t w \<noteq> None"
  using inv_alive [of E "{}" w S t] by (auto simp: refers_def)

lemma setImage_keeps:
  assumes "setImage t img w = (w', es, u)" "world_ok E w S"
  shows "world_ok E w' (sv_run es S)"
proof (cases "\<exists>d. tile_at t w = Some d \<and> \<not> tile_created d")
  case False
  then have "w' = w" "es = []" using assms(1) by (auto simp: setImage_def split: option.splits)
  then show ?thesis using assms(2) by simp
next
  case True
  then obtain d where d: "tile_at t w = Some d" "\<not> tile_created d" by blast
  then have "w' = put_tile t (Some (d\<lparr>tile_image := img\<rparr>)) w" "es = []" using assms(1) by (auto simp: setImage_def)
  moreover have "shadow_inv E {} {} (put_tile t (Some (d\<lparr>tile_image := img\<rparr>)) w) S"
    using assms(2) d by (intro inv_put_tile) (simp_all add: world_ok_def contrib_def)
  ultimately show ?thesis using assms(2) idle_same [of w' w] by (simp add: world_ok_def)
qed

lemma set_shadow_keeps:
  assumes "set_shadow s f w = (w', es, u)" "world_ok E w S" "\<And>sh. shadow_refs (f sh) = shadow_refs sh"
    "\<And>sh. sh_created (f sh) = sh_created sh" "\<And>sh. sh_empty (f sh) = sh_empty sh"
  shows "world_ok E w' (sv_run es S)"
proof (cases "\<exists>sh. shadow_at s w = Some sh \<and> \<not> sh_created sh")
  case False
  then have "w' = w" "es = []" using assms(1) by (auto simp: set_shadow_def split: option.splits)
  then show ?thesis using assms(2) by simp
next
  case True
  then obtain sh where sh: "shadow_at s w = Some sh" "\<not> sh_created sh" by blast
  then have w': "w' = change_shadow s f w" "es = []" using assms(1) by (auto simp: set_shadow_def)
  have inv: "shadow_inv E {} {} w S" using assms(2) by (simp add: world_ok_def)
  have "shadow_inv E {} {} (change_shadow s f w) S"
    using inv_change_shadow [OF inv sh(1), of f "{}"] sh(2) assms(3,4) tile_alive [OF inv sh(1)] by simp
  moreover have "idle_ok (change_shadow s f w)" using assms(2,4,5) by (auto simp: world_ok_def idle_ok_def split: if_splits)
  ultimately show ?thesis by (simp add: world_ok_def w')
qed

lemma setTile_keeps:
  assumes "setTile E side s p w = (w', es, u)" "world_ok E w S" "se_connected E" "\<And>t. p = Some t \<Longrightarrow> tile_at t w \<noteq> None"
  shows "world_ok E w' (sv_run es S)"
proof (cases "\<exists>sh. shadow_at s w = Some sh \<and> \<not> sh_created sh")
  case False
  then have "w' = w" "es = []" using assms(1) by (auto simp: setTile_def split: option.splits)
  then show ?thesis using assms(2) by simp
next
  case True
  then obtain sh where sh: "shadow_at s w = Some sh" "\<not> sh_created sh" by blast
  let ?f = "\<lambda>sh. sh\<lparr>sh_tile := (sh_tile sh)(side := p)\<rparr>"
  have d: "drop_pointer E (sh_tile sh side) (change_shadow s ?f w) = (w', es, u)" using assms(1) sh by (simp add: setTile_def)
  have inv: "shadow_inv E {} {} w S" using assms(2) by (simp add: world_ok_def)
  have "shadow_inv E {} (set_option (sh_tile sh side)) (change_shadow s ?f w) S"
  proof (rule inv_change_shadow [OF inv sh(1)])
    fix t assume "t \<in> set (shadow_refs (?f sh))"
    then have "p = Some t \<or> t \<in> set (shadow_refs sh)" by (auto simp: set_shadow_refs split: if_splits)
    then show "tile_at t w \<noteq> None" using assms(4) tile_alive [OF inv sh(1)] by blast
  next
    show "set (shadow_refs sh) \<subseteq> set (shadow_refs (?f sh)) \<union> set_option (sh_tile sh side)"
    proof
      fix t assume "t \<in> set (shadow_refs sh)"
      then consider "sh_empty sh = Some t" | r where "sh_tile sh r = Some t" by (auto simp: set_shadow_refs)
      then show "t \<in> set (shadow_refs (?f sh)) \<union> set_option (sh_tile sh side)"
      proof cases
        case (2 r)
        then show ?thesis by (cases "r = side") (auto simp: set_shadow_refs intro: exI [of _ r])
      qed (simp add: set_shadow_refs)
    qed
  qed (use sh(2) in auto)
  from drop_pointer_keeps [OF d this assms(3)] have k: "shadow_inv E {} {} w' (sv_run es S)"
    "w_shadows w' = w_shadows (change_shadow s ?f w)" by simp_all
  have "idle_ok (change_shadow s ?f w)" using assms(2) by (auto simp: world_ok_def idle_ok_def split: if_splits)
  then show ?thesis using k(1) idle_same [OF k(2)] by (simp add: world_ok_def)
qed

lemma sthen_ret:
  assumes "sthen f (\<lambda>_. sret ()) w = (w', es, u)"
  obtains b where "f w = (w', es, b)"
  using assms by (rule sthen_elim) auto

lemma inv_new_shadow:
  assumes "world_ok E w S"
  shows "world_ok E (w\<lparr>w_shadows := w_shadows w @ [Some blank_shadow]\<rparr>) S"
proof -
  let ?w = "w\<lparr>w_shadows := w_shadows w @ [Some blank_shadow]\<rparr>"
  have at: "shadow_at u ?w = (if u = length (w_shadows w) then Some blank_shadow else shadow_at u w)" for u
    by (simp add: shadow_at_def nth_append)
  have none: "shadow_at (length (w_shadows w)) w = None" by (simp add: shadow_at_def)
  have blank: "\<not> sh_created blank_shadow" "sh_empty blank_shadow = None" "t \<notin> set (shadow_refs blank_shadow)" for t
    by (simp_all add: blank_shadow_def set_shadow_refs)
  have same: "complete ?w c \<longleftrightarrow> complete w c" "shadow_words ?w c = shadow_words w c" for c
    using same_tiles [of ?w w] by simp_all
  have "refers ?w t \<longleftrightarrow> refers w t" for t
  proof -
    have "(\<exists>u c. shadow_at u ?w = Some c \<and> t \<in> set (shadow_refs c)) \<longleftrightarrow> (\<exists>u c. shadow_at u w = Some c \<and> t \<in> set (shadow_refs c))"
      by (rule iffI; elim exE conjE) (metis at blank(3) option.inject, metis at none option.distinct(1))
    then show ?thesis by (simp add: refers_def)
  qed
  then have "pointers_ok {} ?w" using assms by (simp add: world_ok_def shadow_inv_def pointers_ok_def)
  moreover have "created_ok E {} ?w"
    using assms blank unfolding world_ok_def shadow_inv_def created_ok_def at same by (auto split: if_splits)
  moreover have "shown_ok {} ?w S"
    unfolding shown_ok_def
  proof (intro allI impI)
    fix x ws assume "sv_shadow S x = Some ws"
    then obtain u c q where h: "shadow_at u w = Some c" "sh_created c" "sh_window c = Some q" "w_surface w q = Some x"
        "ws = shadow_words w c" using assms unfolding world_ok_def by (elim conjE shown_by)
    then have "u \<noteq> length (w_shadows w)" using none by auto
    then show "\<exists>u c q. shadow_at u ?w = Some c \<and> sh_created c \<and> sh_window c = Some q \<and> w_surface ?w q = Some x \<and>
        (u \<notin> {} \<longrightarrow> ws = shadow_words ?w c)"
      using h same at by (intro exI [of _ u] exI [of _ c] exI [of _ q]) simp
  qed
  moreover have "idle_ok ?w" using assms blank unfolding world_ok_def idle_ok_def at by auto
  ultimately show ?thesis using assms by (simp add: world_ok_def shadow_inv_def owned_ok_def)
qed

lemma lose_surface_keeps:
  assumes "lose_surface q w = (w', es, u)" "world_ok E w S"
  shows "world_ok E w' (sv_run es S)" "w_surface w' q = None"
proof -
  have w': "w' = w\<lparr>w_surface := (w_surface w)(q := None)\<rparr>" using assms(1) by (simp add: lose_surface_def)
  then show "w_surface w' q = None" by simp
  have inv: "shadow_inv E {} {} w S" using assms(2) by (simp add: world_ok_def)
  have "shadow_inv E {} {} w' (sv_run es S)"
  proof (cases "w_surface w q")
    case None
    then show ?thesis using assms(1) inv_surface [OF inv, of q None] w' by (simp add: lose_surface_def)
  next
    case (Some x)
    then show ?thesis
      using assms(1) inv_surface [OF inv_delete_property [OF inv, of x], of q None] w' by (auto simp: lose_surface_def)
  qed
  then show "world_ok E w' (sv_run es S)" using assms(2) idle_same [of w' w] by (simp add: world_ok_def w')
qed

lemma forget_window_simps [simp]:
  "sh_created (forget_window q sh) = sh_created sh"
  "sh_empty (forget_window q sh) = sh_empty sh" "sh_tile (forget_window q sh) = sh_tile sh"
  "sh_padding (forget_window q sh) = sh_padding sh"
  "sh_window (forget_window q sh) = (if sh_window sh = Some q then None else sh_window sh)"
  by (simp_all add: forget_window_def)

lemma forget_window_refs [simp]: "shadow_refs (forget_window q sh) = shadow_refs sh"
proof -
  have "sh_tile (forget_window q sh) = sh_tile sh" "sh_empty (forget_window q sh) = sh_empty sh" by simp_all
  then show ?thesis unfolding shadow_refs_def by (simp only:)
qed

lemma inv_forget_window:
  assumes "world_ok E w S" "w_surface w q = None"
  shows "world_ok E (w\<lparr>w_shadows := map (map_option (forget_window q)) (w_shadows w)\<rparr>) S"
proof -
  let ?w = "w\<lparr>w_shadows := map (map_option (forget_window q)) (w_shadows w)\<rparr>"
  have at: "shadow_at u ?w = map_option (forget_window q) (shadow_at u w)" for u by (simp add: shadow_at_def)
  have same: "complete ?w c \<longleftrightarrow> complete w c" "shadow_words ?w c = shadow_words w c" for c
    using same_tiles [of ?w w] by simp_all
  have fw: "complete w (forget_window q c) \<longleftrightarrow> complete w c" "shadow_words w (forget_window q c) = shadow_words w c" for c
    by (simp_all add: complete_def shadow_words_def side_handle_def [abs_def] pad_words_def pad_word_def cong: option.case_cong)
  have "refers ?w = refers w" by (rule refers_same) (simp_all add: at option.map_comp comp_def)
  then have "pointers_ok {} ?w" using assms by (simp add: world_ok_def shadow_inv_def pointers_ok_def)
  moreover have "created_ok E {} ?w"
    using assms unfolding world_ok_def shadow_inv_def created_ok_def at same by (auto simp: fw)
  moreover have "shown_ok {} ?w S"
    unfolding shown_ok_def
  proof (intro allI impI)
    fix x ws assume "sv_shadow S x = Some ws"
    then obtain u c p where h: "shadow_at u w = Some c" "sh_created c" "sh_window c = Some p" "w_surface w p = Some x"
        "ws = shadow_words w c" using assms(1) unfolding world_ok_def by (elim conjE shown_by)
    then have "p \<noteq> q" using assms(2) by auto
    then show "\<exists>u c q. shadow_at u ?w = Some c \<and> sh_created c \<and> sh_window c = Some q \<and> w_surface ?w q = Some x \<and>
        (u \<notin> {} \<longrightarrow> ws = shadow_words ?w c)"
      using h same fw at by (intro exI [of _ u] exI [of _ "forget_window q c"] exI [of _ p]) simp
  qed
  moreover have "idle_ok ?w" using assms(1) unfolding world_ok_def idle_ok_def at by auto
  ultimately show ?thesis using assms(1) by (simp add: world_ok_def shadow_inv_def owned_ok_def)
qed

section \<open>Runs\<close>

lemma new_tile_held:
  assumes "world_ok E w S"
  shows "world_ok E (w\<lparr>w_tiles := w_tiles w @ [Some blank_tile], w_held := length (w_tiles w) # w_held w\<rparr>) S"
proof -
  let ?n = "length (w_tiles w)" and ?w = "w\<lparr>w_tiles := w_tiles w @ [Some blank_tile]\<rparr>"
  have inv: "shadow_inv E {} {} w S" using assms by (simp add: world_ok_def)
  have t: "tile_at u ?w = (if u = ?n then Some blank_tile else tile_at u w)" for u by (simp add: tile_at_def nth_append)
  have "shadow_inv E {} {} (?w\<lparr>w_held := ?n # w_held w\<rparr>) S"
    using held_alive [OF inv] by (intro inv_held [OF inv_new_tile [OF inv]]) (auto simp: t)
  then show ?thesis using assms idle_same [of "?w\<lparr>w_held := ?n # w_held w\<rparr>" w] by (simp add: world_ok_def)
qed

lemma forget_tile_keeps:
  assumes "drop_tile E t (w\<lparr>w_held := remove1 t (w_held w)\<rparr>) = (w', es, u)" "world_ok E w S" "se_connected E"
  shows "world_ok E w' (sv_run es S)"
proof -
  have inv: "shadow_inv E {} {} w S" using assms(2) by (simp add: world_ok_def)
  have "set (w_held w) \<subseteq> insert t (set (remove1 t (w_held w)))" by (cases "t \<in> set (w_held w)") (auto dest: in_set_remove1)
  then have "shadow_inv E {} {t} (w\<lparr>w_held := remove1 t (w_held w)\<rparr>) S"
    using held_alive [OF inv] set_remove1_subset [of t "w_held w"] by (intro inv_held [OF inv]) auto
  note d = drop_tile_keeps [OF assms(1) this assms(3)]
  then show ?thesis using assms(2) idle_same [of w' w] by (simp add: world_ok_def)
qed

lemma shadow_refs_cong: "sh_tile a = sh_tile b \<Longrightarrow> sh_empty a = sh_empty b \<Longrightarrow> shadow_refs a = shadow_refs b"
  unfolding shadow_refs_def by (simp only:)

lemma swhen_cases: "swhen c f w = (w', es, u) \<Longrightarrow> (c w \<and> f w = (w', es, u)) \<or> (w' = w \<and> es = [])"
  by (auto simp: swhen_def split: if_splits)

text \<open>The next operation of a program keeps the invariant, whatever it is.\<close>

lemma shadow_step_keeps:
  assumes "shadow_step E op w = (w', es, u)" "world_ok E w S" "se_connected E"
  shows "world_ok E w' (sv_run es S)"
proof (cases op)
  case NewTile
  then have "w' = w\<lparr>w_tiles := w_tiles w @ [Some blank_tile], w_held := length (w_tiles w) # w_held w\<rparr>" "es = []"
    using assms(1) by (auto simp: hold_def)
  then show ?thesis using new_tile_held [OF assms(2)] by simp
next
  case (ImageOp t img)
  then show ?thesis using assms(1,2) setImage_keeps [of t img w w' es u E S] by (auto dest!: swhen_cases)
next
  case (CreateTile t)
  then consider "w' = w" "es = []" | b where "tile_create E t w = (w', es, b)"
    using assms(1) by (auto dest!: swhen_cases elim: sthen_ret)
  then show ?thesis
  proof cases
    case (2 b)
    have "shadow_inv E {} {} w S" using assms(2) by (simp add: world_ok_def)
    from tile_create_keeps [OF 2 this] show ?thesis
      using assms(2) idle_same [of w' w] by (simp add: world_ok_def tiles_steady_def)
  qed (use assms(2) in simp)
next
  case (ForgetTile t)
  then show ?thesis using assms forget_tile_keeps [of E t w w' es u S] by simp
next
  case NewShadow
  then show ?thesis using assms(1) inv_new_shadow [OF assms(2)] by auto
next
  case (TileOp side s p)
  then consider "w' = w" "es = []" | "held_pointer w p" "setTile E side s p w = (w', es, u)"
    using assms(1) by (auto dest!: swhen_cases)
  then show ?thesis
  proof cases
    case 2
    have "tile_at t w \<noteq> None" if "p = Some t" for t
      using held_alive [of E w S t] that 2(1) assms(2) by (simp add: held_pointer_def world_ok_def)
    then show ?thesis by (rule setTile_keeps [OF 2(2) assms(2,3)])
  qed (use assms(2) in simp)
next
  case (TakeTile side s)
  show ?thesis
  proof (cases "Option.bind (shadow_at s w) (\<lambda>sh. sh_tile sh side)")
    case None
    then show ?thesis using assms(1,2) TakeTile by simp
  next
    case (Some t)
    then have w': "w' = w\<lparr>w_held := t # w_held w\<rparr>" "es = []" using assms(1) TakeTile by (simp_all add: hold_def)
    obtain sh where sh: "shadow_at s w = Some sh" "sh_tile sh side = Some t" using Some by (auto simp: bind_eq_Some_conv)
    have inv: "shadow_inv E {} {} w S" using assms(2) by (simp add: world_ok_def)
    have "tile_at t w \<noteq> None" using sh(2) by (intro tile_alive [OF inv sh(1)]) (auto simp: set_shadow_refs)
    then have "shadow_inv E {} {} (w\<lparr>w_held := t # w_held w\<rparr>) S"
      using held_alive [OF inv] by (intro inv_held [OF inv]) auto
    then show ?thesis using assms(2) idle_same [of w' w] by (simp add: world_ok_def w')
  qed
next
  case (PaddingOp s m)
  then have "set_shadow s (\<lambda>sh. sh\<lparr>sh_padding := m\<rparr>) w = (w', es, u)" using assms(1) by (simp add: setPadding_def)
  from set_shadow_keeps [OF this assms(2) shadow_refs_cong] show ?thesis by simp
next
  case (WindowOp s q)
  then have "set_shadow s (\<lambda>sh. sh\<lparr>sh_window := q\<rparr>) w = (w', es, u)" using assms(1) by (simp add: setWindow_def)
  from set_shadow_keeps [OF this assms(2) shadow_refs_cong] show ?thesis by simp
next
  case (CreateShadow s)
  then obtain b where "shadow_create E s w = (w', es, b)" using assms(1) by (auto elim: sthen_ret)
  then show ?thesis by (rule shadow_create_keeps [OF _ assms(2)])
next
  case (DestroyShadow s)
  then show ?thesis using assms shadow_destroy_keeps(1) by simp
next
  case (RemoveShadow s)
  then show ?thesis using assms delete_shadow_keeps by simp
next
  case (MakeSurface q)
  then obtain x where x: "winId E q w = (w', es, x)" using assms(1) by (auto elim: sthen_ret)
  have inv: "shadow_inv E {} {} w S" using assms(2) by (simp add: world_ok_def)
  show ?thesis using winId_keeps(1,3) [OF x inv] assms(2) by (auto simp: world_ok_def idle_ok_def)
next
  case (DestroySurface q)
  then show ?thesis using assms lose_surface_keeps(1) by simp
next
  case (DestroyWindow q)
  then obtain w1 v where l: "lose_surface q w = (w1, es, v)"
      "w' = w1\<lparr>w_shadows := map (map_option (forget_window q)) (w_shadows w1)\<rparr>"
    using assms(1) by (auto elim!: sthen_elim)
  show ?thesis unfolding l(2) by (rule inv_forget_window [OF lose_surface_keeps [OF l(1) assms(2)]])
qed

lemma shadow_steps_keep:
  "sfor (shadow_step E) ops w = (w', es, us) \<Longrightarrow> world_ok E w S \<Longrightarrow> se_connected E \<Longrightarrow> world_ok E w' (sv_run es S)"
proof (induction ops arbitrary: w es us S)
  case (Cons op ops)
  from Cons.prems(1) obtain w1 e1 u e2 where f: "shadow_step E op w = (w1, e1, u)" "es = e1 @ e2"
      "sthen (sfor (shadow_step E) ops) (\<lambda>rs. sret (u # rs)) w1 = (w', e2, us)"
    unfolding sfor.simps by (rule sthen_elim)
  from f(3) obtain rs where g: "sfor (shadow_step E) ops w1 = (w', e2, rs)" by (rule sthen_elim) auto
  show ?case
    using Cons.IH [OF g shadow_step_keeps [OF f(1) Cons.prems(2,3)] Cons.prems(3)] f(2) by simp
qed simp

lemma empty_world_ok: "world_ok E empty_world empty_server"
  by (simp add: world_ok_def inv_defs idle_ok_def empty_world_def empty_server_def refers_def tile_at_def shadow_at_def
      owned_def)

lemma shadow_run_keeps:
  assumes "shadow_run E ops empty_world = (w, es, u)" "se_connected E"
  shows "world_ok E w (sv_run es empty_server)"
  using assms(1) unfolding shadow_run_def by (rule sthen_ret) (rule shadow_steps_keep [OF _ empty_world_ok assms(2)])

end
