(* ===== verification/ShadowProperties.thy ===== *)
theory ShadowProperties
  imports ShadowSteps
begin

text \<open>
  The properties of shadows in every run of a program: nothing is leaked or freed twice at the server, and no
  window shows a shadow whose tiles are gone between two operations, though in the middle of one it may.
\<close>

lemma owned_mset: "owned f w = mset (map f (filter tile_created (List.map_filter id (w_tiles w))))"
proof -
  have "sum_list (map (contrib f) ts) = mset (map f (filter tile_created (List.map_filter id ts)))" for ts
    by (induction ts) (auto simp: contrib_def map_filter_simps split: option.splits)
  then show ?thesis by (simp add: owned_def)
qed

definition no_shadows :: "shadow_world \<Rightarrow> bool" where
  "no_shadows w \<longleftrightarrow> list_all (\<lambda>s. s = None) (w_shadows w)"

text \<open>
  C16.  In every run the server holds exactly one pixmap and one graphics context for each tile that is created,
  a tile is there exactly as long as there is a pointer to it, and when the program has given up all
  pointers and shadows nothing of it is left at the server.
\<close>

theorem shadow_resources:
  assumes "se_connected E" "shadow_run E ops empty_world = (w, es, u)"
  defines "tiles \<equiv> filter tile_created (List.map_filter id (w_tiles w))"
  shows "sv_pixmaps (sv_run es empty_server) = mset (map tile_pixmap tiles) \<and>
    sv_gcs (sv_run es empty_server) = mset (map tile_gc tiles) \<and>
    (\<forall>t. tile_at t w \<noteq> None \<longleftrightarrow> referenced w t) \<and>
    (w_held w = [] \<and> no_shadows w \<longrightarrow> sv_pixmaps (sv_run es empty_server) = {#} \<and> sv_gcs (sv_run es empty_server) = {#})"
proof -
  have inv: "shadow_inv E {} {} w (sv_run es empty_server)" using shadow_run_keeps [OF assms(2,1)] by (simp add: world_ok_def)
  then have own: "sv_pixmaps (sv_run es empty_server) = mset (map tile_pixmap tiles)"
      "sv_gcs (sv_run es empty_server) = mset (map tile_gc tiles)"
    unfolding tiles_def by (simp_all add: shadow_inv_def owned_ok_def owned_mset)
  have alive: "\<forall>t. tile_at t w \<noteq> None \<longleftrightarrow> referenced w t" using inv_alive [OF inv] by (simp add: referenced_refers)
  have "tiles = []" if none: "w_held w = []" "no_shadows w"
  proof -
    have "\<not> referenced w t" for t using none by (auto simp: referenced_def list_ex_iff no_shadows_def list_all_iff)
    then have "tile_at t w = None" for t using alive by blast
    then have "o' = None" if "o' \<in> set (w_tiles w)" for o' using that by (metis in_set_conv_nth tile_at_def)
    then have "List.map_filter id (w_tiles w) = []" unfolding map_filter_def by simp
    then show ?thesis by (simp add: tiles_def)
  qed
  then show ?thesis using own alive by auto
qed

text \<open>
  C15.  Between any two operations what a window shows are twelve words, made of the pixmaps of the tiles of a shadow
  that is created for this window, all of which the server still has, and of its padding.
\<close>

theorem shadow_shows_live:
  assumes "se_connected E" "shadow_run E ops empty_world = (w, es, u)"
    and "sv_shadow (sv_run es empty_server) x = Some ws"
  shows "length ws = 12 \<and> set (take 8 ws) \<subseteq> set_mset (sv_pixmaps (sv_run es empty_server)) \<and>
    (\<exists>s sh q. shadow_at s w = Some sh \<and> sh_created sh \<and> sh_window sh = Some q \<and> w_surface w q = Some x \<and>
       drop 8 ws = pad_words sh \<and>
       (\<forall>i < 8. \<forall>t. sh_tile sh (data_order ! i) = Some t \<longrightarrow> tile_at t w \<noteq> None \<and> ws ! i = pixmap_at t w))"
proof -
  have inv: "shadow_inv E {} {} w (sv_run es empty_server)" using shadow_run_keeps [OF assms(2,1)] by (simp add: world_ok_def)
  obtain s sh q where h: "shadow_at s w = Some sh" "sh_created sh" "sh_window sh = Some q" "w_surface w q = Some x"
      "ws = shadow_words w sh" by (rule shown_by [OF inv assms(3)])
  then have c: "complete w sh" using inv by (simp add: shadow_inv_def created_ok_def)
  have len: "length data_order = 8" "length (pad_words sh) = 4" by (simp_all add: data_order_def pad_words_def)
  have ws: "take 8 ws = map (side_handle w sh) data_order" "drop 8 ws = pad_words sh" "length ws = 12"
    using len by (simp_all add: h(5) shadow_words_def)
  have live: "pixmap_at t w \<in># sv_pixmaps (sv_run es empty_server)" if "t \<in> set (shadow_refs sh)" for t
    using that c inv owned_member [of t w _ tile_pixmap]
    by (auto simp: complete_def made_def pixmap_at_def shadow_inv_def owned_ok_def)
  have "side_handle w sh side \<in># sv_pixmaps (sv_run es empty_server)" for side
    using c live by (auto simp: side_handle_def complete_def set_shadow_refs split: option.split)
  moreover have "tile_at t w \<noteq> None \<and> ws ! i = pixmap_at t w" if "i < 8" "sh_tile sh (data_order ! i) = Some t" for i t
  proof -
    have "ws ! i = side_handle w sh (data_order ! i)" using that(1) len by (simp add: h(5) shadow_words_def nth_append)
    moreover have "t \<in> set (shadow_refs sh)" using that(2) by (auto simp: set_shadow_refs)
    ultimately show ?thesis using that(2) tile_alive [OF inv h(1)] by (simp add: side_handle_def)
  qed
  ultimately have "\<forall>i < 8. \<forall>t. sh_tile sh (data_order ! i) = Some t \<longrightarrow> tile_at t w \<noteq> None \<and> ws ! i = pixmap_at t w"
    and "set (take 8 ws) \<subseteq> set_mset (sv_pixmaps (sv_run es empty_server))"
    using ws(1) by auto
  then show ?thesis using h(1-4) ws(2,3) by blast
qed

section \<open>An example\<close>

definition sample_shadow_env :: shadow_env where
  "sample_shadow_env = \<lparr>se_x11 = True, se_connected = True, se_atom = Some 300, se_id = (\<lambda>n. of_nat (100 + n))\<rparr>"

text \<open>One tile at the top; the other sides share the empty tile.\<close>

definition sample_shadow_ops :: "shadow_op list" where
  "sample_shadow_ops = [NewTile, ImageOp 0 \<lparr>img_width = 8, img_height = 4, img_depth = 32, img_bits = [1, 2]\<rparr>, NewShadow,
     TileOp ShTop 0 (Some 0), WindowOp 0 (Some 7), CreateShadow 0]"

definition sample_shadow_world :: shadow_world where
  "sample_shadow_world = fst (shadow_run sample_shadow_env sample_shadow_ops empty_world)"

definition sample_shadow_effects :: "x_shadow list" where
  "sample_shadow_effects = fst (snd (shadow_run sample_shadow_env sample_shadow_ops empty_world))"

lemma sample_shadow_run:
  "shadow_run sample_shadow_env sample_shadow_ops empty_world = (sample_shadow_world, sample_shadow_effects, ())"
  by (simp add: sample_shadow_world_def sample_shadow_effects_def prod_eq_iff)

lemma sample_shadow_sent:
  "sample_shadow_effects =
    [CreatePixmap 32 100 8 4, CreateGC 101 100, PutImage 100 101 8 4 32 [1, 2],
     CreatePixmap 32 102 1 1, CreateGC 103 102, PutImage 102 103 1 1 32 [0, 0, 0, 0], WindowMade 104,
     SetShadow 104 300 [100, 102, 102, 102, 102, 102, 102, 102, 0, 1, 1, 1]]"
  by code_simp

lemma sample_shadow_tiles:
  "map tile_pixmap (filter tile_created (List.map_filter id (w_tiles sample_shadow_world))) = [100, 102]"
  by code_simp

lemma sample_shadow_connected: "se_connected sample_shadow_env"
  by (simp add: sample_shadow_env_def)

theorem shadow_resources_witness:
  "sv_pixmaps (sv_run sample_shadow_effects empty_server) = {#100, 102#}"
  using shadow_resources [OF sample_shadow_connected sample_shadow_run] sample_shadow_tiles by simp

theorem shadow_shows_live_witness:
  "set (take 8 [100, 102, 102, 102, 102, 102, 102, 102, 0, 1, 1, 1]) \<subseteq>
     set_mset (sv_pixmaps (sv_run sample_shadow_effects empty_server))"
proof -
  have "sv_shadow (sv_run sample_shadow_effects empty_server) 104 =
      Some [100, 102, 102, 102, 102, 102, 102, 102, 0, 1, 1, 1]"
    by (simp add: sample_shadow_sent)
  from shadow_shows_live [OF sample_shadow_connected sample_shadow_run this] show ?thesis by blast
qed

text \<open>
  Within an operation the order is wrong: when the shadow of the example is destroyed, the pixmap of the empty tile
  is freed while the window still shows it, and only then the property is deleted.
\<close>

lemma destroy_frees_first:
  "fst (snd (shadow_destroy sample_shadow_env 0 sample_shadow_world)) = [FreePixmap 102, FreeGC 103, DeleteShadow 104 300]"
  by code_simp

end
