(* ===== verification/ErrorHandler.thy ===== *)
theory ErrorHandler
  imports Timestamps
begin

text \<open>
  Handlers of X errors (kxerrorhandler.cpp): objects that are nested like the scopes they live in, each of
  which takes the errors of requests made since it was made and passes older ones on.
\<close>

section \<open>Objects\<close>

record x_error =
  xe_serial :: "64 word"
  xe_request :: "8 word"
  xe_code :: "8 word"
  xe_resource :: "64 word"

text \<open>What \<^verbatim>\<open>XSetErrorHandler\<close> is given and gives back: the function of this class, or one of somebody else.\<close>

datatype x_handler = HandlerWrapper | OtherHandler nat

record kx_handler =
  eh_user1 :: "(8 word \<Rightarrow> 8 word \<Rightarrow> 64 word \<Rightarrow> bool) option"
  eh_user2 :: "(nat \<Rightarrow> x_error \<Rightarrow> int) option"
  eh_old :: x_handler
  eh_first :: "64 word"
  eh_display :: nat
  eh_was_error :: bool
  eh_event :: "x_error option"

text \<open>The static members: the handlers in the order they were made, of which there are \<^verbatim>\<open>pos\<close>, the
  size of their array, and what is installed in Xlib.\<close>

record handler_statics =
  hs_handlers :: "kx_handler list"
  hs_size :: int
  hs_installed :: x_handler

definition hs_pos :: "handler_statics \<Rightarrow> nat" where
  "hs_pos st = length (hs_handlers st)"

definition no_handlers :: "nat \<Rightarrow> handler_statics" where
  "no_handlers k = \<lparr>hs_handlers = [], hs_size = 0, hs_installed = OtherHandler k\<rparr>"

section \<open>Making and destroying\<close>

definition XSetErrorHandler :: "x_handler \<Rightarrow> handler_statics \<Rightarrow> handler_statics \<times> x_handler" where
  "XSetErrorHandler h st = (st\<lparr>hs_installed := h\<rparr>, hs_installed st)"

definition addHandler :: "kx_handler \<Rightarrow> handler_statics \<Rightarrow> handler_statics" where
  "addHandler h st =
     st\<lparr>hs_size := (if hs_size st = int (hs_pos st) then hs_size st + 16 else hs_size st),
        hs_handlers := hs_handlers st @ [h]\<rparr>"

text \<open>Both constructors: \<open>handler\<close> is the function of the second one; \<open>first\<close> is \<^verbatim>\<open>XNextRequest\<close>.\<close>

definition KXErrorHandler ::
  "(nat \<Rightarrow> x_error \<Rightarrow> int) option \<Rightarrow> nat \<Rightarrow> 64 word \<Rightarrow> handler_statics \<Rightarrow> handler_statics" where
  "KXErrorHandler handler dpy first st =
     (let (st1, old) = XSetErrorHandler HandlerWrapper st
      in addHandler \<lparr>eh_user1 = None, eh_user2 = handler, eh_old = old, eh_first = first, eh_display = dpy,
           eh_was_error = False, eh_event = None\<rparr> st1)"

text \<open>The destructor of the last object; objects are destroyed in reverse order.\<close>

definition destroy_handler :: "handler_statics \<Rightarrow> handler_statics" where
  "destroy_handler st =
     (if hs_handlers st = [] then st
      else (fst (XSetErrorHandler (eh_old (last (hs_handlers st))) st))\<lparr>hs_handlers := butlast (hs_handlers st)\<rparr>)"

definition error_of :: "kx_handler \<Rightarrow> bool" where
  "error_of h = eh_was_error h"

definition errorEvent :: "kx_handler \<Rightarrow> x_error option" where
  "errorEvent h = eh_event h"

section \<open>Errors\<close>

definition error_for :: "kx_handler \<Rightarrow> nat \<Rightarrow> x_error \<Rightarrow> bool" where
  "error_for h dpy e \<longleftrightarrow> dpy = eh_display h \<and> 0 \<le> timestampCompare (xe_serial e) (eh_first h)"

definition is_error :: "kx_handler \<Rightarrow> nat \<Rightarrow> x_error \<Rightarrow> bool" where
  "is_error h dpy e =
     (case eh_user1 h of Some f \<Rightarrow> f (xe_request e) (xe_code e) (xe_resource e)
      | None \<Rightarrow> (case eh_user2 h of Some f \<Rightarrow> f dpy e \<noteq> 0 | None \<Rightarrow> True))"

text \<open>Only the first error is remembered.\<close>

definition record_error :: "kx_handler \<Rightarrow> nat \<Rightarrow> x_error \<Rightarrow> kx_handler" where
  "record_error h dpy e =
     (if is_error h dpy e \<and> \<not> eh_was_error h then h\<lparr>eh_was_error := True, eh_event := Some e\<rparr> else h)"

text \<open>
  \<^verbatim>\<open>handler_wrapper\<close> holds \<^verbatim>\<open>s_lock\<close>, which is not recursive, while the last of the first
  \<open>pos\<close> handlers deals with the error (\<^verbatim>\<open>handle\<close>); a thread that takes a lock it holds waits
  for ever, which is \<open>None\<close>. \<open>R\<close> is what the handlers of others return; the calls of them are
  listed.
\<close>

type_synonym error_outcome = "kx_handler list \<times> (nat \<times> nat \<times> x_error) list \<times> int"

fun handler_wrapper ::
  "(nat \<Rightarrow> nat \<Rightarrow> x_error \<Rightarrow> int) \<Rightarrow> bool \<Rightarrow> nat \<Rightarrow> nat \<Rightarrow> x_error \<Rightarrow> kx_handler list \<Rightarrow> error_outcome option" where
  "handler_wrapper R True pos dpy e hs = None"
| "handler_wrapper R False 0 dpy e hs = None"
| "handler_wrapper R False (Suc pos) dpy e hs =
     (let h = hs ! pos
      in if error_for h dpy e then Some (hs[pos := record_error h dpy e], [], 0)
         else case eh_old h of
           OtherHandler f \<Rightarrow> Some (hs, [(f, dpy, e)], R f dpy e)
         | HandlerWrapper \<Rightarrow> handler_wrapper R True pos dpy e hs)"

text \<open>Xlib reports an error to what is installed.\<close>

definition report_error ::
  "(nat \<Rightarrow> nat \<Rightarrow> x_error \<Rightarrow> int) \<Rightarrow> nat \<Rightarrow> x_error \<Rightarrow> handler_statics \<Rightarrow> (handler_statics \<times> (nat \<times> nat \<times> x_error) list \<times> int) option" where
  "report_error R dpy e st =
     (case hs_installed st of
        OtherHandler f \<Rightarrow> Some (st, [(f, dpy, e)], R f dpy e)
      | HandlerWrapper \<Rightarrow> map_option (\<lambda>(hs, calls, r). (st\<lparr>hs_handlers := hs\<rparr>, calls, r))
          (handler_wrapper R False (hs_pos st) dpy e (hs_handlers st)))"

section \<open>Runs\<close>

datatype handler_op =
    MakeHandler "(nat \<Rightarrow> x_error \<Rightarrow> int) option" nat "64 word"
  | DestroyHandler
  | ReportError nat x_error

fun handler_step :: "(nat \<Rightarrow> nat \<Rightarrow> x_error \<Rightarrow> int) \<Rightarrow> handler_op \<Rightarrow> handler_statics \<Rightarrow> handler_statics option" where
  "handler_step R (MakeHandler f dpy first) st = Some (KXErrorHandler f dpy first st)"
| "handler_step R DestroyHandler st = Some (destroy_handler st)"
| "handler_step R (ReportError dpy e) st = map_option fst (report_error R dpy e st)"

fun handler_run :: "(nat \<Rightarrow> nat \<Rightarrow> x_error \<Rightarrow> int) \<Rightarrow> handler_op list \<Rightarrow> handler_statics \<Rightarrow> handler_statics option" where
  "handler_run R [] st = Some st"
| "handler_run R (op # ops) st = Option.bind (handler_step R op st) (handler_run R ops)"

text \<open>
  What the class promises: an error goes to the last handler it is for, counted from the end, and to the
  handler that was installed before all of them if there is none.
\<close>

fun deliver :: "nat \<Rightarrow> (nat \<Rightarrow> nat \<Rightarrow> x_error \<Rightarrow> int) \<Rightarrow> nat \<Rightarrow> nat \<Rightarrow> x_error \<Rightarrow> kx_handler list \<Rightarrow> error_outcome" where
  "deliver k R 0 dpy e hs = (hs, [(k, dpy, e)], R k dpy e)"
| "deliver k R (Suc pos) dpy e hs =
     (if error_for (hs ! pos) dpy e then (hs[pos := record_error (hs ! pos) dpy e], [], 0)
      else deliver k R pos dpy e hs)"

section \<open>The nesting\<close>

definition nested :: "nat \<Rightarrow> handler_statics \<Rightarrow> bool" where
  "nested k st \<longleftrightarrow>
     hs_installed st = (if hs_handlers st = [] then OtherHandler k else HandlerWrapper) \<and>
     (\<forall>i < length (hs_handlers st). eh_old (hs_handlers st ! i) = (if i = 0 then OtherHandler k else HandlerWrapper)) \<and>
     int (hs_pos st) \<le> hs_size st \<and> 16 dvd hs_size st"

lemma nested_make: "nested k st \<Longrightarrow> nested k (KXErrorHandler f dpy first st)"
  by (auto simp: nested_def KXErrorHandler_def XSetErrorHandler_def addHandler_def hs_pos_def nth_append less_Suc_eq)

lemma nested_destroy: "nested k st \<Longrightarrow> nested k (destroy_handler st)"
proof (cases "hs_handlers st" rule: rev_cases)
  case (snoc hs h)
  assume n: "nested k st"
  then have "eh_old h = (if hs = [] then OtherHandler k else HandlerWrapper)"
    using snoc unfolding nested_def by (auto dest!: spec [of _ "length hs"])
  moreover have "eh_old (hs ! i) = (if i = 0 then OtherHandler k else HandlerWrapper)" if "i < length hs" for i
  proof -
    have "eh_old ((hs @ [h]) ! i) = (if i = 0 then OtherHandler k else HandlerWrapper)"
      using n snoc that by (simp add: nested_def)
    then show ?thesis using that by (simp add: nth_append)
  qed
  ultimately show ?thesis using n snoc by (simp add: nested_def destroy_handler_def XSetErrorHandler_def hs_pos_def)
qed (simp add: destroy_handler_def)

lemma record_error_simps [simp]: "eh_old (record_error h dpy e) = eh_old h"
  by (simp add: record_error_def)

lemma record_error_old [simp]: "eh_old (hs[p := record_error (hs ! p) dpy e] ! i) = eh_old (hs ! i)"
  by (cases "p < length hs"; cases "p = i") (simp_all add: list_update_beyond)

text \<open>What happens to an error, in one equation.\<close>

lemma report_error_nested:
  assumes "nested k st"
  shows "report_error R dpy e st =
    (if 2 \<le> hs_pos st \<and> \<not> error_for (last (hs_handlers st)) dpy e then None
     else (let (hs, calls, r) = deliver k R (hs_pos st) dpy e (hs_handlers st) in Some (st\<lparr>hs_handlers := hs\<rparr>, calls, r)))"
proof (cases "hs_handlers st" rule: rev_cases)
  case Nil
  then show ?thesis using assms by (cases st) (simp add: report_error_def nested_def hs_pos_def)
next
  case (snoc hs h)
  then have old: "hs_installed st = HandlerWrapper" "eh_old h = (if hs = [] then OtherHandler k else HandlerWrapper)"
    using assms unfolding nested_def by (auto dest!: spec [of _ "length hs"])
  show ?thesis
    using old snoc by (cases hs) (simp_all add: report_error_def hs_pos_def Let_def nth_append)
qed

lemma deliver_old: "deliver k R pos dpy e hs = (hs', calls, r) \<Longrightarrow> length hs' = length hs \<and> (\<forall>i < length hs. eh_old (hs' ! i) = eh_old (hs ! i))"
  by (induction pos) (auto split: if_splits)

lemma nested_report:
  assumes "nested k st" "report_error R dpy e st = Some (st', calls, r)"
  shows "nested k st'"
proof -
  obtain hs where d: "deliver k R (hs_pos st) dpy e (hs_handlers st) = (hs, calls, r)" "st' = st\<lparr>hs_handlers := hs\<rparr>"
    using assms(2) unfolding report_error_nested [OF assms(1)] by (auto split: if_splits prod.splits)
  from deliver_old [OF d(1)] have "length hs = length (hs_handlers st)"
      "\<forall>i < length (hs_handlers st). eh_old (hs ! i) = eh_old (hs_handlers st ! i)" by simp_all
  then show ?thesis using assms(1) by (auto simp: nested_def d(2) hs_pos_def)
qed

lemma nested_run: "handler_run R ops st = Some st' \<Longrightarrow> nested k st \<Longrightarrow> nested k st'"
proof (induction ops arbitrary: st)
  case (Cons op ops)
  then obtain st1 where s: "handler_step R op st = Some st1" "handler_run R ops st1 = Some st'" by (auto simp: bind_eq_Some_conv)
  then have "nested k st1"
    using Cons.prems(2) by (cases op) (auto simp: nested_make nested_destroy dest: nested_report)
  then show ?case using Cons.IH s(2) by blast
qed simp

lemma nested_start: "nested k (no_handlers k)"
  by (simp add: nested_def no_handlers_def hs_pos_def)

text \<open>
  C20.  However handlers are made and destroyed, the report of an error returns unless two handlers or more are
  nested and the error is not for the last of them: then the thread waits for ever for the lock it holds.
  When it returns, the error has gone where the class promises.
\<close>

theorem error_report_returns:
  assumes "handler_run R ops (no_handlers k) = Some st"
  shows "(report_error R dpy e st = None \<longleftrightarrow> 2 \<le> hs_pos st \<and> \<not> error_for (last (hs_handlers st)) dpy e) \<and>
    (\<forall>st' calls r. report_error R dpy e st = Some (st', calls, r) \<longrightarrow>
      deliver k R (hs_pos st) dpy e (hs_handlers st) = (hs_handlers st', calls, r) \<and> hs_pos st' = hs_pos st)"
proof -
  note eq = report_error_nested [OF nested_run [OF assms nested_start]]
  obtain hs calls r where d: "deliver k R (hs_pos st) dpy e (hs_handlers st) = (hs, calls, r)" by (metis prod_cases3)
  then show ?thesis using deliver_old [OF d] by (auto simp: eq hs_pos_def split: if_splits)
qed

definition sample_error :: x_error where
  "sample_error = \<lparr>xe_serial = 5, xe_request = 12, xe_code = 3, xe_resource = 77\<rparr>"

definition sample_handler_ops :: "handler_op list" where
  "sample_handler_ops = [MakeHandler None 0 4, MakeHandler None 0 9, DestroyHandler, ReportError 0 sample_error,
     MakeHandler None 0 10]"

text \<open>An error of a request before the second handler was made.\<close>

theorem error_report_returns_witness:
  "Option.bind (handler_run (\<lambda>_ _ _. 0) sample_handler_ops (no_handlers 1)) (report_error (\<lambda>_ _ _. 0) 0 sample_error) = None"
proof -
  obtain st where st: "handler_run (\<lambda>_ _ _. 0) sample_handler_ops (no_handlers 1) = Some st" "hs_pos st = 2"
      "\<not> error_for (last (hs_handlers st)) 0 sample_error"
    by (simp add: sample_handler_ops_def sample_error_def no_handlers_def KXErrorHandler_def XSetErrorHandler_def addHandler_def
        destroy_handler_def report_error_def hs_pos_def error_for_def timestampCompare_def Let_def record_error_def is_error_def)
  show ?thesis using error_report_returns [OF st(1), of 0 sample_error] st by simp
qed

text \<open>
  Handlers never write outside of their array, and Xlib has the handler it had at the beginning exactly
  when all of them are destroyed.
\<close>

theorem handlers_nested:
  assumes "handler_run R ops (no_handlers k) = Some st"
  shows "int (hs_pos st) \<le> hs_size st \<and> 16 dvd hs_size st \<and> (hs_installed st = OtherHandler k \<longleftrightarrow> hs_pos st = 0)"
  using nested_run [OF assms nested_start] by (auto simp: nested_def hs_pos_def)

theorem handlers_nested_witness:
  "\<exists>st. handler_run (\<lambda>_ _ _. 0) [MakeHandler None 0 4] (no_handlers 1) = Some st \<and> hs_installed st \<noteq> OtherHandler 1"
  using handlers_nested [of "\<lambda>_ _ _. 0" "[MakeHandler None 0 4]" 1]
  by (simp add: KXErrorHandler_def XSetErrorHandler_def addHandler_def hs_pos_def)

end
