(* ===== verification/Effects.thy ===== *)
theory Effects
  imports Complex_Main Prelude
begin

text \<open>
  Effects of the window manager (platforms/xcb/kwindoweffects.cpp): what a program asks for in properties of its
  windows, with regions in pixels of the device.
\<close>

section \<open>Requests\<close>

datatype effect = Slide | BlurBehind | BackgroundContrast

datatype slide_location = NoEdge | TopEdge | RightEdge | BottomEdge | LeftEdge

text \<open>
  What is outside of the repository or decided elsewhere: whether there is a compositing manager and a connection, the
  answers to requests for atoms, the properties of the root window, the device pixel ratio, and the colour matrix,
  sixteen numbers of 32 bits that Qt computes.  The pixel ratio is a real number here: products of a coordinate with a
  \<^verbatim>\<open>double\<close> are taken to be exact, as they are for ratios with few binary digits.
\<close>

record effects_env =
  fx_composited :: bool
  fx_connected :: bool
  fx_atom :: "string \<Rightarrow> u32 option"
  fx_root :: "u32 list option"
  fx_ratio :: real
  fx_matrix :: "real \<Rightarrow> real \<Rightarrow> real \<Rightarrow> u32 list"

datatype x_effect =
    FxChange u32 u32 u32 "u32 list"
  | FxDelete u32 u32

definition fx_cardinal :: u32 where "fx_cardinal = 6"

fun effect_name :: "effect \<Rightarrow> string" where
  "effect_name Slide = ''_KDE_SLIDE''"
| "effect_name BlurBehind = ''_KDE_NET_WM_BLUR_BEHIND_REGION''"
| "effect_name BackgroundContrast = ''_KDE_NET_WM_BACKGROUND_CONTRAST_REGION''"

definition isEffectAvailable :: "effects_env \<Rightarrow> effect \<Rightarrow> bool" where
  "isEffectAvailable X f =
     (if \<not> fx_composited X then False
      else case (fx_atom X (effect_name f), fx_root X) of
        (Some a, Some atoms) \<Rightarrow> list_ex (\<lambda>b. b = a) atoms
      | _ \<Rightarrow> False)"

text \<open>The second word of the property; without an edge it is not set and not sent.\<close>

fun slide_word :: "slide_location \<Rightarrow> u32 option" where
  "slide_word LeftEdge = Some 0"
| "slide_word TopEdge = Some 1"
| "slide_word RightEdge = Some 2"
| "slide_word BottomEdge = Some 3"
| "slide_word NoEdge = None"

definition slideWindow :: "effects_env \<Rightarrow> u32 \<Rightarrow> slide_location \<Rightarrow> i32 \<Rightarrow> x_effect list" where
  "slideWindow X win location offset =
     (if \<not> fx_connected X then []
      else case fx_atom X (effect_name Slide) of
        None \<Rightarrow> []
      | Some a \<Rightarrow> (case slide_word location of
          None \<Rightarrow> [FxDelete win a]
        | Some edge \<Rightarrow> [FxChange win a a [offset, edge]]))"

section \<open>Regions\<close>

type_synonym fx_rect = "int \<times> int \<times> int \<times> int"

text \<open>Positions are rounded down and sizes rounded up.\<close>

fun device_rect :: "real \<Rightarrow> fx_rect \<Rightarrow> fx_rect" where
  "device_rect d (x, y, w, h) = (\<lfloor>of_int x * d\<rfloor>, \<lfloor>of_int y * d\<rfloor>, \<lceil>of_int w * d\<rceil>, \<lceil>of_int h * d\<rceil>)"

fun rect_word_list :: "fx_rect \<Rightarrow> u32 list" where
  "rect_word_list (x, y, w, h) = [word_of_int x, word_of_int y, word_of_int w, word_of_int h]"

definition region_words :: "real \<Rightarrow> fx_rect list \<Rightarrow> u32 list" where
  "region_words d region = concat (map (rect_word_list \<circ> device_rect d) region)"

definition enableBlurBehind :: "effects_env \<Rightarrow> u32 \<Rightarrow> bool \<Rightarrow> fx_rect list \<Rightarrow> x_effect list" where
  "enableBlurBehind X win enable region =
     (if \<not> fx_connected X then []
      else case fx_atom X (effect_name BlurBehind) of
        None \<Rightarrow> []
      | Some a \<Rightarrow> if enable then [FxChange win a fx_cardinal (region_words (fx_ratio X) region)] else [FxDelete win a])"

definition enableBackgroundContrast ::
  "effects_env \<Rightarrow> u32 \<Rightarrow> bool \<Rightarrow> real \<Rightarrow> real \<Rightarrow> real \<Rightarrow> fx_rect list \<Rightarrow> x_effect list" where
  "enableBackgroundContrast X win enable contrast intensity saturation region =
     (case fx_atom X (effect_name BackgroundContrast) of
        None \<Rightarrow> []
      | Some a \<Rightarrow>
          if enable
          then [FxChange win a a (region_words (fx_ratio X) region @ fx_matrix X contrast intensity saturation)]
          else [FxDelete win a])"

section \<open>What a region covers\<close>

text \<open>The rectangles of a property, four words each, as the format of the property has them.\<close>

fun fx_rects :: "u32 list \<Rightarrow> fx_rect list" where
  "fx_rects (x # y # w # h # ws) = (uint x, uint y, uint w, uint h) # fx_rects ws"
| "fx_rects ws = []"

definition fits_device :: "real \<Rightarrow> fx_rect \<Rightarrow> bool" where
  "fits_device d r \<longleftrightarrow> (\<forall>v \<in> (case device_rect d r of (x, y, w, h) \<Rightarrow> {x, y, w, h}). 0 \<le> v \<and> v < 2 ^ 32)"

lemma uint_word_of_int_fits: "0 \<le> v \<Longrightarrow> v < 2 ^ 32 \<Longrightarrow> uint (word_of_int v :: u32) = v"
  by (simp add: uint_word_of_int take_bit_int_eq_self)

lemma rects_of_region: "list_all (fits_device d) region \<Longrightarrow> fx_rects (region_words d region) = map (device_rect d) region"
proof (induction region)
  case (Cons r region)
  obtain x y w h where r: "device_rect d r = (x, y, w, h)" by (rule prod_cases4)
  then have "region_words d (r # region) = [word_of_int x, word_of_int y, word_of_int w, word_of_int h] @ region_words d region"
    by (simp add: region_words_def)
  moreover have "uint (word_of_int v :: u32) = v" if "v \<in> {x, y, w, h}" for v
    using Cons.prems that r by (intro uint_word_of_int_fits) (auto simp: fits_device_def)
  ultimately show ?case using Cons r by simp
qed (simp add: region_words_def)

text \<open>One direction: the piece from \<open>p\<close> of length \<open>n\<close>, and how it comes to lie on the device.\<close>

definition starts_within :: "real \<Rightarrow> int \<Rightarrow> int \<Rightarrow> bool" where
  "starts_within d p P \<longleftrightarrow> of_int P \<le> of_int p * d \<and> of_int p * d < of_int P + 1"

definition ends_within :: "real \<Rightarrow> int \<Rightarrow> int \<Rightarrow> int \<Rightarrow> int \<Rightarrow> bool" where
  "ends_within d p n P N \<longleftrightarrow> of_int (p + n) * d - 1 < of_int (P + N) \<and> of_int (P + N) < of_int (p + n) * d + 1"

lemma axis_within: "starts_within d p \<lfloor>of_int p * d\<rfloor>" "ends_within d p n \<lfloor>of_int p * d\<rfloor> \<lceil>of_int n * d\<rceil>"
proof -
  have "of_int (p + n) * d = of_int p * d + of_int n * d" by (simp add: distrib_right)
  moreover have "of_int \<lfloor>of_int p * d\<rfloor> \<le> of_int p * d" "of_int p * d < of_int \<lfloor>of_int p * d\<rfloor> + 1"
    "of_int n * d \<le> of_int \<lceil>of_int n * d\<rceil>" "of_int \<lceil>of_int n * d\<rceil> < of_int n * d + 1" by linarith+
  ultimately show "starts_within d p \<lfloor>of_int p * d\<rfloor>" "ends_within d p n \<lfloor>of_int p * d\<rfloor> \<lceil>of_int n * d\<rceil>"
    unfolding starts_within_def ends_within_def of_int_add by linarith+
qed

lemma axis_covered:
  "of_int (p + n) * d \<le> of_int (\<lfloor>of_int p * d\<rfloor> + \<lceil>of_int n * d\<rceil>) \<longleftrightarrow> frac (of_int p * d) \<le> of_int \<lceil>of_int n * d\<rceil> - of_int n * d"
proof -
  have "of_int (p + n) * d = of_int p * d + of_int n * d" by (simp add: distrib_right)
  then show ?thesis unfolding frac_def of_int_add by linarith
qed

definition covers :: "real \<Rightarrow> fx_rect \<Rightarrow> fx_rect \<Rightarrow> bool" where
  "covers d r R \<longleftrightarrow> (case (r, R) of ((x, y, w, h), (X, Y, W, H)) \<Rightarrow>
     of_int (x + w) * d \<le> of_int (X + W) \<and> of_int (y + h) * d \<le> of_int (Y + H))"

definition close_to :: "real \<Rightarrow> fx_rect \<Rightarrow> fx_rect \<Rightarrow> bool" where
  "close_to d r R \<longleftrightarrow> (case (r, R) of ((x, y, w, h), (X, Y, W, H)) \<Rightarrow>
     starts_within d x X \<and> starts_within d y Y \<and> ends_within d x w X W \<and> ends_within d y h Y H)"

text \<open>The remainder of the position fits into what the size was rounded up by.\<close>

definition remainder_fits :: "real \<Rightarrow> fx_rect \<Rightarrow> bool" where
  "remainder_fits d r \<longleftrightarrow> (case r of (x, y, w, h) \<Rightarrow>
     frac (of_int x * d) \<le> of_int \<lceil>of_int w * d\<rceil> - of_int w * d \<and> frac (of_int y * d) \<le> of_int \<lceil>of_int h * d\<rceil> - of_int h * d)"

text \<open>
  C38.  The region of a blur effect is published as one rectangle of device pixels for each of its rectangles, less than
  one pixel away from it at each side; but it covers the rectangle only if the remainder of the position fits into
  what the size was rounded up by.
\<close>

theorem blur_region_covers:
  assumes "fx_connected X" "fx_atom X (effect_name BlurBehind) = Some a" "list_all (fits_device (fx_ratio X)) region"
  shows "\<exists>ws. enableBlurBehind X win True region = [FxChange win a fx_cardinal ws] \<and>
    list_all2 (\<lambda>r R. close_to (fx_ratio X) r R \<and> (covers (fx_ratio X) r R \<longleftrightarrow> remainder_fits (fx_ratio X) r))
      region (fx_rects ws)"
proof (intro exI conjI)
  let ?d = "fx_ratio X"
  show "enableBlurBehind X win True region = [FxChange win a fx_cardinal (region_words ?d region)]"
    using assms(1,2) by (simp add: enableBlurBehind_def)
  have "close_to ?d r (device_rect ?d r) \<and> (covers ?d r (device_rect ?d r) \<longleftrightarrow> remainder_fits ?d r)" for r
    by (cases r) (simp add: close_to_def covers_def remainder_fits_def axis_within axis_covered [unfolded of_int_add])
  then show "list_all2 (\<lambda>r R. close_to ?d r R \<and> (covers ?d r R \<longleftrightarrow> remainder_fits ?d r)) region
      (fx_rects (region_words ?d region))"
    unfolding rects_of_region [OF assms(3)] by (simp add: list_all2_map2 list.rel_refl)
qed

definition sample_effects_env :: effects_env where
  "sample_effects_env = \<lparr>fx_composited = True, fx_connected = True, fx_atom = (\<lambda>_. Some 400), fx_root = Some [400],
     fx_ratio = 5 / 4, fx_matrix = (\<lambda>_ _ _. [])\<rparr>"

text \<open>With the ratio of 1.25 a rectangle from 3 to 7 ends at 8.75, and the published one at 8.\<close>

theorem blur_region_covers_witness:
  "\<exists>ws. enableBlurBehind sample_effects_env 42 True [(3, 0, 4, 4)] = [FxChange 42 400 fx_cardinal ws] \<and>
     \<not> covers (5 / 4) (3, 0, 4, 4) (hd (fx_rects ws))"
proof -
  have "\<lfloor>(15 / 4 :: real)\<rfloor> = 3" by (simp add: floor_eq_iff)
  then have "list_all (fits_device (fx_ratio sample_effects_env)) [(3, 0, 4, 4)]" "\<not> remainder_fits (5 / 4) (3, 0, 4, 4)"
    by (simp_all add: fits_device_def sample_effects_env_def remainder_fits_def frac_def)
  then show ?thesis
    using blur_region_covers [of sample_effects_env 400 "[(3, 0, 4, 4)]" 42]
    by (auto simp: sample_effects_env_def list_all2_Cons1)
qed

end
