(* ===== verification/StartupIds.thy ===== *)
theory StartupIds
  imports StartupInfo Timestamps Extras
begin

text \<open>
  Identifiers of startups (kstartupinfo.cpp): how they are made, the time of the user they carry, the environment of
  processes they travel in, and what a program does with its own.
\<close>

section \<open>The timestamp in an identifier\<close>

text \<open>What follows the last occurrence of a text (\<^verbatim>\<open>lastIndexOf\<close>).\<close>

fun after_last :: "string \<Rightarrow> string \<Rightarrow> string option" where
  "after_last pat [] = (if pat = [] then Some [] else None)"
| "after_last pat (c # cs) =
     (case after_last pat cs of Some r \<Rightarrow> Some r
      | None \<Rightarrow> if startsWith pat (c # cs) then Some (drop (length pat) (c # cs)) else None)"

definition id_timestamp :: "qt \<Rightarrow> string \<Rightarrow> 64 word" where
  "id_timestamp Q i =
     (if isNull i then 0
      else case after_last ''_TIME'' i of
        None \<Rightarrow> 0
      | Some rest \<Rightarrow>
          (case toULong Q (fromUtf8 Q rest) of
             Some n \<Rightarrow> word_of_int n
           | None \<Rightarrow>
               if rest \<noteq> [] \<and> hd rest = CHR ''-''
               then (case toLong Q (fromUtf8 Q rest) of Some n \<Rightarrow> word_of_int n | None \<Rightarrow> 0)
               else 0))"

text \<open>
  A new identifier: the name of the host, which is supposed to have no percent sign, the time in seconds and
  microseconds, the process, and the timestamp.
\<close>

record machine =
  m_host :: string
  m_seconds :: int
  m_microseconds :: int
  m_process :: int

definition createNewStartupIdForTimestamp :: "qt \<Rightarrow> machine \<Rightarrow> u32 \<Rightarrow> string" where
  "createNewStartupIdForTimestamp Q m timestamp =
     toUtf8 Q (fromUtf8 Q (m_host m) @ qs '';'' @ number Q (m_seconds m) @ qs '';'' @ number Q (m_microseconds m) @ qs '';'' @
       number Q (m_process m) @ qs ''_TIME'' @ number Q (uint timestamp))"

text \<open>\<open>server_time\<close> is the timestamp the X server gives, if the platform is X11.\<close>

definition createNewStartupId :: "qt \<Rightarrow> machine \<Rightarrow> u32 option \<Rightarrow> string" where
  "createNewStartupId Q m server_time =
     createNewStartupIdForTimestamp Q m (case server_time of Some t \<Rightarrow> t | None \<Rightarrow> 0)"

section \<open>The environment\<close>

text \<open>\<open>env\<close> is the variable \<^verbatim>\<open>DESKTOP_STARTUP_ID\<close>; \<open>put\<close> whether it can be set.\<close>

definition initId :: "qt \<Rightarrow> machine \<Rightarrow> u32 option \<Rightarrow> string option \<Rightarrow> string \<Rightarrow> string" where
  "initId Q m server_time env i =
     (if i \<noteq> [] then i
      else case env of
        Some (c # cs) \<Rightarrow> c # cs
      | _ \<Rightarrow> createNewStartupId Q m server_time)"

definition setupStartupEnv :: "bool \<Rightarrow> string \<Rightarrow> string option \<Rightarrow> string option \<times> bool" where
  "setupStartupEnv put i env = (if isNull i then (None, False) else (if put then Some i else env, put))"

definition resetStartupEnv :: "string option \<Rightarrow> string option" where
  "resetStartupEnv env = None"

section \<open>The startup of the program itself\<close>

record startup_app =
  sa_id :: string
  sa_user_time :: "64 word"
  sa_app_time :: "64 word"

text \<open>A time that is set if there is none, or an earlier one.\<close>

definition later_time :: "64 word \<Rightarrow> 64 word \<Rightarrow> 64 word" where
  "later_time timestamp old = (if old = 0 \<or> 0 < timestampCompare timestamp old then timestamp else old)"

definition app_setStartupId :: "qt \<Rightarrow> machine \<Rightarrow> bool \<Rightarrow> u32 option \<Rightarrow> string option \<Rightarrow> string \<Rightarrow> startup_app \<Rightarrow> startup_app" where
  "app_setStartupId Q m x11 server_time env startup_id a =
     (if startup_id = sa_id a then a
      else if startup_id = [] then a\<lparr>sa_id := ''0''\<rparr>
      else if \<not> x11 then a\<lparr>sa_id := startup_id\<rparr>
      else
        (let timestamp = id_timestamp Q (initId Q m server_time env startup_id)
         in if timestamp = 0 then a\<lparr>sa_id := startup_id\<rparr>
            else a\<lparr>sa_id := startup_id, sa_user_time := later_time timestamp (sa_user_time a),
                   sa_app_time := later_time timestamp (sa_app_time a)\<rparr>))"

text \<open>The end of a startup is announced if there is a display to announce it on.\<close>

definition appStarted_with ::
  "qt \<Rightarrow> machine \<Rightarrow> u32 option \<Rightarrow> string option \<Rightarrow> bool \<Rightarrow> (string \<Rightarrow> u32) \<Rightarrow> u32 list option \<Rightarrow> u32 \<Rightarrow> i32 \<Rightarrow> string \<Rightarrow> kx_effect list" where
  "appStarted_with Q m server_time env display intern conn win screen startup_id =
     (let i = initId Q m server_time env startup_id
      in if isNull i \<or> \<not> display then [] else snd (sendFinishXcb Q intern conn win screen i))"

definition appStarted ::
  "qt \<Rightarrow> machine \<Rightarrow> bool \<Rightarrow> u32 option \<Rightarrow> string option \<Rightarrow> bool \<Rightarrow> (string \<Rightarrow> u32) \<Rightarrow> u32 list option \<Rightarrow> u32 \<Rightarrow> i32 \<Rightarrow> string \<Rightarrow>
     startup_app \<Rightarrow> startup_app \<times> kx_effect list" where
  "appStarted Q m x11 server_time env display intern conn win screen next_id a =
     (let startup_id = (if sa_id a = [] then next_id else sa_id a)
      in (app_setStartupId Q m x11 server_time env ''0'' a,
          appStarted_with Q m server_time env (x11 \<and> display) intern conn win screen startup_id))"

definition setWindowStartupId :: "x_display \<Rightarrow> x_app \<Rightarrow> u32 \<Rightarrow> string \<Rightarrow> extras_effect list" where
  "setWindowStartupId X A win i = map XsWin (snd (setStartupId (xd_atoms X) (open_win X A win 0 0) (Some i)))"

text \<open>
  A window of the program is given the identifier if the window manager knows of startups; otherwise it is put on the
  current desktop and activated.  \<open>place\<close> is the geometry of the window.
\<close>

definition setNewStartupId ::
  "qt \<Rightarrow> machine \<Rightarrow> bool \<Rightarrow> u32 option \<Rightarrow> string option \<Rightarrow> x_display \<Rightarrow> x_app \<Rightarrow> int \<times> int \<times> int \<times> int \<Rightarrow> u32 \<Rightarrow> string \<Rightarrow>
     startup_app \<Rightarrow> extras \<Rightarrow> startup_app \<times> extras \<times> extras_effect list" where
  "setNewStartupId Q m x11 server_time env X A place win startup_id a s =
     (let b = app_setStartupId Q m x11 server_time env startup_id a;
          i = fst (new_root_client (xd_atoms X) (xd_server X) (xa_screens A) (prop_flag Supported) 0 (- 1) True)
      in if \<not> x11 then (b, s, [])
         else if startup_id \<noteq> [] \<and> startup_id \<noteq> ''0'' \<and> isSupported i (SupProp2 WM2StartupId)
         then (b, s, setWindowStartupId X A win startup_id)
         else
           (let (t, es, d) = extras_currentDesktop X A s;
                (u, fs) = setOnDesktop X A place win d t
            in (b, u, es @ fs @ forceActiveWindow X A win 0)))"

section \<open>Reading the timestamp back\<close>

text \<open>What is documented of the conversions: UTF-8 carries ASCII as it is, and numbers of 64 bits are read back.\<close>

definition utf8_ascii :: "qt \<Rightarrow> bool" where
  "utf8_ascii Q \<longleftrightarrow> (\<forall>a t. list_all (\<lambda>c. (of_char c :: nat) < 128) t \<longrightarrow>
     toUtf8 Q (a @ qs t) = toUtf8 Q a @ t \<and> fromUtf8 Q t = qs t)"

definition reads_numbers :: "qt \<Rightarrow> bool" where
  "reads_numbers Q \<longleftrightarrow> (\<forall>n. 0 \<le> n \<and> n < 2 ^ 64 \<longrightarrow> toULong Q (number Q n) = Some n)"

lemma numeric_text:
  assumes "list_all numeric u"
  obtains s where "u = qs s" "list_all (\<lambda>c. (of_char c :: nat) < 128) s" "CHR ''_'' \<notin> set s"
proof -
  have "\<exists>s. u = qs s \<and> set s \<subseteq> set ''-0123456789''"
    using assms
  proof (induction u)
    case (Cons v u)
    then obtain s where s: "u = qs s" "set s \<subseteq> set ''-0123456789''" by auto
    have "v \<in> set (qs ''-0123456789'')" using Cons.prems by (simp add: numeric_def)
    then obtain c where "c \<in> set ''-0123456789''" "v = qchar c" unfolding set_qs by (rule imageE)
    then show ?case using s by (intro exI [of _ "c # s"]) simp
  qed (simp add: exI [of _ "[]"])
  then obtain s where s: "u = qs s" "set s \<subseteq> set ''-0123456789''" by blast
  have "list_all (\<lambda>c. (of_char c :: nat) < 128 \<and> c \<noteq> CHR ''_'') ''-0123456789''" by simp
  then have "list_all (\<lambda>c. (of_char c :: nat) < 128 \<and> c \<noteq> CHR ''_'') s" using s(2) unfolding list_all_iff by blast
  then show thesis using that s(1) unfolding list_all_iff by blast
qed

lemma after_last_append:
  assumes "after_last pat t = Some r"
  shows "after_last pat (s @ t) = Some r"
  using assms by (induction s) simp_all

lemma after_last_none: "CHR ''_'' \<notin> set s \<Longrightarrow> after_last ''_TIME'' s = None"
  by (induction s) auto

lemma startsWith_self: "startsWith p (p @ s)"
  by (induction p) simp_all

lemma after_last_time: "CHR ''_'' \<notin> set s \<Longrightarrow> after_last ''_TIME'' (a @ ''_TIME'' @ s) = Some s"
  by (rule after_last_append) (simp add: after_last_none)

text \<open>
  The timestamp a new identifier is made for is the one that is read from it, whatever the machine and the time.
\<close>

theorem startup_id_timestamp:
  assumes "qt_ok Q" "utf8_ascii Q" "reads_numbers Q"
  shows "id_timestamp Q (createNewStartupIdForTimestamp Q m ts) = ucast ts"
proof -
  have "list_all numeric (number Q (uint ts))" using assms(1) by (simp add: qt_ok_def)
  then obtain s where s: "number Q (uint ts) = qs s" "list_all (\<lambda>c. (of_char c :: nat) < 128) s" "CHR ''_'' \<notin> set s"
    by (rule numeric_text)
  define front where "front = fromUtf8 Q (m_host m) @ qs '';'' @ number Q (m_seconds m) @ qs '';'' @
    number Q (m_microseconds m) @ qs '';'' @ number Q (m_process m)"
  have "createNewStartupIdForTimestamp Q m ts = toUtf8 Q (front @ qs (''_TIME'' @ s))"
    by (simp add: createNewStartupIdForTimestamp_def front_def s(1))
  also have "\<dots> = toUtf8 Q front @ ''_TIME'' @ s" using assms(2) s(2) by (simp add: utf8_ascii_def del: qs_simps)
  finally have i: "createNewStartupIdForTimestamp Q m ts = toUtf8 Q front @ ''_TIME'' @ s" .
  have u: "uint ts < 2 ^ 64" using uint_lt2p [of ts] by simp
  have "toULong Q (fromUtf8 Q s) = Some (uint ts)"
    using assms(2,3) s(1,2) u unfolding utf8_ascii_def reads_numbers_def by (metis uint_ge_0)
  moreover have "\<not> isNull (toUtf8 Q front @ ''_TIME'' @ s)"
    by (cases "toUtf8 Q front") (simp_all add: isNull_def)
  ultimately show ?thesis
    unfolding id_timestamp_def i after_last_time [OF s(3)] by (simp add: unsigned_ucast_eq)
qed

lemma sample_utf8_ascii: "utf8_ascii sample_qt"
  by (simp add: utf8_ascii_def sample_qt_def qs_def unat_qchar o_def)

lemma sample_reads_numbers: "reads_numbers sample_qt"
  by (simp add: reads_numbers_def sample_qt_def sample_number_ok(1))

theorem startup_id_timestamp_witness:
  "id_timestamp sample_qt (createNewStartupIdForTimestamp sample_qt
     \<lparr>m_host = ''a_TIME9'', m_seconds = 1700000000, m_microseconds = 5, m_process = 321\<rparr> 4294967295) = 4294967295"
  using startup_id_timestamp [OF qt_ok_sample sample_utf8_ascii sample_reads_numbers, of _ 4294967295] by simp

end
