(* ===== verification/WlEffects.thy ===== *)
theory WlEffects
  imports Effects
begin

text \<open>
  Effects of the window manager on Wayland (platforms/wayland/windoweffects.cpp): what a program asked for
  each of its windows is kept in maps, and is sent to the compositor whenever there is a surface to send it for.
  The state holds, beside the members of the class, what Qt keeps for it: event filters, connections,
  the child objects of windows and the objects that wait for their deferred deletion.
\<close>

section \<open>State\<close>

text \<open>
  What is outside of the class: which managers the compositor offers, the window of the platform a window has
  (if it has one), the surface of such a window (if there is one), and \<^verbatim>\<open>wl_fixed_from_double\<close>.
  Windows, windows of the platform, surfaces and proxies are numbers.
\<close>

record wl_env =
  wl_blur :: bool
  wl_contrast :: bool
  wl_slide :: bool
  wl_effect :: bool
  wl_supports :: bool
  wl_compositor :: bool
  wl_native :: "nat \<Rightarrow> nat option"
  wl_surface :: "nat \<Rightarrow> nat option"
  wl_exposed :: "nat \<Rightarrow> bool"
  wl_fixed :: "real \<Rightarrow> u32"

record contrast_data =
  cd_contrast :: real
  cd_intensity :: real
  cd_saturation :: real
  cd_region :: "fx_rect list"

definition default_contrast :: contrast_data where
  "default_contrast = \<lparr>cd_contrast = 1, cd_intensity = 1, cd_saturation = 1, cd_region = []\<rparr>"

record slide_data =
  sd_location :: slide_location
  sd_offset :: i32

datatype slide_edge = LocationLeft | LocationTop | LocationRight | LocationBottom

datatype wl_request =
    RegionCreate nat
  | RegionAdd nat fx_rect
  | RegionDestroy nat
  | BlurCreate nat nat
  | BlurSetRegion nat nat
  | BlurCommit nat
  | BlurUnset nat
  | ContrastCreate nat nat
  | ContrastSetRegion nat nat
  | ContrastSetContrast nat u32
  | ContrastSetIntensity nat u32
  | ContrastSetSaturation nat u32
  | ContrastCommit nat
  | ContrastUnset nat
  | SlideCreate nat nat
  | SlideSetLocation nat slide_edge
  | SlideSetOffset nat i32
  | SlideCommit nat
  | SlideUnset nat
  | EffectGet nat nat
  | EffectSetRegion nat "nat option"
  | EffectDestroy nat
  | ProxyRelease nat

text \<open>A connection has a sender: a window, or a window of the platform together with the window the handler is for.\<close>

datatype wl_sender = OfWindow nat | OfNative nat nat

record window_effects =
  we_blur_regions :: "nat \<rightharpoonup> fx_rect list"
  we_contrast_regions :: "nat \<rightharpoonup> contrast_data"
  we_slide_map :: "nat \<rightharpoonup> slide_data"
  we_window_watch :: "nat \<rightharpoonup> nat"
  we_surface_watch :: "nat \<rightharpoonup> nat"
  we_blurs :: "nat \<rightharpoonup> nat"
  we_contrasts :: "nat \<rightharpoonup> nat"
  we_effects :: "nat \<rightharpoonup> nat"
  we_filters :: "nat set"
  we_conns :: "nat \<rightharpoonup> wl_sender"
  we_children :: "(nat \<times> nat) list"
  we_doomed :: "nat list"
  we_next :: nat
  we_sent :: "wl_request list"

definition new_window_effects :: window_effects where
  "new_window_effects =
     \<lparr>we_blur_regions = Map.empty, we_contrast_regions = Map.empty, we_slide_map = Map.empty,
      we_window_watch = Map.empty, we_surface_watch = Map.empty, we_blurs = Map.empty, we_contrasts = Map.empty,
      we_effects = Map.empty, we_filters = {}, we_conns = Map.empty, we_children = [], we_doomed = [],
      we_next = 0, we_sent = []\<rparr>"

section \<open>What Qt does\<close>

definition wl_send :: "wl_request list \<Rightarrow> window_effects \<Rightarrow> window_effects" where
  "wl_send es s = s\<lparr>we_sent := we_sent s @ es\<rparr>"

text \<open>A new object whose parent is the window; its number is the next one.\<close>

definition wl_new_child :: "nat \<Rightarrow> window_effects \<Rightarrow> window_effects" where
  "wl_new_child w s = s\<lparr>we_children := we_children s @ [(we_next s, w)], we_next := Suc (we_next s)\<rparr>"

text \<open>\<^verbatim>\<open>deleteLater\<close> through a \<^verbatim>\<open>QPointer\<close>, which is null once its object is gone.\<close>

definition wl_delete_later :: "nat \<Rightarrow> window_effects \<Rightarrow> window_effects" where
  "wl_delete_later q s =
     (if q \<in> fst ` set (we_children s) \<and> q \<notin> set (we_doomed s) then s\<lparr>we_doomed := we_doomed s @ [q]\<rparr> else s)"

text \<open>The event loop runs the deferred deletions; the destructors release the proxies.\<close>

definition wl_deferred_delete :: "window_effects \<Rightarrow> window_effects" where
  "wl_deferred_delete s =
     wl_send (map ProxyRelease (we_doomed s))
       (s\<lparr>we_children := filter (\<lambda>(q, w). q \<notin> set (we_doomed s)) (we_children s), we_doomed := []\<rparr>)"

text \<open>A window that dies takes its children along, waiting for their deletion or not.\<close>

definition wl_delete_children :: "nat \<Rightarrow> window_effects \<Rightarrow> window_effects" where
  "wl_delete_children window s =
     (let mine = map fst (filter (\<lambda>(q, w). w = window) (we_children s)) in
      wl_send (map ProxyRelease mine)
        (s\<lparr>we_children := filter (\<lambda>(q, w). w \<noteq> window) (we_children s),
           we_doomed := filter (\<lambda>q. q \<notin> set mine) (we_doomed s)\<rparr>))"

definition wl_connect :: "wl_sender \<Rightarrow> window_effects \<Rightarrow> window_effects" where
  "wl_connect k s = s\<lparr>we_conns := (we_conns s)(we_next s \<mapsto> k), we_next := Suc (we_next s)\<rparr>"

definition wl_disconnect :: "nat \<Rightarrow> window_effects \<Rightarrow> window_effects" where
  "wl_disconnect c s = s\<lparr>we_conns := (we_conns s)(c := None)\<rparr>"

text \<open>
  \<^verbatim>\<open>surfaceForWindow\<close> of helpers.h.  The call of \<^verbatim>\<open>QWindow::create\<close> for old versions of Plasma
  changes nothing here, because the window has a window of the platform at that place.
\<close>

definition surfaceForWindow :: "wl_env \<Rightarrow> nat \<Rightarrow> nat option" where
  "surfaceForWindow E window =
     (case wl_native E window of None \<Rightarrow> None | Some native \<Rightarrow> wl_surface E native)"

definition createRegion :: "wl_env \<Rightarrow> fx_rect list \<Rightarrow> window_effects \<Rightarrow> nat option \<times> window_effects" where
  "createRegion E region s =
     (if \<not> wl_compositor E then (None, s)
      else (Some (we_next s),
            wl_send (RegionCreate (we_next s) # map (RegionAdd (we_next s)) region) (s\<lparr>we_next := Suc (we_next s)\<rparr>)))"

section \<open>The objects of the protocol\<close>

text \<open>\<^verbatim>\<open>replaceValue\<close>, once for each of the two maps it is used with.\<close>

definition replace_blur :: "nat \<Rightarrow> nat option \<Rightarrow> window_effects \<Rightarrow> window_effects" where
  "replace_blur key v s =
     (let s = (case we_blurs s key of None \<Rightarrow> s | Some old \<Rightarrow> wl_delete_later old (s\<lparr>we_blurs := (we_blurs s)(key := None)\<rparr>)) in
      case v of None \<Rightarrow> s | Some q \<Rightarrow> s\<lparr>we_blurs := (we_blurs s)(key \<mapsto> q)\<rparr>)"

definition replace_contrast :: "nat \<Rightarrow> nat option \<Rightarrow> window_effects \<Rightarrow> window_effects" where
  "replace_contrast key v s =
     (let s = (case we_contrasts s key of None \<Rightarrow> s
                 | Some old \<Rightarrow> wl_delete_later old (s\<lparr>we_contrasts := (we_contrasts s)(key := None)\<rparr>)) in
      case v of None \<Rightarrow> s | Some q \<Rightarrow> s\<lparr>we_contrasts := (we_contrasts s)(key \<mapsto> q)\<rparr>)"

text \<open>Erasing an entry of \<^verbatim>\<open>m_backgroundEffects\<close> destroys its object at once.\<close>

definition erase_effect :: "nat \<Rightarrow> window_effects \<Rightarrow> window_effects" where
  "erase_effect window s =
     (case we_effects s window of None \<Rightarrow> s
      | Some q \<Rightarrow> wl_send [EffectDestroy q] (s\<lparr>we_effects := (we_effects s)(window := None)\<rparr>))"

definition resetBlur :: "nat \<Rightarrow> nat option \<Rightarrow> window_effects \<Rightarrow> window_effects" where
  "resetBlur window blur s = replace_blur window blur (erase_effect window s)"

definition resetContrast :: "nat \<Rightarrow> nat option \<Rightarrow> window_effects \<Rightarrow> window_effects" where
  "resetContrast window contrast s = replace_contrast window contrast s"

section \<open>Installing\<close>

fun slide_edge_of :: "slide_location \<Rightarrow> slide_edge" where
  "slide_edge_of TopEdge = LocationTop"
| "slide_edge_of LeftEdge = LocationLeft"
| "slide_edge_of RightEdge = LocationRight"
| "slide_edge_of BottomEdge = LocationBottom"
| "slide_edge_of NoEdge = LocationBottom"

definition installSlide :: "wl_env \<Rightarrow> nat \<Rightarrow> slide_location \<Rightarrow> i32 \<Rightarrow> window_effects \<Rightarrow> window_effects" where
  "installSlide E window location offset s =
     (if \<not> wl_slide E then s
      else case surfaceForWindow E window of
        None \<Rightarrow> s
      | Some surface \<Rightarrow>
          if location \<noteq> NoEdge
          then let slide = we_next s in
            wl_send [SlideCreate surface slide, SlideSetLocation slide (slide_edge_of location),
                SlideSetOffset slide offset, SlideCommit slide] (wl_new_child window s)
          else wl_send [SlideUnset surface] s)"

text \<open>An empty region is the whole window for the newer protocol.\<close>

definition whole_window :: "fx_rect list" where
  "whole_window = [(- 1073741824, - 1073741824, 2147483647, 2147483647)]"

definition effect_of :: "nat \<Rightarrow> nat \<Rightarrow> window_effects \<Rightarrow> nat \<times> window_effects" where
  "effect_of window surface s =
     (case we_effects s window of
        Some effect \<Rightarrow> (effect, s)
      | None \<Rightarrow> (we_next s, wl_send [EffectGet surface (we_next s)]
          (s\<lparr>we_effects := (we_effects s)(window \<mapsto> we_next s), we_next := Suc (we_next s)\<rparr>)))"

definition install_effect :: "wl_env \<Rightarrow> nat \<Rightarrow> nat \<Rightarrow> bool \<Rightarrow> fx_rect list \<Rightarrow> window_effects \<Rightarrow> window_effects" where
  "install_effect E window surface enable region s =
     (let (effect, s) = effect_of window surface s;
          (wlRegion, s) = (if enable then createRegion E (if region = [] then whole_window else region) s else (None, s));
          s = wl_send [EffectSetRegion effect wlRegion] s
      in case wlRegion of None \<Rightarrow> s | Some g \<Rightarrow> wl_send [RegionDestroy g] s)"

definition installBlur :: "wl_env \<Rightarrow> nat \<Rightarrow> bool \<Rightarrow> fx_rect list \<Rightarrow> window_effects \<Rightarrow> window_effects" where
  "installBlur E window enable region s =
     (case surfaceForWindow E window of
        None \<Rightarrow> s
      | Some surface \<Rightarrow>
          if wl_effect E
          then let s = replace_blur window None s in
            if \<not> wl_supports E then s else install_effect E window surface enable region s
          else if \<not> wl_blur E then s
          else if enable
          then (case createRegion E region s of
              (None, s) \<Rightarrow> s
            | (Some g, s) \<Rightarrow> let blur = we_next s in
                resetBlur window (Some blur)
                  (wl_send [BlurCreate surface blur, BlurSetRegion blur g, BlurCommit blur, RegionDestroy g] (wl_new_child window s)))
          else wl_send [BlurUnset surface] (resetBlur window None s))"

definition installContrast :: "wl_env \<Rightarrow> nat \<Rightarrow> bool \<Rightarrow> contrast_data \<Rightarrow> window_effects \<Rightarrow> window_effects" where
  "installContrast E window enable d s =
     (if \<not> wl_contrast E then s
      else case surfaceForWindow E window of
        None \<Rightarrow> s
      | Some surface \<Rightarrow>
          if enable
          then (case createRegion E (cd_region d) s of
              (None, s) \<Rightarrow> s
            | (Some g, s) \<Rightarrow> let q = we_next s in
                resetContrast window (Some q)
                  (wl_send [ContrastCreate surface q, ContrastSetRegion q g, ContrastSetContrast q (wl_fixed E (cd_contrast d)),
                      ContrastSetIntensity q (wl_fixed E (cd_intensity d)),
                      ContrastSetSaturation q (wl_fixed E (cd_saturation d)), ContrastCommit q, RegionDestroy g]
                    (wl_new_child window s)))
          else wl_send [ContrastUnset surface] (resetContrast window None s))"

section \<open>Windows that are watched\<close>

definition trackWindow :: "wl_env \<Rightarrow> nat \<Rightarrow> window_effects \<Rightarrow> window_effects" where
  "trackWindow E window s =
     (let s = (case we_window_watch s window of
          Some c \<Rightarrow> s
        | None \<Rightarrow> wl_connect (OfWindow window)
            (s\<lparr>we_filters := insert window (we_filters s), we_window_watch := (we_window_watch s)(window \<mapsto> we_next s)\<rparr>))
      in case we_surface_watch s window of
          Some c \<Rightarrow> s
        | None \<Rightarrow> (case wl_native E window of
            None \<Rightarrow> s
          | Some native \<Rightarrow> wl_connect (OfNative native window)
              (s\<lparr>we_surface_watch := (we_surface_watch s)(window \<mapsto> we_next s)\<rparr>)))"

definition releaseWindow :: "nat \<Rightarrow> window_effects \<Rightarrow> window_effects" where
  "releaseWindow window s =
     (if we_blur_regions s window = None \<and> we_contrast_regions s window = None \<and> we_slide_map s window = None
      then let s = (case we_window_watch s window of None \<Rightarrow> s
                 | Some c \<Rightarrow> (wl_disconnect c s)\<lparr>we_window_watch := (we_window_watch s)(window := None)\<rparr>);
               s = (case we_surface_watch s window of None \<Rightarrow> s
                 | Some c \<Rightarrow> (wl_disconnect c s)\<lparr>we_surface_watch := (we_surface_watch s)(window := None)\<rparr>)
           in s\<lparr>we_filters := we_filters s - {window}\<rparr>
      else s)"

text \<open>The handlers of the two connections.\<close>

definition on_surface_destroyed :: "nat \<Rightarrow> window_effects \<Rightarrow> window_effects" where
  "on_surface_destroyed window s = resetContrast window None (resetBlur window None s)"

definition on_window_destroyed :: "nat \<Rightarrow> window_effects \<Rightarrow> window_effects" where
  "on_window_destroyed window s =
     (let s = resetBlur window None s;
          s = s\<lparr>we_blur_regions := (we_blur_regions s)(window := None)\<rparr>;
          s = resetContrast window None s
      in s\<lparr>we_contrast_regions := (we_contrast_regions s)(window := None),
           we_slide_map := (we_slide_map s)(window := None),
           we_window_watch := (we_window_watch s)(window := None),
           we_surface_watch := (we_surface_watch s)(window := None)\<rparr>)"

section \<open>What programs ask for\<close>

definition wl_isEffectAvailable :: "wl_env \<Rightarrow> effect \<Rightarrow> bool" where
  "wl_isEffectAvailable E f = (case f of
       BackgroundContrast \<Rightarrow> wl_contrast E
     | BlurBehind \<Rightarrow> if wl_effect E then wl_supports E else wl_blur E
     | Slide \<Rightarrow> wl_slide E)"

definition wl_slideWindow :: "wl_env \<Rightarrow> nat \<Rightarrow> slide_location \<Rightarrow> i32 \<Rightarrow> window_effects \<Rightarrow> window_effects" where
  "wl_slideWindow E window location offset s =
     (if location \<noteq> NoEdge
      then let s = trackWindow E window s; data = \<lparr>sd_location = location, sd_offset = offset\<rparr> in
        if we_slide_map s window = Some data then s
        else installSlide E window location offset (s\<lparr>we_slide_map := (we_slide_map s)(window \<mapsto> data)\<rparr>)
      else if we_slide_map s window = None then s
      else installSlide E window location offset
        (releaseWindow window (s\<lparr>we_slide_map := (we_slide_map s)(window := None)\<rparr>)))"

definition wl_enableBlurBehind :: "wl_env \<Rightarrow> nat \<Rightarrow> bool \<Rightarrow> fx_rect list \<Rightarrow> window_effects \<Rightarrow> window_effects" where
  "wl_enableBlurBehind E window enable region s =
     (if enable
      then let s = trackWindow E window s in
        if we_blur_regions s window = Some region then s
        else installBlur E window enable region (s\<lparr>we_blur_regions := (we_blur_regions s)(window \<mapsto> region)\<rparr>)
      else if we_blur_regions s window = None then s
      else installBlur E window enable region
        (releaseWindow window (resetBlur window None (s\<lparr>we_blur_regions := (we_blur_regions s)(window := None)\<rparr>))))"

definition wl_enableBackgroundContrast :: "wl_env \<Rightarrow> nat \<Rightarrow> bool \<Rightarrow> contrast_data \<Rightarrow> window_effects \<Rightarrow> window_effects" where
  "wl_enableBackgroundContrast E window enable d s =
     (if enable
      then let s = trackWindow E window s in
        if we_contrast_regions s window = Some d then s
        else installContrast E window enable d (s\<lparr>we_contrast_regions := (we_contrast_regions s)(window \<mapsto> d)\<rparr>)
      else if we_contrast_regions s window = None then s
      else installContrast E window enable d
        (releaseWindow window (resetContrast window None (s\<lparr>we_contrast_regions := (we_contrast_regions s)(window := None)\<rparr>))))"

section \<open>Events and signals\<close>

datatype wl_event = WlExpose | WlPlatformSurface bool | WlOtherEvent

definition wl_eventFilter :: "wl_env \<Rightarrow> nat \<Rightarrow> wl_event \<Rightarrow> window_effects \<Rightarrow> bool \<times> window_effects" where
  "wl_eventFilter E window event s = (case event of
       WlExpose \<Rightarrow>
         if \<not> wl_exposed E window then (False, s)
         else let s = (case we_blur_regions s window of None \<Rightarrow> s | Some region \<Rightarrow> installBlur E window True region s);
                  s = (case we_contrast_regions s window of None \<Rightarrow> s | Some d \<Rightarrow> installContrast E window True d s);
                  s = (case we_slide_map s window of None \<Rightarrow> s
                       | Some d \<Rightarrow> installSlide E window (sd_location d) (sd_offset d) s)
              in (False, s)
     | WlPlatformSurface surface_created \<Rightarrow>
         if \<not> surface_created then (False, s)
         else (case wl_native E window of
             None \<Rightarrow> (False, s)
           | Some native \<Rightarrow>
               let s = (case we_surface_watch s window of None \<Rightarrow> s | Some c \<Rightarrow> wl_disconnect c s)
               in (False, wl_connect (OfNative native window)
                     (s\<lparr>we_surface_watch := (we_surface_watch s)(window \<mapsto> we_next s)\<rparr>)))
     | WlOtherEvent \<Rightarrow> (False, s))"

text \<open>The lambdas of the constructor; a hash is walked through in the order the first argument gives.\<close>

definition on_blur_active :: "nat list \<Rightarrow> wl_env \<Rightarrow> window_effects \<Rightarrow> window_effects" where
  "on_blur_active keys E s =
     (if wl_effect E then s
      else fold (\<lambda>w s. case we_blur_regions s w of None \<Rightarrow> s | Some r \<Rightarrow> installBlur E w (wl_blur E) r s) keys s)"

definition on_contrast_active :: "nat list \<Rightarrow> wl_env \<Rightarrow> window_effects \<Rightarrow> window_effects" where
  "on_contrast_active keys E s =
     fold (\<lambda>w s. case we_contrast_regions s w of None \<Rightarrow> s
       | Some d \<Rightarrow> if wl_contrast E then installContrast E w True d s else installContrast E w False default_contrast s) keys s"

definition on_slide_active :: "nat list \<Rightarrow> wl_env \<Rightarrow> window_effects \<Rightarrow> window_effects" where
  "on_slide_active keys E s =
     fold (\<lambda>w s. case we_slide_map s w of None \<Rightarrow> s
       | Some d \<Rightarrow> if wl_slide E then installSlide E w (sd_location d) (sd_offset d) s else installSlide E w NoEdge 0 s) keys s"

definition on_effect_active :: "nat list \<Rightarrow> wl_env \<Rightarrow> window_effects \<Rightarrow> window_effects" where
  "on_effect_active keys E s = (if wl_effect E then s else fold erase_effect keys s)"

definition on_capabilities :: "nat list \<Rightarrow> wl_env \<Rightarrow> window_effects \<Rightarrow> window_effects" where
  "on_capabilities keys E s =
     fold (\<lambda>w s. case we_blur_regions s w of None \<Rightarrow> s | Some r \<Rightarrow> installBlur E w (wl_supports E) r s) keys s"

end
