(* ===== verification/WlTracking.thy ===== *)
theory WlTracking
  imports WlEffects
begin

text \<open>
  Which windows are watched: the relation of the maps of \<^verbatim>\<open>WindowEffects\<close> with the event filters and the
  connections, and the objects of the protocol the maps point to, in every state the program can reach.
\<close>

section \<open>Steps\<close>

text \<open>
  Signals of Qt call the handlers of the connections there are.  \<^verbatim>\<open>surfaceDestroyed\<close> of a window of the
  platform, the end of such a window, and the end of a window, whose window of the platform is gone before.
\<close>

definition fire_surface_destroyed :: "nat \<Rightarrow> window_effects \<Rightarrow> window_effects" where
  "fire_surface_destroyed native s =
     fold (\<lambda>c s. case we_conns s c of
         Some (OfNative n w) \<Rightarrow> if n = native then on_surface_destroyed w s else s
       | _ \<Rightarrow> s) [0..<we_next s] s"

definition drop_senders :: "(wl_sender \<Rightarrow> bool) \<Rightarrow> window_effects \<Rightarrow> window_effects" where
  "drop_senders P s = s\<lparr>we_conns := (\<lambda>c. case we_conns s c of None \<Rightarrow> None | Some k \<Rightarrow> if P k then None else Some k)\<rparr>"

fun sent_by_native :: "nat \<Rightarrow> wl_sender \<Rightarrow> bool" where
  "sent_by_native native (OfNative n w) = (n = native)"
| "sent_by_native native (OfWindow w) = False"

fun sent_by_window :: "nat \<Rightarrow> wl_sender \<Rightarrow> bool" where
  "sent_by_window window (OfWindow w) = (w = window)"
| "sent_by_window window (OfNative n w) = False"

definition window_dies :: "nat \<Rightarrow> window_effects \<Rightarrow> window_effects" where
  "window_dies window s =
     (let s = fold (\<lambda>c s. case we_conns s c of
           Some (OfWindow w) \<Rightarrow> if w = window then on_window_destroyed w s else s
         | _ \<Rightarrow> s) [0..<we_next s] s;
          s = drop_senders (sent_by_window window) s;
          s = wl_delete_children window s
      in s\<lparr>we_filters := we_filters s - {window}\<rparr>)"

text \<open>The surfaces the requests so far name.\<close>

fun request_surface :: "wl_request \<Rightarrow> nat option" where
  "request_surface (BlurCreate sf q) = Some sf"
| "request_surface (BlurUnset sf) = Some sf"
| "request_surface (ContrastCreate sf q) = Some sf"
| "request_surface (ContrastUnset sf) = Some sf"
| "request_surface (SlideCreate sf q) = Some sf"
| "request_surface (SlideUnset sf) = Some sf"
| "request_surface (EffectGet sf q) = Some sf"
| "request_surface _ = None"

definition fresh_surface :: "nat \<Rightarrow> wl_env \<Rightarrow> window_effects \<Rightarrow> bool" where
  "fresh_surface sf E s \<longleftrightarrow> (\<forall>n. wl_surface E n \<noteq> Some sf) \<and> Some sf \<notin> request_surface ` set (we_sent s)"

text \<open>
  What can happen: calls of the program, events and signals of Qt, and changes at the compositor.  A step that
  changes a manager is not a step of \<open>wl_step False\<close>, where the offer of the compositor stays as it is.
\<close>

inductive wl_step :: "bool \<Rightarrow> wl_env \<times> window_effects \<Rightarrow> wl_env \<times> window_effects \<Rightarrow> bool" for change :: bool where
  call_slide: "wl_step change (E, s) (E, wl_slideWindow E w location offset s)"
| call_blur: "wl_step change (E, s) (E, wl_enableBlurBehind E w enable region s)"
| call_contrast: "wl_step change (E, s) (E, wl_enableBackgroundContrast E w enable d s)"
| expose_event: "w \<in> we_filters s \<Longrightarrow> wl_step change (E, s) (E, snd (wl_eventFilter E w WlExpose s))"
| exposed_changes: "wl_step change (E, s) (E\<lparr>wl_exposed := x\<rparr>, s)"
| native_created:
    "wl_native E w = None \<Longrightarrow> \<forall>v. wl_native E v \<noteq> Some n \<Longrightarrow> wl_surface E n = None \<Longrightarrow>
     E' = E\<lparr>wl_native := (wl_native E)(w \<mapsto> n)\<rparr> \<Longrightarrow>
     s' = (if w \<in> we_filters s then snd (wl_eventFilter E' w (WlPlatformSurface True) s) else s) \<Longrightarrow>
     wl_step change (E, s) (E', s')"
| surface_created:
    "wl_native E w = Some n \<Longrightarrow> wl_surface E n = None \<Longrightarrow> fresh_surface sf E s \<Longrightarrow>
     wl_step change (E, s) (E\<lparr>wl_surface := (wl_surface E)(n \<mapsto> sf)\<rparr>, s)"
| surface_destroyed:
    "wl_step change (E, s) (E\<lparr>wl_surface := (wl_surface E)(n := None)\<rparr>, fire_surface_destroyed n s)"
| native_destroyed:
    "wl_native E w = Some n \<Longrightarrow> wl_surface E n = None \<Longrightarrow>
     wl_step change (E, s) (E\<lparr>wl_native := (wl_native E)(w := None)\<rparr>, drop_senders (sent_by_native n) s)"
| window_destroyed: "wl_native E w = None \<Longrightarrow> wl_step change (E, s) (E, window_dies w s)"
| deferred_delete: "wl_step change (E, s) (E, wl_deferred_delete s)"
| blur_manager: "change \<Longrightarrow> E' = E\<lparr>wl_blur := b\<rparr> \<Longrightarrow> wl_step change (E, s) (E', on_blur_active keys E' s)"
| contrast_manager: "change \<Longrightarrow> E' = E\<lparr>wl_contrast := b\<rparr> \<Longrightarrow> wl_step change (E, s) (E', on_contrast_active keys E' s)"
| slide_manager: "change \<Longrightarrow> E' = E\<lparr>wl_slide := b\<rparr> \<Longrightarrow> wl_step change (E, s) (E', on_slide_active keys E' s)"
| effect_manager: "change \<Longrightarrow> E' = E\<lparr>wl_effect := b\<rparr> \<Longrightarrow> wl_step change (E, s) (E', on_effect_active keys E' s)"
| capabilities: "change \<Longrightarrow> E' = E\<lparr>wl_supports := b\<rparr> \<Longrightarrow> wl_step change (E, s) (E', on_capabilities keys E' s)"

text \<open>At the start no window has a surface, and no window of the platform belongs to two windows.\<close>

definition wl_initial :: "wl_env \<Rightarrow> bool" where
  "wl_initial E \<longleftrightarrow> inj_on (wl_native E) (dom (wl_native E)) \<and> (\<forall>n. wl_surface E n = None)"

inductive wl_reachable :: "bool \<Rightarrow> wl_env \<Rightarrow> wl_env \<times> window_effects \<Rightarrow> bool" for change :: bool and E0 :: wl_env where
  wl_start: "wl_initial E0 \<Longrightarrow> wl_reachable change E0 (E0, new_window_effects)"
| wl_next: "wl_reachable change E0 c \<Longrightarrow> wl_step change c c' \<Longrightarrow> wl_reachable change E0 c'"

section \<open>What an operation leaves alone\<close>

text \<open>The part of the state that says which windows are watched and why.\<close>

definition we_core where
  "we_core s = (we_blur_regions s, we_contrast_regions s, we_slide_map s, we_window_watch s, we_surface_watch s,
     we_filters s, we_conns s)"

named_theorems core_simps "operations that leave the watched windows alone"

lemma core_basic [core_simps]:
  "we_core (wl_send es s) = we_core s"
  "we_core (wl_new_child w s) = we_core s"
  "we_core (wl_delete_later q s) = we_core s"
  "we_core (wl_deferred_delete s) = we_core s"
  "we_core (wl_delete_children w s) = we_core s"
  "we_core (s\<lparr>we_next := n\<rparr>) = we_core s"
  "we_core (s\<lparr>we_blurs := m\<rparr>) = we_core s"
  "we_core (s\<lparr>we_contrasts := m\<rparr>) = we_core s"
  "we_core (s\<lparr>we_effects := m\<rparr>) = we_core s"
  by (simp_all add: we_core_def wl_send_def wl_new_child_def wl_delete_later_def wl_deferred_delete_def
      wl_delete_children_def Let_def)

lemma core_objects [core_simps]:
  "we_core (snd (createRegion E r s)) = we_core s"
  "we_core (replace_blur w v s) = we_core s"
  "we_core (replace_contrast w v s) = we_core s"
  "we_core (erase_effect w s) = we_core s"
  "we_core (snd (effect_of w sf s)) = we_core s"
  by (simp_all add: createRegion_def replace_blur_def replace_contrast_def erase_effect_def effect_of_def core_simps
      Let_def split: option.split)

lemma core_createRegion: "createRegion E r s = (g, t) \<Longrightarrow> we_core t = we_core s"
  by (metis core_objects(1) snd_conv)

lemma core_effect_of: "effect_of w sf s = (q, t) \<Longrightarrow> we_core t = we_core s"
  by (metis core_objects(5) snd_conv)

lemma core_reset [core_simps]:
  "we_core (resetBlur w v s) = we_core s"
  "we_core (resetContrast w v s) = we_core s"
  "we_core (on_surface_destroyed w s) = we_core s"
  by (simp_all add: resetBlur_def resetContrast_def on_surface_destroyed_def core_simps)

lemma core_install_effect [core_simps]: "we_core (install_effect E w sf b r s) = we_core s"
  by (auto simp: install_effect_def Let_def core_simps split: prod.split option.split if_split_asm
      dest!: core_createRegion core_effect_of)

lemma core_install [core_simps]:
  "we_core (installSlide E w loc x s) = we_core s"
  "we_core (installBlur E w b r s) = we_core s"
  "we_core (installContrast E w b d s) = we_core s"
  by (auto simp: installSlide_def installBlur_def installContrast_def Let_def core_simps
      split: prod.split option.split dest!: core_createRegion)

lemma we_coreD:
  assumes "we_core t = we_core s"
  shows "we_blur_regions t = we_blur_regions s" "we_contrast_regions t = we_contrast_regions s"
    "we_slide_map t = we_slide_map s" "we_window_watch t = we_window_watch s" "we_surface_watch t = we_surface_watch s"
    "we_filters t = we_filters s" "we_conns t = we_conns s"
  using assms by (simp_all add: we_core_def)

lemmas install_frame [simp] =
  core_install(1) [THEN we_coreD(1)] core_install(1) [THEN we_coreD(2)] core_install(1) [THEN we_coreD(3)]
  core_install(2) [THEN we_coreD(1)] core_install(2) [THEN we_coreD(2)] core_install(2) [THEN we_coreD(3)]
  core_install(3) [THEN we_coreD(1)] core_install(3) [THEN we_coreD(2)] core_install(3) [THEN we_coreD(3)]

lemma core_fold: "(\<And>x s. we_core (f x s) = we_core s) \<Longrightarrow> we_core (fold f xs s) = we_core s"
  by (induction xs arbitrary: s) simp_all

lemma core_signals [core_simps]:
  "we_core (on_blur_active keys E s) = we_core s"
  "we_core (on_contrast_active keys E s) = we_core s"
  "we_core (on_slide_active keys E s) = we_core s"
  "we_core (on_effect_active keys E s) = we_core s"
  "we_core (on_capabilities keys E s) = we_core s"
  by (auto simp: on_blur_active_def on_contrast_active_def on_slide_active_def on_effect_active_def on_capabilities_def
      core_simps intro!: core_fold split: option.split)

lemma core_expose [core_simps]: "we_core (snd (wl_eventFilter E w WlExpose s)) = we_core s"
  by (simp add: wl_eventFilter_def Let_def core_simps split: option.split)

lemma core_fire [core_simps]: "we_core (fire_surface_destroyed n s) = we_core s"
  unfolding fire_surface_destroyed_def
  by (rule core_fold) (simp add: core_simps split: option.split wl_sender.split)

section \<open>Numbers are handed out upwards\<close>

named_theorems next_simps "operations hand out numbers upwards"

lemma next_basic [next_simps]:
  "we_next (wl_send es s) = we_next s"
  "we_next (wl_new_child w s) = Suc (we_next s)"
  "we_next (wl_delete_later q s) = we_next s"
  "we_next (wl_deferred_delete s) = we_next s"
  "we_next (wl_delete_children w s) = we_next s"
  "we_next (replace_blur w v s) = we_next s"
  "we_next (replace_contrast w v s) = we_next s"
  "we_next (erase_effect w s) = we_next s"
  "we_next (resetBlur w v s) = we_next s"
  "we_next (resetContrast w v s) = we_next s"
  "we_next (on_surface_destroyed w s) = we_next s"
  "we_next (on_window_destroyed w s) = we_next s"
  "we_next (drop_senders P s) = we_next s"
  by (simp_all add: wl_send_def wl_new_child_def wl_delete_later_def wl_deferred_delete_def wl_delete_children_def
      replace_blur_def replace_contrast_def erase_effect_def resetBlur_def resetContrast_def on_surface_destroyed_def
      on_window_destroyed_def drop_senders_def Let_def split: option.split)

lemma next_createRegion: "createRegion E r s = (g, t) \<Longrightarrow> we_next s \<le> we_next t"
  by (auto simp: createRegion_def next_simps split: if_splits)

lemma next_effect_of: "effect_of w sf s = (q, t) \<Longrightarrow> we_next s \<le> we_next t"
  by (auto simp: effect_of_def next_simps split: option.splits)

lemma next_install_effect [next_simps]: "we_next s \<le> we_next (install_effect E w sf b r s)"
  by (auto simp: install_effect_def Let_def next_simps split: prod.split option.split if_split_asm
      dest!: next_createRegion next_effect_of)

lemma next_installSlide [next_simps]: "we_next s \<le> we_next (installSlide E w loc x s)"
  by (simp add: installSlide_def Let_def next_simps split: option.split)

lemma next_installBlur [next_simps]: "we_next s \<le> we_next (installBlur E w b r s)"
  using next_install_effect [of "replace_blur w None s"]
  by (auto simp: installBlur_def Let_def next_simps split: prod.split option.split dest!: next_createRegion)

lemma next_installContrast [next_simps]: "we_next s \<le> we_next (installContrast E w b d s)"
  by (auto simp: installContrast_def Let_def next_simps split: prod.split option.split dest!: next_createRegion)

lemma next_fold: "(\<And>x s. we_next s \<le> we_next (f x s)) \<Longrightarrow> we_next s \<le> we_next (fold f xs s)"
  by (induction xs arbitrary: s) (simp, metis fold_simps(2) order_trans)

lemma next_signals [next_simps]:
  "we_next s \<le> we_next (on_blur_active keys E s)"
  "we_next s \<le> we_next (on_contrast_active keys E s)"
  "we_next s \<le> we_next (on_slide_active keys E s)"
  "we_next s \<le> we_next (on_effect_active keys E s)"
  "we_next s \<le> we_next (on_capabilities keys E s)"
  "we_next s \<le> we_next (fire_surface_destroyed n s)"
  by (auto simp: on_blur_active_def on_contrast_active_def on_slide_active_def on_effect_active_def on_capabilities_def
      fire_surface_destroyed_def next_simps intro!: next_fold split: option.split wl_sender.split)

lemma next_expose [next_simps]: "we_next s \<le> we_next (snd (wl_eventFilter E w WlExpose s))"
  unfolding wl_eventFilter_def Let_def
  by (auto split: option.split intro!: order_trans [OF _ next_installSlide] order_trans [OF _ next_installContrast]
      next_installBlur next_installContrast next_installSlide)

section \<open>Windows that are watched\<close>

text \<open>
  Event filters and connections are those of the watched windows: one to the window itself, and one to its window
  of the platform while it has one.
\<close>

definition watch_ok :: "wl_env \<Rightarrow> window_effects \<Rightarrow> bool" where
  "watch_ok E s \<longleftrightarrow>
     we_filters s = dom (we_window_watch s) \<and>
     (\<forall>c w. we_conns s c = Some (OfWindow w) \<longleftrightarrow> we_window_watch s w = Some c) \<and>
     (\<forall>c n w. we_conns s c = Some (OfNative n w) \<longleftrightarrow> we_surface_watch s w = Some c \<and> wl_native E w = Some n) \<and>
     (\<forall>w. we_window_watch s w \<noteq> None \<longrightarrow> wl_native E w \<noteq> None \<longrightarrow> we_surface_watch s w \<noteq> None) \<and>
     (\<forall>w. we_surface_watch s w \<noteq> None \<longrightarrow> we_window_watch s w \<noteq> None) \<and>
     (\<forall>w c k. we_surface_watch s w = Some c \<longrightarrow> we_conns s c = Some k \<longrightarrow> (\<exists>n. k = OfNative n w)) \<and>
     (\<forall>w c. we_window_watch s w = Some c \<longrightarrow> c < we_next s) \<and>
     (\<forall>w c. we_surface_watch s w = Some c \<longrightarrow> c < we_next s)"

definition wanted :: "window_effects \<Rightarrow> nat \<Rightarrow> bool" where
  "wanted s w \<longleftrightarrow> we_blur_regions s w \<noteq> None \<or> we_contrast_regions s w \<noteq> None \<or> we_slide_map s w \<noteq> None"

text \<open>While a call is on its way a window may be watched that is in none of the maps yet; afterwards none is.\<close>

definition tracking_ok :: "wl_env \<Rightarrow> window_effects \<Rightarrow> bool" where
  "tracking_ok E s \<longleftrightarrow> watch_ok E s \<and> (\<forall>w. we_window_watch s w \<noteq> None \<longleftrightarrow> wanted s w)"

lemma watch_core: "watch_ok E s \<Longrightarrow> we_core t = we_core s \<Longrightarrow> we_next s \<le> we_next t \<Longrightarrow> watch_ok E t"
  unfolding watch_ok_def we_core_def by (simp del: not_None_eq) (meson order_less_le_trans)

lemma wanted_core: "we_core t = we_core s \<Longrightarrow> wanted t = wanted s"
  by (simp add: we_core_def wanted_def fun_eq_iff)

lemma tracking_core: "tracking_ok E s \<Longrightarrow> we_core t = we_core s \<Longrightarrow> we_next s \<le> we_next t \<Longrightarrow> tracking_ok E t"
  unfolding tracking_ok_def by (metis watch_core wanted_core we_coreD(4))

lemma watch_okI:
  assumes "we_filters s = dom (we_window_watch s)"
    and "\<And>c w. we_conns s c = Some (OfWindow w) \<longleftrightarrow> we_window_watch s w = Some c"
    and "\<And>c n w. we_conns s c = Some (OfNative n w) \<longleftrightarrow> we_surface_watch s w = Some c \<and> wl_native E w = Some n"
    and "\<And>w c k. we_surface_watch s w = Some c \<Longrightarrow> we_conns s c = Some k \<Longrightarrow> \<exists>n. k = OfNative n w"
    and "\<And>w. we_window_watch s w \<noteq> None \<Longrightarrow> wl_native E w \<noteq> None \<Longrightarrow> we_surface_watch s w \<noteq> None"
    and "\<And>w. we_surface_watch s w \<noteq> None \<Longrightarrow> we_window_watch s w \<noteq> None"
    and "\<And>w c. we_window_watch s w = Some c \<or> we_surface_watch s w = Some c \<Longrightarrow> c < we_next s"
  shows "watch_ok E s"
  unfolding watch_ok_def using assms by blast

lemma watch_filters: "watch_ok E s \<Longrightarrow> we_filters s = dom (we_window_watch s)"
  and watch_conn: "watch_ok E s \<Longrightarrow> we_conns s c = Some (OfWindow w) \<longleftrightarrow> we_window_watch s w = Some c"
  and watch_native: "watch_ok E s \<Longrightarrow>
    we_conns s c = Some (OfNative n w) \<longleftrightarrow> we_surface_watch s w = Some c \<and> wl_native E w = Some n"
  and watch_kind: "watch_ok E s \<Longrightarrow> we_surface_watch s w = Some c \<Longrightarrow> we_conns s c = Some k \<Longrightarrow> \<exists>n. k = OfNative n w"
  and watch_has: "watch_ok E s \<Longrightarrow> we_window_watch s w \<noteq> None \<Longrightarrow> wl_native E w \<noteq> None \<Longrightarrow> we_surface_watch s w \<noteq> None"
  and watch_sub: "watch_ok E s \<Longrightarrow> we_surface_watch s w \<noteq> None \<Longrightarrow> we_window_watch s w \<noteq> None"
  and watch_less: "watch_ok E s \<Longrightarrow> we_window_watch s w = Some c \<or> we_surface_watch s w = Some c \<Longrightarrow> c < we_next s"
  unfolding watch_ok_def by blast+

lemma watch_fresh:
  assumes "watch_ok E s" "we_next s \<le> k"
  shows "we_conns s k = None" "we_window_watch s w \<noteq> Some k" "we_surface_watch s w \<noteq> Some k"
proof -
  show w: "we_window_watch s w \<noteq> Some k" and n: "we_surface_watch s w \<noteq> Some k" for w
    using assms unfolding watch_ok_def by (meson leD)+
  show "we_conns s k = None"
  proof (cases "we_conns s k")
    case (Some a)
    then show ?thesis using assms w n by (cases a) (auto simp: watch_ok_def)
  qed
qed

lemma watch_track:
  assumes ok: "watch_ok E s"
  shows "watch_ok E (trackWindow E w s)"
proof (cases "we_window_watch s w")
  case None
  then have "we_surface_watch s w = None" using ok unfolding watch_ok_def by blast
  then show ?thesis using None ok watch_fresh [OF ok, of "we_next s"] watch_fresh [OF ok, of "Suc (we_next s)"]
    by (auto simp: watch_ok_def trackWindow_def wl_connect_def Let_def less_Suc_eq split: option.split)
next
  case (Some c)
  then show ?thesis using ok watch_fresh [OF ok, of "we_next s"]
    by (auto simp: watch_ok_def trackWindow_def wl_connect_def Let_def less_Suc_eq split: option.split)
qed

lemma track_watches: "we_window_watch (trackWindow E w s) w \<noteq> None"
  by (simp add: trackWindow_def wl_connect_def Let_def split: option.split)

lemma track_frame [simp]:
  "we_blur_regions (trackWindow E w s) = we_blur_regions s"
  "we_contrast_regions (trackWindow E w s) = we_contrast_regions s"
  "we_slide_map (trackWindow E w s) = we_slide_map s"
  "v \<noteq> w \<Longrightarrow> we_window_watch (trackWindow E w s) v = we_window_watch s v"
  by (simp_all add: trackWindow_def wl_connect_def Let_def split: option.split)

text \<open>A watched window is forgotten together with all its connections.\<close>

lemma watch_forget:
  assumes ok: "watch_ok E s" and f: "we_filters t = we_filters s - {w}"
    and ww: "we_window_watch t = (we_window_watch s)(w := None)"
    and sw: "we_surface_watch t = (we_surface_watch s)(w := None)"
    and conns: "\<And>c k. we_conns t c = Some k \<longleftrightarrow> we_conns s c = Some k \<and> k \<noteq> OfWindow w \<and> (\<forall>n. k \<noteq> OfNative n w)"
    and n: "we_next s \<le> we_next t"
  shows "watch_ok E t"
proof (rule watch_okI)
  show "we_filters t = dom (we_window_watch t)" using watch_filters [OF ok] f ww by auto
  show "we_conns t c = Some (OfWindow v) \<longleftrightarrow> we_window_watch t v = Some c" for c v
    using watch_conn [OF ok, of c v] conns ww by auto
  show "we_conns t c = Some (OfNative n v) \<longleftrightarrow> we_surface_watch t v = Some c \<and> wl_native E v = Some n" for c n v
    using watch_native [OF ok, of c n v] conns sw by auto
  show "\<exists>n. k = OfNative n v" if "we_surface_watch t v = Some c" "we_conns t c = Some k" for v c k
    using that watch_kind [OF ok, of v c k] conns sw by (simp split: if_splits)
  show "we_surface_watch t v \<noteq> None" if "we_window_watch t v \<noteq> None" "wl_native E v \<noteq> None" for v
    using that watch_has [OF ok, of v] ww sw by (simp split: if_splits)
  show "we_window_watch t v \<noteq> None" if "we_surface_watch t v \<noteq> None" for v
    using that watch_sub [OF ok, of v] ww sw by (simp split: if_splits)
  show "c < we_next t" if "we_window_watch t v = Some c \<or> we_surface_watch t v = Some c" for v c
    using that watch_less [OF ok, of v c] ww sw n by (auto split: if_splits)
qed

lemma watch_unwatched: "watch_ok E s \<Longrightarrow> we_window_watch s w = None \<Longrightarrow> we_surface_watch s w = None"
  using watch_sub [of E s w] by blast

lemma watch_release:
  assumes ok: "watch_ok E s"
  shows "watch_ok E (releaseWindow w s)"
proof (cases "wanted s w")
  case True
  then show ?thesis using ok by (auto simp: releaseWindow_def wanted_def)
next
  case False
  then have free: "we_blur_regions s w = None" "we_contrast_regions s w = None" "we_slide_map s w = None"
    by (simp_all add: wanted_def)
  have conns: "we_conns (releaseWindow w s) c = (if we_window_watch s w = Some c \<or> we_surface_watch s w = Some c then None else we_conns s c)" for c
    using free by (simp add: releaseWindow_def wl_disconnect_def Let_def split: option.split)
  show ?thesis
  proof (rule watch_forget [OF ok, of _ w])
    fix c k
    show "we_conns (releaseWindow w s) c = Some k \<longleftrightarrow> we_conns s c = Some k \<and> k \<noteq> OfWindow w \<and> (\<forall>n. k \<noteq> OfNative n w)"
    proof (cases "we_window_watch s w = Some c \<or> we_surface_watch s w = Some c")
      case True
      then show ?thesis using watch_conn [OF ok, of c w] watch_kind [OF ok, of w c k] conns by auto
    next
      case False
      then have "we_conns s c \<noteq> Some (OfWindow w)" "we_conns s c \<noteq> Some (OfNative n w)" for n
        using watch_conn [OF ok, of c w] watch_native [OF ok, of c n w] by auto
      then show ?thesis using False conns by auto
    qed
  qed (use free in \<open>simp_all add: releaseWindow_def wl_disconnect_def Let_def fun_upd_idem split: option.split\<close>)
qed

lemma release_frame [simp]:
  "we_blur_regions (releaseWindow w s) = we_blur_regions s"
  "we_contrast_regions (releaseWindow w s) = we_contrast_regions s"
  "we_slide_map (releaseWindow w s) = we_slide_map s"
  "wanted (releaseWindow w s) = wanted s"
  "v \<noteq> w \<Longrightarrow> we_window_watch (releaseWindow w s) v = we_window_watch s v"
  "we_window_watch (releaseWindow w s) w = (if wanted s w then we_window_watch s w else None)"
  by (simp_all add: releaseWindow_def wl_disconnect_def Let_def wanted_def fun_eq_iff split: option.split)

text \<open>A map with one more entry for a watched window, and a map with one entry less before the release.\<close>

lemma tracking_insert:
  assumes "tracking_ok E s" "watch_ok E u" "we_window_watch u w \<noteq> None" "wanted u w"
    "\<And>v. v \<noteq> w \<Longrightarrow> we_window_watch u v = we_window_watch s v" "\<And>v. v \<noteq> w \<Longrightarrow> wanted u v = wanted s v"
  shows "tracking_ok E u"
proof -
  have "we_window_watch u v \<noteq> None \<longleftrightarrow> wanted u v" for v
    using assms by (cases "v = w") (auto simp: tracking_ok_def)
  then show ?thesis using assms(2) by (simp add: tracking_ok_def)
qed

lemma tracking_release:
  assumes ok: "tracking_ok E s" and eq: "\<And>v. v \<noteq> w \<Longrightarrow> wanted u v = wanted s v" and "watch_ok E u"
    and u: "we_window_watch u = we_window_watch s" and w: "we_window_watch s w \<noteq> None"
  shows "tracking_ok E (releaseWindow w u)"
proof -
  have "we_window_watch (releaseWindow w u) v \<noteq> None \<longleftrightarrow> wanted (releaseWindow w u) v" for v
  proof (cases "v = w")
    case True
    then show ?thesis using u w by simp
  next
    case False
    then show ?thesis using ok u eq by (simp add: tracking_ok_def)
  qed
  then show ?thesis using assms(3) by (simp add: tracking_ok_def watch_release)
qed

lemma watch_regions:
  "watch_ok E (s\<lparr>we_blur_regions := m\<rparr>) = watch_ok E s"
  "watch_ok E (s\<lparr>we_contrast_regions := m'\<rparr>) = watch_ok E s"
  "watch_ok E (s\<lparr>we_slide_map := m''\<rparr>) = watch_ok E s"
  by (simp_all add: watch_ok_def)

lemma watch_reset: "watch_ok E s \<Longrightarrow> watch_ok E (resetBlur w v s)" "watch_ok E s \<Longrightarrow> watch_ok E (resetContrast w v s)"
  by (erule watch_core; simp add: core_simps next_simps)+

lemma tracking_watch: "tracking_ok E s \<Longrightarrow> watch_ok E s"
  by (simp add: tracking_ok_def)

lemma track_wanted: "wanted (trackWindow E w s) = wanted s"
  by (simp add: wanted_def fun_eq_iff)

lemma tracking_again: "tracking_ok E s \<Longrightarrow> wanted s w \<Longrightarrow> tracking_ok E (trackWindow E w s)"
  by (rule tracking_insert [where w = w]) (simp_all add: watch_track tracking_watch track_watches track_wanted del: not_None_eq)

lemma tracking_slide: "tracking_ok E s \<Longrightarrow> tracking_ok E (wl_slideWindow E w loc x s)"
proof (cases "loc = NoEdge")
  case False
  assume ok: "tracking_ok E s"
  let ?d = "\<lparr>sd_location = loc, sd_offset = x\<rparr>"
  let ?u = "(trackWindow E w s)\<lparr>we_slide_map := (we_slide_map s)(w \<mapsto> ?d)\<rparr>"
  have "tracking_ok E ?u"
    by (rule tracking_insert [where w = w, OF ok])
      (simp_all add: watch_regions watch_track tracking_watch [OF ok] track_watches wanted_def del: not_None_eq)
  then have "tracking_ok E (installSlide E w loc x ?u)" by (rule tracking_core [OF _ core_install(1) next_installSlide])
  moreover have "tracking_ok E (trackWindow E w s)" if "we_slide_map s w = Some ?d"
    using that by (intro tracking_again [OF ok]) (simp add: wanted_def)
  ultimately show ?thesis using False by (simp add: wl_slideWindow_def Let_def)
next
  case True
  assume ok: "tracking_ok E s"
  show ?thesis
  proof (cases "we_slide_map s w")
    case None
    then show ?thesis using True ok by (simp add: wl_slideWindow_def)
  next
    case (Some d)
    let ?u = "s\<lparr>we_slide_map := (we_slide_map s)(w := None)\<rparr>"
    have "we_window_watch s w \<noteq> None" using Some ok by (simp add: tracking_ok_def wanted_def)
    then have "tracking_ok E (releaseWindow w ?u)"
      by (intro tracking_release [OF ok]) (auto simp: wanted_def watch_regions tracking_watch [OF ok])
    then have "tracking_ok E (installSlide E w loc x (releaseWindow w ?u))"
      by (rule tracking_core [OF _ core_install(1) next_installSlide])
    then show ?thesis using True Some by (simp add: wl_slideWindow_def)
  qed
qed

lemma tracking_blur: "tracking_ok E s \<Longrightarrow> tracking_ok E (wl_enableBlurBehind E w b r s)"
proof (cases b)
  case True
  assume ok: "tracking_ok E s"
  let ?u = "(trackWindow E w s)\<lparr>we_blur_regions := (we_blur_regions s)(w \<mapsto> r)\<rparr>"
  have "tracking_ok E ?u"
    by (rule tracking_insert [where w = w, OF ok])
      (simp_all add: watch_regions watch_track tracking_watch [OF ok] track_watches wanted_def del: not_None_eq)
  then have "tracking_ok E (installBlur E w b r ?u)" by (rule tracking_core [OF _ core_install(2) next_installBlur])
  moreover have "tracking_ok E (trackWindow E w s)" if "we_blur_regions s w = Some r"
    using that by (intro tracking_again [OF ok]) (simp add: wanted_def)
  ultimately show ?thesis using True by (simp add: wl_enableBlurBehind_def Let_def)
next
  case False
  assume ok: "tracking_ok E s"
  show ?thesis
  proof (cases "we_blur_regions s w")
    case None
    then show ?thesis using False ok by (simp add: wl_enableBlurBehind_def)
  next
    case (Some d)
    let ?u = "resetBlur w None (s\<lparr>we_blur_regions := (we_blur_regions s)(w := None)\<rparr>)"
    have "we_window_watch s w \<noteq> None" using Some ok by (simp add: tracking_ok_def wanted_def)
    then have "tracking_ok E (releaseWindow w ?u)"
      by (intro tracking_release [OF ok])
        (auto simp: wanted_def watch_regions watch_reset tracking_watch [OF ok] we_coreD [OF core_reset(1)])
    then have "tracking_ok E (installBlur E w b r (releaseWindow w ?u))"
      by (rule tracking_core [OF _ core_install(2) next_installBlur])
    then show ?thesis using False Some by (simp add: wl_enableBlurBehind_def)
  qed
qed

lemma tracking_contrast: "tracking_ok E s \<Longrightarrow> tracking_ok E (wl_enableBackgroundContrast E w b r s)"
proof (cases b)
  case True
  assume ok: "tracking_ok E s"
  let ?u = "(trackWindow E w s)\<lparr>we_contrast_regions := (we_contrast_regions s)(w \<mapsto> r)\<rparr>"
  have "tracking_ok E ?u"
    by (rule tracking_insert [where w = w, OF ok])
      (simp_all add: watch_regions watch_track tracking_watch [OF ok] track_watches wanted_def del: not_None_eq)
  then have "tracking_ok E (installContrast E w b r ?u)" by (rule tracking_core [OF _ core_install(3) next_installContrast])
  moreover have "tracking_ok E (trackWindow E w s)" if "we_contrast_regions s w = Some r"
    using that by (intro tracking_again [OF ok]) (simp add: wanted_def)
  ultimately show ?thesis using True by (simp add: wl_enableBackgroundContrast_def Let_def)
next
  case False
  assume ok: "tracking_ok E s"
  show ?thesis
  proof (cases "we_contrast_regions s w")
    case None
    then show ?thesis using False ok by (simp add: wl_enableBackgroundContrast_def)
  next
    case (Some d)
    let ?u = "resetContrast w None (s\<lparr>we_contrast_regions := (we_contrast_regions s)(w := None)\<rparr>)"
    have "we_window_watch s w \<noteq> None" using Some ok by (simp add: tracking_ok_def wanted_def)
    then have "tracking_ok E (releaseWindow w ?u)"
      by (intro tracking_release [OF ok])
        (auto simp: wanted_def watch_regions watch_reset tracking_watch [OF ok] we_coreD [OF core_reset(2)])
    then have "tracking_ok E (installContrast E w b r (releaseWindow w ?u))"
      by (rule tracking_core [OF _ core_install(3) next_installContrast])
    then show ?thesis using False Some by (simp add: wl_enableBackgroundContrast_def)
  qed
qed

section \<open>Windows of the platform and windows that come and go\<close>

lemma watch_env: "wl_native E' = wl_native E \<Longrightarrow> watch_ok E' s = watch_ok E s"
  by (simp add: watch_ok_def)

lemma tracking_env: "wl_native E' = wl_native E \<Longrightarrow> tracking_ok E' s = tracking_ok E s"
  by (simp add: tracking_ok_def watch_ok_def)

lemma watch_native_created:
  assumes ok: "watch_ok E s" and free: "wl_native E w = None" and w: "we_window_watch s w \<noteq> None"
  shows "watch_ok (E\<lparr>wl_native := (wl_native E)(w \<mapsto> n)\<rparr>)
    (wl_connect (OfNative n w) (s\<lparr>we_surface_watch := (we_surface_watch s)(w \<mapsto> we_next s)\<rparr>))"
    (is "watch_ok ?E ?t")
proof (rule watch_okI)
  note new = watch_fresh [OF ok order_refl]
  show "we_filters ?t = dom (we_window_watch ?t)" using watch_filters [OF ok] by (simp add: wl_connect_def)
  show "we_conns ?t c = Some (OfWindow v) \<longleftrightarrow> we_window_watch ?t v = Some c" for c v
    using watch_conn [OF ok, of c v] new by (auto simp: wl_connect_def)
  show "we_conns ?t c = Some (OfNative m v) \<longleftrightarrow> we_surface_watch ?t v = Some c \<and> wl_native ?E v = Some m" for c m v
    using watch_native [OF ok, of c m v] free new by (auto simp: wl_connect_def)
  show "\<exists>m. k = OfNative m v" if "we_surface_watch ?t v = Some c" "we_conns ?t c = Some k" for v c k
    using that watch_kind [OF ok, of v c k] new by (auto simp: wl_connect_def split: if_splits)
  show "we_surface_watch ?t v \<noteq> None" if "we_window_watch ?t v \<noteq> None" "wl_native ?E v \<noteq> None" for v
    using that watch_has [OF ok, of v] by (auto simp: wl_connect_def split: if_splits)
  show "we_window_watch ?t v \<noteq> None" if "we_surface_watch ?t v \<noteq> None" for v
    using that watch_sub [OF ok, of v] w by (auto simp: wl_connect_def split: if_splits)
  show "c < we_next ?t" if "we_window_watch ?t v = Some c \<or> we_surface_watch ?t v = Some c" for v c
    using that watch_less [OF ok, of v c] by (auto simp: wl_connect_def split: if_splits)
qed

lemma watch_old_connection:
  assumes ok: "watch_ok E s" and "wl_native E w = None" "we_surface_watch s w = Some c"
  shows "we_conns s c = None"
proof (rule ccontr)
  assume "we_conns s c \<noteq> None"
  then obtain k where k: "we_conns s c = Some k" by auto
  then obtain m where "k = OfNative m w" using watch_kind [OF ok assms(3)] by blast
  then show False using k assms watch_native [OF ok, of c m w] by simp
qed

lemma tracking_native_created:
  assumes ok: "tracking_ok E s" and free: "wl_native E w = None"
    and E': "E' = E\<lparr>wl_native := (wl_native E)(w \<mapsto> n)\<rparr>"
  shows "tracking_ok E' (if w \<in> we_filters s then snd (wl_eventFilter E' w (WlPlatformSurface True) s) else s)"
proof (cases "we_window_watch s w = None")
  case True
  have "we_surface_watch s w = None" by (rule watch_unwatched [OF tracking_watch [OF ok] True])
  then have "watch_ok E' s" using True free tracking_watch [OF ok] unfolding watch_ok_def E' by auto
  then show ?thesis using True ok watch_filters [OF tracking_watch [OF ok]] by (simp add: tracking_ok_def domIff)
next
  case False
  have ok': "watch_ok E s" by (rule tracking_watch [OF ok])
  let ?t = "wl_connect (OfNative n w) (s\<lparr>we_surface_watch := (we_surface_watch s)(w \<mapsto> we_next s)\<rparr>)"
  have "snd (wl_eventFilter E' w (WlPlatformSurface True) s) = ?t"
    using watch_old_connection [OF ok' free]
    by (simp add: wl_eventFilter_def Let_def E' wl_disconnect_def fun_upd_idem split: option.split)
  moreover have "w \<in> we_filters s" using False watch_filters [OF ok'] by auto
  moreover have "we_window_watch ?t = we_window_watch s" "wanted ?t = wanted s"
    by (simp_all add: wl_connect_def wanted_def fun_eq_iff)
  moreover have "watch_ok E' ?t" unfolding E' by (rule watch_native_created [OF ok' free False])
  ultimately show ?thesis using ok by (simp add: tracking_ok_def)
qed

lemma drop_senders_frame [simp]:
  "we_core (drop_senders P s) = (we_blur_regions s, we_contrast_regions s, we_slide_map s, we_window_watch s,
     we_surface_watch s, we_filters s, we_conns (drop_senders P s))"
  "we_window_watch (drop_senders P s) = we_window_watch s"
  "we_surface_watch (drop_senders P s) = we_surface_watch s"
  "we_filters (drop_senders P s) = we_filters s"
  "wanted (drop_senders P s) = wanted s"
  by (simp_all add: drop_senders_def we_core_def wanted_def fun_eq_iff)

lemma drop_senders_conns: "we_conns (drop_senders P s) c = Some k \<longleftrightarrow> we_conns s c = Some k \<and> \<not> P k"
  by (auto simp: drop_senders_def split: option.split)

lemma tracking_native_destroyed:
  assumes ok: "tracking_ok E s" and n: "wl_native E w = Some n" and inj: "inj_on (wl_native E) (dom (wl_native E))"
  shows "tracking_ok (E\<lparr>wl_native := (wl_native E)(w := None)\<rparr>) (drop_senders (sent_by_native n) s)"
    (is "tracking_ok ?E ?t")
proof -
  have ok': "watch_ok E s" by (rule tracking_watch [OF ok])
  have only: "v = w \<longleftrightarrow> m = n" if "wl_native E v = Some m" for v m using that n inj by (auto simp: inj_on_def dom_def)
  have "watch_ok ?E ?t"
  proof (rule watch_okI)
    show "we_filters ?t = dom (we_window_watch ?t)" using watch_filters [OF ok'] by simp
    show "we_conns ?t c = Some (OfWindow v) \<longleftrightarrow> we_window_watch ?t v = Some c" for c v
      using watch_conn [OF ok', of c v] by (simp add: drop_senders_conns)
    show "we_conns ?t c = Some (OfNative m v) \<longleftrightarrow> we_surface_watch ?t v = Some c \<and> wl_native ?E v = Some m" for c m v
      using watch_native [OF ok', of c m v] only [of v m] by (auto simp: drop_senders_conns)
    show "\<exists>m. k = OfNative m v" if "we_surface_watch ?t v = Some c" "we_conns ?t c = Some k" for v c k
      using that watch_kind [OF ok', of v c k] by (simp add: drop_senders_conns)
    show "we_surface_watch ?t v \<noteq> None" if "we_window_watch ?t v \<noteq> None" "wl_native ?E v \<noteq> None" for v
      using that watch_has [OF ok', of v] by (simp split: if_splits)
    show "we_window_watch ?t v \<noteq> None" if "we_surface_watch ?t v \<noteq> None" for v
      using that watch_sub [OF ok', of v] by simp
    show "c < we_next ?t" if "we_window_watch ?t v = Some c \<or> we_surface_watch ?t v = Some c" for v c
      using that watch_less [OF ok', of v c] by (simp add: next_simps)
  qed
  then show ?thesis using ok by (simp add: tracking_ok_def)
qed

text \<open>The handler for the end of a window, called once or several times.\<close>

lemma window_destroyed_frame [simp]:
  "we_conns (on_window_destroyed w s) = we_conns s"
  "we_filters (on_window_destroyed w s) = we_filters s"
  "we_blur_regions (on_window_destroyed w s) = (we_blur_regions s)(w := None)"
  "we_contrast_regions (on_window_destroyed w s) = (we_contrast_regions s)(w := None)"
  "we_slide_map (on_window_destroyed w s) = (we_slide_map s)(w := None)"
  "we_window_watch (on_window_destroyed w s) = (we_window_watch s)(w := None)"
  "we_surface_watch (on_window_destroyed w s) = (we_surface_watch s)(w := None)"
  by (simp_all add: on_window_destroyed_def Let_def we_coreD [OF core_reset(1)] we_coreD [OF core_reset(2)])

lemma replace_objects [simp]:
  "we_blurs (replace_blur w v s) = (we_blurs s)(w := v)"
  "we_contrasts (replace_blur w v s) = we_contrasts s"
  "we_effects (replace_blur w v s) = we_effects s"
  "we_blurs (replace_contrast w v s) = we_blurs s"
  "we_contrasts (replace_contrast w v s) = (we_contrasts s)(w := v)"
  "we_effects (replace_contrast w v s) = we_effects s"
  "we_blurs (erase_effect w s) = we_blurs s"
  "we_contrasts (erase_effect w s) = we_contrasts s"
  "we_effects (erase_effect w s) = (we_effects s)(w := None)"
  by (auto simp: replace_blur_def replace_contrast_def erase_effect_def wl_delete_later_def wl_send_def Let_def fun_eq_iff
      split: option.split)

lemma reset_objects [simp]:
  "we_blurs (resetBlur w v s) = (we_blurs s)(w := v)"
  "we_contrasts (resetBlur w v s) = we_contrasts s"
  "we_effects (resetBlur w v s) = (we_effects s)(w := None)"
  "we_blurs (resetContrast w v s) = we_blurs s"
  "we_contrasts (resetContrast w v s) = (we_contrasts s)(w := v)"
  "we_effects (resetContrast w v s) = we_effects s"
  by (simp_all add: resetBlur_def resetContrast_def)

lemma window_destroyed_objects [simp]:
  "we_blurs (on_window_destroyed w s) = (we_blurs s)(w := None)"
  "we_contrasts (on_window_destroyed w s) = (we_contrasts s)(w := None)"
  "we_effects (on_window_destroyed w s) = (we_effects s)(w := None)"
  by (simp_all add: on_window_destroyed_def Let_def)

lemma reset_idle:
  "we_blurs s w = None \<Longrightarrow> we_effects s w = None \<Longrightarrow> resetBlur w None s = s"
  "we_contrasts s w = None \<Longrightarrow> resetContrast w None s = s"
  by (simp_all add: resetBlur_def resetContrast_def replace_blur_def replace_contrast_def erase_effect_def)

lemma window_destroyed_idle:
  assumes "we_blurs s w = None" "we_contrasts s w = None" "we_effects s w = None" "we_blur_regions s w = None"
    "we_contrast_regions s w = None" "we_slide_map s w = None" "we_window_watch s w = None" "we_surface_watch s w = None"
  shows "on_window_destroyed w s = s"
proof -
  have "resetBlur w None s = s" by (rule reset_idle) (use assms in simp_all)
  moreover have "s\<lparr>we_blur_regions := (we_blur_regions s)(w := None)\<rparr> = s" using assms by (simp add: fun_upd_idem)
  moreover have "resetContrast w None s = s" by (rule reset_idle) (use assms in simp_all)
  ultimately show ?thesis using assms by (simp add: on_window_destroyed_def Let_def fun_upd_idem)
qed

lemma window_destroyed_twice: "on_window_destroyed w (on_window_destroyed w s) = on_window_destroyed w s"
  by (rule window_destroyed_idle) simp_all

lemma window_handlers:
  assumes "\<And>c. we_conns s c = K c"
  shows "fold (\<lambda>c s. case we_conns s c of
      Some (OfWindow w') \<Rightarrow> if w' = w then on_window_destroyed w' s else s | _ \<Rightarrow> s) cs s =
    (if \<exists>c \<in> set cs. K c = Some (OfWindow w) then on_window_destroyed w s else s)"
  using assms
proof (induction cs arbitrary: s)
  case (Cons c cs)
  then show ?case
    by (auto simp: window_destroyed_twice split: option.split wl_sender.split)
qed simp

lemma window_dies_tracked:
  assumes ok: "watch_ok E s" and w: "we_window_watch s w = Some c"
  shows "window_dies w s =
    (wl_delete_children w (drop_senders (sent_by_window w) (on_window_destroyed w s)))\<lparr>we_filters := we_filters s - {w}\<rparr>"
proof -
  have "c \<in> set [0..<we_next s]" "we_conns s c = Some (OfWindow w)"
    using watch_less [OF ok, of w c] watch_conn [OF ok, of c w] w by auto
  then have "\<exists>c \<in> set [0..<we_next s]. we_conns s c = Some (OfWindow w)" by blast
  then have handlers: "fold (\<lambda>c s. case we_conns s c of
      Some (OfWindow w') \<Rightarrow> if w' = w then on_window_destroyed w' s else s | _ \<Rightarrow> s) [0..<we_next s] s = on_window_destroyed w s"
    by (subst window_handlers [where K = "we_conns s"]) simp_all
  have "we_filters (wl_delete_children w (drop_senders P t)) = we_filters t" for P t
    using we_coreD(6) [OF core_basic(5)] by simp
  then show ?thesis unfolding window_dies_def handlers by (simp add: Let_def)
qed

lemma tracking_window_dies:
  assumes ok: "tracking_ok E s" and "wl_native E w = None"
  shows "tracking_ok E (window_dies w s)"
proof -
  have ok': "watch_ok E s" by (rule tracking_watch [OF ok])
  show ?thesis
  proof (cases "we_window_watch s w")
    case (Some c)
    let ?u = "on_window_destroyed w s"
    let ?t = "(wl_delete_children w (drop_senders (sent_by_window w) ?u))\<lparr>we_filters := we_filters s - {w}\<rparr>"
    have core: "we_core (wl_delete_children w (drop_senders P t)) = we_core (drop_senders P t)" for P t
      by (rule core_basic(5))
    have t: "we_window_watch ?t = (we_window_watch s)(w := None)" "we_surface_watch ?t = (we_surface_watch s)(w := None)"
      "we_blur_regions ?t = (we_blur_regions s)(w := None)" "we_contrast_regions ?t = (we_contrast_regions s)(w := None)"
      "we_slide_map ?t = (we_slide_map s)(w := None)" "we_conns ?t = we_conns (drop_senders (sent_by_window w) ?u)"
      using we_coreD [OF core, of "sent_by_window w" ?u] by (simp_all add: drop_senders_def)
    have no_native: "we_conns s c \<noteq> Some (OfNative n w)" for c n
      using watch_native [OF ok', of c n w] assms(2) by simp
    have "watch_ok E ?t"
    proof (rule watch_forget [OF ok', of _ w])
      fix c k
      show "we_conns ?t c = Some k \<longleftrightarrow> we_conns s c = Some k \<and> k \<noteq> OfWindow w \<and> (\<forall>n. k \<noteq> OfNative n w)"
        unfolding t(6) drop_senders_conns using no_native by (cases k) auto
    qed (simp_all only: t, simp_all add: next_simps)
    moreover have "we_window_watch ?t v \<noteq> None \<longleftrightarrow> wanted ?t v" for v
      unfolding wanted_def t using ok by (cases "v = w") (simp_all add: tracking_ok_def wanted_def)
    ultimately show ?thesis unfolding window_dies_tracked [OF ok' Some] tracking_ok_def by blast
  next
    case None
    then have "\<not> (\<exists>c \<in> set [0..<we_next s]. we_conns s c = Some (OfWindow w))" using watch_conn [OF ok'] by auto
    then have handlers: "fold (\<lambda>c s. case we_conns s c of
        Some (OfWindow w') \<Rightarrow> if w' = w then on_window_destroyed w' s else s | _ \<Rightarrow> s) [0..<we_next s] s = s"
      by (subst window_handlers [where K = "we_conns s"]) simp_all
    have "\<not> sent_by_window w k" if "we_conns s c = Some k" for c k
      using that None watch_conn [OF ok', of c w] by (cases k) auto
    then have "drop_senders (sent_by_window w) s = s"
      by (simp add: drop_senders_def) (intro window_effects.equality, auto simp: fun_eq_iff split: option.split)
    moreover have "we_filters s - {w} = we_filters s" using None watch_filters [OF ok'] by auto
    ultimately have "we_core (window_dies w s) = we_core s" "we_next (window_dies w s) = we_next s"
      unfolding window_dies_def handlers using core_basic(5) [of w s]
      by (simp_all add: Let_def next_simps) (simp add: we_core_def)
    then show ?thesis by (intro tracking_core [OF ok]) simp_all
  qed
qed

end
