(* ===== verification/WlObjects.thy ===== *)
theory WlObjects
  imports WlTracking
begin

text \<open>
  The objects of the protocol that \<^verbatim>\<open>WindowEffects\<close> keeps for its windows: a pointer of the maps is always
  to an object that lives, belongs to the window and does not wait for its deletion; and there are such objects only
  for what the program asked for.
\<close>

section \<open>Objects\<close>

definition objects_ok :: "window_effects \<Rightarrow> bool" where
  "objects_ok s \<longleftrightarrow>
     distinct (map fst (we_children s)) \<and>
     (\<forall>(q, w) \<in> set (we_children s). q < we_next s) \<and>
     set (we_doomed s) \<subseteq> fst ` set (we_children s) \<and>
     (\<forall>w q. we_blurs s w = Some q \<longrightarrow> (q, w) \<in> set (we_children s) \<and> q \<notin> set (we_doomed s)) \<and>
     (\<forall>w q. we_contrasts s w = Some q \<longrightarrow> (q, w) \<in> set (we_children s) \<and> q \<notin> set (we_doomed s)) \<and>
     (\<forall>w q. we_blurs s w = Some q \<longrightarrow> we_contrasts s w \<noteq> Some q)"

definition linked :: "window_effects \<Rightarrow> bool" where
  "linked s \<longleftrightarrow> dom (we_blurs s) \<subseteq> dom (we_blur_regions s) \<and> dom (we_contrasts s) \<subseteq> dom (we_contrast_regions s)"

lemma objects_distinct: "objects_ok s \<Longrightarrow> distinct (map fst (we_children s))"
  and objects_less: "objects_ok s \<Longrightarrow> (q, w) \<in> set (we_children s) \<Longrightarrow> q < we_next s"
  and objects_doomed: "objects_ok s \<Longrightarrow> q \<in> set (we_doomed s) \<Longrightarrow> \<exists>w. (q, w) \<in> set (we_children s)"
  and objects_blur: "objects_ok s \<Longrightarrow> we_blurs s w = Some q \<Longrightarrow> (q, w) \<in> set (we_children s) \<and> q \<notin> set (we_doomed s)"
  and objects_contrast: "objects_ok s \<Longrightarrow> we_contrasts s w = Some q \<Longrightarrow> (q, w) \<in> set (we_children s) \<and> q \<notin> set (we_doomed s)"
  and objects_apart: "objects_ok s \<Longrightarrow> we_blurs s w = Some q \<Longrightarrow> we_contrasts s w \<noteq> Some q"
  unfolding objects_ok_def by fastforce+

lemma objects_parent:
  "objects_ok s \<Longrightarrow> (q, v) \<in> set (we_children s) \<Longrightarrow> (q, w) \<in> set (we_children s) \<Longrightarrow> v = w"
  by (drule objects_distinct) (rule eq_key_imp_eq_value)

text \<open>An object that is forgotten by its map and then deleted.\<close>

definition no_pointer :: "window_effects \<Rightarrow> nat \<Rightarrow> bool" where
  "no_pointer s q \<longleftrightarrow> q \<notin> ran (we_blurs s) \<and> q \<notin> ran (we_contrasts s)"

lemma objects_delete_later: "objects_ok s \<Longrightarrow> no_pointer s q \<Longrightarrow> objects_ok (wl_delete_later q s)"
  by (auto simp: objects_ok_def wl_delete_later_def no_pointer_def ran_def)

lemma objects_send [simp]: "objects_ok (wl_send es s) = objects_ok s"
  by (simp add: objects_ok_def wl_send_def)

lemma objects_other [simp]:
  "objects_ok (s\<lparr>we_effects := m\<rparr>) = objects_ok s"
  "objects_ok (s\<lparr>we_blur_regions := br\<rparr>) = objects_ok s"
  "objects_ok (s\<lparr>we_contrast_regions := cr\<rparr>) = objects_ok s"
  "objects_ok (s\<lparr>we_slide_map := sm\<rparr>) = objects_ok s"
  "objects_ok (s\<lparr>we_window_watch := ww\<rparr>) = objects_ok s"
  "objects_ok (s\<lparr>we_surface_watch := sw\<rparr>) = objects_ok s"
  "objects_ok (s\<lparr>we_filters := ef\<rparr>) = objects_ok s"
  "objects_ok (s\<lparr>we_conns := cs\<rparr>) = objects_ok s"
  by (simp_all add: objects_ok_def)

lemma objects_next: "objects_ok s \<Longrightarrow> we_next s \<le> n \<Longrightarrow> objects_ok (s\<lparr>we_next := n\<rparr>)"
  by (fastforce simp: objects_ok_def)

lemma objects_child: "objects_ok s \<Longrightarrow> objects_ok (wl_new_child w s)"
  by (fastforce simp: objects_ok_def wl_new_child_def)

lemma objects_forget_blur: "objects_ok s \<Longrightarrow> objects_ok (s\<lparr>we_blurs := (we_blurs s)(w := None)\<rparr>)"
  by (auto simp: objects_ok_def split: if_splits)

lemma objects_forget_contrast: "objects_ok s \<Longrightarrow> objects_ok (s\<lparr>we_contrasts := (we_contrasts s)(w := None)\<rparr>)"
  by (auto simp: objects_ok_def split: if_splits)

lemma forgotten_blur:
  assumes "objects_ok s" "we_blurs s w = Some q"
  shows "no_pointer (s\<lparr>we_blurs := (we_blurs s)(w := None)\<rparr>) q"
proof -
  have "v = w" if "we_blurs s v = Some q \<or> we_contrasts s v = Some q" for v
    using that objects_blur [OF assms(1)] objects_contrast [OF assms(1)] objects_parent [OF assms(1)] assms(2) by metis
  then show ?thesis using objects_apart [OF assms] by (auto simp: no_pointer_def ran_def split: if_splits)
qed

lemma forgotten_contrast:
  assumes "objects_ok s" "we_contrasts s w = Some q"
  shows "no_pointer (s\<lparr>we_contrasts := (we_contrasts s)(w := None)\<rparr>) q"
proof -
  have "v = w" if "we_blurs s v = Some q \<or> we_contrasts s v = Some q" for v
    using that objects_blur [OF assms(1)] objects_contrast [OF assms(1)] objects_parent [OF assms(1)] assms(2) by metis
  then show ?thesis using objects_apart [OF assms(1)] assms(2) by (auto simp: no_pointer_def ran_def split: if_splits)
qed

text \<open>A new value of a map is a living child of the window no other pointer is to.\<close>

definition fit_for :: "window_effects \<Rightarrow> nat \<Rightarrow> nat \<Rightarrow> bool" where
  "fit_for s w q \<longleftrightarrow> (q, w) \<in> set (we_children s) \<and> q \<notin> set (we_doomed s) \<and> no_pointer s q"

lemma objects_put_blur: "objects_ok s \<Longrightarrow> fit_for s w q \<Longrightarrow> objects_ok (s\<lparr>we_blurs := (we_blurs s)(w \<mapsto> q)\<rparr>)"
  by (auto simp: objects_ok_def fit_for_def no_pointer_def ran_def)

lemma objects_put_contrast: "objects_ok s \<Longrightarrow> fit_for s w q \<Longrightarrow> objects_ok (s\<lparr>we_contrasts := (we_contrasts s)(w \<mapsto> q)\<rparr>)"
  by (auto simp: objects_ok_def fit_for_def no_pointer_def ran_def)

lemma delete_later_fields [simp]:
  "we_blurs (wl_delete_later q s) = we_blurs s"
  "we_contrasts (wl_delete_later q s) = we_contrasts s"
  "we_children (wl_delete_later q s) = we_children s"
  "set (we_doomed (wl_delete_later q s)) \<subseteq> insert q (set (we_doomed s))"
  by (auto simp: wl_delete_later_def)

lemma fit_delete_later: "fit_for s w q \<Longrightarrow> p \<noteq> q \<Longrightarrow> fit_for (wl_delete_later p s) w q"
  by (auto simp: fit_for_def no_pointer_def dest: subsetD [OF delete_later_fields(4)])

lemma objects_replace_blur:
  assumes ok: "objects_ok s" and v: "\<And>q. v = Some q \<Longrightarrow> fit_for s w q"
  shows "objects_ok (replace_blur w v s)"
proof -
  let ?t = "case we_blurs s w of None \<Rightarrow> s | Some old \<Rightarrow> wl_delete_later old (s\<lparr>we_blurs := (we_blurs s)(w := None)\<rparr>)"
  have t: "objects_ok ?t"
    using ok by (auto split: option.split intro!: objects_delete_later objects_forget_blur forgotten_blur)
  have "fit_for ?t w q" if "v = Some q" for q
  proof (cases "we_blurs s w")
    case (Some old)
    have "fit_for (s\<lparr>we_blurs := (we_blurs s)(w := None)\<rparr>) w q" and "old \<noteq> q"
      using v [OF that] Some by (auto simp: fit_for_def no_pointer_def ran_def)
    then show ?thesis using Some by (simp add: fit_delete_later)
  qed (use v that in simp)
  then show ?thesis using t unfolding replace_blur_def Let_def
    by (cases v) (simp, simp only: option.case objects_put_blur)
qed

lemma objects_replace_contrast:
  assumes ok: "objects_ok s" and v: "\<And>q. v = Some q \<Longrightarrow> fit_for s w q"
  shows "objects_ok (replace_contrast w v s)"
proof -
  let ?t = "case we_contrasts s w of None \<Rightarrow> s
      | Some old \<Rightarrow> wl_delete_later old (s\<lparr>we_contrasts := (we_contrasts s)(w := None)\<rparr>)"
  have t: "objects_ok ?t"
    using ok by (auto split: option.split intro!: objects_delete_later objects_forget_contrast forgotten_contrast)
  have "fit_for ?t w q" if "v = Some q" for q
  proof (cases "we_contrasts s w")
    case (Some old)
    have "fit_for (s\<lparr>we_contrasts := (we_contrasts s)(w := None)\<rparr>) w q" and "old \<noteq> q"
      using v [OF that] Some by (auto simp: fit_for_def no_pointer_def ran_def)
    then show ?thesis using Some by (simp add: fit_delete_later)
  qed (use v that in simp)
  then show ?thesis using t unfolding replace_contrast_def Let_def
    by (cases v) (simp, simp only: option.case objects_put_contrast)
qed

lemma objects_erase: "objects_ok s \<Longrightarrow> objects_ok (erase_effect w s)"
  by (simp add: erase_effect_def split: option.split)

lemma fit_erase: "fit_for s w q \<Longrightarrow> fit_for (erase_effect v s) w q"
  by (auto simp: erase_effect_def wl_send_def fit_for_def no_pointer_def split: option.split)

lemma fit_send [simp]: "fit_for (wl_send es s) w q = fit_for s w q"
  by (simp add: fit_for_def no_pointer_def wl_send_def)

lemma objects_resetBlur: "objects_ok s \<Longrightarrow> (\<And>q. v = Some q \<Longrightarrow> fit_for s w q) \<Longrightarrow> objects_ok (resetBlur w v s)"
  unfolding resetBlur_def by (intro objects_replace_blur objects_erase fit_erase)

lemma objects_resetContrast: "objects_ok s \<Longrightarrow> (\<And>q. v = Some q \<Longrightarrow> fit_for s w q) \<Longrightarrow> objects_ok (resetContrast w v s)"
  unfolding resetContrast_def by (rule objects_replace_contrast)

lemma fit_new: "objects_ok s \<Longrightarrow> fit_for (wl_new_child w s) w (we_next s)"
  unfolding fit_for_def no_pointer_def ran_def wl_new_child_def
  using objects_less [of s] objects_doomed [of s] objects_blur [of s] objects_contrast [of s] by fastforce

lemma objects_createRegion: "createRegion E r s = (g, t) \<Longrightarrow> objects_ok s \<Longrightarrow> objects_ok t"
  by (auto simp: createRegion_def objects_next split: if_splits)

lemma objects_effect_of: "effect_of w sf s = (q, t) \<Longrightarrow> objects_ok s \<Longrightarrow> objects_ok t"
  using objects_next [of "s\<lparr>we_effects := (we_effects s)(w \<mapsto> we_next s)\<rparr>" "Suc (we_next s)"]
  by (auto simp: effect_of_def split: option.splits)

lemma objects_install_effect: "objects_ok s \<Longrightarrow> objects_ok (install_effect E w sf b r s)"
  by (auto simp: install_effect_def Let_def split: prod.split option.split if_split_asm
      dest!: objects_createRegion objects_effect_of)

lemma objects_installSlide: "objects_ok s \<Longrightarrow> objects_ok (installSlide E w loc x s)"
  by (simp add: installSlide_def Let_def objects_child split: option.split)

lemma objects_reset_none:
  "objects_ok s \<Longrightarrow> objects_ok (replace_blur w None s)"
  "objects_ok s \<Longrightarrow> objects_ok (resetBlur w None s)"
  "objects_ok s \<Longrightarrow> objects_ok (resetContrast w None s)"
  by (auto intro: objects_replace_blur objects_resetBlur objects_resetContrast)

lemma objects_new_blur: "objects_ok s \<Longrightarrow> objects_ok (resetBlur w (Some (we_next s)) (wl_send es (wl_new_child w s)))"
  by (rule objects_resetBlur) (auto simp: objects_child fit_new)

lemma objects_new_contrast: "objects_ok s \<Longrightarrow> objects_ok (resetContrast w (Some (we_next s)) (wl_send es (wl_new_child w s)))"
  by (rule objects_resetContrast) (auto simp: objects_child fit_new)

lemma objects_installBlur:
  assumes ok: "objects_ok s"
  shows "objects_ok (installBlur E w b r s)"
proof (cases "createRegion E r s")
  case (Pair g t)
  have "objects_ok t" by (rule objects_createRegion [OF Pair ok])
  then show ?thesis using ok Pair
    by (simp add: installBlur_def Let_def objects_install_effect objects_reset_none objects_new_blur split: option.split)
qed

lemma objects_installContrast:
  assumes ok: "objects_ok s"
  shows "objects_ok (installContrast E w b d s)"
proof (cases "createRegion E (cd_region d) s")
  case (Pair g t)
  have "objects_ok t" by (rule objects_createRegion [OF Pair ok])
  then show ?thesis using ok Pair
    by (simp add: installContrast_def Let_def objects_reset_none objects_new_contrast split: option.split)
qed

text \<open>Which windows have objects.\<close>

lemma install_effect_objects [simp]:
  "we_blurs (install_effect E w sf b r s) = we_blurs s"
  "we_contrasts (install_effect E w sf b r s) = we_contrasts s"
  by (auto simp: install_effect_def effect_of_def createRegion_def wl_send_def Let_def split: option.splits prod.splits if_splits)

lemma install_objects [simp]:
  "we_blurs (installSlide E w loc x s) = we_blurs s"
  "we_contrasts (installSlide E w loc x s) = we_contrasts s"
  "we_contrasts (installBlur E w b r s) = we_contrasts s"
  "we_blurs (installContrast E w b d s) = we_blurs s"
  by (auto simp: installSlide_def installBlur_def installContrast_def createRegion_def wl_send_def wl_new_child_def Let_def
      split: option.splits)

lemma dom_installBlur: "dom (we_blurs (installBlur E w b r s)) \<subseteq> (if b then insert w (dom (we_blurs s)) else dom (we_blurs s))"
  by (auto simp: installBlur_def createRegion_def wl_send_def wl_new_child_def Let_def split: option.splits if_splits)

lemma dom_installContrast:
  "dom (we_contrasts (installContrast E w b d s)) \<subseteq> (if b then insert w (dom (we_contrasts s)) else dom (we_contrasts s))"
  by (auto simp: installContrast_def createRegion_def wl_send_def wl_new_child_def Let_def split: option.splits if_splits)

lemma track_release_objects [simp]:
  "we_blurs (trackWindow E w s) = we_blurs s" "we_contrasts (trackWindow E w s) = we_contrasts s"
  "we_blurs (releaseWindow w s) = we_blurs s" "we_contrasts (releaseWindow w s) = we_contrasts s"
  by (simp_all add: trackWindow_def releaseWindow_def wl_connect_def wl_disconnect_def Let_def split: option.split)

lemma objects_track: "objects_ok s \<Longrightarrow> objects_ok (trackWindow E w s)"
proof -
  have "objects_ok (wl_connect k t)" if "objects_ok t" for k t
    using that objects_next [of "t\<lparr>we_conns := (we_conns t)(we_next t \<mapsto> k)\<rparr>" "Suc (we_next t)"]
    by (simp add: wl_connect_def)
  then show "objects_ok s \<Longrightarrow> objects_ok (trackWindow E w s)"
    by (simp add: trackWindow_def Let_def split: option.split)
qed

lemma objects_release: "objects_ok s \<Longrightarrow> objects_ok (releaseWindow w s)"
  by (simp add: releaseWindow_def wl_disconnect_def Let_def split: option.split)

lemma objects_calls:
  assumes "objects_ok s"
  shows "objects_ok (wl_slideWindow E w loc x s)" "objects_ok (wl_enableBlurBehind E w b r s)"
    "objects_ok (wl_enableBackgroundContrast E w b d s)" "objects_ok (snd (wl_eventFilter E w WlExpose s))"
  using assms
  by (simp_all add: wl_slideWindow_def wl_enableBlurBehind_def wl_enableBackgroundContrast_def wl_eventFilter_def Let_def
      objects_installSlide objects_installBlur objects_installContrast objects_track objects_release objects_reset_none
      split: option.split)

lemma linked_installBlur:
  assumes "linked t" "b \<Longrightarrow> we_blur_regions t w \<noteq> None"
  shows "linked (installBlur E w b r t)"
proof -
  have "(if b then insert w (dom (we_blurs t)) else dom (we_blurs t)) \<subseteq> dom (we_blur_regions t)"
    using assms by (auto simp: linked_def)
  with dom_installBlur have "dom (we_blurs (installBlur E w b r t)) \<subseteq> dom (we_blur_regions t)" by (rule subset_trans)
  then show ?thesis using assms(1) by (simp add: linked_def)
qed

lemma linked_installContrast:
  assumes "linked t" "b \<Longrightarrow> we_contrast_regions t w \<noteq> None"
  shows "linked (installContrast E w b d t)"
proof -
  have "(if b then insert w (dom (we_contrasts t)) else dom (we_contrasts t)) \<subseteq> dom (we_contrast_regions t)"
    using assms by (auto simp: linked_def)
  with dom_installContrast have "dom (we_contrasts (installContrast E w b d t)) \<subseteq> dom (we_contrast_regions t)"
    by (rule subset_trans)
  then show ?thesis using assms(1) by (simp add: linked_def)
qed

lemma linked_installSlide: "linked t \<Longrightarrow> linked (installSlide E w loc x t)"
  by (simp add: linked_def)

lemma linked_watch: "linked s \<Longrightarrow> linked (trackWindow E w s)" "linked s \<Longrightarrow> linked (releaseWindow w s)"
  by (simp_all add: linked_def)

lemma linked_without:
  "linked s \<Longrightarrow> linked (resetBlur w None (s\<lparr>we_blur_regions := (we_blur_regions s)(w := None)\<rparr>))"
  "linked s \<Longrightarrow> linked (resetContrast w None (s\<lparr>we_contrast_regions := (we_contrast_regions s)(w := None)\<rparr>))"
  by (auto simp: linked_def we_coreD [OF core_reset(1)] we_coreD [OF core_reset(2)])

lemma linked_with:
  "linked s \<Longrightarrow> linked (s\<lparr>we_blur_regions := (we_blur_regions s)(w \<mapsto> r)\<rparr>)"
  "linked s \<Longrightarrow> linked (s\<lparr>we_contrast_regions := (we_contrast_regions s)(w \<mapsto> d)\<rparr>)"
  "linked s \<Longrightarrow> linked (s\<lparr>we_slide_map := m\<rparr>)"
  by (auto simp: linked_def)

lemma linked_calls:
  assumes "linked s"
  shows "linked (wl_slideWindow E w loc x s)" "linked (wl_enableBlurBehind E w b r s)"
    "linked (wl_enableBackgroundContrast E w b d s)" "linked (snd (wl_eventFilter E w WlExpose s))"
proof -
  show "linked (wl_slideWindow E w loc x s)" using assms by (simp add: linked_def wl_slideWindow_def Let_def)
  have t: "linked (trackWindow E w s)" by (rule linked_watch [OF assms])
  have "linked (installBlur E w True r ((trackWindow E w s)\<lparr>we_blur_regions := (we_blur_regions s)(w \<mapsto> r)\<rparr>))"
    using linked_with(1) [OF t, of w r] by (intro linked_installBlur) simp_all
  then show "linked (wl_enableBlurBehind E w b r s)" unfolding wl_enableBlurBehind_def Let_def
    by (auto intro!: assms t linked_installBlur linked_watch linked_without)
  have "linked (installContrast E w True d ((trackWindow E w s)\<lparr>we_contrast_regions := (we_contrast_regions s)(w \<mapsto> d)\<rparr>))"
    using linked_with(2) [OF t, of w d] by (intro linked_installContrast) simp_all
  then show "linked (wl_enableBackgroundContrast E w b d s)" unfolding wl_enableBackgroundContrast_def Let_def
    by (auto intro!: assms t linked_installContrast linked_watch linked_without)
  show "linked (snd (wl_eventFilter E w WlExpose s))" unfolding wl_eventFilter_def Let_def
    using assms by (auto intro!: linked_installBlur linked_installContrast linked_installSlide split: option.split)
qed

lemma linked_signals:
  assumes "linked s"
  shows "linked (on_blur_active keys E s)" "linked (on_contrast_active keys E s)" "linked (on_slide_active keys E s)"
    "linked (on_effect_active keys E s)" "linked (on_capabilities keys E s)" "linked (fire_surface_destroyed n s)"
proof -
  have fold: "linked (fold f xs s)" if "\<And>x s. linked s \<Longrightarrow> linked (f x s)" for f and xs :: "nat list"
    by (rule fold_invariant [where Q = "\<lambda>_. True"]) (use that assms in auto)
  show "linked (on_blur_active keys E s)" "linked (on_contrast_active keys E s)" "linked (on_slide_active keys E s)"
    "linked (on_capabilities keys E s)"
    unfolding on_blur_active_def on_contrast_active_def on_slide_active_def on_capabilities_def
    by (auto intro!: fold assms linked_installBlur linked_installContrast linked_installSlide split: option.split)
  have "linked (erase_effect w t)" if "linked t" for w t
    using that we_coreD(1,2) [OF core_objects(4)] by (simp add: linked_def)
  then show "linked (on_effect_active keys E s)" unfolding on_effect_active_def by (auto intro!: fold assms)
  have "linked (on_surface_destroyed w t)" if "linked t" for w t
    using that we_coreD(1,2) [OF core_reset(3)] by (auto simp: linked_def on_surface_destroyed_def)
  then show "linked (fire_surface_destroyed n s)" unfolding fire_surface_destroyed_def
    by (auto intro!: fold split: option.split wl_sender.split)
qed

lemma objects_signals:
  assumes "objects_ok s"
  shows "objects_ok (on_blur_active keys E s)" "objects_ok (on_contrast_active keys E s)" "objects_ok (on_slide_active keys E s)"
    "objects_ok (on_effect_active keys E s)" "objects_ok (on_capabilities keys E s)" "objects_ok (fire_surface_destroyed n s)"
proof -
  have fold: "objects_ok (fold f xs s)" if "\<And>x s. objects_ok s \<Longrightarrow> objects_ok (f x s)" for f and xs :: "nat list"
    by (rule fold_invariant [where Q = "\<lambda>_. True"]) (use that assms in auto)
  show "objects_ok (on_blur_active keys E s)" "objects_ok (on_contrast_active keys E s)" "objects_ok (on_slide_active keys E s)"
    "objects_ok (on_capabilities keys E s)" "objects_ok (on_effect_active keys E s)"
    unfolding on_blur_active_def on_contrast_active_def on_slide_active_def on_capabilities_def on_effect_active_def
    by (auto intro!: fold assms objects_installBlur objects_installContrast objects_installSlide objects_erase split: option.split)
  show "objects_ok (fire_surface_destroyed n s)" unfolding fire_surface_destroyed_def on_surface_destroyed_def
    by (auto intro!: fold objects_reset_none split: option.split wl_sender.split)
qed

section \<open>Objects that are deleted\<close>

lemma objects_deferred_delete: "objects_ok s \<Longrightarrow> objects_ok (wl_deferred_delete s)"
  unfolding wl_deferred_delete_def objects_send
  by (auto simp: objects_ok_def distinct_map inj_on_def)

lemma linked_deferred_delete: "linked s \<Longrightarrow> linked (wl_deferred_delete s)"
  by (simp add: linked_def wl_deferred_delete_def wl_send_def)

lemma linked_window_destroyed: "linked s \<Longrightarrow> linked (on_window_destroyed w s)"
  by (auto simp: linked_def)

lemma objects_window_destroyed: "objects_ok s \<Longrightarrow> objects_ok (on_window_destroyed w s)"
  by (simp add: on_window_destroyed_def Let_def objects_reset_none)

lemma objects_delete_children:
  assumes ok: "objects_ok s" and none: "we_blurs s w = None" "we_contrasts s w = None"
  shows "objects_ok (wl_delete_children w s)"
proof -
  have stays: "(q, v) \<in> set (filter (\<lambda>(q, v). v \<noteq> w) (we_children s))"
    if "we_blurs s v = Some q \<or> we_contrasts s v = Some q" for q v
    using that objects_blur [OF ok] objects_contrast [OF ok] none by (cases "v = w") auto
  have "distinct (map fst (filter (\<lambda>(q, v). v \<noteq> w) (we_children s)))"
    using objects_distinct [OF ok] by (simp add: distinct_map_filter)
  moreover have "q \<in> fst ` set (filter (\<lambda>(q, v). v \<noteq> w) (we_children s))"
    if "q \<in> set (we_doomed s)" "q \<notin> fst ` set (filter (\<lambda>(q, v). v = w) (we_children s))" for q
    using objects_doomed [OF ok that(1)] that(2) by force
  ultimately show ?thesis
    using objects_less [OF ok] objects_blur [OF ok] objects_contrast [OF ok] objects_apart [OF ok] stays none
    unfolding wl_delete_children_def Let_def objects_send unfolding objects_ok_def by auto
qed

lemma linked_frame: "linked (s\<lparr>we_filters := f\<rparr>) = linked s" "linked (drop_senders P s) = linked s"
  "linked (wl_delete_children w s) = linked s" "linked (wl_send es s) = linked s"
  by (simp_all add: linked_def drop_senders_def wl_delete_children_def wl_send_def Let_def)

lemma drop_senders_objects: "objects_ok (drop_senders P s) = objects_ok s"
  by (simp add: drop_senders_def)

text \<open>A window that is not watched has no objects the maps point to.\<close>

lemma unwatched_objects:
  assumes "tracking_ok E s" "linked s" "we_window_watch s w = None"
  shows "we_blurs s w = None" "we_contrasts s w = None"
proof -
  have "\<not> wanted s w" using assms(1,3) unfolding tracking_ok_def by blast
  then show "we_blurs s w = None" "we_contrasts s w = None" using assms(2) by (auto simp: wanted_def linked_def domIff)
qed

lemma window_dies_handlers:
  assumes ok: "tracking_ok E s"
  obtains t where "window_dies w s = (wl_delete_children w (drop_senders (sent_by_window w) t))\<lparr>we_filters := we_filters s - {w}\<rparr>"
    and "t = on_window_destroyed w s \<or> we_window_watch s w = None \<and> t = s"
proof (cases "we_window_watch s w")
  case (Some c)
  show ?thesis by (rule that [OF window_dies_tracked [OF tracking_watch [OF ok] Some]]) simp
next
  case None
  then have "\<not> (\<exists>c \<in> set [0..<we_next s]. we_conns s c = Some (OfWindow w))" using watch_conn [OF tracking_watch [OF ok]] by auto
  then have handlers: "fold (\<lambda>c s. case we_conns s c of
      Some (OfWindow w') \<Rightarrow> if w' = w then on_window_destroyed w' s else s | _ \<Rightarrow> s) [0..<we_next s] s = s"
    by (subst window_handlers [where K = "we_conns s"]) simp_all
  have "we_filters (wl_delete_children w (drop_senders P t)) = we_filters t" for P t
    using we_coreD(6) [OF core_basic(5)] by simp
  then have "window_dies w s = (wl_delete_children w (drop_senders (sent_by_window w) s))\<lparr>we_filters := we_filters s - {w}\<rparr>"
    unfolding window_dies_def handlers by (simp add: Let_def)
  then show ?thesis by (rule that) (simp add: None)
qed

lemma objects_window_dies:
  assumes "tracking_ok E s" "objects_ok s" "linked s"
  shows "objects_ok (window_dies w s) \<and> linked (window_dies w s)"
proof (rule window_dies_handlers [OF assms(1), of w])
  fix t
  assume w: "window_dies w s = (wl_delete_children w (drop_senders (sent_by_window w) t))\<lparr>we_filters := we_filters s - {w}\<rparr>"
    and t: "t = on_window_destroyed w s \<or> we_window_watch s w = None \<and> t = s"
  have "objects_ok t" "linked t" "we_blurs t w = None" "we_contrasts t w = None"
    using t assms unwatched_objects [OF assms(1,3), of w] objects_window_destroyed linked_window_destroyed by auto
  then have "objects_ok (wl_delete_children w (drop_senders (sent_by_window w) t))"
    by (intro objects_delete_children) (simp_all add: drop_senders_objects, simp_all add: drop_senders_def)
  then show ?thesis using \<open>linked t\<close> unfolding w by (simp add: linked_frame)
qed

section \<open>Every state that can be reached\<close>

definition natives_ok :: "wl_env \<Rightarrow> bool" where
  "natives_ok E \<longleftrightarrow> inj_on (wl_native E) (dom (wl_native E))"

definition effects_ok :: "wl_env \<Rightarrow> window_effects \<Rightarrow> bool" where
  "effects_ok E s \<longleftrightarrow> natives_ok E \<and> tracking_ok E s \<and> objects_ok s \<and> linked s"

lemma natives_created: "natives_ok E \<Longrightarrow> \<forall>v. wl_native E v \<noteq> Some n \<Longrightarrow> natives_ok (E\<lparr>wl_native := (wl_native E)(w \<mapsto> n)\<rparr>)"
  unfolding natives_ok_def by (auto simp: inj_on_def)

lemma natives_destroyed: "natives_ok E \<Longrightarrow> natives_ok (E\<lparr>wl_native := (wl_native E)(w := None)\<rparr>)"
  by (auto simp: natives_ok_def inj_on_def)

lemma natives_env: "natives_ok E \<Longrightarrow> wl_native E' = wl_native E \<Longrightarrow> natives_ok E'"
  by (simp add: natives_ok_def)

lemma objects_native_created:
  assumes "objects_ok s" "linked s"
  shows "objects_ok (snd (wl_eventFilter E w (WlPlatformSurface True) s))" "linked (snd (wl_eventFilter E w (WlPlatformSurface True) s))"
proof -
  have "objects_ok (wl_connect k t)" if "objects_ok t" for k t
    using that objects_next [of "t\<lparr>we_conns := (we_conns t)(we_next t \<mapsto> k)\<rparr>" "Suc (we_next t)"]
    by (simp add: wl_connect_def)
  then show "objects_ok (snd (wl_eventFilter E w (WlPlatformSurface True) s))" using assms(1)
    by (simp add: wl_eventFilter_def Let_def wl_disconnect_def split: option.split)
  show "linked (snd (wl_eventFilter E w (WlPlatformSurface True) s))" using assms(2)
    by (simp add: wl_eventFilter_def Let_def wl_disconnect_def wl_connect_def linked_def split: option.split)
qed

lemma tracking_signals:
  assumes ok: "tracking_ok E s" and E': "wl_native E' = wl_native E"
  shows "tracking_ok E' (on_blur_active keys F s)" "tracking_ok E' (on_contrast_active keys F s)"
    "tracking_ok E' (on_slide_active keys F s)" "tracking_ok E' (on_effect_active keys F s)"
    "tracking_ok E' (on_capabilities keys F s)" "tracking_ok E' (fire_surface_destroyed n s)"
    "tracking_ok E' (wl_deferred_delete s)" "tracking_ok E' (snd (wl_eventFilter F w WlExpose s))"
  by (rule tracking_core [OF tracking_env [THEN iffD2, OF E' ok]]; simp only: core_simps next_simps order_refl)+

lemma effects_step:
  assumes "wl_step change c c'" "effects_ok (fst c) (snd c)"
  shows "effects_ok (fst c') (snd c')"
  using assms
proof (induction rule: wl_step.induct)
  case (native_created E w n E' s' s)
  then have ok: "natives_ok E" "tracking_ok E s" "objects_ok s" "linked s" by (simp_all add: effects_ok_def)
  have "natives_ok E'" unfolding native_created(4) by (rule natives_created [OF ok(1) native_created(2)])
  moreover have "tracking_ok E' s'" unfolding native_created(5)
    by (rule tracking_native_created [OF ok(2) native_created(1,4)])
  moreover have "objects_ok s'" "linked s'" unfolding native_created(5) using ok(3,4) by (simp_all add: objects_native_created)
  ultimately show ?case by (simp add: effects_ok_def)
next
  case (native_destroyed E w n s)
  then have "tracking_ok (E\<lparr>wl_native := (wl_native E)(w := None)\<rparr>) (drop_senders (sent_by_native n) s)"
    by (intro tracking_native_destroyed) (auto simp: effects_ok_def natives_ok_def)
  then show ?case using native_destroyed
    by (simp add: effects_ok_def natives_destroyed drop_senders_objects linked_frame)
next
  case (window_destroyed E w s)
  then show ?case using objects_window_dies [of E s w] by (simp add: effects_ok_def tracking_window_dies)
qed (auto simp: effects_ok_def objects_calls linked_calls objects_signals linked_signals objects_deferred_delete
    linked_deferred_delete intro: tracking_slide tracking_blur tracking_contrast tracking_signals
      tracking_env [THEN iffD2] natives_env)

end
