(* ===== verification/WlAsked.thy ===== *)
theory WlAsked
  imports WlObjects
begin

text \<open>
  What the compositor has been asked for: the requests so far, read as the protocols describe them.  While the
  compositor offers the managers of Plasma and no background effects, it is never asked to keep what the
  program has withdrawn or changed, and after an expose event it has been asked for exactly what the program wants.
\<close>

section \<open>Requests read as settings of surfaces\<close>

record wl_asked =
  ask_region :: "nat \<Rightarrow> fx_rect list"
  ask_target :: "nat \<rightharpoonup> nat"
  ask_shape :: "nat \<Rightarrow> fx_rect list"
  ask_words :: "nat \<Rightarrow> u32 \<times> u32 \<times> u32"
  ask_edge :: "nat \<Rightarrow> slide_edge \<times> i32"
  ask_blur :: "nat \<rightharpoonup> fx_rect list"
  ask_contrast :: "nat \<rightharpoonup> fx_rect list \<times> u32 \<times> u32 \<times> u32"
  ask_slide :: "nat \<rightharpoonup> slide_edge \<times> i32"

definition nobody_asked :: wl_asked where
  "nobody_asked = \<lparr>ask_region = (\<lambda>_. []), ask_target = Map.empty, ask_shape = (\<lambda>_. []), ask_words = (\<lambda>_. (0, 0, 0)),
     ask_edge = (\<lambda>_. (LocationLeft, 0)), ask_blur = Map.empty, ask_contrast = Map.empty, ask_slide = Map.empty\<rparr>"

text \<open>
  Settings of an object take effect for its surface when it commits; a region is copied when it is set.
\<close>

fun ask :: "wl_request \<Rightarrow> wl_asked \<Rightarrow> wl_asked" where
  "ask (RegionCreate g) a = a\<lparr>ask_region := (ask_region a)(g := [])\<rparr>"
| "ask (RegionAdd g r) a = a\<lparr>ask_region := (ask_region a)(g := ask_region a g @ [r])\<rparr>"
| "ask (RegionDestroy g) a = a"
| "ask (BlurCreate sf q) a = a\<lparr>ask_target := (ask_target a)(q \<mapsto> sf), ask_shape := (ask_shape a)(q := [])\<rparr>"
| "ask (BlurSetRegion q g) a = a\<lparr>ask_shape := (ask_shape a)(q := ask_region a g)\<rparr>"
| "ask (BlurCommit q) a = (case ask_target a q of None \<Rightarrow> a | Some sf \<Rightarrow> a\<lparr>ask_blur := (ask_blur a)(sf \<mapsto> ask_shape a q)\<rparr>)"
| "ask (BlurUnset sf) a = a\<lparr>ask_blur := (ask_blur a)(sf := None)\<rparr>"
| "ask (ContrastCreate sf q) a =
     a\<lparr>ask_target := (ask_target a)(q \<mapsto> sf), ask_shape := (ask_shape a)(q := []), ask_words := (ask_words a)(q := (0, 0, 0))\<rparr>"
| "ask (ContrastSetRegion q g) a = a\<lparr>ask_shape := (ask_shape a)(q := ask_region a g)\<rparr>"
| "ask (ContrastSetContrast q v) a = a\<lparr>ask_words := (ask_words a)(q := (v, snd (ask_words a q)))\<rparr>"
| "ask (ContrastSetIntensity q v) a =
     a\<lparr>ask_words := (ask_words a)(q := (fst (ask_words a q), v, snd (snd (ask_words a q))))\<rparr>"
| "ask (ContrastSetSaturation q v) a =
     a\<lparr>ask_words := (ask_words a)(q := (fst (ask_words a q), fst (snd (ask_words a q)), v))\<rparr>"
| "ask (ContrastCommit q) a = (case ask_target a q of None \<Rightarrow> a | Some sf \<Rightarrow> a\<lparr>ask_contrast := (ask_contrast a)(sf \<mapsto> (ask_shape a q, ask_words a q))\<rparr>)"
| "ask (ContrastUnset sf) a = a\<lparr>ask_contrast := (ask_contrast a)(sf := None)\<rparr>"
| "ask (SlideCreate sf q) a = a\<lparr>ask_target := (ask_target a)(q \<mapsto> sf), ask_edge := (ask_edge a)(q := (LocationLeft, 0))\<rparr>"
| "ask (SlideSetLocation q l) a = a\<lparr>ask_edge := (ask_edge a)(q := (l, snd (ask_edge a q)))\<rparr>"
| "ask (SlideSetOffset q x) a = a\<lparr>ask_edge := (ask_edge a)(q := (fst (ask_edge a q), x))\<rparr>"
| "ask (SlideCommit q) a = (case ask_target a q of None \<Rightarrow> a | Some sf \<Rightarrow> a\<lparr>ask_slide := (ask_slide a)(sf \<mapsto> ask_edge a q)\<rparr>)"
| "ask (SlideUnset sf) a = a\<lparr>ask_slide := (ask_slide a)(sf := None)\<rparr>"
| "ask (EffectGet sf q) a = a\<lparr>ask_target := (ask_target a)(q \<mapsto> sf)\<rparr>"
| "ask (EffectSetRegion q (Some g)) a = (case ask_target a q of None \<Rightarrow> a | Some sf \<Rightarrow> a\<lparr>ask_blur := (ask_blur a)(sf \<mapsto> ask_region a g)\<rparr>)"
| "ask (EffectSetRegion q None) a = (case ask_target a q of None \<Rightarrow> a | Some sf \<Rightarrow> a\<lparr>ask_blur := (ask_blur a)(sf := None)\<rparr>)"
| "ask (EffectDestroy q) a = (case ask_target a q of None \<Rightarrow> a | Some sf \<Rightarrow> a\<lparr>ask_blur := (ask_blur a)(sf := None)\<rparr>)"
| "ask (ProxyRelease q) a = a"

definition asked :: "window_effects \<Rightarrow> wl_asked" where
  "asked s = fold ask (we_sent s) nobody_asked"

lemma asked_send: "asked (wl_send es s) = fold ask es (asked s)"
  by (simp add: asked_def wl_send_def)

lemma asked_sent: "we_sent t = we_sent s \<Longrightarrow> asked t = asked s"
  by (simp add: asked_def)

lemma asked_add: "fold ask (map (RegionAdd g) rs) a = a\<lparr>ask_region := (ask_region a)(g := ask_region a g @ rs)\<rparr>"
  by (induction rs arbitrary: a) simp_all

lemma asked_region:
  "asked (wl_send (RegionCreate g # map (RegionAdd g) rs) s) = (asked s)\<lparr>ask_region := (ask_region (asked s))(g := rs)\<rparr>"
  by (simp add: asked_send asked_add)

text \<open>Nothing is asked for a surface no request names.\<close>

definition ask_within :: "nat set \<Rightarrow> wl_asked \<Rightarrow> bool" where
  "ask_within S a \<longleftrightarrow> ran (ask_target a) \<subseteq> S \<and> dom (ask_blur a) \<subseteq> S \<and> dom (ask_contrast a) \<subseteq> S \<and> dom (ask_slide a) \<subseteq> S"

lemma ran_upd: "ran (m(k \<mapsto> v)) \<subseteq> insert v (ran m)"
  by (auto simp: ran_def)

lemma ask_within_step: "ask_within S a \<Longrightarrow> (\<And>sf. request_surface e = Some sf \<Longrightarrow> sf \<in> S) \<Longrightarrow> ask_within S (ask e a)"
  using ran_upd [of "ask_target a"]
  by (induction e a rule: ask.induct)
    (auto simp: ask_within_def split: option.split if_splits intro: ranI dest!: subsetD [OF ran_upd])

lemma ask_within_fold:
  "ask_within S a \<Longrightarrow> (\<And>e sf. e \<in> set es \<Longrightarrow> request_surface e = Some sf \<Longrightarrow> sf \<in> S) \<Longrightarrow> ask_within S (fold ask es a)"
proof (induction es arbitrary: a)
  case (Cons e es)
  have "ask_within S (ask e a)" by (rule ask_within_step [OF Cons.prems(1)]) (use Cons.prems(2) in auto)
  then show ?case using Cons.IH [of "ask e a"] Cons.prems(2) by (metis fold_simps(2) list.set_intros(2))
qed simp

lemma fresh_asked:
  assumes "fresh_surface sf E s"
  shows "ask_blur (asked s) sf = None" "ask_contrast (asked s) sf = None" "ask_slide (asked s) sf = None"
proof -
  have "ask_within (- {sf}) (asked s)" unfolding asked_def
    by (rule ask_within_fold) (use assms in \<open>auto simp: fresh_surface_def ask_within_def nobody_asked_def image_iff\<close>)
  then show "ask_blur (asked s) sf = None" "ask_contrast (asked s) sf = None" "ask_slide (asked s) sf = None"
    by (auto simp: ask_within_def)
qed

section \<open>What installing asks for\<close>

text \<open>The three settings, in one value.\<close>

definition settings where
  "settings s = (ask_blur (asked s), ask_contrast (asked s), ask_slide (asked s))"

definition undisturbed :: "wl_env \<Rightarrow> bool" where
  "undisturbed E \<longleftrightarrow> wl_blur E \<and> wl_contrast E \<and> wl_slide E \<and> \<not> wl_effect E \<and> wl_compositor E"

lemma settings_sent: "we_sent t = we_sent s \<Longrightarrow> settings t = settings s"
  by (simp add: settings_def asked_def)

lemma sent_replace [simp]:
  "we_sent (replace_blur w v s) = we_sent s" "we_sent (replace_contrast w v s) = we_sent s"
  by (simp_all add: replace_blur_def replace_contrast_def wl_delete_later_def Let_def split: option.split)

lemma sent_reset: "we_effects s w = None \<Longrightarrow> we_sent (resetBlur w v s) = we_sent s" "we_sent (resetContrast w v s) = we_sent s"
  by (simp_all add: resetBlur_def resetContrast_def erase_effect_def)

lemma sent_track [simp]: "we_sent (trackWindow E w s) = we_sent s" "we_sent (releaseWindow w s) = we_sent s"
  by (simp_all add: trackWindow_def releaseWindow_def wl_connect_def wl_disconnect_def Let_def split: option.split)

text \<open>A window's region, contrast and slide in the words of the requests.\<close>

definition contrast_asked :: "wl_env \<Rightarrow> contrast_data \<Rightarrow> fx_rect list \<times> u32 \<times> u32 \<times> u32" where
  "contrast_asked E d = (cd_region d, wl_fixed E (cd_contrast d), wl_fixed E (cd_intensity d), wl_fixed E (cd_saturation d))"

definition slide_asked :: "slide_data \<Rightarrow> slide_edge \<times> i32" where
  "slide_asked d = (slide_edge_of (sd_location d), sd_offset d)"

lemma asked_new_child: "asked (wl_new_child w s) = asked s"
  by (simp add: asked_def wl_new_child_def)

lemma settings_installSlide:
  assumes "undisturbed E" "surfaceForWindow E w = Some sf"
  shows "settings (installSlide E w loc x s) =
    (ask_blur (asked s), ask_contrast (asked s), (ask_slide (asked s))(sf := if loc = NoEdge then None else Some (slide_edge_of loc, x)))"
  using assms by (simp add: settings_def installSlide_def undisturbed_def Let_def asked_send asked_new_child)

lemma settings_installBlur:
  assumes "undisturbed E" "surfaceForWindow E w = Some sf" "we_effects s w = None"
  shows "settings (installBlur E w b r s) =
    ((ask_blur (asked s))(sf := if b then Some r else None), ask_contrast (asked s), ask_slide (asked s))"
proof (cases b)
  case False
  then show ?thesis using assms
    by (simp add: settings_def installBlur_def undisturbed_def asked_send asked_sent [OF sent_reset(1)])
next
  case True
  let ?t = "wl_send (RegionCreate (we_next s) # map (RegionAdd (we_next s)) r) (s\<lparr>we_next := Suc (we_next s)\<rparr>)"
  let ?u = "wl_send [BlurCreate sf (we_next ?t), BlurSetRegion (we_next ?t) (we_next s), BlurCommit (we_next ?t),
      RegionDestroy (we_next s)] (wl_new_child w ?t)"
  have "installBlur E w b r s = resetBlur w (Some (we_next ?t)) ?u"
    using True assms by (simp add: installBlur_def undisturbed_def createRegion_def Let_def)
  moreover have "we_effects ?u w = None" using assms(3) by (simp add: wl_send_def wl_new_child_def)
  ultimately have "settings (installBlur E w b r s) = settings ?u" by (metis settings_sent sent_reset(1))
  also have "asked ?t = (asked s)\<lparr>ask_region := (ask_region (asked s))(we_next s := r)\<rparr>"
    by (subst asked_region) (simp add: asked_def)
  then have "settings ?u = ((ask_blur (asked s))(sf \<mapsto> r), ask_contrast (asked s), ask_slide (asked s))"
    by (simp add: settings_def asked_send [of "BlurCreate _ _ # _"] asked_new_child)
  finally show ?thesis using True by simp
qed

lemma settings_installContrast:
  assumes "undisturbed E" "surfaceForWindow E w = Some sf"
  shows "settings (installContrast E w b d s) =
    (ask_blur (asked s), (ask_contrast (asked s))(sf := if b then Some (contrast_asked E d) else None), ask_slide (asked s))"
proof (cases b)
  case False
  then show ?thesis using assms
    by (simp add: settings_def installContrast_def undisturbed_def asked_send asked_sent [OF sent_reset(2)])
next
  case True
  let ?t = "wl_send (RegionCreate (we_next s) # map (RegionAdd (we_next s)) (cd_region d)) (s\<lparr>we_next := Suc (we_next s)\<rparr>)"
  let ?q = "we_next ?t"
  let ?u = "wl_send [ContrastCreate sf ?q, ContrastSetRegion ?q (we_next s), ContrastSetContrast ?q (wl_fixed E (cd_contrast d)),
      ContrastSetIntensity ?q (wl_fixed E (cd_intensity d)), ContrastSetSaturation ?q (wl_fixed E (cd_saturation d)),
      ContrastCommit ?q, RegionDestroy (we_next s)] (wl_new_child w ?t)"
  have "installContrast E w b d s = resetContrast w (Some ?q) ?u"
    using True assms by (simp add: installContrast_def undisturbed_def createRegion_def Let_def)
  then have "settings (installContrast E w b d s) = settings ?u" by (metis settings_sent sent_reset(2))
  also have "asked ?t = (asked s)\<lparr>ask_region := (ask_region (asked s))(we_next s := cd_region d)\<rparr>"
    by (subst asked_region) (simp add: asked_def)
  then have "settings ?u = (ask_blur (asked s), (ask_contrast (asked s))(sf \<mapsto> contrast_asked E d), ask_slide (asked s))"
    by (simp add: settings_def asked_send [of "ContrastCreate _ _ # _"] asked_new_child contrast_asked_def)
  finally show ?thesis using True by simp
qed

lemma installs_without_surface:
  assumes "surfaceForWindow E w = None"
  shows "installSlide E w loc x s = s" "installBlur E w b r s = s" "installContrast E w b d s = s"
  using assms by (simp_all add: installSlide_def installBlur_def installContrast_def)

section \<open>Never stale\<close>

text \<open>A setting of a surface and a wish for its window: the same, or no setting (yet).\<close>

definition not_stale :: "'a option \<Rightarrow> 'a option \<Rightarrow> bool" where
  "not_stale setting wish \<longleftrightarrow> setting = None \<or> setting = wish"

lemma not_stale_simps [simp]: "not_stale None wish" "not_stale wish wish" "not_stale (Some x) (Some y) \<longleftrightarrow> x = y"
  by (auto simp: not_stale_def)

definition agrees :: "wl_env \<Rightarrow> window_effects \<Rightarrow> nat \<Rightarrow> nat \<Rightarrow> bool" where
  "agrees E s w sf \<longleftrightarrow>
     not_stale (ask_blur (asked s) sf) (we_blur_regions s w) \<and>
     not_stale (ask_contrast (asked s) sf) (map_option (contrast_asked E) (we_contrast_regions s w)) \<and>
     not_stale (ask_slide (asked s) sf) (map_option slide_asked (we_slide_map s w))"

definition surfaces_ok :: "wl_env \<Rightarrow> bool" where
  "surfaces_ok E \<longleftrightarrow> inj_on (wl_surface E) (dom (wl_surface E))"

definition asked_ok :: "wl_env \<Rightarrow> window_effects \<Rightarrow> bool" where
  "asked_ok E s \<longleftrightarrow> we_effects s = Map.empty \<and>
     (\<forall>w d. we_slide_map s w = Some d \<longrightarrow> sd_location d \<noteq> NoEdge) \<and>
     (\<forall>w sf. surfaceForWindow E w = Some sf \<longrightarrow> agrees E s w sf)"

lemma surface_owner:
  assumes "natives_ok E" "surfaces_ok E" "surfaceForWindow E v = Some sf" "surfaceForWindow E w = Some sf"
  shows "v = w"
proof -
  obtain n m where "wl_native E v = Some n" "wl_surface E n = Some sf" "wl_native E w = Some m" "wl_surface E m = Some sf"
    using assms(3,4) by (auto simp: surfaceForWindow_def split: option.splits)
  then show ?thesis using assms(1,2) by (metis natives_ok_def surfaces_ok_def inj_onD domI)
qed

text \<open>An operation that changes the wishes for one window and the settings of its surface.\<close>

lemma asked_local:
  assumes ok: "asked_ok E s" "natives_ok E" "surfaces_ok E"
    and effects: "we_effects t = Map.empty"
    and slide: "\<And>d. we_slide_map t w = Some d \<Longrightarrow> sd_location d \<noteq> NoEdge"
    and other: "\<And>v. v \<noteq> w \<Longrightarrow> we_blur_regions t v = we_blur_regions s v \<and> we_contrast_regions t v = we_contrast_regions s v \<and>
        we_slide_map t v = we_slide_map s v"
    and settings: "\<And>sf. surfaceForWindow E w \<noteq> Some sf \<Longrightarrow> ask_blur (asked t) sf = ask_blur (asked s) sf \<and>
        ask_contrast (asked t) sf = ask_contrast (asked s) sf \<and> ask_slide (asked t) sf = ask_slide (asked s) sf"
    and own: "\<And>sf. surfaceForWindow E w = Some sf \<Longrightarrow> agrees E t w sf"
  shows "asked_ok E t"
  unfolding asked_ok_def
proof (intro conjI allI impI)
  show "we_effects t = Map.empty" by (rule effects)
  show "sd_location d \<noteq> NoEdge" if "we_slide_map t v = Some d" for v d
    using that slide other [of v] ok(1) by (cases "v = w") (auto simp: asked_ok_def)
  show "agrees E t v sf" if sf: "surfaceForWindow E v = Some sf" for v sf
  proof (cases "v = w")
    case False
    then have "surfaceForWindow E w \<noteq> Some sf" using surface_owner [OF ok(2,3) sf] by blast
    then show ?thesis using ok(1) sf other [OF False] settings [of sf] by (simp add: asked_ok_def agrees_def)
  qed (use own sf in simp)
qed

lemma settingsD:
  assumes "settings s = (b, c, d)"
  shows "ask_blur (asked s) = b" "ask_contrast (asked s) = c" "ask_slide (asked s) = d"
  using assms by (simp_all add: settings_def)

lemma effects_frame [simp]:
  "we_effects (trackWindow E w s) = we_effects s" "we_effects (releaseWindow w s) = we_effects s"
  "we_effects (installSlide E w loc x s) = we_effects s" "we_effects (installContrast E w b d s) = we_effects s"
  by (auto simp: trackWindow_def releaseWindow_def wl_connect_def wl_disconnect_def installSlide_def installContrast_def
      createRegion_def wl_send_def wl_new_child_def Let_def split: option.splits)

lemma effects_installBlur: "undisturbed E \<Longrightarrow> we_effects s = Map.empty \<Longrightarrow> we_effects (installBlur E w b r s) = Map.empty"
  by (auto simp: installBlur_def undisturbed_def createRegion_def wl_send_def wl_new_child_def Let_def split: option.splits)

lemma asked_installSlide:
  assumes st: "undisturbed E" and ok: "asked_ok E s" "natives_ok E" "surfaces_ok E"
    and u: "we_sent u = we_sent s" "we_effects u = we_effects s" "we_blur_regions u = we_blur_regions s"
      "we_contrast_regions u = we_contrast_regions s"
      "we_slide_map u = (we_slide_map s)(w := if loc = NoEdge then None else Some \<lparr>sd_location = loc, sd_offset = x\<rparr>)"
  shows "asked_ok E (installSlide E w loc x u)"
proof (rule asked_local [OF ok, of _ w])
  have a: "asked u = asked s" by (rule asked_sent [OF u(1)])
  show "agrees E (installSlide E w loc x u) w sf" if sf: "surfaceForWindow E w = Some sf" for sf
    using settingsD [OF settings_installSlide [OF st sf, of loc x u]] ok(1) sf u a
    by (simp add: agrees_def asked_ok_def slide_asked_def)
  show "ask_blur (asked (installSlide E w loc x u)) sf = ask_blur (asked s) sf \<and>
      ask_contrast (asked (installSlide E w loc x u)) sf = ask_contrast (asked s) sf \<and>
      ask_slide (asked (installSlide E w loc x u)) sf = ask_slide (asked s) sf" if "surfaceForWindow E w \<noteq> Some sf" for sf
  proof (cases "surfaceForWindow E w")
    case (Some sf')
    then show ?thesis using settingsD [OF settings_installSlide [OF st Some, of loc x u]] that a by simp
  qed (simp add: installs_without_surface a)
qed (use u ok(1) in \<open>auto simp: asked_ok_def split: if_splits\<close>)

lemma asked_installBlur:
  assumes st: "undisturbed E" and ok: "asked_ok E s" "natives_ok E" "surfaces_ok E"
    and u: "we_sent u = we_sent s" "we_effects u = we_effects s" "we_contrast_regions u = we_contrast_regions s"
      "we_slide_map u = we_slide_map s" "we_blur_regions u = (we_blur_regions s)(w := if b then Some r else None)"
  shows "asked_ok E (installBlur E w b r u)"
proof (rule asked_local [OF ok, of _ w])
  have a: "asked u = asked s" by (rule asked_sent [OF u(1)])
  have e: "we_effects u = Map.empty" using u(2) ok(1) by (simp add: asked_ok_def)
  then show "we_effects (installBlur E w b r u) = Map.empty" by (rule effects_installBlur [OF st])
  have w: "we_effects u w = None" using e by simp
  show "agrees E (installBlur E w b r u) w sf" if sf: "surfaceForWindow E w = Some sf" for sf
    using settingsD [OF settings_installBlur [OF st sf w, of b r]] ok(1) sf u a
    by (simp add: agrees_def asked_ok_def)
  show "ask_blur (asked (installBlur E w b r u)) sf = ask_blur (asked s) sf \<and>
      ask_contrast (asked (installBlur E w b r u)) sf = ask_contrast (asked s) sf \<and>
      ask_slide (asked (installBlur E w b r u)) sf = ask_slide (asked s) sf" if "surfaceForWindow E w \<noteq> Some sf" for sf
  proof (cases "surfaceForWindow E w")
    case (Some sf')
    then show ?thesis using settingsD [OF settings_installBlur [OF st Some w, of b r]] that a by simp
  qed (simp add: installs_without_surface a)
qed (use u ok(1) in \<open>auto simp: asked_ok_def split: if_splits\<close>)

lemma asked_installContrast:
  assumes st: "undisturbed E" and ok: "asked_ok E s" "natives_ok E" "surfaces_ok E"
    and u: "we_sent u = we_sent s" "we_effects u = we_effects s" "we_blur_regions u = we_blur_regions s"
      "we_slide_map u = we_slide_map s" "we_contrast_regions u = (we_contrast_regions s)(w := if b then Some d else None)"
  shows "asked_ok E (installContrast E w b d u)"
proof (rule asked_local [OF ok, of _ w])
  have a: "asked u = asked s" by (rule asked_sent [OF u(1)])
  show "agrees E (installContrast E w b d u) w sf" if sf: "surfaceForWindow E w = Some sf" for sf
    using settingsD [OF settings_installContrast [OF st sf, of b d u]] ok(1) sf u a
    by (simp add: agrees_def asked_ok_def)
  show "ask_blur (asked (installContrast E w b d u)) sf = ask_blur (asked s) sf \<and>
      ask_contrast (asked (installContrast E w b d u)) sf = ask_contrast (asked s) sf \<and>
      ask_slide (asked (installContrast E w b d u)) sf = ask_slide (asked s) sf" if "surfaceForWindow E w \<noteq> Some sf" for sf
  proof (cases "surfaceForWindow E w")
    case (Some sf')
    then show ?thesis using settingsD [OF settings_installContrast [OF st Some, of b d u]] that a by simp
  qed (simp add: installs_without_surface a)
qed (use u ok(1) in \<open>auto simp: asked_ok_def split: if_splits\<close>)

text \<open>States in which the wishes, the requests and the objects of the newer protocol are the same.\<close>

lemma asked_same:
  "asked_ok E s \<Longrightarrow> we_sent t = we_sent s \<Longrightarrow> we_effects t = we_effects s \<Longrightarrow> we_blur_regions t = we_blur_regions s \<Longrightarrow>
   we_contrast_regions t = we_contrast_regions s \<Longrightarrow> we_slide_map t = we_slide_map s \<Longrightarrow> asked_ok E t"
  by (simp add: asked_ok_def agrees_def asked_def)

lemma asked_track: "asked_ok E s \<Longrightarrow> asked_ok E (trackWindow E w s)"
  by (erule asked_same) simp_all

lemma asked_call_slide:
  assumes "undisturbed E" "asked_ok E s" "natives_ok E" "surfaces_ok E"
  shows "asked_ok E (wl_slideWindow E w loc x s)"
  using assms unfolding wl_slideWindow_def Let_def
  by (auto intro!: asked_installSlide asked_track)

lemma asked_call_blur:
  assumes st: "undisturbed E" and ok: "asked_ok E s" "natives_ok E" "surfaces_ok E"
  shows "asked_ok E (wl_enableBlurBehind E w b r s)"
proof -
  have "we_effects (s\<lparr>we_blur_regions := m\<rparr>) w = None" for m using ok(1) by (simp add: asked_ok_def)
  then have "we_sent (resetBlur w None (s\<lparr>we_blur_regions := m\<rparr>)) = we_sent s" for m by (simp add: sent_reset)
  moreover have "we_effects (resetBlur w None (s\<lparr>we_blur_regions := m\<rparr>)) = we_effects s" for m
    using ok(1) by (auto simp: asked_ok_def)
  ultimately show ?thesis using assms unfolding wl_enableBlurBehind_def Let_def
    by (auto intro!: asked_installBlur asked_track simp: we_coreD [OF core_reset(1)])
qed

lemma asked_call_contrast:
  assumes st: "undisturbed E" and ok: "asked_ok E s" "natives_ok E" "surfaces_ok E"
  shows "asked_ok E (wl_enableBackgroundContrast E w b d s)"
  using assms unfolding wl_enableBackgroundContrast_def Let_def
  by (auto intro!: asked_installContrast asked_track simp: sent_reset we_coreD [OF core_reset(2)])

text \<open>The three parts of the handling of an expose event.\<close>

definition expose_blur :: "wl_env \<Rightarrow> nat \<Rightarrow> window_effects \<Rightarrow> window_effects" where
  "expose_blur E w s = (case we_blur_regions s w of None \<Rightarrow> s | Some r \<Rightarrow> installBlur E w True r s)"

definition expose_contrast :: "wl_env \<Rightarrow> nat \<Rightarrow> window_effects \<Rightarrow> window_effects" where
  "expose_contrast E w s = (case we_contrast_regions s w of None \<Rightarrow> s | Some d \<Rightarrow> installContrast E w True d s)"

definition expose_slide :: "wl_env \<Rightarrow> nat \<Rightarrow> window_effects \<Rightarrow> window_effects" where
  "expose_slide E w s = (case we_slide_map s w of None \<Rightarrow> s | Some d \<Rightarrow> installSlide E w (sd_location d) (sd_offset d) s)"

lemma expose_parts:
  "snd (wl_eventFilter E w WlExpose s) =
     (if wl_exposed E w then expose_slide E w (expose_contrast E w (expose_blur E w s)) else s)"
  by (simp add: wl_eventFilter_def Let_def expose_blur_def expose_contrast_def expose_slide_def)

lemma core_expose_parts [core_simps]:
  "we_core (expose_blur E w s) = we_core s" "we_core (expose_contrast E w s) = we_core s" "we_core (expose_slide E w s) = we_core s"
  by (simp_all add: expose_blur_def expose_contrast_def expose_slide_def core_simps split: option.split)

lemma asked_expose_parts:
  assumes st: "undisturbed E" and env: "natives_ok E" "surfaces_ok E" and ok: "asked_ok E s"
  shows "asked_ok E (expose_blur E w s)" "asked_ok E (expose_contrast E w s)" "asked_ok E (expose_slide E w s)"
proof -
  show "asked_ok E (expose_blur E w s)" unfolding expose_blur_def using ok
    by (auto split: option.split intro!: asked_installBlur [OF st ok env] simp: fun_upd_idem)
  show "asked_ok E (expose_contrast E w s)" unfolding expose_contrast_def using ok
    by (auto split: option.split intro!: asked_installContrast [OF st ok env] simp: fun_upd_idem)
  have "sd_location d \<noteq> NoEdge" if "we_slide_map s w = Some d" for d using that ok by (simp add: asked_ok_def)
  then show "asked_ok E (expose_slide E w s)" unfolding expose_slide_def using ok
    by (auto split: option.split intro!: asked_installSlide [OF st ok env] simp: fun_upd_idem)
qed

lemma asked_expose:
  "undisturbed E \<Longrightarrow> natives_ok E \<Longrightarrow> surfaces_ok E \<Longrightarrow> asked_ok E s \<Longrightarrow> asked_ok E (snd (wl_eventFilter E w WlExpose s))"
  by (simp add: expose_parts asked_expose_parts)

text \<open>Steps after which no window has a surface it did not have before, but perhaps a fresh one.\<close>

lemma asked_transfer:
  assumes ok: "asked_ok E s" and fixed: "wl_fixed E' = wl_fixed E" and settings: "settings t = settings s"
    and effects: "we_effects t = Map.empty" and slide: "\<And>w d. we_slide_map t w = Some d \<Longrightarrow> sd_location d \<noteq> NoEdge"
    and surface: "\<And>v sf. surfaceForWindow E' v = Some sf \<Longrightarrow>
      fresh_surface sf E s \<or> surfaceForWindow E v = Some sf \<and> we_blur_regions t v = we_blur_regions s v \<and>
        we_contrast_regions t v = we_contrast_regions s v \<and> we_slide_map t v = we_slide_map s v"
  shows "asked_ok E' t"
  unfolding asked_ok_def
proof (intro conjI allI impI)
  fix v sf
  assume "surfaceForWindow E' v = Some sf"
  from surface [OF this] show "agrees E' t v sf"
  proof
    assume "fresh_surface sf E s"
    then show ?thesis using settings by (simp add: agrees_def settings_def fresh_asked)
  next
    have eq: "contrast_asked E' = contrast_asked E" using fixed by (simp add: contrast_asked_def fun_eq_iff)
    assume "surfaceForWindow E v = Some sf \<and> we_blur_regions t v = we_blur_regions s v \<and>
      we_contrast_regions t v = we_contrast_regions s v \<and> we_slide_map t v = we_slide_map s v"
    then show ?thesis using ok settings eq by (simp add: agrees_def asked_ok_def settings_def)
  qed
qed (use effects slide in auto)

lemma asked_release: "fold ask (map ProxyRelease qs) a = a"
  by (induction qs) simp_all

lemma settings_send_release: "settings (wl_send (map ProxyRelease qs) s) = settings s"
  by (simp add: settings_def asked_send asked_release)

lemma settings_delete:
  "settings (wl_deferred_delete s) = settings s" "settings (wl_delete_children w s) = settings s"
  unfolding wl_deferred_delete_def wl_delete_children_def Let_def settings_send_release by (rule settings_sent; simp)+

lemma fire_sent:
  assumes "we_effects s = Map.empty"
  shows "we_sent (fire_surface_destroyed n s) = we_sent s \<and> we_effects (fire_surface_destroyed n s) = Map.empty"
  unfolding fire_surface_destroyed_def
proof (rule fold_invariant [where P = "\<lambda>t. we_sent t = we_sent s \<and> we_effects t = Map.empty" and Q = "\<lambda>_. True"])
  fix c and t :: window_effects
  assume t: "we_sent t = we_sent s \<and> we_effects t = Map.empty"
  then have "we_sent (on_surface_destroyed w t) = we_sent s \<and> we_effects (on_surface_destroyed w t) = Map.empty" for w
    by (auto simp: on_surface_destroyed_def sent_reset)
  then show "we_sent (case we_conns t c of Some (OfNative m w) \<Rightarrow> if m = n then on_surface_destroyed w t else t | _ \<Rightarrow> t) = we_sent s \<and>
      we_effects (case we_conns t c of Some (OfNative m w) \<Rightarrow> if m = n then on_surface_destroyed w t else t | _ \<Rightarrow> t) = Map.empty"
    using t by (simp split: option.split wl_sender.split)
qed (use assms in auto)

section \<open>Every state that can be reached with the same managers\<close>

definition steady_ok :: "wl_env \<Rightarrow> window_effects \<Rightarrow> bool" where
  "steady_ok E s \<longleftrightarrow> undisturbed E \<and> surfaces_ok E \<and> effects_ok E s \<and> asked_ok E s"

lemma asked_native_created:
  assumes ok: "asked_ok E s" and E': "E' = E\<lparr>wl_native := (wl_native E)(w \<mapsto> n)\<rparr>" and n: "wl_surface E n = None"
  shows "asked_ok E' (if b then snd (wl_eventFilter E' w (WlPlatformSurface True) s) else s)"
proof (rule asked_transfer [OF ok])
  let ?t = "if b then snd (wl_eventFilter E' w (WlPlatformSurface True) s) else s"
  have t: "we_sent ?t = we_sent s" "we_effects ?t = we_effects s" "we_blur_regions ?t = we_blur_regions s"
    "we_contrast_regions ?t = we_contrast_regions s" "we_slide_map ?t = we_slide_map s"
    by (auto simp: wl_eventFilter_def Let_def wl_connect_def wl_disconnect_def split: option.split)
  show "wl_fixed E' = wl_fixed E" by (simp add: E')
  show "settings ?t = settings s" by (rule settings_sent [OF t(1)])
  show "we_effects ?t = Map.empty" using t(2) ok by (simp only: asked_ok_def)
  show "sd_location d \<noteq> NoEdge" if "we_slide_map ?t v = Some d" for v d
    using that ok unfolding t(5) by (simp add: asked_ok_def)
  show "fresh_surface sf E s \<or> surfaceForWindow E v = Some sf \<and> we_blur_regions ?t v = we_blur_regions s v \<and>
      we_contrast_regions ?t v = we_contrast_regions s v \<and> we_slide_map ?t v = we_slide_map s v"
    if "surfaceForWindow E' v = Some sf" for v sf
    unfolding t using that n by (cases "v = w") (auto simp: surfaceForWindow_def E' split: option.splits)
qed

lemma asked_surface_created:
  assumes ok: "asked_ok E s" and fresh: "fresh_surface sf E s"
  shows "asked_ok (E\<lparr>wl_surface := (wl_surface E)(n \<mapsto> sf)\<rparr>) s"
  by (rule asked_transfer [OF ok]) (use ok fresh in \<open>auto simp: asked_ok_def surfaceForWindow_def split: option.splits if_splits\<close>)

lemma asked_surface_destroyed:
  assumes ok: "asked_ok E s"
  shows "asked_ok (E\<lparr>wl_surface := (wl_surface E)(n := None)\<rparr>) (fire_surface_destroyed m s)"
proof (rule asked_transfer [OF ok])
  have e: "we_effects s = Map.empty" using ok by (simp add: asked_ok_def)
  show "settings (fire_surface_destroyed m s) = settings s" using fire_sent [OF e] by (intro settings_sent) simp
  show "we_effects (fire_surface_destroyed m s) = Map.empty" using fire_sent [OF e] by simp
qed (use ok in \<open>auto simp: we_coreD [OF core_fire] asked_ok_def surfaceForWindow_def split: option.splits if_splits\<close>)

lemma asked_native_destroyed:
  assumes ok: "asked_ok E s"
  shows "asked_ok (E\<lparr>wl_native := (wl_native E)(w := None)\<rparr>) (drop_senders P s)"
  by (rule asked_transfer [OF ok])
    (use ok in \<open>auto simp: drop_senders_def asked_ok_def surfaceForWindow_def settings_def asked_def split: option.splits if_splits\<close>)

lemma asked_window_dies:
  assumes ok: "asked_ok E s" "tracking_ok E s" and none: "wl_native E w = None"
  shows "asked_ok E (window_dies w s)"
proof (rule window_dies_handlers [OF ok(2), of w])
  fix t
  assume w: "window_dies w s = (wl_delete_children w (drop_senders (sent_by_window w) t))\<lparr>we_filters := we_filters s - {w}\<rparr>"
    and t: "t = on_window_destroyed w s \<or> we_window_watch s w = None \<and> t = s"
  have e: "we_effects s = Map.empty" using ok(1) by (simp add: asked_ok_def)
  have "we_sent (on_window_destroyed w s) = we_sent s"
    using sent_reset(1) [of s w None] e by (simp add: on_window_destroyed_def Let_def sent_reset)
  then have t': "we_sent t = we_sent s" "we_effects t = Map.empty" "\<And>v. v \<noteq> w \<Longrightarrow> we_blur_regions t v = we_blur_regions s v"
    "\<And>v. v \<noteq> w \<Longrightarrow> we_contrast_regions t v = we_contrast_regions s v" "\<And>v. v \<noteq> w \<Longrightarrow> we_slide_map t v = we_slide_map s v"
    "\<And>d. we_slide_map t w = Some d \<Longrightarrow> we_slide_map s w = Some d"
    using t e by (auto simp: fun_eq_iff)
  show ?thesis
  proof (rule asked_transfer [OF ok(1) refl])
    have "settings (window_dies w s) = settings (wl_delete_children w (drop_senders (sent_by_window w) t))"
      unfolding w by (rule settings_sent) simp
    also have "\<dots> = settings s" unfolding settings_delete by (rule settings_sent) (simp add: drop_senders_def t')
    finally show "settings (window_dies w s) = settings s" .
    show "we_effects (window_dies w s) = Map.empty" unfolding w using t'(2)
      by (simp add: wl_delete_children_def wl_send_def drop_senders_def Let_def)
    have maps: "we_blur_regions (window_dies w s) = we_blur_regions t" "we_contrast_regions (window_dies w s) = we_contrast_regions t"
      "we_slide_map (window_dies w s) = we_slide_map t"
      unfolding w by (simp_all add: wl_delete_children_def wl_send_def drop_senders_def Let_def)
    show "sd_location d \<noteq> NoEdge" if "we_slide_map (window_dies w s) v = Some d" for v d
      using that ok(1) t'(5,6) unfolding maps by (cases "v = w") (auto simp: asked_ok_def)
    show "fresh_surface sf E s \<or> surfaceForWindow E v = Some sf \<and> we_blur_regions (window_dies w s) v = we_blur_regions s v \<and>
      we_contrast_regions (window_dies w s) v = we_contrast_regions s v \<and> we_slide_map (window_dies w s) v = we_slide_map s v"
      if "surfaceForWindow E v = Some sf" for v sf
      using that none t' unfolding maps by (cases "v = w") (auto simp: surfaceForWindow_def)
  qed
qed

lemma asked_deferred: "asked_ok E s \<Longrightarrow> asked_ok E (wl_deferred_delete s)"
  by (rule asked_transfer [OF _ refl settings_delete(1)])
    (auto simp: asked_ok_def wl_deferred_delete_def wl_send_def)

lemma surface_env:
  "wl_native E' = wl_native E \<Longrightarrow> wl_surface E' = wl_surface E \<Longrightarrow> surfaceForWindow E' = surfaceForWindow E"
  "wl_fixed E' = wl_fixed E \<Longrightarrow> contrast_asked E' = contrast_asked E"
  by (rule ext, simp add: surfaceForWindow_def contrast_asked_def split: option.split)+

lemma asked_env:
  "asked_ok E s \<Longrightarrow> wl_fixed E' = wl_fixed E \<Longrightarrow> wl_native E' = wl_native E \<Longrightarrow> wl_surface E' = wl_surface E \<Longrightarrow> asked_ok E' s"
  using surface_env [of E' E] by (simp add: asked_ok_def agrees_def)

lemma surfaces_created: "surfaces_ok E \<Longrightarrow> fresh_surface sf E s \<Longrightarrow> surfaces_ok (E\<lparr>wl_surface := (wl_surface E)(n \<mapsto> sf)\<rparr>)"
  by (auto simp: surfaces_ok_def fresh_surface_def inj_on_def)

lemma surfaces_destroyed: "surfaces_ok E \<Longrightarrow> surfaces_ok (E\<lparr>wl_surface := (wl_surface E)(n := None)\<rparr>)"
  by (auto simp: surfaces_ok_def inj_on_def)

lemma steady_step:
  assumes step: "wl_step False c c'" and ok: "steady_ok (fst c) (snd c)"
  shows "steady_ok (fst c') (snd c')"
proof -
  have "effects_ok (fst c') (snd c')" using effects_step [OF step] ok by (simp add: steady_ok_def)
  moreover have "undisturbed (fst c') \<and> surfaces_ok (fst c') \<and> asked_ok (fst c') (snd c')"
    using step ok
  proof cases
    case (native_created E w n E' s' s)
    then show ?thesis using ok asked_native_created [of E s E' w n "w \<in> we_filters s"]
      by (simp add: steady_ok_def undisturbed_def surfaces_ok_def)
  next
    case (window_destroyed E w s)
    then show ?thesis using ok asked_window_dies [of E s w] by (simp add: steady_ok_def effects_ok_def)
  qed (simp_all add: steady_ok_def effects_ok_def asked_call_slide asked_call_blur asked_call_contrast asked_expose asked_deferred
      asked_surface_created asked_surface_destroyed asked_native_destroyed surfaces_created surfaces_destroyed,
      simp_all add: undisturbed_def surfaces_ok_def asked_env [where E = "fst c"])
  ultimately show ?thesis by (simp add: steady_ok_def)
qed

lemma initial_ok: "wl_initial E \<Longrightarrow> effects_ok E new_window_effects"
  by (auto simp: wl_initial_def effects_ok_def natives_ok_def tracking_ok_def watch_ok_def wanted_def objects_ok_def linked_def
      new_window_effects_def)

lemma reachable_effects_ok: "wl_reachable change E0 c \<Longrightarrow> effects_ok (fst c) (snd c)"
  by (induction rule: wl_reachable.induct) (simp_all add: initial_ok effects_step)

lemma reachable_steady_ok: "wl_reachable False E0 c \<Longrightarrow> undisturbed E0 \<Longrightarrow> steady_ok (fst c) (snd c)"
proof (induction rule: wl_reachable.induct)
  case wl_start
  then show ?case using initial_ok [OF wl_start(1)]
    by (auto simp: steady_ok_def surfaces_ok_def wl_initial_def asked_ok_def surfaceForWindow_def new_window_effects_def inj_on_def
        split: option.splits)
qed (simp add: steady_step)

end
