(* ===== verification/WlProperties.thy ===== *)
theory WlProperties
  imports WlAsked
begin

text \<open>
  Properties of the effects on Wayland: well-formed states, settings that are never stale, the loss of a surface,
  and two things that stay behind: objects of slides, and effects of surfaces that are gone.
\<close>

section \<open>Facts of reachable states\<close>

lemma reachable_tracking: "wl_reachable change E0 (E, s) \<Longrightarrow> tracking_ok E s"
  and reachable_natives: "wl_reachable change E0 (E, s) \<Longrightarrow> natives_ok E"
  and reachable_objects: "wl_reachable change E0 (E, s) \<Longrightarrow> objects_ok s"
  and reachable_linked: "wl_reachable change E0 (E, s) \<Longrightarrow> linked s"
  using reachable_effects_ok [of change E0 "(E, s)"] by (auto simp: effects_ok_def)

lemma reachable_asked: "wl_reachable False E0 (E, s) \<Longrightarrow> undisturbed E0 \<Longrightarrow>
    undisturbed E \<and> natives_ok E \<and> surfaces_ok E \<and> asked_ok E s"
  using reachable_steady_ok [of E0 "(E, s)"] by (simp add: steady_ok_def effects_ok_def)


text \<open>The handlers a window of the platform has when its surface goes: none, or the one of its window.\<close>

lemma fire_handlers:
  assumes ok: "watch_ok E s" "natives_ok E" and n: "wl_native E w = Some n"
  shows "fire_surface_destroyed n s = (case we_surface_watch s w of None \<Rightarrow> s | Some c \<Rightarrow> on_surface_destroyed w s)"
proof -
  have conn: "we_conns s c = Some (OfNative n v) \<longleftrightarrow> v = w \<and> we_surface_watch s w = Some c" for c v
    using watch_native [OF ok(1), of c n v] n inj_onD [of "wl_native E" _ v w] ok(2)
    by (auto simp: natives_ok_def domI)
  let ?f = "\<lambda>c t. case we_conns t c of Some (OfNative m v) \<Rightarrow> if m = n then on_surface_destroyed v t else t | _ \<Rightarrow> t"
  have fold: "fold ?f cs t = (if c \<in> set cs then on_surface_destroyed w t else t)"
    if "distinct cs" "we_surface_watch s w = Some c" "we_conns t = we_conns s" for cs t c
    using that
  proof (induction cs arbitrary: t)
    case (Cons k ks)
    have step: "?f k t = (if k = c then on_surface_destroyed w t else t)"
    proof (cases "k = c")
      case True
      then show ?thesis using conn [of c w] Cons.prems by simp
    next
      case False
      then show ?thesis using conn [of k] Cons.prems by (auto split: option.split wl_sender.split)
    qed
    have "we_conns (?f k t) = we_conns s" unfolding step using Cons.prems(3) by (simp add: we_coreD(7) [OF core_reset(3)])
    then show ?case using Cons.prems step by (auto simp: Cons.IH)
  qed simp
  have none: "fold ?f cs s = s" if "we_surface_watch s w = None" for cs
    using conn that by (induction cs) (auto split: option.split wl_sender.split)
  show ?thesis
  proof (cases "we_surface_watch s w")
    case None
    then show ?thesis by (simp add: fire_surface_destroyed_def none)
  next
    case (Some c)
    then have "c \<in> set [0..<we_next s]" using watch_less [OF ok(1), of w c] by simp
    then show ?thesis using Some by (simp add: fire_surface_destroyed_def fold [OF distinct_upt Some refl])
  qed
qed

section \<open>Well-formed states\<close>


definition demo_wl :: wl_env where
  "demo_wl = \<lparr>wl_blur = True, wl_contrast = True, wl_slide = True, wl_effect = False, wl_supports = False, wl_compositor = True,
     wl_native = [1 \<mapsto> 7], wl_surface = Map.empty, wl_exposed = (\<lambda>_. True), wl_fixed = (\<lambda>_. 256)\<rparr>"

definition demo_wl_shown :: wl_env where
  "demo_wl_shown = demo_wl\<lparr>wl_surface := [7 \<mapsto> 3]\<rparr>"

definition demo_blurred :: window_effects where
  "demo_blurred = wl_enableBlurBehind demo_wl 1 True [(0, 0, 5, 5)] new_window_effects"

lemma reachable_shown:
  assumes E: "wl_native E = [1 \<mapsto> 7]" "wl_surface E = Map.empty"
  shows "wl_reachable change E (E\<lparr>wl_surface := [7 \<mapsto> 3]\<rparr>, wl_enableBlurBehind E 1 True [(0, 0, 5, 5)] new_window_effects)"
proof -
  let ?s = "wl_enableBlurBehind E 1 True [(0, 0, 5, 5)] new_window_effects"
  have "wl_reachable change E (E, new_window_effects)"
    by (rule wl_start) (simp add: wl_initial_def E inj_on_def)
  then have "wl_reachable change E (E, ?s)" by (rule wl_next) (rule call_blur)
  moreover have "we_sent ?s = []"
    by (simp add: wl_enableBlurBehind_def trackWindow_def wl_connect_def installBlur_def surfaceForWindow_def
        new_window_effects_def E Let_def)
  then have "fresh_surface 3 E ?s" by (simp add: fresh_surface_def E)
  then have "wl_step change (E, ?s) (E\<lparr>wl_surface := (wl_surface E)(7 \<mapsto> 3)\<rparr>, ?s)"
    by (intro surface_created [where w = 1]) (simp_all add: E)
  ultimately have "wl_reachable change E (E\<lparr>wl_surface := (wl_surface E)(7 \<mapsto> 3)\<rparr>, ?s)" by (rule wl_next)
  then show ?thesis by (simp add: E)
qed

lemma demo_reachable: "wl_reachable change demo_wl (demo_wl_shown, demo_blurred)"
  unfolding demo_wl_shown_def demo_blurred_def by (rule reachable_shown) (simp_all add: demo_wl_def)


section \<open>Settings\<close>

text \<open>While the compositor offers the managers of Plasma and no background effects: whatever the program calls and
  whatever happens to its windows, the blur, the contrast and the slide the requests set for the surface of a window
  are what the program wants for it now, or nothing.\<close>

theorem settings_never_stale:
  assumes "wl_reachable False E0 (E, s)" "undisturbed E0" "surfaceForWindow E w = Some sf"
  shows "ask_blur (asked s) sf \<in> {None, we_blur_regions s w} \<and>
    ask_contrast (asked s) sf \<in> {None, map_option (contrast_asked E) (we_contrast_regions s w)} \<and>
    ask_slide (asked s) sf \<in> {None, map_option slide_asked (we_slide_map s w)}"
  using reachable_asked [OF assms(1,2)] assms(3) by (auto simp: asked_ok_def agrees_def not_stale_def)

lemma demo_steady: "undisturbed demo_wl"
  by (simp add: undisturbed_def demo_wl_def)

lemma demo_shown: "surfaceForWindow demo_wl_shown 1 = Some 3"
  by (simp add: surfaceForWindow_def demo_wl_shown_def demo_wl_def)

theorem settings_never_stale_witness:
  "ask_blur (asked demo_blurred) 3 \<in> {None, we_blur_regions demo_blurred 1}"
  using settings_never_stale [OF demo_reachable demo_steady demo_shown] by simp




section \<open>Surfaces that go\<close>

text \<open>When the surface of a window goes, the window keeps no object for blur, contrast or background effects
  whatever it had: the old objects of blur and contrast wait for their deletion, the one of the background effect is
  destroyed, and what is wanted for the window stays noted.  This needs that every window with a wish is watched.\<close>

theorem surface_loss_resets:
  assumes reach: "wl_reachable change E0 (E, s)" and n: "wl_native E w = Some n"
    and watched: "we_window_watch s w \<noteq> None" and t: "t = fire_surface_destroyed n s"
  shows "we_blurs t w = None \<and> we_contrasts t w = None \<and> we_effects t w = None \<and>
    (\<forall>q. we_blurs s w = Some q \<or> we_contrasts s w = Some q \<longrightarrow> q \<in> set (we_doomed t)) \<and>
    we_blur_regions t = we_blur_regions s \<and> we_contrast_regions t = we_contrast_regions s \<and> we_slide_map t = we_slide_map s"
proof -
  have ok: "watch_ok E s" by (rule tracking_watch [OF reachable_tracking [OF reach]])
  have obj: "objects_ok s" by (rule reachable_objects [OF reach])
  obtain c where c: "we_surface_watch s w = Some c" using watch_has [OF ok watched] n by auto
  have eq: "t = on_surface_destroyed w s" using fire_handlers [OF ok reachable_natives [OF reach] n] c t by simp
  have live: "q \<in> fst ` set (we_children s)" if "we_blurs s w = Some q \<or> we_contrasts s w = Some q" for q
    using that objects_blur [OF obj, of w q] objects_contrast [OF obj, of w q] by force
  have kept: "set (we_doomed u) \<subseteq> set (we_doomed (resetContrast w None u))" for u
    by (auto simp: resetContrast_def replace_contrast_def wl_delete_later_def Let_def split: option.split)
  have blur: "q \<in> set (we_doomed (resetBlur w None s))" if "we_blurs s w = Some q" for q
    using that live [of q] by (auto simp: resetBlur_def replace_blur_def erase_effect_def wl_delete_later_def wl_send_def Let_def split: option.split)
  have contrast: "q \<in> set (we_doomed (resetContrast w None u))" if "we_contrasts u w = Some q" "we_children u = we_children s" "we_contrasts s w = Some q" for u q
    using that live [of q] by (auto simp: resetContrast_def replace_contrast_def wl_delete_later_def Let_def)
  have children: "we_children (resetBlur w None s) = we_children s"
    by (simp add: resetBlur_def replace_blur_def erase_effect_def wl_delete_later_def wl_send_def Let_def split: option.split)
  have "q \<in> set (we_doomed t)" if "we_blurs s w = Some q \<or> we_contrasts s w = Some q" for q
    using that blur [of q] contrast [of "resetBlur w None s" q] kept [of "resetBlur w None s"] children
    unfolding eq on_surface_destroyed_def by auto
  then show ?thesis unfolding eq using we_coreD [OF core_reset(3)] by (simp add: on_surface_destroyed_def)
qed

theorem surface_loss_resets_witness:
  "we_blurs (fire_surface_destroyed 7 demo_blurred) 1 = None"
proof -
  have "we_window_watch demo_blurred 1 \<noteq> None" "wl_native demo_wl_shown 1 = Some 7"
    by (simp_all add: demo_blurred_def wl_enableBlurBehind_def Let_def new_window_effects_def we_coreD [OF core_install(2)]
        trackWindow_def wl_connect_def demo_wl_def demo_wl_shown_def)
  then show ?thesis using surface_loss_resets [OF demo_reachable _ _ refl] by blast
qed

section \<open>An effect of a surface that is gone\<close>

lemma watch_of_released:
  assumes "we_contrast_regions s w = None" "we_slide_map s w = None"
  shows "we_window_watch (wl_enableBlurBehind E w False r s) w = None \<or> we_blur_regions s w = None"
  using assms by (auto simp: wl_enableBlurBehind_def we_coreD [OF core_install(2)] wanted_def we_coreD [OF core_reset(1)])

text \<open>C36.  With the protocol for background effects, taking the blur of a window back leaves an object behind: the reset
  destroys the window's object, the window is released, and the installation that follows makes a new object for
  the surface, for a window that is not watched any more.  When the surface goes nothing resets it; and when blur is
  wanted again after the window has got a new surface, the region is set on the object of the surface that is gone,
  and no object is made for the new one.\<close>

theorem blur_set_on_a_dead_surface:
  assumes reach: "wl_reachable change E0 (E, s)"
    and manager: "wl_effect E" "wl_supports E" and n: "wl_native E w = Some n" and sf: "wl_surface E n = Some sf"
    and wish: "we_blur_regions s w = Some r" "we_contrast_regions s w = None" "we_slide_map s w = None"
    and off: "t = wl_enableBlurBehind E w False r' s"
    and gone: "E1 = E\<lparr>wl_surface := (wl_surface E)(n := None)\<rparr>" "t1 = fire_surface_destroyed n t"
    and new: "E2 = E1\<lparr>wl_surface := (wl_surface E1)(n \<mapsto> sf')\<rparr>"
    and on: "t2 = wl_enableBlurBehind E2 w True r2 t1"
  shows "\<exists>q es g. we_effects t1 w = Some q \<and> ask_target (asked t1) q = Some sf \<and> we_window_watch t1 w = None \<and>
    we_sent t2 = we_sent t1 @ es \<and> EffectSetRegion q g \<in> set es \<and> (\<forall>p. EffectGet sf' p \<notin> set es)"
proof -
  define u where "u = releaseWindow w (resetBlur w None (s\<lparr>we_blur_regions := (we_blur_regions s)(w := None)\<rparr>))"
  define v where "v = replace_blur w None u"
  define q where "q = we_next v"
  have surf: "surfaceForWindow E w = Some sf" using n sf by (simp add: surfaceForWindow_def)
  have "wl_effect E2" "wl_supports E2" "surfaceForWindow E2 w = Some sf'"
    using manager n by (simp_all add: gone new surfaceForWindow_def)
  note E2 = this
  have u: "we_effects u w = None" "we_window_watch u w = None" "we_blur_regions u w = None"
    unfolding u_def using wish by (simp_all add: wanted_def we_coreD [OF core_reset(1)])
  have t: "t = install_effect E w sf False r' v"
    using off wish surf manager by (simp add: wl_enableBlurBehind_def installBlur_def u_def v_def Let_def)
  have v: "we_effects v w = None" unfolding v_def using u(1) by simp
  have t': "t = wl_send [EffectSetRegion q None] (wl_send [EffectGet sf q] (v\<lparr>we_effects := (we_effects v)(w \<mapsto> q), we_next := Suc q\<rparr>))"
    unfolding t install_effect_def effect_of_def q_def by (simp add: v Let_def)
  have effect: "we_effects t w = Some q" unfolding t' by (simp add: wl_send_def)
  have target: "ask_target (asked t) q = Some sf" unfolding t' by (simp add: asked_send)
  have ok: "tracking_ok E t" unfolding off by (rule tracking_blur [OF reachable_tracking [OF reach]])
  have watch: "we_window_watch t w = None" unfolding off using watch_of_released [OF wish(2,3)] wish(1) by force
  have "t1 = t"
    using fire_handlers [OF tracking_watch [OF ok] reachable_natives [OF reach] n] watch_unwatched [OF tracking_watch [OF ok] watch]
    unfolding gone by simp
  define x where "x = replace_blur w None ((trackWindow E2 w t)\<lparr>we_blur_regions := (we_blur_regions t)(w \<mapsto> r2)\<rparr>)"
  have "we_blur_regions t w = None" unfolding t using we_coreD(1) [OF core_install_effect] we_coreD(1) [OF core_objects(2)] u(3)
    by (simp add: v_def)
  then have t2: "t2 = install_effect E2 w sf' True r2 x"
    unfolding on \<open>t1 = t\<close> using E2 by (simp add: wl_enableBlurBehind_def installBlur_def x_def Let_def)
  have x: "we_effects x w = Some q" "we_sent x = we_sent t" unfolding x_def using effect by simp_all
  obtain g y where g: "createRegion E2 (if r2 = [] then whole_window else r2) x = (g, y)" by (cases "createRegion E2 (if r2 = [] then whole_window else r2) x")
  then obtain es where es: "we_sent y = we_sent x @ es" "\<And>p. EffectGet sf' p \<notin> set es"
    by (auto simp: createRegion_def wl_send_def image_iff split: if_splits)
  have "we_sent t2 = we_sent t @ es @ EffectSetRegion q g # (case g of None \<Rightarrow> [] | Some h \<Rightarrow> [RegionDestroy h])"
    unfolding t2 install_effect_def effect_of_def using g es(1) x by (simp add: Let_def wl_send_def split: option.split)
  moreover have "EffectGet sf' p \<notin> set (es @ EffectSetRegion q g # (case g of None \<Rightarrow> [] | Some h \<Rightarrow> [RegionDestroy h]))" for p
    using es(2) by (simp split: option.split)
  ultimately show ?thesis unfolding \<open>t1 = t\<close> using effect target watch
    by (intro exI [of _ q] exI [of _ "es @ EffectSetRegion q g # (case g of None \<Rightarrow> [] | Some h \<Rightarrow> [RegionDestroy h])"] exI [of _ g]) simp
qed

definition demo_ext :: wl_env where
  "demo_ext = demo_wl\<lparr>wl_effect := True, wl_supports := True\<rparr>"

theorem blur_set_on_a_dead_surface_witness:
  "\<exists>q es g. EffectSetRegion q g \<in> set es \<and> (\<forall>p. EffectGet 4 p \<notin> set es) \<and>
    ask_target (asked (fire_surface_destroyed 7 (wl_enableBlurBehind (demo_ext\<lparr>wl_surface := [7 \<mapsto> 3]\<rparr>) 1 False []
      (wl_enableBlurBehind demo_ext 1 True [(0, 0, 5, 5)] new_window_effects)))) q = Some 3"
proof -
  let ?s = "wl_enableBlurBehind demo_ext 1 True [(0, 0, 5, 5)] new_window_effects"
  have "wl_reachable True demo_ext (demo_ext\<lparr>wl_surface := [7 \<mapsto> 3]\<rparr>, ?s)"
    by (rule reachable_shown) (simp_all add: demo_ext_def demo_wl_def)
  moreover have "we_blur_regions ?s 1 = Some [(0, 0, 5, 5)]" "we_contrast_regions ?s 1 = None" "we_slide_map ?s 1 = None"
    by (simp_all add: wl_enableBlurBehind_def Let_def new_window_effects_def)
  ultimately show ?thesis
    using blur_set_on_a_dead_surface [of True demo_ext "demo_ext\<lparr>wl_surface := [7 \<mapsto> 3]\<rparr>" ?s 1 7 3 "[(0, 0, 5, 5)]" _ "[]" _ _ _ 4 _ "[]",
        OF _ _ _ _ _ _ _ _ refl refl refl refl refl]
    by (simp add: demo_ext_def demo_wl_def) blast
qed

section \<open>Slides pile up\<close>

definition children_of :: "nat \<Rightarrow> window_effects \<Rightarrow> (nat \<times> nat) list" where
  "children_of w s = filter (\<lambda>(q, v). v = w) (we_children s)"

lemma expose_slide_step:
  assumes E: "wl_slide E" "wl_exposed E w" "surfaceForWindow E w = Some sf"
    and wish: "we_blur_regions s w = None" "we_contrast_regions s w = None" "we_slide_map s w = Some d" "sd_location d \<noteq> NoEdge"
    and s: "we_doomed s = []" and t: "t = wl_deferred_delete (snd (wl_eventFilter E w WlExpose s))"
  shows "length (children_of w t) = Suc (length (children_of w s))" "we_blur_regions t w = None" "we_contrast_regions t w = None"
    "we_slide_map t w = Some d" "we_doomed t = []"
proof -
  have t': "t = wl_deferred_delete (installSlide E w (sd_location d) (sd_offset d) s)"
    using t wish E by (simp add: expose_parts expose_blur_def expose_contrast_def expose_slide_def)
  show "length (children_of w t) = Suc (length (children_of w s))" "we_doomed t = []"
    unfolding t' using E wish(4) s
    by (simp_all add: installSlide_def Let_def wl_deferred_delete_def wl_send_def wl_new_child_def children_of_def)
  show "we_blur_regions t w = None" "we_contrast_regions t w = None" "we_slide_map t w = Some d"
    unfolding t' using wish we_coreD [OF core_basic(4)] by simp_all
qed

text \<open>Each expose event of a window with a slide makes another object for the slide and never deletes the one before:
  after \<open>k\<close> of them, the event loop running after each, the window has \<open>k\<close> more children, which live as long as the window.\<close>

theorem slides_pile_up:
  assumes E: "wl_slide E" "wl_exposed E w" "surfaceForWindow E w = Some sf"
    and wish: "we_blur_regions s w = None" "we_contrast_regions s w = None" "we_slide_map s w = Some d" "sd_location d \<noteq> NoEdge"
    and s: "we_doomed s = []"
  shows "length (children_of w (((\<lambda>s. wl_deferred_delete (snd (wl_eventFilter E w WlExpose s))) ^^ k) s)) =
    k + length (children_of w s)"
proof -
  let ?f = "\<lambda>s. wl_deferred_delete (snd (wl_eventFilter E w WlExpose s))"
  have "length (children_of w ((?f ^^ k) s)) = k + length (children_of w s) \<and> we_blur_regions ((?f ^^ k) s) w = None \<and>
      we_contrast_regions ((?f ^^ k) s) w = None \<and> we_slide_map ((?f ^^ k) s) w = Some d \<and> we_doomed ((?f ^^ k) s) = []"
  proof (induction k)
    case (Suc k)
    then show ?case using expose_slide_step [OF E, of "(?f ^^ k) s" d _] wish(4) by simp
  qed (use wish s in simp)
  then show ?thesis by simp
qed

theorem slides_pile_up_witness:
  "length (children_of 1 (((\<lambda>s. wl_deferred_delete (snd (wl_eventFilter demo_wl_shown 1 WlExpose s))) ^^ 1000)
     (new_window_effects\<lparr>we_slide_map := [1 \<mapsto> \<lparr>sd_location = TopEdge, sd_offset = 0\<rparr>]\<rparr>))) = 1000"
  by (subst slides_pile_up [where sf = 3 and d = "\<lparr>sd_location = TopEdge, sd_offset = 0\<rparr>"])
    (simp_all add: surfaceForWindow_def demo_wl_shown_def demo_wl_def new_window_effects_def children_of_def)

text \<open>When a manager goes away nothing is taken back: the handlers reach the check of the manager first.\<close>

lemma managers_gone:
  "\<not> wl_contrast E \<Longrightarrow> on_contrast_active keys E s = s"
  "\<not> wl_slide E \<Longrightarrow> on_slide_active keys E s = s"
  "\<not> wl_blur E \<Longrightarrow> on_blur_active keys E s = s"
proof -
  have fold: "fold f keys s = s" if "\<And>w s. f w s = s" for f and keys :: "nat list" and s :: window_effects
    using that by (induction keys) simp_all
  show "\<not> wl_contrast E \<Longrightarrow> on_contrast_active keys E s = s" unfolding on_contrast_active_def
    by (rule fold) (simp add: installContrast_def split: option.split)
  show "\<not> wl_slide E \<Longrightarrow> on_slide_active keys E s = s" unfolding on_slide_active_def
    by (rule fold) (simp add: installSlide_def split: option.split)
  show "\<not> wl_blur E \<Longrightarrow> on_blur_active keys E s = s" unfolding on_blur_active_def
    by (auto intro!: fold simp: installBlur_def split: option.split)
qed

end
