(* ===== verification/WlShm.thy ===== *)
theory WlShm
  imports Prelude
begin

text \<open>
  Buffers in shared memory (platforms/wayland/shm.cpp): an image is copied into a file that the compositor maps.
  The answers of the system are a parameter; what is done with descriptors, mappings and proxies is recorded.
\<close>

section \<open>Images, formats and the system\<close>

text \<open>\<^verbatim>\<open>QImage::Format\<close>: the three formats the code names, and any other.\<close>

datatype image_format = ARGB32_Premultiplied | RGB32 | ARGB32 | OtherFormat nat

record shm_image =
  si_format :: image_format
  si_width :: int
  si_height :: int
  si_stride :: int
  si_bits :: "8 word list"

definition null_shm_image :: "shm_image \<Rightarrow> bool" where
  "null_shm_image im \<longleftrightarrow> si_width im = 0 \<or> si_height im = 0"

datatype shm_format = ARGB8888 | XRGB8888

text \<open>The warnings that are logged for the last two cases are left out.\<close>

fun toWaylandFormat :: "image_format \<Rightarrow> shm_format" where
  "toWaylandFormat ARGB32_Premultiplied = ARGB8888"
| "toWaylandFormat RGB32 = XRGB8888"
| "toWaylandFormat ARGB32 = ARGB8888"
| "toWaylandFormat (OtherFormat n) = ARGB8888"

text \<open>
  Whether the build has \<^verbatim>\<open>memfd_create\<close>, what the system calls answer, and \<^verbatim>\<open>QImage::convertToFormat\<close>
  to premultiplied pixels of 32 bits.
\<close>

record shm_system =
  sys_have_memfd :: bool
  sys_memfd :: int
  sys_mkstemp :: int
  sys_getfd :: int
  sys_setfd :: int
  sys_ftruncate :: int
  sys_mmap :: bool
  sys_convert :: "shm_image \<Rightarrow> shm_image"

datatype shm_action =
    OpenFile int
  | Unlink
  | CloseFile int
  | Truncate int int
  | MapFile int int
  | UnmapFile int
  | CreatePool int int
  | CreateBuffer int int int shm_format
  | DestroyPool
  | CopyBytes "8 word list"
  | CopyBeyond int

text \<open>A buffer of the compositor: its size, its stride, its format and the bytes of its pool.\<close>

record shm_buffer =
  sb_width :: int
  sb_height :: int
  sb_stride :: int
  sb_format :: shm_format
  sb_bytes :: "8 word list"

section \<open>Making a buffer\<close>

definition shm_mkstemp :: "shm_system \<Rightarrow> int \<times> shm_action list" where
  "shm_mkstemp S =
     (if 0 \<le> sys_mkstemp S
      then if sys_getfd S = -1 \<or> sys_setfd S = -1
        then (-1, [OpenFile (sys_mkstemp S), Unlink, CloseFile (sys_mkstemp S)])
        else (sys_mkstemp S, [OpenFile (sys_mkstemp S), Unlink])
      else (sys_mkstemp S, []))"

definition shm_open :: "shm_system \<Rightarrow> int \<times> shm_action list" where
  "shm_open S =
     (if sys_have_memfd S \<and> 0 \<le> sys_memfd S then (sys_memfd S, [OpenFile (sys_memfd S)]) else shm_mkstemp S)"

definition source_image :: "shm_system \<Rightarrow> shm_format \<Rightarrow> shm_image \<Rightarrow> shm_image" where
  "source_image S format im =
     (if format = ARGB8888 \<and> si_format im \<noteq> ARGB32_Premultiplied then sys_convert S im else im)"

text \<open>\<^verbatim>\<open>memcpy\<close> of more bytes than the source has is recorded as such, and gives no buffer here.\<close>

definition createBuffer :: "shm_system \<Rightarrow> shm_image \<Rightarrow> shm_buffer option \<times> shm_action list" where
  "createBuffer S im =
     (if null_shm_image im then (None, [])
      else let format = toWaylandFormat (si_format im); stride = si_stride im; byteCount = si_height im * stride;
               (fd, first_steps) = shm_open S
        in if fd = -1 then (None, first_steps)
        else if sys_ftruncate S < 0 then (None, first_steps @ [Truncate fd byteCount, CloseFile fd])
        else if \<not> sys_mmap S then (None, first_steps @ [Truncate fd byteCount, MapFile fd byteCount, CloseFile fd])
        else let pool = first_steps @ [Truncate fd byteCount, MapFile fd byteCount, CreatePool fd byteCount,
                   CreateBuffer (si_width im) (si_height im) stride format, DestroyPool];
                 bits = si_bits (source_image S format im)
          in if nat byteCount \<le> length bits
             then (Some \<lparr>sb_width = si_width im, sb_height = si_height im, sb_stride = stride, sb_format = format,
                     sb_bytes = take (nat byteCount) bits\<rparr>,
                   pool @ [CopyBytes (take (nat byteCount) bits), UnmapFile byteCount, CloseFile fd])
             else (None, pool @ [CopyBeyond (byteCount - int (length bits)), UnmapFile byteCount, CloseFile fd]))"

section \<open>Descriptors\<close>

fun opened :: "shm_action \<Rightarrow> int option" where
  "opened (OpenFile fd) = Some fd"
| "opened _ = None"

fun closed_file :: "shm_action \<Rightarrow> int option" where
  "closed_file (CloseFile fd) = Some fd"
| "closed_file _ = None"

fun mapped_bytes :: "shm_action \<Rightarrow> int" where
  "mapped_bytes (MapFile fd n) = n"
| "mapped_bytes (UnmapFile n) = - n"
| "mapped_bytes _ = 0"

definition files_opened :: "shm_action list \<Rightarrow> int list" where
  "files_opened es = concat (map (\<lambda>e. case opened e of None \<Rightarrow> [] | Some fd \<Rightarrow> [fd]) es)"

definition files_closed :: "shm_action list \<Rightarrow> int list" where
  "files_closed es = concat (map (\<lambda>e. case closed_file e of None \<Rightarrow> [] | Some fd \<Rightarrow> [fd]) es)"

definition bytes_mapped :: "shm_action list \<Rightarrow> int" where
  "bytes_mapped es = sum_list (map mapped_bytes es)"

lemma files_simps [simp]:
  "files_opened [] = []" "files_closed [] = []" "bytes_mapped [] = 0"
  "files_opened (e # es) = (case opened e of None \<Rightarrow> files_opened es | Some fd \<Rightarrow> fd # files_opened es)"
  "files_closed (e # es) = (case closed_file e of None \<Rightarrow> files_closed es | Some fd \<Rightarrow> fd # files_closed es)"
  "bytes_mapped (e # es) = mapped_bytes e + bytes_mapped es"
  "files_opened (es @ fs) = files_opened es @ files_opened fs"
  "files_closed (es @ fs) = files_closed es @ files_closed fs"
  "bytes_mapped (es @ fs) = bytes_mapped es + bytes_mapped fs"
  by (simp_all add: files_opened_def files_closed_def bytes_mapped_def split: option.split)

lemma shm_open_files:
  assumes "shm_open S = (fd, es)" "-1 \<le> sys_mkstemp S"
  shows "bytes_mapped es = 0"
    "fd = -1 \<Longrightarrow> files_opened es = files_closed es \<and> length (files_opened es) \<le> 1"
    "fd \<noteq> -1 \<Longrightarrow> files_opened es = [fd] \<and> files_closed es = []"
  using assms by (auto simp: shm_open_def shm_mkstemp_def split: if_splits)

text \<open>Whatever the system answers and whatever the image, a buffer that is made or not made leaves no file open: the
  descriptors that were opened are those that were closed, at most one; and when the mapping succeeds, what was
  mapped is unmapped.\<close>

theorem createBuffer_leaves_nothing_open:
  assumes mkstemp: "-1 \<le> sys_mkstemp S" and buffer: "createBuffer S im = (b, es)"
  shows "files_opened es = files_closed es \<and> length (files_opened es) \<le> 1 \<and> (sys_mmap S \<longrightarrow> bytes_mapped es = 0)"
proof (cases "shm_open S")
  case (Pair fd first_steps)
  note open_ok = shm_open_files [OF Pair mkstemp]
  show ?thesis
  proof (cases "fd = -1")
    case True
    then show ?thesis using buffer open_ok Pair by (auto simp: createBuffer_def Let_def split: if_splits)
  next
    case False
    then show ?thesis using buffer open_ok(1) open_ok(3) [OF False] Pair
      by (auto simp: createBuffer_def Let_def split: if_splits)
  qed
qed

definition demo_shm :: shm_system where
  "demo_shm = \<lparr>sys_have_memfd = False, sys_memfd = -1, sys_mkstemp = 5, sys_getfd = 0, sys_setfd = 0, sys_ftruncate = 0,
     sys_mmap = True, sys_convert = (\<lambda>im. im\<lparr>si_format := ARGB32_Premultiplied, si_stride := 4 * si_width im,
       si_bits := replicate (nat (4 * si_width im * si_height im)) 0\<rparr>)\<rparr>"

definition demo_pixel :: "image_format \<Rightarrow> int \<Rightarrow> shm_image" where
  "demo_pixel f n = \<lparr>si_format = f, si_width = 1, si_height = 1, si_stride = n, si_bits = replicate (nat n) 255\<rparr>"

theorem createBuffer_leaves_nothing_open_witness:
  "files_closed (snd (createBuffer demo_shm (demo_pixel RGB32 4))) = [5]"
proof -
  have "files_opened (snd (createBuffer demo_shm (demo_pixel RGB32 4))) = [5]"
    by (simp add: createBuffer_def demo_shm_def demo_pixel_def null_shm_image_def shm_open_def shm_mkstemp_def source_image_def
        Let_def)
  then show ?thesis
    using createBuffer_leaves_nothing_open [of demo_shm, OF _ prod.collapse [symmetric]] by (simp add: demo_shm_def)
qed

section \<open>Bytes\<close>


text \<open>What Qt documents of the conversion: the same size, four bytes for each pixel, no padding.\<close>

definition converts :: "shm_system \<Rightarrow> bool" where
  "converts S \<longleftrightarrow> (\<forall>im. si_width (sys_convert S im) = si_width im \<and> si_height (sys_convert S im) = si_height im \<and>
     si_stride (sys_convert S im) = 4 * si_width im \<and>
     length (si_bits (sys_convert S im)) = nat (si_height im * (4 * si_width im)))"

definition system_works :: "shm_system \<Rightarrow> bool" where
  "system_works S \<longleftrightarrow> fst (shm_open S) \<noteq> -1 \<and> 0 \<le> sys_ftruncate S \<and> sys_mmap S"


lemma demo_converts: "converts demo_shm"
  by (simp add: converts_def demo_shm_def algebra_simps)

lemma demo_works: "system_works demo_shm"
  by (simp add: system_works_def demo_shm_def shm_open_def shm_mkstemp_def)


text \<open>An image with eight bytes for each pixel is not copied safely: the number of bytes is computed from the lines of the
  image as it was, but the copy reads the converted image, which is half as large, so it reads beyond its end by as
  many bytes as the converted image has.\<close>

theorem createBuffer_reads_beyond:
  assumes f: "si_format im = OtherFormat n" and ok: "0 < si_width im" "0 < si_height im" "si_stride im = 8 * si_width im"
    and S: "converts S" "system_works S"
  shows "CopyBeyond (si_height im * (4 * si_width im)) \<in> set (snd (createBuffer S im))"
proof -
  have "length (si_bits (sys_convert S im)) = nat (si_height im * (4 * si_width im))" using S(1) by (simp add: converts_def)
  moreover have pos: "0 < si_height im * (4 * si_width im)" using ok by simp
  then have "\<not> nat (si_height im * (8 * si_width im)) \<le> nat (si_height im * (4 * si_width im))" by simp
  moreover have "\<not> null_shm_image im" using ok by (simp add: null_shm_image_def)
  ultimately show ?thesis using ok f S(2) pos
    by (cases "shm_open S") (simp add: createBuffer_def Let_def system_works_def source_image_def algebra_simps)
qed

theorem createBuffer_reads_beyond_witness:
  "CopyBeyond 4 \<in> set (snd (createBuffer demo_shm (demo_pixel (OtherFormat 64) 8)))"
  using createBuffer_reads_beyond [of "demo_pixel (OtherFormat 64) 8" 64, OF _ _ _ _ demo_converts demo_works]
  by (simp add: demo_pixel_def)

end
