(* ===== verification/WlShadow.thy ===== *)
theory WlShadow
  imports Shadow WlShm
begin

text \<open>
  Shadows of windows on Wayland (platforms/wayland/windowshadow.cpp, with the guards of kwindowshadow.cpp): tiles with
  their buffers, and one shadow, which has an object of the protocol while its window has a surface.
\<close>

section \<open>State\<close>

record wl_tile =
  wt_image :: shm_image
  wt_created :: bool
  wt_buffer :: "shm_buffer option"

text \<open>Windows, windows of the platform, surfaces and objects of the protocol are numbers; tiles are places in a list.\<close>

record wl_shadow =
  ws_tiles :: "wl_tile list"
  ws_tile :: "side \<Rightarrow> nat option"
  ws_padding :: margins
  ws_window :: "nat option"
  ws_created :: bool
  ws_shadow :: "nat option"
  ws_filters :: "nat set"
  ws_connected :: "nat set"
  ws_next :: nat

record ws_env =
  wv_shm :: bool
  wv_system :: shm_system
  wv_manager :: bool
  wv_native :: "nat \<rightharpoonup> nat"
  wv_surface :: "nat \<rightharpoonup> nat"
  wv_exposed :: "nat \<Rightarrow> bool"
  wv_visible :: "nat \<Rightarrow> bool"
  wv_fixed :: "int \<Rightarrow> u32"

datatype ws_request =
    ShadowCreate nat nat
  | ShadowAttach nat side shm_buffer
  | ShadowOffset nat side u32
  | ShadowCommit nat
  | ShadowUnset nat
  | ShadowDestroy nat
  | RequestUpdate nat

definition new_wl_shadow :: wl_shadow where
  "new_wl_shadow = \<lparr>ws_tiles = [], ws_tile = (\<lambda>_. None), ws_padding = \<lparr>mg_left = 0, mg_top = 0, mg_right = 0, mg_bottom = 0\<rparr>,
     ws_window = None, ws_created = False, ws_shadow = None, ws_filters = {}, ws_connected = {}, ws_next = 0\<rparr>"

section \<open>Tiles\<close>

definition wl_tile_create :: "ws_env \<Rightarrow> wl_tile \<Rightarrow> bool \<times> wl_tile" where
  "wl_tile_create E d =
     (if \<not> wv_shm E then (False, d) else (True, d\<lparr>wt_buffer := fst (createBuffer (wv_system E) (wt_image d))\<rparr>))"

definition wl_tile_destroy :: "wl_tile \<Rightarrow> wl_tile" where
  "wl_tile_destroy d = d\<lparr>wt_buffer := None\<rparr>"

text \<open>The handler of \<^verbatim>\<open>activeChanged\<close> of the shared memory.\<close>

definition on_shm_active :: "ws_env \<Rightarrow> wl_tile \<Rightarrow> wl_tile" where
  "on_shm_active E d = (if wv_shm E then d else d\<lparr>wt_buffer := None\<rparr>)"

text \<open>\<^verbatim>\<open>KWindowShadowTile::create\<close>.\<close>

definition ws_tile_create :: "ws_env \<Rightarrow> wl_tile \<Rightarrow> bool \<times> wl_tile" where
  "ws_tile_create E d =
     (if wt_created d then (True, d) else let (b, d') = wl_tile_create E d in (b, d'\<lparr>wt_created := b\<rparr>))"

definition bufferForTile :: "ws_env \<Rightarrow> nat option \<Rightarrow> wl_shadow \<Rightarrow> shm_buffer option \<times> wl_shadow" where
  "bufferForTile E tile s = (case tile of
       None \<Rightarrow> (None, s)
     | Some t \<Rightarrow>
         let d = ws_tiles s ! t;
             d = (if wt_buffer d = None \<and> wt_created d then d\<lparr>wt_buffer := fst (createBuffer (wv_system E) (wt_image d))\<rparr> else d)
         in (wt_buffer d, s\<lparr>ws_tiles := (ws_tiles s)[t := d]\<rparr>))"

section \<open>The object of the protocol\<close>

definition ws_surface :: "ws_env \<Rightarrow> nat option \<Rightarrow> nat option" where
  "ws_surface E window = (case window of None \<Rightarrow> None
     | Some w \<Rightarrow> (case wv_native E w of None \<Rightarrow> None | Some n \<Rightarrow> wv_surface E n))"

fun attach_tiles :: "ws_env \<Rightarrow> nat \<Rightarrow> side list \<Rightarrow> wl_shadow \<Rightarrow> wl_shadow \<times> ws_request list" where
  "attach_tiles E q [] s = (s, [])"
| "attach_tiles E q (k # ks) s =
     (let (buffer, s1) = bufferForTile E (ws_tile s k) s; (s2, es) = attach_tiles E q ks s1
      in (s2, (case buffer of None \<Rightarrow> [] | Some b \<Rightarrow> [ShadowAttach q k b]) @ es))"

definition ws_offsets :: "ws_env \<Rightarrow> nat \<Rightarrow> margins \<Rightarrow> ws_request list" where
  "ws_offsets E q m =
     [ShadowOffset q ShLeft (wv_fixed E (sint (mg_left m))), ShadowOffset q ShTop (wv_fixed E (sint (mg_top m))),
      ShadowOffset q ShRight (wv_fixed E (sint (mg_right m))), ShadowOffset q ShBottom (wv_fixed E (sint (mg_bottom m)))]"

definition internalCreate :: "ws_env \<Rightarrow> wl_shadow \<Rightarrow> bool \<times> wl_shadow \<times> ws_request list" where
  "internalCreate E s =
     (if ws_shadow s \<noteq> None then (True, s, [])
      else if \<not> wv_manager E then (False, s, [])
      else case (ws_surface E (ws_window s), ws_window s) of
        (Some surface, Some w) \<Rightarrow>
          let q = ws_next s;
              s1 = s\<lparr>ws_shadow := Some q, ws_next := Suc q\<rparr>;
              s2 = (case wv_native E w of None \<Rightarrow> s1 | Some n \<Rightarrow> s1\<lparr>ws_connected := insert n (ws_connected s1)\<rparr>);
              (s3, es) = attach_tiles E q sides s2
          in (True, s3, [ShadowCreate surface q] @ es @ ws_offsets E q (ws_padding s) @ [ShadowCommit q, RequestUpdate w])
      | _ \<Rightarrow> (False, s, []))"

definition internalDestroy :: "ws_env \<Rightarrow> wl_shadow \<Rightarrow> wl_shadow \<times> ws_request list" where
  "internalDestroy E s = (case ws_shadow s of
       None \<Rightarrow> (s, [])
     | Some q \<Rightarrow>
         (s\<lparr>ws_shadow := None\<rparr>,
          (if wv_manager E then (case ws_surface E (ws_window s) of None \<Rightarrow> [] | Some surface \<Rightarrow> [ShadowUnset surface]) else []) @
          [ShadowDestroy q] @
          (case ws_window s of None \<Rightarrow> [] | Some w \<Rightarrow> if wv_visible E w then [RequestUpdate w] else [])))"

definition wl_shadow_create :: "ws_env \<Rightarrow> wl_shadow \<Rightarrow> bool \<times> wl_shadow \<times> ws_request list" where
  "wl_shadow_create E s =
     (if \<not> wv_manager E then (False, s, [])
      else let (b, s, es) = internalCreate E s in
        (True, (case ws_window s of None \<Rightarrow> s | Some w \<Rightarrow> s\<lparr>ws_filters := insert w (ws_filters s)\<rparr>), es))"

definition wl_shadow_destroy :: "ws_env \<Rightarrow> wl_shadow \<Rightarrow> wl_shadow \<times> ws_request list" where
  "wl_shadow_destroy E s =
     internalDestroy E (case ws_window s of None \<Rightarrow> s | Some w \<Rightarrow> s\<lparr>ws_filters := ws_filters s - {w}\<rparr>)"

text \<open>The event filter, for an expose event of a window; a warning is logged when the shadow is not made.\<close>

definition ws_expose :: "ws_env \<Rightarrow> nat \<Rightarrow> wl_shadow \<Rightarrow> wl_shadow \<times> ws_request list" where
  "ws_expose E w s = (if wv_exposed E w then snd (internalCreate E s) else (s, []))"

section \<open>The class for programs\<close>

fun ws_prepareTiles :: "ws_env \<Rightarrow> nat option list \<Rightarrow> wl_shadow \<Rightarrow> bool \<times> wl_shadow" where
  "ws_prepareTiles E [] s = (True, s)"
| "ws_prepareTiles E (None # ts) s = ws_prepareTiles E ts s"
| "ws_prepareTiles E (Some t # ts) s =
     (let (b, d) = ws_tile_create E (ws_tiles s ! t); s1 = s\<lparr>ws_tiles := (ws_tiles s)[t := d]\<rparr>
      in if b then ws_prepareTiles E ts s1 else (False, s1))"

definition ws_create :: "ws_env \<Rightarrow> wl_shadow \<Rightarrow> bool \<times> wl_shadow \<times> ws_request list" where
  "ws_create E s =
     (if ws_created s then (True, s, [])
      else if ws_window s = None then (False, s, [])
      else case ws_prepareTiles E (map (ws_tile s) sides) s of
        (False, s1) \<Rightarrow> (False, s1, [])
      | (True, s1) \<Rightarrow> (let (b, s2, es) = wl_shadow_create E s1 in (b, s2\<lparr>ws_created := b\<rparr>, es)))"

definition ws_destroy :: "ws_env \<Rightarrow> wl_shadow \<Rightarrow> wl_shadow \<times> ws_request list" where
  "ws_destroy E s =
     (if \<not> ws_created s then (s, []) else let (s1, es) = wl_shadow_destroy E s in (s1\<lparr>ws_created := False\<rparr>, es))"

definition ws_setWindow :: "nat option \<Rightarrow> wl_shadow \<Rightarrow> wl_shadow" where
  "ws_setWindow window s = (if ws_created s then s else s\<lparr>ws_window := window\<rparr>)"

definition ws_setTile :: "side \<Rightarrow> nat option \<Rightarrow> wl_shadow \<Rightarrow> wl_shadow" where
  "ws_setTile k tile s = (if ws_created s then s else s\<lparr>ws_tile := (ws_tile s)(k := tile)\<rparr>)"

definition ws_setPadding :: "margins \<Rightarrow> wl_shadow \<Rightarrow> wl_shadow" where
  "ws_setPadding m s = (if ws_created s then s else s\<lparr>ws_padding := m\<rparr>)"

definition ws_setImage :: "nat \<Rightarrow> shm_image \<Rightarrow> wl_shadow \<Rightarrow> wl_shadow" where
  "ws_setImage t im s =
     (if wt_created (ws_tiles s ! t) then s else s\<lparr>ws_tiles := (ws_tiles s)[t := (ws_tiles s ! t)\<lparr>wt_image := im\<rparr>]\<rparr>)"

text \<open>A window of the platform emits \<^verbatim>\<open>surfaceDestroyed\<close>; the connection is unique.\<close>

definition ws_surface_destroyed :: "ws_env \<Rightarrow> nat \<Rightarrow> wl_shadow \<Rightarrow> wl_shadow \<times> ws_request list" where
  "ws_surface_destroyed E n s = (if n \<in> ws_connected s then internalDestroy E s else (s, []))"

end
