(* ===== verification/WlShadowProperties.thy ===== *)
theory WlShadowProperties
  imports WlShadow
begin

text \<open>
  The shadow of a window on Wayland follows its surface: the steps of the program and of Qt, what holds in every
  state they reach, what is sent for the tiles, and a connection that outlives its window.
\<close>

section \<open>Steps\<close>

type_synonym ws_config = "ws_env \<times> wl_shadow \<times> ws_request list"

inductive ws_step :: "ws_config \<Rightarrow> ws_config \<Rightarrow> bool" where
  ws_call_create: "ws_create E s = (b, s', es) \<Longrightarrow> ws_step (E, s, tr) (E, s', tr @ es)"
| ws_call_destroy: "ws_destroy E s = (s', es) \<Longrightarrow> ws_step (E, s, tr) (E, s', tr @ es)"
| ws_call_window: "ws_step (E, s, tr) (E, ws_setWindow w s, tr)"
| ws_call_tile: "case t of None \<Rightarrow> True | Some i \<Rightarrow> i < length (ws_tiles s) \<Longrightarrow> ws_step (E, s, tr) (E, ws_setTile k t s, tr)"
| ws_call_padding: "ws_step (E, s, tr) (E, ws_setPadding m s, tr)"
| ws_call_image: "i < length (ws_tiles s) \<Longrightarrow> ws_step (E, s, tr) (E, ws_setImage i im s, tr)"
| ws_new_tile: "ws_step (E, s, tr) (E, s\<lparr>ws_tiles := ws_tiles s @ [\<lparr>wt_image = im, wt_created = False, wt_buffer = None\<rparr>]\<rparr>, tr)"
| ws_exposed: "w \<in> ws_filters s \<Longrightarrow> ws_expose E w s = (s', es) \<Longrightarrow> ws_step (E, s, tr) (E, s', tr @ es)"
| ws_shown: "ws_step (E, s, tr) (E\<lparr>wv_exposed := x, wv_visible := y\<rparr>, s, tr)"
| ws_manager: "ws_step (E, s, tr) (E\<lparr>wv_manager := b\<rparr>, s, tr)"
| ws_memory: "E' = E\<lparr>wv_shm := b\<rparr> \<Longrightarrow> ws_step (E, s, tr) (E', s\<lparr>ws_tiles := map (on_shm_active E') (ws_tiles s)\<rparr>, tr)"
| ws_native_made:
    "wv_native E w = None \<Longrightarrow> wv_surface E n = None \<Longrightarrow>
     ws_step (E, s, tr) (E\<lparr>wv_native := (wv_native E)(w \<mapsto> n)\<rparr>, s, tr)"
| ws_surface_made:
    "wv_surface E n = None \<Longrightarrow> ws_step (E, s, tr) (E\<lparr>wv_surface := (wv_surface E)(n \<mapsto> sf)\<rparr>, s, tr)"
| ws_surface_gone:
    "E' = E\<lparr>wv_surface := (wv_surface E)(n := None)\<rparr> \<Longrightarrow> ws_surface_destroyed E' n s = (s', es) \<Longrightarrow>
     ws_step (E, s, tr) (E', s', tr @ es)"
| ws_native_gone:
    "wv_native E w = Some n \<Longrightarrow> wv_surface E n = None \<Longrightarrow>
     ws_step (E, s, tr) (E\<lparr>wv_native := (wv_native E)(w := None)\<rparr>, s\<lparr>ws_connected := ws_connected s - {n}\<rparr>, tr)"
| ws_window_gone:
    "wv_native E w = None \<Longrightarrow>
     ws_step (E, s, tr) (E, s\<lparr>ws_window := if ws_window s = Some w then None else ws_window s, ws_filters := ws_filters s - {w}\<rparr>, tr)"

inductive ws_reachable :: "ws_env \<Rightarrow> ws_config \<Rightarrow> bool" for E0 :: ws_env where
  ws_start: "ws_reachable E0 (E0, new_wl_shadow, [])"
| ws_next_step: "ws_reachable E0 c \<Longrightarrow> ws_step c c' \<Longrightarrow> ws_reachable E0 c'"

section \<open>What holds in every state\<close>

definition shadow_current :: "ws_env \<Rightarrow> wl_shadow \<Rightarrow> nat \<Rightarrow> ws_request list \<Rightarrow> bool" where
  "shadow_current E s q tr = (case ws_window s of None \<Rightarrow> False
     | Some w \<Rightarrow> (case wv_native E w of None \<Rightarrow> False
         | Some n \<Rightarrow> (case wv_surface E n of None \<Rightarrow> False
             | Some sf \<Rightarrow> n \<in> ws_connected s \<and> ShadowCreate sf q \<in> set tr)))"

definition shadow_ok :: "ws_env \<Rightarrow> wl_shadow \<Rightarrow> ws_request list \<Rightarrow> bool" where
  "shadow_ok E s tr \<longleftrightarrow>
     (\<forall>q. ws_shadow s = Some q \<longrightarrow> ws_created s \<and> shadow_current E s q tr) \<and>
     (\<forall>w \<in> ws_filters s. ws_created s \<and> ws_window s = Some w)"

lemma shadow_current_iff: "shadow_current E s q tr \<longleftrightarrow> (\<exists>w n sf. ws_window s = Some w \<and> wv_native E w = Some n \<and>
    wv_surface E n = Some sf \<and> n \<in> ws_connected s \<and> ShadowCreate sf q \<in> set tr)"
  by (simp add: shadow_current_def split: option.split)

text \<open>Parts of the state the tiles do not touch.\<close>

definition ws_core where
  "ws_core s = (ws_tile s, ws_padding s, ws_window s, ws_created s, ws_shadow s, ws_filters s, ws_connected s, ws_next s)"

lemma ws_core_tiles [simp]: "ws_core (s\<lparr>ws_tiles := ts\<rparr>) = ws_core s"
  by (simp add: ws_core_def)

lemma ws_coreD:
  assumes "ws_core t = ws_core s"
  shows "ws_tile t = ws_tile s" "ws_padding t = ws_padding s" "ws_window t = ws_window s" "ws_created t = ws_created s"
    "ws_shadow t = ws_shadow s" "ws_filters t = ws_filters s" "ws_connected t = ws_connected s" "ws_next t = ws_next s"
  using assms by (simp_all add: ws_core_def)

lemma core_buffer: "ws_core (snd (bufferForTile E t s)) = ws_core s"
  by (simp add: bufferForTile_def Let_def split: option.split)

lemma core_attach: "ws_core (fst (attach_tiles E q ks s)) = ws_core s"
proof (induction ks arbitrary: s)
  case (Cons k ks)
  show ?case using Cons [of "snd (bufferForTile E (ws_tile s k) s)"] core_buffer [of E "ws_tile s k" s]
    by (simp add: Let_def case_prod_beta)
qed simp

lemma core_prepare: "ws_core (snd (ws_prepareTiles E ts s)) = ws_core s"
  by (induction E ts s rule: ws_prepareTiles.induct) (auto simp: Let_def split: prod.split)

lemma internalCreate_cases:
  assumes "internalCreate E s = (b, s', es)"
  obtains (kept) "s' = s" "es = []" "b \<longleftrightarrow> ws_shadow s \<noteq> None"
    "ws_shadow s \<noteq> None \<or> \<not> wv_manager E \<or> ws_surface E (ws_window s) = None"
  | (made) w n sf where "b" "ws_shadow s = None" "wv_manager E" "ws_window s = Some w" "wv_native E w = Some n" "wv_surface E n = Some sf"
    "ws_core s' = ws_core (s\<lparr>ws_shadow := Some (ws_next s), ws_next := Suc (ws_next s), ws_connected := insert n (ws_connected s)\<rparr>)"
    "ShadowCreate sf (ws_next s) \<in> set es"
proof (cases "ws_shadow s \<noteq> None \<or> \<not> wv_manager E \<or> ws_surface E (ws_window s) = None")
  case True
  then have "s' = s" "es = []" "b \<longleftrightarrow> ws_shadow s \<noteq> None"
    using assms by (auto simp: internalCreate_def split: if_splits option.splits)
  then show ?thesis using True by (rule kept)
next
  case False
  then obtain w n sf where w: "ws_window s = Some w" "wv_native E w = Some n" "wv_surface E n = Some sf"
    by (auto simp: ws_surface_def split: option.splits)
  let ?s = "s\<lparr>ws_shadow := Some (ws_next s), ws_next := Suc (ws_next s), ws_connected := insert n (ws_connected s)\<rparr>"
  have "ws_surface E (Some w) = Some sf" using w by (simp add: ws_surface_def)
  then have "s' = fst (attach_tiles E (ws_next s) sides ?s)" "b" "ShadowCreate sf (ws_next s) \<in> set es"
    using assms False w by (auto simp: internalCreate_def Let_def split: prod.splits)
  then show ?thesis using False w core_attach [of E "ws_next s" sides ?s] by (intro made) simp_all
qed

lemma ok_internalCreate:
  assumes ok: "shadow_ok E s tr" and c: "internalCreate E s = (b, s', es)" and "ws_created s"
  shows "shadow_ok E s' (tr @ es)"
  using c
proof (cases rule: internalCreate_cases)
  case (made w n sf)
  show ?thesis using ok made assms(3) ws_coreD [OF made(7)] by (auto simp: shadow_ok_def shadow_current_iff)
qed (use ok in simp)

lemma ok_core: "shadow_ok E s tr \<Longrightarrow> ws_core t = ws_core s \<Longrightarrow> shadow_ok E t tr"
  using ws_coreD [of t s] by (simp add: shadow_ok_def shadow_current_def cong: option.case_cong)

lemma ok_create:
  assumes ok: "shadow_ok E s tr" and c: "ws_create E s = (b, s', es)"
  shows "shadow_ok E s' (tr @ es)"
proof (cases "ws_created s \<or> ws_window s = None")
  case True
  then show ?thesis using ok c by (auto simp: ws_create_def split: if_splits)
next
  case False
  then obtain w where w: "ws_window s = Some w" by auto
  obtain p s1 where p: "ws_prepareTiles E (map (ws_tile s) sides) s = (p, s1)" by (cases "ws_prepareTiles E (map (ws_tile s) sides) s")
  have core: "ws_core s1 = ws_core s" using core_prepare [of E "map (ws_tile s) sides" s] p by simp
  have ok1: "shadow_ok E s1 tr" by (rule ok_core [OF ok core])
  note s1 = ws_coreD [OF core]
  have fresh: "ws_shadow s1 = None" "ws_filters s1 = {}" "\<not> ws_created s1" "ws_window s1 = Some w"
    using ok1 False w s1 by (auto simp: shadow_ok_def)
  show ?thesis
  proof (cases "p \<and> wv_manager E")
    case no: False
    then have "ws_core s' = ws_core s1" "es = []" using c p False fresh
      by (auto simp: ws_create_def wl_shadow_create_def ws_core_def split: bool.splits prod.splits)
    then show ?thesis using ok_core [OF ok1] by simp
  next
    case True
    obtain b' s2 es2 where i: "internalCreate E s1 = (b', s2, es2)" by (cases "internalCreate E s1")
    have w2: "ws_window s2 = Some w"
      using i
    proof (cases rule: internalCreate_cases)
      case (made w' n sf)
      then show ?thesis using ws_coreD(3) [OF made(7)] fresh by simp
    qed (use fresh in simp)
    have s': "s' = s2\<lparr>ws_filters := insert w (ws_filters s2), ws_created := True\<rparr>" "es = es2"
      using c p False True i w2 by (auto simp: ws_create_def wl_shadow_create_def)
    show ?thesis using i
    proof (cases rule: internalCreate_cases)
      case kept
      then show ?thesis using s' fresh by (auto simp: shadow_ok_def)
    next
      case (made w' n sf)
      then show ?thesis using s' fresh ws_coreD [OF made(7)] by (auto simp: shadow_ok_def shadow_current_iff)
    qed
  qed
qed

lemma internalDestroy_shadow:
  "internalDestroy E s = (s', es) \<Longrightarrow> ws_shadow s' = None \<and> ws_core s' = ws_core (s\<lparr>ws_shadow := None\<rparr>)"
  by (auto simp: internalDestroy_def ws_core_def split: option.splits)

lemma ok_internalDestroy:
  assumes ok: "\<And>w. w \<in> ws_filters s \<Longrightarrow> ws_created s \<and> ws_window s = Some w" and d: "internalDestroy E s = (s', es)"
  shows "shadow_ok E' s' tr"
  using ok internalDestroy_shadow [OF d] ws_coreD [of s' "s\<lparr>ws_shadow := None\<rparr>"] by (auto simp: shadow_ok_def)

lemma ok_destroy:
  assumes ok: "shadow_ok E s tr" and d: "ws_destroy E s = (s', es)"
  shows "shadow_ok E s' (tr @ es)"
proof (cases "ws_created s")
  case False
  then show ?thesis using ok d by (simp add: ws_destroy_def)
next
  case True
  let ?u = "case ws_window s of None \<Rightarrow> s | Some w \<Rightarrow> s\<lparr>ws_filters := ws_filters s - {w}\<rparr>"
  have f: "ws_filters ?u = {}" using ok by (auto simp: shadow_ok_def split: option.split)
  obtain s1 es1 where d1: "internalDestroy E ?u = (s1, es1)" by (cases "internalDestroy E ?u")
  then have "s' = s1\<lparr>ws_created := False\<rparr>" using d True by (simp add: ws_destroy_def wl_shadow_destroy_def)
  moreover have "ws_shadow s1 = None" "ws_filters s1 = {}"
    using internalDestroy_shadow [OF d1] ws_coreD [of s1 "?u\<lparr>ws_shadow := None\<rparr>"] f by auto
  ultimately show ?thesis by (simp add: shadow_ok_def)
qed

text \<open>Steps that keep the object, and the surface of the window it is for.\<close>

lemma ok_env:
  assumes ok: "shadow_ok E s tr" and same: "ws_shadow t = ws_shadow s" "ws_created t = ws_created s"
    and filters: "\<And>w. w \<in> ws_filters t \<Longrightarrow> w \<in> ws_filters s \<and> (ws_window s = Some w \<longrightarrow> ws_window t = Some w)"
    and surface: "\<And>w n sf. ws_window s = Some w \<Longrightarrow> wv_native E w = Some n \<Longrightarrow> wv_surface E n = Some sf \<Longrightarrow> n \<in> ws_connected s \<Longrightarrow>
      ws_shadow s \<noteq> None \<Longrightarrow> ws_created s \<Longrightarrow>
      ws_window t = Some w \<and> wv_native E' w = Some n \<and> wv_surface E' n = Some sf \<and> n \<in> ws_connected t"
  shows "shadow_ok E' t tr"
  unfolding shadow_ok_def same
proof (intro conjI allI impI ballI)
  fix q
  assume q: "ws_shadow s = Some q"
  then show "ws_created s" using ok by (simp add: shadow_ok_def)
  obtain w n sf where "ws_window s = Some w" "wv_native E w = Some n" "wv_surface E n = Some sf" "n \<in> ws_connected s"
    "ShadowCreate sf q \<in> set tr" using ok q unfolding shadow_ok_def shadow_current_iff by blast
  then show "shadow_current E' t q tr" using surface [of w n sf] q \<open>ws_created s\<close> by (simp add: shadow_current_def)
next
  fix w
  assume "w \<in> ws_filters t"
  then show "ws_created s" "ws_window t = Some w" using ok filters [of w] by (auto simp: shadow_ok_def)
qed

lemma ok_step: "ws_step c c' \<Longrightarrow> shadow_ok (fst c) (fst (snd c)) (snd (snd c)) \<Longrightarrow> shadow_ok (fst c') (fst (snd c')) (snd (snd c'))"
proof (induction rule: ws_step.induct)
  case (ws_exposed w s E s' es tr)
  then have "ws_created s" by (auto simp: shadow_ok_def)
  then show ?case using ws_exposed ok_internalCreate [of E s tr _ s' es]
    by (auto simp: ws_expose_def split: if_splits) (metis prod.collapse)
next
  case (ws_surface_gone E' E n s s' es tr)
  show ?case
  proof (cases "n \<in> ws_connected s")
    case True
    then have "internalDestroy E' s = (s', es)" using ws_surface_gone by (simp add: ws_surface_destroyed_def)
    moreover have "w \<in> ws_filters s \<Longrightarrow> ws_created s \<and> ws_window s = Some w" for w
      using ws_surface_gone by (simp add: shadow_ok_def)
    ultimately have "shadow_ok E' s' (tr @ es)" by (intro ok_internalDestroy)
    then show ?thesis by simp
  next
    case False
    then have s': "s' = s" "es = []" using ws_surface_gone(2) by (simp_all add: ws_surface_destroyed_def)
    have "shadow_ok E' s tr" unfolding ws_surface_gone(1)
      by (rule ok_env [of E s tr]) (use ws_surface_gone(3) False in \<open>auto split: if_splits\<close>)
    then show ?thesis by (simp add: s')
  qed
next
  case (ws_call_create E s b s' es tr)
  then show ?case by (simp add: ok_create)
next
  case (ws_call_destroy E s s' es tr)
  then show ?case by (simp add: ok_destroy)
next
  case (ws_native_made E w n s tr)
  show ?case unfolding fst_conv snd_conv by (rule ok_env [of E s tr]) (use ws_native_made in \<open>auto\<close>)
next
  case (ws_surface_made E n s tr sf)
  show ?case unfolding fst_conv snd_conv by (rule ok_env [of E s tr]) (use ws_surface_made in \<open>auto\<close>)
next
  case (ws_native_gone E w n s tr)
  show ?case unfolding fst_conv snd_conv by (rule ok_env [of E s tr]) (use ws_native_gone in \<open>auto\<close>)
next
  case (ws_window_gone E w s tr)
  show ?case unfolding fst_conv snd_conv by (rule ok_env [of E s tr]) (use ws_window_gone in \<open>auto split: if_splits\<close>)
next
  case (ws_shown E s tr x y)
  show ?case unfolding fst_conv snd_conv by (rule ok_env [of E s tr]) (use ws_shown in auto)
next
  case (ws_manager E s tr b)
  show ?case unfolding fst_conv snd_conv by (rule ok_env [of E s tr]) (use ws_manager in auto)
next
  case (ws_memory E' b E s tr)
  show ?case unfolding fst_conv snd_conv by (rule ok_env [of E s tr]) (use ws_memory in auto)
next
  case (ws_call_window E s tr w)
  show ?case
  proof (cases "ws_created s")
    case True
    then show ?thesis using ws_call_window by (simp add: ws_setWindow_def)
  next
    case False
    then have "ws_shadow s = None" "ws_filters s = {}" using ws_call_window by (auto simp: shadow_ok_def)
    then show ?thesis using False by (simp add: ws_setWindow_def shadow_ok_def)
  qed
qed (auto simp: ws_setTile_def ws_setPadding_def ws_setImage_def shadow_ok_def shadow_current_def cong: option.case_cong)

lemma reachable_shadow_ok: "ws_reachable E0 (E, s, tr) \<Longrightarrow> shadow_ok E s tr"
proof -
  have "ws_reachable E0 c \<Longrightarrow> shadow_ok (fst c) (fst (snd c)) (snd (snd c))" for c
    by (induction rule: ws_reachable.induct) (simp add: shadow_ok_def new_wl_shadow_def, simp add: ok_step)
  then show "ws_reachable E0 (E, s, tr) \<Longrightarrow> shadow_ok E s tr" by fastforce
qed

section \<open>The shadow follows the surface\<close>

text \<open>C29.  In every state the program reaches, whatever windows, surfaces, shared memory and the compositor do: an object for
  the shadow is there only while the shadow is created, it was made for the surface the window of the shadow has now,
  and the end of that surface is listened for.\<close>

theorem shadow_object_is_current:
  assumes "ws_reachable E0 (E, s, tr)" "ws_shadow s = Some q"
  shows "ws_created s \<and> (\<exists>w n sf. ws_window s = Some w \<and> wv_native E w = Some n \<and> wv_surface E n = Some sf \<and>
    n \<in> ws_connected s \<and> ShadowCreate sf q \<in> set tr)"
  using reachable_shadow_ok [OF assms(1)] assms(2) by (auto simp: shadow_ok_def shadow_current_iff)

text \<open>C34.  After an expose event of a window whose shadow is created there is an object for the shadow, made for the surface
  the window has, whenever the compositor offers shadows: a shadow that lost its object with an earlier surface is
  made again.\<close>

theorem shadow_follows_the_surface:
  assumes reach: "ws_reachable E0 (E, s, tr)" and w: "w \<in> ws_filters s" and exposed: "wv_exposed E w"
    and manager: "wv_manager E" and n: "wv_native E w = Some n" and sf: "wv_surface E n = Some sf"
    and t: "ws_expose E w s = (t, es)"
  shows "\<exists>q. ws_shadow t = Some q \<and> ShadowCreate sf q \<in> set (tr @ es)"
proof -
  have ok: "shadow_ok E s tr" by (rule reachable_shadow_ok [OF reach])
  then have s: "ws_created s" "ws_window s = Some w" using w by (auto simp: shadow_ok_def)
  obtain b where c: "internalCreate E s = (b, t, es)" using t exposed by (cases "internalCreate E s") (simp add: ws_expose_def)
  have surf: "ws_surface E (ws_window s) = Some sf" using s(2) n sf by (simp add: ws_surface_def)
  show ?thesis using c
  proof (cases rule: internalCreate_cases)
    case kept
    then obtain q where "ws_shadow s = Some q" using surf manager by auto
    then show ?thesis using ok s(2) n sf kept by (auto simp: shadow_ok_def shadow_current_iff)
  next
    case (made w' n' sf')
    then show ?thesis using s(2) n sf ws_coreD(5) [OF made(7)] by auto
  qed
qed

definition demo_ws :: ws_env where
  "demo_ws = \<lparr>wv_shm = True, wv_system = demo_shm, wv_manager = True, wv_native = [5 \<mapsto> 7, 6 \<mapsto> 8], wv_surface = [7 \<mapsto> 3, 8 \<mapsto> 4],
     wv_exposed = (\<lambda>_. True), wv_visible = (\<lambda>_. True), wv_fixed = (\<lambda>x. word_of_int (256 * x))\<rparr>"

definition demo_ws_shown :: "nat \<Rightarrow> bool \<times> wl_shadow \<times> ws_request list" where
  "demo_ws_shown w = ws_create demo_ws (ws_setWindow (Some w) new_wl_shadow)"

lemma demo_ws_shown_state:
  "fst (snd (demo_ws_shown 5)) = new_wl_shadow\<lparr>ws_window := Some 5, ws_created := True, ws_shadow := Some 0, ws_filters := {5},
     ws_connected := {7}, ws_next := 1\<rparr>"
  by (simp add: demo_ws_shown_def ws_create_def ws_setWindow_def new_wl_shadow_def sides_def wl_shadow_create_def internalCreate_def
      ws_surface_def demo_ws_def bufferForTile_def)

lemma demo_ws_reachable: "ws_reachable demo_ws (demo_ws, fst (snd (demo_ws_shown 5)), snd (snd (demo_ws_shown 5)))"
proof -
  have "ws_reachable demo_ws (demo_ws, new_wl_shadow, [])" by (rule ws_start)
  then have "ws_reachable demo_ws (demo_ws, ws_setWindow (Some 5) new_wl_shadow, [])"
    by (rule ws_next_step) (rule ws_call_window)
  then have "ws_reachable demo_ws (demo_ws, fst (snd (demo_ws_shown 5)), [] @ snd (snd (demo_ws_shown 5)))"
    by (rule ws_next_step) (rule ws_call_create [where b = "fst (demo_ws_shown 5)"], simp add: demo_ws_shown_def)
  then show ?thesis by simp
qed

theorem shadow_object_is_current_witness: "\<exists>sf. ShadowCreate sf 0 \<in> set (snd (snd (demo_ws_shown 5)))"
  using shadow_object_is_current [OF demo_ws_reachable, of 0] by (auto simp: demo_ws_shown_state)

theorem shadow_follows_the_surface_witness:
  "\<exists>q. ws_shadow (fst (ws_expose demo_ws 5 (fst (snd (demo_ws_shown 5))))) = Some q"
  using shadow_follows_the_surface [OF demo_ws_reachable, of 5 7 3, OF _ _ _ _ _ prod.collapse [symmetric]]
  by (auto simp: demo_ws_shown_state) (auto simp: demo_ws_def)

section \<open>What is sent for the tiles\<close>

text \<open>The buffer of the image of a tile, and tiles whose buffer, if they have one, is that one.\<close>

definition tile_buffer :: "ws_env \<Rightarrow> wl_tile \<Rightarrow> shm_buffer option" where
  "tile_buffer E d = fst (createBuffer (wv_system E) (wt_image d))"

definition tile_fresh :: "ws_env \<Rightarrow> wl_tile \<Rightarrow> bool" where
  "tile_fresh E d \<longleftrightarrow> wt_created d \<longrightarrow> wt_buffer d = None \<or> wt_buffer d = tile_buffer E d"

definition tile_ready :: "ws_env \<Rightarrow> wl_tile \<Rightarrow> bool" where
  "tile_ready E d \<longleftrightarrow> wt_created d \<and> (wt_buffer d = None \<or> wt_buffer d = tile_buffer E d)"

text \<open>States whose tiles have the same images.\<close>

definition same_images :: "wl_shadow \<Rightarrow> wl_shadow \<Rightarrow> bool" where
  "same_images s t \<longleftrightarrow> map wt_image (ws_tiles t) = map wt_image (ws_tiles s)"

lemma same_images_buffer:
  assumes "same_images s t" "i < length (ws_tiles s)"
  shows "tile_buffer E (ws_tiles t ! i) = tile_buffer E (ws_tiles s ! i)" "i < length (ws_tiles t)"
proof -
  have len: "length (ws_tiles t) = length (ws_tiles s)" 
    using arg_cong [OF assms(1) [unfolded same_images_def], of length] by simp
  have "map wt_image (ws_tiles t) ! i = map wt_image (ws_tiles s) ! i" by (simp only: assms(1) [unfolded same_images_def])
  then have "wt_image (ws_tiles t ! i) = wt_image (ws_tiles s ! i)" using len assms(2) by simp
  then show "tile_buffer E (ws_tiles t ! i) = tile_buffer E (ws_tiles s ! i)" "i < length (ws_tiles t)"
    using len assms(2) by (simp_all add: tile_buffer_def)
qed

lemma map_image_update: "wt_image d = wt_image (ts ! i) \<Longrightarrow> map wt_image (ts[i := d]) = map wt_image ts"
  by (cases "i < length ts") (simp_all add: map_update list_update_beyond, metis list_update_id nth_map)

lemma same_images_update: "same_images s t \<Longrightarrow> wt_image d = wt_image (ws_tiles t ! i) \<Longrightarrow> same_images s (t\<lparr>ws_tiles := (ws_tiles t)[i := d]\<rparr>)"
  by (simp add: same_images_def map_image_update)

lemma buffer_ready:
  assumes "tile_ready E (ws_tiles s ! i)" "i < length (ws_tiles s)"
  shows "fst (bufferForTile E (Some i) s) = tile_buffer E (ws_tiles s ! i)"
    and "same_images s (snd (bufferForTile E (Some i) s))"
    and "\<And>j. j < length (ws_tiles s) \<Longrightarrow> tile_ready E (ws_tiles s ! j) \<Longrightarrow> tile_ready E (ws_tiles (snd (bufferForTile E (Some i) s)) ! j)"
proof -
  let ?d = "ws_tiles s ! i"
  let ?e = "if wt_buffer ?d = None \<and> wt_created ?d then ?d\<lparr>wt_buffer := tile_buffer E ?d\<rparr> else ?d"
  have b: "bufferForTile E (Some i) s = (wt_buffer ?e, s\<lparr>ws_tiles := (ws_tiles s)[i := ?e]\<rparr>)"
    by (simp add: bufferForTile_def Let_def tile_buffer_def)
  show "fst (bufferForTile E (Some i) s) = tile_buffer E ?d" using assms(1) unfolding b by (auto simp: tile_ready_def)
  show "same_images s (snd (bufferForTile E (Some i) s))" unfolding b snd_conv
    by (rule same_images_update) (simp_all add: same_images_def)
  show "tile_ready E (ws_tiles (snd (bufferForTile E (Some i) s)) ! j)"
    if "j < length (ws_tiles s)" "tile_ready E (ws_tiles s ! j)" for j
    unfolding b using that by (cases "j = i") (auto simp: tile_ready_def tile_buffer_def)
qed

definition tiles_ready :: "ws_env \<Rightarrow> wl_shadow \<Rightarrow> side list \<Rightarrow> bool" where
  "tiles_ready E s ks \<longleftrightarrow> (\<forall>k \<in> set ks. \<forall>i. ws_tile s k = Some i \<longrightarrow> i < length (ws_tiles s) \<and> tile_ready E (ws_tiles s ! i))"

text \<open>What should be attached for a side.\<close>

definition side_request :: "ws_env \<Rightarrow> nat \<Rightarrow> wl_shadow \<Rightarrow> side \<Rightarrow> ws_request list" where
  "side_request E q s k = (case ws_tile s k of None \<Rightarrow> []
     | Some i \<Rightarrow> (case tile_buffer E (ws_tiles s ! i) of None \<Rightarrow> [] | Some b \<Rightarrow> [ShadowAttach q k b]))"

lemma attach_requests:
  assumes "tiles_ready E s ks"
  shows "snd (attach_tiles E q ks s) = concat (map (side_request E q s) ks)"
  using assms
proof (induction ks arbitrary: s)
  case (Cons k ks)
  show ?case
  proof (cases "ws_tile s k")
    case None
    then have "bufferForTile E (ws_tile s k) s = (None, s)" by (simp add: bufferForTile_def)
    then show ?thesis using Cons None by (simp add: side_request_def tiles_ready_def case_prod_beta)
  next
    case (Some i)
    let ?t = "snd (bufferForTile E (Some i) s)"
    have i: "i < length (ws_tiles s)" "tile_ready E (ws_tiles s ! i)" using Cons.prems Some by (simp_all add: tiles_ready_def)
    note b = buffer_ready [OF i(2,1)]
    have tile: "ws_tile ?t = ws_tile s" by (rule ws_coreD(1) [OF core_buffer])
    have "tiles_ready E ?t ks" unfolding tiles_ready_def tile
      using Cons.prems b(3) same_images_buffer(2) [OF b(2)] by (simp add: tiles_ready_def)
    then have "snd (attach_tiles E q ks ?t) = concat (map (side_request E q ?t) ks)" by (rule Cons.IH)
    also have "map (side_request E q ?t) ks = map (side_request E q s) ks"
      using Cons.prems same_images_buffer(1) [OF b(2)]
      by (auto simp: side_request_def tile tiles_ready_def split: option.split)
    finally have "snd (attach_tiles E q ks ?t) = concat (map (side_request E q s) ks)" .
    moreover have "side_request E q s k = (case tile_buffer E (ws_tiles s ! i) of None \<Rightarrow> [] | Some b \<Rightarrow> [ShadowAttach q k b])"
      using Some by (simp add: side_request_def)
    ultimately show ?thesis using b(1) Some by (simp add: case_prod_beta)
  qed
qed simp

lemma ready_fresh: "tile_ready E d \<longleftrightarrow> tile_fresh E d \<and> wt_created d"
  by (auto simp: tile_ready_def tile_fresh_def)

lemma create_ready:
  assumes "ws_tile_create E d = (True, d')" "tile_fresh E d"
  shows "tile_ready E d' \<and> wt_image d' = wt_image d"
  using assms by (auto simp: ws_tile_create_def wl_tile_create_def tile_ready_def tile_fresh_def tile_buffer_def Let_def split: if_splits)

lemma prepare_ready:
  assumes "ws_prepareTiles E ts s = (True, s')" "\<forall>i. Some i \<in> set ts \<longrightarrow> i < length (ws_tiles s)"
    "\<forall>d \<in> set (ws_tiles s). tile_fresh E d"
  shows "same_images s s' \<and> (\<forall>d \<in> set (ws_tiles s'). tile_fresh E d) \<and> (\<forall>i. Some i \<in> set ts \<longrightarrow> tile_ready E (ws_tiles s' ! i)) \<and>
    (\<forall>i < length (ws_tiles s). tile_ready E (ws_tiles s ! i) \<longrightarrow> tile_ready E (ws_tiles s' ! i))"
  using assms
proof (induction E ts s rule: ws_prepareTiles.induct)
  case (1 E s)
  then show ?case by (simp add: same_images_def)
next
  case (2 E ts s)
  then show ?case by simp
next
  case (3 E t ts s)
  obtain b d where d: "ws_tile_create E (ws_tiles s ! t) = (b, d)" by (cases "ws_tile_create E (ws_tiles s ! t)")
  have t: "t < length (ws_tiles s)" using 3(3) by simp
  define s1 where "s1 = s\<lparr>ws_tiles := (ws_tiles s)[t := d]\<rparr>"
  have b: "b" "ws_prepareTiles E ts s1 = (True, s')" using 3(2) d by (auto simp: Let_def s1_def split: if_splits)
  have ready: "tile_ready E d" "wt_image d = wt_image (ws_tiles s ! t)"
    using create_ready [of E "ws_tiles s ! t" d] d b 3(4) t by (auto simp: nth_mem)
  have "\<forall>d' \<in> set (ws_tiles s1). tile_fresh E d'" using 3(4) ready(1) set_update_subset_insert [of "ws_tiles s" t d]
    by (auto simp: s1_def ready_fresh)
  moreover have "\<forall>i. Some i \<in> set ts \<longrightarrow> i < length (ws_tiles s1)" using 3(3) by (simp add: s1_def)
  ultimately have IH: "same_images s1 s' \<and> (\<forall>d \<in> set (ws_tiles s'). tile_fresh E d) \<and>
      (\<forall>i. Some i \<in> set ts \<longrightarrow> tile_ready E (ws_tiles s' ! i)) \<and>
      (\<forall>i < length (ws_tiles s1). tile_ready E (ws_tiles s1 ! i) \<longrightarrow> tile_ready E (ws_tiles s' ! i))"
    using 3(1) [of "(b, d)" b d s1] d b s1_def by simp
  have "same_images s s1" unfolding s1_def by (rule same_images_update) (simp_all add: same_images_def ready(2))
  then have "same_images s s'" using IH by (simp add: same_images_def)
  moreover have "tile_ready E (ws_tiles s1 ! i)" if "i = t \<or> i < length (ws_tiles s) \<and> tile_ready E (ws_tiles s ! i)" for i
    using that ready(1) t by (cases "i = t") (auto simp: s1_def)
  ultimately show ?case using IH t by (auto simp: s1_def)
qed

text \<open>Creating a shadow for a window with a surface sends the object, then for each of the eight sides that has a tile whose
  image gives a buffer that buffer, then the four offsets from the padding, the commit, and asks for a frame.  This
  holds whether the tiles were created before or not, and also when their buffers were lost with the shared memory.\<close>

theorem shadow_shows_its_tiles:
  assumes create: "ws_create E s = (True, s', es)" and before: "\<not> ws_created s" "ws_shadow s = None"
    and w: "ws_window s = Some w" "wv_native E w = Some n" "wv_surface E n = Some sf"
    and tiles: "\<forall>k i. ws_tile s k = Some i \<longrightarrow> i < length (ws_tiles s)" "\<forall>d \<in> set (ws_tiles s). tile_fresh E d"
  shows "es = [ShadowCreate sf (ws_next s)] @ concat (map (side_request E (ws_next s) s) sides) @
    ws_offsets E (ws_next s) (ws_padding s) @ [ShadowCommit (ws_next s), RequestUpdate w]"
proof -
  obtain s1 where p: "ws_prepareTiles E (map (ws_tile s) sides) s = (True, s1)"
    using create before w(1) by (auto simp: ws_create_def split: prod.splits bool.splits)
  have core: "ws_core s1 = ws_core s" using core_prepare [of E "map (ws_tile s) sides" s] p by simp
  note s1 = ws_coreD [OF core]
  have "\<forall>i. Some i \<in> set (map (ws_tile s) sides) \<longrightarrow> i < length (ws_tiles s)" using tiles(1) by (auto dest: sym)
  note ready = prepare_ready [OF p this tiles(2)]
  have manager: "wv_manager E" using create before w(1) p by (auto simp: ws_create_def wl_shadow_create_def split: if_splits)
  let ?q = "ws_next s"
  let ?s2 = "s1\<lparr>ws_shadow := Some ?q, ws_next := Suc ?q, ws_connected := insert n (ws_connected s1)\<rparr>"
  have "ws_surface E (Some w) = Some sf" using w by (simp add: ws_surface_def)
  then have "es = [ShadowCreate sf ?q] @ snd (attach_tiles E ?q sides ?s2) @ ws_offsets E ?q (ws_padding s) @ [ShadowCommit ?q, RequestUpdate w]"
    using create before w p manager s1
    by (simp add: ws_create_def wl_shadow_create_def internalCreate_def Let_def case_prod_beta)
  moreover have "tiles_ready E ?s2 sides" unfolding tiles_ready_def
  proof (intro ballI allI impI)
    fix k i
    assume k: "k \<in> set sides" and i: "ws_tile ?s2 k = Some i"
    then have "ws_tile s k = Some i" using s1(1) by simp
    then have "Some i \<in> set (map (ws_tile s) sides)" using k by force
    moreover have "i < length (ws_tiles s)" using tiles(1) \<open>ws_tile s k = Some i\<close> by blast
    ultimately show "i < length (ws_tiles ?s2) \<and> tile_ready E (ws_tiles ?s2 ! i)"
      using ready same_images_buffer(2) [of s s1 i] by simp
  qed
  then have "snd (attach_tiles E ?q sides ?s2) = concat (map (side_request E ?q ?s2) sides)" by (rule attach_requests)
  moreover have "side_request E ?q ?s2 = side_request E ?q s"
    using tiles(1) same_images_buffer(1) [of s s1 _ E] ready s1(1) by (auto simp: side_request_def fun_eq_iff split: option.split)
  ultimately show ?thesis by simp
qed

definition demo_tiled :: wl_shadow where
  "demo_tiled = new_wl_shadow\<lparr>ws_window := Some 5, ws_tile := [ShTop \<mapsto> 0],
     ws_tiles := [\<lparr>wt_image = demo_pixel RGB32 4, wt_created = False, wt_buffer = None\<rparr>]\<rparr>"

lemma demo_tiled_create: "fst (ws_create demo_ws demo_tiled) = True"
  by (simp add: demo_tiled_def ws_create_def new_wl_shadow_def sides_def ws_tile_create_def wl_tile_create_def Let_def demo_ws_def
      wl_shadow_create_def split: prod.split)

theorem shadow_shows_its_tiles_witness:
  "\<exists>b. snd (snd (ws_create demo_ws demo_tiled)) =
     [ShadowCreate 3 0, ShadowAttach 0 ShTop b, ShadowOffset 0 ShLeft 0, ShadowOffset 0 ShTop 0, ShadowOffset 0 ShRight 0,
      ShadowOffset 0 ShBottom 0, ShadowCommit 0, RequestUpdate 5]"
proof -
  have "fst (createBuffer demo_shm (demo_pixel RGB32 4)) \<noteq> None"
    by (simp add: createBuffer_def demo_shm_def demo_pixel_def null_shm_image_def shm_open_def shm_mkstemp_def source_image_def Let_def)
  then obtain b where "fst (createBuffer demo_shm (demo_pixel RGB32 4)) = Some b" by auto
  then have "concat (map (side_request demo_ws 0 demo_tiled) sides) = [ShadowAttach 0 ShTop b]"
    by (simp add: side_request_def demo_tiled_def new_wl_shadow_def sides_def tile_buffer_def demo_ws_def)
  moreover have c: "ws_create demo_ws demo_tiled = (True, fst (snd (ws_create demo_ws demo_tiled)), snd (snd (ws_create demo_ws demo_tiled)))"
    using demo_tiled_create by (simp add: prod_eq_iff)
  have "snd (snd (ws_create demo_ws demo_tiled)) = [ShadowCreate 3 (ws_next demo_tiled)] @
      concat (map (side_request demo_ws (ws_next demo_tiled) demo_tiled) sides) @
      ws_offsets demo_ws (ws_next demo_tiled) (ws_padding demo_tiled) @ [ShadowCommit (ws_next demo_tiled), RequestUpdate 5]"
    by (rule shadow_shows_its_tiles [where n = 7, OF c])
      (simp_all add: demo_tiled_def new_wl_shadow_def tile_fresh_def split: if_splits, simp_all add: demo_ws_def)
  moreover have "ws_next demo_tiled = 0" by (simp add: demo_tiled_def new_wl_shadow_def)
  moreover have "ws_offsets demo_ws 0 (ws_padding demo_tiled) =
      [ShadowOffset 0 ShLeft 0, ShadowOffset 0 ShTop 0, ShadowOffset 0 ShRight 0, ShadowOffset 0 ShBottom 0]"
    by (simp add: ws_offsets_def demo_tiled_def new_wl_shadow_def demo_ws_def)
  ultimately show ?thesis by simp
qed

section \<open>A connection that outlives its window\<close>

text \<open>A shadow that is destroyed, given another window and created again still listens to the surface of the window it had:
  when that surface goes, the shadow of the other window is taken away although its surface is there, and the shadow
  still says it is created.\<close>

theorem old_window_takes_the_shadow:
  assumes reach: "ws_reachable E0 (E, s, tr)" and old: "ws_shadow s = Some q" "ws_window s = Some w1" "wv_native E w1 = Some n1"
    and off: "ws_destroy E s = (s1, es1)"
    and on: "ws_create E (ws_setWindow (Some w2) s1) = (True, s2, es2)"
    and w2: "wv_native E w2 = Some n2" "n2 \<noteq> n1" "wv_surface E n2 = Some sf2"
    and gone: "E' = E\<lparr>wv_surface := (wv_surface E)(n1 := None)\<rparr>" "ws_surface_destroyed E' n1 s2 = (s3, es3)"
  shows "ws_shadow s2 \<noteq> None \<and> ws_shadow s3 = None \<and> ws_created s3 \<and> ws_window s3 = Some w2 \<and> ShadowUnset sf2 \<in> set es3"
proof -
  have ok: "shadow_ok E s tr" by (rule reachable_shadow_ok [OF reach])
  then have created: "ws_created s" and conn: "n1 \<in> ws_connected s" using old by (auto simp: shadow_ok_def shadow_current_iff)
  obtain u es where u: "internalDestroy E (s\<lparr>ws_filters := ws_filters s - {w1}\<rparr>) = (u, es)"
    by (cases "internalDestroy E (s\<lparr>ws_filters := ws_filters s - {w1}\<rparr>)")
  then have "s1 = u\<lparr>ws_created := False\<rparr>" using off created old(2) by (simp add: ws_destroy_def wl_shadow_destroy_def)
  moreover have "ws_shadow u = None" "ws_connected u = ws_connected s"
    using internalDestroy_shadow [OF u] ws_coreD(7) [OF conjunct2 [OF internalDestroy_shadow [OF u]]] by simp_all
  ultimately have s1: "ws_shadow s1 = None" "ws_connected s1 = ws_connected s" "\<not> ws_created s1" by simp_all
  let ?v = "ws_setWindow (Some w2) s1"
  have v: "ws_shadow ?v = None" "ws_connected ?v = ws_connected s" "ws_window ?v = Some w2" "\<not> ws_created ?v"
    using s1 by (simp_all add: ws_setWindow_def)
  obtain v1 where p: "ws_prepareTiles E (map (ws_tile ?v) sides) ?v = (True, v1)"
    using on v by (auto simp: ws_create_def split: prod.splits bool.splits)
  have "ws_core v1 = ws_core ?v" using core_prepare [of E "map (ws_tile ?v) sides" ?v] p by simp
  note v1 = ws_coreD [OF this]
  have manager: "wv_manager E" using on v p by (auto simp: ws_create_def wl_shadow_create_def split: if_splits)
  obtain b v2 es' where i: "internalCreate E v1 = (b, v2, es')" by (cases "internalCreate E v1")
  have surf: "ws_surface E (Some w2) = Some sf2" using w2 by (simp add: ws_surface_def)
  have v2: "ws_shadow v2 \<noteq> None \<and> n1 \<in> ws_connected v2 \<and> ws_window v2 = Some w2"
    using i
  proof (cases rule: internalCreate_cases)
    case kept
    then show ?thesis using v v1 surf manager by simp
  next
    case (made w n sf)
    then show ?thesis using ws_coreD [OF made(7)] v v1 conn by simp
  qed
  then have s2: "s2 = v2\<lparr>ws_filters := insert w2 (ws_filters v2), ws_created := True\<rparr>"
    using on v p manager i by (auto simp: ws_create_def wl_shadow_create_def)
  have "ws_surface E' (Some w2) = Some sf2" using w2 by (simp add: gone ws_surface_def)
  then show ?thesis using v2 gone(2) manager by (auto simp: s2 gone(1) ws_surface_destroyed_def internalDestroy_def)
qed

definition demo_moved :: "bool \<times> wl_shadow \<times> ws_request list" where
  "demo_moved = ws_create demo_ws (ws_setWindow (Some 6) (fst (ws_destroy demo_ws (fst (snd (demo_ws_shown 5))))))"

theorem old_window_takes_the_shadow_witness:
  "ws_shadow (fst (ws_surface_destroyed (demo_ws\<lparr>wv_surface := (wv_surface demo_ws)(7 := None)\<rparr>) 7 (fst (snd demo_moved)))) = None"
proof -
  let ?s1 = "fst (ws_destroy demo_ws (fst (snd (demo_ws_shown 5))))"
  let ?c = "ws_create demo_ws (ws_setWindow (Some 6) ?s1)"
  have "fst ?c = True"
    by (simp add: demo_ws_shown_state ws_destroy_def wl_shadow_destroy_def internalDestroy_def ws_setWindow_def ws_create_def
        new_wl_shadow_def sides_def wl_shadow_create_def case_prod_beta demo_ws_def)
  then have c: "?c = (True, fst (snd ?c), snd (snd ?c))" by (simp add: prod_eq_iff)
  show ?thesis unfolding demo_moved_def
    using old_window_takes_the_shadow [OF demo_ws_reachable _ _ _ prod.collapse [symmetric] c _ _ _ refl prod.collapse [symmetric],
        of 0 5 7 8 4]
    by (simp add: demo_ws_shown_state new_wl_shadow_def) (simp add: demo_ws_def)
qed

end
