(* ===== verification/Futures.thy ===== *)
theory Futures
  imports Prelude
begin

text \<open>
  Futures of Qt as parts of a state: a promise that is finished or canceled stays so.  The contract is a locale for the
  objects that keep futures (WlSystem, WlExtras); its laws are about settling one future, its lemmas about settling many.
\<close>

datatype xs_future = Waiting | Finished string | Canceled

locale promises =
  fixes futures :: "'s \<Rightarrow> nat \<Rightarrow> xs_future option" and settle_one :: "xs_future \<Rightarrow> nat \<Rightarrow> 's \<Rightarrow> 's"
  assumes settled: "futures (settle_one v f s) g = (if g = f \<and> futures s f = Some Waiting then Some v else futures s g)"
begin

lemma all_settled:
  "futures (fold (settle_one v) fs s) f = (if f \<in> set fs \<and> futures s f = Some Waiting then Some v else futures s f)"
  by (induction fs arbitrary: s) (auto simp: settled)

lemma answered: "f \<in> set fs \<Longrightarrow> futures s f = Some Waiting \<Longrightarrow> futures (fold (settle_one v) fs s) f = Some v"
  by (simp add: all_settled)

lemma still_waiting:
  assumes "futures (fold (settle_one v) fs s) f = Some Waiting" "v \<noteq> Waiting"
  shows "futures s f = Some Waiting" "f \<notin> set fs"
  using assms by (simp_all add: all_settled split: if_splits)

end

end
