(* ===== verification/WlSystem.thy ===== *)
theory WlSystem
  imports Futures
begin

text \<open>
  Windows on Wayland (platforms/wayland/windowsystem.cpp, waylandxdgforeignv2.cpp, waylandxdgactivationv1.cpp): activation
  with a token, windows that are exported to and imported from other programs, tags of windows, and the showing of
  the desktop.  Futures, properties of windows of the platform and connections are part of the state.
\<close>

section \<open>State\<close>

text \<open>
  What is outside: the managers the compositor offers; the window of the platform a window gets when it is created;
  surfaces and surface roles; the state of windows; the seat and the serial of the last input, when the application
  has its interface for Wayland; and whether Qt is older than 6.10.
\<close>

record xs_env =
  xe_activation :: bool
  xe_exporter :: bool
  xe_importer :: bool
  xe_dialogs :: bool
  xe_management :: bool
  xe_tags :: bool
  xe_creates :: "nat \<Rightarrow> nat option"
  xe_surface :: "nat \<Rightarrow> nat option"
  xe_toplevel :: "nat \<Rightarrow> nat option"
  xe_exposed :: "nat \<Rightarrow> bool"
  xe_modal :: "nat \<Rightarrow> bool"
  xe_seat :: "nat option option"
  xe_serial :: u32
  xe_old_qt :: bool

datatype xs_request =
    Activate string nat
  | TokenRequest nat
  | TokenSurface nat nat
  | TokenAppId nat string
  | TokenSerial nat u32 nat
  | TokenCommit nat
  | TokenDestroy nat
  | TokenArrived u32 string
  | ShowDesktop bool
  | ExportToplevel "nat option" nat
  | ExportedDestroy nat
  | ImportToplevel string nat
  | SetParentOf nat "nat option"
  | ImportedDestroy nat
  | GetDialog nat nat
  | SetModal nat
  | DialogDestroy nat
  | SetToplevelTag nat string
  | SetToplevelDescription nat string

text \<open>Handlers of the signal that the role of a surface was created.\<close>

datatype role_handler = MainWindow nat string | TagCookie nat string | DescriptionCookie nat string

datatype token_waiter = TokenFuture nat | TokenSignal u32

record xdg_state =
  xs_token :: "string option"
  xs_showing :: bool
  xs_native :: "nat \<rightharpoonup> nat"
  xs_exported :: "nat \<rightharpoonup> nat"
  xs_handle :: "nat \<Rightarrow> string"
  xs_waiting :: "(nat \<times> nat) list"
  xs_futures :: "nat \<rightharpoonup> xs_future"
  xs_imported :: "nat \<rightharpoonup> nat"
  xs_imports :: "(nat \<times> nat \<times> string) list"
  xs_dialogs :: "(nat \<times> nat) list"
  xs_roles :: "(nat \<times> role_handler) list"
  xs_tokens :: "(nat \<times> token_waiter) list"
  xs_timers :: "u32 list"
  xs_next :: nat
  xs_sent :: "xs_request list"

definition new_xdg_state :: xdg_state where
  "new_xdg_state = \<lparr>xs_token = None, xs_showing = False, xs_native = Map.empty, xs_exported = Map.empty, xs_handle = (\<lambda>_. []),
     xs_waiting = [], xs_futures = Map.empty, xs_imported = Map.empty, xs_imports = [], xs_dialogs = [], xs_roles = [],
     xs_tokens = [], xs_timers = [], xs_next = 0, xs_sent = []\<rparr>"

definition xs_send :: "xs_request list \<Rightarrow> xdg_state \<Rightarrow> xdg_state" where
  "xs_send es s = s\<lparr>xs_sent := xs_sent s @ es\<rparr>"

text \<open>\<^verbatim>\<open>QWindow::create\<close>.\<close>

definition window_create :: "xs_env \<Rightarrow> nat \<Rightarrow> xdg_state \<Rightarrow> xdg_state" where
  "window_create E w s = (if xs_native s w = None then s\<lparr>xs_native := (xs_native s)(w := xe_creates E w)\<rparr> else s)"

definition xs_surface :: "xs_env \<Rightarrow> nat option \<Rightarrow> xdg_state \<Rightarrow> nat option" where
  "xs_surface E window s = (case window of None \<Rightarrow> None
     | Some w \<Rightarrow> (case xs_native s w of None \<Rightarrow> None | Some n \<Rightarrow> xe_surface E n))"

definition xdgToplevelForWindow :: "xs_env \<Rightarrow> nat option \<Rightarrow> xdg_state \<Rightarrow> nat option" where
  "xdgToplevelForWindow E window s = (case window of None \<Rightarrow> None
     | Some w \<Rightarrow> (case xs_native s w of None \<Rightarrow> None | Some n \<Rightarrow> xe_toplevel E n))"

definition new_future :: "xs_future \<Rightarrow> xdg_state \<Rightarrow> nat \<times> xdg_state" where
  "new_future v s = (xs_next s, s\<lparr>xs_futures := (xs_futures s)(xs_next s \<mapsto> v), xs_next := Suc (xs_next s)\<rparr>)"

text \<open>A promise that is finished or canceled stays so.\<close>

definition settle :: "xs_future \<Rightarrow> nat \<Rightarrow> xdg_state \<Rightarrow> xdg_state" where
  "settle v f s = (if xs_futures s f = Some Waiting then s\<lparr>xs_futures := (xs_futures s)(f \<mapsto> v)\<rparr> else s)"

interpretation xs: promises xs_futures settle
  by unfold_locales (simp add: settle_def)

section \<open>Activation\<close>

definition consumeCurrentActivationToken :: "xdg_state \<Rightarrow> string \<times> xdg_state" where
  "consumeCurrentActivationToken s = (case xs_token s of None \<Rightarrow> [] | Some t \<Rightarrow> t, s\<lparr>xs_token := None\<rparr>)"

definition xs_activateWindow :: "xs_env \<Rightarrow> nat option \<Rightarrow> xdg_state \<Rightarrow> xdg_state" where
  "xs_activateWindow E window s = (case xs_surface E window s of
       None \<Rightarrow> s
     | Some surface \<Rightarrow>
         if \<not> xe_activation E then s
         else let (token, s) = consumeCurrentActivationToken s in xs_send [Activate token surface] s)"

definition setCurrentToken :: "string \<Rightarrow> xdg_state \<Rightarrow> xdg_state" where
  "setCurrentToken token s = s\<lparr>xs_token := Some token\<rparr>"

definition requestXdgActivationToken ::
  "nat option \<Rightarrow> nat option \<Rightarrow> u32 \<Rightarrow> string \<Rightarrow> xdg_state \<Rightarrow> nat \<times> xdg_state" where
  "requestXdgActivationToken seat surface serial app_id s =
     (let t = xs_next s in
      (t, xs_send ([TokenRequest t] @ (case surface of None \<Rightarrow> [] | Some sf \<Rightarrow> [TokenSurface t sf]) @
          (if app_id \<noteq> [] then [TokenAppId t app_id] else []) @
          (case seat of None \<Rightarrow> [] | Some st \<Rightarrow> [TokenSerial t serial st]) @ [TokenCommit t])
        (s\<lparr>xs_next := Suc t\<rparr>)))"

definition requestToken :: "xs_env \<Rightarrow> nat option \<Rightarrow> u32 \<Rightarrow> string \<Rightarrow> xdg_state \<Rightarrow> xdg_state" where
  "requestToken E window serial app_id s =
     (let s = (case window of None \<Rightarrow> s | Some w \<Rightarrow> window_create E w s); surface = xs_surface E window s
      in if \<not> xe_activation E then s\<lparr>xs_timers := xs_timers s @ [serial]\<rparr>
      else let seat = (case xe_seat E of None \<Rightarrow> None | Some st \<Rightarrow> st);
               (t, s) = requestXdgActivationToken seat surface serial app_id s
           in s\<lparr>xs_tokens := xs_tokens s @ [(t, TokenSignal serial)]\<rparr>)"

definition xdgActivationToken :: "xs_env \<Rightarrow> nat option \<Rightarrow> u32 \<Rightarrow> string \<Rightarrow> xdg_state \<Rightarrow> nat \<times> xdg_state" where
  "xdgActivationToken E window serial appId s =
     (if \<not> xe_activation E then new_future (Finished []) s
      else case xe_seat E of
        None \<Rightarrow> new_future (Finished []) s
      | Some seat \<Rightarrow>
          let s = (case window of None \<Rightarrow> s | Some w \<Rightarrow> window_create E w s);
              (t, s) = requestXdgActivationToken seat (xs_surface E window s) serial appId s;
              (f, s) = new_future Waiting s
          in (f, s\<lparr>xs_tokens := xs_tokens s @ [(t, TokenFuture f)]\<rparr>))"

text \<open>The compositor answers a request for a token; the request is deleted afterwards.\<close>

definition token_done :: "nat \<Rightarrow> string \<Rightarrow> xdg_state \<Rightarrow> xdg_state" where
  "token_done t token s = (case map_of (xs_tokens s) t of
       None \<Rightarrow> s
     | Some waiter \<Rightarrow>
         let s = (case waiter of TokenFuture f \<Rightarrow> settle (Finished token) f s | TokenSignal serial \<Rightarrow> xs_send [TokenArrived serial token] s)
         in xs_send [TokenDestroy t] (s\<lparr>xs_tokens := filter (\<lambda>(u, k). u \<noteq> t) (xs_tokens s)\<rparr>))"

definition run_timers :: "xdg_state \<Rightarrow> xdg_state" where
  "run_timers s = xs_send (map (\<lambda>serial. TokenArrived serial []) (xs_timers s)) (s\<lparr>xs_timers := []\<rparr>)"

definition lastInputSerial :: "xs_env \<Rightarrow> u32" where
  "lastInputSerial E = (if xe_seat E = None then 0 else xe_serial E)"

section \<open>Showing the desktop\<close>

definition xs_setShowingDesktop :: "xs_env \<Rightarrow> bool \<Rightarrow> xdg_state \<Rightarrow> xdg_state" where
  "xs_setShowingDesktop E b s = (if \<not> xe_management E then s else xs_send [ShowDesktop b] s)"

definition xs_showingDesktop :: "xs_env \<Rightarrow> xdg_state \<Rightarrow> bool" where
  "xs_showingDesktop E s = (if \<not> xe_management E then False else xs_showing s)"

definition show_desktop_changed :: "bool \<Rightarrow> xdg_state \<Rightarrow> xdg_state" where
  "show_desktop_changed b s = s\<lparr>xs_showing := b\<rparr>"

section \<open>Exported windows\<close>

text \<open>The answer for an object that is there: its handle, or a future that waits for it.\<close>

definition exported_future :: "nat \<Rightarrow> xdg_state \<Rightarrow> nat \<times> xdg_state" where
  "exported_future q s =
     (if xs_handle s q \<noteq> [] then new_future (Finished (xs_handle s q)) s
      else let (f, s) = new_future Waiting s in (f, s\<lparr>xs_waiting := xs_waiting s @ [(f, q)]\<rparr>))"

definition exportToplevel :: "xs_env \<Rightarrow> nat option \<Rightarrow> xdg_state \<Rightarrow> nat \<times> xdg_state" where
  "exportToplevel E window s = (case window of
       None \<Rightarrow> new_future (Finished []) s
     | Some w \<Rightarrow>
         let s = window_create E w s in
         (case xs_native s w of
            None \<Rightarrow> new_future (Finished []) s
          | Some n \<Rightarrow>
              if \<not> xe_exporter E then new_future (Finished []) s
              else (case xs_exported s n of
                  Some q \<Rightarrow> exported_future q s
                | None \<Rightarrow>
                    if xdgToplevelForWindow E window s = None then new_future (Finished []) s
                    else let q = xs_next s in
                      exported_future q (xs_send [ExportToplevel (xs_surface E window s) q]
                        (s\<lparr>xs_exported := (xs_exported s)(n \<mapsto> q), xs_handle := (xs_handle s)(q := []), xs_next := Suc q\<rparr>)))))"

text \<open>\<^verbatim>\<open>zxdg_exported_v2_handle\<close>: the handle is kept and goes to all that wait for this object.\<close>

definition exported_handle :: "nat \<Rightarrow> string \<Rightarrow> xdg_state \<Rightarrow> xdg_state" where
  "exported_handle q h s =
     fold (settle (Finished h)) (map fst (filter (\<lambda>(f, p). p = q) (xs_waiting s))) (s\<lparr>xs_handle := (xs_handle s)(q := h)\<rparr>)"

text \<open>Deleting an exported object: its connections go with it, and a promise that is dropped cancels its future.\<close>

definition delete_exported :: "nat \<Rightarrow> xdg_state \<Rightarrow> xdg_state" where
  "delete_exported n s = (case xs_exported s n of
       None \<Rightarrow> s
     | Some q \<Rightarrow>
         let s = fold (settle Canceled) (map fst (filter (\<lambda>(f, p). p = q) (xs_waiting s))) s
         in xs_send [ExportedDestroy q]
              (s\<lparr>xs_waiting := filter (\<lambda>(f, p). p \<noteq> q) (xs_waiting s), xs_exported := (xs_exported s)(n := None)\<rparr>))"

definition unexportToplevel :: "nat option \<Rightarrow> xdg_state \<Rightarrow> xdg_state" where
  "unexportToplevel window s = (case window of None \<Rightarrow> s
     | Some w \<Rightarrow> (case xs_native s w of None \<Rightarrow> s | Some n \<Rightarrow> delete_exported n s))"

section \<open>Imported windows\<close>

text \<open>An imported object that dies clears the property of its window of the platform.\<close>

definition delete_imported :: "nat \<Rightarrow> xdg_state \<Rightarrow> xdg_state" where
  "delete_imported q s = (case map_of (xs_imports s) q of
       None \<Rightarrow> s
     | Some (n, h) \<Rightarrow>
         xs_send [ImportedDestroy q]
           (s\<lparr>xs_imports := filter (\<lambda>(p, x). p \<noteq> q) (xs_imports s), xs_imported := (xs_imported s)(n := None)\<rparr>))"

definition first_dialog :: "nat \<Rightarrow> xdg_state \<Rightarrow> nat option" where
  "first_dialog n s = map_of (map (\<lambda>(d, m). (m, d)) (xs_dialogs s)) n"

definition delete_dialog :: "nat option \<Rightarrow> xdg_state \<Rightarrow> xdg_state" where
  "delete_dialog old s = (case old of None \<Rightarrow> s
     | Some d \<Rightarrow> xs_send [DialogDestroy d] (s\<lparr>xs_dialogs := filter (\<lambda>(e, m). e \<noteq> d) (xs_dialogs s)\<rparr>))"

text \<open>Before Qt 6.10, the modality of the window is told with an object of its own.\<close>

definition update_dialog :: "xs_env \<Rightarrow> nat \<Rightarrow> nat \<Rightarrow> xdg_state \<Rightarrow> xdg_state" where
  "update_dialog E w n s =
     (if \<not> xe_old_qt E then s
      else let old = first_dialog n s in
        if xe_modal E w \<and> old = None
        then (if \<not> xe_dialogs E then s
          else case xdgToplevelForWindow E (Some w) s of
            None \<Rightarrow> s
          | Some toplevel \<Rightarrow>
              xs_send [GetDialog toplevel (xs_next s), SetModal (xs_next s)]
                (s\<lparr>xs_dialogs := xs_dialogs s @ [(xs_next s, n)], xs_next := Suc (xs_next s)\<rparr>))
        else delete_dialog old s)"

definition doSetMainWindow :: "xs_env \<Rightarrow> nat \<Rightarrow> string \<Rightarrow> xdg_state \<Rightarrow> xdg_state" where
  "doSetMainWindow E w handle s = (case xs_native s w of
       None \<Rightarrow> s
     | Some n \<Rightarrow>
         if xe_toplevel E n = None then s
         else if \<not> xe_importer E then s
         else let q = xs_next s in
           update_dialog E w n
             (xs_send [ImportToplevel handle q, SetParentOf q (xs_surface E (Some w) s)]
               (s\<lparr>xs_imports := xs_imports s @ [(q, n, handle)], xs_imported := (xs_imported s)(n \<mapsto> q), xs_next := Suc q\<rparr>)))"

definition imported_handle :: "nat \<Rightarrow> xdg_state \<Rightarrow> string" where
  "imported_handle q s = (case map_of (xs_imports s) q of None \<Rightarrow> [] | Some (n, h) \<Rightarrow> h)"

definition xs_setMainWindow :: "xs_env \<Rightarrow> nat option \<Rightarrow> string \<Rightarrow> xdg_state \<Rightarrow> xdg_state" where
  "xs_setMainWindow E window handle s = (case window of
       None \<Rightarrow> s
     | Some w \<Rightarrow>
         let s = window_create E w s in
         (case xs_native s w of
            None \<Rightarrow> s
          | Some n \<Rightarrow>
              let s = (case xs_imported s n of None \<Rightarrow> s
                         | Some q \<Rightarrow> if imported_handle q s \<noteq> handle then delete_imported q s else s)
              in if handle = [] then s
              else if xe_exposed E w \<or> xe_toplevel E n \<noteq> None then doSetMainWindow E w handle s
              else s\<lparr>xs_roles := xs_roles s @ [(n, MainWindow w handle)]\<rparr>))"

section \<open>Tags\<close>

definition assign_tag :: "xs_env \<Rightarrow> nat \<Rightarrow> string \<Rightarrow> xdg_state \<Rightarrow> xdg_state" where
  "assign_tag E n tag s = (case xe_toplevel E n of None \<Rightarrow> s | Some toplevel \<Rightarrow> xs_send [SetToplevelTag toplevel tag] s)"

definition assign_description :: "xs_env \<Rightarrow> nat \<Rightarrow> string \<Rightarrow> xdg_state \<Rightarrow> xdg_state" where
  "assign_description E n d s =
     (case xe_toplevel E n of None \<Rightarrow> s | Some toplevel \<Rightarrow> xs_send [SetToplevelDescription toplevel d] s)"

fun is_tag_of :: "nat \<Rightarrow> role_handler \<Rightarrow> bool" where
  "is_tag_of w (TagCookie v t) = (v = w)"
| "is_tag_of w _ = False"

fun is_description_of :: "nat \<Rightarrow> role_handler \<Rightarrow> bool" where
  "is_description_of w (DescriptionCookie v t) = (v = w)"
| "is_description_of w _ = False"

text \<open>The cookie, a child of the window, is the receiver of the connection; the old one goes with its connection.\<close>

definition setXdgToplevelTag :: "xs_env \<Rightarrow> nat \<Rightarrow> string \<Rightarrow> xdg_state \<Rightarrow> xdg_state" where
  "setXdgToplevelTag E w tag s =
     (let s = window_create E w s in
      case xs_native s w of None \<Rightarrow> s
      | Some n \<Rightarrow>
          let s = assign_tag E n tag (s\<lparr>xs_roles := filter (\<lambda>(m, k). \<not> is_tag_of w k) (xs_roles s)\<rparr>)
          in s\<lparr>xs_roles := xs_roles s @ [(n, TagCookie w tag)]\<rparr>)"

definition setXdgToplevelDescription :: "xs_env \<Rightarrow> nat \<Rightarrow> string \<Rightarrow> xdg_state \<Rightarrow> xdg_state" where
  "setXdgToplevelDescription E w d s =
     (let s = window_create E w s in
      case xs_native s w of None \<Rightarrow> s
      | Some n \<Rightarrow>
          let s = assign_description E n d (s\<lparr>xs_roles := filter (\<lambda>(m, k). \<not> is_description_of w k) (xs_roles s)\<rparr>)
          in s\<lparr>xs_roles := xs_roles s @ [(n, DescriptionCookie w d)]\<rparr>)"

section \<open>Events of windows of the platform\<close>

text \<open>\<^verbatim>\<open>surfaceRoleCreated\<close> calls the handlers in the order they were connected.\<close>

fun call_role_handler :: "xs_env \<Rightarrow> nat \<Rightarrow> role_handler \<Rightarrow> xdg_state \<Rightarrow> xdg_state" where
  "call_role_handler E n (MainWindow w h) s = doSetMainWindow E w h s"
| "call_role_handler E n (TagCookie w t) s = assign_tag E n t s"
| "call_role_handler E n (DescriptionCookie w d) s = assign_description E n d s"

definition role_created :: "xs_env \<Rightarrow> nat \<Rightarrow> xdg_state \<Rightarrow> xdg_state" where
  "role_created E n s = fold (call_role_handler E n) (map snd (filter (\<lambda>(m, k). m = n) (xs_roles s))) s"

text \<open>A window of the platform goes with its children and its connections.\<close>

definition xs_native_gone :: "nat \<Rightarrow> nat \<Rightarrow> xdg_state \<Rightarrow> xdg_state" where
  "xs_native_gone w n s =
     (let s = s\<lparr>xs_native := (xs_native s)(w := None), xs_roles := filter (\<lambda>(m, k). m \<noteq> n) (xs_roles s)\<rparr>;
          s = delete_exported n s;
          s = fold delete_imported (map fst (filter (\<lambda>(q, m, h). m = n) (xs_imports s))) s
      in fold (\<lambda>d. delete_dialog (Some d)) (map fst (filter (\<lambda>(d, m). m = n) (xs_dialogs s))) s)"

end
