(* ===== verification/WlSystemProperties.thy ===== *)
theory WlSystemProperties
  imports WlSystem
begin

text \<open>
  Properties of windows on Wayland: futures that wait have a reason to, exports that deliver, tokens that are used
  once, and main windows that are imported more than once.
\<close>

section \<open>Steps\<close>

inductive xs_step :: "xs_env \<times> xdg_state \<Rightarrow> xs_env \<times> xdg_state \<Rightarrow> bool" where
  xs_activate: "xs_step (E, s) (E, xs_activateWindow E w s)"
| xs_set_token: "xs_step (E, s) (E, setCurrentToken t s)"
| xs_request_token: "xs_step (E, s) (E, requestToken E w serial app s)"
| xs_activation_token: "xs_step (E, s) (E, snd (xdgActivationToken E w serial app s))"
| xs_token_done: "xs_step (E, s) (E, token_done t token s)"
| xs_timers_run: "xs_step (E, s) (E, run_timers s)"
| xs_show: "xs_step (E, s) (E, xs_setShowingDesktop E b s)"
| xs_shown: "xs_step (E, s) (E, show_desktop_changed b s)"
| xs_export: "xs_step (E, s) (E, snd (exportToplevel E w s))"
| xs_unexport: "xs_step (E, s) (E, unexportToplevel w s)"
| xs_handle_arrives: "xs_exported s n = Some q \<Longrightarrow> xs_step (E, s) (E, exported_handle q h s)"
| xs_main_window: "xs_step (E, s) (E, xs_setMainWindow E w h s)"
| xs_import_gone: "xs_step (E, s) (E, delete_imported q s)"
| xs_tag: "xs_step (E, s) (E, setXdgToplevelTag E v t s)"
| xs_description: "xs_step (E, s) (E, setXdgToplevelDescription E v d s)"
| xs_role: "xs_step (E, s) (E, role_created E n s)"
| xs_gone: "xs_native s v = Some n \<Longrightarrow> xs_step (E, s) (E, xs_native_gone v n s)"
| xs_outside: "xs_step (E, s) (E', s)"

inductive xs_reachable :: "xs_env \<times> xdg_state \<Rightarrow> bool" where
  xs_start: "xs_reachable (E, new_xdg_state)"
| xs_more: "xs_reachable c \<Longrightarrow> xs_step c c' \<Longrightarrow> xs_reachable c'"

section \<open>Futures that wait\<close>

definition waits_for_handle :: "xdg_state \<Rightarrow> nat \<Rightarrow> bool" where
  "waits_for_handle s f \<longleftrightarrow> (\<exists>q n. (f, q) \<in> set (xs_waiting s) \<and> xs_exported s n = Some q \<and> xs_handle s q = [])"

definition waits_for_token :: "xdg_state \<Rightarrow> nat \<Rightarrow> bool" where
  "waits_for_token s f \<longleftrightarrow> (\<exists>t. (t, TokenFuture f) \<in> set (xs_tokens s))"

definition futures_ok :: "xdg_state \<Rightarrow> bool" where
  "futures_ok s \<longleftrightarrow>
     (\<forall>f. xs_futures s f = Some Waiting \<longrightarrow> waits_for_handle s f \<or> waits_for_token s f) \<and>
     distinct (map fst (xs_tokens s)) \<and> (\<forall>(t, k) \<in> set (xs_tokens s). t < xs_next s) \<and>
     (\<forall>n q. xs_exported s n = Some q \<longrightarrow> q < xs_next s)"

text \<open>The part of the state the futures rest on.\<close>

definition xs_core where
  "xs_core s = (xs_futures s, xs_waiting s, xs_exported s, xs_handle s, xs_tokens s)"

lemma futures_core: "futures_ok s \<Longrightarrow> xs_core t = xs_core s \<Longrightarrow> xs_next s \<le> xs_next t \<Longrightarrow> futures_ok t"
  by (auto simp: futures_ok_def waits_for_handle_def waits_for_token_def xs_core_def) fastforce+

lemma core_simple [simp]:
  "xs_core (xs_send es s) = xs_core s" "xs_core (window_create E w s) = xs_core s"
  "xs_next (xs_send es s) = xs_next s" "xs_next (window_create E w s) = xs_next s"
  by (simp_all add: xs_core_def xs_send_def window_create_def)

lemma core_activate: "xs_core (xs_activateWindow E w s) = xs_core s \<and> xs_next s \<le> xs_next (xs_activateWindow E w s)"
  by (simp add: xs_activateWindow_def consumeCurrentActivationToken_def xs_core_def xs_send_def split: option.split)

lemma core_imported: "xs_core (delete_imported q s) = xs_core s \<and> xs_next s \<le> xs_next (delete_imported q s)"
  by (simp add: delete_imported_def xs_core_def xs_send_def split: option.split prod.split)

lemma core_dialog: "xs_core (delete_dialog d s) = xs_core s \<and> xs_next s \<le> xs_next (delete_dialog d s)"
  by (simp add: delete_dialog_def xs_core_def xs_send_def split: option.split)

lemma core_update_dialog: "xs_core (update_dialog E w n s) = xs_core s \<and> xs_next s \<le> xs_next (update_dialog E w n s)"
  using core_dialog [of "first_dialog n s" s]
  by (simp add: update_dialog_def Let_def xs_core_def xs_send_def split: option.split)

lemma core_doSetMainWindow: "xs_core (doSetMainWindow E w h s) = xs_core s \<and> xs_next s \<le> xs_next (doSetMainWindow E w h s)"
proof (cases "xs_native s w")
  case (Some n)
  let ?q = "xs_next s"
  let ?t = "xs_send [ImportToplevel h ?q, SetParentOf ?q (xs_surface E (Some w) s)]
      (s\<lparr>xs_imports := xs_imports s @ [(?q, n, h)], xs_imported := (xs_imported s)(n \<mapsto> ?q), xs_next := Suc ?q\<rparr>)"
  have "xs_core ?t = xs_core s" "xs_next ?t = Suc (xs_next s)" by (simp_all add: xs_core_def xs_send_def)
  then show ?thesis using Some core_update_dialog [of E w n ?t] by (simp add: doSetMainWindow_def Let_def)
qed (simp add: doSetMainWindow_def)

lemma core_setMainWindow: "xs_core (xs_setMainWindow E w h s) = xs_core s \<and> xs_next s \<le> xs_next (xs_setMainWindow E w h s)"
proof (cases w)
  case (Some v)
  let ?s = "window_create E v s"
  show ?thesis
  proof (cases "xs_native ?s v")
    case None
    then show ?thesis using Some by (simp add: xs_setMainWindow_def Let_def)
  next
    case n: (Some n)
    let ?t = "case xs_imported ?s n of None \<Rightarrow> ?s | Some q \<Rightarrow> if imported_handle q ?s \<noteq> h then delete_imported q ?s else ?s"
    have t: "xs_core ?t = xs_core s" "xs_next s \<le> xs_next ?t"
      using core_imported [of _ ?s] by (auto split: option.split)
    have "xs_core (?t\<lparr>xs_roles := r\<rparr>) = xs_core s" for r using t(1) by (simp add: xs_core_def)
    then show ?thesis using Some n t core_doSetMainWindow [of E v h ?t]
      by (simp add: xs_setMainWindow_def Let_def)
  qed
qed (simp add: xs_setMainWindow_def)

lemma core_assign: "xs_core (assign_tag E n t s) = xs_core s \<and> xs_next s \<le> xs_next (assign_tag E n t s)"
  "xs_core (assign_description E n t s) = xs_core s \<and> xs_next s \<le> xs_next (assign_description E n t s)"
  by (simp_all add: assign_tag_def assign_description_def xs_core_def xs_send_def split: option.split)

lemma core_tags: "xs_core (setXdgToplevelTag E w t s) = xs_core s \<and> xs_next s \<le> xs_next (setXdgToplevelTag E w t s)"
  "xs_core (setXdgToplevelDescription E w t s) = xs_core s \<and> xs_next s \<le> xs_next (setXdgToplevelDescription E w t s)"
  by (simp_all add: setXdgToplevelTag_def setXdgToplevelDescription_def assign_tag_def assign_description_def Let_def
      window_create_def xs_core_def xs_send_def split: option.split)

lemma core_role: "xs_core (role_created E n s) = xs_core s \<and> xs_next s \<le> xs_next (role_created E n s)"
proof -
  have one: "xs_core (call_role_handler E n k t) = xs_core t \<and> xs_next t \<le> xs_next (call_role_handler E n k t)" for k t
    using core_doSetMainWindow core_assign by (cases k) simp_all
  have "xs_core (fold (call_role_handler E n) ks t) = xs_core t \<and> xs_next t \<le> xs_next (fold (call_role_handler E n) ks t)" for ks t
  proof (induction ks arbitrary: t)
    case (Cons k ks)
    have "xs_next t \<le> xs_next (call_role_handler E n k t)" using one by blast
    also have "\<dots> \<le> xs_next (fold (call_role_handler E n) ks (call_role_handler E n k t))" using Cons by blast
    finally show ?case using one [of k t] Cons by simp
  qed simp
  then show ?thesis by (simp add: role_created_def)
qed

lemma settle_frame [simp]:
  "xs_waiting (fold (settle v) fs s) = xs_waiting s" "xs_exported (fold (settle v) fs s) = xs_exported s"
  "xs_handle (fold (settle v) fs s) = xs_handle s" "xs_tokens (fold (settle v) fs s) = xs_tokens s"
  "xs_next (fold (settle v) fs s) = xs_next s" "xs_sent (fold (settle v) fs s) = xs_sent s"
  "xs_native (fold (settle v) fs s) = xs_native s"
  by (induction fs arbitrary: s) (simp_all add: settle_def)

lemma futures_settled:
  assumes ok: "futures_ok s" and v: "v \<noteq> Waiting"
  shows "futures_ok (fold (settle v) fs s)"
  using ok v unfolding futures_ok_def waits_for_handle_def waits_for_token_def xs.all_settled settle_frame by auto

lemma futures_handle:
  assumes ok: "futures_ok s"
  shows "futures_ok (exported_handle q h s)"
  unfolding futures_ok_def exported_handle_def
proof (intro conjI allI impI)
  let ?fs = "map fst (filter (\<lambda>(f, p). p = q) (xs_waiting s))"
  let ?t = "fold (settle (Finished h)) ?fs (s\<lparr>xs_handle := (xs_handle s)(q := h)\<rparr>)"
  show "waits_for_handle ?t f \<or> waits_for_token ?t f" if f: "xs_futures ?t f = Some Waiting" for f
  proof -
    have f': "xs_futures s f = Some Waiting" "f \<notin> set ?fs" using xs.still_waiting [OF f] by simp_all
    then have "(f, q) \<notin> set (xs_waiting s)" by force
    moreover have "waits_for_handle s f \<or> waits_for_token s f" using ok f'(1) by (simp add: futures_ok_def)
    ultimately show ?thesis by (auto simp: waits_for_handle_def waits_for_token_def)
  qed
qed (use ok in \<open>auto simp: futures_ok_def\<close>)

lemma futures_delete_exported:
  assumes ok: "futures_ok s"
  shows "futures_ok (delete_exported n s)"
proof (cases "xs_exported s n")
  case None
  then show ?thesis using ok by (simp add: delete_exported_def)
next
  case (Some q)
  let ?fs = "map fst (filter (\<lambda>(f, p). p = q) (xs_waiting s))"
  let ?t = "(fold (settle Canceled) ?fs s)\<lparr>xs_waiting := filter (\<lambda>(f, p). p \<noteq> q) (xs_waiting s), xs_exported := (xs_exported s)(n := None)\<rparr>"
  have "futures_ok ?t" unfolding futures_ok_def
  proof (intro conjI allI impI)
    show "waits_for_handle ?t f \<or> waits_for_token ?t f" if f: "xs_futures ?t f = Some Waiting" for f
    proof -
      have f': "xs_futures s f = Some Waiting" "f \<notin> set ?fs" using xs.still_waiting [of Canceled ?fs s f] f by simp_all
      then have "(f, q) \<notin> set (xs_waiting s)" by force
      moreover have "waits_for_handle s f \<or> waits_for_token s f" using ok f'(1) by (simp add: futures_ok_def)
      ultimately consider (handle) p m where "(f, p) \<in> set (xs_waiting s)" "xs_exported s m = Some p" "xs_handle s p = []" "p \<noteq> q"
        | (token) "waits_for_token s f" by (auto simp: waits_for_handle_def)
      then show ?thesis
      proof cases
        case handle
        then have "m \<noteq> n" using Some by auto
        then show ?thesis using handle by (auto simp: waits_for_handle_def)
      next
        case token
        then show ?thesis by (simp add: waits_for_token_def)
      qed
    qed
  qed (use ok in \<open>auto simp: futures_ok_def split: if_splits\<close>)
  then show ?thesis using Some by (simp add: delete_exported_def Let_def futures_core [where s = ?t])
qed

lemma waits_grow:
  assumes "futures_ok s" "set (xs_waiting s) \<subseteq> set (xs_waiting t)" "set (xs_tokens s) \<subseteq> set (xs_tokens t)"
    and "\<And>n q. xs_exported s n = Some q \<Longrightarrow> xs_exported t n = Some q \<and> xs_handle t q = xs_handle s q"
    and "\<And>f. xs_futures t f = Some Waiting \<Longrightarrow> xs_futures s f = Some Waiting \<or> waits_for_handle t f \<or> waits_for_token t f"
    and "distinct (map fst (xs_tokens t))" "\<forall>(u, k) \<in> set (xs_tokens t). u < xs_next t"
    and "\<And>n q. xs_exported t n = Some q \<Longrightarrow> q < xs_next t"
  shows "futures_ok t"
  unfolding futures_ok_def
proof (intro conjI allI impI)
  show "waits_for_handle t f \<or> waits_for_token t f" if f: "xs_futures t f = Some Waiting" for f
    using assms(5) [OF f]
  proof (elim disjE)
    assume "xs_futures s f = Some Waiting"
    then have "waits_for_handle s f \<or> waits_for_token s f" using assms(1) by (simp add: futures_ok_def)
    moreover have "waits_for_handle t f" if "waits_for_handle s f"
    proof -
      obtain q n where q: "(f, q) \<in> set (xs_waiting s)" "xs_exported s n = Some q" "xs_handle s q = []"
        using \<open>waits_for_handle s f\<close> by (auto simp: waits_for_handle_def)
      then have "(f, q) \<in> set (xs_waiting t)" "xs_exported t n = Some q" "xs_handle t q = []" using assms(2,4) by auto
      then show ?thesis unfolding waits_for_handle_def by blast
    qed
    moreover have "waits_for_token t f" if "waits_for_token s f" using that assms(3) by (auto simp: waits_for_token_def)
    ultimately show ?thesis by blast
  qed simp_all
qed (use assms(6,7,8) in auto)

lemma futures_exported_future:
  assumes ok: "futures_ok s" and q: "xs_exported s n = Some q"
  shows "futures_ok (snd (exported_future q s))"
proof (rule waits_grow [OF ok])
  show "xs_futures s f = Some Waiting \<or> waits_for_handle (snd (exported_future q s)) f \<or> waits_for_token (snd (exported_future q s)) f"
    if "xs_futures (snd (exported_future q s)) f = Some Waiting" for f
    using that q by (auto simp: exported_future_def new_future_def Let_def waits_for_handle_def split: if_splits)
qed (use ok in \<open>fastforce simp: exported_future_def new_future_def Let_def futures_ok_def split: if_splits\<close>)+

lemma futures_ready: "futures_ok s \<Longrightarrow> futures_ok (snd (new_future (Finished v) s))"
  by (rule waits_grow [of s]) (auto simp: new_future_def futures_ok_def less_Suc_eq split: if_splits)

lemma futures_send: "futures_ok (xs_send es s) = futures_ok s"
  by (simp add: futures_ok_def xs_send_def waits_for_handle_def waits_for_token_def)

lemma futures_window: "futures_ok s \<Longrightarrow> futures_ok (window_create E w s)"
  by (rule futures_core [of s]) simp_all

lemma futures_new_export:
  assumes ok: "futures_ok s" and n: "xs_exported s n = None"
  shows "futures_ok (s\<lparr>xs_exported := (xs_exported s)(n \<mapsto> xs_next s), xs_handle := (xs_handle s)(xs_next s := []), xs_next := Suc (xs_next s)\<rparr>)"
proof (rule waits_grow [OF ok])
  let ?t = "s\<lparr>xs_exported := (xs_exported s)(n \<mapsto> xs_next s), xs_handle := (xs_handle s)(xs_next s := []), xs_next := Suc (xs_next s)\<rparr>"
  have less: "\<And>m q. xs_exported s m = Some q \<Longrightarrow> q < xs_next s" using ok by (simp add: futures_ok_def)
  show "xs_exported ?t m = Some q \<and> xs_handle ?t q = xs_handle s q" if "xs_exported s m = Some q" for m q
    using that n less [OF that] by auto
  show "q < xs_next ?t" if "xs_exported ?t m = Some q" for m q
    using that less [of m q] by (auto split: if_splits)
qed (use ok in \<open>auto simp: futures_ok_def\<close>)

lemma futures_export:
  assumes ok: "futures_ok s"
  shows "futures_ok (snd (exportToplevel E window s))"
proof (cases window)
  case None
  then show ?thesis using ok by (simp add: exportToplevel_def futures_ready)
next
  case (Some w)
  let ?s = "window_create E w s"
  have ok': "futures_ok ?s" by (rule futures_window [OF ok])
  show ?thesis
  proof (cases "xs_native ?s w")
    case None
    then show ?thesis using Some ok' by (simp add: exportToplevel_def Let_def futures_ready)
  next
    case n: (Some n)
    show ?thesis
    proof (cases "xs_exported ?s n")
      case None
      let ?q = "xs_next ?s"
      let ?t = "?s\<lparr>xs_exported := (xs_exported ?s)(n \<mapsto> ?q), xs_handle := (xs_handle ?s)(?q := []), xs_next := Suc ?q\<rparr>"
      have "futures_ok (xs_send [ExportToplevel (xs_surface E window ?s) ?q] ?t)"
        unfolding futures_send by (rule futures_new_export [OF ok' None])
      then have "futures_ok (snd (exported_future ?q (xs_send [ExportToplevel (xs_surface E window ?s) ?q] ?t)))"
        by (rule futures_exported_future [where n = n]) (simp add: xs_send_def)
      then show ?thesis using Some n None ok' by (simp add: exportToplevel_def Let_def futures_ready del: core_simple)
    next
      case q: (Some q)
      then show ?thesis using Some n ok' futures_exported_future [OF ok' q]
        by (simp add: exportToplevel_def Let_def futures_ready)
    qed
  qed
qed

lemma futures_new_token:
  assumes ok: "futures_ok s" and r: "requestXdgActivationToken seat sf serial app s = (t, u)"
  shows "futures_ok (u\<lparr>xs_tokens := xs_tokens u @ [(t, TokenSignal serial)]\<rparr>)"
    "futures_ok ((snd (new_future Waiting u))\<lparr>xs_tokens := xs_tokens u @ [(t, TokenFuture (xs_next u))]\<rparr>)"
proof -
  have u: "xs_core u = xs_core s" "t = xs_next s" "xs_next u = Suc (xs_next s)"
    using r by (auto simp: requestXdgActivationToken_def xs_send_def xs_core_def Let_def)
  then have ok': "futures_ok u" by (intro futures_core [OF ok]) simp_all
  have fresh: "t \<notin> fst ` set (xs_tokens u)" using ok u by (auto simp: futures_ok_def xs_core_def)
  note parts = ok' [unfolded futures_ok_def]
  show "futures_ok (u\<lparr>xs_tokens := xs_tokens u @ [(t, TokenSignal serial)]\<rparr>)"
    by (rule waits_grow [OF ok']) (use parts fresh u in auto)
  show "futures_ok ((snd (new_future Waiting u))\<lparr>xs_tokens := xs_tokens u @ [(t, TokenFuture (xs_next u))]\<rparr>)"
    by (rule waits_grow [OF ok']) (use parts fresh u in \<open>auto simp: new_future_def waits_for_token_def less_Suc_eq split: if_splits\<close>)
qed

lemma futures_request_token: "futures_ok s \<Longrightarrow> futures_ok (requestToken E w serial app s)"
proof -
  assume ok: "futures_ok s"
  let ?s = "case w of None \<Rightarrow> s | Some v \<Rightarrow> window_create E v s"
  have ok': "futures_ok ?s" using ok by (simp add: futures_window split: option.split)
  have "futures_ok (?s\<lparr>xs_timers := ts\<rparr>)" for ts by (rule futures_core [OF ok']) (simp_all add: xs_core_def)
  then show ?thesis using futures_new_token(1) [OF ok']
    by (simp add: requestToken_def Let_def split: prod.split)
qed

lemma futures_activation_token: "futures_ok s \<Longrightarrow> futures_ok (snd (xdgActivationToken E w serial app s))"
proof -
  assume ok: "futures_ok s"
  let ?s = "case w of None \<Rightarrow> s | Some v \<Rightarrow> window_create E v s"
  have ok': "futures_ok ?s" using ok by (simp add: futures_window split: option.split)
  then show ?thesis using futures_new_token(2) [OF ok'] futures_ready [OF ok]
    by (simp add: xdgActivationToken_def Let_def new_future_def split: prod.split option.split)
qed

lemma futures_token_done:
  assumes ok: "futures_ok s"
  shows "futures_ok (token_done t token s)"
proof (cases "map_of (xs_tokens s) t")
  case None
  then show ?thesis using ok by (simp add: token_done_def)
next
  case (Some k)
  let ?u = "case k of TokenFuture f \<Rightarrow> settle (Finished token) f s | TokenSignal serial \<Rightarrow> xs_send [TokenArrived serial token] s"
  let ?t = "?u\<lparr>xs_tokens := filter (\<lambda>(u, k). u \<noteq> t) (xs_tokens s)\<rparr>"
  have u: "xs_waiting ?u = xs_waiting s" "xs_exported ?u = xs_exported s" "xs_handle ?u = xs_handle s" "xs_next ?u = xs_next s"
    "xs_tokens ?u = xs_tokens s"
    by (auto simp: settle_def xs_send_def split: token_waiter.split)
  have dist: "distinct (map fst (xs_tokens s))" using ok by (simp add: futures_ok_def)
  have "futures_ok ?t" unfolding futures_ok_def
  proof (intro conjI allI impI)
    show "waits_for_handle ?t f \<or> waits_for_token ?t f" if f: "xs_futures ?t f = Some Waiting" for f
    proof -
      have f': "xs_futures s f = Some Waiting" "k \<noteq> TokenFuture f"
        using f by (auto simp: settle_def xs_send_def split: token_waiter.splits if_splits)
      have "waits_for_handle s f \<or> waits_for_token s f" using ok f'(1) by (simp add: futures_ok_def)
      then show ?thesis
      proof
        assume "waits_for_handle s f"
        then show ?thesis by (simp add: waits_for_handle_def u)
      next
        assume "waits_for_token s f"
        then obtain t' where t': "(t', TokenFuture f) \<in> set (xs_tokens s)" by (auto simp: waits_for_token_def)
        then have "t' \<noteq> t" using map_of_is_SomeI [OF dist t'] Some f'(2) by auto
        then show ?thesis using t' by (auto simp: waits_for_token_def)
      qed
    qed
    show "distinct (map fst (xs_tokens ?t))" using dist by (simp add: distinct_map_filter)
  qed (use ok u in \<open>auto simp: futures_ok_def\<close>)
  then show ?thesis using Some by (simp add: token_done_def Let_def futures_send u)
qed

lemma futures_native_gone: "futures_ok s \<Longrightarrow> futures_ok (xs_native_gone v n s)"
proof -
  assume ok: "futures_ok s"
  have fold: "futures_ok (fold f xs t)" if "futures_ok t" "\<And>x t. xs_core (f x t) = xs_core t \<and> xs_next t \<le> xs_next (f x t)"
    for f and xs :: "nat list" and t
    using that by (induction xs arbitrary: t) (simp_all add: futures_core)
  let ?s = "s\<lparr>xs_native := (xs_native s)(v := None), xs_roles := filter (\<lambda>(m, k). m \<noteq> n) (xs_roles s)\<rparr>"
  have "futures_ok ?s" by (rule futures_core [OF ok]) (simp_all add: xs_core_def)
  then have "futures_ok (delete_exported n ?s)" by (rule futures_delete_exported)
  then show ?thesis unfolding xs_native_gone_def Let_def by (intro fold) (simp_all add: core_imported core_dialog)
qed

lemma futures_step: "xs_step c c' \<Longrightarrow> futures_ok (snd c) \<Longrightarrow> futures_ok (snd c')"
proof (induction rule: xs_step.induct)
  case (xs_unexport s E w)
  then show ?case by (simp add: unexportToplevel_def futures_delete_exported split: option.split)
next
  case (xs_timers_run E s)
  then show ?case by (auto intro!: futures_core [of s] simp: run_timers_def xs_core_def xs_send_def)
qed (auto simp: futures_request_token futures_activation_token futures_token_done futures_export futures_handle futures_native_gone
    intro: futures_core [OF _ conjunct1 [OF core_activate] conjunct2 [OF core_activate]]
      futures_core [OF _ conjunct1 [OF core_setMainWindow] conjunct2 [OF core_setMainWindow]]
      futures_core [OF _ conjunct1 [OF core_imported] conjunct2 [OF core_imported]]
      futures_core [OF _ conjunct1 [OF core_role] conjunct2 [OF core_role]]
      futures_core [OF _ conjunct1 [OF core_tags(1)] conjunct2 [OF core_tags(1)]]
      futures_core [OF _ conjunct1 [OF core_tags(2)] conjunct2 [OF core_tags(2)]]
      futures_core simp: setCurrentToken_def xs_setShowingDesktop_def futures_send show_desktop_changed_def xs_core_def)

lemma reachable_futures_ok: "xs_reachable c \<Longrightarrow> futures_ok (snd c)"
  by (induction rule: xs_reachable.induct) (simp add: futures_ok_def new_xdg_state_def, simp add: futures_step)

section \<open>Exports\<close>

text \<open>C31.  In every state the program reaches: a future that was given out and still waits, waits for an exported object that is
  there and has no handle yet, or for a request for a token that is not answered yet.  So no future is forgotten when
  an object dies, a window of the platform goes, or an answer comes.\<close>

theorem waiting_futures_have_a_reason:
  assumes "xs_reachable (E, s)" "xs_futures s f = Some Waiting"
  shows "(\<exists>q n. (f, q) \<in> set (xs_waiting s) \<and> xs_exported s n = Some q \<and> xs_handle s q = []) \<or>
    (\<exists>t. (t, TokenFuture f) \<in> set (xs_tokens s))"
  using reachable_futures_ok [OF assms(1)] assms(2) by (simp add: futures_ok_def waits_for_handle_def waits_for_token_def)

definition demo_xs :: xs_env where
  "demo_xs = \<lparr>xe_activation = True, xe_exporter = True, xe_importer = True, xe_dialogs = True, xe_management = True, xe_tags = False,
     xe_creates = (\<lambda>w. Some (w + 100)), xe_surface = (\<lambda>n. Some (n + 100)), xe_toplevel = (\<lambda>n. Some (n + 200)),
     xe_exposed = (\<lambda>_. True), xe_modal = (\<lambda>_. True), xe_seat = Some (Some 0), xe_serial = 9, xe_old_qt = True\<rparr>"

definition demo_exported :: xdg_state where
  "demo_exported = snd (exportToplevel demo_xs (Some 5) new_xdg_state)"

lemma demo_exported_reachable: "xs_reachable (demo_xs, demo_exported)"
  unfolding demo_exported_def by (rule xs_more [OF xs_start xs_export])

lemma demo_exported_state:
  "xs_futures demo_exported = [1 \<mapsto> Waiting]" "xs_waiting demo_exported = [(1, 0)]" "xs_exported demo_exported = [105 \<mapsto> 0]"
  "xs_native demo_exported 5 = Some 105"
  by (simp_all add: demo_exported_def exportToplevel_def exported_future_def new_future_def window_create_def new_xdg_state_def
      demo_xs_def xs_send_def xdgToplevelForWindow_def Let_def)

theorem waiting_futures_have_a_reason_witness: "xs_handle demo_exported 0 = [] \<or> (\<exists>t. (t, TokenFuture 1) \<in> set (xs_tokens demo_exported))"
  using waiting_futures_have_a_reason [OF demo_exported_reachable, of 1] by (auto simp: demo_exported_state split: if_splits)

text \<open>C32.  When the handle of an exported window arrives, every future that waits for it is finished with that handle, and a
  program that exports the window again gets the handle at once, without another request; when the window is
  unexported instead, every future that waits is canceled.\<close>

theorem export_delivers_the_handle:
  assumes w: "xs_native s w = Some n" "xs_exported s n = Some q" and h: "h \<noteq> []" and E: "xe_exporter E"
    and arrive: "t = exported_handle q h s" and again: "(f, u) = exportToplevel E (Some w) t"
    and wait: "(g, q) \<in> set (xs_waiting s)" "xs_futures s g = Some Waiting"
  shows "xs_futures t g = Some (Finished h) \<and> xs_futures u f = Some (Finished h) \<and> xs_sent u = xs_sent s \<and>
    xs_futures (unexportToplevel (Some w) s) g = Some Canceled"
proof -
  have g: "g \<in> set (map fst (filter (\<lambda>(f, p). p = q) (xs_waiting s)))" using wait(1) by force
  have t: "xs_native t w = Some n" "xs_exported t n = Some q" "xs_handle t q = h" "xs_sent t = xs_sent s"
    using w unfolding arrive exported_handle_def by simp_all
  have "xs_futures t g = Some (Finished h)" unfolding arrive exported_handle_def
    by (rule xs.answered [OF g]) (simp add: wait(2))
  moreover have "window_create E w t = t" using t(1) by (simp add: window_create_def)
  then have "(f, u) = new_future (Finished h) t" using again t E h by (simp add: exportToplevel_def exported_future_def Let_def)
  moreover have "xs_futures (unexportToplevel (Some w) s) g = Some Canceled"
    using w wait(2) g by (simp add: unexportToplevel_def delete_exported_def Let_def xs_send_def xs.all_settled)
  ultimately show ?thesis using t(4) by (simp add: new_future_def)
qed

theorem export_delivers_the_handle_witness:
  "xs_futures (exported_handle 0 ''h'' demo_exported) 1 = Some (Finished ''h'')"
  using export_delivers_the_handle [of demo_exported 5 105 0 "''h''" demo_xs, OF _ _ _ _ refl prod.collapse, of 1]
  by (simp add: demo_exported_state) (simp add: demo_xs_def)

section \<open>Tokens\<close>

lemma activate_sends:
  "xe_activation E \<Longrightarrow> xs_surface E w s = Some sf \<Longrightarrow> xs_activateWindow E w s =
     s\<lparr>xs_token := None, xs_sent := xs_sent s @ [Activate (case xs_token s of None \<Rightarrow> [] | Some t \<Rightarrow> t) sf]\<rparr>"
  by (simp add: xs_activateWindow_def consumeCurrentActivationToken_def xs_send_def)

lemma surface_token [simp]: "xs_surface E w (s\<lparr>xs_token := t, xs_sent := es\<rparr>) = xs_surface E w s"
  by (simp add: xs_surface_def split: option.split)

text \<open>A token for activation is used once: of two activations the first sends the token that was set and the second an
  empty one; and an activation that cannot be sent keeps the token.\<close>

theorem token_used_once:
  assumes "xs_token s = Some t" "xe_activation E" "xs_surface E v s = Some sf" "xs_surface E w s = Some sf'"
  shows "xs_sent (xs_activateWindow E w (xs_activateWindow E v s)) = xs_sent s @ [Activate t sf, Activate [] sf'] \<and>
    xs_token (xs_activateWindow (E\<lparr>xe_activation := False\<rparr>) v s) = Some t"
  using assms by (simp add: activate_sends) (simp add: xs_activateWindow_def split: option.split)

theorem token_used_once_witness:
  "xs_sent (xs_activateWindow demo_xs (Some 5) (xs_activateWindow demo_xs (Some 5)
     (new_xdg_state\<lparr>xs_token := Some ''t'', xs_native := [5 \<mapsto> 105]\<rparr>))) = [Activate ''t'' 205, Activate [] 205]"
  using token_used_once [of "new_xdg_state\<lparr>xs_token := Some ''t'', xs_native := [5 \<mapsto> 105]\<rparr>" "''t''" demo_xs "Some 5" 205 "Some 5" 205]
  by (simp add: xs_surface_def demo_xs_def new_xdg_state_def)

section \<open>Main windows\<close>

definition imports_of :: "nat \<Rightarrow> xdg_state \<Rightarrow> string list" where
  "imports_of n s = map (\<lambda>(q, m, h). h) (filter (\<lambda>(q, m, h). m = n) (xs_imports s))"

lemma update_dialog_imports [simp]:
  "xs_imports (update_dialog E w n s) = xs_imports s" "xs_imported (update_dialog E w n s) = xs_imported s"
  "xs_native (update_dialog E w n s) = xs_native s" "xs_roles (update_dialog E w n s) = xs_roles s"
  by (simp_all add: update_dialog_def delete_dialog_def xs_send_def Let_def split: option.split)

lemma window_there: "xs_native s w = Some n \<Longrightarrow> window_create E w s = s"
  by (simp add: window_create_def)

lemma doSetMainWindow_imports:
  assumes "xs_native s w = Some n" "xe_toplevel E n \<noteq> None" "xe_importer E"
  shows "xs_imports (doSetMainWindow E w h s) = xs_imports s @ [(xs_next s, n, h)]"
    "xs_imported (doSetMainWindow E w h s) = (xs_imported s)(n \<mapsto> xs_next s)"
    "xs_native (doSetMainWindow E w h s) = xs_native s"
  using assms by (auto simp: doSetMainWindow_def Let_def xs_send_def)

lemma setMainWindow_now:
  assumes "xs_native s w = Some n" "xe_toplevel E n \<noteq> None" "h \<noteq> []"
    "case xs_imported s n of None \<Rightarrow> True | Some q \<Rightarrow> imported_handle q s = h"
  shows "xs_setMainWindow E (Some w) h s = doSetMainWindow E w h s"
  using assms by (simp add: xs_setMainWindow_def Let_def window_there split: option.splits)

text \<open>A window that gets the same main window twice imports it twice: the object of the first import is not deleted, is no
  longer known to the property of the window of the platform, and lives on beside the second.  The assertion that
  there is no property yet does not hold there.\<close>

theorem main_window_imported_twice:
  assumes w: "xs_native s w = Some n" "xs_imported s n = None" and E: "xe_importer E" "xe_toplevel E n \<noteq> None" and h: "h \<noteq> []"
    and fresh: "xs_next s \<notin> fst ` set (xs_imports s)"
    and t: "t = xs_setMainWindow E (Some w) h s" and u: "u = xs_setMainWindow E (Some w) h t"
  shows "imports_of n u = imports_of n s @ [h, h] \<and> xs_imported t n = Some (xs_next s) \<and> xs_imported u n = Some (xs_next t) \<and>
    xs_next s \<in> fst ` set (xs_imports u) \<and> xs_next t \<noteq> xs_next s"
proof -
  have t': "t = doSetMainWindow E w h s" unfolding t by (rule setMainWindow_now [OF w(1) E(2) h]) (simp add: w(2))
  note d = doSetMainWindow_imports [OF w(1) E(2,1), of h]
  have wt: "xs_native t w = Some n" using d(3) w(1) by (simp add: t')
  have "map_of (xs_imports s) (xs_next s) = None" using fresh by (simp add: map_of_eq_None_iff)
  then have "imported_handle (xs_next s) t = h" by (simp add: imported_handle_def t' d(1) map_add_def)
  then have u': "u = doSetMainWindow E w h t" unfolding u
    by (intro setMainWindow_now [OF wt E(2) h]) (simp add: t' d(2))
  define v where "v = xs_send [ImportToplevel h (xs_next s), SetParentOf (xs_next s) (xs_surface E (Some w) s)]
    (s\<lparr>xs_imports := xs_imports s @ [(xs_next s, n, h)], xs_imported := (xs_imported s)(n \<mapsto> xs_next s), xs_next := Suc (xs_next s)\<rparr>)"
  have "t = update_dialog E w n v" using w(1) E by (auto simp: t' doSetMainWindow_def Let_def v_def)
  then have "xs_next s < xs_next t" using core_update_dialog [of E w n v] by (simp add: v_def)
  then show ?thesis using d doSetMainWindow_imports [OF wt E(2,1), of h] by (auto simp: imports_of_def t' u')
qed

theorem main_window_imported_twice_witness:
  "imports_of 105 (xs_setMainWindow demo_xs (Some 5) ''m'' (xs_setMainWindow demo_xs (Some 5) ''m'' demo_exported)) = [''m'', ''m'']"
proof -
  have "xs_imports demo_exported = []" "xs_imported demo_exported = Map.empty"
    by (simp_all add: demo_exported_def exportToplevel_def exported_future_def new_future_def window_create_def new_xdg_state_def
      demo_xs_def xs_send_def xdgToplevelForWindow_def Let_def)
  then show ?thesis
    using main_window_imported_twice [of demo_exported 5 105 demo_xs "''m''", OF _ _ _ _ _ _ refl refl]
    by (simp add: demo_exported_state imports_of_def) (simp add: demo_xs_def)
qed

text \<open>Main windows that are set before the window has its role are all imported when it gets one: setting another main
  window, or none, does not take the earlier one back, because its connection stays.\<close>

theorem main_window_not_taken_back:
  assumes w: "xs_native s w = Some n" "xs_imported s n = None" and early: "\<not> xe_exposed E w" "xe_toplevel E n = None"
    and h: "h1 \<noteq> []" "h2 \<noteq> []" and roles: "filter (\<lambda>(m, k). m = n) (xs_roles s) = []"
    and later: "E' = E\<lparr>xe_toplevel := (xe_toplevel E)(n \<mapsto> role)\<rparr>" "xe_importer E"
    and t: "t = xs_setMainWindow E (Some w) [] (xs_setMainWindow E (Some w) h2 (xs_setMainWindow E (Some w) h1 s))"
  shows "imports_of n (role_created E' n t) = imports_of n s @ [h1, h2]"
proof -
  have "t = s\<lparr>xs_roles := xs_roles s @ [(n, MainWindow w h1), (n, MainWindow w h2)]\<rparr>"
    using w early h by (simp add: t xs_setMainWindow_def window_create_def Let_def)
  then have "role_created E' n t = doSetMainWindow E' w h2 (doSetMainWindow E' w h1 t)" "xs_native t w = Some n" "xs_imports t = xs_imports s"
    using roles w by (simp_all add: role_created_def)
  then show ?thesis using later doSetMainWindow_imports [of _ w n E'] by (simp add: imports_of_def)
qed

theorem main_window_not_taken_back_witness:
  "imports_of 105 (role_created (demo_xs\<lparr>xe_exposed := (\<lambda>_. False), xe_toplevel := Map.empty(105 \<mapsto> 1)\<rparr>) 105
     (xs_setMainWindow (demo_xs\<lparr>xe_exposed := (\<lambda>_. False), xe_toplevel := Map.empty\<rparr>) (Some 5) []
     (xs_setMainWindow (demo_xs\<lparr>xe_exposed := (\<lambda>_. False), xe_toplevel := Map.empty\<rparr>) (Some 5) ''b''
     (xs_setMainWindow (demo_xs\<lparr>xe_exposed := (\<lambda>_. False), xe_toplevel := Map.empty\<rparr>) (Some 5) ''a''
       (new_xdg_state\<lparr>xs_native := [5 \<mapsto> 105]\<rparr>))))) = [''a'', ''b'']"
  using main_window_not_taken_back [of "new_xdg_state\<lparr>xs_native := [5 \<mapsto> 105]\<rparr>" 5 105
      "demo_xs\<lparr>xe_exposed := (\<lambda>_. False), xe_toplevel := Map.empty\<rparr>" "''a''" "''b''", OF _ _ _ _ _ _ _ refl _ refl, of 1]
  by (simp add: new_xdg_state_def imports_of_def) (simp add: demo_xs_def)

text \<open>Before Qt 6.10, giving a modal window another main window takes its modality away: the first call makes the object
  that says so, and the second deletes it instead of keeping it.\<close>

theorem second_main_window_drops_modality:
  assumes w: "xs_native s w = Some n" "xs_imported s n = None" and E: "xe_importer E" "xe_toplevel E n \<noteq> None" "xe_old_qt E"
    "xe_modal E w" "xe_dialogs E" and none: "\<forall>d. (d, n) \<notin> set (xs_dialogs s)" "\<forall>(d, m) \<in> set (xs_dialogs s). d < xs_next s"
    and h: "h1 \<noteq> []" "h2 \<noteq> []"
    and t: "t = xs_setMainWindow E (Some w) h1 s" and u: "u = xs_setMainWindow E (Some w) h2 t"
  shows "\<exists>d. first_dialog n t = Some d \<and> SetModal d \<in> set (xs_sent t) \<and> first_dialog n u = None \<and> DialogDestroy d \<in> set (xs_sent u)"
proof -
  obtain tl where tl: "xe_toplevel E n = Some tl" using E(2) by auto
  define d where "d = Suc (xs_next s)"
  have fd: "first_dialog n s = None" using none(1) by (auto simp: first_dialog_def map_of_eq_None_iff)
  have t': "t = doSetMainWindow E w h1 s" unfolding t by (rule setMainWindow_now [OF w(1) E(2) h(1)]) (simp add: w(2))
  have fd': "first_dialog n (s\<lparr>xs_imports := i, xs_imported := p, xs_next := k, xs_sent := es\<rparr>) = None" for i p k es
    using fd by (simp add: first_dialog_def)
  have t_state: "xs_dialogs t = xs_dialogs s @ [(d, n)]" "SetModal d \<in> set (xs_sent t)" "xs_native t = xs_native s"
    using w(1) E tl fd' unfolding t' doSetMainWindow_def update_dialog_def Let_def
    by (simp_all add: xs_send_def xdgToplevelForWindow_def d_def)
  have ft: "first_dialog n t = Some d" using fd t_state(1) by (simp add: first_dialog_def map_add_def)
  define v where "v = (case xs_imported t n of None \<Rightarrow> t | Some q \<Rightarrow> if imported_handle q t \<noteq> h2 then delete_imported q t else t)"
  have v: "xs_dialogs v = xs_dialogs t" "xs_native v = xs_native t"
    by (simp_all add: v_def delete_imported_def xs_send_def split: option.split prod.split)
  have "window_create E w t = t" using t_state(3) w(1) by (simp add: window_create_def)
  then have u': "u = doSetMainWindow E w h2 v" unfolding u v_def
    using t_state(3) w(1) E(2) h(2) by (simp add: xs_setMainWindow_def Let_def)
  have fv: "first_dialog n (v\<lparr>xs_imports := i, xs_imported := p, xs_next := k, xs_sent := es\<rparr>) = Some d" for i p k es
    using ft v(1) by (simp add: first_dialog_def)
  have "xs_dialogs u = filter (\<lambda>(e, m). e \<noteq> d) (xs_dialogs t)" "DialogDestroy d \<in> set (xs_sent u)"
    using v t_state(3) w(1) E fv unfolding u' doSetMainWindow_def update_dialog_def Let_def
    by (auto simp: xs_send_def delete_dialog_def)
  moreover have "first_dialog n u = None"
  proof -
    have "(e, n) \<notin> set (filter (\<lambda>(e, m). e \<noteq> d) (xs_dialogs t))" for e using none(1) t_state(1) by auto
    then show ?thesis using calculation(1) by (auto simp: first_dialog_def map_of_eq_None_iff)
  qed
  ultimately show ?thesis using ft t_state(2) by blast
qed

theorem second_main_window_drops_modality_witness:
  "first_dialog 105 (xs_setMainWindow demo_xs (Some 5) ''b'' (xs_setMainWindow demo_xs (Some 5) ''a''
     (new_xdg_state\<lparr>xs_native := [5 \<mapsto> 105]\<rparr>))) = None"
proof -
  let ?s = "new_xdg_state\<lparr>xs_native := [5 \<mapsto> 105]\<rparr>"
  have "\<exists>d. first_dialog 105 (xs_setMainWindow demo_xs (Some 5) ''a'' ?s) = Some d \<and>
      SetModal d \<in> set (xs_sent (xs_setMainWindow demo_xs (Some 5) ''a'' ?s)) \<and>
      first_dialog 105 (xs_setMainWindow demo_xs (Some 5) ''b'' (xs_setMainWindow demo_xs (Some 5) ''a'' ?s)) = None \<and>
      DialogDestroy d \<in> set (xs_sent (xs_setMainWindow demo_xs (Some 5) ''b'' (xs_setMainWindow demo_xs (Some 5) ''a'' ?s)))"
    by (rule second_main_window_drops_modality [OF _ _ _ _ _ _ _ _ _ _ _ refl refl])
      (simp_all add: new_xdg_state_def, simp_all add: demo_xs_def)
  then show ?thesis by blast
qed

text \<open>The manager for tags is used whether it is there or not.\<close>

lemma tag_without_manager:
  "xs_native s w = Some n \<Longrightarrow> xe_toplevel E n = Some role \<Longrightarrow> \<not> xe_tags E \<Longrightarrow>
   xs_sent (setXdgToplevelTag E w tag s) = xs_sent s @ [SetToplevelTag role tag]"
  by (simp add: setXdgToplevelTag_def window_create_def assign_tag_def xs_send_def Let_def)

end
