(* ===== verification/Platform.thy ===== *)
theory Platform
  imports StartupIds Effects
begin

text \<open>
  The platform (kwindowsystem.cpp, pluginwrapper.cpp, kwindowsystemplugininterface.cpp, the plugins, the dummy
  objects, kwindoweffects.cpp and kusertimestamp.cpp): which one a program runs on, the plugin that is loaded for it, the
  objects its calls are passed to, and the time of the user that is kept on X11.
\<close>

section \<open>The platform\<close>

text \<open>
  What Qt and the file system say.  A plugin is given by its metadata, of which the identifier of the interface and the
  texts of the list of platforms are looked at, and by the object its instance is, if it has one of the interface.
  \<open>ph_entries\<close> are the files of a folder, if it exists; \<open>ph_folded\<close> is a text with its cases folded.
\<close>

record plugin_metadata =
  pm_IID :: qstring
  pm_platforms :: "qstring list"

record 'p plugin_host =
  ph_gui :: bool
  ph_platformName :: qstring
  ph_flatpak :: qstring
  ph_folded :: "qstring \<Rightarrow> qstring"
  ph_libraryPaths :: "qstring list"
  ph_entries :: "qstring \<Rightarrow> qstring list option"
  ph_absolute :: "qstring \<Rightarrow> qstring \<Rightarrow> qstring"
  ph_isLibrary :: "qstring \<Rightarrow> bool"
  ph_metadata :: "qstring \<Rightarrow> plugin_metadata"
  ph_instance :: "qstring \<Rightarrow> 'p option"
  ph_static :: "(plugin_metadata \<times> 'p option) list"

datatype platform = PlatformUnknown | PlatformX11 | PlatformWayland

text \<open>Where a program in a sandbox of Flatpak runs is said by the environment.\<close>

definition effective_name :: "('p, 'm) plugin_host_scheme \<Rightarrow> qstring" where
  "effective_name H =
     (if ph_platformName H = qs ''flatpak'' \<and> ph_flatpak H \<noteq> [] then ph_flatpak H else ph_platformName H)"

definition same_text :: "('p, 'm) plugin_host_scheme \<Rightarrow> qstring \<Rightarrow> qstring \<Rightarrow> bool" where
  "same_text H a b \<longleftrightarrow> ph_folded H a = ph_folded H b"

definition starts_with_ci :: "('p, 'm) plugin_host_scheme \<Rightarrow> qstring \<Rightarrow> qstring \<Rightarrow> bool" where
  "starts_with_ci H a b \<longleftrightarrow> length b \<le> length a \<and> same_text H (take (length b) a) b"

text \<open>\<open>have_x11\<close>: whether the library is built for X11.\<close>

definition initPlatform :: "bool \<Rightarrow> ('p, 'm) plugin_host_scheme \<Rightarrow> platform" where
  "initPlatform have_x11 H =
     (let platformName = effective_name H
      in if have_x11 \<and> platformName = qs ''xcb'' then PlatformX11
         else if starts_with_ci H platformName (qs ''wayland'') then PlatformWayland
         else PlatformUnknown)"

section \<open>Plugins\<close>

definition searchFolders :: "qstring list" where
  "searchFolders = [qs ''/kf6/org.kde.kwindowsystem.platforms'', qs ''/kf6/kwindowsystem'']"

definition folder_entries :: "('p, 'm) plugin_host_scheme \<Rightarrow> qstring \<Rightarrow> qstring list" where
  "folder_entries H dir =
     (case ph_entries H dir of None \<Rightarrow> [] | Some entries \<Rightarrow> map (ph_absolute H dir) entries)"

definition pluginCandidates :: "('p, 'm) plugin_host_scheme \<Rightarrow> qstring list" where
  "pluginCandidates H =
     concat (map (\<lambda>path. concat (map (\<lambda>folder. folder_entries H (path @ folder)) searchFolders)) (ph_libraryPaths H))"

definition checkPlatform :: "('p, 'm) plugin_host_scheme \<Rightarrow> plugin_metadata \<Rightarrow> qstring \<Rightarrow> bool" where
  "checkPlatform H metadata platformName = list_ex (same_text H platformName) (pm_platforms metadata)"

definition plugin_iid :: qstring where
  "plugin_iid = qs ''org.kde.kwindowsystem.KWindowSystemPluginInterface''"

fun static_plugin :: "('p, 'm) plugin_host_scheme \<Rightarrow> qstring \<Rightarrow> (plugin_metadata \<times> 'p option) list \<Rightarrow> 'p option" where
  "static_plugin H name [] = None"
| "static_plugin H name ((metadata, inst) # ps) =
     (if pm_IID metadata \<noteq> plugin_iid then static_plugin H name ps
      else if checkPlatform H metadata name
      then (case inst of Some p \<Rightarrow> Some p | None \<Rightarrow> static_plugin H name ps)
      else static_plugin H name ps)"

fun candidate_plugin :: "('p, 'm) plugin_host_scheme \<Rightarrow> qstring \<Rightarrow> qstring list \<Rightarrow> 'p option" where
  "candidate_plugin H name [] = None"
| "candidate_plugin H name (c # cs) =
     (if \<not> ph_isLibrary H c then candidate_plugin H name cs
      else if checkPlatform H (ph_metadata H c) name
      then (case ph_instance H c of Some p \<Rightarrow> Some p | None \<Rightarrow> candidate_plugin H name cs)
      else candidate_plugin H name cs)"

definition loadPlugin :: "('p, 'm) plugin_host_scheme \<Rightarrow> 'p option" where
  "loadPlugin H =
     (if \<not> ph_gui H then None
      else case static_plugin H (effective_name H) (ph_static H) of
        Some p \<Rightarrow> Some p
      | None \<Rightarrow> candidate_plugin H (effective_name H) (pluginCandidates H))"

section \<open>The objects of a platform\<close>

text \<open>
  A plugin makes four objects, each of which it may leave out (as \<^verbatim>\<open>KWindowSystemPluginInterface\<close> itself does); then the
  object that does nothing is used.
\<close>

datatype platform_object = DummyObject | X11Object | WaylandObject

record platform_plugin =
  createEffects :: "platform_object option"
  createWindowSystem :: "platform_object option"
  createWindowShadow :: "platform_object option"
  createWindowShadowTile :: "platform_object option"

definition plugin_interface :: platform_plugin where
  "plugin_interface = \<lparr>createEffects = None, createWindowSystem = None, createWindowShadow = None, createWindowShadowTile = None\<rparr>"

definition X11Plugin :: platform_plugin where
  "X11Plugin = \<lparr>createEffects = Some X11Object, createWindowSystem = Some X11Object, createWindowShadow = Some X11Object,
     createWindowShadowTile = Some X11Object\<rparr>"

definition KWaylandPlugin :: platform_plugin where
  "KWaylandPlugin = \<lparr>createEffects = Some WaylandObject, createWindowSystem = Some WaylandObject,
     createWindowShadow = Some WaylandObject, createWindowShadowTile = Some WaylandObject\<rparr>"

definition object_or_dummy :: "(platform_plugin \<Rightarrow> platform_object option) \<Rightarrow> platform_plugin option \<Rightarrow> platform_object" where
  "object_or_dummy create plugin =
     (case plugin of None \<Rightarrow> DummyObject | Some p \<Rightarrow> (case create p of None \<Rightarrow> DummyObject | Some q \<Rightarrow> q))"

definition wrapper_effects :: "platform_plugin option \<Rightarrow> platform_object" where
  "wrapper_effects plugin = object_or_dummy createEffects plugin"

definition wrapper_createWindowSystem :: "platform_plugin option \<Rightarrow> platform_object" where
  "wrapper_createWindowSystem plugin = object_or_dummy createWindowSystem plugin"

definition wrapper_createWindowShadow :: "platform_plugin option \<Rightarrow> platform_object" where
  "wrapper_createWindowShadow plugin = object_or_dummy createWindowShadow plugin"

definition wrapper_createWindowShadowTile :: "platform_plugin option \<Rightarrow> platform_object" where
  "wrapper_createWindowShadowTile plugin = object_or_dummy createWindowShadowTile plugin"

section \<open>Effects and windows through the object of the platform\<close>

text \<open>The operations of an object for effects and of one for windows, over the state \<open>'s\<close> of the program.\<close>

record 's effects_private =
  ep_isEffectAvailable :: "effect \<Rightarrow> 's \<Rightarrow> bool"
  ep_slideWindow :: "nat \<Rightarrow> slide_location \<Rightarrow> i32 \<Rightarrow> 's \<Rightarrow> 's"
  ep_enableBlurBehind :: "nat \<Rightarrow> bool \<Rightarrow> fx_rect list \<Rightarrow> 's \<Rightarrow> 's"
  ep_enableBackgroundContrast :: "nat \<Rightarrow> bool \<Rightarrow> real \<Rightarrow> real \<Rightarrow> real \<Rightarrow> fx_rect list \<Rightarrow> 's \<Rightarrow> 's"

definition dummy_effects :: "'s effects_private" where
  "dummy_effects = \<lparr>ep_isEffectAvailable = (\<lambda>effect s. False), ep_slideWindow = (\<lambda>window location offset s. s),
     ep_enableBlurBehind = (\<lambda>window enable region s. s),
     ep_enableBackgroundContrast = (\<lambda>window enable contrast intensity saturation region s. s)\<rparr>"

text \<open>\<open>impl\<close>: the operations each platform has.\<close>

definition effects_of :: "(platform_object \<Rightarrow> 's effects_private) \<Rightarrow> platform_plugin option \<Rightarrow> 's effects_private" where
  "effects_of impl plugin = (case wrapper_effects plugin of DummyObject \<Rightarrow> dummy_effects | q \<Rightarrow> impl q)"

definition kwe_isEffectAvailable ::
  "(platform_object \<Rightarrow> 's effects_private) \<Rightarrow> platform_plugin option \<Rightarrow> effect \<Rightarrow> 's \<Rightarrow> bool" where
  "kwe_isEffectAvailable impl plugin effect s = ep_isEffectAvailable (effects_of impl plugin) effect s"

definition kwe_enableBlurBehind ::
  "(platform_object \<Rightarrow> 's effects_private) \<Rightarrow> platform_plugin option \<Rightarrow> nat \<Rightarrow> bool \<Rightarrow> fx_rect list \<Rightarrow> 's \<Rightarrow> 's" where
  "kwe_enableBlurBehind impl plugin window enable region s =
     ep_enableBlurBehind (effects_of impl plugin) window enable region s"

definition kwe_enableBackgroundContrast ::
  "(platform_object \<Rightarrow> 's effects_private) \<Rightarrow> platform_plugin option \<Rightarrow> nat \<Rightarrow> bool \<Rightarrow> real \<Rightarrow> real \<Rightarrow> real \<Rightarrow> fx_rect list \<Rightarrow>
     's \<Rightarrow> 's" where
  "kwe_enableBackgroundContrast impl plugin window enable contrast intensity saturation region s =
     ep_enableBackgroundContrast (effects_of impl plugin) window enable contrast intensity saturation region s"

definition kwe_slideWindow ::
  "(platform_object \<Rightarrow> 's effects_private) \<Rightarrow> platform_plugin option \<Rightarrow> nat \<Rightarrow> slide_location \<Rightarrow> i32 \<Rightarrow> 's \<Rightarrow> 's" where
  "kwe_slideWindow impl plugin window location offset s = ep_slideWindow (effects_of impl plugin) window location offset s"

text \<open>
  \<open>wp_version\<close> is the newest interface the object has: \<open>n\<close> for \<^verbatim>\<open>KWindowSystemPrivateV\<close>\<open>n\<close>, 1 for
  \<^verbatim>\<open>KWindowSystemPrivate\<close>.  Each derives from the one before, so a \<^verbatim>\<open>dynamic_cast\<close> to an older one succeeds.
\<close>

record 's window_private =
  wp_version :: nat
  wp_activateWindow :: "nat \<Rightarrow> int \<Rightarrow> 's \<Rightarrow> 's"
  wp_showingDesktop :: "'s \<Rightarrow> bool"
  wp_setShowingDesktop :: "bool \<Rightarrow> 's \<Rightarrow> 's"
  wp_setCurrentToken :: "string \<Rightarrow> 's \<Rightarrow> 's"
  wp_setMainWindow :: "nat \<Rightarrow> string \<Rightarrow> 's \<Rightarrow> 's"

definition dummy_windows :: "'s window_private" where
  "dummy_windows = \<lparr>wp_version = 1, wp_activateWindow = (\<lambda>win time s. s), wp_showingDesktop = (\<lambda>s. False),
     wp_setShowingDesktop = (\<lambda>showing s. s), wp_setCurrentToken = (\<lambda>token s. s), wp_setMainWindow = (\<lambda>window handle s. s)\<rparr>"

definition windows_of :: "(platform_object \<Rightarrow> 's window_private) \<Rightarrow> platform_plugin option \<Rightarrow> 's window_private" where
  "windows_of impl plugin = (case wrapper_createWindowSystem plugin of DummyObject \<Rightarrow> dummy_windows | q \<Rightarrow> impl q)"

definition dynamic_cast :: "nat \<Rightarrow> nat \<Rightarrow> bool" where
  "dynamic_cast n version \<longleftrightarrow> n \<le> version"

definition kws_activateWindow ::
  "(platform_object \<Rightarrow> 's window_private) \<Rightarrow> platform_plugin option \<Rightarrow> nat \<Rightarrow> int \<Rightarrow> 's \<Rightarrow> 's" where
  "kws_activateWindow impl plugin win time s = wp_activateWindow (windows_of impl plugin) win time s"

definition kws_showingDesktop :: "(platform_object \<Rightarrow> 's window_private) \<Rightarrow> platform_plugin option \<Rightarrow> 's \<Rightarrow> bool" where
  "kws_showingDesktop impl plugin s = wp_showingDesktop (windows_of impl plugin) s"

definition kws_setShowingDesktop ::
  "(platform_object \<Rightarrow> 's window_private) \<Rightarrow> platform_plugin option \<Rightarrow> bool \<Rightarrow> 's \<Rightarrow> 's" where
  "kws_setShowingDesktop impl plugin showing s = wp_setShowingDesktop (windows_of impl plugin) showing s"

definition setCurrentXdgActivationToken ::
  "(platform_object \<Rightarrow> 's window_private) \<Rightarrow> platform_plugin option \<Rightarrow> string \<Rightarrow> 's \<Rightarrow> 's" where
  "setCurrentXdgActivationToken impl plugin token s =
     (if \<not> dynamic_cast 2 (wp_version (windows_of impl plugin)) then s
      else wp_setCurrentToken (windows_of impl plugin) token s)"

text \<open>
  The window a number names becomes the transient parent and is deleted with the window; \<open>foreign\<close> is
  \<^verbatim>\<open>QWindow::fromWinId\<close>, \<open>adopt\<close> what is then done to the two windows, \<open>toULongLong\<close> the reading of a number in the way of C.
\<close>

definition setMainWindow_id ::
  "(64 word \<Rightarrow> nat option) \<Rightarrow> (nat \<Rightarrow> nat \<Rightarrow> 's \<Rightarrow> 's) \<Rightarrow> nat \<Rightarrow> 64 word \<Rightarrow> 's \<Rightarrow> 's" where
  "setMainWindow_id foreign adopt subWindow mainWindowId s =
     (case foreign mainWindowId of Some mainWindow \<Rightarrow> adopt subWindow mainWindow s | None \<Rightarrow> s)"

definition kws_setMainWindow ::
  "(platform_object \<Rightarrow> 's window_private) \<Rightarrow> platform_plugin option \<Rightarrow> platform \<Rightarrow> (string \<Rightarrow> 64 word option) \<Rightarrow>
     (64 word \<Rightarrow> nat option) \<Rightarrow> (nat \<Rightarrow> nat \<Rightarrow> 's \<Rightarrow> 's) \<Rightarrow> nat \<Rightarrow> string \<Rightarrow> 's \<Rightarrow> 's" where
  "kws_setMainWindow impl plugin pl toULongLong foreign adopt subWindow mainWindowId s =
     (if pl = PlatformWayland
      then (if dynamic_cast 2 (wp_version (windows_of impl plugin))
            then wp_setMainWindow (windows_of impl plugin) subWindow mainWindowId s else s)
      else (case toULongLong mainWindowId of
              Some wid \<Rightarrow> setMainWindow_id foreign adopt subWindow wid s
            | None \<Rightarrow> s))"

text \<open>On X11 the identifier of the next startup, which Qt keeps, is given to the window.\<close>

definition updateStartupId ::
  "qt \<Rightarrow> machine \<Rightarrow> platform \<Rightarrow> u32 option \<Rightarrow> string option \<Rightarrow> x_display \<Rightarrow> x_app \<Rightarrow> int \<times> int \<times> int \<times> int \<Rightarrow> u32 \<Rightarrow> string \<Rightarrow>
     startup_app \<Rightarrow> extras \<Rightarrow> startup_app \<times> extras \<times> extras_effect list" where
  "updateStartupId Q m pl server_time env X A place window nextStartupId a s =
     (if pl = PlatformX11 \<and> nextStartupId \<noteq> []
      then setNewStartupId Q m True server_time env X A place window nextStartupId a s
      else (a, s, []))"

section \<open>The time of the user\<close>

text \<open>The two times Qt keeps for a program on X11, over the state \<open>'t\<close> of Qt.\<close>

record 't x11_info =
  xi_appUserTime :: "'t \<Rightarrow> 64 word"
  xi_setAppUserTime :: "64 word \<Rightarrow> 't \<Rightarrow> 't"
  xi_appTime :: "'t \<Rightarrow> 64 word"
  xi_setAppTime :: "64 word \<Rightarrow> 't \<Rightarrow> 't"

definition userTimestamp :: "'t x11_info \<Rightarrow> platform \<Rightarrow> 't \<Rightarrow> 64 word" where
  "userTimestamp I pl s = (if pl = PlatformX11 then xi_appUserTime I s else 0)"

text \<open>\<open>server_time\<close> is the timestamp \<^verbatim>\<open>QX11Info::getTimestamp\<close> gets from the X server.\<close>

definition updateUserTimestamp :: "'t x11_info \<Rightarrow> platform \<Rightarrow> 64 word \<Rightarrow> 64 word \<Rightarrow> 't \<Rightarrow> 't" where
  "updateUserTimestamp I pl server_time time s =
     (if pl \<noteq> PlatformX11 then s
      else
        let t = (if time = 0 then server_time else time);
            s1 = (if xi_appUserTime I s = 0 \<or> timestampCompare t (xi_appUserTime I s) > 0
                  then xi_setAppUserTime I t s else s)
        in if xi_appTime I s1 = 0 \<or> timestampCompare t (xi_appTime I s1) > 0 then xi_setAppTime I t s1 else s1)"

end
