(* ===== verification/PlatformProperties.thy ===== *)
theory PlatformProperties
  imports Platform
begin

text \<open>
  What \<open>Platform\<close> promises: the objects a program works with are those of the platform it is told it runs on, with
  two exceptions that are named, and the time of the user is the latest one that was reported.
\<close>

section \<open>Plugins that can be loaded\<close>

definition usable :: "('p, 'm) plugin_host_scheme \<Rightarrow> plugin_metadata \<Rightarrow> 'p \<Rightarrow> bool" where
  "usable H M p \<longleftrightarrow> (M, Some p) \<in> set (ph_static H) \<and> pm_IID M = plugin_iid \<or>
     (\<exists>c\<in>set (pluginCandidates H). ph_isLibrary H c \<and> ph_metadata H c = M \<and> ph_instance H c = Some p)"

lemma static_plugin_some:
  "static_plugin H n ps = Some p \<Longrightarrow> \<exists>M. (M, Some p) \<in> set ps \<and> pm_IID M = plugin_iid \<and> checkPlatform H M n"
  by (induction H n ps rule: static_plugin.induct) (auto split: if_splits option.splits)

lemma static_plugin_none:
  "static_plugin H n ps = None \<Longrightarrow> (M, Some p) \<in> set ps \<Longrightarrow> pm_IID M = plugin_iid \<Longrightarrow> \<not> checkPlatform H M n"
  by (induction H n ps rule: static_plugin.induct) (auto split: if_splits option.splits)

lemma candidate_plugin_some:
  "candidate_plugin H n cs = Some p \<Longrightarrow>
     \<exists>c\<in>set cs. ph_isLibrary H c \<and> ph_instance H c = Some p \<and> checkPlatform H (ph_metadata H c) n"
  by (induction H n cs rule: candidate_plugin.induct) (auto split: if_splits option.splits)

lemma candidate_plugin_none:
  "candidate_plugin H n cs = None \<Longrightarrow> c \<in> set cs \<Longrightarrow> ph_isLibrary H c \<Longrightarrow> ph_instance H c = Some p \<Longrightarrow>
     \<not> checkPlatform H (ph_metadata H c) n"
  by (induction H n cs rule: candidate_plugin.induct) (auto split: if_splits option.splits)

lemma loadPlugin_some:
  "loadPlugin H = Some p \<Longrightarrow> \<exists>M. usable H M p \<and> checkPlatform H M (effective_name H)"
  using static_plugin_some [of H "effective_name H" "ph_static H" p]
    candidate_plugin_some [of H "effective_name H" "pluginCandidates H" p]
  unfolding loadPlugin_def usable_def by (auto split: if_splits option.splits)

lemma loadPlugin_finds:
  "ph_gui H \<Longrightarrow> usable H M p \<Longrightarrow> checkPlatform H M (effective_name H) \<Longrightarrow> loadPlugin H \<noteq> None"
  unfolding loadPlugin_def usable_def
  by (cases "static_plugin H (effective_name H) (ph_static H)";
      cases "candidate_plugin H (effective_name H) (pluginCandidates H)")
    (auto dest: static_plugin_none candidate_plugin_none)

section \<open>Objects and platform\<close>

text \<open>The metadata of the two plugins of the repository (xcb.json and wayland.json).\<close>

definition xcb_metadata :: plugin_metadata where
  "xcb_metadata = \<lparr>pm_IID = plugin_iid, pm_platforms = [qs ''xcb'']\<rparr>"

definition wayland_metadata :: plugin_metadata where
  "wayland_metadata = \<lparr>pm_IID = plugin_iid, pm_platforms = [qs ''wayland'', qs ''wayland-egl'']\<rparr>"

definition own_plugins :: "(platform_plugin, 'm) plugin_host_scheme \<Rightarrow> bool" where
  "own_plugins H \<longleftrightarrow> usable H xcb_metadata X11Plugin \<and> usable H wayland_metadata KWaylandPlugin \<and>
     (\<forall>M p. usable H M p \<longrightarrow> (M, p) \<in> {(xcb_metadata, X11Plugin), (wayland_metadata, KWaylandPlugin)})"

text \<open>What is documented about the folding of cases: it keeps the length, works from left to right, and keeps lower-case ASCII.\<close>

definition folds_case :: "('p, 'm) plugin_host_scheme \<Rightarrow> bool" where
  "folds_case H \<longleftrightarrow> (\<forall>n t. ph_folded H (take n t) = take n (ph_folded H t)) \<and>
     (\<forall>t. length (ph_folded H t) = length t) \<and>
     (\<forall>s. list_all (\<lambda>c. (of_char c :: nat) < 128 \<and> \<not> (65 \<le> (of_char c :: nat) \<and> (of_char c :: nat) \<le> 90)) s \<longrightarrow>
        ph_folded H (qs s) = qs s)"

lemma folded_names:
  assumes "folds_case H"
  shows "ph_folded H (qs ''xcb'') = qs ''xcb''" "ph_folded H (qs ''wayland'') = qs ''wayland''"
    "ph_folded H (qs ''wayland-egl'') = qs ''wayland-egl''"
proof -
  have law: "ph_folded H (qs s) = qs s"
    if "list_all (\<lambda>c. (of_char c :: nat) < 128 \<and> \<not> (65 \<le> (of_char c :: nat) \<and> (of_char c :: nat) \<le> 90)) s" for s
    using assms that unfolding folds_case_def by blast
  show "ph_folded H (qs ''xcb'') = qs ''xcb''" by (rule law) simp
  show "ph_folded H (qs ''wayland'') = qs ''wayland''" by (rule law) simp
  show "ph_folded H (qs ''wayland-egl'') = qs ''wayland-egl''" by (rule law) simp
qed

lemma starts_with_folded:
  assumes "folds_case H"
  shows "starts_with_ci H a (qs ''wayland'') \<longleftrightarrow> take 7 (ph_folded H a) = qs ''wayland''"
proof -
  have n: "length (qs ''wayland'') = 7" by simp
  have "ph_folded H (take 7 a) = take 7 (ph_folded H a)" "length (ph_folded H a) = length a"
    using assms unfolding folds_case_def by auto
  moreover have "length (take 7 t) = 7 \<Longrightarrow> 7 \<le> length t" for t :: qstring by simp
  ultimately show ?thesis
    unfolding starts_with_ci_def same_text_def n folded_names(2) [OF assms] by (metis n)
qed

text \<open>The objects of a plugin are all of one platform.\<close>

definition objects :: "platform_plugin option \<Rightarrow> platform_object set" where
  "objects plugin = {wrapper_effects plugin, wrapper_createWindowSystem plugin, wrapper_createWindowShadow plugin,
     wrapper_createWindowShadowTile plugin}"

lemma objects_simps [simp]:
  "objects None = {DummyObject}" "objects (Some plugin_interface) = {DummyObject}"
  "objects (Some X11Plugin) = {X11Object}" "objects (Some KWaylandPlugin) = {WaylandObject}"
  by (simp_all add: objects_def wrapper_effects_def wrapper_createWindowSystem_def wrapper_createWindowShadow_def
      wrapper_createWindowShadowTile_def object_or_dummy_def X11Plugin_def KWaylandPlugin_def plugin_interface_def)

lemma loaded_plugin:
  assumes "ph_gui H" "own_plugins H"
  shows "same_text H (effective_name H) (qs ''xcb'') \<Longrightarrow>
      \<not> same_text H (effective_name H) (qs ''wayland'') \<Longrightarrow> \<not> same_text H (effective_name H) (qs ''wayland-egl'') \<Longrightarrow>
      loadPlugin H = Some X11Plugin"
    and "\<not> same_text H (effective_name H) (qs ''xcb'') \<Longrightarrow>
      same_text H (effective_name H) (qs ''wayland'') \<or> same_text H (effective_name H) (qs ''wayland-egl'') \<Longrightarrow>
      loadPlugin H = Some KWaylandPlugin"
    and "\<not> same_text H (effective_name H) (qs ''xcb'') \<Longrightarrow>
      \<not> same_text H (effective_name H) (qs ''wayland'') \<Longrightarrow> \<not> same_text H (effective_name H) (qs ''wayland-egl'') \<Longrightarrow>
      loadPlugin H = None"
proof -
  let ?n = "effective_name H"
  have own: "usable H xcb_metadata X11Plugin" "usable H wayland_metadata KWaylandPlugin"
    "(M, p) \<in> {(xcb_metadata, X11Plugin), (wayland_metadata, KWaylandPlugin)}" if "usable H M p" for M p
    using assms(2) that unfolding own_plugins_def by auto
  have u: "usable H xcb_metadata X11Plugin" "usable H wayland_metadata KWaylandPlugin"
    using assms(2) unfolding own_plugins_def by auto
  have check: "checkPlatform H xcb_metadata ?n \<longleftrightarrow> same_text H ?n (qs ''xcb'')"
    "checkPlatform H wayland_metadata ?n \<longleftrightarrow> same_text H ?n (qs ''wayland'') \<or> same_text H ?n (qs ''wayland-egl'')"
    unfolding checkPlatform_def xcb_metadata_def wayland_metadata_def by simp_all
  have loaded: "loadPlugin H = Some p \<Longrightarrow> p = X11Plugin \<and> same_text H ?n (qs ''xcb'') \<or>
      p = KWaylandPlugin \<and> (same_text H ?n (qs ''wayland'') \<or> same_text H ?n (qs ''wayland-egl''))" for p
    using loadPlugin_some [of H p] own(3) check by blast
  show "same_text H ?n (qs ''xcb'') \<Longrightarrow> \<not> same_text H ?n (qs ''wayland'') \<Longrightarrow> \<not> same_text H ?n (qs ''wayland-egl'') \<Longrightarrow>
      loadPlugin H = Some X11Plugin"
    using loadPlugin_finds [OF assms(1) u(1)] loaded check by blast
  show "\<not> same_text H ?n (qs ''xcb'') \<Longrightarrow> same_text H ?n (qs ''wayland'') \<or> same_text H ?n (qs ''wayland-egl'') \<Longrightarrow>
      loadPlugin H = Some KWaylandPlugin"
    using loadPlugin_finds [OF assms(1) u(2)] loaded check by blast
  show "\<not> same_text H ?n (qs ''xcb'') \<Longrightarrow> \<not> same_text H ?n (qs ''wayland'') \<Longrightarrow> \<not> same_text H ?n (qs ''wayland-egl'') \<Longrightarrow>
      loadPlugin H = None"
    using loaded by (cases "loadPlugin H") blast+
qed

text \<open>
  C30.  With the two plugins of the repository installed, in whatever folders and order or linked in, a program has the four
  objects of the platform it is told it runs on, with two exceptions: on a platform whose name only begins like Wayland,
  such as wayland-brcm, nothing is loaded, and with a name like XCB the plugin for X11 is, although the platform is unknown.
\<close>

theorem objects_fit_the_platform:
  assumes "ph_gui H" "own_plugins H" "folds_case H"
  shows "objects (loadPlugin H) =
    {case initPlatform True H of
       PlatformX11 \<Rightarrow> X11Object
     | PlatformWayland \<Rightarrow>
         (if same_text H (effective_name H) (qs ''wayland'') \<or> same_text H (effective_name H) (qs ''wayland-egl'')
          then WaylandObject else DummyObject)
     | PlatformUnknown \<Rightarrow> (if same_text H (effective_name H) (qs ''xcb'') then X11Object else DummyObject)}"
proof -
  let ?n = "effective_name H"
  note names = folded_names [OF assms(3)]
  have st: "same_text H ?n (qs x) \<longleftrightarrow> ph_folded H ?n = qs x" if "x \<in> {''xcb'', ''wayland'', ''wayland-egl''}" for x
    using that names unfolding same_text_def by auto
  have text_simps: "same_text H ?n (qs ''xcb'') \<longleftrightarrow> ph_folded H ?n = qs ''xcb''"
    "same_text H ?n (qs ''wayland'') \<longleftrightarrow> ph_folded H ?n = qs ''wayland''"
    "same_text H ?n (qs ''wayland-egl'') \<longleftrightarrow> ph_folded H ?n = qs ''wayland-egl''"
    by (simp_all add: st del: qs_simps(2))
  have init: "initPlatform True H = (if ?n = qs ''xcb'' then PlatformX11
      else if take 7 (ph_folded H ?n) = qs ''wayland'' then PlatformWayland else PlatformUnknown)"
    unfolding initPlatform_def Let_def starts_with_folded [OF assms(3)] by simp
  have x: "?n = qs ''xcb'' \<Longrightarrow> ph_folded H ?n = qs ''xcb''" using names(1) by metis
  consider "ph_folded H ?n = qs ''xcb''" | "ph_folded H ?n = qs ''wayland''" | "ph_folded H ?n = qs ''wayland-egl''"
    | "ph_folded H ?n \<notin> {qs ''xcb'', qs ''wayland'', qs ''wayland-egl''}" by blast
  then show ?thesis
  proof cases
    case 1
    then have "loadPlugin H = Some X11Plugin" by (intro loaded_plugin(1) assms) (simp_all add: text_simps del: qs_simps(2))
    with 1 show ?thesis by (simp add: init text_simps del: qs_simps(2))
  next
    case 2
    then have "loadPlugin H = Some KWaylandPlugin" by (intro loaded_plugin(2) assms) (simp_all add: text_simps del: qs_simps(2))
    moreover have "?n \<noteq> qs ''xcb''" using 2 x by force
    ultimately show ?thesis using 2 by (simp add: init text_simps del: qs_simps(2))
  next
    case 3
    then have "loadPlugin H = Some KWaylandPlugin" by (intro loaded_plugin(2) assms) (simp_all add: text_simps del: qs_simps(2))
    moreover have "?n \<noteq> qs ''xcb''" "take 7 (qs ''wayland-egl'') = qs ''wayland''" using 3 x by (force, simp)
    ultimately show ?thesis using 3 by (simp add: init text_simps del: qs_simps(2))
  next
    case 4
    then have "loadPlugin H = None" by (intro loaded_plugin(3) assms) (simp_all add: text_simps del: qs_simps(2))
    moreover have "?n \<noteq> qs ''xcb''" using 4 x by blast
    ultimately show ?thesis using 4 by (simp add: init text_simps del: qs_simps(2))
  qed
qed

text \<open>Both plugins in the second folder, and a platform that calls itself XCB.\<close>

definition demo_unit :: "u16 \<Rightarrow> u16" where
  "demo_unit u = (if 65 \<le> u \<and> u \<le> 90 then u + 32 else u)"

definition demo_host :: "string \<Rightarrow> platform_plugin plugin_host" where
  "demo_host name = \<lparr>ph_gui = True, ph_platformName = qs name, ph_flatpak = [], ph_folded = map demo_unit,
     ph_libraryPaths = [qs ''/lib''],
     ph_entries = (\<lambda>d. if d = qs ''/lib/kf6/kwindowsystem'' then Some [qs ''readme'', qs ''wl.so'', qs ''x.so''] else None),
     ph_absolute = (\<lambda>d e. e), ph_isLibrary = (\<lambda>c. c \<noteq> qs ''readme''),
     ph_metadata = (\<lambda>c. if c = qs ''wl.so'' then wayland_metadata else xcb_metadata),
     ph_instance = (\<lambda>c. if c = qs ''wl.so'' then Some KWaylandPlugin else Some X11Plugin), ph_static = []\<rparr>"

lemma demo_candidates: "pluginCandidates (demo_host name) = [qs ''readme'', qs ''wl.so'', qs ''x.so'']"
  by (simp add: pluginCandidates_def searchFolders_def folder_entries_def demo_host_def)

lemma demo_own_plugins: "own_plugins (demo_host name)"
proof -
  have "usable (demo_host name) M p \<longleftrightarrow> M = wayland_metadata \<and> p = KWaylandPlugin \<or> M = xcb_metadata \<and> p = X11Plugin" for M p
    unfolding usable_def demo_candidates by (auto simp: demo_host_def)
  then show ?thesis unfolding own_plugins_def by blast
qed

lemma demo_unit_ascii:
  assumes "(of_char c :: nat) < 128" "\<not> (65 \<le> (of_char c :: nat) \<and> (of_char c :: nat) \<le> 90)"
  shows "demo_unit (qchar c) = qchar c"
  using assms by (simp add: demo_unit_def word_le_nat_alt unat_qchar)

lemma demo_folds_case: "folds_case (demo_host name)"
  unfolding folds_case_def
  by (auto simp: demo_host_def take_map qs_def list_all_iff demo_unit_ascii)

theorem objects_fit_the_platform_witness:
  "initPlatform True (demo_host ''XCB'') = PlatformUnknown \<and> objects (loadPlugin (demo_host ''XCB'')) = {X11Object}"
proof -
  have p: "initPlatform True (demo_host ''XCB'') = PlatformUnknown"
    by (simp add: initPlatform_def effective_name_def starts_with_ci_def demo_host_def)
  have "same_text (demo_host ''XCB'') (effective_name (demo_host ''XCB'')) (qs ''xcb'')"
    by (simp add: same_text_def effective_name_def demo_host_def demo_unit_def qchar_def)
  then show ?thesis
    using objects_fit_the_platform [of "demo_host ''XCB''"] p demo_own_plugins demo_folds_case
    by (simp add: demo_host_def del: qs_simps(2))
qed

section \<open>The time of the user\<close>

definition stores_times :: "'t x11_info \<Rightarrow> bool" where
  "stores_times I \<longleftrightarrow> (\<forall>t s. xi_appUserTime I (xi_setAppUserTime I t s) = t \<and>
     xi_appTime I (xi_setAppUserTime I t s) = xi_appTime I s \<and>
     xi_appTime I (xi_setAppTime I t s) = t \<and> xi_appUserTime I (xi_setAppTime I t s) = xi_appUserTime I s)"

definition reported :: "64 word \<times> 64 word \<Rightarrow> 64 word" where
  "reported u = (if snd u = 0 then fst u else snd u)"

definition report :: "'t x11_info \<Rightarrow> 64 word \<times> 64 word \<Rightarrow> 't \<Rightarrow> 't" where
  "report I u s = updateUserTimestamp I PlatformX11 (fst u) (snd u) s"

lemma later_tick:
  assumes "k < 0x7fffffff" "m < 0x7fffffff"
  shows "timestampCompare (tick b k) (tick b m) > 0 \<longleftrightarrow> m < k"
proof -
  have d: "(ucast b + k :: u32) - (ucast b + m) = k - m" by simp
  have "k - m < 0x7fffffff \<longleftrightarrow> m < k" if "k \<noteq> m"
  proof (cases "m < k")
    case True
    then have "m \<le> k" by simp
    then have "uint (k - m) = uint k - uint m" by (simp only: uint_minus_simple_alt)
    moreover have "0 \<le> uint m" by simp
    ultimately show ?thesis using True assms by (simp add: word_less_def del: uint_ge_0 unsigned_greater_eq)
  next
    case False
    with that have "k < m" by simp
    then have "uint (m - k) = uint m - uint k" by (simp only: uint_minus_simple_alt [symmetric] less_imp_le)
    moreover have "0 \<le> uint k" by simp
    ultimately have "\<not> 0x80000001 < m - k"
      using assms by (simp add: word_less_def del: uint_ge_0 unsigned_greater_eq)
    moreover have "- (m - k) < 0x7fffffff \<longleftrightarrow> 0x80000001 < m - k" by (rule neg_less_half) (use that in simp)
    ultimately show ?thesis using False by simp
  qed
  then show ?thesis unfolding timestampCompare_def Let_def low_tick d by (cases "k = m") auto
qed

lemma report_first:
  assumes "stores_times I" "xi_appUserTime I s = 0" "xi_appTime I s = 0"
  shows "xi_appUserTime I (report I u s) = reported u" "xi_appTime I (report I u s) = reported u"
  using assms unfolding report_def updateUserTimestamp_def reported_def stores_times_def Let_def by simp_all

lemma report_next:
  assumes I: "stores_times I" and s: "xi_appUserTime I s = tick b m" "xi_appTime I s = tick b m"
    and "reported u = tick b k" "tick b m \<noteq> 0" "k < 0x7fffffff" "m < 0x7fffffff"
  shows "xi_appUserTime I (report I u s) = tick b (max m k)" "xi_appTime I (report I u s) = tick b (max m k)"
  using assms unfolding report_def updateUserTimestamp_def reported_def stores_times_def Let_def
  by (auto simp: later_tick max_def)

lemma reports_from:
  assumes "stores_times I" "xi_appUserTime I s = tick b m" "xi_appTime I s = tick b m"
    and "map reported us = map (tick b) ks" "\<forall>k\<in>set (m # ks). k < 0x7fffffff \<and> tick b k \<noteq> 0"
  shows "xi_appUserTime I (fold (report I) us s) = tick b (fold max ks m) \<and>
    xi_appTime I (fold (report I) us s) = tick b (fold max ks m)"
  using assms
proof (induction us arbitrary: ks m s)
  case (Cons u us)
  then obtain k ks' where ks: "ks = k # ks'" "reported u = tick b k" "map reported us = map (tick b) ks'" by (cases ks) auto
  have "xi_appUserTime I (report I u s) = tick b (max k m)" "xi_appTime I (report I u s) = tick b (max k m)"
    using report_next [OF Cons.prems(1-3) ks(2)] Cons.prems(5) ks(1) by (simp_all add: max.commute)
  then have "xi_appUserTime I (fold (report I) us (report I u s)) = tick b (fold max ks' (max k m)) \<and>
    xi_appTime I (fold (report I) us (report I u s)) = tick b (fold max ks' (max k m))"
    using Cons.prems(5) by (intro Cons.IH Cons.prems(1) ks(3)) (auto simp: ks(1) max_def)
  then show ?case by (simp add: ks(1))
qed simp

text \<open>
  C33.  Whatever timestamps within half of the range of the clock are reported, in any order, given or asked from the X server,
  and wherever the clock wraps around, the time of the user and the time of the program are the latest of them.
\<close>

theorem user_time_is_latest:
  assumes "stores_times I" "xi_appUserTime I s = 0" "xi_appTime I s = 0" "ks \<noteq> []"
    and "map reported us = map (tick b) ks" "\<forall>k\<in>set ks. k < 0x7fffffff \<and> tick b k \<noteq> 0"
  shows "userTimestamp I PlatformX11 (fold (report I) us s) = tick b (Max (set ks)) \<and>
    xi_appTime I (fold (report I) us s) = tick b (Max (set ks))"
proof -
  obtain k ks' where ks: "ks = k # ks'" using assms(4) by (cases ks) auto
  then obtain u us' where us: "us = u # us'" "reported u = tick b k" "map reported us' = map (tick b) ks'"
    using assms(5) by (cases us) auto
  have "xi_appUserTime I (fold (report I) us' (report I u s)) = tick b (fold max ks' k) \<and>
    xi_appTime I (fold (report I) us' (report I u s)) = tick b (fold max ks' k)"
    using report_first [OF assms(1-3), of u] assms(6) by (intro reports_from assms(1) us(3)) (simp_all add: us(2) ks)
  moreover have "fold max ks' k = Max (set ks)" unfolding ks by (rule Max.set_eq_fold [symmetric])
  ultimately show ?thesis by (simp add: userTimestamp_def us(1))
qed

definition demo_times :: "(64 word \<times> 64 word) x11_info" where
  "demo_times = \<lparr>xi_appUserTime = fst, xi_setAppUserTime = (\<lambda>t s. (t, snd s)), xi_appTime = snd,
     xi_setAppTime = (\<lambda>t s. (fst s, t))\<rparr>"

theorem user_time_is_latest_witness:
  "userTimestamp demo_times PlatformX11 (fold (report demo_times) [(0, 0xfffffffe), (3, 0), (7, 0xffffffff)] (0, 0)) = 3"
proof -
  have "tick 0xfffffff0 0xe = 0xfffffffe" "tick 0xfffffff0 0x13 = 3" "tick 0xfffffff0 0xf = 0xffffffff"
    by (simp_all add: tick_def)
  then show ?thesis
    using user_time_is_latest [where I = demo_times and s = "(0, 0)" and ks = "[0xe, 0x13, 0xf]" and b = "0xfffffff0"
        and us = "[(0, 0xfffffffe), (3, 0), (7, 0xffffffff)]"]
    by (simp add: stores_times_def demo_times_def reported_def)
qed

end
