(* ===== verification/WlExtras.thy ===== *)
theory WlExtras
  imports Platform WlSystem
begin

text \<open>
  The questions a program asks about Wayland whatever platform it runs on (kwaylandextras.cpp): each is passed to the
  object of the platform if that is new enough, otherwise it is answered here.
\<close>

section \<open>State\<close>

text \<open>
  The object of the platform: its newest interface (see \<^term>\<open>wp_version\<close>) and the serial of the last input it knows.
  What it is asked is recorded; its own answers are the signals \<^verbatim>\<open>xdgActivationTokenArrived\<close> and
  \<^verbatim>\<open>windowExported\<close> and the futures it returns.
\<close>

record wx_platform =
  xp_version :: nat
  xp_lastInputSerial :: "nat \<Rightarrow> u32"

datatype wx_call =
    CallRequestToken nat u32 string
  | CallXdgActivationToken nat u32 string
  | CallExportWindow nat
  | CallUnexportWindow nat
  | CallExportToplevel nat
  | CallUnexportToplevel nat
  | CallSetTag nat string
  | CallSetDescription nat string

datatype wx_future = PlatformFuture | OwnFuture nat

text \<open>
  Timers carry the serial of a request; futures that wait for a signal are kept with the connection they wait on.
\<close>

record wx_state =
  wx_calls :: "wx_call list"
  wx_timers :: "u32 list"
  wx_token_waiters :: "nat list"
  wx_export_waiters :: "(nat \<times> nat) list"
  wx_futures :: "nat \<rightharpoonup> xs_future"
  wx_next :: nat
  wx_arrived :: "(u32 \<times> string) list"

definition new_wx_state :: wx_state where
  "new_wx_state = \<lparr>wx_calls = [], wx_timers = [], wx_token_waiters = [], wx_export_waiters = [], wx_futures = Map.empty,
     wx_next = 0, wx_arrived = []\<rparr>"

definition wx_call_platform :: "wx_call \<Rightarrow> wx_state \<Rightarrow> wx_state" where
  "wx_call_platform c s = s\<lparr>wx_calls := wx_calls s @ [c]\<rparr>"

definition wx_new_future :: "wx_state \<Rightarrow> nat \<times> wx_state" where
  "wx_new_future s = (wx_next s, s\<lparr>wx_futures := (wx_futures s)(wx_next s \<mapsto> Waiting), wx_next := Suc (wx_next s)\<rparr>)"

definition wx_settle :: "xs_future \<Rightarrow> nat \<Rightarrow> wx_state \<Rightarrow> wx_state" where
  "wx_settle v f s = (if wx_futures s f = Some Waiting then s\<lparr>wx_futures := (wx_futures s)(f \<mapsto> v)\<rparr> else s)"

interpretation wx: promises wx_futures wx_settle
  by unfold_locales (simp add: wx_settle_def)

section \<open>Tokens\<close>

definition wx_requestXdgActivationToken :: "wx_platform \<Rightarrow> nat \<Rightarrow> u32 \<Rightarrow> string \<Rightarrow> wx_state \<Rightarrow> wx_state" where
  "wx_requestXdgActivationToken P window serial app_id s =
     (if \<not> dynamic_cast 2 (xp_version P) then s\<lparr>wx_timers := wx_timers s @ [serial]\<rparr>
      else wx_call_platform (CallRequestToken window serial app_id) s)"

definition wx_lastInputSerial :: "wx_platform \<Rightarrow> nat \<Rightarrow> u32" where
  "wx_lastInputSerial P window = (if \<not> dynamic_cast 2 (xp_version P) then 0 else xp_lastInputSerial P window)"

definition wx_xdgActivationToken :: "wx_platform \<Rightarrow> nat \<Rightarrow> u32 \<Rightarrow> string \<Rightarrow> wx_state \<Rightarrow> wx_future \<times> wx_state" where
  "wx_xdgActivationToken P window serial appId s =
     (if dynamic_cast 3 (xp_version P)
      then (PlatformFuture, wx_call_platform (CallXdgActivationToken window serial appId) s)
      else
        let (f, t) = wx_new_future (wx_requestXdgActivationToken P window serial appId s)
        in (OwnFuture f, t\<lparr>wx_token_waiters := wx_token_waiters t @ [f]\<rparr>))"

text \<open>The overload that uses the last serial.\<close>

definition wx_xdgActivationToken_last :: "wx_platform \<Rightarrow> nat \<Rightarrow> string \<Rightarrow> wx_state \<Rightarrow> wx_future \<times> wx_state" where
  "wx_xdgActivationToken_last P window appId s = wx_xdgActivationToken P window (wx_lastInputSerial P window) appId s"

text \<open>The signal: every future that waits is answered, and each waits for one signal only.\<close>

definition wx_token_arrived :: "u32 \<Rightarrow> string \<Rightarrow> wx_state \<Rightarrow> wx_state" where
  "wx_token_arrived serial token s =
     fold (wx_settle (Finished token)) (wx_token_waiters s)
       (s\<lparr>wx_token_waiters := [], wx_arrived := wx_arrived s @ [(serial, token)]\<rparr>)"

definition wx_run_timer :: "wx_state \<Rightarrow> wx_state" where
  "wx_run_timer s = (case wx_timers s of [] \<Rightarrow> s | serial # ts \<Rightarrow> wx_token_arrived serial [] (s\<lparr>wx_timers := ts\<rparr>))"

section \<open>Windows that are exported\<close>

definition wx_exportWindow :: "wx_platform \<Rightarrow> nat \<Rightarrow> wx_state \<Rightarrow> wx_state" where
  "wx_exportWindow P window s =
     (if dynamic_cast 2 (xp_version P) then wx_call_platform (CallExportWindow window) s else s)"

definition wx_unexportWindow :: "wx_platform \<Rightarrow> nat \<Rightarrow> wx_state \<Rightarrow> wx_state" where
  "wx_unexportWindow P window s =
     (if dynamic_cast 2 (xp_version P) then wx_call_platform (CallUnexportWindow window) s else s)"

definition wx_exportToplevel :: "wx_platform \<Rightarrow> nat \<Rightarrow> wx_state \<Rightarrow> wx_future \<times> wx_state" where
  "wx_exportToplevel P window s =
     (if dynamic_cast 5 (xp_version P) then (PlatformFuture, wx_call_platform (CallExportToplevel window) s)
      else
        let (f, t) = wx_new_future (wx_exportWindow P window s)
        in (OwnFuture f, t\<lparr>wx_export_waiters := wx_export_waiters t @ [(f, window)]\<rparr>))"

definition wx_unexportToplevel :: "wx_platform \<Rightarrow> nat \<Rightarrow> wx_state \<Rightarrow> wx_state" where
  "wx_unexportToplevel P window s =
     (if dynamic_cast 5 (xp_version P) then wx_call_platform (CallUnexportToplevel window) s
      else wx_unexportWindow P window s)"

text \<open>
  The signal: the futures for the window are answered and no longer connected.  The connections go with the window, and
  the promises they hold are then canceled.
\<close>

definition wx_window_exported :: "nat \<Rightarrow> string \<Rightarrow> wx_state \<Rightarrow> wx_state" where
  "wx_window_exported window handle s =
     fold (\<lambda>(f, wanted). if window \<noteq> wanted then (\<lambda>t. t) else wx_settle (Finished handle) f) (wx_export_waiters s)
       (s\<lparr>wx_export_waiters := filter (\<lambda>(f, wanted). window \<noteq> wanted) (wx_export_waiters s)\<rparr>)"

definition wx_window_destroyed :: "nat \<Rightarrow> wx_state \<Rightarrow> wx_state" where
  "wx_window_destroyed window s =
     fold (\<lambda>(f, wanted). if window \<noteq> wanted then (\<lambda>t. t) else wx_settle Canceled f) (wx_export_waiters s)
       (s\<lparr>wx_export_waiters := filter (\<lambda>(f, wanted). window \<noteq> wanted) (wx_export_waiters s)\<rparr>)"

section \<open>Tags\<close>

definition wx_setXdgToplevelTag :: "wx_platform \<Rightarrow> nat \<Rightarrow> string \<Rightarrow> wx_state \<Rightarrow> wx_state" where
  "wx_setXdgToplevelTag P window tag s =
     (if dynamic_cast 4 (xp_version P) then wx_call_platform (CallSetTag window tag) s else s)"

definition wx_setXdgToplevelDescription :: "wx_platform \<Rightarrow> nat \<Rightarrow> string \<Rightarrow> wx_state \<Rightarrow> wx_state" where
  "wx_setXdgToplevelDescription P window description s =
     (if dynamic_cast 4 (xp_version P) then wx_call_platform (CallSetDescription window description) s else s)"

section \<open>Runs\<close>

text \<open>Signals come from the platform, so one without the second interface sends none.\<close>

inductive wx_step :: "wx_platform \<Rightarrow> wx_state \<Rightarrow> wx_state \<Rightarrow> bool" for P where
  wx_request: "wx_step P s (wx_requestXdgActivationToken P w n a s)"
| wx_token: "wx_xdgActivationToken P w n a s = (r, t) \<Longrightarrow> wx_step P s t"
| wx_timer: "wx_step P s (wx_run_timer s)"
| wx_export: "wx_exportToplevel P w s = (r, t) \<Longrightarrow> wx_step P s t"
| wx_export_window: "wx_step P s (wx_exportWindow P w s)"
| wx_unexport_window: "wx_step P s (wx_unexportWindow P w s)"
| wx_unexport: "wx_step P s (wx_unexportToplevel P w s)"
| wx_gone: "wx_step P s (wx_window_destroyed w s)"
| wx_tag: "wx_step P s (wx_setXdgToplevelTag P w a s)"
| wx_description: "wx_step P s (wx_setXdgToplevelDescription P w a s)"
| wx_arrival: "dynamic_cast 2 (xp_version P) \<Longrightarrow> wx_step P s (wx_token_arrived n a s)"
| wx_exported: "dynamic_cast 2 (xp_version P) \<Longrightarrow> wx_step P s (wx_window_exported w a s)"

inductive wx_run :: "wx_platform \<Rightarrow> wx_state \<Rightarrow> wx_state \<Rightarrow> bool" for P where
  wx_here: "wx_run P s s"
| wx_more: "wx_run P s t \<Longrightarrow> wx_step P t u \<Longrightarrow> wx_run P s u"

lemma wx_run_trans: "wx_run P s t \<Longrightarrow> wx_run P t u \<Longrightarrow> wx_run P s u"
  by (rotate_tac 1, induction rule: wx_run.induct) (auto intro: wx_run.intros)

section \<open>Futures\<close>

lemma wx_settle_simps [simp]:
  "wx_timers (wx_settle v f s) = wx_timers s" "wx_token_waiters (wx_settle v f s) = wx_token_waiters s"
  "wx_export_waiters (wx_settle v f s) = wx_export_waiters s" "wx_next (wx_settle v f s) = wx_next s"
  "wx_arrived (wx_settle v f s) = wx_arrived s" "wx_calls (wx_settle v f s) = wx_calls s"
  by (simp_all add: wx_settle_def)

lemma wx_call_simps [simp]:
  "wx_timers (wx_call_platform c s) = wx_timers s" "wx_token_waiters (wx_call_platform c s) = wx_token_waiters s"
  "wx_export_waiters (wx_call_platform c s) = wx_export_waiters s" "wx_next (wx_call_platform c s) = wx_next s"
  "wx_futures (wx_call_platform c s) = wx_futures s"
  by (simp_all add: wx_call_platform_def)

lemma fold_settle:
  "wx_timers (fold (wx_settle v) fs s) = wx_timers s" "wx_token_waiters (fold (wx_settle v) fs s) = wx_token_waiters s"
  "wx_export_waiters (fold (wx_settle v) fs s) = wx_export_waiters s" "wx_next (fold (wx_settle v) fs s) = wx_next s"
  by (induction fs arbitrary: s) (simp_all add: wx_settle_def)

text \<open>The futures of exports that match a window are settled like a list of futures.\<close>

lemma fold_matching:
  "fold (\<lambda>(f, wanted). if w \<noteq> wanted then (\<lambda>t. t) else wx_settle v f) es s =
     fold (wx_settle v) (map fst (filter (\<lambda>(f, wanted). w = wanted) es)) s"
  by (induction es arbitrary: s) (auto split: prod.split)

lemmas wx_defs = wx_requestXdgActivationToken_def wx_xdgActivationToken_def wx_new_future_def wx_token_arrived_def
  wx_run_timer_def wx_exportWindow_def wx_unexportWindow_def wx_exportToplevel_def wx_unexportToplevel_def
  wx_window_exported_def wx_window_destroyed_def wx_setXdgToplevelTag_def wx_setXdgToplevelDescription_def fold_matching

text \<open>
  Without the second interface: each waiting future of a token has a timer to come, the futures that wait for an export
  wait for nothing else, and what waits has been made.
\<close>

definition extras_ok :: "wx_state \<Rightarrow> bool" where
  "extras_ok s \<longleftrightarrow> (wx_token_waiters s = [] \<or> wx_timers s \<noteq> []) \<and>
     set (wx_token_waiters s) \<inter> fst ` set (wx_export_waiters s) = {} \<and>
     (\<forall>f\<in>set (wx_token_waiters s) \<union> fst ` set (wx_export_waiters s). f < wx_next s \<and> wx_futures s f = Some Waiting) \<and>
     distinct (map fst (wx_export_waiters s)) \<and> (\<forall>f. wx_next s \<le> f \<longrightarrow> wx_futures s f = None)"

definition of_token :: "wx_state \<Rightarrow> nat \<Rightarrow> bool" where
  "of_token s f \<longleftrightarrow> f \<in> set (wx_token_waiters s) \<or> wx_futures s f = Some (Finished [])"

definition of_export :: "wx_state \<Rightarrow> nat \<Rightarrow> bool" where
  "of_export s f \<longleftrightarrow> f \<in> fst ` set (wx_export_waiters s) \<or> wx_futures s f = Some Canceled"

text \<open>A state keeps what was said of the futures of another.\<close>

definition extras_next :: "wx_state \<Rightarrow> wx_state \<Rightarrow> bool" where
  "extras_next s t \<longleftrightarrow> extras_ok t \<and> (\<forall>f. of_token s f \<longrightarrow> of_token t f) \<and> (\<forall>f. of_export s f \<longrightarrow> of_export t f)"

lemma extras_ok_new: "extras_ok new_wx_state"
  by (simp add: extras_ok_def new_wx_state_def)

lemma extras_next_same: "extras_ok s \<Longrightarrow> extras_next s s"
  by (simp add: extras_next_def)

lemma extras_next_trans: "extras_next s t \<Longrightarrow> extras_next t u \<Longrightarrow> extras_next s u"
  by (simp add: extras_next_def)

lemma next_timer:
  assumes "extras_ok s"
  shows "extras_next s (wx_run_timer s)"
proof (cases "wx_timers s")
  case Nil
  then show ?thesis using assms by (simp add: wx_run_timer_def extras_next_def)
next
  case (Cons n ts)
  then show ?thesis
    using assms
    by (auto simp: wx_defs extras_next_def extras_ok_def of_token_def of_export_def fold_settle wx.all_settled)
qed

lemma next_request: "extras_ok s \<Longrightarrow> \<not> dynamic_cast 2 (xp_version P) \<Longrightarrow> extras_next s (wx_requestXdgActivationToken P w n a s)"
  by (auto simp: wx_defs extras_next_def extras_ok_def of_token_def of_export_def)

lemma not_newer:
  "\<not> dynamic_cast 2 v \<Longrightarrow> \<not> dynamic_cast 3 v" "\<not> dynamic_cast 2 v \<Longrightarrow> \<not> dynamic_cast 4 v"
  "\<not> dynamic_cast 2 v \<Longrightarrow> \<not> dynamic_cast 5 v"
  by (simp_all add: dynamic_cast_def)

lemma fresh_future:
  assumes "extras_ok s"
  shows "wx_futures s (wx_next s) = None" "wx_next s \<notin> set (wx_token_waiters s)" "wx_next s \<notin> fst ` set (wx_export_waiters s)"
proof -
  have o: "\<And>g. g \<in> set (wx_token_waiters s) \<union> fst ` set (wx_export_waiters s) \<Longrightarrow> g < wx_next s \<and> wx_futures s g = Some Waiting"
    "\<And>g. wx_next s \<le> g \<Longrightarrow> wx_futures s g = None"
    using assms unfolding extras_ok_def by blast+
  show "wx_futures s (wx_next s) = None" by (rule o(2)) simp
  show "wx_next s \<notin> set (wx_token_waiters s)" "wx_next s \<notin> fst ` set (wx_export_waiters s)" using o(1) [of "wx_next s"] by auto
qed

lemma next_token:
  assumes ok: "extras_ok s" and "\<not> dynamic_cast 2 (xp_version P)" "wx_xdgActivationToken P w n a s = (r, t)"
  shows "extras_next s t \<and> r = OwnFuture (wx_next s) \<and> of_token t (wx_next s)"
proof -
  let ?n = "wx_next s"
  have r: "r = OwnFuture ?n" and t: "wx_timers t = wx_timers s @ [n]" "wx_token_waiters t = wx_token_waiters s @ [?n]"
    "wx_export_waiters t = wx_export_waiters s" "wx_futures t = (wx_futures s)(?n \<mapsto> Waiting)" "wx_next t = Suc ?n"
    using assms(2,3) by (auto simp: wx_defs not_newer Let_def)
  note fresh = fresh_future [OF ok]
  have "extras_ok t"
    using ok fresh(2,3) unfolding extras_ok_def t by (auto simp: less_Suc_eq)
  moreover have "of_token t f" if "of_token s f" for f using that fresh(1) unfolding of_token_def t by auto
  moreover have "of_export t f" if "of_export s f" for f using that fresh(1) unfolding of_export_def t by auto
  ultimately show ?thesis by (simp add: extras_next_def r of_token_def t)
qed

lemma next_export:
  assumes ok: "extras_ok s" and "\<not> dynamic_cast 2 (xp_version P)" "wx_exportToplevel P w s = (r, t)"
  shows "extras_next s t \<and> r = OwnFuture (wx_next s) \<and> of_export t (wx_next s)"
proof -
  let ?n = "wx_next s"
  have r: "r = OwnFuture ?n" and t: "wx_timers t = wx_timers s" "wx_token_waiters t = wx_token_waiters s"
    "wx_export_waiters t = wx_export_waiters s @ [(?n, w)]" "wx_futures t = (wx_futures s)(?n \<mapsto> Waiting)" "wx_next t = Suc ?n"
    using assms(2,3) by (auto simp: wx_defs not_newer Let_def)
  note fresh = fresh_future [OF ok]
  have "extras_ok t"
    using ok fresh(2,3) unfolding extras_ok_def t by (auto simp: less_Suc_eq)
  moreover have "of_token t f" if "of_token s f" for f using that fresh(1) unfolding of_token_def t by auto
  moreover have "of_export t f" if "of_export s f" for f using that fresh(1) unfolding of_export_def t by auto
  ultimately show ?thesis by (simp add: extras_next_def r of_export_def t)
qed

lemma next_gone:
  assumes "extras_ok s"
  shows "extras_next s (wx_window_destroyed w s)"
proof -
  let ?E = "wx_export_waiters s"
  have d: "distinct (map fst ?E)" using assms by (simp add: extras_ok_def)
  have part: "f \<in> fst ` set (filter (\<lambda>(f, v). w = v) ?E) \<Longrightarrow> f \<notin> fst ` set (filter (\<lambda>(f, v). w \<noteq> v) ?E)" for f
    using eq_key_imp_eq_value [OF d] by auto
  have cover: "fst ` set ?E = fst ` set (filter (\<lambda>(f, v). w = v) ?E) \<union> fst ` set (filter (\<lambda>(f, v). w \<noteq> v) ?E)"
    by force
  have d2: "distinct (map fst (filter (\<lambda>(f, v). w \<noteq> v) ?E))" by (rule distinct_map_filter [OF d])
  show ?thesis
    using assms d2 part cover
    unfolding wx_window_destroyed_def fold_matching extras_next_def extras_ok_def of_token_def of_export_def
    by (simp add: fold_settle wx.all_settled) blast
qed

lemma next_step:
  assumes "wx_step P s t" "\<not> dynamic_cast 2 (xp_version P)" "extras_ok s"
  shows "extras_next s t"
  using assms
proof cases
  case (wx_token w n a r)
  then show ?thesis using next_token assms by blast
next
  case (wx_export w r)
  then show ?thesis using next_export assms by blast
qed (simp_all add: assms next_timer next_request next_gone extras_next_same not_newer wx_exportWindow_def wx_unexportWindow_def
    wx_unexportToplevel_def wx_setXdgToplevelTag_def wx_setXdgToplevelDescription_def)

lemma next_run:
  assumes "wx_run P s t" "\<not> dynamic_cast 2 (xp_version P)" "extras_ok s"
  shows "extras_next s t"
  using assms
proof (induction rule: wx_run.induct)
  case (wx_more s t u)
  then show ?case by (meson extras_next_def extras_next_trans next_step)
qed (simp add: extras_next_same)

lemma reachable_extras_ok: "wx_run P new_wx_state s \<Longrightarrow> \<not> dynamic_cast 2 (xp_version P) \<Longrightarrow> extras_ok s"
  using next_run extras_ok_new by (auto simp: extras_next_def)

section \<open>What a program gets\<close>

definition demo_x11 :: wx_platform where
  "demo_x11 = \<lparr>xp_version = 1, xp_lastInputSerial = (\<lambda>_. 0)\<rparr>"

lemma demo_x11_old: "\<not> dynamic_cast 2 (xp_version demo_x11)"
  by (simp add: demo_x11_def dynamic_cast_def)

text \<open>
  On a platform that knows nothing of Wayland, a token that is asked for at any time is answered with an empty one as
  soon as the timers have run, whatever else the program does in between.
\<close>

theorem token_answered_anyway:
  assumes "wx_run P new_wx_state s" "\<not> dynamic_cast 2 (xp_version P)"
    and "wx_xdgActivationToken P w n a s = (r, t)" "wx_run P t u" "wx_timers u = []"
  shows "\<exists>f. r = OwnFuture f \<and> wx_futures u f = Some (Finished [])"
proof -
  have t: "extras_next s t" "r = OwnFuture (wx_next s)" "of_token t (wx_next s)"
    using next_token [OF reachable_extras_ok assms(2,3)] assms(1,2) by auto
  then have "extras_next t u" using next_run [OF assms(4,2)] by (simp add: extras_next_def)
  then have "extras_ok u" "of_token u (wx_next s)" using t(3) by (auto simp: extras_next_def)
  then show ?thesis using t(2) assms(5) by (auto simp: extras_ok_def of_token_def)
qed

theorem token_answered_anyway_witness:
  "\<exists>f. fst (wx_xdgActivationToken demo_x11 5 7 ''app'' new_wx_state) = OwnFuture f \<and>
     wx_futures (wx_run_timer (snd (wx_xdgActivationToken demo_x11 5 7 ''app'' new_wx_state))) f = Some (Finished [])"
proof (rule token_answered_anyway [where P = demo_x11 and s = new_wx_state])
  let ?t = "snd (wx_xdgActivationToken demo_x11 5 7 ''app'' new_wx_state)"
  show "wx_xdgActivationToken demo_x11 5 7 ''app'' new_wx_state =
      (fst (wx_xdgActivationToken demo_x11 5 7 ''app'' new_wx_state), ?t)" by simp
  show "wx_run demo_x11 ?t (wx_run_timer ?t)" by (rule wx_more [OF wx_here wx_timer])
  show "wx_timers (wx_run_timer ?t) = []"
    by (simp add: wx_defs new_wx_state_def demo_x11_def dynamic_cast_def fold_settle wx.all_settled)
qed (rule wx_here demo_x11_old)+



text \<open>
  With a platform of the second interface only, futures wait for the next token whatever request it answers: two requests get
  the same token.
\<close>

lemma tokens_mixed_up:
  assumes "xp_version P = 2" "wx_xdgActivationToken P v m a s = (r, t)" "wx_xdgActivationToken P w n b t = (q, u)"
  shows "r = OwnFuture (wx_next s) \<and> q = OwnFuture (Suc (wx_next s)) \<and>
    wx_futures (wx_token_arrived m x u) (wx_next s) = Some (Finished x) \<and>
    wx_futures (wx_token_arrived m x u) (Suc (wx_next s)) = Some (Finished x)"
  using assms by (auto simp: wx_defs dynamic_cast_def Let_def fold_settle wx.all_settled)

end
