(* ===== verification/EffectsOnPlatform.thy ===== *)
theory EffectsOnPlatform
  imports PlatformProperties WlProperties
begin

text \<open>
  Effects from the call of a program to the requests to the compositor: \<^verbatim>\<open>KWindowEffects\<close> over the plugin that is
  loaded (Platform), over the class of the plugin (Effects on X11, WlEffects on Wayland).
\<close>

section \<open>The classes of the plugins\<close>

text \<open>On X11 the state is the list of requests; \<open>winId\<close> is the number of a window on the display.\<close>

definition KWindowEffectsPrivateX11 :: "effects_env \<Rightarrow> (nat \<Rightarrow> u32) \<Rightarrow> x_effect list effects_private" where
  "KWindowEffectsPrivateX11 X winId = \<lparr>ep_isEffectAvailable = (\<lambda>effect s. isEffectAvailable X effect),
     ep_slideWindow = (\<lambda>window location offset s. s @ slideWindow X (winId window) location offset),
     ep_enableBlurBehind = (\<lambda>window enable region s. s @ enableBlurBehind X (winId window) enable region),
     ep_enableBackgroundContrast = (\<lambda>window enable contrast intensity saturation region s.
       s @ enableBackgroundContrast X (winId window) enable contrast intensity saturation region)\<rparr>"


lemma effects_of_simps [simp]:
  "effects_of impl None = dummy_effects" "effects_of impl (Some X11Plugin) = impl X11Object"
  "effects_of impl (Some KWaylandPlugin) = impl WaylandObject"
  by (simp_all add: effects_of_def wrapper_effects_def object_or_dummy_def X11Plugin_def KWaylandPlugin_def)

section \<open>Blur from the program to the compositor\<close>








end
