(* ===== verification/Pixmaps.thy ===== *)
theory Pixmaps
  imports Extras WinIcons QtText Complex_Main
begin

text \<open>
  Pixmaps of the X server as pixmaps of Qt (platforms/xcb/kxutils.cpp), and the icon of a window from the sources there
  are (kx11extras.cpp): its own icons, the pixmap of its hints, the theme.
\<close>

section \<open>Images\<close>

text \<open>The formats the code names; the bytes of an image and how many a line has.\<close>

datatype qi_format = FormatMonoLSB | FormatRGB16 | FormatRGB32 | FormatARGB32 | FormatARGB32_Premultiplied

record qt_image =
  qi_format :: qi_format
  qi_width :: int
  qi_height :: int
  qi_stride :: int
  qi_bytes :: "8 word list"
  qi_colors :: "u32 list"

text \<open>A pixmap holds an image and may have a mask.\<close>

datatype q_pixmap = NullPixmap | Pixmap qt_image "qt_image option"

fun pixmap_size :: "q_pixmap \<Rightarrow> int \<times> int" where
  "pixmap_size NullPixmap = (0, 0)"
| "pixmap_size (Pixmap im m) = (qi_width im, qi_height im)"

definition of_image :: "qt_image option \<Rightarrow> q_pixmap" where
  "of_image im = (case im of None \<Rightarrow> NullPixmap | Some i \<Rightarrow> Pixmap i None)"

text \<open>
  What the server and Qt are asked: the size of a drawable and its image (depth and data, a multiple of four bytes),
  the byte order, the ratio of pixels; the scaling of images, the image of a pixmap, the conversion to two
  colours, the icons of the theme with their pixmaps, and texts in lower case.
\<close>

record image_env =
  ie_geometry :: "u32 \<Rightarrow> (nat \<times> nat) option"
  ie_image :: "u32 \<Rightarrow> (nat \<times> 8 word list) option"
  ie_lsb :: bool
  ie_ratio :: real
  ie_scaled :: "int \<Rightarrow> int \<Rightarrow> qt_image \<Rightarrow> qt_image option"
  ie_toImage :: "qt_image \<Rightarrow> qt_image option \<Rightarrow> qt_image"
  ie_bitmap :: "qt_image \<Rightarrow> qt_image"
  ie_theme :: "qstring \<Rightarrow> (int \<Rightarrow> q_pixmap) option"
  ie_lower :: "qstring \<Rightarrow> qstring"

section \<open>From the server\<close>

definition qRgba :: "u32 \<Rightarrow> u32 \<Rightarrow> u32 \<Rightarrow> u32 \<Rightarrow> u32" where
  "qRgba r g b a = (push_bit 24 (a AND 0xff)) OR (push_bit 16 (r AND 0xff)) OR (push_bit 8 (g AND 0xff)) OR (b AND 0xff)"

text \<open>A pixel with ten bits for each colour, as one with eight.\<close>

definition deep_pixel :: "u32 \<Rightarrow> u32" where
  "deep_pixel p = qRgba (drop_bit 22 p AND 0xff) (drop_bit 12 p AND 0xff) (drop_bit 2 p AND 0xff) 0xff"

definition word_of_bytes :: "8 word \<Rightarrow> 8 word \<Rightarrow> 8 word \<Rightarrow> 8 word \<Rightarrow> u32" where
  "word_of_bytes a b c d = ucast a OR push_bit 8 (ucast b) OR push_bit 16 (ucast c) OR push_bit 24 (ucast d)"

definition bytes_of_word :: "u32 \<Rightarrow> 8 word list" where
  "bytes_of_word w = [ucast w, ucast (drop_bit 8 w), ucast (drop_bit 16 w), ucast (drop_bit 24 w)]"

fun deep_pixels :: "8 word list \<Rightarrow> 8 word list" where
  "deep_pixels (a # b # c # d # bs) = bytes_of_word (deep_pixel (word_of_bytes a b c d)) @ deep_pixels bs"
| "deep_pixels bs = bs"

definition image_of_depth :: "nat \<Rightarrow> 8 word list \<Rightarrow> (qi_format \<times> 8 word list) option" where
  "image_of_depth depth data =
     (if depth = 1 then Some (FormatMonoLSB, data)
      else if depth = 16 then Some (FormatRGB16, data)
      else if depth = 24 then Some (FormatRGB32, data)
      else if depth = 30 then Some (FormatARGB32_Premultiplied, deep_pixels data)
      else if depth = 32 then Some (FormatARGB32_Premultiplied, data)
      else None)"

fun bits_per_pixel :: "qi_format \<Rightarrow> int" where
  "bits_per_pixel FormatMonoLSB = 1"
| "bits_per_pixel FormatRGB16 = 16"
| "bits_per_pixel _ = 32"

text \<open>The constructor of an image over given data, null for a size that is not positive or lines that are too short.\<close>

definition new_qt_image :: "8 word list \<Rightarrow> int \<Rightarrow> int \<Rightarrow> int \<Rightarrow> qi_format \<Rightarrow> qt_image option" where
  "new_qt_image data w h stride f =
     (if w \<le> 0 \<or> h \<le> 0 \<or> stride < (w * bits_per_pixel f + 7) div 8 then None
      else Some \<lparr>qi_format = f, qi_width = w, qi_height = h, qi_stride = stride, qi_bytes = data, qi_colors = []\<rparr>)"

definition fromNative :: "image_env \<Rightarrow> u32 \<Rightarrow> qt_image option" where
  "fromNative E pixmap =
     (case ie_geometry E pixmap of None \<Rightarrow> None
      | Some (w, h) \<Rightarrow>
          (case ie_image E pixmap of None \<Rightarrow> None
           | Some (depth, data) \<Rightarrow>
               (case image_of_depth depth data of None \<Rightarrow> None
                | Some (f, bytes) \<Rightarrow>
                    (case new_qt_image bytes (int w) (int h) (int (length bytes) div int h) f of None \<Rightarrow> None
                     | Some im \<Rightarrow> Some (if f = FormatMonoLSB then im\<lparr>qi_colors := [0xffffffff, 0xff000000]\<rparr> else im)))))"

text \<open>With a mask, whose size must be that of the pixmap; \<open>mask_of\<close> is the bitmap made of its image.\<close>

definition mask_of :: "image_env \<Rightarrow> u32 \<Rightarrow> qt_image option" where
  "mask_of E pixmap = map_option (ie_bitmap E) (fromNative E pixmap)"

definition createPixmapFromHandle :: "image_env \<Rightarrow> u32 \<Rightarrow> u32 \<Rightarrow> q_pixmap" where
  "createPixmapFromHandle E pixmap pixmap_mask =
     (if \<not> ie_lsb E then NullPixmap
      else let pix = of_image (fromNative E pixmap)
        in if pixmap_mask = 0 then pix
           else let mask = mask_of E pixmap_mask
             in if pixmap_size (of_image mask) \<noteq> pixmap_size pix then NullPixmap
                else (case pix of NullPixmap \<Rightarrow> NullPixmap | Pixmap im m \<Rightarrow> Pixmap im mask))"

section \<open>The icon of a window\<close>

text \<open>The pixmap of the theme that fits the width.\<close>

definition icon_width :: "int \<Rightarrow> int" where
  "icon_width width =
     (if width < 24 then 16 else if width < 40 then 32 else if width < 56 then 48 else if width < 96 then 64
      else if width < 192 then 128 else 256)"

definition word_image :: "int \<Rightarrow> int \<Rightarrow> u32 list \<Rightarrow> qt_image option" where
  "word_image w h ws = new_qt_image (concat (map bytes_of_word ws)) w h (4 * w) FormatARGB32"

definition scaled_pixmap :: "image_env \<Rightarrow> int \<Rightarrow> int \<Rightarrow> q_pixmap \<Rightarrow> q_pixmap" where
  "scaled_pixmap E w h p = (case p of NullPixmap \<Rightarrow> NullPixmap | Pixmap im m \<Rightarrow> of_image (ie_scaled E w h (ie_toImage E im m)))"

text \<open>Icons the window has itself; nothing means that there is none and the next source is asked.\<close>

definition own_image :: "image_env \<Rightarrow> int \<Rightarrow> int \<Rightarrow> bool \<Rightarrow> int \<Rightarrow> int \<Rightarrow> u32 list \<Rightarrow> q_pixmap" where
  "own_image E width height scale w h d =
     of_image (case word_image w h d of
         None \<Rightarrow> None
       | Some img \<Rightarrow> if scale \<and> 0 < width \<and> 0 < height \<and> (w, h) \<noteq> (width, height) then ie_scaled E width height img else Some img)"

definition own_icon :: "image_env \<Rightarrow> int \<Rightarrow> int \<Rightarrow> bool \<Rightarrow> win_info \<Rightarrow> q_pixmap option" where
  "own_icon E width height scale p =
     (let ni = icon p (word_of_int width) (word_of_int height); w = sint (sz_width (icon_size ni)); h = sint (sz_height (icon_size ni))
      in case icon_data ni of
           None \<Rightarrow> None
         | Some d \<Rightarrow>
             if 0 < w \<and> 0 < h
             then Some (own_image E width height scale w h d)
             else None)"

definition hint_icon :: "image_env \<Rightarrow> int \<Rightarrow> int \<Rightarrow> bool \<Rightarrow> win_info \<Rightarrow> q_pixmap" where
  "hint_icon E width height scale p =
     (if wi_icon_pixmap p = 0 then NullPixmap
      else let pm = createPixmapFromHandle E (wi_icon_pixmap p) (wi_icon_mask p)
        in if scale \<and> 0 < width \<and> 0 < height \<and> pm \<noteq> NullPixmap \<and> pixmap_size pm \<noteq> (width, height)
           then scaled_pixmap E width height pm else pm)"

definition theme_icon :: "image_env \<Rightarrow> int \<Rightarrow> int \<Rightarrow> bool \<Rightarrow> qstring \<Rightarrow> q_pixmap" where
  "theme_icon E width height scale name =
     (let pm = (case ie_theme E name of None \<Rightarrow> NullPixmap | Some pixmap \<Rightarrow> pixmap (icon_width width))
      in if scale \<and> pm \<noteq> NullPixmap then scaled_pixmap E width height pm else pm)"

datatype icon_source = SourceNETWM | SourceWMHints | SourceClassHint | SourceXApp

fun source_flag :: "icon_source \<Rightarrow> u32" where
  "source_flag SourceNETWM = 1"
| "source_flag SourceWMHints = 2"
| "source_flag SourceClassHint = 4"
| "source_flag SourceXApp = 8"

definition or_else :: "q_pixmap \<Rightarrow> q_pixmap \<Rightarrow> q_pixmap" where
  "or_else p q = (if p = NullPixmap then q else p)"

definition iconFromNetWinInfo ::
  "qt \<Rightarrow> image_env \<Rightarrow> int \<Rightarrow> int \<Rightarrow> bool \<Rightarrow> u32 \<Rightarrow> win_info option \<Rightarrow> q_pixmap" where
  "iconFromNetWinInfo Q E width height scale flags info = (case info of
       None \<Rightarrow> NullPixmap
     | Some p \<Rightarrow>
         (case (if hasf flags (source_flag SourceNETWM) then own_icon E width height scale p else None) of
            Some result \<Rightarrow> result
          | None \<Rightarrow>
              let result = (if hasf flags (source_flag SourceWMHints) then hint_icon E width height scale p else NullPixmap);
                  name = ie_lower E (fromUtf8 Q (case wi_class_class p of None \<Rightarrow> [] | Some c \<Rightarrow> c));
                  result = (if hasf flags (source_flag SourceClassHint)
                    then or_else result (theme_icon E width height scale name) else result)
              in if hasf flags (source_flag SourceXApp)
                 then or_else result (theme_icon E width height scale (qs ''xorg'')) else result))"

text \<open>The overloads; \<open>x11\<close> is what \<^verbatim>\<open>CHECK_X11\<close> asks. The one that may be given an object takes the ratio of pixels into
  account, and needs no X11 when it is given one.\<close>

definition icon_info :: "x_display \<Rightarrow> x_app \<Rightarrow> u32 \<Rightarrow> win_info" where
  "icon_info X A win = open_win X A win (prop_flag WMIcon) (prop2_flag WM2WindowClass OR prop2_flag WM2IconPixmap)"

definition extras_icon_flags ::
  "bool \<Rightarrow> qt \<Rightarrow> image_env \<Rightarrow> x_display \<Rightarrow> x_app \<Rightarrow> u32 \<Rightarrow> int \<Rightarrow> int \<Rightarrow> bool \<Rightarrow> u32 \<Rightarrow> q_pixmap" where
  "extras_icon_flags x11 Q E X A win width height scale flags =
     (if x11 then iconFromNetWinInfo Q E width height scale flags (Some (icon_info X A win)) else NullPixmap)"

definition extras_icon ::
  "bool \<Rightarrow> qt \<Rightarrow> image_env \<Rightarrow> x_display \<Rightarrow> x_app \<Rightarrow> u32 \<Rightarrow> int \<Rightarrow> int \<Rightarrow> bool \<Rightarrow> q_pixmap" where
  "extras_icon x11 Q E X A win width height scale =
     (if x11
      then extras_icon_flags x11 Q E X A win width height scale
        (or_all (map source_flag [SourceNETWM, SourceWMHints, SourceClassHint, SourceXApp]))
      else NullPixmap)"

definition in_pixels :: "image_env \<Rightarrow> int \<Rightarrow> int" where
  "in_pixels E n = (if n < 0 then \<lceil>of_int n * ie_ratio E\<rceil> else \<lfloor>of_int n * ie_ratio E\<rfloor>)"

definition extras_icon_info ::
  "bool \<Rightarrow> qt \<Rightarrow> image_env \<Rightarrow> x_display \<Rightarrow> x_app \<Rightarrow> u32 \<Rightarrow> int \<Rightarrow> int \<Rightarrow> bool \<Rightarrow> u32 \<Rightarrow> win_info option \<Rightarrow> q_pixmap" where
  "extras_icon_info x11 Q E X A win width height scale flags info =
     (case info of
        Some p \<Rightarrow> iconFromNetWinInfo Q E (in_pixels E width) (in_pixels E height) scale flags (Some p)
      | None \<Rightarrow>
          if x11
          then iconFromNetWinInfo Q E (in_pixels E width) (in_pixels E height) scale flags (Some (icon_info X A win))
          else NullPixmap)"

text \<open>
  The overload without an object reads the same window and does not know the ratio: they agree when one unit is one pixel.
\<close>

lemma icon_overloads_agree:
  "ie_ratio E = 1 \<Longrightarrow>
     extras_icon_info x11 Q E X A win width height scale flags None = extras_icon_flags x11 Q E X A win width height scale flags"
  by (simp add: extras_icon_info_def extras_icon_flags_def in_pixels_def)

lemma icon_ignores_the_ratio:
  "ie_ratio E = 2 \<Longrightarrow>
     extras_icon_info x11 Q E X A win width height scale flags None =
       extras_icon_flags x11 Q E X A win (2 * width) (2 * height) scale flags"
proof -
  assume ratio: "ie_ratio E = 2"
  have "in_pixels E n = 2 * n" for n
    using floor_of_int [of "2 * n", where 'a = real] ceiling_of_int [of "2 * n", where 'a = real]
    by (simp add: in_pixels_def ratio mult.commute)
  then show ?thesis by (simp add: extras_icon_info_def extras_icon_flags_def)
qed

section \<open>Pixels with ten bits for a colour\<close>

text \<open>What a pixel holds at a place of eight bits.\<close>

definition channel :: "nat \<Rightarrow> u32 \<Rightarrow> u32" where
  "channel n p = drop_bit n p AND 0xff"

lemma and_ff: "w AND 0xff = take_bit 8 w" for w :: u32
  unfolding take_bit_eq_mask by (simp add: mask_eq_exp_minus_1)

lemma bit_qRgba:
  "bit (qRgba r g b a) n \<longleftrightarrow> n < 32 \<and>
     (if n < 8 then bit b n else if n < 16 then bit g (n - 8) else if n < 24 then bit r (n - 16) else bit a (n - 24))"
  unfolding qRgba_def and_ff by (auto simp: bit_simps)

lemma channel_qRgba:
  "channel 24 (qRgba r g b a) = channel 0 a" "channel 16 (qRgba r g b a) = channel 0 r"
  "channel 8 (qRgba r g b a) = channel 0 g" "channel 0 (qRgba r g b a) = channel 0 b"
  unfolding channel_def and_ff by (rule bit_word_eqI, auto simp: bit_simps bit_qRgba)+

lemma channel_and: "channel 0 (drop_bit n p AND 0xff) = channel n p"
  unfolding channel_def and_ff by (rule bit_word_eqI) (auto simp: bit_simps)

lemma channel_opaque: "channel 0 0xff = 0xff"
  by (simp add: channel_def)

lemma length_deep_pixels: "length (deep_pixels bs) = length bs"
  by (induction bs rule: deep_pixels.induct) (simp_all add: bytes_of_word_def)

lemma word_bytes: "word_of_bytes (ucast w) (ucast (drop_bit 8 w)) (ucast (drop_bit 16 w)) (ucast (drop_bit 24 w)) = w"
proof (rule bit_word_eqI)
  fix n :: nat
  assume "n < LENGTH(32)"
  then consider "n < 8" | "8 \<le> n" "n < 16" | "16 \<le> n" "n < 24" | "24 \<le> n" "n < 32" by fastforce
  then show "bit (word_of_bytes (ucast w) (ucast (drop_bit 8 w)) (ucast (drop_bit 16 w)) (ucast (drop_bit 24 w))) n = bit w n"
    unfolding word_of_bytes_def by cases (simp add: bit_simps, (simp add: bit_simps, linarith)+)
qed

lemma deep_pixels_words: "deep_pixels (concat (map bytes_of_word ps)) = concat (map (bytes_of_word \<circ> deep_pixel) ps)"
  by (induction ps) (simp_all add: bytes_of_word_def word_bytes)

text \<open>
  A pixmap of depth 30 becomes an image whose pixels are opaque and have, for each colour, the eight high bits of the
  ten bits of the pixel in the same place; no byte is added or lost.
\<close>

theorem deep_pixmap_colours:
  assumes "ie_geometry E p = Some (w, h)" "ie_image E p = Some (30, concat (map bytes_of_word ps))" "0 < w" "0 < h"
    and "length ps = w * h"
  shows "\<exists>im. fromNative E p = Some im \<and> qi_width im = int w \<and> qi_height im = int h \<and> qi_stride im = 4 * int w \<and>
    qi_bytes im = concat (map (bytes_of_word \<circ> deep_pixel) ps) \<and>
    (\<forall>x\<in>set ps. channel 24 (deep_pixel x) = 0xff \<and> channel 16 (deep_pixel x) = channel 22 x \<and>
       channel 8 (deep_pixel x) = channel 12 x \<and> channel 0 (deep_pixel x) = channel 2 x)"
proof -
  have "length (concat (map (bytes_of_word \<circ> deep_pixel) ps)) = 4 * length ps"
    by (induction ps) (simp_all add: bytes_of_word_def)
  then have "int (length (concat (map (bytes_of_word \<circ> deep_pixel) ps))) div int h = 4 * int w"
    using assms(4,5) by simp
  moreover have "(int w * 32 + 7) div 8 = 4 * int w" by simp
  ultimately show ?thesis
    using assms(1-4) channel_and unfolding deep_pixel_def channel_qRgba
    by (simp add: fromNative_def image_of_depth_def deep_pixels_words new_qt_image_def deep_pixel_def [abs_def] comp_def channel_opaque)
qed

definition demo_images :: image_env where
  "demo_images = \<lparr>ie_geometry = (\<lambda>p. Some (1, 1)), ie_image = (\<lambda>p. Some (30, bytes_of_word 0x3ff00000)), ie_lsb = True, ie_ratio = 1,
     ie_scaled = (\<lambda>w h im. if 0 < w \<and> 0 < h then Some (im\<lparr>qi_width := w, qi_height := h\<rparr>) else None),
     ie_toImage = (\<lambda>im m. im), ie_bitmap = (\<lambda>im. im),
     ie_theme = (\<lambda>n. if n = qs ''xorg'' then Some (\<lambda>w. Pixmap \<lparr>qi_format = FormatARGB32, qi_width = w, qi_height = w, qi_stride = 4 * w,
       qi_bytes = [], qi_colors = []\<rparr> None) else None), ie_lower = (\<lambda>s. s)\<rparr>"

theorem deep_pixmap_colours_witness:
  "map_option qi_width (fromNative demo_images 5) = Some 1 \<and> channel 16 (deep_pixel 0x3ff00000) = channel 22 0x3ff00000"
  using deep_pixmap_colours [of demo_images 5 1 1 "[0x3ff00000]"] by (auto simp: demo_images_def)

section \<open>The size of an icon\<close>

text \<open>What is documented of Qt: an image is scaled to exactly the size that is asked for, if that is not empty, and the image of
  a pixmap has its size.\<close>

definition scales :: "image_env \<Rightarrow> bool" where
  "scales E \<longleftrightarrow> (\<forall>w h im. if 0 < w \<and> 0 < h then \<exists>im'. ie_scaled E w h im = Some im' \<and> qi_width im' = w \<and> qi_height im' = h
       else ie_scaled E w h im = None) \<and>
     (\<forall>im m. qi_width (ie_toImage E im m) = qi_width im \<and> qi_height (ie_toImage E im m) = qi_height im)"

definition has_size :: "int \<Rightarrow> int \<Rightarrow> q_pixmap \<Rightarrow> bool" where
  "has_size w h p \<longleftrightarrow> p = NullPixmap \<or> pixmap_size p = (w, h)"

lemma has_size_or_else: "has_size w h p \<Longrightarrow> has_size w h q \<Longrightarrow> has_size w h (or_else p q)"
  by (simp add: or_else_def)

lemma has_size_null [simp]: "has_size w h NullPixmap"
  by (simp add: has_size_def)

lemma scaled_size:
  assumes "scales E" "0 < w" "0 < h"
  shows "has_size w h (of_image (ie_scaled E w h im))" "has_size w h (scaled_pixmap E w h p)"
proof -
  show *: "has_size w h (of_image (ie_scaled E w h im))" for im
    using assms unfolding scales_def by (metis has_size_def of_image_def option.simps(5) pixmap_size.simps(2))
  show "has_size w h (scaled_pixmap E w h p)" using * by (cases p) (simp_all add: scaled_pixmap_def)
qed

lemma own_icon_size:
  assumes "scales E" "0 < w" "0 < h" "own_icon E w h True p = Some r"
  shows "has_size w h r"
proof -
  have "has_size w h (own_image E w h True w' h' d)" for w' h' d
  proof (cases "word_image w' h' d")
    case (Some img)
    then have "qi_width img = w' \<and> qi_height img = h'" by (auto simp: word_image_def new_qt_image_def split: if_splits)
    then show ?thesis using Some assms(2,3) scaled_size(1) [OF assms(1-3), of img]
      by (auto simp: own_image_def has_size_def of_image_def)
  qed (simp add: own_image_def of_image_def)
  then show ?thesis using assms(4) by (auto simp: own_icon_def Let_def split: option.splits if_splits)
qed

lemma source_icon_size:
  assumes "scales E" "0 < w" "0 < h"
  shows "has_size w h (hint_icon E w h True p)" "has_size w h (theme_icon E w h True name)"
  using assms scaled_size(2) [OF assms]
  by (auto simp: hint_icon_def theme_icon_def Let_def) (simp_all add: has_size_def)

text \<open>
  An icon that is asked for with scaling and a size has exactly that size, whatever source it is taken from; or there is
  none.
\<close>

theorem scaled_icon_has_the_size:
  assumes "scales E" "0 < w" "0 < h"
  shows "iconFromNetWinInfo Q E w h True flags info = NullPixmap \<or>
    pixmap_size (iconFromNetWinInfo Q E w h True flags info) = (w, h)"
proof -
  have "has_size w h (iconFromNetWinInfo Q E w h True flags info)"
    using source_icon_size [OF assms] own_icon_size [OF assms]
    by (auto simp: iconFromNetWinInfo_def Let_def intro!: has_size_or_else split: option.split if_splits)
  then show ?thesis by (simp add: has_size_def)
qed

lemma demo_scales: "scales demo_images"
  by (simp add: scales_def demo_images_def)

theorem scaled_icon_has_the_size_witness:
  "\<forall>Q p. pixmap_size (iconFromNetWinInfo Q demo_images 40 30 True (source_flag SourceXApp) (Some p)) = (40, 30)"
proof (intro allI)
  fix Q p
  have "iconFromNetWinInfo Q demo_images 40 30 True (source_flag SourceXApp) (Some p) \<noteq> NullPixmap"
    by (simp add: iconFromNetWinInfo_def hasf_def or_else_def theme_icon_def scaled_pixmap_def demo_images_def of_image_def Let_def
        del: qs_simps(2))
  then show "pixmap_size (iconFromNetWinInfo Q demo_images 40 30 True (source_flag SourceXApp) (Some p)) = (40, 30)"
    using scaled_icon_has_the_size [OF demo_scales, of 40 30 Q "source_flag SourceXApp" "Some p"] by simp
qed

text \<open>
  An icon that is asked for with scaling but without a size, which the documentation allows, is never taken from the theme:
  the pixmap is scaled to an empty size, which gives none. Without scaling the icon of the theme is found.
\<close>

theorem theme_icon_lost:
  assumes "scales E" "ie_theme E (qs ''xorg'') = Some pixmap" "pixmap 16 \<noteq> NullPixmap"
  shows "iconFromNetWinInfo Q E (- 1) (- 1) True (source_flag SourceXApp) (Some p) = NullPixmap \<and>
    iconFromNetWinInfo Q E (- 1) (- 1) False (source_flag SourceXApp) (Some p) = pixmap 16"
proof -
  have "scaled_pixmap E (- 1) (- 1) r = NullPixmap" for r
  proof (cases r)
    case (Pixmap im m)
    have "\<not> (0 < (- 1 :: int) \<and> 0 < (- 1 :: int))" by simp
    then have "ie_scaled E (- 1) (- 1) (ie_toImage E im m) = None" using assms(1) unfolding scales_def by presburger
    then show ?thesis by (simp add: Pixmap scaled_pixmap_def of_image_def)
  qed (simp add: scaled_pixmap_def)
  then show ?thesis
    using assms(2,3)
    by (simp add: iconFromNetWinInfo_def hasf_def or_else_def theme_icon_def icon_width_def Let_def del: qs_simps(2))
qed

theorem theme_icon_lost_witness:
  "\<forall>Q p. iconFromNetWinInfo Q demo_images (- 1) (- 1) True (source_flag SourceXApp) (Some p) = NullPixmap"
  using theme_icon_lost [OF demo_scales, of "\<lambda>w. Pixmap \<lparr>qi_format = FormatARGB32, qi_width = w, qi_height = w, qi_stride = 4 * w,
       qi_bytes = [], qi_colors = []\<rparr> None"] by (simp add: demo_images_def del: qs_simps(2))

end
