(* ===== verification/DisplayGeometry.thy ===== *)
theory DisplayGeometry
  imports Complex_Main
begin

text \<open>
  The geometry of the display in device pixels (\<^verbatim>\<open>displayGeometry\<close> of kx11extras.cpp): the rectangle around all screens,
  kept until a signal of Qt says that it has changed.
\<close>

section \<open>Screens and the rectangle around them\<close>

text \<open>A rectangle is its position and its size; the geometry of a screen is in units of which \<open>sc_ratio\<close> pixels make one.\<close>

record screen =
  sc_x :: int
  sc_y :: int
  sc_width :: int
  sc_height :: int
  sc_ratio :: real

type_synonym dg_rect = "int \<times> int \<times> int \<times> int"

text \<open>\<^verbatim>\<open>QSize::operator*\<close> rounds to the nearest number.\<close>

definition pixel_rect :: "screen \<Rightarrow> dg_rect" where
  "pixel_rect sc = (sc_x sc, sc_y sc, \<lfloor>of_int (sc_width sc) * sc_ratio sc + 1 / 2\<rfloor>, \<lfloor>of_int (sc_height sc) * sc_ratio sc + 1 / 2\<rfloor>)"

definition dg_empty :: "dg_rect \<Rightarrow> bool" where
  "dg_empty r = (case r of (x, y, w, h) \<Rightarrow> w \<le> 0 \<or> h \<le> 0)"

text \<open>The union of a rectangle with another in a region, as far as its bounds go.\<close>

definition around :: "dg_rect \<Rightarrow> dg_rect \<Rightarrow> dg_rect" where
  "around r q =
     (if dg_empty q then r else if dg_empty r then q
      else case (r, q) of ((x, y, w, h), (u, v, k, l)) \<Rightarrow>
        (min x u, min y v, max (x + w) (u + k) - min x u, max (y + h) (v + l) - min y v))"

definition bounding_rect :: "screen list \<Rightarrow> dg_rect" where
  "bounding_rect screens = fold (\<lambda>sc r. around r (pixel_rect sc)) screens (0, 0, 0, 0)"

section \<open>The cache\<close>

text \<open>
  The static variables: the rectangle, whether it must be computed anew, and the connections to screens (by number), which
  are taken back with the first signal.  \<open>dc_app\<close> counts the connections to the application, which are not kept.
\<close>

record display_cache =
  dc_rect :: dg_rect
  dc_dirty :: bool
  dc_connected :: "nat list"
  dc_app :: nat

definition new_display_cache :: display_cache where
  "new_display_cache = \<lparr>dc_rect = (0, 0, 0, 0), dc_dirty = True, dc_connected = [], dc_app = 0\<rparr>"

definition displayGeometry :: "(nat \<times> screen) list \<Rightarrow> display_cache \<Rightarrow> dg_rect \<times> display_cache" where
  "displayGeometry screens c =
     (if dc_dirty c
      then (bounding_rect (map snd screens),
            c\<lparr>dc_rect := bounding_rect (map snd screens), dc_dirty := False, dc_connected := dc_connected c @ map fst screens,
              dc_app := dc_app c + 2\<rparr>)
      else (dc_rect c, c))"

definition displayWidth :: "(nat \<times> screen) list \<Rightarrow> display_cache \<Rightarrow> int" where
  "displayWidth screens c = (case fst (displayGeometry screens c) of (x, y, w, h) \<Rightarrow> w)"

definition displayHeight :: "(nat \<times> screen) list \<Rightarrow> display_cache \<Rightarrow> int" where
  "displayHeight screens c = (case fst (displayGeometry screens c) of (x, y, w, h) \<Rightarrow> h)"

definition dirtify :: "display_cache \<Rightarrow> display_cache" where
  "dirtify c = c\<lparr>dc_dirty := True, dc_connected := []\<rparr>"

text \<open>Signals reach the cache through the connections there are.\<close>

definition on_geometryChanged :: "nat \<Rightarrow> display_cache \<Rightarrow> display_cache" where
  "on_geometryChanged i c = (if i \<in> set (dc_connected c) then dirtify c else c)"

definition on_screens_changed :: "display_cache \<Rightarrow> display_cache" where
  "on_screens_changed c = (if 0 < dc_app c then dirtify c else c)"

section \<open>Runs\<close>

text \<open>
  Questions, and changes with the signals Qt sends for them.  A change of the ratio of a screen whose geometry stays has no
  signal the cache listens to; it is a step only if \<open>ratio\<close> is true.
\<close>

inductive dg_step :: "bool \<Rightarrow> (nat \<times> screen) list \<times> display_cache \<Rightarrow> (nat \<times> screen) list \<times> display_cache \<Rightarrow> bool" for ratio where
  dg_ask: "dg_step ratio (S, c) (S, snd (displayGeometry S c))"
| dg_geometry: "i < length S \<Longrightarrow> dg_step ratio (S, c) (S[i := (fst (S ! i), sc)], on_geometryChanged (fst (S ! i)) c)"
| dg_added: "n \<notin> fst ` set S \<Longrightarrow> dg_step ratio (S, c) (S @ [(n, sc)], on_screens_changed c)"
| dg_removed: "dg_step ratio (S, c) (filter (\<lambda>(n, sc). n \<noteq> m) S, on_screens_changed c)"
| dg_ratio: "ratio \<Longrightarrow> i < length S \<Longrightarrow> dg_step ratio (S, c) (S[i := (fst (S ! i), snd (S ! i)\<lparr>sc_ratio := d\<rparr>)], c)"

inductive dg_reachable :: "bool \<Rightarrow> (nat \<times> screen) list \<times> display_cache \<Rightarrow> bool" for ratio where
  dg_start: "dg_reachable ratio (S, new_display_cache)"
| dg_next: "dg_reachable ratio x \<Longrightarrow> dg_step ratio x y \<Longrightarrow> dg_reachable ratio y"

definition cache_ok :: "(nat \<times> screen) list \<Rightarrow> display_cache \<Rightarrow> bool" where
  "cache_ok S c \<longleftrightarrow> (dc_dirty c \<longrightarrow> dc_connected c = []) \<and>
     (\<not> dc_dirty c \<longrightarrow> dc_rect c = bounding_rect (map snd S) \<and> dc_connected c = map fst S \<and> 0 < dc_app c)"

lemma cache_ok_step: "dg_step False x y \<Longrightarrow> cache_ok (fst x) (snd x) \<Longrightarrow> cache_ok (fst y) (snd y)"
  by (induction rule: dg_step.induct)
    (auto simp: cache_ok_def displayGeometry_def on_geometryChanged_def on_screens_changed_def dirtify_def)

lemma cache_ok_reachable: "dg_reachable False x \<Longrightarrow> cache_ok (fst x) (snd x)"
  by (induction rule: dg_reachable.induct) (simp add: cache_ok_def new_display_cache_def, rule cache_ok_step)

text \<open>
  As long as screens change their ratio only together with their geometry, the kept rectangle is right whenever it is asked
  for: it is the one around the screens there are, whatever screens were changed, added and removed before.
\<close>

theorem display_geometry_current:
  assumes "dg_reachable False (S, c)"
  shows "fst (displayGeometry S c) = bounding_rect (map snd S)"
  using cache_ok_reachable [OF assms] by (simp add: displayGeometry_def cache_ok_def)

definition demo_screen :: "int \<Rightarrow> screen" where
  "demo_screen x = \<lparr>sc_x = x, sc_y = 0, sc_width = 100, sc_height = 50, sc_ratio = 2\<rparr>"

theorem display_geometry_current_witness:
  "fst (displayGeometry [(7, demo_screen 0), (8, demo_screen 200)]
     (on_screens_changed (snd (displayGeometry [(7, demo_screen 0)] new_display_cache)))) = (0, 0, 400, 100)"
proof -
  let ?c = "snd (displayGeometry [(7, demo_screen 0)] new_display_cache)"
  have "dg_reachable False ([(7, demo_screen 0)], new_display_cache)" by (rule dg_start)
  then have "dg_reachable False ([(7, demo_screen 0)], ?c)" by (rule dg_next) (rule dg_ask)
  then have "dg_reachable False ([(7, demo_screen 0)] @ [(8, demo_screen 200)], on_screens_changed ?c)"
    by (rule dg_next) (rule dg_added, simp)
  then show ?thesis
    using display_geometry_current [of "[(7, demo_screen 0), (8, demo_screen 200)]" "on_screens_changed ?c"]
    by (simp add: bounding_rect_def around_def dg_empty_def pixel_rect_def demo_screen_def)
qed

text \<open>A change of the ratio alone is not noticed; and each time the rectangle is computed two more connections are made.\<close>

lemma ratio_unnoticed:
  "fst (displayGeometry [(7, (demo_screen 0)\<lparr>sc_ratio := 1\<rparr>)] (snd (displayGeometry [(7, demo_screen 0)] new_display_cache))) = (0, 0, 200, 100)"
  by (simp add: displayGeometry_def new_display_cache_def bounding_rect_def around_def dg_empty_def pixel_rect_def demo_screen_def)

lemma connections_pile_up:
  "dc_app (((\<lambda>c. on_screens_changed (snd (displayGeometry S c))) ^^ k) new_display_cache) = 2 * k"
proof -
  let ?f = "\<lambda>c. on_screens_changed (snd (displayGeometry S c))"
  have "dc_dirty ((?f ^^ k) new_display_cache) \<and> dc_app ((?f ^^ k) new_display_cache) = 2 * k"
    by (induction k) (simp_all add: new_display_cache_def on_screens_changed_def displayGeometry_def dirtify_def)
  then show ?thesis by simp
qed

end
