(* ===== verification/Opacity.thy ===== *)
theory Opacity
  imports WinInfo Complex_Main
begin

text \<open>
  The opacity of a window as a real number between zero and one (\<^verbatim>\<open>NETWinInfo::setOpacityF\<close> and \<^verbatim>\<open>opacityF\<close> of netwm.cpp).
  Values of type \<^verbatim>\<open>double\<close> are taken as exact; of a negative opacity the code
  makes no defined number.
\<close>

definition setOpacityF :: "atom_env \<Rightarrow> win_info \<Rightarrow> real \<Rightarrow> win_step" where
  "setOpacityF atoms p opacity = setOpacity atoms p (word_of_int \<lfloor>opacity * 0xffffffff\<rfloor>)"

definition opacityF :: "win_info \<Rightarrow> real" where
  "opacityF p = (if wi_opacity p = 0xffffffff then 1 else of_int (uint (wi_opacity p)) * 1 / 0xffffffff)"

text \<open>The word an opacity is kept as.\<close>

lemma opacity_word:
  fixes x :: real
  assumes "0 \<le> x" "x \<le> 1"
  shows "uint (word_of_int \<lfloor>x * 0xffffffff\<rfloor> :: 64 word) = \<lfloor>x * 0xffffffff\<rfloor>" "0 \<le> \<lfloor>x * 0xffffffff\<rfloor>" "\<lfloor>x * 0xffffffff\<rfloor> \<le> 0xffffffff"
proof -
  show 0: "0 \<le> \<lfloor>x * 0xffffffff\<rfloor>" using assms(1) by simp
  have "x * 0xffffffff \<le> 0xffffffff" using assms(2) by simp
  then show 1: "\<lfloor>x * 0xffffffff\<rfloor> \<le> 0xffffffff" by linarith
  show "uint (word_of_int \<lfloor>x * 0xffffffff\<rfloor> :: 64 word) = \<lfloor>x * 0xffffffff\<rfloor>"
    using 0 1 by (simp add: uint_word_of_int)
qed

text \<open>
  An opacity between zero and one is given back less than one step of the property lower, never higher; no opacity and full
  opacity are given back as they are; and the low half of the word, which is all the property holds, is the whole value.
\<close>

theorem opacity_roundtrip:
  assumes "0 \<le> x" "x \<le> 1"
  shows "opacityF (fst (setOpacityF atoms p x)) \<le> x \<and> x < opacityF (fst (setOpacityF atoms p x)) + 1 / 0xffffffff \<and>
    (x \<in> {0, 1} \<longrightarrow> opacityF (fst (setOpacityF atoms p x)) = x) \<and>
    take_bit 32 (wi_opacity (fst (setOpacityF atoms p x))) = wi_opacity (fst (setOpacityF atoms p x))"
proof -
  let ?n = "\<lfloor>x * 0xffffffff\<rfloor>"
  note w = opacity_word [OF assms]
  have opacity: "wi_opacity (fst (setOpacityF atoms p x)) = word_of_int ?n" by (simp add: setOpacityF_def setOpacity_def)
  have given: "opacityF (fst (setOpacityF atoms p x)) = of_int ?n / 0xffffffff"
  proof (cases "?n = 0xffffffff")
    case False
    have "uint (0xffffffff :: 64 word) = 0xffffffff" by simp
    with False have "(word_of_int ?n :: 64 word) \<noteq> 0xffffffff" using w(1) by metis
    then show ?thesis by (simp add: opacityF_def opacity w(1))
  qed (simp add: opacityF_def opacity)
  have bounds: "of_int ?n \<le> x * 0xffffffff" "x * 0xffffffff < of_int ?n + 1" by linarith+
  have fits: "take_bit 32 (word_of_int ?n :: 64 word) = word_of_int ?n"
    using w by (intro word_uint_eqI) (simp only: unsigned_take_bit_eq w(1), simp add: take_bit_int_eq_self)
  have "opacityF (fst (setOpacityF atoms p x)) \<le> x" "x < opacityF (fst (setOpacityF atoms p x)) + 1 / 0xffffffff"
    "x \<in> {0, 1} \<Longrightarrow> opacityF (fst (setOpacityF atoms p x)) = x"
    using bounds by (simp_all add: given field_simps) (elim disjE; simp)
  then show ?thesis using fits by (simp add: opacity)
qed

theorem opacity_roundtrip_witness:
  "\<forall>atoms p. opacityF (fst (setOpacityF atoms p (1 / 2))) \<le> 1 / 2 \<and>
     1 / 2 < opacityF (fst (setOpacityF atoms p (1 / 2))) + 1 / 0xffffffff"
proof (intro allI)
  fix atoms p
  show "opacityF (fst (setOpacityF atoms p (1 / 2))) \<le> 1 / 2 \<and>
     1 / 2 < opacityF (fst (setOpacityF atoms p (1 / 2))) + 1 / 0xffffffff"
    using opacity_roundtrip [of "1 / 2" atoms p] by simp
qed

end
