(* ===== verification/Spec2Isabelle.thy ===== *)
theory Spec2Isabelle
  imports RootProperties WinProperties Timestamps RefCount StartupProperties SelectionProperties
    KeyProperties WindowInfoProperties ShadowProperties ErrorHandler Effects StartupIds
    WlProperties WlShadowProperties WlSystemProperties PlatformProperties WlExtras EffectsOnPlatform
    Pixmaps DisplayGeometry Opacity
begin

text \<open>
  \<^bold>\<open>KWindowSystem\<close>

  The library gives programs access to the window manager, on X11 and on Wayland. On X11 it lets programs and window managers talk about windows through properties of
  windows and client messages, as the Extended Window Manager Hints fix them. Its core is in
  src/src/platforms/xcb/netwm.cpp: an object of \<^verbatim>\<open>NETRootInfo\<close> keeps what is known of the root
  window, an object of \<^verbatim>\<open>NETWinInfo\<close> what is known of one window. Each of them is used in one of
  two roles (\<^verbatim>\<open>Client\<close> or \<^verbatim>\<open>WindowManager\<close>); a setter writes a property when the role may, or sends
  a message to the window manager; \<^verbatim>\<open>event()\<close> turns messages into calls of virtual functions and
  property notifications into \<^verbatim>\<open>update()\<close>; \<^verbatim>\<open>update()\<close> sends all requests for the dirty properties
  and then decodes all replies. On top of it \<^verbatim>\<open>KX11Extras\<close> keeps the list of windows and work areas
  and answers questions, \<^verbatim>\<open>KWindowInfo\<close> reads single windows, and beside it stand the notification
  of startups (\<^verbatim>\<open>KStartupInfo\<close> over \<^verbatim>\<open>KXMessages\<close>), manager selections, the keys of the keyboard,
  shadows, effects and the handling of X errors. On Wayland (src/src/platforms/wayland) effects, shadows,
  activation, and windows that are exported and imported are requests to the compositor, made when a window has
  a surface to make them for. \<^verbatim>\<open>KWindowSystem\<close> finds the platform, loads its plugin and passes calls on. The
  development models these parts and proves that the sides that talk to each other understand each other.

  \<^bold>\<open>How the model is built\<close>

  An operation of the code is a function from the object (a record with the fields of
  \<^verbatim>\<open>NETRootInfoPrivate\<close>, \<^verbatim>\<open>NETWinInfoPrivate\<close> and so on) to the new object and the list of its effects
  in order: requests to the X server, signals, calls of virtual functions, and one effect for undefined
  behaviour. What is not code of the repository is a parameter: the X server, a function from property
  requests to optional replies; the numbers it gives to atoms; Qt (record \<open>qt\<close> with its conversions of
  texts); the numbers of keys and key symbols (\<open>key_env\<close>) and the keyboard (\<open>key_display\<close>); the display
  and the program (\<open>x_display\<close>, \<open>x_app\<close>, \<open>window_env\<close>, \<open>shadow_env\<close>, \<open>effects_env\<close>); on Wayland the managers the
  compositor offers, windows of the platform and their surfaces (\<open>wl_env\<close>, \<open>ws_env\<close>, \<open>xs_env\<close>), the system calls for
  shared memory (\<open>shm_system\<close>), and the plugins that are installed (\<open>plugin_host\<close>). The state of an object on Wayland holds
  what Qt keeps for it, too: connections, children, objects that wait for their deletion, timers and futures. What the
  properties rely on is stated by predicates: \<open>answers\<close> (the server answers with the property that was
  stored, cut to the asked length), \<open>atoms_ok\<close> (different atoms have different numbers), \<open>qt_ok\<close>,
  \<open>utf8_ascii\<close>, \<open>reads_numbers\<close> and \<open>folds_case\<close> (what Qt documents of its texts), \<open>key_numbers_ok\<close>,
  \<open>converts\<close> and \<open>system_works\<close> (images and system calls), \<open>stores_times\<close>; each is shown
  to hold of an instance by the witnesses. Machine integers are words of their width (\<^verbatim>\<open>u32\<close>, \<^verbatim>\<open>i32\<close>), read as
  signed where the code compares signed values; the geometry of viewports and rectangles of Qt are integers, where
  an overflow has no meaning in the source. A C string is an optional list of characters, the null pointer being
  \<^verbatim>\<open>None\<close>; a \<^verbatim>\<open>QString\<close> is a list of 16-bit code units.

  \<^bold>\<open>Theories and the code they model\<close>

  \<^item> Prelude: collections of rules, generic lemmas on lists, flags in words, optional values.
  \<^item> NetDefs: src/src/netwm_def.h; the enumerations with their values, the plain structures.
  \<^item> Atoms: atoms_p.h and class Atoms; the table of atoms, distinct names, \<^verbatim>\<open>Atoms::init\<close>.
  \<^item> Xcb, Pipeline: the decoding of replies (get_value_reply and so on), client messages, the
    array of cookies; the lemma that two passes with one counter are the same as direct reads.
  \<^item> RArray: \<^verbatim>\<open>NETRArray\<close> with capacity and zero-filled storage; the locale of growing arrays and its
    interpretation, refined to padded lists.
  \<^item> RootInfo, RootSupported, RootUpdate, RootEvent: \<^verbatim>\<open>NETRootInfo\<close>; setters and requests,
    \<^verbatim>\<open>_NET_SUPPORTED\<close>, \<^verbatim>\<open>update()\<close>, \<^verbatim>\<open>event()\<close>.
  \<^item> XServer: the contract of the server. RootProtocol, RootReach: what a writer publishes and
    a notified reader holds; reachable objects and their invariant.
  \<^item> WinInfo, WinIcons, WinTables, WinUpdate, WinState: \<^verbatim>\<open>NETWinInfo\<close>; setters, icons, the tables
    of states, actions, types and protocols, \<^verbatim>\<open>update()\<close>, \<^verbatim>\<open>setState\<close>, \<^verbatim>\<open>setDesktop\<close>, \<^verbatim>\<open>event()\<close>.
  \<^item> WinStateProtocol, WinProtocol, WinInvariant: a window manager that honours requests,
    published window properties, the invariant.
  \<^item> Timestamps: \<^verbatim>\<open>KXUtils::timestampCompare\<close>. RefCount: the handles of the shared private objects.
  \<^item> QtText: texts of Qt and what is documented of them. KXMessages: kxmessages.cpp, texts cut into client
    messages of twenty bytes and put together again.
  \<^item> StartupText, StartupInfo, StartupProtocol, StartupIds: kstartupinfo.cpp; the text form of
    startups and its parser, the three maps of startups in progress with their timer, what a listener
    knows of them, identifiers with their timestamp.
  \<^item> Selection, SelectionProtocol: kselectionowner.cpp and kselectionwatcher.cpp; the steps of a claim, the
    answers to requests, the watcher and its listener.
  \<^item> KeyTables, KeyServer: kkeyserver.cpp; the table of keys and symbols, modifier masks as the keyboard has them,
    and conversions in both directions.
  \<^item> Viewport: desktops as parts of one large desktop (kx11extras.cpp). ClientTracker, Tracker: its
    \<^verbatim>\<open>NETEventFilter\<close>, the windows that come and go, struts and work areas. Extras, ExtrasRun: \<^verbatim>\<open>KX11Extras\<close>
    itself, the object that makes and replaces the filter, questions and requests, and runs of them.
  \<^item> Pixmaps: kxutils.cpp and the icons of kx11extras.cpp; pixmaps of the server as images, the icon of a window from
    its four sources. DisplayGeometry: the cached rectangle around the screens (kx11extras.cpp).
  \<^item> Opacity: opacities of windows as real numbers (netwm.cpp).
  \<^item> WindowInfo: kwindowinfo.cpp, \<^verbatim>\<open>KWindowInfo\<close> with its fallbacks.
  \<^item> Shadow, ShadowInvariant, ShadowProtocol, ShadowRun, ShadowSteps: kwindowshadow.cpp for X11 and without a
    plugin; tiles that shadows share, the property of a window, and the invariant over all operations.
  \<^item> Effects: kwindoweffects.cpp for X11. ErrorHandler: kxerrorhandler.cpp, nested handlers of X errors and
    the lock they share.
  \<^item> WlEffects, WlTracking, WlObjects, WlAsked: windoweffects.cpp for Wayland; its operations and handlers, the windows
    that are watched, the objects that are kept for them, and what the requests set for a surface.
  \<^item> WlShm, WlShadow: shm.cpp and windowshadow.cpp for Wayland; buffers in shared memory, tiles, and the object of a shadow.
  \<^item> Futures: the contract of futures, a locale that WlSystem and WlExtras interpret.
  \<^item> WlSystem: windowsystem.cpp for Wayland with its protocol classes; tokens, exported and imported windows, tags.
  \<^item> Platform: kwindowsystem.cpp, pluginwrapper.cpp, the plugins and dummies, kwindoweffects.cpp, kusertimestamp.cpp; the
    choice of the platform and of the plugin, calls that are passed on, the time of the user.
  \<^item> WlExtras: kwaylandextras.cpp; questions about Wayland on any platform.
  \<^item> EffectsOnPlatform: \<^verbatim>\<open>KWindowEffects\<close> over the classes of the plugins, from the program to the compositor.
  \<^item> The theories named Properties (and the ends of Timestamps, RefCount, KXMessages, ErrorHandler, Effects,
    StartupIds, WlShm, WlExtras and EffectsOnPlatform): the properties of the program, with their witnesses.

  \<^bold>\<open>What the lemmas show\<close>

  The pipeline lemmas show that no reply is taken for another property. The protocol lemmas show that
  what one side writes is what the other side reads, that requests arrive with the values that were
  asked for, and that honouring them gives the wished state. The invariants hold for every object
  that any sequence of operations and events can produce: the objects of the hints, the maps of startups, claims of
  selections, the list of windows, the tiles of shadows with what the server holds for them, and on Wayland watched
  windows, objects for surfaces and futures. After an expose event the compositor has exactly what a program wants for
  its window. The objects of a program fit the platform it is told it runs on. Observers that
  replay signals refine the state they listen to (startups, selections, windows). The safety lemmas bound what a
  hostile client can do with icons and show that no window names pixmaps that are gone. Cached work areas are
  equal to ones read anew. Some properties state where the code does not do what it means to: filters that are
  replaced, struts of windows that move, the strip behind a large desktop, types of windows, icons of the theme
  that are asked for without a size, geometries that miss a change of the ratio of pixels, regions of blur with
  a fractional pixel ratio, nested error handlers, whose report never returns, effects that are set on a surface that
  is gone, main windows that are imported twice, and exports that are never answered.

  \<^bold>\<open>Bounds\<close>

  All functions are total: loops are recursion over lists, and \<^verbatim>\<open>readIcon\<close> recurses over the rest
  of the reply. Where the code waits for ever the value is \<^verbatim>\<open>None\<close> (a lock that is taken twice), and a division by
  a display without extent is \<^verbatim>\<open>None\<close>, too. Lengths of replies are bounded as in the code (\<^verbatim>\<open>MAX_PROP_SIZE\<close>,
  2048, and so on), and the round trips state that what is published fits. No fuel is used.

  \<^bold>\<open>Not modelled\<close>

  Debug output and warnings; ownership of memory beyond the reference counts and the pointers to tiles; how Qt
  scales images and makes bitmaps of them (parameters of Pixmaps); rounding of floating point numbers, which are taken
  as exact; \<^verbatim>\<open>unminimizeWindow\<close> and the thread the filter of \<^verbatim>\<open>KX11Extras\<close> is made in; the colour matrix of the contrast effect
  (floating point arithmetic of Qt, a parameter); on Wayland the generated protocol classes (their requests are
  values), the constructors and destructors of the singletons that wrap the managers, the end of the program (\<^verbatim>\<open>isQpaAlive\<close> is taken to be true), the deprecated
  \<^verbatim>\<open>exportWindow\<close>, and the additional creation of windows for old versions of Plasma.
\<close>

end
